(* ===== verification/Go_Prelude.thy ===== *)
theory Go_Prelude
  imports Main "HOL-Library.Sublist" "HOL-Library.AList"
begin

section \<open>Prelude: results, collections of facts and generic lemmas\<close>

text \<open>
  Shared vocabulary of the development. A fallible Go function \<^verbatim>\<open>(T, error)\<close> is a function
  into \<open>'e + 'a\<close>: \<open>Inl e\<close> is a non-nil error, \<open>Inr v\<close> the value. A Go map is a HOL
  map \<open>'k \<rightharpoonup> 'v\<close>; a slice is a list; an \<^verbatim>\<open>int\<close> whose overflow plays no role is an
  \<open>int\<close>; a string is the list of its bytes. The theory holds the named collections of
  facts the components declare their lemmas into and the lemmas on lists, options and maps
  that several components use.
\<close>

named_theorems go_simps \<open>unfolding lemmas of the modelled operations\<close>
named_theorems go_inv \<open>facts that an operation keeps an invariant\<close>
named_theorems go_str \<open>facts on the model of Go's string functions\<close>

type_synonym ('e, 'a) result = "'e + 'a"

text \<open>Go's \<^verbatim>\<open>int64\<close> range, used where a parser of numbers checks it.\<close>

abbreviation int64_min :: int where "int64_min \<equiv> - (2 ^ 63)"
abbreviation int64_max :: int where "int64_max \<equiv> 2 ^ 63 - 1"

subsection \<open>Results\<close>

definition is_ok :: "('e, 'a) result \<Rightarrow> bool" where
  "is_ok r = (case r of Inl _ \<Rightarrow> False | Inr _ \<Rightarrow> True)"

lemma is_ok_simps [simp]: "is_ok (Inl e) = False" "is_ok (Inr v) = True"
  by (simp_all add: is_ok_def)

lemma is_ok_iff: "is_ok r \<longleftrightarrow> (\<exists>v. r = Inr v)"
  by (cases r) simp_all

lemma ok_unit: "is_ok (fst x) \<Longrightarrow> x = (Inr (), snd x)"
  by (cases x) (auto simp: is_ok_def split: sum.splits)

lemma not_is_ok_iff: "\<not> is_ok r \<longleftrightarrow> (\<exists>e. r = Inl e)"
  by (cases r) simp_all

text \<open>The shapes an early return takes: a check that may yield an error, and a call whose error
  is passed on.\<close>

lemma check_then_Inr [go_simps]:
  "(case x of None \<Rightarrow> r | Some e \<Rightarrow> Inl e) = Inr v \<longleftrightarrow> x = None \<and> r = Inr v"
  by (cases x) auto

lemma check_then_None [go_simps]:
  "(case x of None \<Rightarrow> r | Some e \<Rightarrow> Some e) = None \<longleftrightarrow> x = None \<and> r = None"
  by (cases x) auto

lemma call_then_Inr [go_simps]:
  "(case r of Inl e \<Rightarrow> Inl (g e) | Inr v \<Rightarrow> f v) = Inr w \<longleftrightarrow> (\<exists>v. r = Inr v \<and> f v = Inr w)"
  by (cases r) auto

lemma call_then_None [go_simps]:
  "(case r of Inl e \<Rightarrow> Some (g e) | Inr v \<Rightarrow> f v) = None \<longleftrightarrow> (\<exists>v. r = Inr v \<and> f v = None)"
  by (cases r) auto

lemma guard_Inr [go_simps]: "(if b then Inl e else r) = Inr v \<longleftrightarrow> \<not> b \<and> r = Inr v"
  by auto

lemma guard_None [go_simps]: "(if b then Some e else r) = None \<longleftrightarrow> \<not> b \<and> r = None"
  by auto

subsection \<open>Steps on a state that may fail\<close>

text \<open>A method that reads and writes a state and returns a value or an error is a function
  \<open>'s \<Rightarrow> ('e, 'a) result \<times> 's\<close>. \<open>bindE\<close> is the sequence
  \<^verbatim>\<open>x, err := m(); if err != nil { return err }; k(x)\<close>: an error ends the method in the state it left.\<close>

type_synonym ('s, 'e, 'a) step = "'s \<Rightarrow> ('e, 'a) result \<times> 's"

definition bindE :: "('s, 'e, 'a) step \<Rightarrow> ('a \<Rightarrow> ('s, 'e, 'b) step) \<Rightarrow> ('s, 'e, 'b) step" where
  "bindE m k s = (case m s of (Inl e, s1) \<Rightarrow> (Inl e, s1) | (Inr a, s1) \<Rightarrow> k a s1)"

definition pureE :: "('e, 'a) result \<Rightarrow> ('s, 'e, 'a) step" where
  "pureE r s = (r, s)"

definition guardE :: "bool \<Rightarrow> 'e \<Rightarrow> ('s, 'e, unit) step" where
  "guardE b e s = (if b then Inl e else Inr (), s)"

definition getE :: "('s \<Rightarrow> 'a) \<Rightarrow> ('s, 'e, 'a) step" where
  "getE f s = (Inr (f s), s)"

text \<open>A call whose error is wrapped or replaced by the caller.\<close>

definition mapE :: "('e \<Rightarrow> 'f) \<Rightarrow> ('s, 'e, 'a) step \<Rightarrow> ('s, 'f, 'a) step" where
  "mapE g m s = (case m s of (Inl e, s1) \<Rightarrow> (Inl (g e), s1) | (Inr a, s1) \<Rightarrow> (Inr a, s1))"

text \<open>An optional value of a library call, with the error that stands for its failure.\<close>

definition orE :: "'a option \<Rightarrow> 'e \<Rightarrow> ('e, 'a) result" where
  "orE x e = (case x of None \<Rightarrow> Inl e | Some v \<Rightarrow> Inr v)"

named_theorems go_step \<open>inversion of the outcome of a sequence of steps\<close>

lemma bindE_Inr [go_step]:
  "bindE m k s = (Inr v, s') \<longleftrightarrow> (\<exists>a s1. m s = (Inr a, s1) \<and> k a s1 = (Inr v, s'))"
  by (auto simp: bindE_def split: prod.splits sum.splits)

lemma bindE_Inl [go_step]:
  "bindE m k s = (Inl e, s') \<longleftrightarrow> m s = (Inl e, s') \<or> (\<exists>a s1. m s = (Inr a, s1) \<and> k a s1 = (Inl e, s'))"
  by (auto simp: bindE_def split: prod.splits sum.splits)

lemma pureE_eq [go_step]: "pureE r s = (r', s') \<longleftrightarrow> r = r' \<and> s' = s"
  by (auto simp: pureE_def)

lemma guardE_Inr [go_step]: "guardE b e s = (Inr u, s') \<longleftrightarrow> \<not> b \<and> s' = s"
  by (auto simp: guardE_def)

lemma guardE_Inl [go_step]: "guardE b e s = (Inl e', s') \<longleftrightarrow> b \<and> e' = e \<and> s' = s"
  by (auto simp: guardE_def)

lemma getE_eq [go_step]: "getE f s = (r, s') \<longleftrightarrow> Inr (f s) = r \<and> s' = s"
  by (auto simp: getE_def)

lemma mapE_Inr [go_step]: "mapE g m s = (Inr v, s') \<longleftrightarrow> m s = (Inr v, s')"
  by (auto simp: mapE_def split: prod.splits sum.splits)

lemma mapE_Inl [go_step]: "mapE g m s = (Inl e, s') \<longleftrightarrow> (\<exists>d. m s = (Inl d, s') \<and> e = g d)"
  by (auto simp: mapE_def split: prod.splits sum.splits)

lemma orE_Inr [go_step]: "orE x e = Inr v \<longleftrightarrow> x = Some v"
  by (auto simp: orE_def split: option.splits)

lemma orE_Inl [go_step]: "orE x e = Inl e' \<longleftrightarrow> x = None \<and> e' = e"
  by (auto simp: orE_def split: option.splits)

text \<open>\<open>keepsE R m\<close>: whatever the outcome, the state before and after are related by \<open>R\<close>; with \<open>R\<close>
  reflexive and transitive it composes along a method's body.\<close>

definition keepsE :: "('s \<Rightarrow> 's \<Rightarrow> bool) \<Rightarrow> ('s, 'e, 'a) step \<Rightarrow> bool" where
  "keepsE R m = (\<forall>s r s'. m s = (r, s') \<longrightarrow> R s s')"

lemma keepsED: "keepsE R m \<Longrightarrow> m s = (r, s') \<Longrightarrow> R s s'"
  by (simp add: keepsE_def)

lemma keepsE_bind:
  assumes "transp R" "keepsE R m" "\<And>a. keepsE R (k a)"
  shows "keepsE R (bindE m k)"
  unfolding keepsE_def
proof (intro allI impI)
  fix s r s' assume b: "bindE m k s = (r, s')"
  obtain r1 s1 where m: "m s = (r1, s1)" by (metis surj_pair)
  have "R s s1" using assms(2) m by (rule keepsED)
  moreover have "r1 = Inr a \<Longrightarrow> R s1 s'" for a
    using b m keepsED [OF assms(3)] by (simp add: bindE_def)
  ultimately show "R s s'" using b m assms(1) by (cases r1) (auto simp: bindE_def dest: transpD)
qed

lemma keepsE_pure: "reflp R \<Longrightarrow> keepsE R (pureE r)"
  by (auto simp: keepsE_def pureE_def dest: reflpD)

lemma keepsE_guard: "reflp R \<Longrightarrow> keepsE R (guardE b e)"
  by (auto simp: keepsE_def guardE_def dest: reflpD)

lemma keepsE_get: "reflp R \<Longrightarrow> keepsE R (getE f)"
  by (auto simp: keepsE_def getE_def dest: reflpD)

lemma keepsE_map: "keepsE R m \<Longrightarrow> keepsE R (mapE g m)"
  by (auto simp: keepsE_def mapE_def split: prod.splits sum.splits)

subsection \<open>Lists with a key\<close>

lemma find_key_None: "List.find (\<lambda>x. k x = i) xs = None \<longleftrightarrow> i \<notin> k ` set xs"
  by (induction xs) auto

lemma find_key_Some:
  assumes "List.find (\<lambda>x. k x = i) xs = Some y"
  shows "y \<in> set xs" and "k y = i"
  using assms by (auto simp: find_Some_iff)

lemma find_SomeD: "List.find P xs = Some x \<Longrightarrow> x \<in> set xs \<and> P x"
  by (induction xs) (auto split: if_splits)

lemma find_key_ex: "i \<in> k ` set xs \<Longrightarrow> \<exists>y. List.find (\<lambda>x. k x = i) xs = Some y \<and> k y = i"
  by (induction xs) auto

lemma find_key_unique:
  "distinct (map k xs) \<Longrightarrow> x \<in> set xs \<Longrightarrow> List.find (\<lambda>y. k y = k x) xs = Some x"
  by (induction xs) (auto simp: image_iff)

lemma distinct_map_filter_key: "distinct (map k xs) \<Longrightarrow> distinct (map k (filter P xs))"
  by (induction xs) auto

lemma filter_key_absent: "i \<notin> k ` set xs \<Longrightarrow> filter (\<lambda>x. k x \<noteq> i) xs = xs"
  by (induction xs) auto

subsection \<open>Maps\<close>

text \<open>\<open>map_filter_val\<close> keeps the entries whose value passes a test, as a Go loop that copies a
  map entry by entry does.\<close>

definition map_filter_val :: "('v \<Rightarrow> bool) \<Rightarrow> ('k \<rightharpoonup> 'v) \<Rightarrow> ('k \<rightharpoonup> 'v)" where
  "map_filter_val P m = (\<lambda>k. case m k of None \<Rightarrow> None | Some v \<Rightarrow> if P v then Some v else None)"

lemma map_filter_val_Some: "map_filter_val P m k = Some v \<longleftrightarrow> m k = Some v \<and> P v"
  by (auto simp: map_filter_val_def split: option.splits)

lemma map_filter_val_None: "map_filter_val P m k = None \<longleftrightarrow> (\<forall>v. m k = Some v \<longrightarrow> \<not> P v)"
  by (auto simp: map_filter_val_def split: option.splits)

lemma ran_map_filter_val: "ran (map_filter_val P m) = {v \<in> ran m. P v}"
  by (auto simp: ran_def map_filter_val_Some)

lemma map_filter_val_id: "(\<And>v. v \<in> ran m \<Longrightarrow> P v) \<Longrightarrow> map_filter_val P m = m"
  by (rule ext) (auto simp: map_filter_val_def ran_def split: option.splits)

lemma dom_map_filter_val_subset: "dom (map_filter_val P m) \<subseteq> dom m"
  by (auto simp: map_filter_val_def dom_def split: option.splits if_splits)

end
