(* ===== verification/Go_Strings.thy ===== *)
theory Go_Strings
  imports Go_Prelude
begin

section \<open>Go strings: the parts of the packages strings, strconv and unicode that the code uses\<close>

text \<open>
  A Go string is the list of its bytes: a \<open>char\<close> of HOL has eight bits, so \<open>string\<close> is
  exactly a byte slice. The functions below are the ones the components call
  (\<^verbatim>\<open>strings.Split\<close>, \<^verbatim>\<open>strings.Cut\<close>, \<^verbatim>\<open>strings.TrimSpace\<close>, \<^verbatim>\<open>strings.Fields\<close>,
  \<^verbatim>\<open>strconv.Itoa\<close>, \<^verbatim>\<open>strconv.Atoi\<close>, ...), with the lemmas the components need: a
  join undoes a split, the pieces of a split have no separator, and \<^verbatim>\<open>Atoi\<close> undoes \<^verbatim>\<open>Itoa\<close>.
\<close>

subsection \<open>Bytes\<close>

definition byte_of :: "char \<Rightarrow> nat" where
  "byte_of c = of_char c"

lemma byte_of_less [simp]: "byte_of c < 256"
  by (simp add: byte_of_def)

lemma byte_of_char_of [simp]: "n < 256 \<Longrightarrow> byte_of (char_of n) = n"
  by (simp add: byte_of_def)

lemma byte_of_inj: "byte_of c = byte_of d \<longleftrightarrow> c = d"
  by (simp add: byte_of_def)

definition is_digit_c :: "char \<Rightarrow> bool" where
  "is_digit_c c = (48 \<le> byte_of c \<and> byte_of c \<le> 57)"

definition is_lower_c :: "char \<Rightarrow> bool" where
  "is_lower_c c = (97 \<le> byte_of c \<and> byte_of c \<le> 122)"

definition is_upper_c :: "char \<Rightarrow> bool" where
  "is_upper_c c = (65 \<le> byte_of c \<and> byte_of c \<le> 90)"

definition is_alnum_c :: "char \<Rightarrow> bool" where
  "is_alnum_c c = (is_digit_c c \<or> is_lower_c c \<or> is_upper_c c)"

abbreviation LF :: char where "LF \<equiv> CHR 0x0A"
abbreviation CR :: char where "CR \<equiv> CHR 0x0D"
abbreviation TAB :: char where "TAB \<equiv> CHR 0x09"
abbreviation NL :: string where "NL \<equiv> [LF]"
abbreviation DQ :: char where "DQ \<equiv> CHR 0x22"

text \<open>Text that is not ASCII, by its UTF-8 bytes.\<close>

definition u8 :: "nat list \<Rightarrow> string" where
  "u8 = map char_of"

subsection \<open>Prefixes\<close>

definition has_prefix :: "string \<Rightarrow> string \<Rightarrow> bool" where
  "has_prefix s p = (take (length p) s = p)"

definition trim_prefix :: "string \<Rightarrow> string \<Rightarrow> string" where
  "trim_prefix s p = (if has_prefix s p then drop (length p) s else s)"

definition cut_prefix :: "string \<Rightarrow> string \<Rightarrow> string option" where
  "cut_prefix s p = (if has_prefix s p then Some (drop (length p) s) else None)"

definition has_suffix :: "string \<Rightarrow> string \<Rightarrow> bool" where
  "has_suffix s p = has_prefix (rev s) (rev p)"

definition trim_suffix :: "string \<Rightarrow> string \<Rightarrow> string" where
  "trim_suffix s p = (if has_suffix s p then take (length s - length p) s else s)"

lemma has_prefix_iff: "has_prefix s p \<longleftrightarrow> (\<exists>r. s = p @ r)"
  by (auto simp: has_prefix_def) (metis append_take_drop_id)

lemma has_prefix_append [simp]: "has_prefix (p @ r) p"
  by (simp add: has_prefix_def)

lemma cut_prefix_Some: "cut_prefix s p = Some r \<longleftrightarrow> s = p @ r"
  by (auto simp: cut_prefix_def has_prefix_iff)

lemma cut_prefix_append: "cut_prefix (p @ r) p = Some r"
  by (simp add: cut_prefix_Some)

lemma cut_prefix_None: "cut_prefix s p = None \<longleftrightarrow> \<not> has_prefix s p"
  by (simp add: cut_prefix_def)

lemma has_suffix_iff: "has_suffix s p \<longleftrightarrow> (\<exists>r. s = r @ p)"
  by (auto simp: has_suffix_def has_prefix_iff) (metis rev_append rev_rev_ident)

lemma trim_suffix_append [simp]: "trim_suffix (r @ p) p = r"
  by (simp add: trim_suffix_def has_suffix_iff)

subsection \<open>Splitting and joining\<close>

text \<open>\<^verbatim>\<open>strings.Split(s, sep)\<close> for a one-byte separator: never empty.\<close>

fun split_c :: "char \<Rightarrow> string \<Rightarrow> string list" where
  "split_c c [] = [[]]"
| "split_c c (x # xs) = (if x = c then [] # split_c c xs
      else (case split_c c xs of [] \<Rightarrow> [[x]] | y # ys \<Rightarrow> (x # y) # ys))"

text \<open>\<^verbatim>\<open>strings.Cut(s, sep)\<close> for a one-byte separator: None when the separator is absent.\<close>

fun cut_c :: "char \<Rightarrow> string \<Rightarrow> (string \<times> string) option" where
  "cut_c c [] = None"
| "cut_c c (x # xs) = (if x = c then Some ([], xs)
      else (case cut_c c xs of None \<Rightarrow> None | Some (a, b) \<Rightarrow> Some (x # a, b)))"

text \<open>\<^verbatim>\<open>strings.SplitN(s, sep, 2)\<close> for a one-byte separator.\<close>

definition split_n2 :: "char \<Rightarrow> string \<Rightarrow> string list" where
  "split_n2 c s = (case cut_c c s of None \<Rightarrow> [s] | Some (a, b) \<Rightarrow> [a, b])"

fun join_s :: "string \<Rightarrow> string list \<Rightarrow> string" where
  "join_s sep [] = []"
| "join_s sep [x] = x"
| "join_s sep (x # y # ys) = x @ sep @ join_s sep (y # ys)"

lemma split_c_nonempty [simp]: "split_c c s \<noteq> []"
  by (induction s) (auto split: list.splits)

lemma split_c_absent: "c \<notin> set s \<Longrightarrow> split_c c s = [s]"
  by (induction s) auto

lemma split_c_append: "c \<notin> set a \<Longrightarrow> split_c c (a @ c # b) = a # split_c c b"
  by (induction a) auto

lemma split_c_pieces: "x \<in> set (split_c c s) \<Longrightarrow> c \<notin> set x"
  by (induction s arbitrary: x) (auto split: list.splits if_splits)

lemma join_s_Cons: "xs \<noteq> [] \<Longrightarrow> join_s sep (x # xs) = x @ sep @ join_s sep xs"
  by (cases xs) simp_all

lemma join_split [simp]: "join_s [c] (split_c c s) = s"
proof (induction s)
  case (Cons x xs)
  show ?case
  proof (cases "split_c c xs")
    case (Cons y ys)
    with \<open>join_s [c] (split_c c xs) = xs\<close> show ?thesis
      by (cases ys) auto
  qed simp
qed simp

lemma split_join:
  assumes "xs \<noteq> []" and "\<And>x. x \<in> set xs \<Longrightarrow> c \<notin> set x"
  shows "split_c c (join_s [c] xs) = xs"
  using assms
proof (induction xs)
  case (Cons x xs)
  then show ?case
    by (cases "xs = []") (simp_all add: split_c_absent join_s_Cons split_c_append)
qed simp

lemma cut_c_Some: "cut_c c s = Some (a, b) \<longleftrightarrow> s = a @ c # b \<and> c \<notin> set a"
proof (induction s arbitrary: a)
  case (Cons x xs)
  show ?case
  proof (cases "x = c")
    case True
    then show ?thesis by (cases a) auto
  next
    case False
    then have "cut_c c (x # xs) = Some (a, b) \<longleftrightarrow> (\<exists>a'. a = x # a' \<and> cut_c c xs = Some (a', b))"
      by (auto split: option.splits)
    also have "\<dots> \<longleftrightarrow> x # xs = a @ c # b \<and> c \<notin> set a"
      using False by (cases a) (simp_all add: Cons.IH, blast+)
    finally show ?thesis .
  qed
qed simp

lemma cut_c_None: "cut_c c s = None \<longleftrightarrow> c \<notin> set s"
  by (induction s) (auto split: option.splits)

lemma cut_c_append: "c \<notin> set a \<Longrightarrow> cut_c c (a @ c # b) = Some (a, b)"
  by (simp add: cut_c_Some)

text \<open>\<^verbatim>\<open>strings.Cut\<close> for any separator, and the cut at the last occurrence of a byte that
  \<^verbatim>\<open>strings.LastIndex\<close> gives.\<close>

fun cut_s :: "string \<Rightarrow> string \<Rightarrow> (string \<times> string) option" where
  "cut_s sep [] = (if sep = [] then Some ([], []) else None)"
| "cut_s sep (x # xs) = (if has_prefix (x # xs) sep then Some ([], drop (length sep) (x # xs))
      else (case cut_s sep xs of None \<Rightarrow> None | Some (a, b) \<Rightarrow> Some (x # a, b)))"

text \<open>\<^verbatim>\<open>strings.Contains\<close>.\<close>

definition contains_s :: "string \<Rightarrow> string \<Rightarrow> bool" where
  "contains_s s sub = (cut_s sub s \<noteq> None)"

definition rcut_c :: "char \<Rightarrow> string \<Rightarrow> (string \<times> string) option" where
  "rcut_c c s = (case cut_c c (rev s) of None \<Rightarrow> None | Some (a, b) \<Rightarrow> Some (rev b, rev a))"

lemma cut_s_sound: "cut_s sep s = Some (a, b) \<Longrightarrow> s = a @ sep @ b"
proof (induction s arbitrary: a)
  case (Cons x xs)
  show ?case
  proof (cases "has_prefix (x # xs) sep")
    case True
    with Cons.prems show ?thesis by (auto simp: has_prefix_iff)
  next
    case False
    with Cons.prems obtain a' where "cut_s sep xs = Some (a', b)" "a = x # a'"
      by (auto split: option.splits)
    with Cons.IH show ?thesis by simp
  qed
qed (simp split: if_splits)

lemma rcut_c_None: "rcut_c c s = None \<longleftrightarrow> c \<notin> set s"
  using cut_c_None [of c "rev s"] by (auto simp: rcut_c_def split: option.splits)

lemma rcut_c_Some: "rcut_c c s = Some (a, b) \<longleftrightarrow> s = a @ c # b \<and> c \<notin> set b"
proof -
  have "rcut_c c s = Some (a, b) \<longleftrightarrow> cut_c c (rev s) = Some (rev b, rev a)"
    by (auto simp: rcut_c_def split: option.splits)
  also have "\<dots> \<longleftrightarrow> s = a @ c # b \<and> c \<notin> set b"
    by (auto simp: cut_c_Some rev_swap)
  finally show ?thesis .
qed

lemma rcut_c_append: "c \<notin> set b \<Longrightarrow> rcut_c c (a @ c # b) = Some (a, b)"
  by (simp add: rcut_c_Some)

text \<open>\<^verbatim>\<open>strings.TrimRight(s, cutset)\<close> and \<^verbatim>\<open>strings.ToLower\<close> on ASCII letters.\<close>

definition trim_right_c :: "char \<Rightarrow> string \<Rightarrow> string" where
  "trim_right_c c s = rev (dropWhile (\<lambda>x. x = c) (rev s))"

definition lower_c :: "char \<Rightarrow> char" where
  "lower_c c = (if is_upper_c c then char_of (byte_of c + 32) else c)"

lemma trim_right_c_id: "s = [] \<or> last s \<noteq> c \<Longrightarrow> trim_right_c c s = s"
  by (cases s rule: rev_cases) (auto simp: trim_right_c_def)

lemma trim_right_c_snoc [simp]: "trim_right_c c (s @ [c]) = trim_right_c c s"
  by (simp add: trim_right_c_def)

subsection \<open>White space\<close>

text \<open>
  \<^verbatim>\<open>unicode.IsSpace\<close> at the start of a byte string: the number of bytes of the encoded space
  there, 0 when there is none. Besides the ASCII spaces these are U+0085, U+00A0, U+1680,
  U+2000--U+200A, U+2028, U+2029, U+202F, U+205F and U+3000. None of their lead bytes is a
  continuation byte, so scanning bytes finds the same spaces as decoding runes.
\<close>

definition ascii_space :: "nat \<Rightarrow> bool" where
  "ascii_space a = (a = 32 \<or> (9 \<le> a \<and> a \<le> 13))"

definition space2 :: "nat \<Rightarrow> nat \<Rightarrow> bool" where
  "space2 a b = (a = 0xC2 \<and> (b = 0x85 \<or> b = 0xA0))"

definition space3 :: "nat \<Rightarrow> nat \<Rightarrow> nat \<Rightarrow> bool" where
  "space3 a b c = (a = 0xE1 \<and> b = 0x9A \<and> c = 0x80
     \<or> a = 0xE2 \<and> b = 0x80 \<and> (0x80 \<le> c \<and> c \<le> 0x8A \<or> c = 0xA8 \<or> c = 0xA9 \<or> c = 0xAF)
     \<or> a = 0xE2 \<and> b = 0x81 \<and> c = 0x9F
     \<or> a = 0xE3 \<and> b = 0x80 \<and> c = 0x80)"

fun space_len :: "string \<Rightarrow> nat" where
  "space_len (a # b # c # s) = (if ascii_space (byte_of a) then 1
      else if space2 (byte_of a) (byte_of b) then 2
      else if space3 (byte_of a) (byte_of b) (byte_of c) then 3 else 0)"
| "space_len [a, b] = (if ascii_space (byte_of a) then 1
      else if space2 (byte_of a) (byte_of b) then 2 else 0)"
| "space_len [a] = (if ascii_space (byte_of a) then 1 else 0)"
| "space_len [] = 0"

text \<open>The same at the end of a string, given reversed.\<close>

fun space_len_rev :: "string \<Rightarrow> nat" where
  "space_len_rev (c # b # a # s) = (if ascii_space (byte_of c) then 1
      else if space2 (byte_of b) (byte_of c) then 2
      else if space3 (byte_of a) (byte_of b) (byte_of c) then 3 else 0)"
| "space_len_rev [c, b] = (if ascii_space (byte_of c) then 1
      else if space2 (byte_of b) (byte_of c) then 2 else 0)"
| "space_len_rev [c] = (if ascii_space (byte_of c) then 1 else 0)"
| "space_len_rev [] = 0"

lemma space_len_le: "space_len s \<le> length s"
  by (induction s rule: space_len.induct) auto

lemma space_len_rev_le: "space_len_rev s \<le> length s"
  by (induction s rule: space_len_rev.induct) auto

function trim_left_space :: "string \<Rightarrow> string" where
  "trim_left_space s = (if space_len s = 0 then s else trim_left_space (drop (space_len s) s))"
  by pat_completeness auto
termination
proof (relation "measure length", goal_cases)
  case (2 s)
  then show ?case using space_len_le [of s] by auto
qed simp

function trim_right_rev :: "string \<Rightarrow> string" where
  "trim_right_rev s =
     (if space_len_rev s = 0 then s else trim_right_rev (drop (space_len_rev s) s))"
  by pat_completeness auto
termination
proof (relation "measure length", goal_cases)
  case (2 s)
  then show ?case using space_len_rev_le [of s] by auto
qed simp

declare trim_left_space.simps [simp del] trim_right_rev.simps [simp del]

definition trim_space :: "string \<Rightarrow> string" where
  "trim_space s = rev (trim_right_rev (rev (trim_left_space s)))"

lemma trim_left_space_no_space: "space_len (trim_left_space s) = 0"
  by (induction s rule: trim_left_space.induct) (simp add: trim_left_space.simps)

lemma trim_right_rev_no_space: "space_len_rev (trim_right_rev s) = 0"
  by (induction s rule: trim_right_rev.induct) (simp add: trim_right_rev.simps)

lemma trim_right_rev_id: "space_len_rev s = 0 \<Longrightarrow> trim_right_rev s = s"
  by (simp add: trim_right_rev.simps)

lemma trim_left_space_id: "space_len s = 0 \<Longrightarrow> trim_left_space s = s"
  by (simp add: trim_left_space.simps)

lemma trim_left_space_suffix: "\<exists>p. s = p @ trim_left_space s"
proof (induction s rule: trim_left_space.induct)
  case (1 s)
  show ?case
  proof (cases "space_len s = 0")
    case False
    with 1 obtain p where "drop (space_len s) s = p @ trim_left_space (drop (space_len s) s)"
      by auto
    moreover have "trim_left_space s = trim_left_space (drop (space_len s) s)"
      using False by (subst trim_left_space.simps) simp
    ultimately have "s = (take (space_len s) s @ p) @ trim_left_space s"
      by (metis append_assoc append_take_drop_id)
    then show ?thesis by blast
  qed (simp add: trim_left_space_id)
qed

lemma trim_right_rev_suffix: "\<exists>p. s = p @ trim_right_rev s"
proof (induction s rule: trim_right_rev.induct)
  case (1 s)
  show ?case
  proof (cases "space_len_rev s = 0")
    case False
    with 1 obtain p where
      "drop (space_len_rev s) s = p @ trim_right_rev (drop (space_len_rev s) s)"
      by auto
    moreover have "trim_right_rev s = trim_right_rev (drop (space_len_rev s) s)"
      using False by (subst trim_right_rev.simps) simp
    ultimately have "s = (take (space_len_rev s) s @ p) @ trim_right_rev s"
      by (metis append_assoc append_take_drop_id)
    then show ?thesis by blast
  qed (simp add: trim_right_rev_id)
qed

lemma trim_space_sublist: "\<exists>a b. s = a @ trim_space s @ b"
proof -
  obtain a where a: "s = a @ trim_left_space s" using trim_left_space_suffix by blast
  obtain b where "rev (trim_left_space s) = b @ trim_right_rev (rev (trim_left_space s))"
    using trim_right_rev_suffix by blast
  then have "trim_left_space s = trim_space s @ rev b"
    by (metis trim_space_def rev_append rev_rev_ident)
  with a show ?thesis by metis
qed

lemma set_trim_space: "set (trim_space s) \<subseteq> set s"
  using trim_space_sublist [of s] by (metis UnCI set_append subsetI)

text \<open>\<^verbatim>\<open>strings.Fields\<close>: the maximal runs without a space. The accumulator is the current run,
  reversed.\<close>

function fields_from :: "string \<Rightarrow> string \<Rightarrow> string list" where
  "fields_from acc s = (case s of [] \<Rightarrow> (if acc = [] then [] else [rev acc])
     | x # xs \<Rightarrow> if space_len s = 0 then fields_from (x # acc) xs
         else (if acc = [] then [] else [rev acc]) @ fields_from [] (drop (space_len s) s))"
  by pat_completeness auto
termination
proof (relation "measure (\<lambda>(_, s). length s)", goal_cases)
  case (3 acc s x xs)
  then show ?case using space_len_le [of s] by auto
qed auto

declare fields_from.simps [simp del]

definition fields_s :: "string \<Rightarrow> string list" where
  "fields_s s = fields_from [] s"

lemma fields_from_nonempty: "x \<in> set (fields_from acc s) \<Longrightarrow> x \<noteq> []"
proof (induction acc s rule: fields_from.induct)
  case (1 acc s)
  show ?case
  proof (cases s)
    case Nil
    with 1(3) show ?thesis by (subst (asm) fields_from.simps) (auto split: if_splits)
  next
    case (Cons y ys)
    show ?thesis
    proof (cases "space_len s = 0")
      case True
      with 1(1) [OF Cons True] 1(3) Cons show ?thesis by (subst (asm) fields_from.simps) simp
    next
      case False
      with 1(2) [OF Cons False] 1(3) Cons show ?thesis
        by (subst (asm) (2) fields_from.simps) (auto split: if_splits)
    qed
  qed
qed

lemma fields_s_nonempty: "x \<in> set (fields_s s) \<Longrightarrow> x \<noteq> []"
  by (simp add: fields_s_def fields_from_nonempty)

subsection \<open>Decimal numbers\<close>

definition digit_c :: "nat \<Rightarrow> char" where
  "digit_c n = char_of (48 + n)"

definition digit_val :: "char \<Rightarrow> nat" where
  "digit_val c = byte_of c - 48"

lemma digit_val_digit_c [simp]: "n < 10 \<Longrightarrow> digit_val (digit_c n) = n"
  by (simp add: digit_val_def digit_c_def)

lemma is_digit_digit_c [simp]: "n < 10 \<Longrightarrow> is_digit_c (digit_c n)"
  by (simp add: is_digit_c_def digit_c_def)

fun nat_str :: "nat \<Rightarrow> string" where
  "nat_str n = (if n < 10 then [digit_c n] else nat_str (n div 10) @ [digit_c (n mod 10)])"

declare nat_str.simps [simp del]

fun digits_val :: "nat \<Rightarrow> string \<Rightarrow> nat" where
  "digits_val acc [] = acc"
| "digits_val acc (c # s) = digits_val (10 * acc + digit_val c) s"

definition itoa :: "int \<Rightarrow> string" where
  "itoa i = (if i < 0 then CHR ''-'' # nat_str (nat (- i)) else nat_str (nat i))"

text \<open>\<^verbatim>\<open>strconv.Atoi\<close> and \<^verbatim>\<open>strconv.ParseInt(s, 10, 64)\<close>: an optional sign, at least one digit,
  nothing else, and an error when the value leaves the int64 range. \<open>None\<close> is the error.\<close>

definition parse_digits :: "string \<Rightarrow> nat option" where
  "parse_digits s = (if s \<noteq> [] \<and> list_all is_digit_c s then Some (digits_val 0 s) else None)"

definition in_int64 :: "int \<Rightarrow> bool" where
  "in_int64 i = (int64_min \<le> i \<and> i \<le> int64_max)"

definition atoi :: "string \<Rightarrow> int option" where
  "atoi s = (let r = (case s of [] \<Rightarrow> None
       | c # t \<Rightarrow> if c = CHR ''-'' then map_option (\<lambda>n. - int n) (parse_digits t)
           else if c = CHR ''+'' then map_option int (parse_digits t)
           else map_option int (parse_digits s))
     in case r of None \<Rightarrow> None | Some i \<Rightarrow> if in_int64 i then Some i else None)"

lemma digits_val_append: "digits_val acc (s @ t) = digits_val (digits_val acc s) t"
  by (induction s arbitrary: acc) simp_all

lemma digits_val_nat_str: "digits_val 0 (nat_str n) = n"
proof (induction n rule: nat_str.induct)
  case (1 n)
  then show ?case by (subst nat_str.simps) (simp add: digits_val_append)
qed

lemma nat_str_digits: "list_all is_digit_c (nat_str n)"
proof (induction n rule: nat_str.induct)
  case (1 n)
  then show ?case by (subst nat_str.simps) simp
qed

lemma nat_str_nonempty [simp]: "nat_str n \<noteq> []"
  by (subst nat_str.simps) simp

lemma parse_digits_nat_str: "parse_digits (nat_str n) = Some n"
  by (simp add: parse_digits_def nat_str_digits digits_val_nat_str)

lemma digit_not_sign: "is_digit_c c \<Longrightarrow> c \<noteq> CHR ''-'' \<and> c \<noteq> CHR ''+''"
  by (auto simp: is_digit_c_def byte_of_def)

theorem atoi_itoa: "in_int64 i \<Longrightarrow> atoi (itoa i) = Some i"
proof (cases "i < 0")
  case True
  assume "in_int64 i"
  with True show ?thesis
    by (simp add: atoi_def itoa_def parse_digits_nat_str in_int64_def)
next
  case False
  assume r: "in_int64 i"
  obtain c t where ct: "nat_str (nat i) = c # t" by (cases "nat_str (nat i)") auto
  then have "is_digit_c c" using nat_str_digits [of "nat i"] by simp
  moreover have "parse_digits (c # t) = Some (nat i)" using parse_digits_nat_str [of "nat i"] ct by simp
  ultimately show ?thesis
    using False r by (simp add: atoi_def itoa_def ct digit_not_sign)
qed

lemma set_nat_str: "c \<in> set (nat_str n) \<Longrightarrow> is_digit_c c"
  using nat_str_digits [of n] by (simp add: list_all_iff)

lemma nat_str_inj: "nat_str m = nat_str n \<Longrightarrow> m = n"
  by (metis digits_val_nat_str)

lemma itoa_nonempty [simp]: "itoa i \<noteq> []"
  by (simp add: itoa_def)

lemma set_itoa: "c \<in> set (itoa i) \<Longrightarrow> is_digit_c c \<or> c = CHR ''-''"
  by (auto simp: itoa_def set_nat_str split: if_splits)

lemma atoi_range: "atoi s = Some i \<Longrightarrow> int64_min \<le> i \<and> i \<le> int64_max"
  by (simp add: atoi_def in_int64_def Let_def split: option.splits if_splits)

text \<open>Digits hold no white space, so trimming a printed number changes nothing.\<close>

definition plain_c :: "char \<Rightarrow> bool" where
  "plain_c c = (33 \<le> byte_of c \<and> byte_of c < 127)"

lemma plain_space_len: "s = [] \<or> plain_c (hd s) \<Longrightarrow> space_len s = 0"
  by (induction s rule: space_len.induct) (auto simp: plain_c_def ascii_space_def space2_def space3_def)

lemma plain_space_len_rev: "list_all plain_c s \<Longrightarrow> space_len_rev s = 0"
  by (induction s rule: space_len_rev.induct) (auto simp: plain_c_def ascii_space_def space2_def space3_def)

lemma trim_space_plain: "list_all plain_c s \<Longrightarrow> trim_space s = s"
proof -
  assume a: "list_all plain_c s"
  then have "space_len s = 0" by (intro plain_space_len) (cases s, auto)
  moreover have "space_len_rev (rev s) = 0" using a by (intro plain_space_len_rev) (simp add: list_all_iff)
  ultimately show ?thesis by (simp add: trim_space_def trim_left_space_id trim_right_rev_id)
qed

lemma plain_itoa: "list_all plain_c (itoa i)"
  by (auto simp: list_all_iff plain_c_def is_digit_c_def byte_of_def dest!: set_itoa)

lemma trim_space_itoa [simp]: "trim_space (itoa i) = itoa i"
  by (rule trim_space_plain [OF plain_itoa])

text \<open>The value of a printed integer, without a bound on its size.\<close>

definition int_of_str :: "string \<Rightarrow> int" where
  "int_of_str s = (case s of [] \<Rightarrow> 0 | c # t \<Rightarrow>
     if c = CHR ''-'' then - int (digits_val 0 t) else int (digits_val 0 s))"

lemma int_of_str_itoa [simp]: "int_of_str (itoa i) = i"
proof (cases "i < 0")
  case False
  obtain c t where ct: "nat_str (nat i) = c # t" by (cases "nat_str (nat i)") auto
  then have "is_digit_c c" using nat_str_digits [of "nat i"] by simp
  moreover have "digits_val 0 (c # t) = nat i" using digits_val_nat_str [of "nat i"] ct by simp
  ultimately show ?thesis using False by (simp add: int_of_str_def itoa_def ct digit_not_sign)
qed (simp add: int_of_str_def itoa_def digits_val_nat_str)

lemma itoa_inj: "itoa i = itoa j \<Longrightarrow> i = j"
  by (metis int_of_str_itoa)

end
