(* ===== verification/Pki_Names.thy ===== *)
theory Pki_Names
  imports Go_Strings
begin

section \<open>The rule for names: pki.CheckName\<close>

text \<open>
  Every name the program stores (certificate CNs, user names, upstream ids) passes
  \<^verbatim>\<open>CheckName\<close> of \<^verbatim>\<open>src/internal/pki/pki.go\<close>, the regular expression
  \<^verbatim>\<open>^[A-Za-z0-9._@-]{1,64}$\<close>. The lemmas state what callers rely on: a stored name has no
  space, control, separator or non-ASCII byte.
\<close>

abbreviation MaxCNLen :: nat where "MaxCNLen \<equiv> 64"

definition name_c :: "char \<Rightarrow> bool" where
  "name_c c = (is_alnum_c c \<or> c \<in> set ''._@-'')"

definition nameRe :: "string \<Rightarrow> bool" where
  "nameRe s = (1 \<le> length s \<and> length s \<le> MaxCNLen \<and> list_all name_c s)"

datatype name_error = BadName string string

definition CheckName :: "string \<Rightarrow> string \<Rightarrow> (name_error, unit) result" where
  "CheckName what s = (if \<not> nameRe s then Inl (BadName what s) else Inr ())"

lemma CheckName_ok [simp]: "CheckName what s = Inr u \<longleftrightarrow> nameRe s"
  by (simp add: CheckName_def)

lemma CheckName_error: "CheckName what s = Inl e \<longleftrightarrow> \<not> nameRe s \<and> e = BadName what s"
  by (auto simp: CheckName_def)

lemma nameRe_nonempty: "nameRe s \<Longrightarrow> s \<noteq> []"
  by (auto simp: nameRe_def)

text \<open>A name holds none of the bytes that would let it act in a command, a file or a table.\<close>

lemma name_c_safe:
  assumes "name_c c"
  shows "32 < byte_of c \<and> byte_of c < 127" and "c \<notin> set '' ,:/#%?;|&$<>(){}[]*!~^+=''"
    and "c \<noteq> LF" and "c \<noteq> CR" and "c \<noteq> DQ" and "byte_of c \<noteq> 92" and "byte_of c \<noteq> 39"
  using assms
  by (auto simp: name_c_def is_alnum_c_def is_digit_c_def is_lower_c_def is_upper_c_def byte_of_def)

lemma nameRe_name_c: "nameRe s \<Longrightarrow> c \<in> set s \<Longrightarrow> name_c c"
  by (simp add: nameRe_def list_all_iff)

end
