(* ===== verification/Go_Net.thy ===== *)
theory Go_Net
  imports Go_Strings
begin

section \<open>Go's net and net/url: addresses, prefixes and URLs\<close>

text \<open>
  The parts of the packages \<^verbatim>\<open>net\<close>, \<^verbatim>\<open>net/netip\<close> and \<^verbatim>\<open>net/url\<close> that the components call:
  \<^verbatim>\<open>net.ParseIP\<close>, \<^verbatim>\<open>net.ParseCIDR\<close>, \<^verbatim>\<open>IP.To4\<close>, \<^verbatim>\<open>IP.Mask\<close>, \<^verbatim>\<open>IP.String\<close> and \<^verbatim>\<open>url.Parse\<close>
  with \<^verbatim>\<open>Hostname\<close> and \<^verbatim>\<open>Port\<close>, as Go 1.26 and later have them. An address is the list of its
  4 or 16 bytes. The lemmas give the shape of what the parsers return, that a dotted address is
  read back from its print, and that the printed form is made of safe bytes only.
\<close>

unbundle bit_operations_syntax

subsection \<open>Addresses\<close>

text \<open>\<^verbatim>\<open>netip.Addr\<close>: four bytes, or sixteen with a zone.\<close>

datatype addr = V4 "nat list" | V6 "nat list" string

definition parse_octet :: "string \<Rightarrow> nat option" where
  "parse_octet s = (if s \<noteq> [] \<and> list_all is_digit_c s \<and> (length s = 1 \<or> hd s \<noteq> CHR ''0'')
      \<and> digits_val 0 s \<le> 255 then Some (digits_val 0 s) else None)"

fun all_some :: "'a option list \<Rightarrow> 'a list option" where
  "all_some [] = Some []"
| "all_some (None # xs) = None"
| "all_some (Some x # xs) = map_option ((#) x) (all_some xs)"

definition parse_ipv4 :: "string \<Rightarrow> nat list option" where
  "parse_ipv4 s = (let p = split_c CHR ''.'' s in
     if length p = 4 then all_some (map parse_octet p) else None)"

definition is_hex_c :: "char \<Rightarrow> bool" where
  "is_hex_c c = (is_digit_c c \<or> 97 \<le> byte_of c \<and> byte_of c \<le> 102 \<or> 65 \<le> byte_of c \<and> byte_of c \<le> 70)"

definition hex_val :: "char \<Rightarrow> nat" where
  "hex_val c = (if is_digit_c c then byte_of c - 48
     else if 97 \<le> byte_of c then byte_of c - 87 else byte_of c - 55)"

definition hexs_val :: "string \<Rightarrow> nat" where
  "hexs_val s = foldl (\<lambda>a c. 16 * a + hex_val c) 0 s"

text \<open>
  The loop of \<^verbatim>\<open>netip.parseIPv6\<close>: \<open>ip\<close> holds the bytes read so far, \<open>el\<close> the position of the
  ellipsis. A round consumes at least one byte of \<open>s\<close>. The result is the bytes read, the
  position of the ellipsis and what was left of the string when the loop ended.
\<close>

function ipv6_loop :: "nat list \<Rightarrow> nat option \<Rightarrow> string \<Rightarrow> (nat list \<times> nat option \<times> string) option" where
  "ipv6_loop ip el s = (if length ip \<ge> 16 then Some (ip, el, s) else
     (let g = takeWhile is_hex_c s; r = dropWhile is_hex_c s in
      if g = [] \<or> length g > 4 then None
      else if r \<noteq> [] \<and> hd r = CHR ''.'' then
        (if el = None \<and> length ip \<noteq> 12 \<or> length ip > 12 then None
         else map_option (\<lambda>q. (ip @ q, el, [])) (parse_ipv4 s))
      else
        (let ip' = ip @ [hexs_val g div 256, hexs_val g mod 256] in
         case r of [] \<Rightarrow> Some (ip', el, [])
         | c # r1 \<Rightarrow>
           if c \<noteq> CHR '':'' then None
           else (case r1 of [] \<Rightarrow> None
             | d # r2 \<Rightarrow> if d = CHR '':'' then
                 (if el \<noteq> None then None
                  else if r2 = [] then Some (ip', Some (length ip'), [])
                  else ipv6_loop ip' (Some (length ip')) r2)
               else ipv6_loop ip' el r1))))"
  by pat_completeness auto
termination
  by (relation "measure (\<lambda>(ip, _, _). 16 - length ip)") auto

declare ipv6_loop.simps [simp del]

definition ipv6_finish :: "nat list \<times> nat option \<times> string \<Rightarrow> nat list option" where
  "ipv6_finish x = (case x of (ip, el, s) \<Rightarrow>
     if s \<noteq> [] then None
     else if length ip < 16 then
       (case el of None \<Rightarrow> None
        | Some k \<Rightarrow> Some (take k ip @ replicate (16 - length ip) 0 @ drop k ip))
     else if el \<noteq> None then None else Some ip)"

definition parse_ipv6 :: "string \<Rightarrow> addr option" where
  "parse_ipv6 inp = (let z = cut_c CHR ''%'' inp;
     s = (case z of None \<Rightarrow> inp | Some (a, _) \<Rightarrow> a);
     zone = (case z of None \<Rightarrow> [] | Some (_, b) \<Rightarrow> b) in
     if z \<noteq> None \<and> zone = [] then None
     else if has_prefix s ''::'' then
       (if drop 2 s = [] then Some (V6 (replicate 16 0) zone)
        else map_option (\<lambda>b. V6 b zone) (Option.bind (ipv6_loop [] (Some 0) (drop 2 s)) ipv6_finish))
     else map_option (\<lambda>b. V6 b zone) (Option.bind (ipv6_loop [] None s) ipv6_finish))"

text \<open>\<^verbatim>\<open>netip.ParseAddr\<close>: the first dot, colon or percent sign decides the family.\<close>

fun parse_addr_scan :: "string \<Rightarrow> string \<Rightarrow> addr option" where
  "parse_addr_scan s [] = None"
| "parse_addr_scan s (c # cs) = (if c = CHR ''.'' then map_option V4 (parse_ipv4 s)
     else if c = CHR '':'' then parse_ipv6 s
     else if c = CHR ''%'' then None
     else parse_addr_scan s cs)"

definition parse_addr :: "string \<Rightarrow> addr option" where
  "parse_addr s = parse_addr_scan s s"

definition v4_in_v6 :: "nat list" where
  "v4_in_v6 = replicate 10 0 @ [255, 255]"

definition as16 :: "addr \<Rightarrow> nat list" where
  "as16 a = (case a of V4 b \<Rightarrow> v4_in_v6 @ b | V6 b _ \<Rightarrow> b)"

definition bit_len :: "addr \<Rightarrow> nat" where
  "bit_len a = (case a of V4 _ \<Rightarrow> 32 | V6 _ _ \<Rightarrow> 128)"

definition addr_zone :: "addr \<Rightarrow> string" where
  "addr_zone a = (case a of V4 _ \<Rightarrow> [] | V6 _ z \<Rightarrow> z)"

text \<open>\<^verbatim>\<open>net.ParseIP\<close> gives 16 bytes; \<^verbatim>\<open>IP.To4\<close> the last four of a mapped address.\<close>

definition parse_ip :: "string \<Rightarrow> nat list option" where
  "parse_ip s = (case parse_addr s of None \<Rightarrow> None
     | Some a \<Rightarrow> if addr_zone a \<noteq> [] then None else Some (as16 a))"

definition to4 :: "nat list \<Rightarrow> nat list option" where
  "to4 ip = (if length ip = 4 then Some ip
     else if length ip = 16 \<and> take 12 ip = v4_in_v6 then Some (drop 12 ip) else None)"

subsection \<open>Prefixes\<close>

definition dtoi :: "string \<Rightarrow> nat option" where
  "dtoi s = (if s \<noteq> [] \<and> list_all is_digit_c s \<and> int (digits_val 0 s) < 0xFFFFFF then Some (digits_val 0 s) else None)"

text \<open>\<^verbatim>\<open>net.CIDRMask(n, 8 * k)\<close>.\<close>

fun cidr_mask :: "nat \<Rightarrow> nat \<Rightarrow> nat list" where
  "cidr_mask n 0 = []"
| "cidr_mask n (Suc k) = (if n \<ge> 8 then 255 # cidr_mask (n - 8) k
      else (256 - 2 ^ (8 - n)) # cidr_mask 0 k)"

definition mask_and :: "nat list \<Rightarrow> nat list \<Rightarrow> nat list" where
  "mask_and xs ys = map2 (AND) xs ys"

text \<open>\<^verbatim>\<open>IP.Mask\<close>; \<open>None\<close> is Go's nil.\<close>

definition ip_mask :: "nat list \<Rightarrow> nat list \<Rightarrow> nat list option" where
  "ip_mask ip m = (let m' = (if length m = 16 \<and> length ip = 4 \<and> take 12 m = replicate 12 255
        then drop 12 m else m);
      ip' = (if length m' = 4 \<and> length ip = 16 \<and> take 12 ip = v4_in_v6 then drop 12 ip else ip) in
      if length ip' = length m' then Some (mask_and ip' m') else None)"

record ipnet =
  net_IP :: "nat list"
  net_Mask :: "nat list"

definition parse_cidr :: "string \<Rightarrow> (nat list \<times> ipnet) option" where
  "parse_cidr s = (case cut_c CHR ''/'' s of None \<Rightarrow> None
     | Some (a, m) \<Rightarrow> (case parse_addr a of None \<Rightarrow> None
        | Some ad \<Rightarrow> if addr_zone ad \<noteq> [] then None else
          (case dtoi m of None \<Rightarrow> None
           | Some n \<Rightarrow> if n > bit_len ad then None else
             (let mk = cidr_mask n (bit_len ad div 8) in
              case ip_mask (as16 ad) mk of None \<Rightarrow> None
              | Some i \<Rightarrow> Some (as16 ad, \<lparr>net_IP = i, net_Mask = mk\<rparr>)))))"

subsection \<open>Printing\<close>

definition dotted :: "nat list \<Rightarrow> string" where
  "dotted b = join_s ''.'' (map nat_str b)"

definition hex_c :: "nat \<Rightarrow> char" where
  "hex_c n = (if n < 10 then char_of (48 + n) else char_of (87 + n))"

fun hex_str :: "nat \<Rightarrow> string" where
  "hex_str n = (if n < 16 then [hex_c n] else hex_str (n div 16) @ [hex_c (n mod 16)])"

declare hex_str.simps [simp del]

fun groups16 :: "nat list \<Rightarrow> nat list" where
  "groups16 (a # b # r) = (256 * a + b) # groups16 r"
| "groups16 r = []"

definition zero_run :: "nat list \<Rightarrow> nat" where
  "zero_run g = length (takeWhile (\<lambda>x. x = 0) g)"

text \<open>The first longest run of at least two zero groups, as (start, length), length 0 for none.\<close>

fun best_run :: "nat \<Rightarrow> nat list \<Rightarrow> nat \<times> nat" where
  "best_run i [] = (0, 0)"
| "best_run i (x # xs) = (let n = zero_run (x # xs); (j, m) = best_run (i + 1) xs in
     if n \<ge> 2 \<and> n \<ge> m then (i, n) else (j, m))"

definition ipv6_str :: "nat list \<Rightarrow> string" where
  "ipv6_str b = (let g = groups16 b; (i, n) = best_run 0 g in
     if n = 0 then join_s '':'' (map hex_str g)
     else join_s '':'' (map hex_str (take i g)) @ ''::'' @ join_s '':'' (map hex_str (drop (i + n) g)))"

text \<open>\<^verbatim>\<open>IP.String\<close>.\<close>

definition hex2 :: "nat \<Rightarrow> string" where
  "hex2 b = [hex_c (b div 16), hex_c (b mod 16)]"

definition ip_string :: "nat list \<Rightarrow> string" where
  "ip_string ip = (if ip = [] then ''<nil>''
     else if length ip \<noteq> 4 \<and> length ip \<noteq> 16 then CHR ''?'' # concat (map hex2 ip)
     else (case to4 ip of Some q \<Rightarrow> dotted q | None \<Rightarrow> ipv6_str ip))"

subsection \<open>URLs\<close>

record url =
  u_Scheme :: string
  u_User :: "(string \<times> string option) option"
  u_Host :: string

datatype esc_mode = EncHost | EncZone | EncOther

definition should_escape_host :: "char \<Rightarrow> bool" where
  "should_escape_host c = (\<not> (is_alnum_c c \<or> c \<in> set ''!$&()*+,;=:[]<>-_.~'' \<or> byte_of c = 34 \<or> byte_of c = 39))"

text \<open>\<^verbatim>\<open>url.unescape\<close>: \<open>None\<close> is an error.\<close>

fun unescape :: "esc_mode \<Rightarrow> string \<Rightarrow> string option" where
  "unescape m [] = Some []"
| "unescape m (c # s) = (if c = CHR ''%'' then
     (case s of a # b # r \<Rightarrow>
        if \<not> is_hex_c a \<or> \<not> is_hex_c b then None
        else (let v = 16 * hex_val a + hex_val b in
          if m = EncHost \<and> hex_val a < 8 \<and> [a, b] \<noteq> ''25'' then None
          else if m = EncZone \<and> [a, b] \<noteq> ''25'' \<and> v \<noteq> 32 \<and> should_escape_host (char_of v) then None
          else map_option ((#) (char_of v)) (unescape m r))
      | _ \<Rightarrow> None)
     else if m \<noteq> EncOther \<and> byte_of c < 128 \<and> should_escape_host c then None
     else map_option ((#) c) (unescape m s))"

definition valid_optional_port :: "string \<Rightarrow> bool" where
  "valid_optional_port p = (p = [] \<or> hd p = CHR '':'' \<and> list_all is_digit_c (tl p))"

definition scheme_c :: "char \<Rightarrow> bool" where
  "scheme_c c = (is_alnum_c c \<or> c \<in> set ''+-.'')"

text \<open>\<^verbatim>\<open>getScheme\<close>: the scheme and the rest; an empty scheme when there is none, an error when the
  string starts with a colon.\<close>

definition get_scheme :: "string \<Rightarrow> (string \<times> string) option" where
  "get_scheme s = (let a = takeWhile scheme_c s; r = dropWhile scheme_c s in
     if a \<noteq> [] \<and> (is_digit_c (hd a) \<or> hd a \<in> set ''+-.'') then Some ([], s)
     else if r \<noteq> [] \<and> hd r = CHR '':'' then (if a = [] then None else Some (a, tl r))
     else Some ([], s))"

definition valid_userinfo :: "string \<Rightarrow> bool" where
  "valid_userinfo s = list_all (\<lambda>c. is_alnum_c c \<or> c \<in> set ''-._:~!$&()*+,;=%@'' \<or> byte_of c = 39) s"

definition parse_bracketed :: "string \<Rightarrow> string option" where
  "parse_bracketed host = (case rcut_c CHR '']'' host of None \<Rightarrow> None
     | Some (h, port) \<Rightarrow> if \<not> valid_optional_port port then None else
        (let name = tl h;
             un = (case cut_s ''%25'' name of
                 None \<Rightarrow> unescape EncHost name
               | Some (a, b) \<Rightarrow> Option.bind (unescape EncHost a) (\<lambda>x.
                   map_option (\<lambda>y. x @ y) (unescape EncZone (''%25'' @ b)))) in
         case un of None \<Rightarrow> None
         | Some n \<Rightarrow> (case parse_addr n of
               Some (V6 _ _) \<Rightarrow> Some (''['' @ n @ '']'' @ port) | _ \<Rightarrow> None)))"

definition parse_host :: "string \<Rightarrow> string \<Rightarrow> string option" where
  "parse_host scheme host = (case rcut_c CHR ''['' host of
     Some (a, _) \<Rightarrow> if a \<noteq> [] then None else parse_bracketed host
   | None \<Rightarrow>
       (let port = (if scheme = ''postgres'' \<or> scheme = ''postgresql''
            then (case rcut_c CHR '':'' host of None \<Rightarrow> [] | Some (_, p) \<Rightarrow> CHR '':'' # p)
            else (case cut_c CHR '':'' host of None \<Rightarrow> [] | Some (_, p) \<Rightarrow> CHR '':'' # p)) in
        if \<not> valid_optional_port port then None else unescape EncHost host))"

definition parse_userinfo :: "string \<Rightarrow> (string \<times> string option) option" where
  "parse_userinfo ui = (if \<not> valid_userinfo ui then None else
     (case cut_c CHR '':'' ui of
        None \<Rightarrow> map_option (\<lambda>n. (n, None)) (unescape EncOther ui)
      | Some (n, p) \<Rightarrow> Option.bind (unescape EncOther n) (\<lambda>n'.
          map_option (\<lambda>p'. (n', Some p')) (unescape EncOther p))))"

definition parse_authority :: "string \<Rightarrow> string \<Rightarrow> ((string \<times> string option) option \<times> string) option" where
  "parse_authority scheme au = (case rcut_c CHR ''@'' au of
     None \<Rightarrow> map_option (\<lambda>h. (None, h)) (parse_host scheme au)
   | Some (ui, h) \<Rightarrow> Option.bind (parse_host scheme h) (\<lambda>h'.
       map_option (\<lambda>u. (Some u, h')) (parse_userinfo ui)))"

definition has_ctl_byte :: "string \<Rightarrow> bool" where
  "has_ctl_byte s = list_ex (\<lambda>c. byte_of c < 32 \<or> byte_of c = 127) s"

definition before_c :: "char \<Rightarrow> string \<Rightarrow> string" where
  "before_c c s = takeWhile (\<lambda>x. x \<noteq> c) s"

definition url_parse_nofrag :: "string \<Rightarrow> url option" where
  "url_parse_nofrag raw = (if has_ctl_byte raw then None
     else if raw = ''*'' then Some \<lparr>u_Scheme = [], u_User = None, u_Host = []\<rparr>
     else (case get_scheme raw of None \<Rightarrow> None
       | Some (sch, rest0) \<Rightarrow>
         (let scheme = map lower_c sch; rest = before_c CHR ''?'' rest0 in
          if \<not> has_prefix rest ''/'' \<and> scheme \<noteq> [] then
            Some \<lparr>u_Scheme = scheme, u_User = None, u_Host = []\<rparr>
          else if \<not> has_prefix rest ''/'' \<and> CHR '':'' \<in> set (before_c CHR ''/'' rest) then None
          else if has_prefix rest ''//'' \<and> (scheme \<noteq> [] \<or> \<not> has_prefix rest ''///'') then
            (let au = before_c CHR ''/'' (drop 2 rest); path = drop (length au) (drop 2 rest) in
             case parse_authority scheme au of None \<Rightarrow> None
             | Some (u, h) \<Rightarrow> (case unescape EncOther path of None \<Rightarrow> None
                 | Some _ \<Rightarrow> Some \<lparr>u_Scheme = scheme, u_User = u, u_Host = h\<rparr>))
          else (case unescape EncOther rest of None \<Rightarrow> None
                | Some _ \<Rightarrow> Some \<lparr>u_Scheme = scheme, u_User = None, u_Host = []\<rparr>))))"

definition url_parse :: "string \<Rightarrow> url option" where
  "url_parse raw = (case cut_c CHR ''#'' raw of None \<Rightarrow> url_parse_nofrag raw
     | Some (u, frag) \<Rightarrow> (case url_parse_nofrag u of None \<Rightarrow> None
         | Some r \<Rightarrow> (case unescape EncOther frag of None \<Rightarrow> None | Some _ \<Rightarrow> Some r)))"

definition split_host_port :: "string \<Rightarrow> string \<times> string" where
  "split_host_port hp = (let (h, p) = (case rcut_c CHR '':'' hp of None \<Rightarrow> (hp, [])
       | Some (a, b) \<Rightarrow> if list_all is_digit_c b then (a, b) else (hp, [])) in
     (if has_prefix h ''['' \<and> has_suffix h '']'' then take (length h - 2) (drop 1 h) else h, p))"

definition url_hostname :: "url \<Rightarrow> string" where
  "url_hostname u = fst (split_host_port (u_Host u))"

definition url_port :: "url \<Rightarrow> string" where
  "url_port u = snd (split_host_port (u_Host u))"

subsection \<open>Lemmas\<close>

lemma all_some_Some: "all_some xs = Some ys \<Longrightarrow> xs = map Some ys"
  by (induction xs arbitrary: ys rule: all_some.induct) auto

lemma all_some_map_Some [simp]: "all_some (map Some xs) = Some xs"
  by (induction xs) auto

lemma parse_octet_range: "parse_octet s = Some n \<Longrightarrow> n \<le> 255"
  by (simp add: parse_octet_def split: if_splits)

lemma parse_ipv4_shape:
  assumes "parse_ipv4 s = Some b"
  shows "length b = 4" and "\<forall>x\<in>set b. x \<le> 255"
proof -
  from assms have l: "length (split_c CHR ''.'' s) = 4"
    and a: "map parse_octet (split_c CHR ''.'' s) = map Some b"
    by (auto simp: parse_ipv4_def Let_def split: if_splits dest: all_some_Some)
  from arg_cong [where f = length, OF a] l show "length b = 4" by simp
  show "\<forall>x\<in>set b. x \<le> 255"
  proof
    fix x assume "x \<in> set b"
    then have "Some x \<in> set (map parse_octet (split_c CHR ''.'' s))" using a by simp
    then obtain p where "parse_octet p = Some x" by auto
    then show "x \<le> 255" by (rule parse_octet_range)
  qed
qed

lemma leading_zero_nat_str: "n > 0 \<Longrightarrow> hd (nat_str n) \<noteq> CHR ''0''"
proof (induction n rule: nat_str.induct)
  case (1 n)
  show ?case
  proof (cases "n < 10")
    case True
    have "digit_c n \<noteq> CHR ''0''"
    proof
      assume "digit_c n = CHR ''0''"
      then have "digit_val (digit_c n) = digit_val CHR ''0''" by (rule arg_cong)
      also have "\<dots> = 0" by (simp add: digit_val_def byte_of_def)
      finally show False using True 1(2) by simp
    qed
    with True show ?thesis by (subst nat_str.simps) simp
  next
    case False
    then show ?thesis using 1(1) by (subst nat_str.simps) (simp add: hd_append)
  qed
qed

lemma nat_str_small: "n < 10 \<Longrightarrow> length (nat_str n) = 1"
  by (simp add: nat_str.simps)

lemma parse_octet_nat_str: "n \<le> 255 \<Longrightarrow> parse_octet (nat_str n) = Some n"
  using leading_zero_nat_str [of n] nat_str_small [of n]
  by (cases "n = 0") (auto simp: parse_octet_def nat_str_digits digits_val_nat_str)

lemma dot_not_digit: "CHR ''.'' \<notin> set (nat_str n)"
  by (auto dest: set_nat_str simp: is_digit_c_def byte_of_def)

theorem parse_ipv4_dotted:
  "length b = 4 \<Longrightarrow> \<forall>x\<in>set b. x \<le> 255 \<Longrightarrow> parse_ipv4 (dotted b) = Some b"
proof -
  assume l: "length b = 4" and r: "\<forall>x\<in>set b. x \<le> 255"
  have "split_c CHR ''.'' (dotted b) = map nat_str b"
    unfolding dotted_def by (rule split_join) (use l dot_not_digit in auto)
  moreover have "map parse_octet (map nat_str b) = map Some b"
    using r by (simp add: parse_octet_nat_str)
  ultimately show ?thesis using l by (simp only: parse_ipv4_def Let_def length_map all_some_map_Some) simp
qed

lemma to4_length: "to4 ip = Some q \<Longrightarrow> length q = 4"
  by (auto simp: to4_def split: if_splits)

lemma set_join_s: "set (join_s sep xs) \<subseteq> set sep \<union> (\<Union>x\<in>set xs. set x)"
  by (induction sep xs rule: join_s.induct) auto

lemma set_dotted: "c \<in> set (dotted b) \<Longrightarrow> is_digit_c c \<or> c = CHR ''.''"
  using set_join_s [of "''.''" "map nat_str b"] by (auto simp: dotted_def dest: set_nat_str)

lemma length_cidr_mask [simp]: "length (cidr_mask n k) = k"
  by (induction n k rule: cidr_mask.induct) auto

lemma length_mask_and [simp]: "length (mask_and xs ys) = min (length xs) (length ys)"
  by (simp add: mask_and_def)

end
