(* ===== verification/Upstream_Config.thy ===== *)
theory Upstream_Config
  imports Pki_Names Go_Net
begin

section \<open>Upstreams: the configuration\<close>

text \<open>
  The configuration half of \<^verbatim>\<open>src/internal/upstream/upstream.go\<close>: the type \<^verbatim>\<open>Config\<close> with its
  operations \<^verbatim>\<open>Resolve\<close>, \<^verbatim>\<open>WithAdded\<close>, \<^verbatim>\<open>Without\<close>, \<^verbatim>\<open>Assign\<close>, \<^verbatim>\<open>SetDefault\<close>, \<^verbatim>\<open>Find\<close>,
  \<^verbatim>\<open>NextTable\<close>, \<^verbatim>\<open>Validate\<close>, and the commands and the nft ruleset computed from it. A Go map
  is the list of its entries in the order a \<^verbatim>\<open>range\<close> visits them, keys distinct; only which of
  several errors is reported depends on that order. \<open>config_ok\<close> states declaratively what a
  valid configuration is; \<^verbatim>\<open>Validate\<close> decides it and every operation keeps it.
\<close>

subsection \<open>Data\<close>

abbreviation tableBase :: int where "tableBase \<equiv> 100"
abbreviation maxUpstreams :: nat where "maxUpstreams \<equiv> 64"
abbreviation rulePrioBase :: int where "rulePrioBase \<equiv> 20000"
abbreviation socksPortBase :: int where "socksPortBase \<equiv> 20000"
abbreviation nftTable :: string where "nftTable \<equiv> ''ovcp-upstreams''"
abbreviation preroutingChain :: string where "preroutingChain \<equiv> ''ovcp-prerouting''"
abbreviation postroutingChain :: string where "postroutingChain \<equiv> ''ovcp-postrouting''"
abbreviation redirectChain :: string where "redirectChain \<equiv> ''ovcp-redirect''"
abbreviation TunDev :: string where "TunDev \<equiv> ''ovcp0''"

record upstream =
  up_ID :: string
  up_Iface :: string
  up_Gateway :: string
  up_SOCKS :: string
  up_DialTimeout :: int
  up_HandshakeTimeout :: int
  up_Table :: int
  up_Description :: string

record config =
  cf_Upstreams :: "upstream list"
  cf_Default :: string
  cf_PerCN :: "(string \<times> string) list"

datatype up_error =
    EmptyId
  | BadId name_error
  | DuplicateId string
  | SocksExclusive string
  | SocksUnparseable string
  | SocksScheme string string
  | SocksHostPort string
  | SocksNotAscii string
  | NegativeTimeout string
  | InvalidIface string string
  | BadGateway string string
  | TimeoutSocksOnly string
  | TableOutside string int
  | TableUsed string int
  | DefaultUndefined string
  | PerCNUndefined string string
  | AssignArgs
  | NoFreeTable

text \<open>\<^verbatim>\<open>Enabled\<close>: the environment variable is an argument.\<close>

definition Enabled :: "string \<Rightarrow> string \<Rightarrow> bool" where
  "Enabled backendPath env = (backendPath \<noteq> [] \<and> env \<noteq> ''false'')"

definition IsSOCKS :: "upstream \<Rightarrow> bool" where
  "IsSOCKS u = (up_SOCKS u \<noteq> [])"

definition socksPort :: "upstream \<Rightarrow> int" where
  "socksPort u = socksPortBase + (up_Table u - tableBase)"

text \<open>\<open>ifaceExists\<close> is the host's answer, an argument of the definitions that ask it.\<close>

definition IsUp :: "(string \<Rightarrow> bool) \<Rightarrow> upstream \<Rightarrow> bool" where
  "IsUp ifaceExists u = (IsSOCKS u \<or> ifaceExists (up_Iface u))"

fun DownIDs :: "(string \<Rightarrow> bool) \<Rightarrow> upstream list \<Rightarrow> string list" where
  "DownIDs ifaceExists [] = []"
| "DownIDs ifaceExists (u # us) =
     (if \<not> IsUp ifaceExists u then up_ID u # DownIDs ifaceExists us else DownIDs ifaceExists us)"

definition Warning :: "(string \<Rightarrow> bool) \<Rightarrow> upstream list \<Rightarrow> string" where
  "Warning ifaceExists ups = (let down = DownIDs ifaceExists ups in
     if down = [] then [] else ''unreachable (iface down): '' @ join_s '', '' down)"

subsection \<open>Lookups\<close>

definition Resolve :: "config \<Rightarrow> string \<Rightarrow> string" where
  "Resolve c cn = (case map_of (cf_PerCN c) cn of Some i \<Rightarrow> i | None \<Rightarrow> cf_Default c)"

definition Find :: "config \<Rightarrow> string \<Rightarrow> upstream option" where
  "Find c i = List.find (\<lambda>u. up_ID u = i) (cf_Upstreams c)"

fun next_table_loop :: "int list \<Rightarrow> nat \<Rightarrow> nat \<Rightarrow> int option" where
  "next_table_loop used i 0 = None"
| "next_table_loop used i (Suc n) =
     (let t = tableBase + int i in if t \<notin> set used then Some t else next_table_loop used (i + 1) n)"

definition NextTable :: "upstream list \<Rightarrow> (up_error, int) result" where
  "NextTable existing = (case next_table_loop (map up_Table existing) 0 maxUpstreams of
     Some t \<Rightarrow> Inr t | None \<Rightarrow> Inl NoFreeTable)"

subsection \<open>Validation\<close>

definition iface_c :: "char \<Rightarrow> bool" where
  "iface_c c = (is_alnum_c c \<or> c \<in> set ''._:-'')"

definition ifaceRe :: "string \<Rightarrow> bool" where
  "ifaceRe s = (s \<noteq> [] \<and> is_alnum_c (hd s) \<and> length (tl s) \<le> 14 \<and> list_all iface_c (tl s))"

definition validateSOCKSURL :: "string \<Rightarrow> string \<Rightarrow> up_error option" where
  "validateSOCKSURL i raw = (case url_parse raw of
     None \<Rightarrow> Some (SocksUnparseable i)
   | Some u \<Rightarrow>
       if u_Scheme u \<noteq> ''socks5'' then Some (SocksScheme i (u_Scheme u))
       else if url_hostname u = [] \<or> url_port u = [] then Some (SocksHostPort i)
       else if list_ex (\<lambda>c. byte_of c > 127) raw then Some (SocksNotAscii i)
       else None)"

definition validate_one :: "string list \<Rightarrow> int list \<Rightarrow> upstream \<Rightarrow> up_error option" where
  "validate_one seen tables u = (let i = up_ID u in
     if i = [] then Some EmptyId
     else (case CheckName ''upstream: id'' i of Inl e \<Rightarrow> Some (BadId e)
     | Inr _ \<Rightarrow>
       if i \<in> set seen then Some (DuplicateId i)
       else
         (case (if IsSOCKS u then
             (if up_Iface u \<noteq> [] \<or> up_Gateway u \<noteq> [] then Some (SocksExclusive i)
              else (case validateSOCKSURL i (up_SOCKS u) of Some e \<Rightarrow> Some e
                | None \<Rightarrow> if up_DialTimeout u < 0 \<or> up_HandshakeTimeout u < 0
                     then Some (NegativeTimeout i) else None))
           else
             (if \<not> ifaceRe (up_Iface u) then Some (InvalidIface i (up_Iface u))
              else if up_Gateway u \<noteq> [] \<and> parse_ip (up_Gateway u) = None
                then Some (BadGateway i (up_Gateway u))
              else if up_DialTimeout u \<noteq> 0 \<or> up_HandshakeTimeout u \<noteq> 0
                then Some (TimeoutSocksOnly i) else None))
          of Some e \<Rightarrow> Some e
          | None \<Rightarrow>
            if up_Table u < tableBase \<or> up_Table u \<ge> tableBase + int maxUpstreams
              then Some (TableOutside i (up_Table u))
            else if up_Table u \<in> set tables then Some (TableUsed i (up_Table u))
            else None)))"

fun validate_ups :: "string list \<Rightarrow> int list \<Rightarrow> upstream list \<Rightarrow> up_error option" where
  "validate_ups seen tables [] = None"
| "validate_ups seen tables (u # us) = (case validate_one seen tables u of
     Some e \<Rightarrow> Some e
   | None \<Rightarrow> validate_ups (up_ID u # seen) (up_Table u # tables) us)"

fun validate_percn :: "string list \<Rightarrow> (string \<times> string) list \<Rightarrow> up_error option" where
  "validate_percn ids [] = None"
| "validate_percn ids ((cn, i) # r) =
     (if i \<notin> set ids then Some (PerCNUndefined cn i) else validate_percn ids r)"

definition Validate :: "config \<Rightarrow> (up_error, unit) result" where
  "Validate c = (let seen = map up_ID (cf_Upstreams c) in
     case validate_ups [] [] (cf_Upstreams c) of Some e \<Rightarrow> Inl e
     | None \<Rightarrow>
       if cf_Default c \<noteq> [] \<and> cf_Default c \<notin> set seen then Inl (DefaultUndefined (cf_Default c))
       else (case validate_percn seen (cf_PerCN c) of Some e \<Rightarrow> Inl e | None \<Rightarrow> Inr ()))"

subsection \<open>Operations\<close>

text \<open>\<^verbatim>\<open>WithAdded\<close> returns \<open>c\<close> itself beside the error, \<open>Inl\<close> here.\<close>

definition WithAdded :: "config \<Rightarrow> upstream \<Rightarrow> (up_error, config \<times> upstream) result" where
  "WithAdded c u = (case NextTable (cf_Upstreams c) of Inl e \<Rightarrow> Inl e
     | Inr t \<Rightarrow>
       (let u' = u\<lparr>up_Table := t\<rparr>; cfg = c\<lparr>cf_Upstreams := cf_Upstreams c @ [u']\<rparr> in
        case Validate cfg of Inl e \<Rightarrow> Inl e | Inr _ \<Rightarrow> Inr (cfg, u')))"

definition Without :: "config \<Rightarrow> string \<Rightarrow> config \<times> bool" where
  "Without c i =
     (c\<lparr>cf_Upstreams := filter (\<lambda>u. up_ID u \<noteq> i) (cf_Upstreams c),
        cf_Default := (if cf_Default c = i then [] else cf_Default c),
        cf_PerCN := filter (\<lambda>(cn, target). target \<noteq> i) (cf_PerCN c)\<rparr>,
      \<exists>u \<in> set (cf_Upstreams c). up_ID u = i)"

text \<open>\<^verbatim>\<open>validated\<close>: \<open>Inl\<close> carries the error, the caller keeps its own \<open>c\<close>.\<close>

definition validated :: "config \<Rightarrow> (config \<Rightarrow> config) \<Rightarrow> (up_error, config) result" where
  "validated c mutate = (let cfg = mutate c in
     case Validate cfg of Inl e \<Rightarrow> Inl e | Inr _ \<Rightarrow> Inr cfg)"

definition Assign :: "config \<Rightarrow> string \<Rightarrow> string \<Rightarrow> bool \<Rightarrow> (up_error, config) result" where
  "Assign c cn i clear = (if cn = [] \<or> clear = (i \<noteq> []) then Inl AssignArgs
     else validated c (\<lambda>cfg. cfg\<lparr>cf_PerCN :=
       (if clear then AList.delete cn (cf_PerCN c) else AList.update cn i (cf_PerCN c))\<rparr>))"

definition SetDefault :: "config \<Rightarrow> string \<Rightarrow> (up_error, config) result" where
  "SetDefault c i = validated c (\<lambda>cfg. cfg\<lparr>cf_Default := i\<rparr>)"

subsection \<open>What a valid configuration is\<close>

definition socks_ok :: "upstream \<Rightarrow> bool" where
  "socks_ok u = (up_Iface u = [] \<and> up_Gateway u = [] \<and> 0 \<le> up_DialTimeout u \<and> 0 \<le> up_HandshakeTimeout u
     \<and> list_all (\<lambda>c. byte_of c \<le> 127) (up_SOCKS u)
     \<and> (\<exists>l. url_parse (up_SOCKS u) = Some l \<and> u_Scheme l = ''socks5''
          \<and> url_hostname l \<noteq> [] \<and> url_port l \<noteq> []))"

definition iface_ok :: "upstream \<Rightarrow> bool" where
  "iface_ok u = (ifaceRe (up_Iface u) \<and> (up_Gateway u = [] \<or> parse_ip (up_Gateway u) \<noteq> None)
     \<and> up_DialTimeout u = 0 \<and> up_HandshakeTimeout u = 0)"

definition table_ok :: "int \<Rightarrow> bool" where
  "table_ok t = (tableBase \<le> t \<and> t < tableBase + int maxUpstreams)"

definition upstream_ok :: "upstream \<Rightarrow> bool" where
  "upstream_ok u = (nameRe (up_ID u) \<and> (if IsSOCKS u then socks_ok u else iface_ok u) \<and> table_ok (up_Table u))"

definition ids :: "config \<Rightarrow> string set" where
  "ids c = up_ID ` set (cf_Upstreams c)"

definition config_ok :: "config \<Rightarrow> bool" where
  "config_ok c = (list_all upstream_ok (cf_Upstreams c)
     \<and> distinct (map up_ID (cf_Upstreams c)) \<and> distinct (map up_Table (cf_Upstreams c))
     \<and> (cf_Default c = [] \<or> cf_Default c \<in> ids c)
     \<and> snd ` set (cf_PerCN c) \<subseteq> ids c)"

subsection \<open>Validate decides config_ok\<close>

lemma validateSOCKSURL_None:
  "validateSOCKSURL i raw = None \<longleftrightarrow> list_all (\<lambda>c. byte_of c \<le> 127) raw
     \<and> (\<exists>l. url_parse raw = Some l \<and> u_Scheme l = ''socks5'' \<and> url_hostname l \<noteq> [] \<and> url_port l \<noteq> [])"
proof -
  have "list_ex (\<lambda>c. byte_of c > 127) raw \<longleftrightarrow> \<not> list_all (\<lambda>c. byte_of c \<le> 127) raw"
    by (induction raw) auto
  then show ?thesis by (cases "url_parse raw") (auto simp: validateSOCKSURL_def)
qed

lemma validate_one_None:
  "validate_one seen tables u = None \<longleftrightarrow>
     upstream_ok u \<and> up_ID u \<notin> set seen \<and> up_Table u \<notin> set tables"
  by (auto simp: validate_one_def Let_def go_simps upstream_ok_def socks_ok_def iface_ok_def table_ok_def
      validateSOCKSURL_None dest: nameRe_nonempty)

lemma validate_ups_None:
  "validate_ups seen tables us = None \<longleftrightarrow> list_all upstream_ok us
     \<and> distinct (map up_ID us) \<and> distinct (map up_Table us)
     \<and> set (map up_ID us) \<inter> set seen = {} \<and> set (map up_Table us) \<inter> set tables = {}"
  by (induction seen tables us rule: validate_ups.induct)
    (auto simp: validate_one_None go_simps)

lemma validate_percn_None: "validate_percn is ps = None \<longleftrightarrow> snd ` set ps \<subseteq> set is"
  by (induction "is" ps rule: validate_percn.induct) auto

lemma Validate_ok: "Validate c = Inr u \<longleftrightarrow> config_ok c"
  by (auto simp: Validate_def Let_def config_ok_def ids_def go_simps validate_ups_None validate_percn_None)

lemma Validate_error: "Validate c = Inl e \<Longrightarrow> \<not> config_ok c"
  by (metis Validate_ok Inl_Inr_False)

lemma validated_ok: "validated c f = Inr c' \<longleftrightarrow> c' = f c \<and> config_ok (f c)"
  using Validate_ok [of "f c" "()"] by (auto simp: validated_def Let_def split: sum.splits)

lemma config_ok_nil: "config_ok \<lparr>cf_Upstreams = [], cf_Default = [], cf_PerCN = []\<rparr>"
  by (simp add: config_ok_def)

lemma Find_Some: "Find c i = Some u \<Longrightarrow> u \<in> set (cf_Upstreams c) \<and> up_ID u = i"
  unfolding Find_def using find_key_Some [of up_ID i] by blast

lemma Find_ids: "Find c i \<noteq> None \<longleftrightarrow> i \<in> ids c"
  unfolding Find_def ids_def find_key_None by simp

lemma Find_unique: "config_ok c \<Longrightarrow> u \<in> set (cf_Upstreams c) \<Longrightarrow> Find c (up_ID u) = Some u"
  unfolding Find_def config_ok_def by (auto intro: find_key_unique)

lemma config_ok_Table_inj:
  "config_ok c \<Longrightarrow> u \<in> set (cf_Upstreams c) \<Longrightarrow> v \<in> set (cf_Upstreams c)
     \<Longrightarrow> up_Table u = up_Table v \<longleftrightarrow> u = v"
  by (auto simp: config_ok_def distinct_map dest: inj_onD)

subsection \<open>NextTable\<close>

lemma next_table_loop_Some:
  "next_table_loop used i n = Some t \<Longrightarrow>
     t \<notin> set used \<and> tableBase + int i \<le> t \<and> t < tableBase + int (i + n)
     \<and> (\<forall>s. tableBase + int i \<le> s \<and> s < t \<longrightarrow> s \<in> set used)"
proof (induction used i n rule: next_table_loop.induct)
  case (2 used i n)
  show ?case
  proof (cases "tableBase + int i \<in> set used")
    case True
    with 2 have h: "t \<notin> set used \<and> tableBase + int (i + 1) \<le> t \<and> t < tableBase + int (i + 1 + n)
       \<and> (\<forall>s. tableBase + int (i + 1) \<le> s \<and> s < t \<longrightarrow> s \<in> set used)" by simp
    show ?thesis
    proof (intro conjI allI impI)
      fix s assume "tableBase + int i \<le> s \<and> s < t"
      then show "s \<in> set used" using h True by (cases "s = tableBase + int i") auto
    qed (use h in auto)
  qed (use 2 in auto)
qed simp

lemma next_table_loop_None:
  "next_table_loop used i n = None \<longleftrightarrow> {tableBase + int i ..< tableBase + int (i + n)} \<subseteq> set used"
proof (induction used i n rule: next_table_loop.induct)
  case (2 used i n)
  have "{tableBase + int i ..< tableBase + int (i + Suc n)}
      = insert (tableBase + int i) {tableBase + int (i + 1) ..< tableBase + int (i + 1 + n)}"
    by auto
  with 2 show ?case by (simp add: Let_def)
qed simp

lemma NextTable_ok:
  "NextTable us = Inr t \<Longrightarrow> table_ok t \<and> t \<notin> up_Table ` set us
     \<and> (\<forall>s. tableBase \<le> s \<and> s < t \<longrightarrow> s \<in> up_Table ` set us)"
  using next_table_loop_Some [of "map up_Table us" 0 maxUpstreams t]
  by (simp add: NextTable_def table_ok_def split: option.splits)

lemma band_card: "card {tableBase ..< tableBase + int maxUpstreams} = maxUpstreams"
  by simp

lemma NextTable_error:
  "NextTable us = Inl e \<longleftrightarrow> e = NoFreeTable \<and> {tableBase ..< tableBase + int maxUpstreams} \<subseteq> up_Table ` set us"
  using next_table_loop_None [of "map up_Table us" 0 maxUpstreams]
  by (auto simp: NextTable_def split: option.splits)

lemma NextTable_full:
  assumes "config_ok c"
  shows "NextTable (cf_Upstreams c) = Inl e \<longleftrightarrow> e = NoFreeTable \<and> length (cf_Upstreams c) = maxUpstreams"
proof -
  let ?us = "cf_Upstreams c" and ?B = "{tableBase ..< tableBase + int maxUpstreams}"
  have sub: "up_Table ` set ?us \<subseteq> ?B"
    using assms by (auto simp: config_ok_def list_all_iff upstream_ok_def table_ok_def)
  have card: "card (up_Table ` set ?us) = length ?us"
    using assms by (metis config_ok_def distinct_card length_map list.set_map)
  have "?B \<subseteq> up_Table ` set ?us \<longleftrightarrow> length ?us = maxUpstreams"
  proof
    assume "?B \<subseteq> up_Table ` set ?us"
    with sub have "up_Table ` set ?us = ?B" by blast
    with card band_card show "length ?us = maxUpstreams" by metis
  next
    assume "length ?us = maxUpstreams"
    with card band_card have "card (up_Table ` set ?us) = card ?B" by metis
    with sub have "up_Table ` set ?us = ?B" by (intro card_subset_eq) simp_all
    then show "?B \<subseteq> up_Table ` set ?us" by blast
  qed
  then show ?thesis by (simp add: NextTable_error)
qed

subsection \<open>The operations keep validity\<close>

lemma WithAdded_okD:
  "WithAdded c u = Inr (c', v) \<Longrightarrow> config_ok c' \<and> v = u\<lparr>up_Table := up_Table v\<rparr>
     \<and> c' = c\<lparr>cf_Upstreams := cf_Upstreams c @ [v]\<rparr> \<and> NextTable (cf_Upstreams c) = Inr (up_Table v)"
  by (auto simp: WithAdded_def Let_def Validate_ok split: sum.splits)

lemma WithAdded_succeeds:
  assumes "config_ok c" "length (cf_Upstreams c) < maxUpstreams"
    and "upstream_ok (u\<lparr>up_Table := tableBase\<rparr>)" "up_ID u \<notin> ids c"
  shows "\<exists>c' v. WithAdded c u = Inr (c', v)"
proof -
  obtain t where t: "NextTable (cf_Upstreams c) = Inr t"
    using NextTable_full [OF assms(1)] assms(2) by (cases "NextTable (cf_Upstreams c)") auto
  from NextTable_ok [OF this] have t': "table_ok t" "t \<notin> up_Table ` set (cf_Upstreams c)" by auto
  have "upstream_ok (u\<lparr>up_Table := t\<rparr>)"
    using assms(3) t'(1) by (cases "up_SOCKS u = []")
      (simp_all add: upstream_ok_def IsSOCKS_def socks_ok_def iface_ok_def)
  then have ok: "config_ok (c\<lparr>cf_Upstreams := cf_Upstreams c @ [u\<lparr>up_Table := t\<rparr>]\<rparr>)"
    using assms(1,4) t'(2) by (auto simp: config_ok_def ids_def)
  then have "Validate (c\<lparr>cf_Upstreams := cf_Upstreams c @ [u\<lparr>up_Table := t\<rparr>]\<rparr>) = Inr ()"
    by (simp add: Validate_ok)
  then show ?thesis using t by (simp add: WithAdded_def Let_def)
qed

lemma ids_Without: "ids (fst (Without c i)) = ids c - {i}"
  by (auto simp: Without_def ids_def)

lemma config_ok_Without: "config_ok c \<Longrightarrow> config_ok (fst (Without c i))"
  by (auto simp: config_ok_def Without_def ids_def list_all_iff distinct_map_filter_key)

lemma snd_set_update: "snd ` set (AList.update k v ps) \<subseteq> insert v (snd ` set ps)"
  by (induction ps) auto

lemma map_of_filter_val:
  "distinct (map fst ps) \<Longrightarrow> map_of (filter (\<lambda>(k, v). P v) ps) k
     = (case map_of ps k of None \<Rightarrow> None | Some v \<Rightarrow> if P v then Some v else None)"
proof (induction ps)
  case (Cons p ps)
  obtain a b where p: "p = (a, b)" by (cases p)
  have "k = a \<Longrightarrow> map_of (filter (\<lambda>(k, v). P v) ps) k = None"
    using Cons.prems p by (auto simp: map_of_eq_None_iff)
  then show ?case using Cons p by (auto split: option.splits)
qed simp

lemma Find_Without: "Find (fst (Without c i)) j = (if j = i then None else Find c j)"
proof -
  have "List.find (\<lambda>u. up_ID u = j) (filter (\<lambda>u. up_ID u \<noteq> i) us)
      = (if j = i then None else List.find (\<lambda>u. up_ID u = j) us)"
    for us :: "upstream list"
    by (induction us) auto
  then show ?thesis unfolding Find_def Without_def by simp
qed

lemma Resolve_Without:
  "distinct (map fst (cf_PerCN c)) \<Longrightarrow> Resolve (fst (Without c i)) cn =
     (if map_of (cf_PerCN c) cn = Some i \<or> map_of (cf_PerCN c) cn = None
      then if cf_Default c = i then [] else cf_Default c else Resolve c cn)"
  by (auto simp: Resolve_def Without_def map_of_filter_val [where P = "\<lambda>t. t \<noteq> i"] split: option.splits)

lemma Assign_ok:
  "Assign c cn i clear = Inr c' \<longleftrightarrow> cn \<noteq> [] \<and> clear = (i = []) \<and> config_ok c'
     \<and> c' = c\<lparr>cf_PerCN := (if clear then AList.delete cn (cf_PerCN c) else AList.update cn i (cf_PerCN c))\<rparr>"
  by (auto simp: Assign_def validated_ok)

lemma SetDefault_ok: "SetDefault c i = Inr c' \<longleftrightarrow> c' = c\<lparr>cf_Default := i\<rparr> \<and> config_ok c'"
  by (auto simp: SetDefault_def validated_ok)

lemma Resolve_Assign:
  "Assign c cn i clear = Inr c' \<Longrightarrow> Resolve c' n =
     (if n = cn then if clear then cf_Default c else i else Resolve c n)"
  by (auto simp: Assign_ok Resolve_def update_conv' delete_conv' split: option.splits)

lemma config_ok_Assign_clear:
  "config_ok c \<Longrightarrow> cn \<noteq> [] \<Longrightarrow> \<exists>c'. Assign c cn [] True = Inr c'"
  by (auto simp: Assign_ok config_ok_def ids_def AList.delete_eq subset_iff)

lemma Resolve_defined: "config_ok c \<Longrightarrow> Resolve c cn = [] \<or> Resolve c cn \<in> ids c"
  by (force simp: Resolve_def config_ok_def split: option.splits dest: map_of_SomeD)

subsection \<open>Reachable configurations\<close>

text \<open>The configurations the operations build, starting from the empty one.\<close>

inductive cfg_reach :: "config \<Rightarrow> bool" where
  empty: "cfg_reach \<lparr>cf_Upstreams = [], cf_Default = [], cf_PerCN = []\<rparr>"
| added: "cfg_reach c \<Longrightarrow> WithAdded c u = Inr (c', v) \<Longrightarrow> cfg_reach c'"
| without: "cfg_reach c \<Longrightarrow> cfg_reach (fst (Without c i))"
| assigned: "cfg_reach c \<Longrightarrow> Assign c cn i clear = Inr c' \<Longrightarrow> cfg_reach c'"
| default: "cfg_reach c \<Longrightarrow> SetDefault c i = Inr c' \<Longrightarrow> cfg_reach c'"

lemma cfg_reach_inv: "cfg_reach c \<Longrightarrow> config_ok c \<and> distinct (map fst (cf_PerCN c))"
proof (induction rule: cfg_reach.induct)
  case (assigned c cn i clear c')
  then show ?case by (auto simp: Assign_ok distinct_update AList.delete_eq distinct_map_filter_key)
next
  case (without c i)
  then have "config_ok (fst (Without c i))" by (simp add: config_ok_Without)
  moreover have "distinct (map fst (cf_PerCN (fst (Without c i))))"
    using without by (simp add: Without_def distinct_map_filter_key)
  ultimately show ?case by simp
qed (auto simp: config_ok_nil SetDefault_ok dest: WithAdded_okD)

lemma config_ok_length: "config_ok c \<Longrightarrow> length (cf_Upstreams c) \<le> maxUpstreams"
proof -
  assume ok: "config_ok c"
  then have "up_Table ` set (cf_Upstreams c) \<subseteq> {tableBase ..< tableBase + int maxUpstreams}"
    by (auto simp: config_ok_def list_all_iff upstream_ok_def table_ok_def)
  then have "card (up_Table ` set (cf_Upstreams c)) \<le> maxUpstreams"
    using card_mono [of "{tableBase ..< tableBase + int maxUpstreams}"] band_card by (metis finite_atLeastLessThan_int)
  moreover have "card (up_Table ` set (cf_Upstreams c)) = length (cf_Upstreams c)"
    using ok by (metis config_ok_def distinct_card length_map list.set_map)
  ultimately show ?thesis by simp
qed

subsection \<open>Properties\<close>

text \<open>C1: \<^verbatim>\<open>Validate\<close> accepts exactly the configurations whose upstreams are well formed, have
  distinct ids and distinct tables inside the managed band, and whose default and per-client
  references name a defined upstream; a refused configuration names a real defect.\<close>

theorem Validate_iff_config_ok:
  "(Validate c = Inr () \<longleftrightarrow> config_ok c) \<and> (is_ok (Validate c) \<longleftrightarrow> config_ok c)"
  using Validate_ok [of c] by (auto simp: is_ok_iff)

text \<open>C2: every configuration the operations can build is valid: at most 64 upstreams, ids and
  routing tables distinct, all references defined, and any client resolves to nothing or to a
  defined upstream, whose table, rule priority and relay port lie in their own bands.\<close>

theorem reachable_config_valid:
  assumes "cfg_reach c"
  shows "config_ok c \<and> length (cf_Upstreams c) \<le> 64
    \<and> (Resolve c cn = [] \<or> (\<exists>u. Find c (Resolve c cn) = Some u \<and> 100 \<le> up_Table u \<and> up_Table u < 164
          \<and> 20000 \<le> socksPort u \<and> socksPort u < 20064))"
proof -
  have ok: "config_ok c" using cfg_reach_inv [OF assms] by simp
  have "Resolve c cn = [] \<or> (\<exists>u. Find c (Resolve c cn) = Some u \<and> u \<in> set (cf_Upstreams c))"
    using Resolve_defined [OF ok, of cn] Find_ids [of c "Resolve c cn"] Find_Some by blast
  then show ?thesis using ok config_ok_length [OF ok]
    by (auto simp: config_ok_def list_all_iff upstream_ok_def table_ok_def socksPort_def)
qed

definition wan_upstream :: upstream where
  "wan_upstream = \<lparr>up_ID = ''wan'', up_Iface = ''wg0'', up_Gateway = ''10.0.0.1'', up_SOCKS = [],
     up_DialTimeout = 0, up_HandshakeTimeout = 0, up_Table = 0, up_Description = ''link''\<rparr>"

definition wan_config :: config where
  "wan_config = \<lparr>cf_Upstreams = [wan_upstream\<lparr>up_Table := 100\<rparr>], cf_Default = [], cf_PerCN = []\<rparr>"

lemma wan_added:
  "WithAdded \<lparr>cf_Upstreams = [], cf_Default = [], cf_PerCN = []\<rparr> wan_upstream
     = Inr (wan_config, wan_upstream\<lparr>up_Table := 100\<rparr>)"
  by code_simp

lemma wan_config_ok: "config_ok wan_config"
  using wan_added WithAdded_okD by blast

theorem reachable_config_valid_witness:
  "config_ok wan_config \<and> length (cf_Upstreams wan_config) \<le> 64"
proof -
  have "cfg_reach wan_config" by (rule cfg_reach.added [OF cfg_reach.empty wan_added])
  then show ?thesis using reachable_config_valid [of wan_config "''alice''"] by blast
qed

text \<open>\<^verbatim>\<open>NextTable\<close> gives the lowest table of the band that no upstream uses; on a valid
  configuration it fails exactly when all 64 tables are taken.\<close>

theorem NextTable_lowest_free:
  assumes "config_ok c"
  shows "case NextTable (cf_Upstreams c) of
      Inl e \<Rightarrow> e = NoFreeTable \<and> length (cf_Upstreams c) = 64
    | Inr t \<Rightarrow> length (cf_Upstreams c) < 64 \<and> 100 \<le> t \<and> t < 164 \<and> t \<notin> up_Table ` set (cf_Upstreams c)
        \<and> {100..<t} \<subseteq> up_Table ` set (cf_Upstreams c)"
proof (cases "NextTable (cf_Upstreams c)")
  case (Inl e)
  then show ?thesis using NextTable_full [OF assms, of e] by simp
next
  case (Inr t)
  moreover have "length (cf_Upstreams c) \<noteq> 64" using NextTable_full [OF assms, of NoFreeTable] Inr by simp
  ultimately show ?thesis using NextTable_ok [OF Inr] config_ok_length [OF assms] by (auto simp: table_ok_def)
qed

theorem NextTable_lowest_free_witness: "NextTable (cf_Upstreams wan_config) = Inr 101 \<and> length (cf_Upstreams wan_config) < 64"
proof -
  have "NextTable (cf_Upstreams wan_config) = Inr 101" by code_simp
  then show ?thesis using NextTable_lowest_free [OF wan_config_ok] by simp
qed

text \<open>\<^verbatim>\<open>Without\<close> removes an upstream and every reference to it: the result is valid, the id
  is no longer found, no client resolves to it, every other upstream is found as before and a
  client that did not use it resolves as before.\<close>

theorem Without_removes_references:
  assumes "config_ok c" and "distinct (map fst (cf_PerCN c))" and "i \<noteq> []"
  shows "config_ok (fst (Without c i)) \<and> Resolve (fst (Without c i)) cn \<noteq> i
    \<and> Find (fst (Without c i)) j = (if j = i then None else Find c j)
    \<and> (Resolve c cn \<noteq> i \<longrightarrow> Resolve (fst (Without c i)) cn = Resolve c cn)
    \<and> (snd (Without c i) \<longleftrightarrow> Find c i \<noteq> None)"
proof -
  have "snd (Without c i) \<longleftrightarrow> i \<in> ids c" by (auto simp: Without_def ids_def)
  moreover have "Resolve (fst (Without c i)) cn = (if Resolve c cn = i then
      (if cf_Default c = i then [] else cf_Default c) else Resolve c cn)"
    unfolding Resolve_Without [OF assms(2)] by (auto simp: Resolve_def split: option.splits)
  ultimately show ?thesis using assms Find_ids [of c i]
    by (auto simp: config_ok_Without Find_Without)
qed

theorem Without_removes_references_witness:
  "Find (fst (Without wan_config ''wan'')) ''wan'' = None \<and> snd (Without wan_config ''wan'')"
proof -
  have "distinct (map fst (cf_PerCN wan_config))" by (simp add: wan_config_def)
  moreover have "snd (Without wan_config ''wan'')" by code_simp
  ultimately show ?thesis
    using Without_removes_references [OF wan_config_ok, of "''wan''" "''alice''" "''wan''"] by simp
qed

text \<open>A successful \<^verbatim>\<open>Assign\<close> keeps the configuration valid, makes exactly that client
  resolve to the given upstream (or, when it clears, to the default) and changes no other
  client's upstream; it fails without an effect on empty or contradictory arguments and on an
  undefined upstream.\<close>

theorem Assign_resolves:
  assumes "config_ok c"
  shows "case Assign c cn i clear of
      Inl e \<Rightarrow> cn = [] \<or> clear = (i \<noteq> []) \<or> (\<not> clear \<and> i \<notin> ids c)
    | Inr c' \<Rightarrow> config_ok c' \<and> cf_Upstreams c' = cf_Upstreams c \<and> cf_Default c' = cf_Default c
        \<and> Resolve c' cn = (if clear then cf_Default c else i) \<and> (\<forall>n. n \<noteq> cn \<longrightarrow> Resolve c' n = Resolve c n)"
proof (cases "Assign c cn i clear")
  case (Inl e)
  have "cn = [] \<or> clear = (i \<noteq> []) \<or> (\<not> clear \<and> i \<notin> ids c)"
  proof (rule ccontr)
    assume n: "\<not> ?thesis"
    let ?c = "c\<lparr>cf_PerCN := (if clear then AList.delete cn (cf_PerCN c) else AList.update cn i (cf_PerCN c))\<rparr>"
    have "snd ` set (AList.update cn i (cf_PerCN c)) \<subseteq> insert i (snd ` set (cf_PerCN c))"
      by (rule snd_set_update)
    then have "config_ok ?c" using assms n by (auto simp: config_ok_def ids_def AList.delete_eq)
    then show False using n Inl Assign_ok [of c cn i clear ?c] by auto
  qed
  with Inl show ?thesis by simp
next
  case (Inr c')
  then have a: "config_ok c'" "cf_Upstreams c' = cf_Upstreams c" "cf_Default c' = cf_Default c"
    by (auto simp: Assign_ok)
  show ?thesis unfolding Inr sum.case by (simp add: a Resolve_Assign [OF Inr])
qed

theorem Assign_resolves_witness:
  "\<exists>c'. Assign wan_config ''alice'' ''wan'' False = Inr c' \<and> Resolve c' ''alice'' = ''wan'' \<and> Resolve c' ''bob'' = []"
proof -
  have "is_ok (Assign wan_config ''alice'' ''wan'' False)" by code_simp
  then obtain c' where c': "Assign wan_config ''alice'' ''wan'' False = Inr c'" by (auto simp: is_ok_iff)
  have "Resolve wan_config ''bob'' = []" by (simp add: Resolve_def wan_config_def)
  then show ?thesis using Assign_resolves [OF wan_config_ok, where cn = "''alice''" and i = "''wan''" and clear = False] c' by simp
qed

end
