(* ===== verification/Upstream_Live.thy ===== *)
theory Upstream_Live
  imports Upstream_Config
begin

section \<open>Upstreams: the live state\<close>

text \<open>
  The half of \<^verbatim>\<open>src/internal/upstream/upstream.go\<close> that changes the host, with the relay
  reconciliation of \<^verbatim>\<open>socks.go\<close>. The programs \<^verbatim>\<open>ip\<close> and \<^verbatim>\<open>nft\<close> and the listening sockets are
  the fields of a record \<open>host\<close>: functions on an unknown state \<open>'w\<close> of the host. The package
  variables \<open>tracked\<close> and \<open>socksRelays\<close> are the other fields of the state; each operation is a
  function from the state to its errors and the next state, atomic because the code holds
  \<open>applyMu\<close> throughout. \<open>nft_laws\<close> states what \<^verbatim>\<open>nft\<close> documents of the rules of the chain.
\<close>

subsection \<open>The commands\<close>

definition rulePrio :: "int \<Rightarrow> int" where
  "rulePrio table = rulePrioBase + (table - tableBase)"

fun teardown_from :: "nat \<Rightarrow> nat \<Rightarrow> string list list" where
  "teardown_from i 0 = []"
| "teardown_from i (Suc n) = (let table = tableBase + int i in
     [''rule'', ''del'', ''priority'', itoa (rulePrio table)]
     # [''route'', ''flush'', ''table'', itoa table] # teardown_from (i + 1) n)"

definition teardownArgs :: "string list list" where
  "teardownArgs = teardown_from 0 maxUpstreams"

definition routeArgs :: "upstream \<Rightarrow> string list list" where
  "routeArgs u = (let table = itoa (up_Table u) in
     [(if up_Gateway u \<noteq> []
        then [''route'', ''replace'', ''default'', ''via'', up_Gateway u, ''dev'', up_Iface u, ''table'', table]
        else [''route'', ''replace'', ''default'', ''dev'', up_Iface u, ''table'', table]),
      [''route'', ''replace'', ''unreachable'', ''default'', ''table'', table, ''metric'', ''999''],
      [''rule'', ''add'', ''fwmark'', table, ''table'', table, ''priority'', itoa (rulePrio (up_Table u))]])"

text \<open>\<^verbatim>\<open>%q\<close> on a string of printable ASCII without quote or backslash, which is what the
  validated interface names are.\<close>

definition quote_plain :: "string \<Rightarrow> string" where
  "quote_plain s = [DQ] @ s @ [DQ]"

definition default_line :: "config \<Rightarrow> string" where
  "default_line cfg = (case Find cfg (Resolve cfg []) of None \<Rightarrow> []
     | Some u \<Rightarrow> [TAB, TAB] @ ''iifname '' @ quote_plain TunDev @ '' meta mark set '' @ itoa (up_Table u) @ NL)"

definition redirect_line :: "upstream \<Rightarrow> string" where
  "redirect_line u = (if \<not> IsSOCKS u then [] else
     [TAB, TAB] @ ''meta mark '' @ itoa (up_Table u) @ '' meta l4proto tcp redirect to :'' @ itoa (socksPort u) @ NL)"

definition masq_line :: "(string \<Rightarrow> bool) \<Rightarrow> upstream \<Rightarrow> string" where
  "masq_line ifaceExists u = (if IsSOCKS u \<or> \<not> ifaceExists (up_Iface u) then [] else
     [TAB, TAB] @ ''meta mark '' @ itoa (up_Table u) @ '' oif '' @ quote_plain (up_Iface u) @ '' masquerade'' @ NL)"

definition nftRuleset :: "(string \<Rightarrow> bool) \<Rightarrow> config \<Rightarrow> string" where
  "nftRuleset ifaceExists cfg =
     ''table inet '' @ nftTable @ '' {'' @ NL
     @ [TAB] @ ''chain '' @ preroutingChain @ '' {'' @ NL
     @ [TAB, TAB] @ ''type filter hook prerouting priority mangle; policy accept;'' @ NL
     @ default_line cfg
     @ [TAB] @ ''}'' @ NL @ [TAB] @ ''chain '' @ redirectChain @ '' {'' @ NL
     @ [TAB, TAB] @ ''type nat hook prerouting priority dstnat; policy accept;'' @ NL
     @ concat (map redirect_line (cf_Upstreams cfg))
     @ [TAB] @ ''}'' @ NL @ [TAB] @ ''chain '' @ postroutingChain @ '' {'' @ NL
     @ [TAB, TAB] @ ''type nat hook postrouting priority srcnat; policy accept;'' @ NL
     @ concat (map (masq_line ifaceExists) (cf_Upstreams cfg))
     @ [TAB, TAB] @ ''iifname '' @ quote_plain TunDev @ '' meta mark 0 masquerade'' @ NL
     @ [TAB] @ ''}'' @ NL @ ''}'' @ NL"

definition addRuleArgs :: "string \<Rightarrow> int \<Rightarrow> string list" where
  "addRuleArgs ip table = [''-a'', ''-e'', ''add'', ''rule'', ''inet'', nftTable, preroutingChain,
     ''iifname'', TunDev, ''ip'', ''saddr'', ip, ''meta'', ''mark'', ''set'', itoa table]"

definition removeRuleArgs :: "int \<Rightarrow> string list" where
  "removeRuleArgs hn = [''delete'', ''rule'', ''inet'', nftTable, preroutingChain, ''handle'', itoa hn]"

definition deleteTableArgs :: "string list" where
  "deleteTableArgs = [''delete'', ''table'', ''inet'', nftTable]"

datatype live_error =
    ConfigError up_error
  | CmdFailed string "string list"
  | NftCheckFailed
  | NftApplyFailed
  | BadClientIP string
  | AddRuleFailed
  | NoHandle
  | BadHandle string
  | AssignedGone string
  | ReinstallGone string string
  | ReinstallFailed string live_error
  | RelayUnparseable string
  | RelayListenFailed string

fun parse_handle_lines :: "string list \<Rightarrow> (live_error, int) result" where
  "parse_handle_lines [] = Inl NoHandle"
| "parse_handle_lines (l # ls) = (case cut_s ''# handle '' l of
     Some (a, b) \<Rightarrow> (case atoi (trim_space b) of Some n \<Rightarrow> Inr n | None \<Rightarrow> Inl (BadHandle (trim_space b)))
   | None \<Rightarrow> parse_handle_lines ls)"

definition parseHandle :: "string \<Rightarrow> (live_error, int) result" where
  "parseHandle out = parse_handle_lines (split_c LF out)"

subsection \<open>State and host\<close>

record trackedRule =
  tr_ip :: string
  tr_cn :: string
  tr_handle :: int

record 'w host =
  h_ip :: "string list \<Rightarrow> 'w \<Rightarrow> bool \<times> 'w"
  h_nft :: "string list \<Rightarrow> string \<Rightarrow> 'w \<Rightarrow> bool \<times> string \<times> 'w"
  h_iface :: "string \<Rightarrow> 'w \<Rightarrow> bool"
  h_listen :: "int \<Rightarrow> 'w \<Rightarrow> bool \<times> 'w"
  h_close :: "int \<Rightarrow> 'w \<Rightarrow> 'w"

record 'w live =
  lv_world :: 'w
  lv_tracked :: "(string \<times> trackedRule) list"
  lv_relays :: "(int \<times> upstream) list"

definition run_ip :: "'w host \<Rightarrow> string list \<Rightarrow> 'w live \<Rightarrow> live_error list \<times> 'w live" where
  "run_ip h args st = (case h_ip h args (lv_world st) of (ok, w) \<Rightarrow>
     ((if ok then [] else [CmdFailed ''ip'' args]), st\<lparr>lv_world := w\<rparr>))"

definition run_nft :: "'w host \<Rightarrow> string list \<Rightarrow> string \<Rightarrow> 'w live \<Rightarrow> bool \<times> string \<times> 'w live" where
  "run_nft h args stdin st = (case h_nft h args stdin (lv_world st) of (ok, out, w) \<Rightarrow>
     (ok, out, st\<lparr>lv_world := w\<rparr>))"

fun run_all :: "'w host \<Rightarrow> string list list \<Rightarrow> 'w live \<Rightarrow> live_error list \<times> 'w live" where
  "run_all h [] st = ([], st)"
| "run_all h (a # as) st = (case run_ip h a st of (e, st1) \<Rightarrow>
     (case run_all h as st1 of (es, st2) \<Rightarrow> (e @ es, st2)))"

definition clearBand :: "'w host \<Rightarrow> 'w live \<Rightarrow> 'w live" where
  "clearBand h st = snd (snd (run_nft h deleteTableArgs [] (snd (run_all h teardownArgs st))))"

subsection \<open>One client's rule\<close>

definition addRule :: "'w host \<Rightarrow> string \<Rightarrow> int \<Rightarrow> 'w live \<Rightarrow> (live_error, int) result \<times> 'w live" where
  "addRule h ip table st =
     (if Option.bind (parse_ip ip) to4 = None then (Inl (BadClientIP ip), st)
      else (case run_nft h (addRuleArgs ip table) [] st of (ok, out, st1) \<Rightarrow>
        if \<not> ok then (Inl AddRuleFailed, st1) else (parseHandle out, st1)))"

definition removeRule :: "'w host \<Rightarrow> int \<Rightarrow> 'w live \<Rightarrow> live_error list \<times> 'w live" where
  "removeRule h hn st = (case run_nft h (removeRuleArgs hn) [] st of (ok, out, st1) \<Rightarrow>
     ((if ok then [] else [CmdFailed ''nft'' (removeRuleArgs hn)]), st1))"

definition addTracked ::
  "'w host \<Rightarrow> string \<Rightarrow> string \<Rightarrow> string \<Rightarrow> upstream \<Rightarrow> 'w live \<Rightarrow> live_error list \<times> 'w live" where
  "addTracked h cid cn ip up st = (case addRule h ip (up_Table up) st of
     (Inl e, st1) \<Rightarrow> ([e], st1)
   | (Inr hn, st1) \<Rightarrow> ([], st1\<lparr>lv_tracked :=
        AList.update cid \<lparr>tr_ip = ip, tr_cn = cn, tr_handle = hn\<rparr> (lv_tracked st1)\<rparr>))"

text \<open>A failed removal of the old rule is only logged.\<close>

definition installRule ::
  "'w host \<Rightarrow> string \<Rightarrow> string \<Rightarrow> string \<Rightarrow> upstream \<Rightarrow> 'w live \<Rightarrow> live_error list \<times> 'w live" where
  "installRule h cid cn ip up st = (let old = map_of (lv_tracked st) cid in
     case addTracked h cid cn ip up st of (es, st1) \<Rightarrow>
       if es \<noteq> [] then (es, st1)
       else (case old of None \<Rightarrow> ([], st1)
         | Some e \<Rightarrow> ([], snd (removeRule h (tr_handle e) st1))))"

definition uninstallRule :: "'w host \<Rightarrow> string \<Rightarrow> 'w live \<Rightarrow> live_error list \<times> 'w live" where
  "uninstallRule h cid st = (case map_of (lv_tracked st) cid of
     None \<Rightarrow> ([], st)
   | Some e \<Rightarrow> (case removeRule h (tr_handle e) st of (es, st1) \<Rightarrow>
       if es \<noteq> [] then (es, st1)
       else ([], st1\<lparr>lv_tracked := AList.delete cid (lv_tracked st1)\<rparr>)))"

definition Establish ::
  "'w host \<Rightarrow> string \<Rightarrow> string \<Rightarrow> string \<Rightarrow> config \<Rightarrow> 'w live \<Rightarrow> live_error list \<times> 'w live" where
  "Establish h cid cn ip cfg st = (case map_of (cf_PerCN cfg) cn of
     None \<Rightarrow> ([], st)
   | Some i \<Rightarrow> (case Find cfg i of
       None \<Rightarrow> ([AssignedGone i], st)
     | Some up \<Rightarrow> addTracked h cid cn ip up st))"

definition Disconnect :: "'w host \<Rightarrow> string \<Rightarrow> 'w live \<Rightarrow> 'w live" where
  "Disconnect h cid st = snd (uninstallRule h cid st)"

definition Reassign ::
  "'w host \<Rightarrow> string \<Rightarrow> string \<Rightarrow> string \<Rightarrow> config \<Rightarrow> 'w live \<Rightarrow> live_error list \<times> 'w live" where
  "Reassign h cid cn ip cfg st = (case map_of (cf_PerCN cfg) cn of
     None \<Rightarrow> uninstallRule h cid st
   | Some i \<Rightarrow> (case Find cfg i of
       None \<Rightarrow> ([AssignedGone i], st)
     | Some up \<Rightarrow> installRule h cid cn ip up st))"

fun clear_cids :: "'w host \<Rightarrow> string list \<Rightarrow> 'w live \<Rightarrow> 'w live" where
  "clear_cids h [] st = st"
| "clear_cids h (c # cs) st = clear_cids h cs (snd (uninstallRule h c st))"

definition ClearAll :: "'w host \<Rightarrow> 'w live \<Rightarrow> 'w live" where
  "ClearAll h st = clear_cids h (map fst (lv_tracked st)) st"

subsection \<open>The SOCKS relays\<close>

definition zero_upstream :: upstream where
  "zero_upstream = \<lparr>up_ID = [], up_Iface = [], up_Gateway = [], up_SOCKS = [], up_DialTimeout = 0,
     up_HandshakeTimeout = 0, up_Table = 0, up_Description = []\<rparr>"

fun relays_want :: "upstream list \<Rightarrow> (int \<times> upstream) list \<Rightarrow> (int \<times> upstream) list" where
  "relays_want [] acc = acc"
| "relays_want (u # us) acc = relays_want us (if IsSOCKS u then AList.update (socksPort u) u acc else acc)"

definition want_of :: "(int \<times> upstream) list \<Rightarrow> int \<Rightarrow> upstream" where
  "want_of want port = (case map_of want port of Some u \<Rightarrow> u | None \<Rightarrow> zero_upstream)"

fun relays_stop :: "'w host \<Rightarrow> (int \<times> upstream) list \<Rightarrow> (int \<times> upstream) list \<Rightarrow> 'w live \<Rightarrow> 'w live" where
  "relays_stop h want [] st = st"
| "relays_stop h want ((port, u) # rs) st = relays_stop h want rs
     (if want_of want port \<noteq> u
      then st\<lparr>lv_world := h_close h port (lv_world st), lv_relays := AList.delete port (lv_relays st)\<rparr>
      else st)"

fun relays_start :: "'w host \<Rightarrow> (int \<times> upstream) list \<Rightarrow> 'w live \<Rightarrow> live_error list \<times> 'w live" where
  "relays_start h [] st = ([], st)"
| "relays_start h ((port, u) # ws) st =
     (if map_of (lv_relays st) port \<noteq> None then relays_start h ws st
      else if url_parse (up_SOCKS u) = None then
        (case relays_start h ws st of (es, st2) \<Rightarrow> (RelayUnparseable (up_ID u) # es, st2))
      else (case h_listen h port (lv_world st) of (ok, w) \<Rightarrow>
        (let st1 = st\<lparr>lv_world := w\<rparr> in
         if \<not> ok then
           (case relays_start h ws st1 of (es, st2) \<Rightarrow> (RelayListenFailed (up_ID u) # es, st2))
         else relays_start h ws (st1\<lparr>lv_relays := AList.update port u (lv_relays st1)\<rparr>))))"

definition syncSOCKSRelays :: "'w host \<Rightarrow> config \<Rightarrow> 'w live \<Rightarrow> live_error list \<times> 'w live" where
  "syncSOCKSRelays h cfg st = (let want = relays_want (cf_Upstreams cfg) [] in
     relays_start h want (relays_stop h want (lv_relays st) st))"

definition resolveTimeout :: "int \<Rightarrow> int \<Rightarrow> int" where
  "resolveTimeout perUpstream dflt = (if perUpstream \<le> 0 then dflt else perUpstream)"

definition envSeconds :: "string \<Rightarrow> int \<Rightarrow> int" where
  "envSeconds v dflt = (if v \<noteq> [] then (case atoi v of Some n \<Rightarrow> if n > 0 then n else dflt | None \<Rightarrow> dflt) else dflt)"

subsection \<open>Apply and Teardown\<close>

fun reinstall_each ::
  "'w host \<Rightarrow> config \<Rightarrow> (string \<times> trackedRule) list \<Rightarrow> 'w live \<Rightarrow> live_error list \<times> 'w live" where
  "reinstall_each h cfg [] st = ([], st)"
| "reinstall_each h cfg ((cid, e) # es) st =
     (case map_of (cf_PerCN cfg) (tr_cn e) of
        None \<Rightarrow> reinstall_each h cfg es (st\<lparr>lv_tracked := AList.delete cid (lv_tracked st)\<rparr>)
      | Some i \<Rightarrow> (case Find cfg i of
          None \<Rightarrow> (case reinstall_each h cfg es (st\<lparr>lv_tracked := AList.delete cid (lv_tracked st)\<rparr>) of
              (errs, st2) \<Rightarrow> (ReinstallGone (tr_cn e) i # errs, st2))
        | Some up \<Rightarrow> (case addTracked h cid (tr_cn e) (tr_ip e) up st of (er, st1) \<Rightarrow>
            if er = [] then reinstall_each h cfg es st1
            else (case reinstall_each h cfg es (st1\<lparr>lv_tracked := AList.delete cid (lv_tracked st1)\<rparr>) of
              (errs, st2) \<Rightarrow> (map (ReinstallFailed (tr_cn e)) er @ errs, st2)))))"

definition reinstall :: "'w host \<Rightarrow> config \<Rightarrow> 'w live \<Rightarrow> live_error list \<times> 'w live" where
  "reinstall h cfg st = reinstall_each h cfg (lv_tracked st) st"

definition apply_routes :: "'w host \<Rightarrow> upstream list \<Rightarrow> 'w live \<Rightarrow> live_error list \<times> 'w live" where
  "apply_routes h us st = run_all h (concat (map routeArgs (filter (\<lambda>u. \<not> IsSOCKS u) us))) st"

definition Apply :: "'w host \<Rightarrow> config \<Rightarrow> 'w live \<Rightarrow> live_error list \<times> 'w live" where
  "Apply h cfg st = (case Validate cfg of Inl e \<Rightarrow> ([ConfigError e], st)
     | Inr _ \<Rightarrow>
       (case apply_routes h (cf_Upstreams cfg) (clearBand h st) of (e1, st2) \<Rightarrow>
       (case syncSOCKSRelays h cfg st2 of (e2, st3) \<Rightarrow>
       (let rs = nftRuleset (\<lambda>i. h_iface h i (lv_world st3)) cfg in
       (case run_nft h [''-c'', ''-f'', ''-''] rs st3 of (ok, _, st4) \<Rightarrow>
         if \<not> ok then (e1 @ e2 @ [NftCheckFailed], st4)
         else (case run_nft h [''-f'', ''-''] rs st4 of (ok2, _, st5) \<Rightarrow>
           if \<not> ok2 then (e1 @ e2 @ [NftApplyFailed], st5)
           else (case reinstall h cfg st5 of (e3, st6) \<Rightarrow> (e1 @ e2 @ e3, st6))))))))"

definition Teardown :: "'w host \<Rightarrow> 'w live \<Rightarrow> live_error list \<times> 'w live" where
  "Teardown h st = syncSOCKSRelays h \<lparr>cf_Upstreams = [], cf_Default = [], cf_PerCN = []\<rparr> (clearBand h st)"

subsection \<open>What nft promises\<close>

text \<open>
  \<open>rules w\<close> are the mark rules of the chain in the host state \<open>w\<close>: handle, source address and
  mark. \<^verbatim>\<open>nft add rule -e -a\<close> prints the handle it gave, never one in use; deleting by handle
  removes that rule only; a failed command changes nothing; loading the ruleset, which declares
  no per-client rule, keeps those there are; deleting the table drops them all.
\<close>

type_synonym rule = "int \<times> string \<times> int"

definition nft_add_law :: "'w host \<Rightarrow> ('w \<Rightarrow> rule list) \<Rightarrow> bool" where
  "nft_add_law h rules \<longleftrightarrow> (\<forall>ip t w. case h_nft h (addRuleArgs ip t) [] w of (ok, out, w') \<Rightarrow>
     if ok then (\<exists>n. parseHandle out = Inr n \<and> n \<notin> fst ` set (rules w) \<and> rules w' = rules w @ [(n, ip, t)])
     else rules w' = rules w)"

definition nft_remove_law :: "'w host \<Rightarrow> ('w \<Rightarrow> rule list) \<Rightarrow> bool" where
  "nft_remove_law h rules \<longleftrightarrow> (\<forall>n w. case h_nft h (removeRuleArgs n) [] w of (ok, _, w') \<Rightarrow>
     rules w' = (if ok then filter (\<lambda>r. fst r \<noteq> n) (rules w) else rules w))"

definition nft_table_law :: "'w host \<Rightarrow> ('w \<Rightarrow> rule list) \<Rightarrow> bool" where
  "nft_table_law h rules \<longleftrightarrow>
     (\<forall>w. case h_nft h deleteTableArgs [] w of (ok, _, w') \<Rightarrow> rules w' = (if ok then [] else rules w))
     \<and> (\<forall>rs w. rules (snd (snd (h_nft h [''-c'', ''-f'', ''-''] rs w))) = rules w)
     \<and> (\<forall>rs w. rules (snd (snd (h_nft h [''-f'', ''-''] rs w))) = rules w)"

definition nft_frame_law :: "'w host \<Rightarrow> ('w \<Rightarrow> rule list) \<Rightarrow> bool" where
  "nft_frame_law h rules \<longleftrightarrow> (\<forall>args w. rules (snd (h_ip h args w)) = rules w)
     \<and> (\<forall>p w. rules (snd (h_listen h p w)) = rules w) \<and> (\<forall>p w. rules (h_close h p w) = rules w)"

definition nft_laws :: "'w host \<Rightarrow> ('w \<Rightarrow> rule list) \<Rightarrow> bool" where
  "nft_laws h rules \<longleftrightarrow> nft_add_law h rules \<and> nft_remove_law h rules
     \<and> nft_table_law h rules \<and> nft_frame_law h rules"

text \<open>The mark a packet from \<open>ip\<close> carries when it leaves the chain: the last rule that matches.\<close>

definition mark_of :: "rule list \<Rightarrow> string \<Rightarrow> int option" where
  "mark_of rs ip = map_option (\<lambda>r. snd (snd r)) (List.find (\<lambda>r. fst (snd r) = ip) (rev rs))"

definition has_rule :: "rule list \<Rightarrow> trackedRule \<Rightarrow> bool" where
  "has_rule rs e = (\<exists>t. (tr_handle e, tr_ip e, t) \<in> set rs)"

text \<open>Every tracked client has its own rule; clients in \<open>X\<close> are excepted while a rebuild runs.\<close>

definition live_inv_except :: "string set \<Rightarrow> rule list \<Rightarrow> (string \<times> trackedRule) list \<Rightarrow> bool" where
  "live_inv_except X rs T \<longleftrightarrow> distinct (map fst rs)
     \<and> (\<forall>cid e. cid \<notin> X \<longrightarrow> map_of T cid = Some e \<longrightarrow> has_rule rs e)
     \<and> (\<forall>c d e f. c \<notin> X \<longrightarrow> d \<notin> X \<longrightarrow> c \<noteq> d \<longrightarrow> map_of T c = Some e \<longrightarrow> map_of T d = Some f
          \<longrightarrow> tr_handle e \<noteq> tr_handle f)"

abbreviation live_inv :: "('w \<Rightarrow> rule list) \<Rightarrow> 'w live \<Rightarrow> bool" where
  "live_inv rules st \<equiv> live_inv_except {} (rules (lv_world st)) (lv_tracked st)"

lemma mark_of_append [simp]:
  "mark_of (rs @ [(n, ip, t)]) a = (if a = ip then Some t else mark_of rs a)"
  by (simp add: mark_of_def)

lemma mark_of_filter_last:
  "n \<noteq> m \<Longrightarrow> mark_of (filter (\<lambda>r. fst r \<noteq> m) (rs @ [(n, ip, t)])) ip = Some t"
  by simp

lemma has_rule_append: "has_rule rs e \<Longrightarrow> has_rule (rs @ [r]) e"
  by (auto simp: has_rule_def)

lemma has_rule_filter: "has_rule rs e \<Longrightarrow> tr_handle e \<noteq> n \<Longrightarrow> has_rule (filter (\<lambda>r. fst r \<noteq> n) rs) e"
  by (auto simp: has_rule_def)

lemma has_rule_handle: "has_rule rs e \<Longrightarrow> tr_handle e \<in> fst ` set rs"
  by (force simp: has_rule_def)

lemma inv_except_add:
  assumes "live_inv_except X rs T" and "n \<notin> fst ` set rs"
  shows "live_inv_except (X - {cid}) (rs @ [(n, ip, t)])
           (AList.update cid \<lparr>tr_ip = ip, tr_cn = cn, tr_handle = n\<rparr> T)"
proof -
  have new: "has_rule (rs @ [(n, ip, t)]) \<lparr>tr_ip = ip, tr_cn = cn, tr_handle = n\<rparr>"
    by (auto simp: has_rule_def intro: exI [of _ t])
  have neq: "tr_handle e \<noteq> n" if "c \<notin> X" "map_of T c = Some e" for c e
    using assms that has_rule_handle unfolding live_inv_except_def by metis
  from assms show ?thesis
    unfolding live_inv_except_def
    by (auto simp: update_conv' new has_rule_append dest: neq)
qed

lemma inv_except_delete:
  assumes "live_inv_except X rs T"
  shows "live_inv_except (X - {cid}) rs (AList.delete cid T)"
  using assms unfolding live_inv_except_def by (auto simp: delete_conv' restrict_map_def split: if_splits)

lemma inv_except_mono: "live_inv_except X rs T \<Longrightarrow> X \<subseteq> Y \<Longrightarrow> live_inv_except Y rs T"
  unfolding live_inv_except_def by (meson subsetD)

lemma inv_except_remove_rule:
  assumes "live_inv_except X rs T" and "map_of T cid = Some e" and "cid \<notin> X"
  shows "live_inv_except X (filter (\<lambda>r. fst r \<noteq> tr_handle e) rs) (AList.delete cid T)"
  using assms unfolding live_inv_except_def
  by (auto simp: delete_conv' distinct_map_filter_key intro!: has_rule_filter split: if_splits)

lemma inv_except_drop_stale:
  assumes "live_inv_except {} rs T" and "\<And>c e. map_of T c = Some e \<Longrightarrow> tr_handle e \<noteq> n"
  shows "live_inv_except {} (filter (\<lambda>r. fst r \<noteq> n) rs) T"
  using assms unfolding live_inv_except_def
  by (auto simp: distinct_map_filter_key intro!: has_rule_filter)

subsection \<open>The operations on the rules\<close>

lemma law_add:
  assumes "nft_laws h rules"
  shows "h_nft h (addRuleArgs ip t) [] w = (True, out, w') \<Longrightarrow>
     \<exists>n. parseHandle out = Inr n \<and> n \<notin> fst ` set (rules w) \<and> rules w' = rules w @ [(n, ip, t)]"
    and "h_nft h (addRuleArgs ip t) [] w = (False, out, w') \<Longrightarrow> rules w' = rules w"
proof -
  have l: "case h_nft h (addRuleArgs ip t) [] w of (ok, out, w') \<Rightarrow>
     if ok then (\<exists>n. parseHandle out = Inr n \<and> n \<notin> fst ` set (rules w) \<and> rules w' = rules w @ [(n, ip, t)])
     else rules w' = rules w"
    using assms by (simp only: nft_laws_def nft_add_law_def)
  show "h_nft h (addRuleArgs ip t) [] w = (True, out, w') \<Longrightarrow>
     \<exists>n. parseHandle out = Inr n \<and> n \<notin> fst ` set (rules w) \<and> rules w' = rules w @ [(n, ip, t)]"
    using l by simp
  show "h_nft h (addRuleArgs ip t) [] w = (False, out, w') \<Longrightarrow> rules w' = rules w"
    using l by simp
qed

lemma law_remove:
  assumes "nft_laws h rules" "h_nft h (removeRuleArgs n) [] w = (ok, out, w')"
  shows "rules w' = (if ok then filter (\<lambda>r. fst r \<noteq> n) (rules w) else rules w)"
proof -
  have "case h_nft h (removeRuleArgs n) [] w of (ok, _, w') \<Rightarrow>
     rules w' = (if ok then filter (\<lambda>r. fst r \<noteq> n) (rules w) else rules w)"
    using assms(1) by (simp only: nft_laws_def nft_remove_law_def)
  with assms(2) show ?thesis by simp
qed

lemma law_other:
  assumes "nft_laws h rules"
  shows "rules (snd (h_ip h args w)) = rules w" "rules (snd (h_listen h p w)) = rules w"
    "rules (h_close h p w) = rules w"
  using assms by (simp_all add: nft_laws_def nft_frame_law_def)

lemma law_delete_table:
  assumes "nft_laws h rules" "h_nft h deleteTableArgs [] w = (ok, out, w')"
  shows "rules w' = (if ok then [] else rules w)"
proof -
  have "case h_nft h deleteTableArgs [] w of (ok, _, w') \<Rightarrow> rules w' = (if ok then [] else rules w)"
    using assms(1) by (simp only: nft_laws_def nft_table_law_def)
  with assms(2) show ?thesis by simp
qed

lemma law_load:
  assumes "nft_laws h rules"
  shows "rules (snd (snd (h_nft h [''-c'', ''-f'', ''-''] rs w))) = rules w"
    "rules (snd (snd (h_nft h [''-f'', ''-''] rs w))) = rules w"
  using assms by (simp_all only: nft_laws_def nft_table_law_def)

lemma removeRule_frame:
  "removeRule h n st = (es, st') \<Longrightarrow> lv_tracked st' = lv_tracked st \<and> lv_relays st' = lv_relays st"
  by (auto simp: removeRule_def run_nft_def split: prod.splits)

lemma removeRule_rules:
  assumes "nft_laws h rules" "removeRule h n st = (es, st')"
  shows "rules (lv_world st') = (if es = [] then filter (\<lambda>r. fst r \<noteq> n) (rules (lv_world st)) else rules (lv_world st))"
  using assms law_remove [OF assms(1)]
  by (auto simp: removeRule_def run_nft_def split: prod.splits if_splits)

lemma addTracked_cases:
  assumes "nft_laws h rules" "addTracked h cid cn ip up st = (es, st')"
  obtains (failed) e where "es = [e]" "lv_tracked st' = lv_tracked st" "rules (lv_world st') = rules (lv_world st)"
    "lv_relays st' = lv_relays st"
  | (added) n where "es = []" "n \<notin> fst ` set (rules (lv_world st))"
    "rules (lv_world st') = rules (lv_world st) @ [(n, ip, up_Table up)]"
    "lv_tracked st' = AList.update cid \<lparr>tr_ip = ip, tr_cn = cn, tr_handle = n\<rparr> (lv_tracked st)"
    "lv_relays st' = lv_relays st"
proof -
  obtain ok out w' where x: "h_nft h (addRuleArgs ip (up_Table up)) [] (lv_world st) = (ok, out, w')"
    by (metis prod_cases3)
  consider (bad) "Option.bind (parse_ip ip) to4 = None" | (fail) "Option.bind (parse_ip ip) to4 \<noteq> None" "\<not> ok"
    | (good) "Option.bind (parse_ip ip) to4 \<noteq> None" "ok" by blast
  then show ?thesis
  proof cases
    case bad
    then show ?thesis using assms(2) by (intro failed) (auto simp: addTracked_def addRule_def)
  next
    case fail
    then have "es = [AddRuleFailed] \<and> st' = st\<lparr>lv_world := w'\<rparr>"
      using assms(2) x by (auto simp: addTracked_def addRule_def run_nft_def)
    then show ?thesis using fail x law_add(2) [OF assms(1)] by (intro failed) auto
  next
    case good
    with x have x': "h_nft h (addRuleArgs ip (up_Table up)) [] (lv_world st) = (True, out, w')" by simp
    from law_add(1) [OF assms(1) this] obtain n where "parseHandle out = Inr n" "n \<notin> fst ` set (rules (lv_world st))"
      "rules w' = rules (lv_world st) @ [(n, ip, up_Table up)]" by blast
    with good show ?thesis using assms(2) x
      by (intro added [of n]) (auto simp: addTracked_def addRule_def run_nft_def)
  qed
qed

lemma addTracked_inv:
  assumes "nft_laws h rules" "addTracked h cid cn ip up st = (es, st')" "live_inv rules st"
  shows "live_inv rules st'"
  using assms(1,2)
proof (cases rule: addTracked_cases)
  case failed
  then show ?thesis using assms(3) by simp
next
  case (added n)
  then show ?thesis using inv_except_add [OF assms(3), of n cid ip "up_Table up" cn] by simp
qed

lemma installRule_inv:
  assumes laws: "nft_laws h rules" and r: "installRule h cid cn ip up st = (es, st')" and inv: "live_inv rules st"
  shows "live_inv rules st'"
proof -
  obtain es1 st1 where a: "addTracked h cid cn ip up st = (es1, st1)" by (metis surj_pair)
  note i1 = addTracked_inv [OF laws a inv]
  show ?thesis
  proof (cases "es1 = [] \<and> map_of (lv_tracked st) cid \<noteq> None")
    case False
    then have "st' = st1" using r a by (auto simp: installRule_def Let_def split: if_splits option.splits)
    with i1 show ?thesis by simp
  next
    case True
    then obtain e where e: "map_of (lv_tracked st) cid = Some e" by auto
    obtain es2 st2 where d: "removeRule h (tr_handle e) st1 = (es2, st2)" by (metis surj_pair)
    have st2: "st' = st2" using r a d e True by (simp add: installRule_def)
    from laws a True e i1 show ?thesis
    proof (cases rule: addTracked_cases)
      case failed
      with True show ?thesis by simp
    next
      case (added n)
      have old: "tr_handle e \<in> fst ` set (rules (lv_world st))"
        using inv e has_rule_handle unfolding live_inv_except_def by blast
      have "tr_handle f \<noteq> tr_handle e" if "map_of (lv_tracked st1) c = Some f" for c f
      proof (cases "c = cid")
        case True
        with that added(4) have "tr_handle f = n" by (auto simp: update_conv')
        with added(2) old show ?thesis by metis
      next
        case False
        with that added have "map_of (lv_tracked st) c = Some f" by (simp add: update_conv')
        with False e inv show ?thesis unfolding live_inv_except_def by blast
      qed
      from inv_except_drop_stale [OF i1 this] removeRule_rules [OF laws d] removeRule_frame [OF d] i1
      show ?thesis by (auto simp: st2 split: if_splits)
    qed
  qed
qed

lemma uninstallRule_inv:
  assumes "nft_laws h rules" "uninstallRule h cid st = (es, st')" "live_inv rules st"
  shows "live_inv rules st'"
proof (cases "map_of (lv_tracked st) cid")
  case None
  with assms show ?thesis by (simp add: uninstallRule_def)
next
  case (Some e)
  obtain es1 st1 where d: "removeRule h (tr_handle e) st = (es1, st1)" by (metis surj_pair)
  show ?thesis
    using assms(2,3) Some d removeRule_rules [OF assms(1) d] removeRule_frame [OF d]
      inv_except_remove_rule [OF assms(3) Some]
    by (auto simp: uninstallRule_def split: if_splits)
qed

lemma clear_cids_inv: "nft_laws h rules \<Longrightarrow> live_inv rules st \<Longrightarrow> live_inv rules (clear_cids h cs st)"
proof (induction h cs st rule: clear_cids.induct)
  case (2 h c cs st)
  obtain es st1 where "uninstallRule h c st = (es, st1)" by (metis surj_pair)
  then show ?case using 2 uninstallRule_inv [OF 2(2)] by simp
qed simp

end
