(* ===== verification/Upstream_Rules.thy ===== *)
theory Upstream_Rules
  imports Upstream_Live
begin

section \<open>Upstreams: what holds of the live rules\<close>

text \<open>
  The consequences of the operations of \<open>Upstream_Live\<close>: the step relation of the live state
  with its invariant (every tracked client has a rule of its own), what an operation leaves in
  the chain, the rebuild by \<open>Apply\<close>, and the reconciliation of the SOCKS relays. The
  \<open>logging_host\<close> is a host that records what it is asked and answers arbitrarily; with it
  the order of the commands of \<open>Apply\<close> is a fact about a list.
\<close>

subsection \<open>Frames\<close>

lemma run_all_frame:
  assumes "nft_laws h rules" "run_all h as st = (es, st')"
  shows "rules (lv_world st') = rules (lv_world st) \<and> lv_tracked st' = lv_tracked st \<and> lv_relays st' = lv_relays st"
  using assms(2)
proof (induction "as" arbitrary: st es)
  case (Cons a "as")
  obtain e st1 where r: "run_ip h a st = (e, st1)" by (metis surj_pair)
  obtain es2 st2 where ra: "run_all h as st1 = (es2, st2)" by (metis surj_pair)
  have "st' = st2" using Cons.prems r ra by simp
  moreover have "rules (lv_world st1) = rules (lv_world st) \<and> lv_tracked st1 = lv_tracked st \<and> lv_relays st1 = lv_relays st"
    using r law_other(1) [OF assms(1), of a "lv_world st"]
    by (auto simp: run_ip_def split: prod.splits)
  ultimately show ?case using Cons.IH [of st1 es2] ra by simp
qed simp

lemma relays_stop_frame:
  assumes "nft_laws h rules"
  shows "rules (lv_world (relays_stop h want rs st)) = rules (lv_world st)
     \<and> lv_tracked (relays_stop h want rs st) = lv_tracked st"
proof (induction rs arbitrary: st)
  case (Cons r rs)
  then show ?case by (cases r) (simp add: law_other(3) [OF assms])
qed simp

lemma relays_start_frame:
  assumes "nft_laws h rules"
  shows "rules (lv_world (snd (relays_start h ws st))) = rules (lv_world st)
     \<and> lv_tracked (snd (relays_start h ws st)) = lv_tracked st"
proof (induction ws arbitrary: st)
  case (Cons r ws)
  obtain port u where [simp]: "r = (port, u)" by (cases r)
  obtain ok w where l: "h_listen h port (lv_world st) = (ok, w)" by (metis surj_pair)
  then have "rules w = rules (lv_world st)"
    using law_other(2) [OF assms, of port "lv_world st"] by simp
  then show ?case using Cons l by (simp add: Let_def case_prod_beta)
qed simp

lemma syncSOCKSRelays_frame:
  assumes "nft_laws h rules" "syncSOCKSRelays h cfg st = (es, st')"
  shows "rules (lv_world st') = rules (lv_world st) \<and> lv_tracked st' = lv_tracked st"
  using relays_start_frame [OF assms(1)] relays_stop_frame [OF assms(1)] assms(2)
  by (metis snd_conv syncSOCKSRelays_def)

lemma clearBand_frame:
  assumes "nft_laws h rules"
  shows "lv_tracked (clearBand h st) = lv_tracked st"
    and "rules (lv_world (clearBand h st)) = [] \<or> rules (lv_world (clearBand h st)) = rules (lv_world st)"
proof -
  obtain es st1 where ra: "run_all h teardownArgs st = (es, st1)" by (metis surj_pair)
  obtain ok out w where d: "h_nft h deleteTableArgs [] (lv_world st1) = (ok, out, w)" by (metis prod_cases3)
  note f = run_all_frame [OF assms ra] law_delete_table [OF assms d]
  then show "lv_tracked (clearBand h st) = lv_tracked st"
    and "rules (lv_world (clearBand h st)) = [] \<or> rules (lv_world (clearBand h st)) = rules (lv_world st)"
    using d by (simp_all add: clearBand_def ra run_nft_def)
qed

subsection \<open>The rebuild\<close>

text \<open>Each tracked client outside \<open>X\<close> is routed the way the configuration says.\<close>

definition routed :: "string set \<Rightarrow> config \<Rightarrow> rule list \<Rightarrow> (string \<times> trackedRule) list \<Rightarrow> bool" where
  "routed X cfg rs T \<longleftrightarrow> (\<forall>cid e. cid \<notin> X \<longrightarrow> map_of T cid = Some e \<longrightarrow>
     (\<exists>i u. map_of (cf_PerCN cfg) (tr_cn e) = Some i \<and> Find cfg i = Some u
        \<and> (tr_handle e, tr_ip e, up_Table u) \<in> set rs))"

lemma routed_delete: "routed X cfg rs T \<Longrightarrow> routed (X - {cid}) cfg rs (AList.delete cid T)"
  unfolding routed_def by (auto simp: delete_conv' restrict_map_def split: if_splits)

lemma routed_add:
  assumes "routed X cfg rs T" "map_of (cf_PerCN cfg) cn = Some i" "Find cfg i = Some u"
  shows "routed (X - {cid}) cfg (rs @ [(n, ip, up_Table u)])
     (AList.update cid \<lparr>tr_ip = ip, tr_cn = cn, tr_handle = n\<rparr> T)"
  unfolding routed_def
proof (intro allI impI)
  fix c e assume "c \<notin> X - {cid}"
    and e: "map_of (AList.update cid \<lparr>tr_ip = ip, tr_cn = cn, tr_handle = n\<rparr> T) c = Some e"
  then consider "c = cid" "e = \<lparr>tr_ip = ip, tr_cn = cn, tr_handle = n\<rparr>"
    | "c \<notin> X" "map_of T c = Some e" by (auto simp: update_conv' split: if_splits)
  then show "\<exists>i v. map_of (cf_PerCN cfg) (tr_cn e) = Some i \<and> Find cfg i = Some v
      \<and> (tr_handle e, tr_ip e, up_Table v) \<in> set (rs @ [(n, ip, up_Table u)])"
  proof cases
    case 1
    with assms(2,3) show ?thesis by simp
  next
    case 2
    with assms(1) obtain i v where "map_of (cf_PerCN cfg) (tr_cn e) = Some i" "Find cfg i = Some v"
      "(tr_handle e, tr_ip e, up_Table v) \<in> set rs" unfolding routed_def by blast
    then show ?thesis by auto
  qed
qed

lemma reinstall_each_spec:
  assumes laws: "nft_laws h rules"
  shows "reinstall_each h cfg es st = (errs, st') \<Longrightarrow>
     live_inv_except (fst ` set es) (rules (lv_world st)) (lv_tracked st) \<Longrightarrow>
     routed (fst ` set es) cfg (rules (lv_world st)) (lv_tracked st) \<Longrightarrow>
     live_inv rules st' \<and> routed {} cfg (rules (lv_world st')) (lv_tracked st')"
proof (induction es arbitrary: st errs)
  case (Cons x es)
  obtain cid e where x: "x = (cid, e)" by (cases x)
  let ?X = "fst ` set es"
  have sub: "fst ` set (x # es) - {cid} \<subseteq> ?X" by (auto simp: x)
  have step: "live_inv_except ?X rs T" if "live_inv_except (fst ` set (x # es) - {cid}) rs T" for rs T
    using that sub by (rule inv_except_mono)
  have rstep: "routed ?X cfg rs T" if "routed (fst ` set (x # es) - {cid}) cfg rs T" for rs T
    using that sub unfolding routed_def by blast
  have del: "live_inv_except ?X (rules (lv_world s)) (AList.delete cid (lv_tracked s))
       \<and> routed ?X cfg (rules (lv_world s)) (AList.delete cid (lv_tracked s))"
    if "rules (lv_world s) = rules (lv_world st)" "lv_tracked s = lv_tracked st" for s
    using that Cons.prems(2,3) by (auto intro!: step rstep inv_except_delete routed_delete)
  show ?case
  proof (cases "map_of (cf_PerCN cfg) (tr_cn e)")
    case None
    with Cons.prems(1) Cons.IH [of "st\<lparr>lv_tracked := AList.delete cid (lv_tracked st)\<rparr>"] del [of st]
    show ?thesis by (simp add: x)
  next
    case (Some i)
    show ?thesis
    proof (cases "Find cfg i")
      case None
      with Some Cons.prems(1) Cons.IH [of "st\<lparr>lv_tracked := AList.delete cid (lv_tracked st)\<rparr>"] del [of st]
      show ?thesis by (auto simp: x split: prod.splits)
    next
      case up: (Some up)
      obtain er st1 where a: "addTracked h cid (tr_cn e) (tr_ip e) up st = (er, st1)" by (metis surj_pair)
      from laws a show ?thesis
      proof (cases rule: addTracked_cases)
        case (failed er')
        with Some up a Cons.prems(1) Cons.IH [of "st1\<lparr>lv_tracked := AList.delete cid (lv_tracked st1)\<rparr>"] del [of st1]
        show ?thesis by (auto simp: x split: prod.splits)
      next
        case (added n)
        have "live_inv_except ?X (rules (lv_world st1)) (lv_tracked st1)"
          unfolding added(3,4) by (rule step, rule inv_except_add) (use Cons.prems(2) added(2) in auto)
        moreover have "routed ?X cfg (rules (lv_world st1)) (lv_tracked st1)"
          unfolding added(3,4) by (rule rstep, rule routed_add) (use Cons.prems(3) Some up in auto)
        ultimately show ?thesis using added(1) Some up a Cons.prems(1) Cons.IH [of st1] by (simp add: x)
      qed
    qed
  qed
qed simp

lemma Apply_loaded:
  assumes laws: "nft_laws h rules" and ap: "Apply h cfg st = (errs, st')"
    and ok: "config_ok cfg" and loaded: "NftCheckFailed \<notin> set errs" "NftApplyFailed \<notin> set errs"
    and d: "distinct (map fst (rules (lv_world st)))"
  shows "live_inv rules st' \<and> routed {} cfg (rules (lv_world st')) (lv_tracked st')"
proof -
  have v: "Validate cfg = Inr ()" using ok by (simp add: Validate_ok)
  obtain e1 st2 where r: "apply_routes h (cf_Upstreams cfg) (clearBand h st) = (e1, st2)" by (metis surj_pair)
  obtain e2 st3 where y: "syncSOCKSRelays h cfg st2 = (e2, st3)" by (metis surj_pair)
  let ?rs = "nftRuleset (\<lambda>i. h_iface h i (lv_world st3)) cfg"
  obtain ok1 o1 w4 where c: "h_nft h [''-c'', ''-f'', ''-''] ?rs (lv_world st3) = (ok1, o1, w4)" by (metis prod_cases3)
  obtain ok2 o2 w5 where l: "h_nft h [''-f'', ''-''] ?rs w4 = (ok2, o2, w5)" by (metis prod_cases3)
  obtain e3 st6 where i: "reinstall h cfg (st3\<lparr>lv_world := w5\<rparr>) = (e3, st6)" by (metis surj_pair)
  have st': "st' = st6"
    using ap loaded c l i by (auto simp: Apply_def v r y Let_def run_nft_def split: if_splits)
  have "rules w5 = rules (lv_world (clearBand h st))"
    using run_all_frame [OF laws r [unfolded apply_routes_def]] syncSOCKSRelays_frame [OF laws y]
      law_load(1) [OF laws, of ?rs "lv_world st3"] law_load(2) [OF laws, of ?rs w4] by (simp add: c l)
  then have "distinct (map fst (rules w5))"
    using clearBand_frame(2) [OF laws, of st] d by auto
  then have "live_inv_except (fst ` set (lv_tracked st3)) (rules w5) (lv_tracked st3)"
    and "routed (fst ` set (lv_tracked st3)) cfg (rules w5) (lv_tracked st3)"
    by (auto simp: live_inv_except_def routed_def dest: map_of_SomeD intro: rev_image_eqI)
  then show ?thesis
    using reinstall_each_spec [OF laws i [unfolded reinstall_def]] by (simp add: st')
qed

subsection \<open>The SOCKS relays\<close>

definition relay_inv :: "(int \<times> upstream) list \<Rightarrow> bool" where
  "relay_inv R \<longleftrightarrow> distinct (map fst R) \<and> (\<forall>p u. map_of R p = Some u \<longrightarrow> IsSOCKS u \<and> p = socksPort u)"

lemma relay_inv_nil: "relay_inv []"
  by (simp add: relay_inv_def)

lemma relay_inv_update: "relay_inv R \<Longrightarrow> IsSOCKS u \<Longrightarrow> relay_inv (AList.update (socksPort u) u R)"
  by (auto simp: relay_inv_def update_conv' distinct_update split: if_splits)

lemma relay_inv_delete: "relay_inv R \<Longrightarrow> relay_inv (AList.delete p R)"
  by (auto simp: relay_inv_def delete_conv' restrict_map_def AList.delete_eq distinct_map_filter_key split: if_splits)

lemma relay_inv_Cons: "relay_inv ((p, u) # R) \<Longrightarrow> IsSOCKS u \<and> p = socksPort u \<and> relay_inv R"
  by (fastforce simp: relay_inv_def dest: map_of_SomeD split: if_splits)

lemma relay_inv_want: "relay_inv acc \<Longrightarrow> relay_inv (relays_want us acc)"
  by (induction us acc rule: relays_want.induct) (simp_all add: relay_inv_update)

lemma relay_inv_stop: "relay_inv (lv_relays st) \<Longrightarrow> relay_inv (lv_relays (relays_stop h want rs st))"
  by (induction h want rs st rule: relays_stop.induct) (simp_all add: relay_inv_delete)

lemma relay_inv_start:
  "relay_inv ws \<Longrightarrow> relay_inv (lv_relays st) \<Longrightarrow> relay_inv (lv_relays (snd (relays_start h ws st)))"
proof (induction ws arbitrary: st)
  case (Cons r ws)
  obtain port u where r: "r = (port, u)" by (cases r)
  from Cons.prems(1) have u: "IsSOCKS u" "port = socksPort u" and ws: "relay_inv ws"
    using relay_inv_Cons by (auto simp: r)
  show ?case using Cons.IH [OF ws] Cons.prems(2) u
    by (simp add: r Let_def case_prod_beta relay_inv_update)
qed simp

lemma want_sound: "map_of (relays_want us acc) p = Some u \<Longrightarrow>
   (u \<in> set us \<and> IsSOCKS u \<and> socksPort u = p) \<or> map_of acc p = Some u"
  by (induction us acc rule: relays_want.induct) (auto simp: update_conv' split: if_splits)

lemma want_complete:
  assumes "inj_on socksPort (set us)" "u \<in> set us" "IsSOCKS u"
  shows "map_of (relays_want us acc) (socksPort u) = Some u"
proof -
  have keep: "map_of acc p = Some u \<Longrightarrow> \<forall>v\<in>set us. socksPort v = p \<longrightarrow> v = u \<Longrightarrow> map_of (relays_want us acc) p = Some u"
    for us acc p u
    by (induction us acc rule: relays_want.induct) (auto simp: update_conv')
  show ?thesis using assms
  proof (induction us arbitrary: acc)
    case (Cons v us)
    show ?case
    proof (cases "u \<in> set us")
      case True
      with Cons show ?thesis by simp
    next
      case False
      with Cons.prems have "u = v" by simp
      have "\<forall>w\<in>set us. socksPort w = socksPort v \<longrightarrow> w = v"
        by (meson Cons.prems(1) inj_onD list.set_intros)
      with \<open>u = v\<close> have "\<forall>w\<in>set us. socksPort w = socksPort u \<longrightarrow> w = u" by simp
      moreover have "map_of (AList.update (socksPort u) u acc) (socksPort u) = Some u"
        by (simp add: update_conv')
      ultimately show ?thesis using Cons.prems(3) \<open>u = v\<close> keep by simp
    qed
  qed simp
qed

lemma stop_map_of:
  "map_of (lv_relays (relays_stop h want rs st)) p =
     (if \<exists>u. (p, u) \<in> set rs \<and> want_of want p \<noteq> u then None else map_of (lv_relays st) p)"
  by (induction h want rs st rule: relays_stop.induct) (auto simp: delete_conv' restrict_map_def)

lemma start_map_of:
  "distinct (map fst ws) \<Longrightarrow> relays_start h ws st = ([], st') \<Longrightarrow>
   map_of (lv_relays st') p = (case map_of (lv_relays st) p of Some u \<Rightarrow> Some u | None \<Rightarrow> map_of ws p)"
proof (induction ws arbitrary: st)
  case (Cons r ws)
  obtain port u where r: "r = (port, u)" by (cases r)
  have notin: "map_of ws port = None" using Cons.prems(1) by (auto simp: r map_of_eq_None_iff)
  consider (live) "map_of (lv_relays st) port \<noteq> None" "relays_start h ws st = ([], st')"
    | (new) w where "map_of (lv_relays st) port = None"
      "relays_start h ws (st\<lparr>lv_world := w, lv_relays := AList.update port u (lv_relays st)\<rparr>) = ([], st')"
    using Cons.prems(2) by (auto simp: r Let_def split: if_splits prod.splits)
  then show ?case
  proof cases
    case live
    then show ?thesis using Cons.IH [OF _ live(2)] Cons.prems(1) notin
      by (auto simp: r split: option.splits)
  next
    case new
    then show ?thesis using Cons.IH [OF _ new(2)] Cons.prems(1) notin
      by (auto simp: r update_conv' split: option.splits)
  qed
qed (simp split: option.splits)

lemma sync_exact:
  assumes ok: "config_ok cfg" and inv: "relay_inv (lv_relays st)"
    and r: "syncSOCKSRelays h cfg st = ([], st')"
  shows "map_of (lv_relays st') p = Some u \<longleftrightarrow> u \<in> set (cf_Upstreams cfg) \<and> IsSOCKS u \<and> socksPort u = p"
proof -
  let ?want = "relays_want (cf_Upstreams cfg) []"
  let ?st1 = "relays_stop h ?want (lv_relays st) st"
  have iw: "relay_inv ?want" by (intro relay_inv_want relay_inv_nil)
  then have dw: "distinct (map fst ?want)" by (simp add: relay_inv_def)
  have inj: "inj_on socksPort (set (cf_Upstreams cfg))"
    using ok by (auto simp: inj_on_def socksPort_def config_ok_Table_inj)
  have w: "map_of ?want p = Some u \<longleftrightarrow> u \<in> set (cf_Upstreams cfg) \<and> IsSOCKS u \<and> socksPort u = p"
    using want_sound [of "cf_Upstreams cfg" "[]" p u] want_complete [OF inj, of u "[]"] by auto
  have s1: "map_of (lv_relays ?st1) p = Some v \<Longrightarrow> map_of ?want p = Some v" for v
  proof -
    assume a: "map_of (lv_relays ?st1) p = Some v"
    then have v: "map_of (lv_relays st) p = Some v" and wv: "want_of ?want p = v"
      by (auto simp: stop_map_of split: if_splits dest: map_of_SomeD)
    from v have "IsSOCKS v" using inv by (auto simp: relay_inv_def)
    then have "v \<noteq> zero_upstream" by (auto simp: IsSOCKS_def zero_upstream_def)
    with wv show "map_of ?want p = Some v" by (auto simp: want_of_def split: option.splits)
  qed
  have "map_of (lv_relays st') p = (case map_of (lv_relays ?st1) p of Some u \<Rightarrow> Some u | None \<Rightarrow> map_of ?want p)"
    by (rule start_map_of [OF dw, where h = h]) (use r in \<open>simp add: syncSOCKSRelays_def Let_def\<close>)
  then have "map_of (lv_relays st') p = map_of ?want p"
    using s1 by (cases "map_of (lv_relays ?st1) p") auto
  with w show ?thesis by simp
qed

lemma relay_inv_sync:
  "relay_inv (lv_relays st) \<Longrightarrow> syncSOCKSRelays h cfg st = (es, st') \<Longrightarrow> relay_inv (lv_relays st')"
  using relay_inv_start [OF relay_inv_want [OF relay_inv_nil] relay_inv_stop]
  by (metis snd_conv syncSOCKSRelays_def)

lemma stop_id:
  "(\<And>p u. (p, u) \<in> set rs \<Longrightarrow> want_of want p = u) \<Longrightarrow> relays_stop h want rs st = st"
  by (induction h want rs st rule: relays_stop.induct) auto

lemma start_id:
  "(\<And>p u. (p, u) \<in> set ws \<Longrightarrow> map_of (lv_relays st) p \<noteq> None) \<Longrightarrow> relays_start h ws st = ([], st)"
  by (induction ws) force+

lemma sync_again:
  assumes ok: "config_ok cfg" and inv: "relay_inv (lv_relays st)"
    and r: "syncSOCKSRelays h cfg st = ([], st')"
  shows "syncSOCKSRelays h cfg st' = ([], st')"
proof -
  let ?want = "relays_want (cf_Upstreams cfg) []"
  note ex = sync_exact [OF ok inv r]
  have iw: "relay_inv ?want" by (intro relay_inv_want relay_inv_nil)
  have inj: "inj_on socksPort (set (cf_Upstreams cfg))"
    using ok by (auto simp: inj_on_def socksPort_def config_ok_Table_inj)
  have inv': "relay_inv (lv_relays st')" by (rule relay_inv_sync [OF inv r])
  have stop: "relays_stop h ?want (lv_relays st') st' = st'"
  proof (rule stop_id)
    fix p u assume "(p, u) \<in> set (lv_relays st')"
    then have "map_of (lv_relays st') p = Some u" using inv' by (simp add: relay_inv_def)
    then have "u \<in> set (cf_Upstreams cfg)" "IsSOCKS u" "socksPort u = p" by (simp_all add: ex)
    then show "want_of ?want p = u" using want_complete [OF inj, of u "[]"] by (auto simp: want_of_def)
  qed
  have "relays_start h ?want st' = ([], st')"
  proof (rule start_id)
    fix p u assume "(p, u) \<in> set ?want"
    then have "map_of ?want p = Some u" using iw by (simp add: relay_inv_def)
    then have "u \<in> set (cf_Upstreams cfg) \<and> IsSOCKS u \<and> socksPort u = p"
      using want_sound by fastforce
    then have "map_of (lv_relays st') p = Some u" using ex by blast
    then show "map_of (lv_relays st') p \<noteq> None" by simp
  qed
  with stop show ?thesis by (simp add: syncSOCKSRelays_def)
qed

subsection \<open>The order of the commands of Apply\<close>

datatype cmd = Ip "string list" | Nft "string list" string | Listen int | Close int

text \<open>A host that records every command and answers as \<open>ans\<close> says, failures included.\<close>

definition logging_host :: "(cmd list \<Rightarrow> cmd \<Rightarrow> bool \<times> string) \<Rightarrow> (string \<Rightarrow> bool) \<Rightarrow> cmd list host" where
  "logging_host ans ifx = \<lparr>
     h_ip = (\<lambda>a w. (fst (ans w (Ip a)), w @ [Ip a])),
     h_nft = (\<lambda>a i w. (fst (ans w (Nft a i)), snd (ans w (Nft a i)), w @ [Nft a i])),
     h_iface = (\<lambda>i _. ifx i),
     h_listen = (\<lambda>p w. (fst (ans w (Listen p)), w @ [Listen p])),
     h_close = (\<lambda>p w. w @ [Close p])\<rparr>"

lemma logging_host_simps [simp]:
  "h_ip (logging_host ans ifx) a w = (fst (ans w (Ip a)), w @ [Ip a])"
  "h_nft (logging_host ans ifx) a i w = (fst (ans w (Nft a i)), snd (ans w (Nft a i)), w @ [Nft a i])"
  "h_iface (logging_host ans ifx) n w = ifx n"
  "h_listen (logging_host ans ifx) p w = (fst (ans w (Listen p)), w @ [Listen p])"
  "h_close (logging_host ans ifx) p w = w @ [Close p]"
  by (simp_all add: logging_host_def)

lemma run_all_log:
  "run_all (logging_host ans ifx) as st = (es, st') \<Longrightarrow> lv_world st' = lv_world st @ map Ip as"
proof (induction "as" arbitrary: st es)
  case (Cons a "as")
  then show ?case by (fastforce simp: run_ip_def split: prod.splits)
qed simp

lemma clearBand_log:
  "lv_world (clearBand (logging_host ans ifx) st)
     = lv_world st @ map Ip teardownArgs @ [Nft deleteTableArgs []]"
proof -
  obtain es st1 where r: "run_all (logging_host ans ifx) teardownArgs st = (es, st1)" by (metis surj_pair)
  show ?thesis using run_all_log [OF r] by (simp add: clearBand_def r run_nft_def)
qed

lemma relays_stop_log:
  "\<exists>l. lv_world (relays_stop (logging_host ans ifx) want rs st) = lv_world st @ l \<and> (\<forall>c \<in> set l. \<exists>p. c = Close p)"
proof (induction rs arbitrary: st)
  case (Cons r rs)
  obtain p u where [simp]: "r = (p, u)" by (cases r)
  show ?case
  proof (cases "want_of want p \<noteq> u")
    case True
    from Cons [of "st\<lparr>lv_world := lv_world st @ [Close p], lv_relays := AList.delete p (lv_relays st)\<rparr>"]
    show ?thesis using True by force
  qed (use Cons in auto)
qed simp

lemma relays_start_log:
  "\<exists>l. lv_world (snd (relays_start (logging_host ans ifx) ws st)) = lv_world st @ l \<and> (\<forall>c \<in> set l. \<exists>p. c = Listen p)"
proof (induction ws arbitrary: st)
  case (Cons r ws)
  obtain p u where r [simp]: "r = (p, u)" by (cases r)
  let ?H = "logging_host ans ifx"
  let ?st1 = "st\<lparr>lv_world := lv_world st @ [Listen p]\<rparr>"
  let ?st2 = "?st1\<lparr>lv_relays := AList.update p u (lv_relays st)\<rparr>"
  have "snd (relays_start ?H (r # ws) st) \<in> {snd (relays_start ?H ws st), snd (relays_start ?H ws ?st1),
      snd (relays_start ?H ws ?st2)}"
    by (simp add: Let_def case_prod_beta)
  then consider "snd (relays_start ?H (r # ws) st) = snd (relays_start ?H ws st)"
    | "snd (relays_start ?H (r # ws) st) = snd (relays_start ?H ws ?st1)"
    | "snd (relays_start ?H (r # ws) st) = snd (relays_start ?H ws ?st2)"
    by blast
  then show ?case
  proof cases
    case 1
    then show ?thesis using Cons [of st] by simp
  next
    case 2
    then show ?thesis using Cons [of ?st1] by force
  next
    case 3
    then show ?thesis using Cons [of ?st2] by force
  qed
qed simp

lemma sync_log:
  "\<exists>l. lv_world (snd (syncSOCKSRelays (logging_host ans ifx) cfg st)) = lv_world st @ l
     \<and> (\<forall>c \<in> set l. \<exists>p. c = Listen p \<or> c = Close p)"
proof -
  let ?want = "relays_want (cf_Upstreams cfg) []" and ?H = "logging_host ans ifx"
  obtain l1 where l1: "lv_world (relays_stop ?H ?want (lv_relays st) st) = lv_world st @ l1"
    "\<forall>c \<in> set l1. \<exists>p. c = Close p" using relays_stop_log by metis
  obtain l2 where l2: "lv_world (snd (relays_start ?H ?want (relays_stop ?H ?want (lv_relays st) st)))
      = lv_world (relays_stop ?H ?want (lv_relays st) st) @ l2" "\<forall>c \<in> set l2. \<exists>p. c = Listen p"
    using relays_start_log by metis
  show ?thesis
    by (rule exI [of _ "l1 @ l2"]) (use l1 l2 in \<open>auto simp: syncSOCKSRelays_def Let_def\<close>)
qed

lemma reinstall_each_log:
  "\<exists>l. lv_world (snd (reinstall_each (logging_host ans ifx) cfg es st)) = lv_world st @ l
     \<and> (\<forall>c \<in> set l. \<exists>ip t. c = Nft (addRuleArgs ip t) [])"
proof (induction es arbitrary: st)
  case (Cons x es)
  obtain cid e where x [simp]: "x = (cid, e)" by (cases x)
  let ?H = "logging_host ans ifx"
  have add: "\<exists>l. lv_world (snd (addTracked ?H cid cn ip up st)) = lv_world st @ l
     \<and> (\<forall>c \<in> set l. \<exists>ip t. c = Nft (addRuleArgs ip t) [])" for cn ip up
    by (auto simp: addTracked_def addRule_def run_nft_def split: sum.splits)
  have nxt: "\<exists>l. lv_world (snd (reinstall_each ?H cfg es s)) = lv_world st @ l
     \<and> (\<forall>c \<in> set l. \<exists>ip t. c = Nft (addRuleArgs ip t) [])"
    if "\<exists>l. lv_world s = lv_world st @ l \<and> (\<forall>c \<in> set l. \<exists>ip t. c = Nft (addRuleArgs ip t) [])" for s
  proof -
    from that obtain l where l: "lv_world s = lv_world st @ l" "\<forall>c \<in> set l. \<exists>ip t. c = Nft (addRuleArgs ip t) []"
      by blast
    from Cons [of s] obtain m where "lv_world (snd (reinstall_each ?H cfg es s)) = lv_world s @ m"
      "\<forall>c \<in> set m. \<exists>ip t. c = Nft (addRuleArgs ip t) []" by blast
    with l show ?thesis by (intro exI [of _ "l @ m"]) auto
  qed
  show ?case
  proof (cases "Option.bind (map_of (cf_PerCN cfg) (tr_cn e)) (Find cfg)")
    case None
    then show ?thesis using nxt [of "st\<lparr>lv_tracked := AList.delete cid (lv_tracked st)\<rparr>"]
      by (auto simp: case_prod_beta split: option.splits)
  next
    case (Some up)
    obtain er st1 where a: "addTracked ?H cid (tr_cn e) (tr_ip e) up st = (er, st1)" by (metis surj_pair)
    with add [of "tr_cn e" "tr_ip e" up] have
      "\<exists>l. lv_world st1 = lv_world st @ l \<and> (\<forall>c \<in> set l. \<exists>ip t. c = Nft (addRuleArgs ip t) [])" by simp
    then have "\<exists>l. lv_world (snd (reinstall_each ?H cfg es st1)) = lv_world st @ l
        \<and> (\<forall>c \<in> set l. \<exists>ip t. c = Nft (addRuleArgs ip t) [])"
      "\<exists>l. lv_world (snd (reinstall_each ?H cfg es (st1\<lparr>lv_tracked := AList.delete cid (lv_tracked st1)\<rparr>))) = lv_world st @ l
        \<and> (\<forall>c \<in> set l. \<exists>ip t. c = Nft (addRuleArgs ip t) [])"
      using nxt [of st1] nxt [of "st1\<lparr>lv_tracked := AList.delete cid (lv_tracked st1)\<rparr>"] by simp_all
    then show ?thesis using Some a by (auto simp: case_prod_beta split: bind_splits)
  qed
qed simp

subsection \<open>A host that keeps the rules in memory\<close>

text \<open>\<open>memory_host\<close> satisfies \<open>nft_laws\<close>: it is the list of rules itself, with the
  handles numbered upwards.\<close>

definition fresh_handle :: "rule list \<Rightarrow> int" where
  "fresh_handle rs = 1 + foldr (\<lambda>r m. max (fst r) m) rs 0"

definition memory_host :: "rule list host" where
  "memory_host = \<lparr>
     h_ip = (\<lambda>_ rs. (True, rs)),
     h_nft = (\<lambda>a _ rs.
        if length a = 16 then
          (if in_int64 (fresh_handle rs)
           then (True, ''# handle '' @ itoa (fresh_handle rs), rs @ [(fresh_handle rs, a ! 11, int_of_str (a ! 15))])
           else (False, [], rs))
        else if length a = 7 then (True, [], filter (\<lambda>r. fst r \<noteq> int_of_str (a ! 6)) rs)
        else if length a = 4 then (True, [], []) else (True, [], rs)),
     h_iface = (\<lambda>_ _. True),
     h_listen = (\<lambda>_ rs. (True, rs)),
     h_close = (\<lambda>_ rs. rs)\<rparr>"

lemma memory_host_simps:
  "h_ip memory_host a rs = (True, rs)"
  "h_nft memory_host a i rs =
        (if length a = 16 then
          (if in_int64 (fresh_handle rs)
           then (True, ''# handle '' @ itoa (fresh_handle rs), rs @ [(fresh_handle rs, a ! 11, int_of_str (a ! 15))])
           else (False, [], rs))
        else if length a = 7 then (True, [], filter (\<lambda>r. fst r \<noteq> int_of_str (a ! 6)) rs)
        else if length a = 4 then (True, [], []) else (True, [], rs))"
  "h_iface memory_host n rs" "h_listen memory_host p rs = (True, rs)" "h_close memory_host p rs = rs"
  by (simp_all add: memory_host_def)

lemma fresh_handle_bound: "r \<in> set rs \<Longrightarrow> fst r < fresh_handle rs"
  by (induction rs) (auto simp: fresh_handle_def)

lemma parseHandle_print: "in_int64 n \<Longrightarrow> parseHandle (''# handle '' @ itoa n) = Inr n"
proof -
  assume r: "in_int64 n"
  have nolf: "LF \<notin> set (itoa n)" by (auto dest: set_itoa simp: is_digit_c_def byte_of_def)
  then have "split_c LF (''# handle '' @ itoa n) = [''# handle '' @ itoa n]"
    by (intro split_c_absent) auto
  moreover have "cut_s ''# handle '' (''# handle '' @ itoa n) = Some ([], itoa n)"
    by (simp add: has_prefix_def)
  ultimately show ?thesis using r by (simp add: parseHandle_def atoi_itoa)
qed

lemma memory_host_laws: "nft_laws memory_host (\<lambda>rs. rs)"
proof -
  have "fresh_handle w \<notin> fst ` set w" for w
    using fresh_handle_bound by fastforce
  then have "nft_add_law memory_host (\<lambda>rs. rs)"
    by (simp add: nft_add_law_def memory_host_def addRuleArgs_def parseHandle_print [simplified])
  then show ?thesis
    by (simp add: nft_laws_def nft_remove_law_def nft_table_law_def nft_frame_law_def
        memory_host_def removeRuleArgs_def deleteTableArgs_def)
qed

subsection \<open>Steps of the live state\<close>

text \<open>
  One step of the live state: a client event, the end of an OpenVPN process, or an \<open>Apply\<close>
  whose ruleset was loaded (a failed load leaves the chain without its rules until the next
  \<open>Apply\<close>; the operations in between still answer, but for rules that are gone).
\<close>

inductive live_step :: "'w host \<Rightarrow> 'w live \<Rightarrow> 'w live \<Rightarrow> bool" for h where
  establish: "live_step h st (snd (Establish h cid cn ip cfg st))"
| disconnect: "live_step h st (Disconnect h cid st)"
| reassign: "live_step h st (snd (Reassign h cid cn ip cfg st))"
| clear_all: "live_step h st (ClearAll h st)"
| applied: "Apply h cfg st = (errs, st') \<Longrightarrow> NftCheckFailed \<notin> set errs \<Longrightarrow> NftApplyFailed \<notin> set errs
    \<Longrightarrow> live_step h st st'"

inductive_cases live_stepE: "live_step h st st'"

lemma Establish_inv:
  assumes "nft_laws h rules" "live_inv rules st"
  shows "live_inv rules (snd (Establish h cid cn ip cfg st))"
  using assms(2) addTracked_inv [OF assms(1) _ assms(2), of cid cn ip]
  by (auto simp: Establish_def split: option.splits) (metis surj_pair snd_conv)

lemma Reassign_inv:
  assumes "nft_laws h rules" "live_inv rules st"
  shows "live_inv rules (snd (Reassign h cid cn ip cfg st))"
proof -
  have "live_inv rules (snd (installRule h cid cn ip up st))" for up
    using installRule_inv [OF assms(1) _ assms(2), of cid cn ip up] by (metis surj_pair snd_conv)
  moreover have "live_inv rules (snd (uninstallRule h cid st))"
    using uninstallRule_inv [OF assms(1) _ assms(2), of cid] by (metis surj_pair snd_conv)
  ultimately show ?thesis using assms(2) by (simp add: Reassign_def split: option.splits)
qed

lemma Disconnect_inv:
  "nft_laws h rules \<Longrightarrow> live_inv rules st \<Longrightarrow> live_inv rules (Disconnect h cid st)"
  unfolding Disconnect_def using uninstallRule_inv [of h rules cid st] by (metis surj_pair snd_conv)

lemma Apply_inv:
  assumes "nft_laws h rules" "live_inv rules st" "Apply h cfg st = (errs, st')"
    "NftCheckFailed \<notin> set errs" "NftApplyFailed \<notin> set errs"
  shows "live_inv rules st'"
proof (cases "Validate cfg")
  case (Inl e)
  then show ?thesis using assms by (simp add: Apply_def)
next
  case (Inr u)
  then have "config_ok cfg" by (simp add: Validate_ok)
  with Apply_loaded [OF assms(1,3) _ assms(4,5)] assms(2) show ?thesis by (simp add: live_inv_except_def)
qed

lemma live_step_inv: "live_step h st st' \<Longrightarrow> nft_laws h rules \<Longrightarrow> live_inv rules st \<Longrightarrow> live_inv rules st'"
proof (induction rule: live_step.induct)
  case (clear_all st)
  then show ?case by (simp add: ClearAll_def clear_cids_inv)
qed (simp_all add: Establish_inv Reassign_inv Disconnect_inv Apply_inv)

lemma live_steps_inv:
  "(live_step h)\<^sup>*\<^sup>* st st' \<Longrightarrow> nft_laws h rules \<Longrightarrow> live_inv rules st \<Longrightarrow> live_inv rules st'"
  by (induction rule: rtranclp_induct) (auto intro: live_step_inv)

subsection \<open>The mark a client gets\<close>

lemma addTracked_mark:
  assumes "nft_laws h rules" "addTracked h cid cn ip up st = ([], st')"
  shows "mark_of (rules (lv_world st')) ip = Some (up_Table up)"
  using assms by (cases rule: addTracked_cases) simp_all

lemma installRule_mark:
  assumes laws: "nft_laws h rules" and inv: "live_inv rules st"
    and r: "installRule h cid cn ip up st = ([], st')"
  shows "mark_of (rules (lv_world st')) ip = Some (up_Table up)"
proof -
  obtain es st1 where a: "addTracked h cid cn ip up st = (es, st1)" by (metis surj_pair)
  with r have es: "es = []" by (auto simp: installRule_def split: if_splits)
  from laws a show ?thesis
  proof (cases rule: addTracked_cases)
    case failed
    with es show ?thesis by simp
  next
    case (added n)
    show ?thesis
    proof (cases "map_of (lv_tracked st) cid")
      case None
      then show ?thesis using r a added by (simp add: installRule_def)
    next
      case (Some e)
      obtain es2 st2 where d: "removeRule h (tr_handle e) st1 = (es2, st2)" by (metis surj_pair)
      have "tr_handle e \<in> fst ` set (rules (lv_world st))"
        using inv Some has_rule_handle unfolding live_inv_except_def by blast
      with added(2) have "n \<noteq> tr_handle e" by metis
      then show ?thesis using removeRule_rules [OF laws d] r a Some d added(1,3)
        by (auto simp: installRule_def mark_of_filter_last split: if_splits)
    qed
  qed
qed

text \<open>A client that is no longer tracked has left no rule behind.\<close>

lemma uninstallRule_gone:
  assumes "nft_laws h rules" "map_of (lv_tracked st) cid = Some e"
    "uninstallRule h cid st = (es, st')"
  shows "es = [] \<Longrightarrow> map_of (lv_tracked st') cid = None \<and> tr_handle e \<notin> fst ` set (rules (lv_world st'))"
    and "es \<noteq> [] \<Longrightarrow> lv_tracked st' = lv_tracked st \<and> rules (lv_world st') = rules (lv_world st)"
proof -
  obtain es1 st1 where d: "removeRule h (tr_handle e) st = (es1, st1)" by (metis surj_pair)
  note f = removeRule_rules [OF assms(1) d] removeRule_frame [OF d]
  show "es = [] \<Longrightarrow> map_of (lv_tracked st') cid = None \<and> tr_handle e \<notin> fst ` set (rules (lv_world st'))"
    using f assms(2,3) d by (auto simp: uninstallRule_def delete_conv' split: if_splits)
  show "es \<noteq> [] \<Longrightarrow> lv_tracked st' = lv_tracked st \<and> rules (lv_world st') = rules (lv_world st)"
    using f assms(2,3) d by (auto simp: uninstallRule_def split: if_splits)
qed

lemma clear_cids_tracked:
  assumes laws: "nft_laws h rules"
  shows "live_inv rules st \<Longrightarrow> map_of (lv_tracked st) c = Some e \<Longrightarrow>
     map_of (lv_tracked (clear_cids h cs st)) c = None \<Longrightarrow>
     tr_handle e \<notin> fst ` set (rules (lv_world (clear_cids h cs st)))"
proof (induction cs arbitrary: st)
  case (Cons d cs)
  obtain es st1 where u: "uninstallRule h d st = (es, st1)" by (metis surj_pair)
  have inv1: "live_inv rules st1" by (rule uninstallRule_inv [OF laws u Cons.prems(1)])
  have shrink: "fst ` set (rules (lv_world (clear_cids h cs s))) \<subseteq> fst ` set (rules (lv_world s))" for s
  proof (induction cs arbitrary: s)
    case (Cons x cs)
    obtain es2 s2 where x: "uninstallRule h x s = (es2, s2)" by (metis surj_pair)
    have "fst ` set (rules (lv_world s2)) \<subseteq> fst ` set (rules (lv_world s))"
    proof (cases "map_of (lv_tracked s) x")
      case None
      with x show ?thesis by (simp add: uninstallRule_def)
    next
      case (Some e)
      obtain es3 s3 where d: "removeRule h (tr_handle e) s = (es3, s3)" by (metis surj_pair)
      then have "lv_world s2 = lv_world s3"
        using x Some by (auto simp: uninstallRule_def split: if_splits)
      then show ?thesis using removeRule_rules [OF laws d] by auto
    qed
    with Cons [of s2] x show ?case by auto
  qed simp
  show ?case
  proof (cases "map_of (lv_tracked st1) c")
    case None
    have cd: "c = d"
      using None Cons.prems(2) u by (auto simp: uninstallRule_def delete_conv' dest!: removeRule_frame
          split: option.splits prod.splits if_splits)
    have "es = []"
      using None uninstallRule_gone(2) [OF laws _ u] Cons.prems(2) cd by (metis option.distinct(1))
    then have "tr_handle e \<notin> fst ` set (rules (lv_world st1))"
      using uninstallRule_gone(1) [OF laws _ u] Cons.prems(2) cd by blast
    with shrink [of st1] u show ?thesis by auto
  next
    case (Some f)
    have "f = e"
      using Some Cons.prems(2) u by (auto simp: uninstallRule_def delete_conv' dest!: removeRule_frame
          split: option.splits prod.splits if_splits)
    with Cons.IH [OF inv1] Some Cons.prems(3) u show ?thesis by simp
  qed
qed simp

subsection \<open>Properties\<close>

definition demo_config :: config where
  "demo_config = wan_config\<lparr>cf_PerCN := [(''alice'', ''wan'')]\<rparr>"

definition demo_live :: "rule list live" where
  "demo_live = \<lparr>lv_world = [], lv_tracked = [], lv_relays = []\<rparr>"

lemma demo_config_simps:
  "cf_Upstreams demo_config = [wan_upstream\<lparr>up_Table := 100\<rparr>]"
  "cf_PerCN demo_config = [(''alice'', ''wan'')]" "cf_Default demo_config = []"
  "\<not> IsSOCKS (wan_upstream\<lparr>up_Table := 100\<rparr>)"
  "Find demo_config ''wan'' = Some (wan_upstream\<lparr>up_Table := 100\<rparr>)"
  by (simp_all add: demo_config_def wan_config_def IsSOCKS_def Find_def wan_upstream_def)

lemma demo_config_ok: "config_ok demo_config"
proof -
  have "Validate demo_config = Inr ()" by code_simp
  then show ?thesis by (simp add: Validate_ok)
qed

lemma demo_live_inv: "live_inv (\<lambda>rs. rs) demo_live"
  by (simp add: demo_live_def live_inv_except_def)

text \<open>C3: whatever the programs \<^verbatim>\<open>ip\<close> and \<^verbatim>\<open>nft\<close> answer, \<^verbatim>\<open>Apply\<close> of a valid configuration first
  sweeps the whole reserved band, then issues for every interface upstream its default route,
  its unreachable fallback route and its rule, in this order, then reconciles the relays and
  feeds nft the ruleset; a failing command skips none of the routes.\<close>

theorem Apply_kill_switch:
  assumes "config_ok cfg"
  shows "\<exists>relays rest. lv_world (snd (Apply (logging_host ans ifx) cfg st)) = lv_world st
      @ map Ip teardownArgs @ [Nft deleteTableArgs []]
      @ map Ip (concat (map routeArgs (filter (\<lambda>u. \<not> IsSOCKS u) (cf_Upstreams cfg))))
      @ relays @ Nft [''-c'', ''-f'', ''-''] (nftRuleset ifx cfg) # rest
    \<and> (\<forall>c \<in> set relays. \<exists>p. c = Listen p \<or> c = Close p)
    \<and> (\<forall>u. \<exists>first. routeArgs u = [first,
          [''route'', ''replace'', ''unreachable'', ''default'', ''table'', itoa (up_Table u), ''metric'', ''999''],
          [''rule'', ''add'', ''fwmark'', itoa (up_Table u), ''table'', itoa (up_Table u), ''priority'', itoa (rulePrio (up_Table u))]])"
proof -
  let ?H = "logging_host ans ifx" and ?rs = "nftRuleset ifx cfg"
  have v: "Validate cfg = Inr ()" using assms by (simp add: Validate_ok)
  obtain e1 st2 where r: "apply_routes ?H (cf_Upstreams cfg) (clearBand ?H st) = (e1, st2)" by (metis surj_pair)
  obtain e2 st3 where y: "syncSOCKSRelays ?H cfg st2 = (e2, st3)" by (metis surj_pair)
  obtain l where l: "lv_world st3 = lv_world st2 @ l" "\<forall>c \<in> set l. \<exists>p. c = Listen p \<or> c = Close p"
    using sync_log [of ans ifx cfg st2] y by auto
  define w4 where "w4 = lv_world st3 @ [Nft [''-c'', ''-f'', ''-''] ?rs]"
  define w5 where "w5 = w4 @ [Nft [''-f'', ''-''] ?rs]"
  obtain m where m: "lv_world (snd (reinstall ?H cfg (st3\<lparr>lv_world := w5\<rparr>))) = w5 @ m"
    using reinstall_each_log [of ans ifx cfg "lv_tracked st3" "st3\<lparr>lv_world := w5\<rparr>"]
    by (auto simp: reinstall_def)
  have ch: "\<exists>ok o1. run_nft ?H [''-c'', ''-f'', ''-''] ?rs st3 = (ok, o1, st3\<lparr>lv_world := w4\<rparr>)"
    and ld: "\<exists>ok o1. run_nft ?H [''-f'', ''-''] ?rs (st3\<lparr>lv_world := w4\<rparr>) = (ok, o1, st3\<lparr>lv_world := w5\<rparr>)"
    by (simp_all add: run_nft_def w4_def w5_def)
  obtain e3 st6 where i: "reinstall ?H cfg (st3\<lparr>lv_world := w5\<rparr>) = (e3, st6)" by (metis surj_pair)
  have "lv_world (snd (Apply ?H cfg st)) \<in> {w4, w5, w5 @ m}"
    using ch ld m by (auto simp: Apply_def v r y Let_def i)
  then obtain rest where "lv_world (snd (Apply ?H cfg st)) = w4 @ rest"
    by (auto simp: w5_def)
  moreover have "lv_world st2 = lv_world st @ map Ip teardownArgs @ [Nft deleteTableArgs []]
      @ map Ip (concat (map routeArgs (filter (\<lambda>u. \<not> IsSOCKS u) (cf_Upstreams cfg))))"
    using run_all_log [OF r [unfolded apply_routes_def]] clearBand_log [of ans ifx st] by simp
  ultimately show ?thesis using l
    by (intro exI [of _ l] exI [of _ rest]) (simp add: w4_def routeArgs_def Let_def)
qed

theorem Apply_kill_switch_witness:
  "\<exists>p rest. lv_world (snd (Apply (logging_host (\<lambda>_ _. (False, [])) (\<lambda>_. True)) demo_config
       \<lparr>lv_world = [], lv_tracked = [], lv_relays = []\<rparr>)) = p
     @ map Ip (routeArgs (wan_upstream\<lparr>up_Table := 100\<rparr>)) @ rest"
proof -
  let ?st = "\<lparr>lv_world = [], lv_tracked = [], lv_relays = []\<rparr> :: cmd list live"
  have f: "map Ip (concat (map routeArgs (filter (\<lambda>u. \<not> IsSOCKS u) (cf_Upstreams demo_config))))
      = map Ip (routeArgs (wan_upstream\<lparr>up_Table := 100\<rparr>))"
    by (simp add: demo_config_def wan_config_def IsSOCKS_def wan_upstream_def)
  obtain relays rest where "lv_world (snd (Apply (logging_host (\<lambda>_ _. (False, [])) (\<lambda>_. True)) demo_config ?st))
      = lv_world ?st @ map Ip teardownArgs @ [Nft deleteTableArgs []]
        @ map Ip (routeArgs (wan_upstream\<lparr>up_Table := 100\<rparr>))
        @ relays @ Nft [''-c'', ''-f'', ''-''] (nftRuleset (\<lambda>_. True) demo_config) # rest"
    using Apply_kill_switch [OF demo_config_ok, of "\<lambda>_ _. (False, [])" "\<lambda>_. True" ?st] unfolding f by blast
  then show ?thesis
    by (intro exI [of _ "lv_world ?st @ map Ip teardownArgs @ [Nft deleteTableArgs []]"]
        exI [of _ "relays @ Nft [''-c'', ''-f'', ''-''] (nftRuleset (\<lambda>_. True) demo_config) # rest"]) simp
qed


lemma demo_established:
  "Establish memory_host ''7'' ''alice'' ''10.8.0.2'' demo_config demo_live
     = ([], \<lparr>lv_world = [(1, ''10.8.0.2'', 100)],
        lv_tracked = [(''7'', \<lparr>tr_ip = ''10.8.0.2'', tr_cn = ''alice'', tr_handle = 1\<rparr>)], lv_relays = []\<rparr>)"
proof -
  have "Option.bind (parse_ip ''10.8.0.2'') to4 \<noteq> None" by code_simp
  moreover have "parseHandle (''# handle '' @ itoa 1) = Inr 1" by (rule parseHandle_print) (simp add: in_int64_def)
  ultimately show ?thesis
    by (simp add: Establish_def demo_config_def wan_config_def wan_upstream_def Find_def addTracked_def
        addRule_def run_nft_def demo_live_def memory_host_def addRuleArgs_def fresh_handle_def in_int64_def)
qed


text \<open>When \<^verbatim>\<open>Establish\<close> or \<^verbatim>\<open>Reassign\<close> succeeds for a client with an override, the packets of
  its address leave the chain with the mark of the upstream the configuration assigns, although
  the old rule is removed only after the new one is in place.\<close>

theorem override_takes_effect:
  assumes "nft_laws h rules" and "live_inv rules st"
    and "map_of (cf_PerCN cfg) cn = Some i"
    and "Establish h cid cn ip cfg st = ([], st') \<or> Reassign h cid cn ip cfg st = ([], st')"
  shows "\<exists>u. Find cfg i = Some u \<and> mark_of (rules (lv_world st')) ip = Some (up_Table u)"
proof (cases "Find cfg i")
  case None
  with assms(3,4) show ?thesis by (auto simp: Establish_def Reassign_def)
next
  case (Some u)
  with assms(3,4) have "addTracked h cid cn ip u st = ([], st') \<or> installRule h cid cn ip u st = ([], st')"
    by (auto simp: Establish_def Reassign_def)
  with addTracked_mark [OF assms(1)] installRule_mark [OF assms(1,2)] Some show ?thesis by blast
qed

theorem override_takes_effect_witness:
  "\<exists>u. Find demo_config ''wan'' = Some u
     \<and> mark_of (lv_world (snd (Establish memory_host ''7'' ''alice'' ''10.8.0.2'' demo_config demo_live))) ''10.8.0.2''
        = Some (up_Table u)"
proof -
  have "map_of (cf_PerCN demo_config) ''alice'' = Some ''wan''" by (simp add: demo_config_def)
  then show ?thesis
    using override_takes_effect [OF memory_host_laws demo_live_inv _ disjI1 [OF demo_established]]
      demo_established by simp
qed

text \<open>C5: after an \<^verbatim>\<open>Apply\<close> whose ruleset was loaded, every client still tracked has an override in
  the new configuration and a rule with the mark of the upstream it names, whatever rules the
  rebuild dropped and whichever commands failed on the way.\<close>

theorem Apply_reroutes_tracked:
  assumes "nft_laws h rules" and "live_inv rules st" and "config_ok cfg"
    and "Apply h cfg st = (errs, st')" and "NftCheckFailed \<notin> set errs" and "NftApplyFailed \<notin> set errs"
    and "map_of (lv_tracked st') c = Some e"
  shows "\<exists>i u. map_of (cf_PerCN cfg) (tr_cn e) = Some i \<and> Find cfg i = Some u
    \<and> (tr_handle e, tr_ip e, up_Table u) \<in> set (rules (lv_world st'))"
proof -
  have "distinct (map fst (rules (lv_world st)))" using assms(2) by (simp add: live_inv_except_def)
  with Apply_loaded [OF assms(1,4,3,5,6)] assms(7) show ?thesis by (simp add: routed_def)
qed

definition demo_live2 :: "rule list live" where
  "demo_live2 = snd (Establish memory_host ''7'' ''alice'' ''10.8.0.2'' demo_config demo_live)"

lemma demo_live2_eq:
  "demo_live2 = \<lparr>lv_world = [(1, ''10.8.0.2'', 100)],
     lv_tracked = [(''7'', \<lparr>tr_ip = ''10.8.0.2'', tr_cn = ''alice'', tr_handle = 1\<rparr>)], lv_relays = []\<rparr>"
  by (simp add: demo_live2_def demo_established)

lemma demo_applied:
  "fst (Apply memory_host demo_config demo_live2) = []
   \<and> map_of (lv_tracked (snd (Apply memory_host demo_config demo_live2))) ''7''
      = Some \<lparr>tr_ip = ''10.8.0.2'', tr_cn = ''alice'', tr_handle = 1\<rparr>"
proof -
  have v: "Validate demo_config = Inr ()" using demo_config_ok by (simp add: Validate_ok)
  have "Option.bind (parse_ip ''10.8.0.2'') to4 \<noteq> None" by code_simp
  moreover have "parseHandle (''# handle '' @ itoa 1) = Inr 1" by (rule parseHandle_print) (simp add: in_int64_def)
  moreover have ip: "run_all memory_host as st = ([], st)" for "as" and st :: "rule list live"
    by (induction "as" arbitrary: st) (simp_all add: run_ip_def memory_host_simps)
  ultimately show ?thesis
    by (simp add: Apply_def v demo_live2_eq clearBand_def ip apply_routes_def syncSOCKSRelays_def
        demo_config_simps run_nft_def memory_host_simps deleteTableArgs_def reinstall_def addTracked_def
        addRule_def addRuleArgs_def fresh_handle_def in_int64_def)
qed

theorem Apply_reroutes_tracked_witness:
  "\<exists>i u. map_of (cf_PerCN demo_config) ''alice'' = Some i \<and> Find demo_config i = Some u
    \<and> (1, ''10.8.0.2'', up_Table u) \<in> set (lv_world (snd (Apply memory_host demo_config demo_live2)))"
proof -
  have "live_inv (\<lambda>rs. rs) demo_live2"
    unfolding demo_live2_def by (rule Establish_inv [OF memory_host_laws demo_live_inv])
  from Apply_reroutes_tracked [OF memory_host_laws this demo_config_ok, of "[]"] demo_applied show ?thesis
    by (metis list.set(1) empty_iff prod.collapse trackedRule.select_convs)
qed

text \<open>A client that \<^verbatim>\<open>ClearAll\<close> no longer tracks has no rule left in the chain; one whose
  removal failed stays tracked, with its rule, so that a later exit retries it.\<close>

theorem ClearAll_leaves_no_orphan:
  assumes "nft_laws h rules" and "live_inv rules st" and "map_of (lv_tracked st) c = Some e"
  shows "case map_of (lv_tracked (ClearAll h st)) c of
      None \<Rightarrow> tr_handle e \<notin> fst ` set (rules (lv_world (ClearAll h st)))
    | Some f \<Rightarrow> has_rule (rules (lv_world (ClearAll h st))) f"
proof (cases "map_of (lv_tracked (ClearAll h st)) c")
  case None
  then show ?thesis using clear_cids_tracked [OF assms(1-3)] by (simp add: ClearAll_def)
next
  case (Some f)
  moreover have "live_inv rules (ClearAll h st)" unfolding ClearAll_def by (rule clear_cids_inv [OF assms(1,2)])
  ultimately show ?thesis unfolding live_inv_except_def by auto
qed

theorem ClearAll_leaves_no_orphan_witness: "lv_world (ClearAll memory_host demo_live2) = []"
proof -
  have "live_inv (\<lambda>rs. rs) demo_live2"
    unfolding demo_live2_def by (rule Establish_inv [OF memory_host_laws demo_live_inv])
  moreover have "map_of (lv_tracked demo_live2) ''7'' = Some \<lparr>tr_ip = ''10.8.0.2'', tr_cn = ''alice'', tr_handle = 1\<rparr>"
    by (simp add: demo_live2_eq)
  moreover have "ClearAll memory_host demo_live2 = demo_live"
    by (simp add: ClearAll_def demo_live2_eq uninstallRule_def removeRule_def run_nft_def
        memory_host_def removeRuleArgs_def demo_live_def)
  ultimately show ?thesis using ClearAll_leaves_no_orphan [OF memory_host_laws]
    by (simp add: demo_live_def)
qed

text \<open>C6: a reconciliation without errors leaves exactly one relay per SOCKS upstream, on the port
  of its table and with its current settings, and running it again changes nothing.\<close>

theorem relays_match_config:
  assumes "config_ok cfg" and "relay_inv (lv_relays st)" and "syncSOCKSRelays h cfg st = ([], st')"
  shows "(map_of (lv_relays st') p = Some u \<longleftrightarrow> u \<in> set (cf_Upstreams cfg) \<and> IsSOCKS u \<and> socksPort u = p)
    \<and> relay_inv (lv_relays st') \<and> syncSOCKSRelays h cfg st' = ([], st')"
  using sync_exact [OF assms] relay_inv_sync [OF assms(2,3)] sync_again [OF assms] by blast

definition tor_upstream :: upstream where
  "tor_upstream = \<lparr>up_ID = ''tor'', up_Iface = [], up_Gateway = [], up_SOCKS = ''socks5://127.0.0.1:9050'',
     up_DialTimeout = 0, up_HandshakeTimeout = 0, up_Table = 101, up_Description = []\<rparr>"

definition tor_config :: config where
  "tor_config = \<lparr>cf_Upstreams = [tor_upstream], cf_Default = ''tor'', cf_PerCN = []\<rparr>"

lemma tor_config_ok: "config_ok tor_config"
proof -
  have "Validate tor_config = Inr ()" by code_simp
  then show ?thesis by (simp add: Validate_ok)
qed

theorem relays_match_config_witness:
  "map_of (lv_relays (snd (syncSOCKSRelays memory_host tor_config demo_live))) 20001 = Some tor_upstream"
proof -
  have "url_parse ''socks5://127.0.0.1:9050'' \<noteq> None" by code_simp
  then have "fst (syncSOCKSRelays memory_host tor_config demo_live) = []"
    by (simp add: syncSOCKSRelays_def tor_config_def tor_upstream_def IsSOCKS_def demo_live_def memory_host_def)
  then have s: "syncSOCKSRelays memory_host tor_config demo_live
      = ([], snd (syncSOCKSRelays memory_host tor_config demo_live))" by (simp add: prod_eq_iff)
  have i: "relay_inv (lv_relays demo_live)" by (simp add: demo_live_def relay_inv_nil)
  have "IsSOCKS tor_upstream \<and> socksPort tor_upstream = 20001"
    by (simp add: IsSOCKS_def socksPort_def tor_upstream_def)
  then show ?thesis using relays_match_config [OF tor_config_ok i s, of 20001 tor_upstream]
    by (simp add: tor_config_def)
qed

end
