(* ===== verification/Go_Encoding.thy ===== *)
theory Go_Encoding
  imports Go_Strings
begin

section \<open>Go's encoding/base64 and encoding/hex\<close>

text \<open>
  The encodings the program stores secrets and tokens in: \<^verbatim>\<open>base64.StdEncoding\<close>,
  \<^verbatim>\<open>RawStdEncoding\<close>, \<^verbatim>\<open>RawURLEncoding\<close> (alphabet and padding are arguments) and
  \<^verbatim>\<open>hex.EncodeToString\<close>. A decoder skips carriage returns and newlines, as Go's does. Decoding
  undoes encoding, so encoding loses nothing.
\<close>

subsection \<open>The alphabet\<close>

text \<open>\<open>True\<close> selects the URL alphabet.\<close>

definition b64_char :: "bool \<Rightarrow> nat \<Rightarrow> char" where
  "b64_char url n = (if n < 26 then char_of (65 + n) else if n < 52 then char_of (71 + n)
     else if n < 62 then char_of (n - 4)
     else if n = 62 then (if url then CHR ''-'' else CHR ''+'') else (if url then CHR ''_'' else CHR ''/''))"

definition b64_val :: "bool \<Rightarrow> char \<Rightarrow> nat option" where
  "b64_val url c = (if is_upper_c c then Some (byte_of c - 65)
     else if is_lower_c c then Some (byte_of c - 71)
     else if is_digit_c c then Some (byte_of c + 4)
     else if c = (if url then CHR ''-'' else CHR ''+'') then Some 62
     else if c = (if url then CHR ''_'' else CHR ''/'') then Some 63 else None)"

lemma b64_val_char: "n < 64 \<Longrightarrow> b64_val url (b64_char url n) = Some n"
proof -
  assume "n < 64"
  then consider "n < 26" | "26 \<le> n" "n < 52" | "52 \<le> n" "n < 62" | "n = 62" | "n = 63" by linarith
  then show ?thesis
  proof cases
    case 4
    then show ?thesis by (simp add: b64_char_def b64_val_def is_upper_c_def is_lower_c_def is_digit_c_def byte_of_def)
  next
    case 5
    then show ?thesis by (simp add: b64_char_def b64_val_def is_upper_c_def is_lower_c_def is_digit_c_def byte_of_def)
  next
    case 3
    then have "48 \<le> n - 4" "n - 4 \<le> 57" by linarith+
    with 3 show ?thesis by (simp add: b64_char_def b64_val_def is_upper_c_def is_lower_c_def is_digit_c_def)
  qed (simp_all add: b64_char_def b64_val_def is_upper_c_def is_lower_c_def is_digit_c_def)
qed

lemma b64_char_not:
  assumes "n < 64" shows "b64_char url n \<noteq> CHR ''=''" "b64_char url n \<noteq> LF" "b64_char url n \<noteq> CR"
    "b64_char url n \<noteq> CHR ''$''"
proof -
  have "b64_val url CHR ''='' = None" "b64_val url LF = None" "b64_val url CR = None" "b64_val url CHR ''$'' = None"
    by (simp_all add: b64_val_def is_upper_c_def is_lower_c_def is_digit_c_def byte_of_def)
  with b64_val_char [OF assms, of url] show "b64_char url n \<noteq> CHR ''=''" "b64_char url n \<noteq> LF"
    "b64_char url n \<noteq> CR" "b64_char url n \<noteq> CHR ''$''" by force+
qed

subsection \<open>Encoding and decoding\<close>

fun sextets :: "nat list \<Rightarrow> nat list" where
  "sextets (a # b # c # r) = (a div 4) # ((a mod 4) * 16 + b div 16) # ((b mod 16) * 4 + c div 64) # (c mod 64) # sextets r"
| "sextets [a, b] = [a div 4, (a mod 4) * 16 + b div 16, (b mod 16) * 4]"
| "sextets [a] = [a div 4, (a mod 4) * 16]"
| "sextets [] = []"

fun unsextets :: "nat list \<Rightarrow> nat list option" where
  "unsextets (p # q # r # s # t) = map_option (\<lambda>u. (p * 4 + q div 16) # ((q mod 16) * 16 + r div 4) # ((r mod 4) * 64 + s) # u) (unsextets t)"
| "unsextets [p, q, r] = Some [p * 4 + q div 16, (q mod 16) * 16 + r div 4]"
| "unsextets [p, q] = Some [p * 4 + q div 16]"
| "unsextets [p] = None"
| "unsextets [] = Some []"

definition b64_pad :: "nat \<Rightarrow> string" where
  "b64_pad n = (if n mod 3 = 1 then ''=='' else if n mod 3 = 2 then ''='' else [])"

definition b64_encode :: "bool \<Rightarrow> bool \<Rightarrow> string \<Rightarrow> string" where
  "b64_encode url pad s = map (b64_char url) (sextets (map byte_of s)) @ (if pad then b64_pad (length s) else [])"

fun b64_vals :: "bool \<Rightarrow> string \<Rightarrow> nat list option" where
  "b64_vals url [] = Some []"
| "b64_vals url (c # s) = (case b64_val url c of None \<Rightarrow> None | Some n \<Rightarrow> map_option ((#) n) (b64_vals url s))"

definition b64_decode :: "bool \<Rightarrow> bool \<Rightarrow> string \<Rightarrow> string option" where
  "b64_decode url pad s = (let t = filter (\<lambda>c. c \<noteq> LF \<and> c \<noteq> CR) s;
       body = (if pad then takeWhile (\<lambda>c. c \<noteq> CHR ''='') t else t);
       eqs = drop (length body) t in
     if eqs \<noteq> (if \<not> pad then [] else if length body mod 4 = 2 then ''=='' else if length body mod 4 = 3 then ''='' else [])
     then None
     else Option.bind (b64_vals url body) (\<lambda>v. map_option (map char_of) (unsextets v)))"

text \<open>Taking a number apart and putting it together again.\<close>

lemma glue_div: "y < k \<Longrightarrow> (x * k + y) div k = (x :: nat)"
  by simp

lemma glue_mod: "y < k \<Longrightarrow> (x * k + y) mod k = (y :: nat)"
  by simp

lemma part_bounds:
  "a < 256 \<Longrightarrow> a div 4 < 64" "a < 256 \<Longrightarrow> a div 16 < 16" "a < 256 \<Longrightarrow> a div 64 < 4"
  "a mod 4 < 4" "a mod 16 < 16" "a mod 64 < 64" for a :: nat
  by linarith+

lemma sextet_bounds:
  fixes a b :: nat
  assumes "b < 256"
  shows "(a mod 4) * 16 + b div 16 < 64" and "(a mod 16) * 4 + b div 64 < 64"
    and "(a mod 4) * 16 < 64" and "(a mod 16) * 4 < 64"
  using assms part_bounds by linarith+

lemma sextets_bound: "\<forall>x\<in>set l. x < 256 \<Longrightarrow> x \<in> set (sextets l) \<Longrightarrow> x < 64"
  by (induction l rule: sextets.induct) (auto simp: sextet_bounds part_bounds)

lemma second_byte:
  fixes a b c :: nat
  assumes "c < 256" "b < 256"
  shows "(((a mod 4) * 16 + b div 16) mod 16) * 16 + ((b mod 16) * 4 + c div 64) div 4 = b"
proof -
  have "((a mod 4) * 16 + b div 16) mod 16 = b div 16" by (rule glue_mod) (rule part_bounds(2) [OF assms(2)])
  moreover have "((b mod 16) * 4 + c div 64) div 4 = b mod 16" by (rule glue_div) (rule part_bounds(3) [OF assms(1)])
  ultimately show ?thesis by (simp add: div_mult_mod_eq)
qed

lemma first_byte:
  fixes a b :: nat
  assumes "b < 256"
  shows "a div 4 * 4 + ((a mod 4) * 16 + b div 16) div 16 = a"
proof -
  have "((a mod 4) * 16 + b div 16) div 16 = a mod 4" by (rule glue_div) (rule part_bounds(2) [OF assms])
  then show ?thesis by (simp add: div_mult_mod_eq)
qed

lemma third_byte:
  fixes b c :: nat
  assumes "c < 256"
  shows "(((b mod 16) * 4 + c div 64) mod 4) * 64 + c mod 64 = c"
proof -
  have "((b mod 16) * 4 + c div 64) mod 4 = c div 64" by (rule glue_mod) (rule part_bounds(3) [OF assms])
  then show ?thesis by (simp add: div_mult_mod_eq)
qed

lemma unsextets_sextets: "\<forall>x\<in>set l. x < 256 \<Longrightarrow> unsextets (sextets l) = Some l"
proof (induction l rule: sextets.induct)
  case (1 a b c r)
  then have "a < 256" "b < 256" "c < 256" "unsextets (sextets r) = Some r" by auto
  then show ?case by (simp only: sextets.simps unsextets.simps first_byte second_byte third_byte option.map)
next
  case (2 a b)
  then have "a < 256" "b < 256" by auto
  then show ?case using second_byte [of 0 b a] first_byte [of b a] by simp
next
  case (3 a)
  then show ?case using first_byte [of 0 a] by simp
qed simp

lemma b64_vals_map: "\<forall>x\<in>set l. x < 64 \<Longrightarrow> b64_vals url (map (b64_char url) l) = Some l"
  by (induction l) (auto simp: b64_val_char)

lemma sextets_length: "length (sextets l) mod 4 = (if length l mod 3 = 1 then 2 else if length l mod 3 = 2 then 3 else 0)"
  by (induction l rule: sextets.induct) (auto simp: mod_Suc)

lemma map_char_of_byte_of: "map char_of (map byte_of s) = (s :: string)"
  by (induction s) (simp_all add: byte_of_def)

theorem b64_decode_encode: "b64_decode url pad (b64_encode url pad s) = Some s"
proof -
  let ?l = "sextets (map byte_of s)" and ?pd = "if pad then b64_pad (length s) else []"
  let ?b = "map (b64_char url) ?l"
  have lt: "\<forall>x\<in>set ?l. x < 64" using sextets_bound [of "map byte_of s"] by auto
  have nb: "\<forall>c\<in>set ?b. c \<noteq> CHR ''='' \<and> c \<noteq> LF \<and> c \<noteq> CR" using lt b64_char_not by auto
  have f: "filter (\<lambda>c. c \<noteq> LF \<and> c \<noteq> CR) (?b @ ?pd) = ?b @ ?pd"
    using nb by (intro filter_True) (auto simp: b64_pad_def split: if_splits)
  have b: "(if pad then takeWhile (\<lambda>c. c \<noteq> CHR ''='') (?b @ ?pd) else ?b @ ?pd) = ?b"
  proof (cases pad)
    case True
    have "takeWhile (\<lambda>c. c \<noteq> CHR ''='') (?b @ p) = ?b @ takeWhile (\<lambda>c. c \<noteq> CHR ''='') p" for p
      by (rule takeWhile_append2) (use nb in auto)
    then show ?thesis using True by (simp add: b64_pad_def)
  qed simp
  have "?pd = (if \<not> pad then [] else if length ?b mod 4 = 2 then ''=='' else if length ?b mod 4 = 3 then ''='' else [])"
    by (simp add: sextets_length b64_pad_def)
  moreover have "Option.bind (b64_vals url ?b) (\<lambda>v. map_option (map char_of) (unsextets v)) = Some s"
    using b64_vals_map [OF lt, of url] unsextets_sextets [of "map byte_of s"] by (simp add: map_char_of_byte_of del: map_map)
  ultimately show ?thesis
    unfolding b64_decode_def b64_encode_def Let_def f b by simp
qed

lemma set_b64_raw:
  assumes "c \<in> set (b64_encode url False s)" shows "c \<noteq> CHR ''$'' \<and> c \<noteq> LF \<and> c \<noteq> CHR ''=''"
proof -
  have "\<forall>x\<in>set (sextets (map byte_of s)). x < 64" using sextets_bound [of "map byte_of s"] by auto
  with assms b64_char_not show ?thesis by (auto simp: b64_encode_def)
qed

subsection \<open>Hexadecimal\<close>

definition hexdigit :: "nat \<Rightarrow> char" where
  "hexdigit n = (if n < 10 then char_of (48 + n) else char_of (87 + n))"

definition hex_encode :: "string \<Rightarrow> string" where
  "hex_encode s = concat (map (\<lambda>c. [hexdigit (byte_of c div 16), hexdigit (byte_of c mod 16)]) s)"

lemma hexdigit_inj:
  assumes "m < 16" "n < 16" "hexdigit m = hexdigit n" shows "m = n"
proof -
  have "byte_of (hexdigit m) = byte_of (hexdigit n)" using assms(3) by simp
  then show ?thesis using assms(1,2) by (simp add: hexdigit_def split: if_splits)
qed

lemma hex_encode_inj: "hex_encode s = hex_encode t \<Longrightarrow> s = t"
proof (induction s arbitrary: t)
  case Nil
  then show ?case by (cases t) (simp_all add: hex_encode_def)
next
  case (Cons c s)
  then obtain d u where t: "t = d # u" by (cases t) (simp_all add: hex_encode_def)
  have less: "byte_of x div 16 < 16" "byte_of x mod 16 < 16" for x
    using byte_of_less [of x] by linarith+
  from Cons.prems have "byte_of c div 16 = byte_of d div 16" "byte_of c mod 16 = byte_of d mod 16"
    and tl: "hex_encode s = hex_encode u"
    using less by (auto simp: t hex_encode_def intro: hexdigit_inj)
  then have "byte_of c = byte_of d" by (metis div_mult_mod_eq)
  with Cons.IH [OF tl] show ?case by (simp add: t byte_of_inj)
qed

end
