(* ===== verification/Store.thy ===== *)
theory Store
  imports Pki_Names Go_Encoding
begin

section \<open>The store: certificates, users, sessions, audit log, settings\<close>

text \<open>
  \<^verbatim>\<open>src/internal/store\<close> with the constraints and triggers of its \<^verbatim>\<open>schema.sql\<close>. A table is the list
  of its rows in rowid order; a statement of the code is a function on the tables. The engine's
  constraint failures are values of \<open>store_error\<close>; its I/O failures are not modelled. Times are
  unix seconds (\<open>now\<close> is an argument) except in \<open>Status\<close>, which compares clock readings in
  nanoseconds. The cipher that keeps TOTP secrets at rest is the record \<open>aead\<close>.
\<close>

subsection \<open>Rows\<close>

abbreviation second :: int where "second \<equiv> 1000000000"

record cert =
  ct_Serial :: string
  ct_CN :: string
  ct_Kind :: string
  ct_PEM :: string
  ct_IssuedAt :: int
  ct_NotAfter :: int
  ct_RevokedAt :: "int option"
  ct_IncludeDNS :: bool

record user =
  us_ID :: int
  us_Username :: string
  us_PassHash :: string
  us_Role :: string
  us_TOTP :: string
  us_Disabled :: bool
  us_CreatedAt :: int

record session =
  se_Token :: string
  se_User :: int
  se_Created :: int
  se_Expires :: int

record audit_entry =
  au_ID :: int
  au_TS :: int
  au_Actor :: string
  au_Action :: string
  au_Detail :: string

record client_sample =
  cs_TS :: int
  cs_CN :: string
  cs_Recv :: int
  cs_Sent :: int

record ended_session =
  es_ID :: int
  es_CN :: string
  es_Addr :: string
  es_Connected :: int
  es_Disconnected :: int
  es_Recv :: int
  es_Sent :: int

text \<open>\<open>st_notified\<close> are the calls of the audit hook.\<close>

record store =
  st_certs :: "cert list"
  st_users :: "user list"
  st_sessions :: "session list"
  st_audit :: "audit_entry list"
  st_settings :: "(string \<times> string) list"
  st_samples :: "client_sample list"
  st_ended :: "ended_session list"
  st_notified :: "(string \<times> string \<times> string) list"

definition empty_store :: store where
  "empty_store = \<lparr>st_certs = [], st_users = [], st_sessions = [], st_audit = [], st_settings = [],
     st_samples = [], st_ended = [], st_notified = []\<rparr>"

datatype store_error =
    DuplicateCN string
  | NoActiveCert string
  | NoSuchRow
  | NoSuchUser
  | BadUserName name_error
  | ConstraintFailed
  | CorruptTOTP

text \<open>A new \<^verbatim>\<open>INTEGER PRIMARY KEY\<close>: one more than the largest in use.\<close>

definition next_id :: "int list \<Rightarrow> int" where
  "next_id is = 1 + foldr max is 0"

subsection \<open>Certificates\<close>

abbreviation ExpiryWarnDays :: int where "ExpiryWarnDays \<equiv> 30"

definition Status :: "int \<Rightarrow> cert \<Rightarrow> string" where
  "Status now_ns c = (if ct_RevokedAt c \<noteq> None then ''revoked''
     else if now_ns > ct_NotAfter c * second then ''expired''
     else if ct_NotAfter c * second - now_ns \<le> ExpiryWarnDays * 24 * 3600 * second then ''expiring''
     else ''valid'')"

fun CertCounts :: "int \<Rightarrow> cert list \<Rightarrow> int \<times> int" where
  "CertCounts now_ns [] = (0, 0)"
| "CertCounts now_ns (c # cs) = (case CertCounts now_ns cs of (live, expiring) \<Rightarrow>
     if ct_RevokedAt c \<noteq> None then (live, expiring)
     else (live + 1, if Status now_ns c = ''expiring'' then expiring + 1 else expiring))"

definition activeCert :: "string \<Rightarrow> string \<Rightarrow> cert \<Rightarrow> bool" where
  "activeCert kind cn c = (ct_Kind c = kind \<and> (kind = ''server'' \<or> ct_CN c = cn) \<and> ct_RevokedAt c = None)"

definition RequireActiveCert :: "string \<Rightarrow> string \<Rightarrow> store \<Rightarrow> (store_error, unit) result" where
  "RequireActiveCert cn kind st =
     (if length (filter (activeCert kind cn) (st_certs st)) = 0 then Inl (NoActiveCert cn) else Inr ())"

text \<open>\<^verbatim>\<open>INSERT INTO certs\<close>: \<^verbatim>\<open>revoked_at\<close> is not among its columns, so the row is active. The CHECK on
  the kind, the primary key and the two unique indexes can refuse it.\<close>

definition insert_cert :: "cert \<Rightarrow> cert list \<Rightarrow> (store_error, cert list) result" where
  "insert_cert c cs = (if ct_Kind c \<noteq> ''server'' \<and> ct_Kind c \<noteq> ''client'' then Inl ConstraintFailed
     else if ct_Serial c \<in> ct_Serial ` set cs then Inl ConstraintFailed
     else if \<exists>d \<in> set cs. activeCert (ct_Kind c) (ct_CN c) d then Inl (DuplicateCN (ct_CN c))
     else Inr (cs @ [c\<lparr>ct_RevokedAt := None\<rparr>]))"

definition AddCert :: "cert \<Rightarrow> store \<Rightarrow> (store_error, store) result" where
  "AddCert c st = (case insert_cert c (st_certs st) of Inl e \<Rightarrow> Inl e
     | Inr cs \<Rightarrow> Inr (st\<lparr>st_certs := cs\<rparr>))"

definition update_certs :: "(cert \<Rightarrow> bool) \<Rightarrow> (cert \<Rightarrow> cert) \<Rightarrow> cert list \<Rightarrow> cert list" where
  "update_certs P f cs = map (\<lambda>c. if P c then f c else c) cs"

text \<open>The three results of \<^verbatim>\<open>SetCertDNS\<close>: the CN, whether anything changed, the error.\<close>

definition SetCertDNS :: "string \<Rightarrow> bool \<Rightarrow> store \<Rightarrow> (store_error, string \<times> bool \<times> store) result" where
  "SetCertDNS serial incl st =
     (case List.find (\<lambda>c. ct_Serial c = serial \<and> ct_Kind c = ''client'' \<and> ct_RevokedAt c = None) (st_certs st) of
        None \<Rightarrow> Inl (NoActiveCert serial)
      | Some c \<Rightarrow> if ct_IncludeDNS c = incl then Inr (ct_CN c, False, st)
          else Inr (ct_CN c, True, st\<lparr>st_certs :=
            update_certs (\<lambda>d. ct_Serial d = serial) (\<lambda>d. d\<lparr>ct_IncludeDNS := incl\<rparr>) (st_certs st)\<rparr>))"

text \<open>One transaction: a refused insert rolls the update back.\<close>

definition ReplaceCert :: "int \<Rightarrow> cert \<Rightarrow> store \<Rightarrow> (store_error, store) result" where
  "ReplaceCert now c st =
     (case insert_cert c (update_certs (activeCert (ct_Kind c) (ct_CN c)) (\<lambda>d. d\<lparr>ct_RevokedAt := Some now\<rparr>) (st_certs st)) of
        Inl e \<Rightarrow> Inl e | Inr cs \<Rightarrow> Inr (st\<lparr>st_certs := cs\<rparr>))"

definition GetCert :: "string \<Rightarrow> store \<Rightarrow> (store_error, cert) result" where
  "GetCert serial st = (case List.find (\<lambda>c. ct_Serial c = serial) (st_certs st) of
     None \<Rightarrow> Inl NoSuchRow | Some c \<Rightarrow> Inr c)"

definition ListCerts :: "store \<Rightarrow> cert list" where
  "ListCerts st = sort_key (\<lambda>c. - ct_IssuedAt c) (st_certs st)"

text \<open>\<open>ca\<close> is the CA certificate's CN and expiry, None when it cannot be read.\<close>

definition AllCerts :: "(string \<times> int) option \<Rightarrow> store \<Rightarrow> cert list" where
  "AllCerts ca st = ListCerts st @ (case ca of None \<Rightarrow> [] | Some (cn, na) \<Rightarrow>
     [\<lparr>ct_Serial = ''ca'', ct_CN = cn, ct_Kind = ''ca'', ct_PEM = [], ct_IssuedAt = 0, ct_NotAfter = na,
       ct_RevokedAt = None, ct_IncludeDNS = False\<rparr>])"

definition Revoke :: "string \<Rightarrow> int \<Rightarrow> store \<Rightarrow> (store_error, string \<times> store) result" where
  "Revoke serial at st =
     (let hit = (\<lambda>c. ct_Serial c = serial \<and> ct_Kind c = ''client'' \<and> ct_RevokedAt c = None) in
      case List.find hit (st_certs st) of
        None \<Rightarrow> Inl (NoActiveCert serial)
      | Some c \<Rightarrow> Inr (ct_CN c, st\<lparr>st_certs := update_certs hit (\<lambda>d. d\<lparr>ct_RevokedAt := Some at\<rparr>) (st_certs st)\<rparr>))"

definition RevokedCerts :: "store \<Rightarrow> cert list" where
  "RevokedCerts st = filter (\<lambda>c. ct_RevokedAt c \<noteq> None) (st_certs st)"

subsection \<open>Audit log\<close>

definition Audit :: "int \<Rightarrow> string \<Rightarrow> string \<Rightarrow> string \<Rightarrow> store \<Rightarrow> store" where
  "Audit now actor action detail st = st\<lparr>
     st_audit := st_audit st @ [\<lparr>au_ID = next_id (map au_ID (st_audit st)), au_TS = now,
        au_Actor = actor, au_Action = action, au_Detail = detail\<rparr>],
     st_notified := st_notified st @ [(actor, action, detail)]\<rparr>"

text \<open>\<^verbatim>\<open>ORDER BY id DESC LIMIT ?\<close>; a negative limit is no limit.\<close>

definition AuditTail :: "int \<Rightarrow> store \<Rightarrow> audit_entry list" where
  "AuditTail lim st = (let rows = sort_key (\<lambda>e. - au_ID e) (st_audit st) in
     if lim < 0 then rows else take (nat lim) rows)"

subsection \<open>Settings\<close>

definition GetSetting :: "string \<Rightarrow> store \<Rightarrow> string" where
  "GetSetting key st = (case map_of (st_settings st) key of None \<Rightarrow> [] | Some v \<Rightarrow> v)"

definition SetSetting :: "string \<Rightarrow> string \<Rightarrow> store \<Rightarrow> store" where
  "SetSetting key v st = st\<lparr>st_settings := AList.update key v (st_settings st)\<rparr>"

text \<open>\<^verbatim>\<open>LoadJSON\<close> and \<^verbatim>\<open>SaveJSON\<close> for a type with its JSON codec: \<open>dec\<close> fills the fields the text
  has into the default.\<close>

definition LoadJSON :: "(string \<Rightarrow> 'a \<Rightarrow> 'a option) \<Rightarrow> string \<Rightarrow> 'a \<Rightarrow> store \<Rightarrow> 'a" where
  "LoadJSON dec key dflt st = (let raw = GetSetting key st in
     if raw = [] then dflt else (case dec raw dflt of None \<Rightarrow> dflt | Some v \<Rightarrow> v))"

definition SaveJSON :: "('a \<Rightarrow> string option) \<Rightarrow> string \<Rightarrow> 'a \<Rightarrow> store \<Rightarrow> store option" where
  "SaveJSON enc key v st = (case enc v of None \<Rightarrow> None | Some s \<Rightarrow> Some (SetSetting key s st))"

subsection \<open>Users\<close>

record aead =
  ae_seal :: "string \<Rightarrow> string \<Rightarrow> string"
  ae_open :: "string \<Rightarrow> string \<Rightarrow> string option"

abbreviation NonceSize :: nat where "NonceSize \<equiv> 12"

definition encryptTOTP :: "aead \<Rightarrow> string \<Rightarrow> string \<Rightarrow> string" where
  "encryptTOTP ae nonce secret = (if secret = [] then [] else b64_encode False True (nonce @ ae_seal ae nonce secret))"

definition decryptTOTP :: "aead \<Rightarrow> string \<Rightarrow> (store_error, string) result" where
  "decryptTOTP ae enc = (if enc = [] then Inr [] else
     (case b64_decode False True enc of None \<Rightarrow> Inl CorruptTOTP
      | Some data \<Rightarrow> if length data < NonceSize then Inl CorruptTOTP
          else (case ae_open ae (take NonceSize data) (drop NonceSize data) of
            None \<Rightarrow> Inl CorruptTOTP | Some pt \<Rightarrow> Inr pt)))"

definition scanUser :: "aead \<Rightarrow> user \<Rightarrow> (store_error, user) result" where
  "scanUser ae u = (case decryptTOTP ae (us_TOTP u) of Inl e \<Rightarrow> Inl e | Inr s \<Rightarrow> Inr (u\<lparr>us_TOTP := s\<rparr>))"

definition roles :: "string list" where
  "roles = [''admin'', ''operator'', ''readonly'']"

definition AddUser :: "int \<Rightarrow> string \<Rightarrow> string \<Rightarrow> string \<Rightarrow> store \<Rightarrow> (store_error, int \<times> store) result" where
  "AddUser now username passHash role st =
     (case CheckName ''username'' username of Inl e \<Rightarrow> Inl (BadUserName e)
      | Inr _ \<Rightarrow>
        if username \<in> us_Username ` set (st_users st) \<or> role \<notin> set roles then Inl ConstraintFailed
        else (let i = next_id (map us_ID (st_users st)) in
          Inr (i, st\<lparr>st_users := st_users st @ [\<lparr>us_ID = i, us_Username = username, us_PassHash = passHash,
             us_Role = role, us_TOTP = [], us_Disabled = False, us_CreatedAt = now\<rparr>]\<rparr>)))"

definition GetUser :: "aead \<Rightarrow> string \<Rightarrow> store \<Rightarrow> (store_error, user) result" where
  "GetUser ae username st = (case List.find (\<lambda>u. us_Username u = username) (st_users st) of
     None \<Rightarrow> Inl NoSuchRow | Some u \<Rightarrow> scanUser ae u)"

fun scan_users :: "aead \<Rightarrow> user list \<Rightarrow> (store_error, user list) result" where
  "scan_users ae [] = Inr []"
| "scan_users ae (u # us) = (case scanUser ae u of Inl e \<Rightarrow> Inl e
     | Inr v \<Rightarrow> (case scan_users ae us of Inl e \<Rightarrow> Inl e | Inr vs \<Rightarrow> Inr (v # vs)))"

definition ListUsers :: "aead \<Rightarrow> store \<Rightarrow> (store_error, user list) result" where
  "ListUsers ae st = scan_users ae (sort_key us_ID (st_users st))"

definition update_users :: "string \<Rightarrow> (user \<Rightarrow> user) \<Rightarrow> store \<Rightarrow> store" where
  "update_users username f st =
     st\<lparr>st_users := map (\<lambda>u. if us_Username u = username then f u else u) (st_users st)\<rparr>"

definition mustAffect :: "string \<Rightarrow> store \<Rightarrow> store \<Rightarrow> (store_error, store) result" where
  "mustAffect username st st' =
     (if username \<in> us_Username ` set (st_users st) then Inr st' else Inl NoSuchUser)"

definition SetUserDisabled :: "string \<Rightarrow> bool \<Rightarrow> store \<Rightarrow> (store_error, store) result" where
  "SetUserDisabled username disabled st =
     mustAffect username st (update_users username (\<lambda>u. u\<lparr>us_Disabled := disabled\<rparr>) st)"

text \<open>The trigger \<^verbatim>\<open>sessions_end_on_password\<close> runs for every updated row.\<close>

definition end_sessions :: "string \<Rightarrow> store \<Rightarrow> store" where
  "end_sessions username st = st\<lparr>st_sessions := filter (\<lambda>s.
     \<not> (\<exists>u \<in> set (st_users st). us_Username u = username \<and> us_ID u = se_User s)) (st_sessions st)\<rparr>"

definition SetUserPassword :: "string \<Rightarrow> string \<Rightarrow> store \<Rightarrow> (store_error, store) result" where
  "SetUserPassword username passHash st =
     mustAffect username st (end_sessions username (update_users username (\<lambda>u. u\<lparr>us_PassHash := passHash\<rparr>) st))"

definition SetUserTOTP :: "aead \<Rightarrow> string \<Rightarrow> string \<Rightarrow> string \<Rightarrow> store \<Rightarrow> (store_error, store) result" where
  "SetUserTOTP ae nonce username secret st =
     mustAffect username st (update_users username (\<lambda>u. u\<lparr>us_TOTP := encryptTOTP ae nonce secret\<rparr>) st)"

text \<open>\<^verbatim>\<open>ON DELETE CASCADE\<close> drops the sessions of a deleted user.\<close>

definition DeleteUser :: "string \<Rightarrow> store \<Rightarrow> (store_error, store) result" where
  "DeleteUser username st = mustAffect username st
     ((end_sessions username st)\<lparr>st_users := filter (\<lambda>u. us_Username u \<noteq> username) (st_users st)\<rparr>)"

subsection \<open>Sessions\<close>

definition AddSession :: "int \<Rightarrow> string \<Rightarrow> int \<Rightarrow> int \<Rightarrow> store \<Rightarrow> (store_error, store) result" where
  "AddSession now tokenHash userID ttl st =
     (if userID \<notin> us_ID ` set (st_users st) \<or> tokenHash \<in> se_Token ` set (st_sessions st) then Inl ConstraintFailed
      else Inr (st\<lparr>st_sessions := filter (\<lambda>s. \<not> se_Expires s \<le> now)
        (st_sessions st @ [\<lparr>se_Token = tokenHash, se_User = userID, se_Created = now, se_Expires = now + ttl\<rparr>])\<rparr>))"

text \<open>The join of \<^verbatim>\<open>SessionUser\<close>: at most one session has the token, at most one user its id.\<close>

definition session_user :: "int \<Rightarrow> string \<Rightarrow> store \<Rightarrow> user option" where
  "session_user now tokenHash st =
     (case List.find (\<lambda>s. se_Token s = tokenHash \<and> se_Expires s > now) (st_sessions st) of
        None \<Rightarrow> None
      | Some s \<Rightarrow> List.find (\<lambda>u. us_ID u = se_User s \<and> \<not> us_Disabled u) (st_users st))"

definition SessionUser :: "aead \<Rightarrow> int \<Rightarrow> string \<Rightarrow> store \<Rightarrow> (store_error, user option) result" where
  "SessionUser ae now tokenHash st = (case session_user now tokenHash st of
     None \<Rightarrow> Inr None
   | Some u \<Rightarrow> (case scanUser ae u of Inl e \<Rightarrow> Inl e | Inr v \<Rightarrow> Inr (Some v)))"

definition DeleteSession :: "string \<Rightarrow> store \<Rightarrow> store" where
  "DeleteSession tokenHash st = st\<lparr>st_sessions := filter (\<lambda>s. se_Token s \<noteq> tokenHash) (st_sessions st)\<rparr>"

end
