(* ===== verification/Store_Props.thy ===== *)
theory Store_Props
  imports Store
begin

section \<open>What the store guarantees\<close>

text \<open>
  The invariant of the tables and its preservation by every operation, the permanence of a
  revocation, what becomes of sessions when a user changes, and the settings as a key-value
  interface: the locale \<open>kv_store\<close> states the laws its clients use, interpreted on
  \<^verbatim>\<open>GetSetting\<close> and \<^verbatim>\<open>SetSetting\<close>.
\<close>

subsection \<open>The settings interface\<close>

locale kv_store =
  fixes get :: "string \<Rightarrow> 's \<Rightarrow> string" and put :: "string \<Rightarrow> string \<Rightarrow> 's \<Rightarrow> 's"
  assumes get_put: "get k (put j v s) = (if k = j then v else get k s)"
begin

text \<open>A JSON setting is read back as it was saved, when the codec decodes what it encodes.\<close>

definition load_json :: "(string \<Rightarrow> 'a \<Rightarrow> 'a option) \<Rightarrow> string \<Rightarrow> 'a \<Rightarrow> 's \<Rightarrow> 'a" where
  "load_json dec key dflt s = (let raw = get key s in
     if raw = [] then dflt else (case dec raw dflt of None \<Rightarrow> dflt | Some v \<Rightarrow> v))"

lemma put_other: "k \<noteq> j \<Longrightarrow> get k (put j v s) = get k s"
  by (simp add: get_put)

lemma load_saved:
  assumes "\<And>d. dec t d = Some v" and "t \<noteq> []"
  shows "load_json dec key dflt (put key t s) = v"
  using assms by (simp add: load_json_def get_put)

lemma load_other: "k \<noteq> key \<Longrightarrow> load_json dec k dflt (put key t s) = load_json dec k dflt s"
  by (simp add: load_json_def put_other)

lemma put_put: "get k (put j v (put j w s)) = get k (put j v s)"
  by (simp add: get_put)

end

interpretation settings: kv_store GetSetting SetSetting
  by unfold_locales (simp add: GetSetting_def SetSetting_def update_conv')

lemma LoadJSON_load_json: "LoadJSON dec key dflt st = settings.load_json dec key dflt st"
  by (simp add: LoadJSON_def settings.load_json_def)

lemma SaveJSON_LoadJSON:
  "SaveJSON enc key v st = Some st' \<Longrightarrow> enc v = Some t \<Longrightarrow> t \<noteq> [] \<Longrightarrow> (\<And>d. dec t d = Some v)
    \<Longrightarrow> LoadJSON dec key dflt st' = v"
  by (auto simp: SaveJSON_def LoadJSON_load_json settings.load_saved)

subsection \<open>The invariant of the certificates\<close>

definition same_slot :: "cert \<Rightarrow> cert \<Rightarrow> bool" where
  "same_slot c d = (ct_Kind c = ct_Kind d \<and> (ct_Kind c = ''server'' \<or> ct_CN c = ct_CN d))"

definition certs_inv :: "cert list \<Rightarrow> bool" where
  "certs_inv cs \<longleftrightarrow> distinct (map ct_Serial cs)
     \<and> (\<forall>c \<in> set cs. ct_Kind c = ''server'' \<or> ct_Kind c = ''client'')
     \<and> (\<forall>c \<in> set cs. \<forall>d \<in> set cs. ct_RevokedAt c = None \<longrightarrow> ct_RevokedAt d = None \<longrightarrow> same_slot c d \<longrightarrow> c = d)"

lemma same_slot_iff: "activeCert (ct_Kind c) (ct_CN c) d \<longleftrightarrow> same_slot c d \<and> ct_RevokedAt d = None"
  by (auto simp: activeCert_def same_slot_def)

lemma same_slot_sym: "same_slot c d \<Longrightarrow> same_slot d c"
  by (auto simp: same_slot_def)

lemma insert_cert_ok:
  "insert_cert c cs = Inr cs' \<longleftrightarrow> (ct_Kind c = ''server'' \<or> ct_Kind c = ''client'')
     \<and> ct_Serial c \<notin> ct_Serial ` set cs \<and> (\<forall>d \<in> set cs. \<not> (same_slot c d \<and> ct_RevokedAt d = None))
     \<and> cs' = cs @ [c\<lparr>ct_RevokedAt := None\<rparr>]"
  by (auto simp: insert_cert_def go_simps same_slot_iff)

lemma certs_inv_insert: "certs_inv cs \<Longrightarrow> insert_cert c cs = Inr cs' \<Longrightarrow> certs_inv cs'"
proof -
  assume inv: "certs_inv cs" and ok: "insert_cert c cs = Inr cs'"
  let ?c = "c\<lparr>ct_RevokedAt := None\<rparr>"
  have cs': "cs' = cs @ [?c]" "ct_Kind c = ''server'' \<or> ct_Kind c = ''client''" "ct_Serial c \<notin> ct_Serial ` set cs"
    and free: "\<And>d. d \<in> set cs \<Longrightarrow> ct_RevokedAt d = None \<Longrightarrow> \<not> same_slot ?c d"
    using ok unfolding insert_cert_ok by (auto simp: same_slot_def)
  show ?thesis
    unfolding certs_inv_def cs'(1)
  proof (intro conjI ballI impI)
    fix d e assume "d \<in> set (cs @ [?c])" "e \<in> set (cs @ [?c])"
      and r: "ct_RevokedAt d = None" "ct_RevokedAt e = None" "same_slot d e"
    then consider "d \<in> set cs" "e \<in> set cs" | "d = ?c" "e = ?c" | "d = ?c" "e \<in> set cs" | "d \<in> set cs" "e = ?c"
      by auto
    then show "d = e"
    proof cases
      case 1
      with inv r show ?thesis unfolding certs_inv_def by blast
    next
      case 3
      with free [of e] r show ?thesis by simp
    next
      case 4
      with free [of d] r same_slot_sym [of d e] show ?thesis by simp
    qed simp
  qed (use inv cs' in \<open>auto simp: certs_inv_def\<close>)
qed

lemma serial_update:
  "(\<And>c. ct_Serial (f c) = ct_Serial c) \<Longrightarrow> map ct_Serial (update_certs P f cs) = map ct_Serial cs"
  by (simp add: update_certs_def comp_def)

lemma certs_inv_update:
  assumes inv: "certs_inv cs"
    and keep: "\<And>c. ct_Serial (f c) = ct_Serial c \<and> ct_Kind (f c) = ct_Kind c \<and> ct_CN (f c) = ct_CN c"
    and act: "\<And>c. ct_RevokedAt (f c) = None \<Longrightarrow> ct_RevokedAt c = None"
  shows "certs_inv (update_certs P f cs)"
  unfolding certs_inv_def
proof (intro conjI ballI impI)
  let ?f = "\<lambda>c. if P c then f c else c"
  have slot: "same_slot (?f c) (?f d) = same_slot c d" for c d using keep by (simp add: same_slot_def)
  have act': "ct_RevokedAt (?f c) = None \<Longrightarrow> ct_RevokedAt c = None" for c using act by (simp split: if_splits)
  show "distinct (map ct_Serial (update_certs P f cs))"
    using inv keep by (simp add: serial_update certs_inv_def)
  fix c assume c: "c \<in> set (update_certs P f cs)"
  then obtain c0 where c0: "c0 \<in> set cs" "c = ?f c0" by (auto simp: update_certs_def)
  with inv keep show "ct_Kind c = ''server'' \<or> ct_Kind c = ''client''" by (simp add: certs_inv_def)
  fix d assume "d \<in> set (update_certs P f cs)" and r: "ct_RevokedAt c = None" "ct_RevokedAt d = None" "same_slot c d"
  then obtain d0 where d0: "d0 \<in> set cs" "d = ?f d0" by (auto simp: update_certs_def)
  have "ct_RevokedAt c0 = None" "ct_RevokedAt d0 = None" "same_slot c0 d0"
    using r act' [of c0] act' [of d0] slot [of c0 d0] c0(2) d0(2) by simp_all
  then have "c0 = d0" using inv c0(1) d0(1) unfolding certs_inv_def by blast
  with c0 d0 show "c = d" by simp
qed

lemma certs_inv_revoke: "certs_inv cs \<Longrightarrow> certs_inv (update_certs P (\<lambda>d. d\<lparr>ct_RevokedAt := Some t\<rparr>) cs)"
  by (rule certs_inv_update) simp_all

lemma certs_inv_dns: "certs_inv cs \<Longrightarrow> certs_inv (update_certs P (\<lambda>d. d\<lparr>ct_IncludeDNS := b\<rparr>) cs)"
  by (rule certs_inv_update) simp_all

subsection \<open>The invariant of users and sessions\<close>

definition users_inv :: "store \<Rightarrow> bool" where
  "users_inv st \<longleftrightarrow> distinct (map us_Username (st_users st)) \<and> distinct (map us_ID (st_users st))
     \<and> (\<forall>u \<in> set (st_users st). nameRe (us_Username u) \<and> us_Role u \<in> set roles)
     \<and> distinct (map se_Token (st_sessions st))
     \<and> (\<forall>s \<in> set (st_sessions st). se_User s \<in> us_ID ` set (st_users st))"

definition audit_inv :: "audit_entry list \<Rightarrow> bool" where
  "audit_inv es \<longleftrightarrow> sorted_wrt (<) (map au_ID es)"

definition store_inv :: "store \<Rightarrow> bool" where
  "store_inv st \<longleftrightarrow> certs_inv (st_certs st) \<and> users_inv st \<and> audit_inv (st_audit st)
     \<and> distinct (map fst (st_settings st))"

lemma next_id_greater: "i \<in> set is \<Longrightarrow> i < next_id is"
  by (induction "is") (auto simp: next_id_def)

lemma users_inv_update:
  assumes "users_inv st" and "\<And>u. us_Username (f u) = us_Username u \<and> us_ID (f u) = us_ID u \<and> us_Role (f u) = us_Role u"
  shows "users_inv (update_users n f st)"
proof -
  have "map us_Username (st_users (update_users n f st)) = map us_Username (st_users st)"
    "map us_ID (st_users (update_users n f st)) = map us_ID (st_users st)"
    using assms(2) by (simp_all add: update_users_def comp_def if_distrib cong: if_cong)
  moreover from this have "us_ID ` set (st_users (update_users n f st)) = us_ID ` set (st_users st)"
    by (metis list.set_map)
  moreover have "st_sessions (update_users n f st) = st_sessions st" by (simp add: update_users_def)
  moreover have "\<forall>u \<in> set (st_users (update_users n f st)). nameRe (us_Username u) \<and> us_Role u \<in> set roles"
    using assms by (auto simp: update_users_def users_inv_def)
  ultimately show ?thesis using assms(1) by (simp add: users_inv_def)
qed

lemma users_inv_end_sessions: "users_inv st \<Longrightarrow> users_inv (end_sessions n st)"
  by (auto simp: users_inv_def end_sessions_def distinct_map_filter_key)

lemma AddUser_ok:
  "AddUser now n p r st = Inr (i, st') \<longleftrightarrow> nameRe n \<and> n \<notin> us_Username ` set (st_users st) \<and> r \<in> set roles
     \<and> i = next_id (map us_ID (st_users st))
     \<and> st' = st\<lparr>st_users := st_users st @ [\<lparr>us_ID = i, us_Username = n, us_PassHash = p,
             us_Role = r, us_TOTP = [], us_Disabled = False, us_CreatedAt = now\<rparr>]\<rparr>"
  by (auto simp: AddUser_def Let_def CheckName_def)

lemma AddUser_inv:
  assumes "users_inv st" "AddUser now n p r st = Inr (i, st')"
  shows "users_inv st'"
proof -
  have "i \<notin> us_ID ` set (st_users st)"
    using assms(2) next_id_greater [of i "map us_ID (st_users st)"] by (auto simp: AddUser_ok)
  with assms show ?thesis by (auto simp: AddUser_ok users_inv_def)
qed

lemma DeleteUser_inv: "users_inv st \<Longrightarrow> DeleteUser n st = Inr st' \<Longrightarrow> users_inv st'"
  by (auto simp: DeleteUser_def mustAffect_def users_inv_def end_sessions_def distinct_map_filter_key
      image_iff split: if_splits) (metis)

lemma AddSession_inv: "users_inv st \<Longrightarrow> AddSession now t u ttl st = Inr st' \<Longrightarrow> users_inv st'"
  by (auto simp: AddSession_def users_inv_def distinct_map_filter_key split: if_splits)

subsection \<open>Steps of the store\<close>

inductive store_step :: "store \<Rightarrow> store \<Rightarrow> bool" where
  add_cert: "AddCert c st = Inr st' \<Longrightarrow> store_step st st'"
| replace_cert: "ReplaceCert now c st = Inr st' \<Longrightarrow> store_step st st'"
| set_cert_dns: "SetCertDNS s b st = Inr (cn, ch, st') \<Longrightarrow> store_step st st'"
| revoke: "Revoke s at st = Inr (cn, st') \<Longrightarrow> store_step st st'"
| audit: "store_step st (Audit now actor action detail st)"
| set_setting: "store_step st (SetSetting k v st)"
| add_user: "AddUser now n p r st = Inr (i, st') \<Longrightarrow> store_step st st'"
| set_disabled: "SetUserDisabled n b st = Inr st' \<Longrightarrow> store_step st st'"
| set_password: "SetUserPassword n p st = Inr st' \<Longrightarrow> store_step st st'"
| set_totp: "SetUserTOTP ae nonce n s st = Inr st' \<Longrightarrow> store_step st st'"
| delete_user: "DeleteUser n st = Inr st' \<Longrightarrow> store_step st st'"
| add_session: "AddSession now t u ttl st = Inr st' \<Longrightarrow> store_step st st'"
| delete_session: "store_step st (DeleteSession t st)"

lemma frame_users [simp]:
  "st_certs (update_users n f st) = st_certs st" "st_audit (update_users n f st) = st_audit st"
  "st_settings (update_users n f st) = st_settings st"
  "st_certs (end_sessions n st) = st_certs st" "st_audit (end_sessions n st) = st_audit st"
  "st_settings (end_sessions n st) = st_settings st" "st_users (end_sessions n st) = st_users st"
  by (simp_all add: update_users_def end_sessions_def)

lemma mustAffect_ok: "mustAffect n st st1 = Inr st' \<longleftrightarrow> n \<in> us_Username ` set (st_users st) \<and> st' = st1"
  by (auto simp: mustAffect_def)

lemma audit_inv_Audit: "audit_inv (st_audit st) \<Longrightarrow> audit_inv (st_audit (Audit now a b c st))"
  by (auto simp: audit_inv_def Audit_def sorted_wrt_append next_id_greater)

lemma frame_certs:
  "users_inv (st\<lparr>st_certs := cs\<rparr>) = users_inv st" "users_inv (st\<lparr>st_settings := ss\<rparr>) = users_inv st"
  "users_inv (Audit now a b c st) = users_inv st"
  by (simp_all add: users_inv_def Audit_def)

lemma store_step_inv: "store_step st st' \<Longrightarrow> store_inv st \<Longrightarrow> store_inv st'"
proof (induction rule: store_step.induct)
  case (add_cert c st st')
  then show ?case by (auto simp: AddCert_def store_inv_def go_simps frame_certs dest: certs_inv_insert)
next
  case (replace_cert now c st st')
  then show ?case
    by (auto simp: ReplaceCert_def store_inv_def go_simps frame_certs dest: certs_inv_insert [OF certs_inv_revoke])
next
  case (set_cert_dns s b st cn ch st')
  then show ?case
    by (auto simp: SetCertDNS_def store_inv_def frame_certs certs_inv_dns split: option.splits if_splits)
next
  case (revoke s at st cn st')
  then show ?case by (auto simp: Revoke_def Let_def store_inv_def frame_certs certs_inv_revoke split: option.splits)
next
  case (audit st now a b c)
  then show ?case using audit_inv_Audit by (simp add: store_inv_def frame_certs) (simp add: Audit_def)
next
  case (set_setting st k v)
  then show ?case by (simp add: store_inv_def SetSetting_def frame_certs distinct_update)
next
  case (add_user now n p r st i st')
  then have "users_inv st'" by (auto simp: store_inv_def intro: AddUser_inv)
  with add_user show ?case by (auto simp: store_inv_def AddUser_ok)
next
  case (set_disabled n b st st')
  then show ?case by (auto simp: SetUserDisabled_def mustAffect_ok store_inv_def intro!: users_inv_update)
next
  case (set_password n p st st')
  then show ?case
    by (auto simp: SetUserPassword_def mustAffect_ok store_inv_def intro!: users_inv_update users_inv_end_sessions)
next
  case (set_totp ae nonce n s st st')
  then show ?case by (auto simp: SetUserTOTP_def mustAffect_ok store_inv_def intro!: users_inv_update)
next
  case (delete_user n st st')
  then have "users_inv st'" by (auto simp: store_inv_def intro: DeleteUser_inv)
  with delete_user show ?case by (auto simp: store_inv_def DeleteUser_def mustAffect_ok)
next
  case (add_session now t u ttl st st')
  then have "users_inv st'" by (auto simp: store_inv_def intro: AddSession_inv)
  with add_session show ?case by (auto simp: store_inv_def AddSession_def split: if_splits)
next
  case (delete_session st t)
  then show ?case by (auto simp: store_inv_def DeleteSession_def users_inv_def distinct_map_filter_key)
qed

lemma empty_store_inv: "store_inv empty_store"
  by (simp add: store_inv_def empty_store_def certs_inv_def users_inv_def audit_inv_def)

lemma store_steps_inv: "store_step\<^sup>*\<^sup>* st st' \<Longrightarrow> store_inv st \<Longrightarrow> store_inv st'"
  by (induction rule: rtranclp_induct) (auto intro: store_step_inv)

subsection \<open>Lemmas for the properties\<close>

definition revoked_at :: "store \<Rightarrow> string \<Rightarrow> int \<Rightarrow> bool" where
  "revoked_at st s t = (\<exists>c \<in> set (st_certs st). ct_Serial c = s \<and> ct_RevokedAt c = Some t)"

lemma revoked_update:
  "(\<exists>c \<in> set cs. ct_Serial c = s \<and> ct_RevokedAt c = Some t) \<Longrightarrow>
   (\<And>c. ct_Serial (f c) = ct_Serial c) \<Longrightarrow> (\<And>c. P c \<Longrightarrow> ct_RevokedAt c = Some t \<Longrightarrow> ct_RevokedAt (f c) = Some t) \<Longrightarrow>
   \<exists>c \<in> set (update_certs P f cs). ct_Serial c = s \<and> ct_RevokedAt c = Some t"
proof -
  assume "\<exists>c \<in> set cs. ct_Serial c = s \<and> ct_RevokedAt c = Some t"
    and f: "\<And>c. ct_Serial (f c) = ct_Serial c" "\<And>c. P c \<Longrightarrow> ct_RevokedAt c = Some t \<Longrightarrow> ct_RevokedAt (f c) = Some t"
  then obtain c where c: "c \<in> set cs" "ct_Serial c = s" "ct_RevokedAt c = Some t" by blast
  then have "(if P c then f c else c) \<in> set (update_certs P f cs)" by (auto simp: update_certs_def)
  with c f show ?thesis by (intro bexI [of _ "if P c then f c else c"]) auto
qed

lemma revoked_step: "store_step st st' \<Longrightarrow> revoked_at st s t \<Longrightarrow> revoked_at st' s t"
proof (induction rule: store_step.induct)
  case (add_cert c st st')
  then show ?case by (auto simp: AddCert_def revoked_at_def go_simps insert_cert_ok)
next
  case (replace_cert now c st st')
  then have "\<exists>d \<in> set (update_certs (activeCert (ct_Kind c) (ct_CN c)) (\<lambda>d. d\<lparr>ct_RevokedAt := Some now\<rparr>) (st_certs st)).
      ct_Serial d = s \<and> ct_RevokedAt d = Some t"
    unfolding revoked_at_def by (intro revoked_update) (auto simp: activeCert_def)
  with replace_cert show ?case by (auto simp: ReplaceCert_def revoked_at_def go_simps insert_cert_ok)
next
  case (set_cert_dns x b st cn ch st')
  have "\<exists>d \<in> set (update_certs (\<lambda>d. ct_Serial d = x) (\<lambda>d. d\<lparr>ct_IncludeDNS := b\<rparr>) (st_certs st)).
      ct_Serial d = s \<and> ct_RevokedAt d = Some t"
    using set_cert_dns(2) unfolding revoked_at_def by (intro revoked_update) auto
  with set_cert_dns show ?case by (auto simp: SetCertDNS_def revoked_at_def split: option.splits if_splits)
next
  case (revoke x at st cn st')
  let ?hit = "\<lambda>c. ct_Serial c = x \<and> ct_Kind c = ''client'' \<and> ct_RevokedAt c = None"
  have "\<exists>d \<in> set (update_certs ?hit (\<lambda>d. d\<lparr>ct_RevokedAt := Some at\<rparr>) (st_certs st)).
      ct_Serial d = s \<and> ct_RevokedAt d = Some t"
    using revoke(2) unfolding revoked_at_def by (intro revoked_update) auto
  with revoke show ?case by (auto simp: Revoke_def Let_def revoked_at_def split: option.splits)
next
  case (set_disabled n b st st')
  then show ?case by (auto simp: SetUserDisabled_def mustAffect_ok revoked_at_def)
next
  case (set_password n p st st')
  then show ?case by (auto simp: SetUserPassword_def mustAffect_ok revoked_at_def)
next
  case (set_totp ae nonce n x st st')
  then show ?case by (auto simp: SetUserTOTP_def mustAffect_ok revoked_at_def)
next
  case (delete_user n st st')
  then show ?case by (auto simp: DeleteUser_def mustAffect_ok revoked_at_def)
next
  case (add_session now u uid ttl st st')
  then show ?case by (auto simp: AddSession_def revoked_at_def split: if_splits)
qed (auto simp: revoked_at_def Audit_def SetSetting_def AddUser_ok DeleteSession_def)

lemma revoked_steps: "store_step\<^sup>*\<^sup>* st st' \<Longrightarrow> revoked_at st s t \<Longrightarrow> revoked_at st' s t"
  by (induction rule: rtranclp_induct) (auto intro: revoked_step)

lemma session_user_Some:
  assumes "session_user now tok st = Some u"
  shows "u \<in> set (st_users st) \<and> \<not> us_Disabled u \<and> (\<exists>s \<in> set (st_sessions st). se_Token s = tok \<and> se_User s = us_ID u \<and> now < se_Expires s)"
  using assms by (auto simp: session_user_def split: option.splits dest!: find_SomeD)

lemma sort_desc_append:
  assumes "audit_inv (es @ [e])"
  shows "sort_key (\<lambda>x. - au_ID x) (es @ [e]) = e # sort_key (\<lambda>x. - au_ID x) es"
proof -
  have lt: "\<forall>x \<in> set es. au_ID x < au_ID e" using assms by (auto simp: audit_inv_def sorted_wrt_append)
  have ins: "insort_key f e xs = e # xs" if "\<forall>x \<in> set xs. f e < f x" for f :: "audit_entry \<Rightarrow> int" and xs
    using that by (cases xs) auto
  have move: "insort_key f x (e # xs) = e # insort_key f x xs" if "f e < f x" for f :: "audit_entry \<Rightarrow> int" and x xs
    using that by simp
  show ?thesis using lt
  proof (induction es)
    case (Cons x es)
    then have "sort_key (\<lambda>x. - au_ID x) (es @ [e]) = e # sort_key (\<lambda>x. - au_ID x) es" by simp
    moreover have "- au_ID e < - au_ID x" using Cons.prems by simp
    ultimately show ?case using move by simp
  qed simp
qed

subsection \<open>Properties\<close>

definition alice_cert :: cert where
  "alice_cert = \<lparr>ct_Serial = ''0a'', ct_CN = ''alice'', ct_Kind = ''client'', ct_PEM = [], ct_IssuedAt = 10,
     ct_NotAfter = 1000, ct_RevokedAt = None, ct_IncludeDNS = True\<rparr>"

definition store1 :: store where
  "store1 = empty_store\<lparr>st_certs := [alice_cert]\<rparr>"

lemma store1_reach: "store_step\<^sup>*\<^sup>* empty_store store1"
proof -
  have "AddCert alice_cert empty_store = Inr store1" by code_simp
  then show ?thesis by (intro r_into_rtranclp store_step.add_cert)
qed



text \<open>C8: a revocation is permanent: no later operation of the store, renewals included, clears or
  changes the time at which a certificate was revoked, so it stays in every later CRL.\<close>

theorem revocation_is_permanent:
  assumes "Revoke serial t st = Inr (cn, st1)" and "store_step\<^sup>*\<^sup>* st1 st2"
  shows "\<exists>c \<in> set (RevokedCerts st2). ct_Serial c = serial \<and> ct_RevokedAt c = Some t"
proof -
  from assms(1) obtain c where "c \<in> set (st_certs st)" "ct_Serial c = serial" "ct_Kind c = ''client''" "ct_RevokedAt c = None"
    and st1: "st1 = st\<lparr>st_certs := update_certs (\<lambda>c. ct_Serial c = serial \<and> ct_Kind c = ''client'' \<and> ct_RevokedAt c = None)
       (\<lambda>d. d\<lparr>ct_RevokedAt := Some t\<rparr>) (st_certs st)\<rparr>"
    by (auto simp: Revoke_def Let_def split: option.splits dest!: find_SomeD)
  then have "c\<lparr>ct_RevokedAt := Some t\<rparr> \<in> set (st_certs st1)" "ct_Serial (c\<lparr>ct_RevokedAt := Some t\<rparr>) = serial"
    by (auto simp: update_certs_def)
  then have "revoked_at st1 serial t" unfolding revoked_at_def by (intro bexI) simp_all
  from revoked_steps [OF assms(2) this] show ?thesis by (auto simp: revoked_at_def RevokedCerts_def)
qed

theorem revocation_is_permanent_witness:
  "\<exists>st1. Revoke ''0a'' 50 store1 = Inr (''alice'', st1) \<and>
     (\<exists>c \<in> set (RevokedCerts (SetSetting ''k'' ''v'' st1)). ct_Serial c = ''0a'' \<and> ct_RevokedAt c = Some 50)"
proof -
  obtain st1 where r: "Revoke ''0a'' 50 store1 = Inr (''alice'', st1)"
    by (simp add: Revoke_def store1_def alice_cert_def empty_store_def Let_def)
  have "store_step\<^sup>*\<^sup>* st1 (SetSetting ''k'' ''v'' st1)" by (intro r_into_rtranclp store_step.set_setting)
  with r revocation_is_permanent [OF r] show ?thesis by blast
qed


definition bob_store :: store where
  "bob_store = empty_store\<lparr>
     st_users := [\<lparr>us_ID = 1, us_Username = ''bob'', us_PassHash = [], us_Role = ''admin'', us_TOTP = [], us_Disabled = False, us_CreatedAt = 0\<rparr>,
        \<lparr>us_ID = 2, us_Username = ''eve'', us_PassHash = [], us_Role = ''readonly'', us_TOTP = [], us_Disabled = False, us_CreatedAt = 0\<rparr>],
     st_sessions := [\<lparr>se_Token = ''t1'', se_User = 1, se_Created = 0, se_Expires = 100\<rparr>,
        \<lparr>se_Token = ''t2'', se_User = 2, se_Created = 0, se_Expires = 100\<rparr>]\<rparr>"

lemma bob_store_inv: "users_inv bob_store"
proof -
  have "nameRe ''bob'' \<and> nameRe ''eve''" by code_simp
  then show ?thesis by (simp add: bob_store_def empty_store_def users_inv_def roles_def)
qed


text \<open>A TOTP secret is read back as it was stored: for a cipher that opens what it sealed under
  a 12-byte nonce, \<^verbatim>\<open>GetUser\<close> after \<^verbatim>\<open>SetUserTOTP\<close> returns the secret, and no other user changes.\<close>

theorem totp_at_rest_roundtrip:
  assumes "\<And>n p. length n = 12 \<Longrightarrow> ae_open ae n (ae_seal ae n p) = Some p"
    and "length nonce = 12" and "SetUserTOTP ae nonce name secret st = Inr st'"
  shows "(\<exists>u. GetUser ae name st' = Inr u \<and> us_TOTP u = secret) \<and> (m \<noteq> name \<longrightarrow> GetUser ae m st' = GetUser ae m st)"
proof -
  let ?f = "\<lambda>u. if us_Username u = name then u\<lparr>us_TOTP := encryptTOTP ae nonce secret\<rparr> else u"
  have st': "st_users st' = map ?f (st_users st)" and ex: "name \<in> us_Username ` set (st_users st)"
    using assms(3) by (auto simp: SetUserTOTP_def mustAffect_ok update_users_def)
  have "decryptTOTP ae (encryptTOTP ae nonce secret) = Inr secret"
  proof (cases "secret = []")
    case False
    then have e: "encryptTOTP ae nonce secret = b64_encode False True (nonce @ ae_seal ae nonce secret)"
      by (simp add: encryptTOTP_def)
    have "b64_encode False True (nonce @ ae_seal ae nonce secret) \<noteq> []"
    proof
      assume "b64_encode False True (nonce @ ae_seal ae nonce secret) = []"
      moreover have "b64_encode False True [] = []" by (simp add: b64_encode_def b64_pad_def)
      ultimately have "nonce @ ae_seal ae nonce secret = []"
        by (metis b64_decode_encode option.inject)
      with assms(2) show False by auto
    qed
    then show ?thesis using assms(1,2) e by (simp add: decryptTOTP_def b64_decode_encode)
  qed (simp add: encryptTOTP_def decryptTOTP_def)
  then have scan: "scanUser ae (u\<lparr>us_TOTP := encryptTOTP ae nonce secret\<rparr>) = Inr (u\<lparr>us_TOTP := secret\<rparr>)" for u
    by (simp add: scanUser_def)
  have find: "List.find (\<lambda>u. us_Username u = k) (map ?f us) = map_option ?f (List.find (\<lambda>u. us_Username u = k) us)" for k us
    by (induction us) auto
  obtain u where u: "List.find (\<lambda>u. us_Username u = name) (st_users st) = Some u" "us_Username u = name"
    using find_key_ex [OF ex] by blast
  have "GetUser ae name st' = Inr (u\<lparr>us_TOTP := secret\<rparr>)"
    unfolding GetUser_def st' find using u scan by simp
  moreover have "GetUser ae m st' = GetUser ae m st" if "m \<noteq> name"
    unfolding GetUser_def st' find using that by (auto split: option.splits dest: find_key_Some)
  ultimately show ?thesis by simp
qed

definition plain_aead :: aead where
  "plain_aead = \<lparr>ae_seal = (\<lambda>n p. p), ae_open = (\<lambda>n c. Some c)\<rparr>"

theorem totp_at_rest_roundtrip_witness:
  "\<exists>st' u. SetUserTOTP plain_aead ''000000000000'' ''bob'' ''ABC'' bob_store = Inr st'
     \<and> GetUser plain_aead ''bob'' st' = Inr u \<and> us_TOTP u = ''ABC''"
proof -
  obtain st' where s: "SetUserTOTP plain_aead ''000000000000'' ''bob'' ''ABC'' bob_store = Inr st'"
    by (simp add: SetUserTOTP_def bob_store_def mustAffect_def)
  have "(\<exists>u. GetUser plain_aead ''bob'' st' = Inr u \<and> us_TOTP u = ''ABC'') \<and> (''eve'' \<noteq> ''bob'' \<longrightarrow> GetUser plain_aead ''eve'' st' = GetUser plain_aead ''eve'' bob_store)"
    by (rule totp_at_rest_roundtrip [OF _ _ s]) (simp_all add: plain_aead_def)
  with s show ?thesis by blast
qed

text \<open>The audit log is append-only and read newest first: after an entry is written, the tail of
  any length starts with it and continues with the tail of the log before.\<close>

theorem audit_newest_first:
  assumes "audit_inv (st_audit st)" and "0 < n"
  shows "\<exists>e. au_Actor e = a \<and> au_Action e = act \<and> au_Detail e = d \<and> au_TS e = now
    \<and> AuditTail (int n) (Audit now a act d st) = e # AuditTail (int n - 1) st
    \<and> (\<forall>x \<in> set (st_audit st). au_ID x < au_ID e)"
proof -
  let ?e = "\<lparr>au_ID = next_id (map au_ID (st_audit st)), au_TS = now, au_Actor = a, au_Action = act, au_Detail = d\<rparr>"
  have log: "st_audit (Audit now a act d st) = st_audit st @ [?e]" by (simp add: Audit_def)
  have "audit_inv (st_audit st @ [?e])" using audit_inv_Audit [OF assms(1), of now a act d] by (simp add: log)
  note s = sort_desc_append [OF this]
  have "AuditTail (int n) (Audit now a act d st) = ?e # AuditTail (int n - 1) st"
    using assms(2) by (cases n) (simp_all add: AuditTail_def log s nat_add_distrib)
  moreover have "\<forall>x \<in> set (st_audit st). au_ID x < au_ID ?e" by (simp add: next_id_greater)
  ultimately show ?thesis by (intro exI [of _ ?e]) simp
qed

theorem audit_newest_first_witness:
  "\<exists>e. au_Action e = ''login'' \<and> AuditTail 1 (Audit 7 ''bob'' ''login'' [] empty_store) = [e]"
proof -
  have "audit_inv (st_audit empty_store)" by (simp add: empty_store_def audit_inv_def)
  from audit_newest_first [OF this, of 1 "''bob''" "''login''" "[]" 7] show ?thesis
    by (auto simp: AuditTail_def empty_store_def)
qed

end
