(* ===== verification/Auth.thy ===== *)
theory Auth
  imports Store_Props
begin

section \<open>Authentication: roles, passwords, TOTP, rate limits, login\<close>

text \<open>
  \<^verbatim>\<open>src/internal/auth\<close>. The cryptographic primitives (argon2id, SHA-256, HMAC-SHA1, base32, the
  AEAD of the store) are the fields of the record \<open>crypto\<close>; the clock reading, in nanoseconds,
  and the random bytes are arguments. A service is the store with its two limiters. The locale
  \<open>rate_limiter\<close> states what \<^verbatim>\<open>Login\<close> relies on from a limiter; \<^verbatim>\<open>Limiter\<close> provides it.
\<close>

subsection \<open>Roles\<close>

abbreviation RoleAdmin :: string where "RoleAdmin \<equiv> ''admin''"
abbreviation RoleOperator :: string where "RoleOperator \<equiv> ''operator''"
abbreviation RoleReadonly :: string where "RoleReadonly \<equiv> ''readonly''"

text \<open>A key that is missing from the Go map reads as 0.\<close>

definition rank :: "string \<Rightarrow> int" where
  "rank r = (if r = RoleReadonly then 0 else if r = RoleOperator then 1 else if r = RoleAdmin then 2 else 0)"

definition Can :: "string \<Rightarrow> string \<Rightarrow> bool" where
  "Can r required = (rank r \<ge> rank required)"

definition ValidRole :: "string \<Rightarrow> bool" where
  "ValidRole s = (s = RoleAdmin \<or> s = RoleOperator \<or> s = RoleReadonly)"

subsection \<open>Secrets\<close>

text \<open>The runes of a string as a Go \<^verbatim>\<open>range\<close> yields them: an invalid byte is U+FFFD.\<close>

definition cont_c :: "nat \<Rightarrow> bool" where
  "cont_c b = (0x80 \<le> b \<and> b \<le> 0xBF)"

fun rune_at :: "nat list \<Rightarrow> int \<times> nat" where
  "rune_at [] = (0xFFFD, 1)"
| "rune_at (a # r) = (if a < 0x80 then (int a, 1)
     else (case r of
       b # c # d # _ \<Rightarrow>
         if 0xC2 \<le> a \<and> a \<le> 0xDF \<and> cont_c b then (int (a - 0xC0) * 64 + int (b - 0x80), 2)
         else if 0xE0 \<le> a \<and> a \<le> 0xEF \<and> cont_c b \<and> cont_c c \<and> (a = 0xE0 \<longrightarrow> 0xA0 \<le> b) \<and> (a = 0xED \<longrightarrow> b \<le> 0x9F)
           then (int (a - 0xE0) * 4096 + int (b - 0x80) * 64 + int (c - 0x80), 3)
         else if 0xF0 \<le> a \<and> a \<le> 0xF4 \<and> cont_c b \<and> cont_c c \<and> cont_c d \<and> (a = 0xF0 \<longrightarrow> 0x90 \<le> b) \<and> (a = 0xF4 \<longrightarrow> b \<le> 0x8F)
           then (int (a - 0xF0) * 262144 + int (b - 0x80) * 4096 + int (c - 0x80) * 64 + int (d - 0x80), 4)
         else (0xFFFD, 1)
     | [b, c] \<Rightarrow>
         if 0xC2 \<le> a \<and> a \<le> 0xDF \<and> cont_c b then (int (a - 0xC0) * 64 + int (b - 0x80), 2)
         else if 0xE0 \<le> a \<and> a \<le> 0xEF \<and> cont_c b \<and> cont_c c \<and> (a = 0xE0 \<longrightarrow> 0xA0 \<le> b) \<and> (a = 0xED \<longrightarrow> b \<le> 0x9F)
           then (int (a - 0xE0) * 4096 + int (b - 0x80) * 64 + int (c - 0x80), 3)
         else (0xFFFD, 1)
     | [b] \<Rightarrow> if 0xC2 \<le> a \<and> a \<le> 0xDF \<and> cont_c b then (int (a - 0xC0) * 64 + int (b - 0x80), 2) else (0xFFFD, 1)
     | [] \<Rightarrow> (0xFFFD, 1)))"

lemma rune_at_width: "0 < snd (rune_at s)"
  by (cases s) (simp_all split: list.splits)

function runes :: "nat list \<Rightarrow> int list" where
  "runes [] = []"
| "runes (a # r) = (let (u, n) = rune_at (a # r) in u # runes (drop n (a # r)))"
  by pat_completeness auto
termination
proof (relation "measure length", goal_cases)
  case (2 a r x u n)
  then have "0 < n" using rune_at_width [of "a # r"] by (metis snd_conv)
  then show ?case by simp
qed simp

datatype rune_class = Upper | Lower | Digit | Other

text \<open>\<^verbatim>\<open>unicode.IsUpper\<close>, \<^verbatim>\<open>IsLower\<close>, \<^verbatim>\<open>IsDigit\<close>: computed for ASCII, the Unicode tables are the
  argument \<open>uni\<close> beyond it.\<close>

definition classify :: "(int \<Rightarrow> rune_class) \<Rightarrow> int \<Rightarrow> rune_class" where
  "classify uni r = (if 65 \<le> r \<and> r \<le> 90 then Upper else if 97 \<le> r \<and> r \<le> 122 then Lower
     else if 48 \<le> r \<and> r \<le> 57 then Digit else if r < 128 then Other else uni r)"

definition secretClasses :: "(int \<Rightarrow> rune_class) \<Rightarrow> string \<Rightarrow> nat" where
  "secretClasses uni v = (let cs = map (classify uni) (runes (map byte_of v)) in
     length (filter (\<lambda>k. k \<in> set cs) [Upper, Lower, Digit, Other]))"

abbreviation MinSecretLen :: nat where "MinSecretLen \<equiv> 8"
abbreviation MinSecretClasses :: nat where "MinSecretClasses \<equiv> 2"

definition SecretOK :: "(int \<Rightarrow> rune_class) \<Rightarrow> string \<Rightarrow> bool" where
  "SecretOK uni v = (length v \<ge> MinSecretLen \<and> secretClasses uni v \<ge> MinSecretClasses)"

subsection \<open>Passwords\<close>

record crypto =
  cr_argon2 :: "string \<Rightarrow> string \<Rightarrow> int \<Rightarrow> int \<Rightarrow> int \<Rightarrow> nat \<Rightarrow> string"
  cr_sha256 :: "string \<Rightarrow> string"
  cr_hmac_sha1 :: "string \<Rightarrow> string \<Rightarrow> string"
  cr_b32 :: "string \<Rightarrow> string option"
  cr_aead :: aead

abbreviation hTime :: int where "hTime \<equiv> 2"
abbreviation hMemKiB :: int where "hMemKiB \<equiv> 65536"
abbreviation hThreads :: int where "hThreads \<equiv> 4"
abbreviation hKeyLen :: nat where "hKeyLen \<equiv> 32"

definition HashPassword :: "crypto \<Rightarrow> string \<Rightarrow> string \<Rightarrow> string" where
  "HashPassword cr salt password = ''$argon2id$v=19$m='' @ itoa hMemKiB @ '',t='' @ itoa hTime @ '',p='' @ itoa hThreads
     @ ''$'' @ b64_encode False False salt
     @ ''$'' @ b64_encode False False (cr_argon2 cr password salt hTime hMemKiB hThreads hKeyLen)"

text \<open>\<^verbatim>\<open>Sscanf\<close> with \<^verbatim>\<open>%d\<close> into an unsigned integer below \<open>lim\<close>: blanks, then digits.\<close>

definition scan_uint :: "int \<Rightarrow> string \<Rightarrow> (int \<times> string) option" where
  "scan_uint lim s = (let t = dropWhile (\<lambda>c. c = CHR '' '' \<or> c = TAB) s;
      d = takeWhile is_digit_c t in
     if d = [] \<or> int (digits_val 0 d) \<ge> lim then None else Some (int (digits_val 0 d), drop (length d) t))"

definition scan_params :: "string \<Rightarrow> (int \<times> int \<times> int) option" where
  "scan_params s =
     Option.bind (cut_prefix s ''m='') (\<lambda>r. Option.bind (scan_uint (2 ^ 32) r) (\<lambda>(m, r).
     Option.bind (cut_prefix r '',t='') (\<lambda>r. Option.bind (scan_uint (2 ^ 32) r) (\<lambda>(t, r).
     Option.bind (cut_prefix r '',p='') (\<lambda>r. Option.bind (scan_uint 256 r) (\<lambda>(p, r). Some (m, t, p)))))))"

definition VerifyPassword :: "crypto \<Rightarrow> string \<Rightarrow> string \<Rightarrow> bool" where
  "VerifyPassword cr password encoded = (let p = split_c CHR ''$'' encoded in
     if length p \<noteq> 6 \<or> p ! 1 \<noteq> ''argon2id'' then False
     else (case scan_params (p ! 3) of None \<Rightarrow> False
       | Some (m, t, par) \<Rightarrow> (case b64_decode False False (p ! 4) of None \<Rightarrow> False
         | Some salt \<Rightarrow> (case b64_decode False False (p ! 5) of None \<Rightarrow> False
           | Some want \<Rightarrow> cr_argon2 cr password salt t m par (length want) = want))))"

subsection \<open>TOTP\<close>

definition be_bytes :: "nat \<Rightarrow> int \<Rightarrow> string" where
  "be_bytes k v = map (\<lambda>i. char_of (nat (v div 256 ^ (k - 1 - i) mod 256))) [0..<k]"

definition be_value :: "string \<Rightarrow> int" where
  "be_value s = foldl (\<lambda>a c. 256 * a + int (byte_of c)) 0 s"

definition pad6 :: "int \<Rightarrow> string" where
  "pad6 n = (let s = itoa n in replicate (6 - length s) CHR ''0'' @ s)"

definition totp_step :: "crypto \<Rightarrow> string \<Rightarrow> int \<Rightarrow> string" where
  "totp_step cr key step = (let sum = cr_hmac_sha1 cr key (be_bytes 8 step);
      off = byte_of (last sum) mod 16 in
     pad6 (be_value (take 4 (drop off sum)) mod 2 ^ 31 mod 1000000))"

definition totpCode :: "crypto \<Rightarrow> string \<Rightarrow> int \<Rightarrow> string option" where
  "totpCode cr secret t = (case cr_b32 cr secret of None \<Rightarrow> None
     | Some key \<Rightarrow> Some (totp_step cr key (t mod 2 ^ 64 div 30)))"

fun totp_try :: "crypto \<Rightarrow> string \<Rightarrow> string \<Rightarrow> int \<Rightarrow> int list \<Rightarrow> bool" where
  "totp_try cr secret code now [] = False"
| "totp_try cr secret code now (skew # ss) = (case totpCode cr secret ((now + skew * second) div second) of
     None \<Rightarrow> False | Some want \<Rightarrow> want = code \<or> totp_try cr secret code now ss)"

definition TOTPVerify :: "crypto \<Rightarrow> string \<Rightarrow> string \<Rightarrow> int \<Rightarrow> bool" where
  "TOTPVerify cr secret code now = totp_try cr secret code now [0, -30, 30]"

subsection \<open>The rate limiter\<close>

record entry =
  en_count :: int
  en_first :: int

record limiter =
  lm_max :: int
  lm_window :: int
  lm_failures :: "string \<rightharpoonup> entry"

definition NewLimiter :: "int \<Rightarrow> int \<Rightarrow> limiter" where
  "NewLimiter mx window = \<lparr>lm_max = mx, lm_window = window, lm_failures = Map.empty\<rparr>"

definition Allow :: "string \<Rightarrow> int \<Rightarrow> limiter \<Rightarrow> bool \<times> limiter" where
  "Allow key now l = (case lm_failures l key of
     None \<Rightarrow> (True, l)
   | Some e \<Rightarrow> if now - en_first e > lm_window l then (True, l\<lparr>lm_failures := (lm_failures l)(key := None)\<rparr>)
       else (en_count e < lm_max l, l))"

definition sweep :: "int \<Rightarrow> limiter \<Rightarrow> limiter" where
  "sweep now l = l\<lparr>lm_failures := map_filter_val (\<lambda>e. \<not> now - en_first e > lm_window l) (lm_failures l)\<rparr>"

definition Fail :: "string \<Rightarrow> int \<Rightarrow> limiter \<Rightarrow> limiter" where
  "Fail key now l0 = (let l = sweep now l0 in
     case lm_failures l key of
       None \<Rightarrow> l\<lparr>lm_failures := (lm_failures l)(key \<mapsto> \<lparr>en_count = 1, en_first = now\<rparr>)\<rparr>
     | Some e \<Rightarrow> if now - en_first e > lm_window l
         then l\<lparr>lm_failures := (lm_failures l)(key \<mapsto> \<lparr>en_count = 1, en_first = now\<rparr>)\<rparr>
         else l\<lparr>lm_failures := (lm_failures l)(key \<mapsto> e\<lparr>en_count := en_count e + 1\<rparr>)\<rparr>)"

definition Reset :: "string \<Rightarrow> limiter \<Rightarrow> limiter" where
  "Reset key l = l\<lparr>lm_failures := (lm_failures l)(key := None)\<rparr>"

subsection \<open>Sessions of the service\<close>

record service =
  sv_Store :: store
  sv_Limiter :: limiter
  sv_UserLimiter :: limiter

abbreviation minutes15 :: int where "minutes15 \<equiv> 15 * 60 * second"
abbreviation SessionTTL :: int where "SessionTTL \<equiv> 12 * 3600"

definition NewService :: "store \<Rightarrow> service" where
  "NewService s = \<lparr>sv_Store = s, sv_Limiter = NewLimiter 5 minutes15, sv_UserLimiter = NewLimiter 20 minutes15\<rparr>"

datatype login_error = BadCredentials | TOTPRequired | RateLimited | LoginStore store_error

definition hashToken :: "crypto \<Rightarrow> string \<Rightarrow> string" where
  "hashToken cr t = hex_encode (cr_sha256 cr t)"

definition login_name :: "string \<Rightarrow> string" where
  "login_name username = (if is_ok (CheckName [] username) then username else ''?'')"

definition login_key :: "string \<Rightarrow> string \<Rightarrow> string" where
  "login_key name ip = name @ ''|'' @ ip"

text \<open>The closure \<^verbatim>\<open>fail\<close> of \<^verbatim>\<open>Login\<close>.\<close>

definition login_fail :: "int \<Rightarrow> string \<Rightarrow> string \<Rightarrow> service \<Rightarrow> service" where
  "login_fail now name ip a = a\<lparr>
     sv_Limiter := Fail (login_key name ip) now (sv_Limiter a),
     sv_UserLimiter := Fail name now (sv_UserLimiter a),
     sv_Store := Audit (now div second) name ''login_fail'' (''ip='' @ ip) (sv_Store a)\<rparr>"

text \<open>The part of \<^verbatim>\<open>Login\<close> after the limiters allowed the attempt. \<open>raw\<close> are the random bytes.\<close>

definition login_check :: "crypto \<Rightarrow> int \<Rightarrow> string \<Rightarrow> string \<Rightarrow> string \<Rightarrow> string \<Rightarrow> string \<Rightarrow> service
    \<Rightarrow> (login_error, string \<times> user) result \<times> service" where
  "login_check cr now raw name password totp ip a =
     (let bad = (Inl BadCredentials, login_fail now name ip a) in
      case GetUser (cr_aead cr) name (sv_Store a) of
        Inl _ \<Rightarrow> bad
      | Inr u \<Rightarrow>
        if us_Disabled u then bad
        else if \<not> VerifyPassword cr password (us_PassHash u) then bad
        else if us_TOTP u \<noteq> [] \<and> totp = [] then (Inl TOTPRequired, a)
        else if us_TOTP u \<noteq> [] \<and> \<not> TOTPVerify cr (us_TOTP u) totp now then bad
        else (let token = b64_encode True False raw in
          case AddSession (now div second) (hashToken cr token) (us_ID u) SessionTTL (sv_Store a) of
            Inl e \<Rightarrow> (Inl (LoginStore e), a)
          | Inr st \<Rightarrow> (Inr (token, u), a\<lparr>
              sv_Limiter := Reset (login_key name ip) (sv_Limiter a),
              sv_UserLimiter := Reset name (sv_UserLimiter a),
              sv_Store := Audit (now div second) name ''login'' (''ip='' @ ip) st\<rparr>)))"

definition Login :: "crypto \<Rightarrow> int \<Rightarrow> string \<Rightarrow> string \<Rightarrow> string \<Rightarrow> string \<Rightarrow> string \<Rightarrow> service
    \<Rightarrow> (login_error, string \<times> user) result \<times> service" where
  "Login cr now raw username password totp ip a =
     (let name = login_name username in
      case Allow (login_key name ip) now (sv_Limiter a) of (ok, l) \<Rightarrow>
        (let a1 = a\<lparr>sv_Limiter := l\<rparr> in
         if \<not> ok then (Inl RateLimited, a1)
         else (case Allow name now (sv_UserLimiter a1) of (ok2, ul) \<Rightarrow>
           (let a2 = a1\<lparr>sv_UserLimiter := ul\<rparr> in
            if \<not> ok2 then (Inl RateLimited, a2)
            else login_check cr now raw name password totp ip a2))))"

definition Validate_token :: "crypto \<Rightarrow> int \<Rightarrow> string \<Rightarrow> service \<Rightarrow> (store_error, user option) result" where
  "Validate_token cr now token a = (if token = [] then Inr None
     else SessionUser (cr_aead cr) (now div second) (hashToken cr token) (sv_Store a))"

definition Logout :: "crypto \<Rightarrow> string \<Rightarrow> service \<Rightarrow> service" where
  "Logout cr token a = a\<lparr>sv_Store := DeleteSession (hashToken cr token) (sv_Store a)\<rparr>"

end
