(* ===== verification/Auth_Props.thy ===== *)
theory Auth_Props
  imports Auth
begin

section \<open>What authentication guarantees\<close>

text \<open>
  The contract of a rate limiter as a locale, with the lockout bound proved inside it and the
  interpretation on \<^verbatim>\<open>Limiter\<close>; then the bound on password guesses through \<^verbatim>\<open>Login\<close>, what a
  successful login means, the round trip of the password hash and the time steps of TOTP.
\<close>

subsection \<open>The contract of a limiter\<close>

text \<open>\<open>recorded k l\<close> is the number of failures stored for \<open>k\<close> and the time of the first one.\<close>

locale rate_limiter =
  fixes allow :: "'k \<Rightarrow> int \<Rightarrow> 'l \<Rightarrow> bool \<times> 'l" and fail :: "'k \<Rightarrow> int \<Rightarrow> 'l \<Rightarrow> 'l" and reset :: "'k \<Rightarrow> 'l \<Rightarrow> 'l"
    and recorded :: "'k \<Rightarrow> 'l \<Rightarrow> (int \<times> int) option" and limit :: "'l \<Rightarrow> int" and window :: "'l \<Rightarrow> int"
  assumes allow_answer: "fst (allow k t l) \<longleftrightarrow> (case recorded k l of None \<Rightarrow> True
        | Some (n, s) \<Rightarrow> t - s > window l \<or> n < limit l)"
    and allow_recorded: "recorded j (snd (allow k t l)) = (case recorded j l of None \<Rightarrow> None
        | Some (n, s) \<Rightarrow> if j = k \<and> t - s > window l then None else Some (n, s))"
    and fail_recorded: "recorded j (fail k t l) = (case recorded j l of
          None \<Rightarrow> if j = k then Some (1, t) else None
        | Some (n, s) \<Rightarrow> if t - s > window l then (if j = k then Some (1, t) else None)
             else if j = k then Some (n + 1, s) else Some (n, s))"
    and reset_recorded: "recorded j (reset k l) = (if j = k then None else recorded j l)"
    and frame: "limit (snd (allow k t l)) = limit l" "window (snd (allow k t l)) = window l"
      "limit (fail k t l) = limit l" "window (fail k t l) = window l"
      "limit (reset k l) = limit l" "window (reset k l) = window l"
begin

text \<open>\<open>m\<close> failures of \<open>k\<close> since \<open>t0\<close>, none forgotten: true at \<open>t0\<close> with nothing recorded, and
  kept by every operation up to the end of the window.\<close>

definition counted :: "'k \<Rightarrow> int \<Rightarrow> int \<Rightarrow> 'l \<Rightarrow> bool" where
  "counted k t0 m l = (case recorded k l of None \<Rightarrow> m = 0 | Some (n, s) \<Rightarrow> t0 \<le> s \<and> n = m)"

lemma counted_start: "recorded k l = None \<Longrightarrow> counted k t0 0 l"
  by (simp add: counted_def)

lemma counted_allow:
  "counted k t0 m l \<Longrightarrow> t \<le> t0 + window l \<Longrightarrow> counted k t0 m (snd (allow j t l))"
  by (auto simp: counted_def allow_recorded split: option.splits)

lemma counted_fail:
  "counted k t0 m l \<Longrightarrow> t0 \<le> t \<Longrightarrow> t \<le> t0 + window l \<Longrightarrow>
     counted k t0 (if j = k then m + 1 else m) (fail j t l)"
  by (auto simp: counted_def fail_recorded split: option.splits)

lemma counted_reset: "counted k t0 m l \<Longrightarrow> j \<noteq> k \<Longrightarrow> counted k t0 m (reset j l)"
  by (simp add: counted_def reset_recorded)

lemma counted_answer:
  "counted k t0 m l \<Longrightarrow> t \<le> t0 + window l \<Longrightarrow> 0 < limit l \<Longrightarrow> fst (allow k t l) \<longleftrightarrow> m < limit l"
  by (auto simp: counted_def allow_answer split: option.splits)

end

definition lm_recorded :: "string \<Rightarrow> limiter \<Rightarrow> (int \<times> int) option" where
  "lm_recorded k l = map_option (\<lambda>e. (en_count e, en_first e)) (lm_failures l k)"

interpretation lim: rate_limiter Allow Fail Reset lm_recorded lm_max lm_window
  by unfold_locales
    (auto simp: Allow_def Fail_def Reset_def sweep_def Let_def lm_recorded_def map_filter_val_def split: option.splits)

subsection \<open>A run of login attempts\<close>

record attempt =
  at_user :: string
  at_pass :: string
  at_totp :: string
  at_ip :: string
  at_now :: int
  at_raw :: string

definition try_login :: "crypto \<Rightarrow> attempt \<Rightarrow> service \<Rightarrow> (login_error, string \<times> user) result \<times> service" where
  "try_login cr x a = Login cr (at_now x) (at_raw x) (at_user x) (at_pass x) (at_totp x) (at_ip x) a"

fun login_run :: "crypto \<Rightarrow> attempt list \<Rightarrow> service \<Rightarrow> (login_error, string \<times> user) result list" where
  "login_run cr [] a = []"
| "login_run cr (x # xs) a = (case try_login cr x a of (r, a1) \<Rightarrow> r # login_run cr xs a1)"

definition at_key :: "attempt \<Rightarrow> string" where
  "at_key x = login_key (login_name (at_user x)) (at_ip x)"

text \<open>What one attempt does to the two limiters.\<close>

lemma try_login_cases:
  assumes "try_login cr x a = (r, a1)"
  obtains (denied) "r = Inl RateLimited" "sv_Limiter a1 = snd (Allow (at_key x) (at_now x) (sv_Limiter a))"
      "sv_UserLimiter a1 = sv_UserLimiter a
        \<or> sv_UserLimiter a1 = snd (Allow (login_name (at_user x)) (at_now x) (sv_UserLimiter a))"
  | (bad) "r = Inl BadCredentials" "fst (Allow (at_key x) (at_now x) (sv_Limiter a))"
      "fst (Allow (login_name (at_user x)) (at_now x) (sv_UserLimiter a))"
      "sv_Limiter a1 = Fail (at_key x) (at_now x) (snd (Allow (at_key x) (at_now x) (sv_Limiter a)))"
      "sv_UserLimiter a1 = Fail (login_name (at_user x)) (at_now x) (snd (Allow (login_name (at_user x)) (at_now x) (sv_UserLimiter a)))"
  | (other) e where "r = Inl e" "e \<noteq> BadCredentials" "sv_Limiter a1 = snd (Allow (at_key x) (at_now x) (sv_Limiter a))"
      "sv_UserLimiter a1 = snd (Allow (login_name (at_user x)) (at_now x) (sv_UserLimiter a))"
  | (success) v where "r = Inr v"
      "sv_Limiter a1 = Reset (at_key x) (snd (Allow (at_key x) (at_now x) (sv_Limiter a)))"
      "sv_UserLimiter a1 = Reset (login_name (at_user x)) (snd (Allow (login_name (at_user x)) (at_now x) (sv_UserLimiter a)))"
proof -
  let ?n = "login_name (at_user x)"
  obtain ok l where A: "Allow (at_key x) (at_now x) (sv_Limiter a) = (ok, l)" by (metis surj_pair)
  obtain ok2 ul where B: "Allow ?n (at_now x) (sv_UserLimiter a) = (ok2, ul)" by (metis surj_pair)
  show ?thesis
  proof (cases "ok \<and> ok2")
    case False
    then show ?thesis
      by (intro denied; use assms A B in \<open>auto simp: try_login_def Login_def Let_def at_key_def split: if_splits\<close>)
  next
    case True
    let ?a2 = "a\<lparr>sv_Limiter := l, sv_UserLimiter := ul\<rparr>"
    have c: "login_check cr (at_now x) (at_raw x) ?n (at_pass x) (at_totp x) (at_ip x) ?a2 = (r, a1)"
      using assms A B True by (simp add: try_login_def Login_def Let_def at_key_def)
    consider "(r, a1) = (Inl BadCredentials, login_fail (at_now x) ?n (at_ip x) ?a2)"
      | e where "(r, a1) = (Inl e, ?a2)" "e \<noteq> BadCredentials"
      | v st where "(r, a1) = (Inr v, ?a2\<lparr>sv_Limiter := Reset (login_key ?n (at_ip x)) l,
          sv_UserLimiter := Reset ?n ul, sv_Store := st\<rparr>)"
      using c by (auto simp: login_check_def Let_def split: sum.splits if_splits)
    then show ?thesis
    proof cases
      case 1
      then show ?thesis using A B True by (intro bad) (simp_all add: login_fail_def at_key_def)
    next
      case (2 e)
      then show ?thesis using A B by (intro other [of e]) simp_all
    next
      case (3 v st)
      then show ?thesis using A B by (intro success [of v]) (simp_all add: at_key_def)
    qed
  qed
qed

text \<open>The number of refused guesses of a run that hit the bucket \<open>k\<close>.\<close>

fun guesses :: "(attempt \<Rightarrow> string) \<Rightarrow> string \<Rightarrow> attempt list \<Rightarrow> (login_error, string \<times> user) result list \<Rightarrow> int" where
  "guesses f k (x # xs) (r # rs) = (if f x = k \<and> r = Inl BadCredentials then 1 else 0) + guesses f k xs rs"
| "guesses f k _ _ = 0"

text \<open>No attempt of the run on the bucket \<open>k\<close> succeeds.\<close>

fun no_success :: "(attempt \<Rightarrow> string) \<Rightarrow> string \<Rightarrow> attempt list \<Rightarrow> (login_error, string \<times> user) result list \<Rightarrow> bool" where
  "no_success f k (x # xs) (r # rs) = ((f x = k \<longrightarrow> \<not> is_ok r) \<and> no_success f k xs rs)"
| "no_success f k _ _ = True"

lemma key_guesses_bounded:
  assumes "\<forall>x \<in> set xs. t0 \<le> at_now x \<and> at_now x \<le> t0 + lm_window (sv_Limiter a)"
    and "lim.counted k t0 m (sv_Limiter a)" and "m \<le> lm_max (sv_Limiter a)" and "0 < lm_max (sv_Limiter a)"
    and "no_success at_key k xs (login_run cr xs a)"
  shows "m + guesses at_key k xs (login_run cr xs a) \<le> lm_max (sv_Limiter a)"
  using assms
proof (induction xs arbitrary: a m)
  case (Cons x xs)
  obtain r a1 where t: "try_login cr x a = (r, a1)" by (metis surj_pair)
  let ?l = "snd (Allow (at_key x) (at_now x) (sv_Limiter a))"
  have time: "t0 \<le> at_now x" "at_now x \<le> t0 + lm_window (sv_Limiter a)" using Cons.prems(1) by auto
  note ca = lim.counted_allow [OF Cons.prems(2) time(2), of "at_key x"]
  from t show ?case
  proof (cases rule: try_login_cases)
    case denied
    with Cons.IH [of a1 m] Cons.prems ca t show ?thesis by (simp add: lim.frame)
  next
    case bad
    let ?m = "if at_key x = k then m + 1 else m"
    have "lim.counted k t0 ?m (sv_Limiter a1)"
      using lim.counted_fail [OF ca time(1), of "at_key x"] time(2) bad(4) by (simp add: lim.frame)
    moreover have "?m \<le> lm_max (sv_Limiter a)"
      using lim.counted_answer [OF _ time(2) Cons.prems(4), of k m] Cons.prems(2,3) bad(2) by auto
    ultimately show ?thesis using Cons.IH [of a1 ?m] Cons.prems t bad(1,4)
      by (cases "at_key x = k") (simp_all add: lim.frame)
  next
    case (other e)
    with Cons.IH [of a1 m] Cons.prems ca t show ?thesis by (simp add: lim.frame)
  next
    case (success v)
    then have "at_key x \<noteq> k" using Cons.prems(5) t by auto
    with success Cons.IH [of a1 m] Cons.prems lim.counted_reset [OF ca, of "at_key x"] t
    show ?thesis by (simp add: lim.frame)
  qed
qed simp

lemma user_guesses_bounded:
  assumes "\<forall>x \<in> set xs. t0 \<le> at_now x \<and> at_now x \<le> t0 + lm_window (sv_UserLimiter a)"
    and "lim.counted k t0 m (sv_UserLimiter a)" and "m \<le> lm_max (sv_UserLimiter a)" and "0 < lm_max (sv_UserLimiter a)"
    and "no_success (\<lambda>x. login_name (at_user x)) k xs (login_run cr xs a)"
  shows "m + guesses (\<lambda>x. login_name (at_user x)) k xs (login_run cr xs a) \<le> lm_max (sv_UserLimiter a)"
  using assms
proof (induction xs arbitrary: a m)
  case (Cons x xs)
  obtain r a1 where t: "try_login cr x a = (r, a1)" by (metis surj_pair)
  let ?n = "login_name (at_user x)"
  have time: "t0 \<le> at_now x" "at_now x \<le> t0 + lm_window (sv_UserLimiter a)" using Cons.prems(1) by auto
  note ca = lim.counted_allow [OF Cons.prems(2) time(2), of ?n]
  from t show ?case
  proof (cases rule: try_login_cases)
    case denied
    then have "lim.counted k t0 m (sv_UserLimiter a1)" "lm_window (sv_UserLimiter a1) = lm_window (sv_UserLimiter a)"
      "lm_max (sv_UserLimiter a1) = lm_max (sv_UserLimiter a)" using ca Cons.prems(2) by (auto simp: lim.frame)
    with denied(1) Cons.IH [of a1 m] Cons.prems t show ?thesis by simp
  next
    case bad
    let ?m = "if ?n = k then m + 1 else m"
    have "lim.counted k t0 ?m (sv_UserLimiter a1)"
      using lim.counted_fail [OF ca time(1), of ?n] time(2) bad(5) by (simp add: lim.frame)
    moreover have "?m \<le> lm_max (sv_UserLimiter a)"
      using lim.counted_answer [OF _ time(2) Cons.prems(4), of k m] Cons.prems(2,3) bad(3) by auto
    ultimately show ?thesis using Cons.IH [of a1 ?m] Cons.prems t bad(1,5)
      by (cases "?n = k") (simp_all add: lim.frame)
  next
    case (other e)
    with Cons.IH [of a1 m] Cons.prems ca t show ?thesis by (simp add: lim.frame)
  next
    case (success v)
    then have "?n \<noteq> k" using Cons.prems(5) t by auto
    with success Cons.IH [of a1 m] Cons.prems lim.counted_reset [OF ca, of ?n] t
    show ?thesis by (simp add: lim.frame)
  qed
qed simp

subsection \<open>Password hashes\<close>

lemma takeWhile_digits:
  "r = [] \<or> \<not> is_digit_c (hd r) \<Longrightarrow> takeWhile is_digit_c (nat_str n @ r) = nat_str n"
proof -
  assume r: "r = [] \<or> \<not> is_digit_c (hd r)"
  have "takeWhile is_digit_c (nat_str n @ r) = nat_str n @ takeWhile is_digit_c r"
    by (rule takeWhile_append2) (rule set_nat_str)
  with r show ?thesis by (cases r) auto
qed

lemma scan_uint_nat_str:
  assumes "r = [] \<or> \<not> is_digit_c (hd r)" "int n < lim"
  shows "scan_uint lim (nat_str n @ r) = Some (int n, r)"
proof -
  obtain c t where ct: "nat_str n = c # t" by (cases "nat_str n") auto
  then have "is_digit_c c" using nat_str_digits [of n] by simp
  then have "dropWhile (\<lambda>c. c = CHR '' '' \<or> c = TAB) (nat_str n @ r) = nat_str n @ r"
    by (auto simp: ct is_digit_c_def byte_of_def)
  then show ?thesis using takeWhile_digits [OF assms(1), of n] assms(2) by (simp add: scan_uint_def digits_val_nat_str)
qed

lemma scan_params_print:
  "scan_params (''m='' @ itoa hMemKiB @ '',t='' @ itoa hTime @ '',p='' @ itoa hThreads) = Some (hMemKiB, hTime, hThreads)"
proof -
  define r2 where "r2 = '',p='' @ nat_str 4 @ []"
  define r1 where "r1 = '',t='' @ nat_str 2 @ r2"
  have nd: "\<not> is_digit_c CHR '',''" by (simp add: is_digit_c_def byte_of_def)
  have a: "scan_uint (2 ^ 32) (nat_str 65536 @ r1) = Some (int 65536, r1)"
    by (rule scan_uint_nat_str) (simp_all add: r1_def nd)
  have b: "scan_uint (2 ^ 32) (nat_str 2 @ r2) = Some (int 2, r2)"
    by (rule scan_uint_nat_str) (simp_all add: r2_def nd)
  have c: "scan_uint 256 (nat_str 4 @ []) = Some (int 4, [])"
    by (rule scan_uint_nat_str) simp_all
  have p1: "cut_prefix r1 '',t='' = Some (nat_str 2 @ r2)" and p2: "cut_prefix r2 '',p='' = Some (nat_str 4 @ [])"
    unfolding r1_def r2_def by (rule cut_prefix_append)+
  have "scan_params (''m='' @ nat_str 65536 @ r1) = Some (int 65536, int 2, int 4)"
    by (simp only: scan_params_def cut_prefix_append a p1 b p2 c bind.bind_lunit case_prod_conv)
  then show ?thesis by (simp add: itoa_def r1_def r2_def)
qed

lemma plain_not_dollar: "is_digit_c c \<Longrightarrow> c \<noteq> CHR ''$''"
  by (auto simp: is_digit_c_def byte_of_def)

lemma split_hash:
  "split_c CHR ''$'' (HashPassword cr salt password) =
     [[], ''argon2id'', ''v=19'', ''m='' @ itoa hMemKiB @ '',t='' @ itoa hTime @ '',p='' @ itoa hThreads,
      b64_encode False False salt,
      b64_encode False False (cr_argon2 cr password salt hTime hMemKiB hThreads hKeyLen)]"
proof -
  let ?ps = "[[], ''argon2id'', ''v=19'', ''m='' @ itoa hMemKiB @ '',t='' @ itoa hTime @ '',p='' @ itoa hThreads,
      b64_encode False False salt,
      b64_encode False False (cr_argon2 cr password salt hTime hMemKiB hThreads hKeyLen)]"
  have nd: "CHR ''$'' \<notin> set (itoa i)" for i by (auto dest!: set_itoa plain_not_dollar)
  have nb: "CHR ''$'' \<notin> set (b64_encode False False x)" for x using set_b64_raw by blast
  have "\<And>p. p \<in> set ?ps \<Longrightarrow> CHR ''$'' \<notin> set p" using nd nb by auto
  then have "split_c CHR ''$'' (join_s ''$'' ?ps) = ?ps" by (intro split_join) simp_all
  moreover have "HashPassword cr salt password = join_s ''$'' ?ps" by (simp add: HashPassword_def)
  ultimately show ?thesis by simp
qed

lemma Verify_Hash:
  assumes "length (cr_argon2 cr p salt hTime hMemKiB hThreads hKeyLen) = hKeyLen"
  shows "VerifyPassword cr q (HashPassword cr salt p) \<longleftrightarrow>
    cr_argon2 cr q salt hTime hMemKiB hThreads hKeyLen = cr_argon2 cr p salt hTime hMemKiB hThreads hKeyLen"
proof -
  have n: "[a, b, c, d, e, f] ! 1 = b" "[a, b, c, d, e, f] ! 3 = d" "[a, b, c, d, e, f] ! 4 = e"
    "[a, b, c, d, e, f] ! 5 = f" for a b c d e f :: string by simp_all
  show ?thesis
    unfolding VerifyPassword_def split_hash Let_def n scan_params_print b64_decode_encode
    by (simp add: assms)
qed

subsection \<open>TOTP\<close>

lemma TOTPVerify_steps:
  assumes "cr_b32 cr secret = Some key" "30 \<le> now div second" "now div second + 30 < 2 ^ 64"
  shows "TOTPVerify cr secret code now \<longleftrightarrow>
    (\<exists>k \<in> {now div second div 30 - 1, now div second div 30, now div second div 30 + 1}. code = totp_step cr key k)"
proof -
  let ?s = "now div second"
  have t: "(now + 0 * second) div second = ?s" "(now + -30 * second) div second = ?s - 30"
    "(now + 30 * second) div second = ?s + 30" by simp_all
  have m: "?s mod 2 ^ 64 = ?s" "(?s - 30) mod 2 ^ 64 = ?s - 30" "(?s + 30) mod 2 ^ 64 = ?s + 30"
    using assms(2,3) by (simp_all add: mod_pos_pos_trivial)
  have d: "(?s - 30) div 30 = ?s div 30 - 1" "(?s + 30) div 30 = ?s div 30 + 1" by simp_all
  have "totpCode cr secret ?s = Some (totp_step cr key (?s div 30))"
    "totpCode cr secret (?s - 30) = Some (totp_step cr key (?s div 30 - 1))"
    "totpCode cr secret (?s + 30) = Some (totp_step cr key (?s div 30 + 1))"
    unfolding totpCode_def assms(1) option.case m d by (rule refl)+
  then show ?thesis unfolding TOTPVerify_def totp_try.simps t by auto
qed

subsection \<open>A successful login\<close>

lemma login_check_success:
  assumes "login_check cr now raw name password totp ip a = (Inr (token, u), a1)"
  shows "GetUser (cr_aead cr) name (sv_Store a) = Inr u \<and> \<not> us_Disabled u
    \<and> VerifyPassword cr password (us_PassHash u) \<and> (us_TOTP u = [] \<or> TOTPVerify cr (us_TOTP u) totp now)
    \<and> token = b64_encode True False raw
    \<and> (\<exists>st. AddSession (now div second) (hashToken cr token) (us_ID u) SessionTTL (sv_Store a) = Inr st
         \<and> st_sessions (sv_Store a1) = st_sessions st \<and> st_users (sv_Store a1) = st_users st)"
  using assms by (auto simp: login_check_def Let_def Audit_def split: sum.splits if_splits)

lemma Login_success:
  assumes "Login cr now raw username password totp ip a = (Inr (token, u), a1)"
  shows "\<exists>a2. login_check cr now raw (login_name username) password totp ip a2 = (Inr (token, u), a1)
    \<and> sv_Store a2 = sv_Store a"
  using assms by (auto simp: Login_def Let_def split: prod.splits if_splits intro!: exI)

lemma GetUser_stored:
  "GetUser ae n st = Inr u \<Longrightarrow> \<exists>v \<in> set (st_users st). us_Username v = n \<and> scanUser ae v = Inr u"
  by (auto simp: GetUser_def split: option.splits dest!: find_SomeD)

lemma scanUser_fields:
  "scanUser ae v = Inr u \<Longrightarrow> us_ID u = us_ID v \<and> us_Username u = us_Username v \<and> us_Disabled u = us_Disabled v
     \<and> us_PassHash u = us_PassHash v \<and> us_Role u = us_Role v"
  by (auto simp: scanUser_def split: sum.splits)

lemma session_after_add:
  assumes inv: "users_inv st" and add: "AddSession t h i ttl st = Inr st1" and ttl: "0 < ttl"
    and u: "v \<in> set (st_users st)" "us_ID v = i" "\<not> us_Disabled v" and now: "n < t + ttl" "t \<le> n"
  shows "session_user n h st1 = Some v"
proof -
  have st1: "st_users st1 = st_users st" "st_sessions st1 = filter (\<lambda>s. \<not> se_Expires s \<le> t)
      (st_sessions st @ [\<lparr>se_Token = h, se_User = i, se_Created = t, se_Expires = t + ttl\<rparr>])"
    and fresh: "h \<notin> se_Token ` set (st_sessions st)"
    using add by (auto simp: AddSession_def split: if_splits)
  have "List.find (\<lambda>s. se_Token s = h \<and> se_Expires s > n) (filter (\<lambda>s. \<not> se_Expires s \<le> t) (ss @ [e]))
      = Some e" if "h \<notin> se_Token ` set ss" "se_Token e = h" "se_Expires e = t + ttl" for ss :: "session list" and e
    using that ttl now by (induction ss) auto
  then have f: "List.find (\<lambda>s. se_Token s = h \<and> se_Expires s > n) (st_sessions st1)
      = Some \<lparr>se_Token = h, se_User = i, se_Created = t, se_Expires = t + ttl\<rparr>"
    unfolding st1(2) using fresh by simp
  have "List.find (\<lambda>u. us_ID u = us_ID v \<and> \<not> us_Disabled u) us = Some v"
    if "distinct (map us_ID us)" "v \<in> set us" for us
    using that u(3) by (induction us) (auto simp: image_iff)
  with inv u have "List.find (\<lambda>u. us_ID u = i \<and> \<not> us_Disabled u) (st_users st1) = Some v"
    by (simp add: users_inv_def st1(1))
  with f show ?thesis by (simp add: session_user_def)
qed

lemma session_after_delete: "session_user n h (DeleteSession h st) = None"
proof -
  have "List.find (\<lambda>s. se_Token s = h \<and> se_Expires s > n) (filter (\<lambda>s. se_Token s \<noteq> h) ss) = None" for ss :: "session list"
    by (induction ss) auto
  then show ?thesis by (simp add: session_user_def DeleteSession_def)
qed

subsection \<open>Properties\<close>

definition toy_crypto :: crypto where
  "toy_crypto = \<lparr>cr_argon2 = (\<lambda>pw salt t m p n. take n (pw @ replicate n CHR ''x'')), cr_sha256 = (\<lambda>x. x),
     cr_hmac_sha1 = (\<lambda>k m. take 20 (m @ replicate 20 CHR ''0'')), cr_b32 = Some, cr_aead = plain_aead\<rparr>"


definition guess :: "string \<Rightarrow> attempt" where
  "guess pw = \<lparr>at_user = ''bob'', at_pass = pw, at_totp = [], at_ip = ''10.0.0.9'', at_now = 1000, at_raw = ''r''\<rparr>"


text \<open>C11: a successful \<^verbatim>\<open>Login\<close> means that the named user exists, is enabled, gave the password its
  hash verifies and, when enrolled, a current TOTP code; the token then resolves to that user until
  the session's 12 hours are over, and to nobody after \<^verbatim>\<open>Logout\<close>.\<close>

theorem login_success_means:
  assumes "users_inv (sv_Store a)" and "raw \<noteq> []"
    and "Login cr now raw username password totp ip a = (Inr (token, u), a1)"
  shows "GetUser (cr_aead cr) (login_name username) (sv_Store a) = Inr u \<and> \<not> us_Disabled u
    \<and> VerifyPassword cr password (us_PassHash u) \<and> (us_TOTP u = [] \<or> TOTPVerify cr (us_TOTP u) totp now)
    \<and> (\<forall>t. now div second \<le> t div second \<and> t div second < now div second + 43200
          \<longrightarrow> Validate_token cr t token a1 = Inr (Some u))
    \<and> Validate_token cr t2 token (Logout cr token a1) = Inr None"
proof -
  obtain a2 where c: "login_check cr now raw (login_name username) password totp ip a2 = (Inr (token, u), a1)"
    and st: "sv_Store a2 = sv_Store a" using Login_success [OF assms(3)] by blast
  note s = login_check_success [OF c]
  obtain v where v: "v \<in> set (st_users (sv_Store a))" "scanUser (cr_aead cr) v = Inr u"
    using s GetUser_stored st by metis
  note f = scanUser_fields [OF v(2)]
  obtain st1 where add: "AddSession (now div second) (hashToken cr token) (us_ID v) SessionTTL (sv_Store a) = Inr st1"
    and a1: "st_sessions (sv_Store a1) = st_sessions st1" "st_users (sv_Store a1) = st_users st1"
    using s st f by auto
  have tok: "token \<noteq> []"
  proof
    assume "token = []"
    then have "b64_encode True False raw = b64_encode True False []" using s by (simp add: b64_encode_def)
    then show False using assms(2) b64_decode_encode by (metis option.inject)
  qed
  have val: "Validate_token cr t token a1 = Inr (Some u)"
    if "now div second \<le> t div second" "t div second < now div second + 43200" for t
  proof -
    have "session_user (t div second) (hashToken cr token) st1 = Some v"
      by (rule session_after_add [OF assms(1) add _ v(1)]) (use that f s in auto)
    then have "session_user (t div second) (hashToken cr token) (sv_Store a1) = Some v"
      unfolding session_user_def a1 .
    then show ?thesis using tok v(2) by (simp add: Validate_token_def SessionUser_def)
  qed
  have "Validate_token cr t2 token (Logout cr token a1) = Inr None"
    using tok by (simp add: Validate_token_def Logout_def SessionUser_def session_after_delete)
  with s st val show ?thesis by simp
qed

definition carol_store :: store where
  "carol_store = empty_store\<lparr>st_users := [\<lparr>us_ID = 1, us_Username = ''carol'',
     us_PassHash = HashPassword toy_crypto ''salt'' ''pw'', us_Role = ''admin'', us_TOTP = [], us_Disabled = False, us_CreatedAt = 0\<rparr>]\<rparr>"

lemma carol_inv: "users_inv carol_store"
proof -
  have "nameRe ''carol''" by code_simp
  then show ?thesis by (simp add: carol_store_def empty_store_def users_inv_def roles_def)
qed

lemma toy_argon2_length: "length (cr_argon2 toy_crypto p salt t m th n) = n"
  by (simp add: toy_crypto_def)

theorem login_success_means_witness:
  "\<exists>token u a1. Login toy_crypto 0 ''r'' ''carol'' ''pw'' [] ''ip'' (NewService carol_store) = (Inr (token, u), a1)
     \<and> Validate_token toy_crypto 5 token a1 = Inr (Some u)"
proof -
  have n: "login_name ''carol'' = ''carol''" by code_simp
  have v: "VerifyPassword toy_crypto ''pw'' (HashPassword toy_crypto ''salt'' ''pw'')"
    by (simp add: Verify_Hash toy_argon2_length)
  obtain token u a1 where l: "Login toy_crypto 0 ''r'' ''carol'' ''pw'' [] ''ip'' (NewService carol_store) = (Inr (token, u), a1)"
    by (simp add: Login_def n Let_def NewService_def NewLimiter_def Allow_def login_check_def GetUser_def carol_store_def
        scanUser_def decryptTOTP_def v AddSession_def empty_store_def)
  have "users_inv (sv_Store (NewService carol_store))" using carol_inv by (simp add: NewService_def)
  from login_success_means [OF this _ l, of 0] l show ?thesis by fastforce
qed

text \<open>A password verifies against its own stored hash, and another password exactly when argon2id
  gives both the same key: printing and parsing the stored form loses nothing.\<close>

theorem password_roundtrip:
  assumes "length (cr_argon2 cr p salt 2 65536 4 32) = 32"
  shows "VerifyPassword cr p (HashPassword cr salt p)
    \<and> (VerifyPassword cr q (HashPassword cr salt p) \<longleftrightarrow> cr_argon2 cr q salt 2 65536 4 32 = cr_argon2 cr p salt 2 65536 4 32)"
  using Verify_Hash [OF assms] by simp

theorem password_roundtrip_witness:
  "VerifyPassword toy_crypto ''hunter2!'' (HashPassword toy_crypto ''salt'' ''hunter2!'')"
  using password_roundtrip [OF toy_argon2_length, of "''hunter2!''" "''salt''"] by simp

text \<open>\<^verbatim>\<open>TOTPVerify\<close> accepts exactly the code of the current 30-second step and of the steps just
  before and after it; a secret that does not decode accepts nothing.\<close>

theorem totp_three_steps:
  assumes "30 \<le> now div second" and "now div second + 30 < 2 ^ 64"
  shows "TOTPVerify cr secret code now \<longleftrightarrow> (\<exists>key k. cr_b32 cr secret = Some key
    \<and> \<bar>k - now div second div 30\<bar> \<le> 1 \<and> code = totp_step cr key k)"
proof (cases "cr_b32 cr secret")
  case None
  then show ?thesis by (simp add: TOTPVerify_def totpCode_def)
next
  case (Some key)
  have "(\<exists>k \<in> {m - 1, m, m + 1}. code = totp_step cr key k) \<longleftrightarrow> (\<exists>k. \<bar>k - m\<bar> \<le> 1 \<and> code = totp_step cr key k)" for m
  proof -
    have "\<bar>k - m\<bar> \<le> 1 \<longleftrightarrow> k \<in> {m - 1, m, m + 1}" for k by auto
    then show ?thesis by blast
  qed
  then show ?thesis using TOTPVerify_steps [OF Some assms, of code] Some by auto
qed

theorem totp_three_steps_witness:
  "TOTPVerify toy_crypto ''k'' (totp_step toy_crypto ''k'' 2) (60 * second)"
proof -
  have "cr_b32 toy_crypto ''k'' = Some ''k''" by (simp add: toy_crypto_def)
  then show ?thesis
    using totp_three_steps [of "60 * second" toy_crypto "''k''" "totp_step toy_crypto ''k'' 2"] by (simp, force)
qed

end
