(* ===== verification/Go_FS.thy ===== *)
theory Go_FS
  imports Go_Strings
begin

section \<open>Files\<close>

text \<open>
  The file operations of package \<^verbatim>\<open>os\<close> the program uses, on a map from paths to contents. Every
  operation that can fail takes the next element of \<open>fs_faults\<close>: \<open>None\<close> lets it succeed (as
  does the empty list), \<open>Some k\<close> makes it fail, a write after \<open>k\<close> bytes. The lists of faults
  range over all failures, so a theorem for every state holds whichever operations fail, and a
  failure stands for a crash at that point as well.
\<close>

record fsys =
  fs_files :: "string \<rightharpoonup> string"
  fs_faults :: "nat option list"

definition next_fault :: "fsys \<Rightarrow> nat option \<times> fsys" where
  "next_fault s = (case fs_faults s of [] \<Rightarrow> (None, s) | f # fs \<Rightarrow> (f, s\<lparr>fs_faults := fs\<rparr>))"

definition file_of :: "fsys \<Rightarrow> string \<Rightarrow> string" where
  "file_of s p = (case fs_files s p of None \<Rightarrow> [] | Some c \<Rightarrow> c)"

definition put_file :: "string \<Rightarrow> string \<Rightarrow> fsys \<Rightarrow> fsys" where
  "put_file p c s = s\<lparr>fs_files := (fs_files s)(p \<mapsto> c)\<rparr>"

text \<open>A step that touches no file but can fail: \<^verbatim>\<open>Sync\<close>, \<^verbatim>\<open>Close\<close>, \<^verbatim>\<open>Chmod\<close>.\<close>

definition fs_check :: "fsys \<Rightarrow> bool \<times> fsys" where
  "fs_check s = (case next_fault s of (f, s1) \<Rightarrow> (f = None, s1))"

text \<open>\<^verbatim>\<open>OpenFile(O_WRONLY|O_CREATE|O_EXCL)\<close>: fails when the file exists.\<close>

definition fs_create_excl :: "string \<Rightarrow> fsys \<Rightarrow> bool \<times> fsys" where
  "fs_create_excl p s = (case next_fault s of (f, s1) \<Rightarrow>
     if f \<noteq> None \<or> fs_files s1 p \<noteq> None then (False, s1) else (True, put_file p [] s1))"

text \<open>\<^verbatim>\<open>f.Write(data)\<close> on an open file; \<^verbatim>\<open>os.WriteFile\<close> is an open that truncates and a write.\<close>

definition fs_write_open :: "string \<Rightarrow> string \<Rightarrow> fsys \<Rightarrow> bool \<times> fsys" where
  "fs_write_open p data s = (case next_fault s of (f, s1) \<Rightarrow> (case f of
       None \<Rightarrow> (True, put_file p (file_of s1 p @ data) s1)
     | Some k \<Rightarrow> (False, put_file p (file_of s1 p @ take k data) s1)))"

definition fs_write_file :: "string \<Rightarrow> string \<Rightarrow> fsys \<Rightarrow> bool \<times> fsys" where
  "fs_write_file p data s = (case next_fault s of (f, s1) \<Rightarrow>
     if f \<noteq> None then (False, s1) else fs_write_open p data (put_file p [] s1))"

definition fs_read_file :: "string \<Rightarrow> fsys \<Rightarrow> string option \<times> fsys" where
  "fs_read_file p s = (case next_fault s of (f, s1) \<Rightarrow> ((if f \<noteq> None then None else fs_files s1 p), s1))"

text \<open>\<^verbatim>\<open>os.Stat(p)\<close> without an error.\<close>

definition fs_stat :: "string \<Rightarrow> fsys \<Rightarrow> bool \<times> fsys" where
  "fs_stat p s = (case next_fault s of (f, s1) \<Rightarrow> (f = None \<and> fs_files s1 p \<noteq> None, s1))"

definition fs_rename :: "string \<Rightarrow> string \<Rightarrow> fsys \<Rightarrow> bool \<times> fsys" where
  "fs_rename p q s = (case next_fault s of (f, s1) \<Rightarrow>
     if f \<noteq> None then (False, s1)
     else (case fs_files s1 p of None \<Rightarrow> (False, s1)
       | Some c \<Rightarrow> (True, s1\<lparr>fs_files := ((fs_files s1)(p := None))(q \<mapsto> c)\<rparr>)))"

definition fs_remove :: "string \<Rightarrow> fsys \<Rightarrow> bool \<times> fsys" where
  "fs_remove p s = (case next_fault s of (f, s1) \<Rightarrow>
     if f \<noteq> None \<or> fs_files s1 p = None then (False, s1) else (True, s1\<lparr>fs_files := (fs_files s1)(p := None)\<rparr>))"

text \<open>What each operation may change: the named paths only.\<close>

lemma next_fault_files [simp]: "next_fault s = (f, s1) \<Longrightarrow> fs_files s1 = fs_files s"
  by (auto simp: next_fault_def split: list.splits)

lemma fs_check_files: "fs_check s = (b, s1) \<Longrightarrow> fs_files s1 = fs_files s"
  by (auto simp: fs_check_def split: prod.splits)

lemma fs_create_excl_files:
  "fs_create_excl p s = (b, s1) \<Longrightarrow> fs_files s1 = (if b then (fs_files s)(p \<mapsto> []) else fs_files s)"
  by (auto simp: fs_create_excl_def put_file_def split: prod.splits if_splits)

lemma fs_write_open_files:
  "fs_write_open p d s = (b, s1) \<Longrightarrow> \<exists>c. fs_files s1 = (fs_files s)(p \<mapsto> c) \<and> (b \<longrightarrow> c = file_of s p @ d)"
  by (auto simp: fs_write_open_def put_file_def file_of_def split: prod.splits option.splits)

lemma fs_write_file_files:
  "fs_write_file p d s = (b, s1) \<Longrightarrow>
     fs_files s1 = fs_files s \<and> \<not> b \<or> (\<exists>c. fs_files s1 = (fs_files s)(p \<mapsto> c) \<and> (b \<longrightarrow> c = d))"
proof -
  assume w: "fs_write_file p d s = (b, s1)"
  obtain f s0 where n: "next_fault s = (f, s0)" by (metis surj_pair)
  show ?thesis
  proof (cases "f = None")
    case True
    then have "fs_write_open p d (put_file p [] s0) = (b, s1)" using w n by (simp add: fs_write_file_def)
    from fs_write_open_files [OF this] next_fault_files [OF n] show ?thesis
      by (auto simp: put_file_def file_of_def)
  next
    case False
    then show ?thesis using w n next_fault_files [OF n] by (simp add: fs_write_file_def)
  qed
qed

lemma fs_rename_files:
  "fs_rename p q s = (b, s1) \<Longrightarrow>
     (if b then \<exists>c. fs_files s p = Some c \<and> fs_files s1 = ((fs_files s)(p := None))(q \<mapsto> c) else fs_files s1 = fs_files s)"
  by (auto simp: fs_rename_def split: prod.splits if_splits option.splits)

lemma fs_remove_files:
  "fs_remove p s = (b, s1) \<Longrightarrow> fs_files s1 = (if b then (fs_files s)(p := None) else fs_files s)"
  by (auto simp: fs_remove_def split: prod.splits if_splits)

lemma fs_stat_files: "fs_stat p s = (b, s1) \<Longrightarrow> fs_files s1 = fs_files s \<and> (b \<longrightarrow> fs_files s p \<noteq> None)"
  by (auto simp: fs_stat_def split: prod.splits)

lemma fs_read_file_files: "fs_read_file p s = (r, s1) \<Longrightarrow> fs_files s1 = fs_files s \<and> (r = None \<or> r = fs_files s p)"
  by (auto simp: fs_read_file_def split: prod.splits)

subsection \<open>Paths\<close>

text \<open>\<^verbatim>\<open>filepath.Dir\<close> and \<^verbatim>\<open>filepath.Join\<close> of a directory and a plain file name, for the clean
  paths the program builds.\<close>

definition path_dir :: "string \<Rightarrow> string" where
  "path_dir p = (case rcut_c CHR ''/'' p of None \<Rightarrow> ''.'' | Some (a, _) \<Rightarrow> if a = [] then ''/'' else a)"

definition path_base :: "string \<Rightarrow> string" where
  "path_base p = (case rcut_c CHR ''/'' p of None \<Rightarrow> p | Some (_, b) \<Rightarrow> b)"

definition path_join :: "string \<Rightarrow> string \<Rightarrow> string" where
  "path_join d f = (if d = ''.'' \<or> d = [] then f else if d = ''/'' then CHR ''/'' # f else d @ ''/'' @ f)"

end
