(* ===== verification/Ovpnconf.thy ===== *)
theory Ovpnconf
  imports Go_Net Go_FS
begin

section \<open>The OpenVPN server configuration\<close>

text \<open>
  \<^verbatim>\<open>src/internal/ovpnconf/config.go\<close>: the settings with their defaults, \<^verbatim>\<open>Validate\<close>, \<^verbatim>\<open>Render\<close>, the
  line diff of the preview and the atomic installation of the file. Environment variables are
  arguments. The dynamic-programming table of \<^verbatim>\<open>Diff\<close> is a list of rows, filled from the last
  line as the code fills it.
\<close>

subsection \<open>Settings\<close>

record ovpn_config =
  oc_Proto :: string
  oc_Port :: int
  oc_Subnet :: string
  oc_Cipher :: string
  oc_DNS :: "string list"
  oc_PushInternalDNS :: bool
  oc_Routes :: "string list"
  oc_RedirectGW :: bool
  oc_Extra :: string
  oc_CACert :: string
  oc_ServerCert :: string
  oc_ServerKey :: string
  oc_CRL :: string
  oc_TLSCrypt :: string
  oc_MgmtSocket :: string
  oc_StatusLog :: string
  oc_ServerCN :: string
  oc_StatusInterval :: int
  oc_ManagementClientAuth :: bool

datatype ovpn_error =
    BadProto
  | PortRange
  | CipherNotAllowed string
  | BadSubnet string
  | BadDNS string
  | BadRoute string
  | ExtraNotAllowed string
  | SubnetNotIPv4
  | FileError

definition CanSplitTunnel :: "ovpn_config \<Rightarrow> bool" where
  "CanSplitTunnel c = oc_RedirectGW c"

abbreviation defaultStatusInterval :: int where "defaultStatusInterval \<equiv> 3"

definition EffectiveStatusInterval :: "ovpn_config \<Rightarrow> int" where
  "EffectiveStatusInterval c = (if oc_StatusInterval c \<le> 0 then defaultStatusInterval else oc_StatusInterval c)"

text \<open>Incrementing the last byte wraps: a byte is below 256.\<close>

definition ServerTunIP :: "ovpn_config \<Rightarrow> (ovpn_error, nat list) result" where
  "ServerTunIP c = (case parse_cidr (oc_Subnet c) of None \<Rightarrow> Inl (BadSubnet (oc_Subnet c))
     | Some (_, ipnet) \<Rightarrow> (case to4 (net_IP ipnet) of None \<Rightarrow> Inl SubnetNotIPv4
         | Some ip \<Rightarrow> Inr (ip[length ip - 1 := (ip ! (length ip - 1) + 1) mod 256])))"

definition EnvInt :: "string \<Rightarrow> int \<Rightarrow> int" where
  "EnvInt v dflt = (if v \<noteq> [] then (case atoi v of Some n \<Rightarrow> n | None \<Rightarrow> dflt) else dflt)"

definition SplitCSV :: "string \<Rightarrow> string list" where
  "SplitCSV s = (if s = [] then [] else filter (\<lambda>p. p \<noteq> []) (map trim_space (split_c CHR '','' s)))"

definition or_default :: "string \<Rightarrow> string \<Rightarrow> string" where
  "or_default v d = (if v \<noteq> [] then v else d)"

text \<open>\<open>env\<close> looks an environment variable up, empty when unset.\<close>

definition Default :: "(string \<Rightarrow> string) \<Rightarrow> ovpn_config" where
  "Default env = \<lparr>oc_Proto = or_default (env ''OVCP_OPENVPN_PROTO'') ''udp'',
     oc_Port = EnvInt (env ''OVCP_OPENVPN_PORT'') 1194,
     oc_Subnet = or_default (env ''OVCP_OPENVPN_SUBNET'') ''10.8.0.0/24'',
     oc_Cipher = or_default (env ''OVCP_OPENVPN_CIPHER'') ''AES-256-GCM'',
     oc_DNS = SplitCSV (env ''OVCP_OPENVPN_DNS''), oc_PushInternalDNS = False,
     oc_Routes = SplitCSV (env ''OVCP_OPENVPN_ROUTES''),
     oc_RedirectGW = (env ''OVCP_OPENVPN_REDIRECT_GW'' \<noteq> ''false''),
     oc_Extra = env ''OVCP_OPENVPN_EXTRA'',
     oc_CACert = [], oc_ServerCert = [], oc_ServerKey = [], oc_CRL = [], oc_TLSCrypt = [], oc_MgmtSocket = [],
     oc_StatusLog = [], oc_ServerCN = [], oc_StatusInterval = 0, oc_ManagementClientAuth = False\<rparr>"

text \<open>\<open>dec\<close> is \<^verbatim>\<open>json.Unmarshal\<close> into the defaults; its error is dropped, what it has filled stays.\<close>

definition Load :: "(string \<Rightarrow> ovpn_config \<Rightarrow> ovpn_config) \<Rightarrow> (string \<Rightarrow> string) \<Rightarrow> string \<Rightarrow> ovpn_config" where
  "Load dec env raw = (if raw \<noteq> [] then dec raw (Default env) else Default env)"

subsection \<open>Validation\<close>

definition allowedCiphers :: "string list" where
  "allowedCiphers = [''AES-256-GCM'', ''AES-128-GCM'', ''CHACHA20-POLY1305'']"

definition extraAllowed :: "string list" where
  "extraAllowed = [''local'', ''push'', ''keepalive'', ''client-to-client'',
     ''max-clients'', ''max-routes-per-client'', ''inactive'',
     ''session-timeout'', ''connect-freq'', ''hand-window'',
     ''tls-version-min'', ''tls-version-max'', ''tls-cert-profile'',
     ''tls-cipher'', ''tls-ciphersuites'', ''ecdh-curve'',
     ''remote-cert-eku'', ''remote-cert-ku'',
     ''reneg-bytes'', ''reneg-pkts'', ''reneg-sec'',
     ''replay-window'', ''mute-replay-warnings'', ''mute'',
     ''mssfix'', ''fragment'', ''tun-mtu'', ''tcp-nodelay'']"

fun check_dns :: "string list \<Rightarrow> ovpn_error option" where
  "check_dns [] = None"
| "check_dns (d # ds) = (if parse_ip d = None then Some (BadDNS d) else check_dns ds)"

fun check_routes :: "string list \<Rightarrow> ovpn_error option" where
  "check_routes [] = None"
| "check_routes (r # rs) = (if parse_cidr r = None then Some (BadRoute r) else check_routes rs)"

fun check_extra :: "string list \<Rightarrow> ovpn_error option" where
  "check_extra [] = None"
| "check_extra (line # ls) = (case fields_s line of
     [] \<Rightarrow> check_extra ls
   | f # _ \<Rightarrow> if hd f = CHR ''#'' \<or> hd f = CHR '';'' then check_extra ls
       else if trim_prefix f ''--'' \<notin> set extraAllowed then Some (ExtraNotAllowed f) else check_extra ls)"

definition Validate_ovpn :: "ovpn_config \<Rightarrow> (ovpn_error, unit) result" where
  "Validate_ovpn c = (if oc_Proto c \<noteq> ''udp'' \<and> oc_Proto c \<noteq> ''tcp'' then Inl BadProto
     else if oc_Port c < 1 \<or> oc_Port c > 65535 then Inl PortRange
     else if oc_Cipher c \<notin> set allowedCiphers then Inl (CipherNotAllowed (oc_Cipher c))
     else if parse_cidr (oc_Subnet c) = None then Inl (BadSubnet (oc_Subnet c))
     else (case check_dns (oc_DNS c) of Some e \<Rightarrow> Inl e | None \<Rightarrow>
       (case check_routes (oc_Routes c) of Some e \<Rightarrow> Inl e | None \<Rightarrow>
         (case check_extra (split_c LF (oc_Extra c)) of Some e \<Rightarrow> Inl e | None \<Rightarrow> Inr ()))))"

subsection \<open>Rendering\<close>

definition Domain :: "string \<Rightarrow> string" where
  "Domain cn = (if parse_ip cn \<noteq> None then []
     else (case cut_c CHR ''.'' cn of None \<Rightarrow> [] | Some (_, d) \<Rightarrow> d))"

definition push_line :: "string \<Rightarrow> string" where
  "push_line s = ''push '' @ [DQ] @ s @ [DQ]"

text \<open>A printed \<^verbatim>\<open>net.IP\<close> that may be nil.\<close>

definition ip_arg :: "nat list option \<Rightarrow> string" where
  "ip_arg ip = (case ip of None \<Rightarrow> ''<nil>'' | Some b \<Rightarrow> ip_string b)"

definition cidr_args :: "string \<Rightarrow> string" where
  "cidr_args s = (case parse_cidr s of
     None \<Rightarrow> ''<nil> <nil>''
   | Some (ip, n) \<Rightarrow> ip_arg (ip_mask ip (net_Mask n)) @ '' '' @ ip_string (net_Mask n))"

definition mgmt_lines :: "ovpn_config \<Rightarrow> string list" where
  "mgmt_lines c = (if oc_ManagementClientAuth c
     then [''management-client-auth'', ''management-hold'', ''auth-user-pass-optional''] else [])"

definition dns_lines :: "ovpn_config \<Rightarrow> string list" where
  "dns_lines c =
     (if oc_PushInternalDNS c then (case ServerTunIP c of Inr ip \<Rightarrow> [push_line (''dhcp-option DNS '' @ ip_string ip)] | Inl _ \<Rightarrow> []) else [])
     @ map (\<lambda>d. push_line (''dhcp-option DNS '' @ d)) (oc_DNS c)
     @ (if oc_PushInternalDNS c \<and> Domain (oc_ServerCN c) \<noteq> []
        then [push_line (''dhcp-option DOMAIN '' @ Domain (oc_ServerCN c)),
              push_line (''dhcp-option DOMAIN-SEARCH '' @ Domain (oc_ServerCN c))] else [])"

definition render_lines :: "ovpn_config \<Rightarrow> string list" where
  "render_lines c =
     [''# generated by ovcp '' @ map char_of [226, 128, 148 :: nat] @ '' do not edit; changes are overwritten'',
      ''proto '' @ oc_Proto c, ''port '' @ itoa (oc_Port c), ''dev ovcp0'', ''dev-type tun'', ''topology subnet'',
      ''server '' @ cidr_args (oc_Subnet c),
      ''ca '' @ oc_CACert c, ''cert '' @ oc_ServerCert c, ''key '' @ oc_ServerKey c, ''crl-verify '' @ oc_CRL c,
      ''tls-crypt '' @ oc_TLSCrypt c, ''dh none'', ''disable-dco'',
      ''data-ciphers '' @ oc_Cipher c, ''data-ciphers-fallback '' @ oc_Cipher c, ''auth SHA256'', ''keepalive 10 60'',
      ''persist-tun'', ''management '' @ oc_MgmtSocket c @ '' unix'']
     @ mgmt_lines c
     @ [''status '' @ oc_StatusLog c @ '' '' @ itoa (EffectiveStatusInterval c), ''status-version 3'', ''verb 3'',
        ''suppress-timestamps'']
     @ (if oc_RedirectGW c then [push_line ''redirect-gateway def1 bypass-dhcp''] else [])
     @ dns_lines c
     @ map (\<lambda>r. push_line (''route '' @ cidr_args r)) (oc_Routes c)
     @ (if oc_Proto c = ''udp'' then [''explicit-exit-notify 1''] else [])
     @ (if trim_space (oc_Extra c) \<noteq> [] then [''# --- custom options ---'', trim_space (oc_Extra c)] else [])"

definition Render :: "ovpn_config \<Rightarrow> string" where
  "Render c = concat (map (\<lambda>l. l @ NL) (render_lines c))"

subsection \<open>The diff of the preview\<close>

text \<open>One row of the table from the row below it; column \<open>j\<close> stands for the suffix at \<open>j\<close>.\<close>

fun lcs_row :: "string \<Rightarrow> string list \<Rightarrow> nat list \<Rightarrow> nat list" where
  "lcs_row x (y # ys) (n # ns) = (let r = lcs_row x ys ns in
     (if x = y then hd ns + 1 else max n (hd r)) # r)"
| "lcs_row x _ _ = [0]"

fun lcs_table :: "string list \<Rightarrow> string list \<Rightarrow> nat list list" where
  "lcs_table [] b = [replicate (length b + 1) 0]"
| "lcs_table (x # xs) b = (let t = lcs_table xs b in lcs_row x b (hd t) # t)"

text \<open>The walk: \<open>rows\<close> are the rows from \<open>i\<close> on, \<open>j\<close> the column.\<close>

fun diff_walk :: "string list \<Rightarrow> string list \<Rightarrow> nat list list \<Rightarrow> nat \<Rightarrow> string list" where
  "diff_walk [] [] rows j = []"
| "diff_walk (x # xs) [] rows j = (CHR ''-'' # x) # diff_walk xs [] (tl rows) j"
| "diff_walk [] (y # ys) rows j = (CHR ''+'' # y) # diff_walk [] ys rows (j + 1)"
| "diff_walk (x # xs) (y # ys) rows j = (if x = y then diff_walk xs ys (tl rows) (j + 1)
     else if rows ! 1 ! j \<ge> rows ! 0 ! (j + 1) then (CHR ''-'' # x) # diff_walk xs (y # ys) (tl rows) j
     else (CHR ''+'' # y) # diff_walk (x # xs) ys rows (j + 1))"

definition text_lines :: "string \<Rightarrow> string list" where
  "text_lines s = split_c LF (trim_right_c LF s)"

definition Diff :: "string \<Rightarrow> string \<Rightarrow> string list" where
  "Diff old new = (let a = text_lines old; b = text_lines new in diff_walk a b (lcs_table a b) 0)"

subsection \<open>Installing the file\<close>

definition WriteAtomic :: "ovpn_config \<Rightarrow> string \<Rightarrow> fsys \<Rightarrow> (ovpn_error, unit) result \<times> fsys" where
  "WriteAtomic c path s = (case Validate_ovpn c of Inl e \<Rightarrow> (Inl e, s)
     | Inr _ \<Rightarrow> (let tmp = path_join (path_dir path) ''.server.conf.tmp'' in
         case fs_write_file tmp (Render c) s of (ok, s1) \<Rightarrow>
           if \<not> ok then (Inl FileError, s1)
           else (case fs_rename tmp path s1 of (ok2, s2) \<Rightarrow> if ok2 then (Inr (), s2) else (Inl FileError, s2))))"

end
