(* ===== verification/Ovpnconf_Props.thy ===== *)
theory Ovpnconf_Props
  imports Ovpnconf
begin

section \<open>What holds of the server configuration\<close>

text \<open>
  \<^verbatim>\<open>Validate\<close> decides a declarative predicate, and what it accepts cannot carry a directive into
  the file through an address; the server's own address lies in its subnet; the diff is a
  shortest one; the installed file is replaced as a whole or not at all.
\<close>

subsection \<open>Addresses are made of safe bytes\<close>

definition addr_c :: "char \<Rightarrow> bool" where
  "addr_c c = (is_hex_c c \<or> c = CHR ''.'' \<or> c = CHR '':'')"

lemma digit_addr_c: "is_digit_c c \<Longrightarrow> addr_c c"
  by (simp add: addr_c_def is_hex_c_def)

lemma parse_octet_chars: "parse_octet s = Some n \<Longrightarrow> \<forall>c \<in> set s. addr_c c"
  by (auto simp: parse_octet_def list_all_iff digit_addr_c split: if_splits)

lemma parse_ipv4_chars:
  assumes "parse_ipv4 s = Some b" shows "\<forall>c \<in> set s. addr_c c"
proof
  fix c assume c: "c \<in> set s"
  have ps: "map parse_octet (split_c CHR ''.'' s) = map Some b"
    using assms by (auto simp: parse_ipv4_def Let_def split: if_splits dest: all_some_Some)
  have "c \<in> set (join_s [CHR ''.''] (split_c CHR ''.'' s))" using c by simp
  then consider "c = CHR ''.''" | p where "p \<in> set (split_c CHR ''.'' s)" "c \<in> set p"
    using set_join_s [of "[CHR ''.'']" "split_c CHR ''.'' s"] by auto
  then show "addr_c c"
  proof cases
    case 1
    then show ?thesis by (simp add: addr_c_def)
  next
    case (2 p)
    then have "parse_octet p \<in> set (map Some b)" using ps by (metis image_eqI list.set_map)
    then show ?thesis using 2 parse_octet_chars by auto
  qed
qed

lemma takeWhile_hex: "c \<in> set (takeWhile is_hex_c s) \<Longrightarrow> addr_c c"
  by (auto dest: set_takeWhileD simp: addr_c_def)

lemma split_span: "set s = set (takeWhile P s) \<union> set (dropWhile P s)"
  by (metis set_append takeWhile_dropWhile_id)

text \<open>One round of the loop, with the hex group \<open>g\<close> and the rest \<open>r\<close> of the string named.\<close>

lemma ipv6_loop_round:
  assumes "takeWhile is_hex_c s = g" "dropWhile is_hex_c s = r" "\<not> length ip \<ge> 16"
  shows "ipv6_loop ip el s =
     (if g = [] \<or> length g > 4 then None
      else if r \<noteq> [] \<and> hd r = CHR ''.'' then
        (if el = None \<and> length ip \<noteq> 12 \<or> length ip > 12 then None
         else map_option (\<lambda>q. (ip @ q, el, [])) (parse_ipv4 s))
      else (let ip' = ip @ [hexs_val g div 256, hexs_val g mod 256] in case r of [] \<Rightarrow> Some (ip', el, [])
         | c # r1 \<Rightarrow>
           if c \<noteq> CHR '':'' then None
           else (case r1 of [] \<Rightarrow> None
             | d # r2 \<Rightarrow> if d = CHR '':'' then
                 (if el \<noteq> None then None
                  else if r2 = [] then Some (ip', Some (length ip'), [])
                  else ipv6_loop ip' (Some (length ip')) r2)
               else ipv6_loop ip' el r1)))"
  unfolding ipv6_loop.simps [of ip el s] assms if_not_P [OF assms(3)] Let_def by (rule refl)

lemma ipv6_loop_chars:
  "ipv6_loop ip el s = Some (ip', el', r) \<Longrightarrow> \<forall>c \<in> set s. addr_c c \<or> c \<in> set r"
proof (induction "16 - length ip" arbitrary: ip el s rule: less_induct)
  case less
  show ?case
  proof (cases "length ip \<ge> 16")
    case True
    with less.prems show ?thesis by (simp add: ipv6_loop.simps)
  next
    case False
    obtain g q where g: "takeWhile is_hex_c s = g" and q: "dropWhile is_hex_c s = q" by blast
    note u = ipv6_loop_round [OF g q False, of el]
    have span: "c \<in> set s \<Longrightarrow> addr_c c \<or> c \<in> set q" for c
      using split_span [of s is_hex_c] takeWhile_hex [of c s] q by blast
    let ?ip = "ip @ [hexs_val g div 256, hexs_val g mod 256]"
    have IH: "ipv6_loop ?ip e t = Some (ip', el', r) \<Longrightarrow> \<forall>c \<in> set t. addr_c c \<or> c \<in> set r" for e t
      using False by (intro less.hyps) auto
    have colon: "addr_c CHR '':''" by (simp add: addr_c_def)
    have ng: "\<not> (g = [] \<or> length g > 4)" using less.prems u by (metis option.distinct(1))
    show ?thesis
    proof (cases "q \<noteq> [] \<and> hd q = CHR ''.''")
      case True
      then have "parse_ipv4 s \<noteq> None" using less.prems u ng by (auto split: if_splits)
      then show ?thesis using parse_ipv4_chars by blast
    next
      case nodot: False
      note u2 = u [unfolded if_not_P [OF ng] if_not_P [OF nodot] Let_def]
      show ?thesis
      proof (cases q)
        case Nil
        then show ?thesis using span by auto
      next
        case (Cons c q1)
        then have c: "c = CHR '':''" using less.prems u2 by (simp split: if_splits)
        obtain d q2 where q1: "q1 = d # q2" using less.prems u2 Cons c by (cases q1) auto
        have "\<forall>c \<in> set (if d = CHR '':'' then q2 else q1). addr_c c \<or> c \<in> set r"
          using less.prems u2 Cons c q1 IH [of _ q2] IH [of _ q1] by (auto split: if_splits)
        then show ?thesis using span Cons c q1 colon by (auto split: if_splits)
      qed
    qed
  qed
qed

lemma parse_ip_chars: "parse_ip s = Some b \<Longrightarrow> \<forall>c \<in> set s. addr_c c"
proof -
  assume p: "parse_ip s = Some b"
  then obtain a where a: "parse_addr s = Some a" "addr_zone a = []"
    by (auto simp: parse_ip_def split: option.splits if_splits)
  have scan: "parse_addr_scan s t = Some a \<Longrightarrow> parse_ipv4 s \<noteq> None \<or> parse_ipv6 s = Some a" for t
    by (induction t) (auto split: if_splits)
  show ?thesis
  proof (cases "parse_ipv4 s")
    case (Some q)
    then show ?thesis by (rule parse_ipv4_chars)
  next
    case None
    then have v6: "parse_ipv6 s = Some a" using scan a(1) unfolding parse_addr_def by blast
    have z: "cut_c CHR ''%'' s = None"
      using v6 a(2) by (auto simp: parse_ipv6_def Let_def addr_zone_def split: option.splits if_splits)
    have fin: "ipv6_finish (ip, el, r) = Some x \<Longrightarrow> r = []" for ip el r x
      by (simp add: ipv6_finish_def split: if_splits)
    have loop: "\<forall>c \<in> set t. addr_c c" if "Option.bind (ipv6_loop [] el t) ipv6_finish = Some x" for el t x
    proof -
      from that obtain ip' el' r where l: "ipv6_loop [] el t = Some (ip', el', r)" "ipv6_finish (ip', el', r) = Some x"
        by (auto simp: bind_eq_Some_conv)
      with fin have "r = []" by blast
      with ipv6_loop_chars [OF l(1)] show ?thesis by simp
    qed
    have colons: "\<forall>c \<in> set ''::''. addr_c c" by (simp add: addr_c_def)
    show ?thesis
    proof (cases "has_prefix s ''::''")
      case True
      then obtain t where t: "s = ''::'' @ t" by (auto simp: has_prefix_iff)
      have "\<forall>c \<in> set t. addr_c c"
        using v6 z True loop [of "Some 0" t] by (auto simp: parse_ipv6_def t split: if_splits)
      then show ?thesis using colons t by auto
    next
      case False
      then show ?thesis using v6 z loop [of None s] by (auto simp: parse_ipv6_def split: if_splits)
    qed
  qed
qed

subsection \<open>Validate decides a predicate\<close>

definition extra_line_ok :: "string \<Rightarrow> bool" where
  "extra_line_ok line = (case fields_s line of [] \<Rightarrow> True
     | f # _ \<Rightarrow> hd f = CHR ''#'' \<or> hd f = CHR '';'' \<or> trim_prefix f ''--'' \<in> set extraAllowed)"

definition ovpn_valid :: "ovpn_config \<Rightarrow> bool" where
  "ovpn_valid c \<longleftrightarrow> (oc_Proto c = ''udp'' \<or> oc_Proto c = ''tcp'') \<and> 1 \<le> oc_Port c \<and> oc_Port c \<le> 65535
     \<and> oc_Cipher c \<in> set allowedCiphers \<and> parse_cidr (oc_Subnet c) \<noteq> None
     \<and> (\<forall>d \<in> set (oc_DNS c). parse_ip d \<noteq> None) \<and> (\<forall>r \<in> set (oc_Routes c). parse_cidr r \<noteq> None)
     \<and> (\<forall>l \<in> set (split_c LF (oc_Extra c)). extra_line_ok l)"

lemma check_dns_None: "check_dns ds = None \<longleftrightarrow> (\<forall>d \<in> set ds. parse_ip d \<noteq> None)"
  by (induction ds) auto

lemma check_routes_None: "check_routes rs = None \<longleftrightarrow> (\<forall>r \<in> set rs. parse_cidr r \<noteq> None)"
  by (induction rs) auto

lemma check_extra_None: "check_extra ls = None \<longleftrightarrow> (\<forall>l \<in> set ls. extra_line_ok l)"
proof (induction ls)
  case (Cons l ls)
  then show ?case by (cases "fields_s l") (auto simp: extra_line_ok_def)
qed simp

lemma Validate_ovpn_ok: "Validate_ovpn c = Inr u \<longleftrightarrow> ovpn_valid c"
  by (auto simp: Validate_ovpn_def go_simps ovpn_valid_def check_dns_None check_routes_None check_extra_None)

subsection \<open>The diff\<close>

text \<open>The reference: the length of a longest common subsequence.\<close>

fun lcs :: "string list \<Rightarrow> string list \<Rightarrow> nat" where
  "lcs (x # xs) (y # ys) = (if x = y then lcs xs ys + 1 else max (lcs xs (y # ys)) (lcs (x # xs) ys))"
| "lcs _ _ = 0"

fun lcs_suffixes :: "string list \<Rightarrow> string list \<Rightarrow> nat list" where
  "lcs_suffixes a [] = [0]"
| "lcs_suffixes a (y # ys) = lcs a (y # ys) # lcs_suffixes a ys"

lemma lcs_Nil2 [simp]: "lcs a [] = 0"
  by (cases a) simp_all

lemma lcs_suffixes_hd: "hd (lcs_suffixes a b) = lcs a b"
  by (cases b) simp_all

lemma lcs_suffixes_nth: "j \<le> length b \<Longrightarrow> lcs_suffixes a b ! j = lcs a (drop j b)"
proof (induction b arbitrary: j)
  case (Cons y ys)
  then show ?case by (cases j) simp_all
qed simp

lemma lcs_suffixes_Nil: "lcs_suffixes [] b = replicate (length b + 1) 0"
  by (induction b) simp_all

lemma lcs_row_suffixes: "lcs_row x b (lcs_suffixes xs b) = lcs_suffixes (x # xs) b"
  by (induction b) (simp_all add: Let_def lcs_suffixes_hd)

lemma lcs_table_hd: "hd (lcs_table a b) = lcs_suffixes a b"
  by (induction a) (simp_all add: lcs_suffixes_Nil Let_def lcs_row_suffixes del: replicate_Suc)

lemma lcs_table_Cons: "lcs_table (x # xs) b = lcs_suffixes (x # xs) b # lcs_table xs b"
  by (simp add: Let_def lcs_table_hd lcs_row_suffixes)

lemma lcs_table_nonempty: "lcs_table a b \<noteq> []"
  by (cases a) (simp_all add: Let_def)

text \<open>The walk with the reference in place of the table.\<close>

fun diff_ref :: "string list \<Rightarrow> string list \<Rightarrow> string list" where
  "diff_ref [] [] = []"
| "diff_ref (x # xs) [] = (CHR ''-'' # x) # diff_ref xs []"
| "diff_ref [] (y # ys) = (CHR ''+'' # y) # diff_ref [] ys"
| "diff_ref (x # xs) (y # ys) = (if x = y then diff_ref xs ys
     else if lcs xs (y # ys) \<ge> lcs (x # xs) ys then (CHR ''-'' # x) # diff_ref xs (y # ys)
     else (CHR ''+'' # y) # diff_ref (x # xs) ys)"

lemma diff_walk_ref: "j \<le> length B \<Longrightarrow> diff_walk a (drop j B) (lcs_table a B) j = diff_ref a (drop j B)"
proof (induction a "drop j B" arbitrary: j rule: diff_ref.induct)
  case (2 x xs j)
  then show ?case by (simp add: Let_def)
next
  case (3 y ys j)
  then have "drop (j + 1) B = ys" "j < length B" by (metis drop_Suc Suc_eq_plus1 list.sel(3) tl_drop) (metis 3(2) drop_eq_Nil leI list.distinct(1))
  with 3 show ?case by (metis Suc_eq_plus1 Suc_leI diff_ref.simps(3) diff_walk.simps(3))
next
  case (4 x xs y ys j)
  have ys: "drop (j + 1) B = ys" using 4(4) by (metis drop_Suc Suc_eq_plus1 list.sel(3) tl_drop)
  have j: "j < length B" using 4(4) by (metis drop_eq_Nil leI list.distinct(1))
  have t0: "lcs_table (x # xs) B ! 0 ! (j + 1) = lcs (x # xs) ys"
    unfolding lcs_table_Cons using lcs_suffixes_nth [of "j + 1" B "x # xs"] j ys by simp
  have t1: "lcs_table (x # xs) B ! 1 ! j = lcs xs (y # ys)"
    unfolding lcs_table_Cons using lcs_suffixes_nth [of j B xs] j 4(4) lcs_table_hd [of xs B] lcs_table_nonempty [of xs B]
    by (simp add: hd_conv_nth)
  have tl: "tl (lcs_table (x # xs) B) = lcs_table xs B" unfolding lcs_table_Cons by simp
  have step: "diff_walk (x # xs) (y # ys) (lcs_table (x # xs) B) j =
      (if x = y then diff_walk xs ys (lcs_table xs B) (j + 1)
       else if lcs xs (y # ys) \<ge> lcs (x # xs) ys then (CHR ''-'' # x) # diff_walk xs (y # ys) (lcs_table xs B) j
       else (CHR ''+'' # y) # diff_walk (x # xs) ys (lcs_table (x # xs) B) (j + 1))"
    by (simp only: diff_walk.simps t0 t1 tl)
  note yys = 4(4) [symmetric] and le = less_imp_le [OF j]
  have le': "j + 1 \<le> length B" using j by simp
  have A: "x = y \<Longrightarrow> diff_walk xs ys (lcs_table xs B) (j + 1) = diff_ref xs ys"
    using 4(1) [OF _ ys [symmetric] le'] unfolding ys by blast
  have B: "x \<noteq> y \<Longrightarrow> lcs xs (y # ys) \<ge> lcs (x # xs) ys \<Longrightarrow>
      diff_walk xs (y # ys) (lcs_table xs B) j = diff_ref xs (y # ys)"
    using 4(2) [OF _ _ 4(4) le] unfolding yys by blast
  have C: "x \<noteq> y \<Longrightarrow> \<not> lcs xs (y # ys) \<ge> lcs (x # xs) ys \<Longrightarrow>
      diff_walk (x # xs) ys (lcs_table (x # xs) B) (j + 1) = diff_ref (x # xs) ys"
    using 4(3) [OF _ _ ys [symmetric] le'] unfolding ys by blast
  have "diff_walk (x # xs) (y # ys) (lcs_table (x # xs) B) j = diff_ref (x # xs) (y # ys)"
    unfolding step diff_ref.simps using A B C by presburger
  then show ?case by (simp only: 4(4) [symmetric])
qed simp

definition removed :: "string list \<Rightarrow> string list" where
  "removed d = map tl (filter (\<lambda>l. hd l = CHR ''-'') d)"

definition added :: "string list \<Rightarrow> string list" where
  "added d = map tl (filter (\<lambda>l. hd l = CHR ''+'') d)"

lemma removed_added_simps [simp]:
  "removed [] = []" "removed ((CHR ''-'' # x) # d) = x # removed d" "removed ((CHR ''+'' # x) # d) = removed d"
  "added [] = []" "added ((CHR ''+'' # x) # d) = x # added d" "added ((CHR ''-'' # x) # d) = added d"
  by (simp_all add: removed_def added_def)

text \<open>The lines of both sides the diff does not mention are common, in order, and as many as can be.\<close>

lemma diff_ref_common:
  "\<exists>c. a \<in> shuffles c (removed (diff_ref a b)) \<and> b \<in> shuffles c (added (diff_ref a b)) \<and> length c = lcs a b"
proof (induction a b rule: diff_ref.induct)
  case (2 x xs)
  then obtain c where "xs \<in> shuffles c (removed (diff_ref xs []))" "[] \<in> shuffles c (added (diff_ref xs []))"
    "length c = lcs xs []" by blast
  then show ?case by (intro exI [of _ c]) (auto simp: Cons_in_shuffles_iff)
next
  case (3 y ys)
  then obtain c where "[] \<in> shuffles c (removed (diff_ref [] ys))" "ys \<in> shuffles c (added (diff_ref [] ys))"
    "length c = lcs [] ys" by blast
  then show ?case by (intro exI [of _ c]) (auto simp: Cons_in_shuffles_iff)
next
  case (4 x xs y ys)
  show ?case
  proof (cases "x = y")
    case True
    with 4(1) obtain c where "xs \<in> shuffles c (removed (diff_ref xs ys))" "ys \<in> shuffles c (added (diff_ref xs ys))"
      "length c = lcs xs ys" by blast
    with True show ?thesis by (intro exI [of _ "x # c"]) (auto simp: Cons_in_shuffles_iff)
  next
    case neq: False
    show ?thesis
    proof (cases "lcs xs (y # ys) \<ge> lcs (x # xs) ys")
      case True
      with 4(2) neq obtain c where "xs \<in> shuffles c (removed (diff_ref xs (y # ys)))"
        "y # ys \<in> shuffles c (added (diff_ref xs (y # ys)))" "length c = lcs xs (y # ys)" by blast
      with neq True show ?thesis by (intro exI [of _ c]) (auto simp: Cons_in_shuffles_iff)
    next
      case False
      with 4(3) neq obtain c where "x # xs \<in> shuffles c (removed (diff_ref (x # xs) ys))"
        "ys \<in> shuffles c (added (diff_ref (x # xs) ys))" "length c = lcs (x # xs) ys" by blast
      with neq False show ?thesis by (intro exI [of _ c]) (auto simp: Cons_in_shuffles_iff)
    qed
  qed
qed simp

lemma lcs_longest: "subseq c a \<Longrightarrow> subseq c b \<Longrightarrow> length c \<le> lcs a b"
proof (induction a b arbitrary: c rule: lcs.induct)
  case (1 x xs y ys)
  show ?case
  proof (cases c)
    case (Cons z c')
    show ?thesis
    proof (cases "x = y")
      case True
      show ?thesis
      proof (cases "z = x")
        case z: True
        then have "subseq c' xs" "subseq c' ys" using 1(4,5) Cons True by simp_all
        then show ?thesis using 1(1) [OF True] Cons True by simp
      next
        case False
        then have "subseq c xs" "subseq c ys" using 1(4,5) Cons True by simp_all
        then show ?thesis using 1(1) [OF True, of c] True by simp
      qed
    next
      case False
      then consider "subseq c xs" | "subseq c ys" using 1(4,5) Cons by (cases "z = x") simp_all
      then show ?thesis
      proof cases
        case 1
        then show ?thesis using "1.IH"(2) [OF False, of c] 1(1) \<open>subseq c (y # ys)\<close> False by simp
      next
        case 2
        then show ?thesis using "1.IH"(3) [OF False, of c] \<open>subseq c (x # xs)\<close> False by simp
      qed
    qed
  qed simp
qed auto

lemma Diff_ref: "Diff old new = diff_ref (text_lines old) (text_lines new)"
  using diff_walk_ref [of 0 "text_lines new" "text_lines old"] by (simp add: Diff_def)

lemma diff_ref_empty: "diff_ref a b = [] \<longleftrightarrow> a = b"
  by (induction a b rule: diff_ref.induct) auto

subsection \<open>The server's own address\<close>

lemma Diff_empty: "Diff old new = [] \<longleftrightarrow> text_lines old = text_lines new"
  by (simp add: Diff_ref diff_ref_empty)

lemma and_even_Suc: "even m \<Longrightarrow> even x \<Longrightarrow> (x + 1) AND m = x AND m" for m x :: nat
  by (subst (1 2) and_rec) auto

lemma cidr_mask_last_even: "k < 8 * m \<Longrightarrow> even (last (cidr_mask k m))"
proof (induction k m rule: cidr_mask.induct)
  case (2 n k)
  show ?case
  proof (cases "n \<ge> 8")
    case True
    with 2(3) have "n - 8 < 8 * k" "cidr_mask (n - 8) k \<noteq> []" by (cases k; simp)+
    with 2(1) [OF True] True show ?thesis by simp
  next
    case False
    show ?thesis
    proof (cases k)
      case 0
      then show ?thesis using False by simp
    next
      case (Suc j)
      then have "even (last (cidr_mask 0 k))" using 2(2) [OF False] by simp
      then show ?thesis using False Suc by simp
    qed
  qed
qed simp

lemma parse_cidr_v4:
  assumes "parse_cidr s = Some (ip, n)" and "length (net_Mask n) = 4"
  shows "\<exists>b k. length b = 4 \<and> (\<forall>x \<in> set b. x \<le> 255) \<and> k \<le> 32 \<and> net_Mask n = cidr_mask k 4 \<and> net_IP n = mask_and b (cidr_mask k 4)"
proof -
  from assms(1) obtain a m ad k where c: "cut_c CHR ''/'' s = Some (a, m)" "parse_addr a = Some ad" "addr_zone ad = []"
    "dtoi m = Some k" "k \<le> bit_len ad" and i: "ip_mask (as16 ad) (cidr_mask k (bit_len ad div 8)) = Some (net_IP n)"
    and mk: "net_Mask n = cidr_mask k (bit_len ad div 8)"
    by (auto simp: parse_cidr_def Let_def split: option.splits if_splits prod.splits)
  have "length (net_Mask n) = bit_len ad div 8" by (simp add: mk)
  then obtain b where ad: "ad = V4 b" using assms(2) by (cases ad) (simp_all add: bit_len_def)
  have scan: "parse_addr_scan s t = Some (V4 b) \<Longrightarrow> parse_ipv4 s = Some b \<or> parse_ipv6 s = Some (V4 b)" for s t
    by (induction t) (auto split: if_splits)
  have "parse_ipv6 a \<noteq> Some (V4 b)" by (auto simp: parse_ipv6_def Let_def bind_eq_Some_conv split: if_splits)
  then have "parse_ipv4 a = Some b" using scan c(2) ad unfolding parse_addr_def by blast
  note b = parse_ipv4_shape [OF this]
  have "ip_mask (v4_in_v6 @ b) (cidr_mask k 4) = Some (mask_and b (cidr_mask k 4))"
    using b(1) by (simp add: ip_mask_def v4_in_v6_def Let_def)
  then have "net_IP n = mask_and b (cidr_mask k 4)" "net_Mask n = cidr_mask k 4" "k \<le> 32"
    using i mk c(5) ad by (simp_all add: as16_def bit_len_def)
  then show ?thesis using b by blast
qed

lemma list4: "length b = 4 \<Longrightarrow> \<exists>p q r t. b = [p, q, r, t]"
  by (cases b; cases "tl b"; cases "tl (tl b)"; cases "tl (tl (tl b))") auto

lemma ServerTunIP_in_subnet:
  assumes c: "parse_cidr (oc_Subnet c) = Some (ip, n)" and l: "length (net_Mask n) = 4"
    and k: "net_Mask n \<noteq> cidr_mask 32 4"
  shows "\<exists>q. ServerTunIP c = Inr q \<and> length q = 4 \<and> mask_and q (net_Mask n) = net_IP n \<and> q \<noteq> net_IP n"
proof -
  from parse_cidr_v4 [OF c l] obtain b k' where b: "length b = 4" "\<forall>x \<in> set b. x \<le> 255" "k' \<le> 32"
    "net_Mask n = cidr_mask k' 4" "net_IP n = mask_and b (cidr_mask k' 4)" by blast
  obtain b0 b1 b2 b3 where bs: "b = [b0, b1, b2, b3]" using list4 [OF b(1)] by blast
  obtain m0 m1 m2 m3 where ms: "cidr_mask k' 4 = [m0, m1, m2, m3]" using list4 [of "cidr_mask k' 4"] by auto
  have "k' < 8 * 4" using k b(3,4) by (cases "k' = 32") simp_all
  then have ev: "even m3" using cidr_mask_last_even [of k' 4] ms by simp
  then have evx: "even (b3 AND m3)" by (simp add: even_and_iff)
  have "int (b3 AND m3) \<le> int b3" unfolding of_nat_and_eq by (rule AND_upper1) simp
  then have "b3 AND m3 \<le> 255" using b(2) bs by simp
  then have "b3 AND m3 \<le> 254" using evx by (cases "b3 AND m3 = 255") auto
  then have w: "((b3 AND m3) + 1) mod 256 = (b3 AND m3) + 1" by simp
  have net: "net_IP n = [b0 AND m0, b1 AND m1, b2 AND m2, b3 AND m3]" by (simp add: b(5) bs ms mask_and_def)
  have "ServerTunIP c = Inr [b0 AND m0, b1 AND m1, b2 AND m2, (b3 AND m3) + 1]"
    using c w by (simp add: ServerTunIP_def net to4_def)
  moreover have "mask_and [b0 AND m0, b1 AND m1, b2 AND m2, (b3 AND m3) + 1] [m0, m1, m2, m3] = net_IP n"
    using and_even_Suc [OF ev evx] by (simp add: mask_and_def net and.assoc)
  ultimately show ?thesis by (simp add: b(4) ms net)
qed

subsection \<open>Properties\<close>

text \<open>C12: \<^verbatim>\<open>Validate\<close> accepts exactly the configurations with a known protocol, port and cipher, parseable
  subnet, resolvers and routes, and whose extra lines are blank, comments or begin with an allowed
  directive; the resolvers it accepts consist of hexadecimal digits, dots and colons, so they
  cannot end the quoted push line they are rendered into.\<close>

theorem Validate_ovpn_iff:
  "(Validate_ovpn c = Inr () \<longleftrightarrow> ovpn_valid c)
   \<and> (is_ok (Validate_ovpn c) \<longrightarrow> (\<forall>d \<in> set (oc_DNS c). \<forall>b \<in> set d. addr_c b \<and> b \<noteq> DQ \<and> b \<noteq> LF \<and> b \<noteq> CHR '' ''))"
proof -
  have "addr_c b \<and> b \<noteq> DQ \<and> b \<noteq> LF \<and> b \<noteq> CHR '' ''" if "ovpn_valid c" "d \<in> set (oc_DNS c)" "b \<in> set d" for d b
  proof -
    have "addr_c b" using that parse_ip_chars by (fastforce simp: ovpn_valid_def)
    then show ?thesis by (auto simp: addr_c_def is_hex_c_def is_digit_c_def byte_of_def)
  qed
  then show ?thesis using Validate_ovpn_ok [of c] by (auto simp: is_ok_iff)
qed

definition ovpn_default :: ovpn_config where
  "ovpn_default = (Default (\<lambda>_. []))\<lparr>oc_DNS := [''1.1.1.1'']\<rparr>"

theorem Validate_ovpn_iff_witness:
  "Validate_ovpn ovpn_default = Inr () \<and> list_all addr_c ''1.1.1.1''"
proof -
  have "Validate_ovpn ovpn_default = Inr ()" by code_simp
  then show ?thesis using Validate_ovpn_iff [of ovpn_default] by (simp add: ovpn_default_def is_ok_iff)
qed

text \<open>C13: the preview diff is exact and shortest: it is empty exactly when both texts have the same lines;
  the unmentioned lines are one common subsequence of which the old text is an interleaving with the
  removed lines and the new text with the added ones, and no common subsequence is longer.\<close>

theorem Diff_shortest:
  "(Diff old new = [] \<longleftrightarrow> text_lines old = text_lines new)
   \<and> (\<exists>c. text_lines old \<in> shuffles c (removed (Diff old new)) \<and> text_lines new \<in> shuffles c (added (Diff old new))
        \<and> (\<forall>d. subseq d (text_lines old) \<and> subseq d (text_lines new) \<longrightarrow> length d \<le> length c))"
  unfolding Diff_ref using diff_ref_empty diff_ref_common [of "text_lines old" "text_lines new"] lcs_longest by metis

theorem Diff_shortest_witness:
  "Diff (''a'' @ NL @ ''b'' @ NL) (''a'' @ NL @ ''c'' @ NL) = [''-b'', ''+c'']
   \<and> (\<exists>c. text_lines (''a'' @ NL @ ''b'' @ NL) \<in> shuffles c [''b''] \<and> length c \<ge> 1)"
proof -
  let ?o = "''a'' @ NL @ ''b'' @ NL" and ?n = "''a'' @ NL @ ''c'' @ NL"
  have d: "Diff ?o ?n = [''-b'', ''+c'']" by code_simp
  have t: "text_lines ?o = [''a'', ''b'']" "text_lines ?n = [''a'', ''c'']" by code_simp+
  obtain c where c: "text_lines ?o \<in> shuffles c (removed (Diff ?o ?n))"
    "\<forall>d. subseq d (text_lines ?o) \<and> subseq d (text_lines ?n) \<longrightarrow> length d \<le> length c"
    using Diff_shortest [of ?o ?n] by blast
  have "subseq [''a''] (text_lines ?o) \<and> subseq [''a''] (text_lines ?n)" unfolding t by simp
  with c(2) have "length [''a''] \<le> length c" by blast
  moreover have "removed (Diff ?o ?n) = [''b'']" unfolding d by (simp add: removed_def)
  ultimately show ?thesis using c(1) d by auto
qed

text \<open>For an IPv4 subnet shorter than /32 the server's own address lies inside the subnet and is not
  its network address.\<close>

theorem server_address_in_subnet:
  assumes "parse_cidr (oc_Subnet c) = Some (ip, n)" and "length (net_Mask n) = 4" and "net_Mask n \<noteq> [255, 255, 255, 255]"
  shows "\<exists>q. ServerTunIP c = Inr q \<and> length q = 4 \<and> mask_and q (net_Mask n) = net_IP n \<and> q \<noteq> net_IP n"
proof -
  have "cidr_mask 32 4 = [255, 255, 255, 255]" by code_simp
  then show ?thesis using ServerTunIP_in_subnet [OF assms(1,2)] assms(3) by simp
qed

theorem server_address_in_subnet_witness:
  "\<exists>q. ServerTunIP ovpn_default = Inr q \<and> mask_and q [255, 255, 255, 0] = [10, 8, 0, 0]"
proof -
  have "parse_cidr (oc_Subnet ovpn_default)
      = Some (v4_in_v6 @ [10, 8, 0, 0], \<lparr>net_IP = [10, 8, 0, 0], net_Mask = [255, 255, 255, 0]\<rparr>)" by code_simp
  from server_address_in_subnet [OF this] show ?thesis by auto
qed

text \<open>A /32 subnet that ends in 255 wraps: its server address is outside the subnet.\<close>

lemma server_address_wraps:
  "ServerTunIP (ovpn_default\<lparr>oc_Subnet := ''10.0.0.255/32''\<rparr>) = Inr [10, 0, 0, 0]"
  by code_simp

lemma WriteAtomic_outcome:
  assumes "path_join (path_dir path) ''.server.conf.tmp'' \<noteq> path" and "WriteAtomic c path s = (r, s')"
  shows "(case r of Inr _ \<Rightarrow> ovpn_valid c \<and> fs_files s' path = Some (Render c)
          | Inl _ \<Rightarrow> fs_files s' path = fs_files s path)
    \<and> (q \<noteq> path \<and> q \<noteq> path_join (path_dir path) ''.server.conf.tmp'' \<longrightarrow> fs_files s' q = fs_files s q)"
proof (cases "Validate_ovpn c")
  case (Inl e)
  then have "r = Inl e \<and> s' = s" using assms(2) by (simp add: WriteAtomic_def)
  then show ?thesis by simp
next
  case (Inr u)
  let ?t = "path_join (path_dir path) ''.server.conf.tmp''"
  obtain ok s1 where w: "fs_write_file ?t (Render c) s = (ok, s1)" by (metis surj_pair)
  obtain ok2 s2 where m: "fs_rename ?t path s1 = (ok2, s2)" by (metis surj_pair)
  have v: "ovpn_valid c" using Inr by (simp add: Validate_ovpn_ok)
  have e: "WriteAtomic c path s = (if \<not> ok then (Inl FileError, s1) else if ok2 then (Inr (), s2) else (Inl FileError, s2))"
    using Inr w m by (simp add: WriteAtomic_def Let_def)
  show ?thesis
    using assms v fs_write_file_files [OF w] fs_rename_files [OF m] unfolding e by (auto split: if_splits)
qed

text \<open>\<^verbatim>\<open>WriteAtomic\<close> replaces the file as a whole or leaves it: on success the configuration is valid and
  the file is its rendering; on any failure, at whatever step and after however many bytes, the old
  file is still there; and no file but the temporary one is touched besides.\<close>

theorem WriteAtomic_all_or_nothing:
  assumes "path_join (path_dir path) ''.server.conf.tmp'' \<noteq> path" and "WriteAtomic c path s = (r, s')"
  shows "(case r of Inr _ \<Rightarrow> ovpn_valid c \<and> fs_files s' path = Some (Render c)
          | Inl _ \<Rightarrow> fs_files s' path = fs_files s path)
    \<and> (q \<noteq> path \<and> q \<noteq> path_join (path_dir path) ''.server.conf.tmp'' \<longrightarrow> fs_files s' q = fs_files s q)"
  by (rule WriteAtomic_outcome [OF assms])

theorem WriteAtomic_all_or_nothing_witness:
  "(let s = \<lparr>fs_files = [''/d/server.conf'' \<mapsto> ''old''], fs_faults = [None, Some 3]\<rparr> in
     fs_files (snd (WriteAtomic ovpn_default ''/d/server.conf'' s)) ''/d/server.conf'' = Some ''old'')"
proof -
  let ?s = "\<lparr>fs_files = [''/d/server.conf'' \<mapsto> ''old''], fs_faults = [None, Some 3]\<rparr>"
  have t: "path_join (path_dir ''/d/server.conf'') ''.server.conf.tmp'' = ''/d/.server.conf.tmp''" by code_simp
  have v: "Validate_ovpn ovpn_default = Inr ()" by code_simp
  obtain s' where r: "WriteAtomic ovpn_default ''/d/server.conf'' ?s = (Inl FileError, s')"
    by (simp add: WriteAtomic_def v t Let_def fs_write_file_def next_fault_def fs_write_open_def put_file_def)
  have "path_join (path_dir ''/d/server.conf'') ''.server.conf.tmp'' \<noteq> ''/d/server.conf''" by (simp add: t)
  from WriteAtomic_all_or_nothing [OF this r] r show ?thesis by simp
qed

end
