(* ===== verification/Supervisor.thy ===== *)
theory Supervisor
  imports Go_Strings
begin

section \<open>The worker supervisor (internal/controller/supervisor.go)\<close>

text \<open>
  One supervisor keeps one worker (openvpn or dnsmasq) as a child process. The record
  \<open>supervisor\<close> has the fields of the Go struct; \<open>sv_opMu\<close> is whether \<^verbatim>\<open>opMu\<close> is
  held. The critical sections under \<^verbatim>\<open>stMu\<close> are the atomic steps; the first part composes
  them as the code does when nothing else runs (\<open>Start\<close>, \<open>Stop\<close>, \<open>Restart\<close>,
  \<open>Reconnect\<close>), the second lets lifecycle operations, the reaper goroutines, the
  auto-restart goroutines and the child processes interleave in any order. What the operating
  system decides (whether the log file opens, whether the fork succeeds, the new pid, when a child
  exits) is an input of the step. Times are nanoseconds; \<^verbatim>\<open>time.Time{}\<close> is \<open>None\<close>, and
  \<^verbatim>\<open>time.Since\<close> of it exceeds every window.
\<close>

record supervisor =
  sv_Name :: string
  sv_Bin :: string
  sv_Args :: "string list"
  sv_CrashRestartDelay :: int
  sv_CrashLoopWindow :: int
  sv_CrashLoopMax :: int
  sv_opMu :: bool
  sv_cmd :: "int option"
  sv_running :: bool
  sv_desired :: bool
  sv_stopped :: bool
  sv_startedAt :: "int option"
  sv_crashAt :: "int option"
  sv_crashStreak :: int

datatype ctl_error =
    Busy string
  | NotOnPath string
  | LogOpenFailed
  | PipeFailed
  | StartFailed string
  | NotRunning
  | SignalFailed
  | UnknownOp
  | ReapplyFailed string
  | OtherError string
  | TelegramBusy

text \<open>The message of an error, as \<^verbatim>\<open>err.Error()\<close> gives it.\<close>

fun err_text :: "ctl_error \<Rightarrow> string" where
  "err_text (Busy n) = ''controller: '' @ n @ '': operation already in progress''"
| "err_text (NotOnPath n) = ''controller: '' @ n @ '' not found on PATH''"
| "err_text LogOpenFailed = ''open log file''"
| "err_text PipeFailed = ''pipe''"
| "err_text (StartFailed n) = ''controller: '' @ n @ '' start: fork failed''"
| "err_text NotRunning = ''controller: openvpn not running''"
| "err_text SignalFailed = ''os: process already finished''"
| "err_text UnknownOp = ''unknown operation''"
| "err_text (ReapplyFailed m) = ''upstream reapply: '' @ m"
| "err_text (OtherError m) = m"
| "err_text TelegramBusy = ''telegram: operation already in progress''"

subsection \<open>Reads\<close>

definition Running :: "supervisor \<Rightarrow> bool" where
  "Running s = sv_running s"

definition Pid :: "supervisor \<Rightarrow> int" where
  "Pid s = (if \<not> sv_running s then 0 else case sv_cmd s of None \<Rightarrow> 0 | Some p \<Rightarrow> p)"

definition StartedAt :: "supervisor \<Rightarrow> int option" where
  "StartedAt s = (if \<not> sv_running s then None else sv_startedAt s)"

subsection \<open>The critical sections\<close>

definition acquireOp :: "supervisor \<Rightarrow> (ctl_error, supervisor) result" where
  "acquireOp s = (if sv_opMu s then Inl (Busy (sv_Name s)) else Inr (s\<lparr>sv_opMu := True\<rparr>))"

definition releaseOp :: "supervisor \<Rightarrow> supervisor" where
  "releaseOp s = s\<lparr>sv_opMu := False\<rparr>"

text \<open>What the system answers a launch: the log file cannot be opened, no pipe, the fork fails, or
  a child with this pid runs.\<close>

datatype launch = LogErr | PipeErr | ForkErr | Launched int

record launch_env =
  le_PreStart :: "string list option"
  le_launch :: launch
  le_now :: int

text \<open>The first half of \<^verbatim>\<open>supervise\<close>, up to \<^verbatim>\<open>launched <- nil\<close>.\<close>

definition supervise_launch :: "launch \<Rightarrow> int \<Rightarrow> supervisor \<Rightarrow> (ctl_error, unit) result \<times> supervisor" where
  "supervise_launch l now s =
    (if sv_Bin s = [] then (Inl (NotOnPath (sv_Name s)), s)
     else case l of
       LogErr \<Rightarrow> (Inl LogOpenFailed, s)
     | PipeErr \<Rightarrow> (Inl PipeFailed, s)
     | ForkErr \<Rightarrow> (Inl (StartFailed (sv_Name s)), s)
     | Launched p \<Rightarrow> (Inr (), s\<lparr>sv_cmd := Some p, sv_running := True, sv_startedAt := Some now\<rparr>))"

text \<open>The second half, after \<^verbatim>\<open>cmd.Wait\<close>: the fields are reset under the lock, and the
  auto-restart goroutine starts exactly when the exit was not asked for and the worker is wanted.\<close>

definition supervise_reap :: "supervisor \<Rightarrow> bool \<times> supervisor" where
  "supervise_reap s =
    (\<not> sv_stopped s \<and> sv_desired s,
     s\<lparr>sv_stopped := False, sv_running := False, sv_cmd := None, sv_startedAt := None\<rparr>)"

definition crash_delay :: "supervisor \<Rightarrow> int" where
  "crash_delay s = (if sv_CrashRestartDelay s = 0 then 3000000000 else sv_CrashRestartDelay s)"

definition crash_window :: "supervisor \<Rightarrow> int" where
  "crash_window s = (if sv_CrashLoopWindow s = 0 then 60000000000 else sv_CrashLoopWindow s)"

definition crash_max :: "supervisor \<Rightarrow> int" where
  "crash_max s = (if sv_CrashLoopMax s = 0 then 5 else sv_CrashLoopMax s)"

text \<open>\<^verbatim>\<open>autoRestart\<close> up to its sleep: the streak starts again when the last crash is longer ago than
  the window.\<close>

definition count_crash :: "int \<Rightarrow> supervisor \<Rightarrow> int \<times> supervisor" where
  "count_crash now s =
    (let stale = (case sv_crashAt s of None \<Rightarrow> True | Some t \<Rightarrow> now - t > crash_window s);
         streak = (if stale then 0 else sv_crashStreak s) + 1
     in (streak, s\<lparr>sv_crashStreak := streak, sv_crashAt := Some now\<rparr>))"

subsection \<open>The operations, run alone\<close>

definition sup_start :: "launch_env \<Rightarrow> supervisor \<Rightarrow> (ctl_error, unit) result \<times> supervisor" where
  "sup_start e s =
    (if Running s then (Inr (), s)
     else supervise_launch (le_launch e) (le_now e)
            (case le_PreStart e of None \<Rightarrow> s | Some as \<Rightarrow> s\<lparr>sv_Args := as\<rparr>))"

text \<open>\<^verbatim>\<open>stop\<close> returns once the reaper has closed \<^verbatim>\<open>done\<close>; the child exits on SIGTERM, or on
  SIGKILL after \<^verbatim>\<open>StopWait\<close>.\<close>

definition sup_stop :: "supervisor \<Rightarrow> supervisor" where
  "sup_stop s = (if \<not> Running s then s else snd (supervise_reap (s\<lparr>sv_stopped := True\<rparr>)))"

definition Start :: "launch_env \<Rightarrow> supervisor \<Rightarrow> (ctl_error, unit) result \<times> supervisor" where
  "Start e s = (case acquireOp s of
     Inl err \<Rightarrow> (Inl err, s)
   | Inr s1 \<Rightarrow> (let (r, s2) = sup_start e (s1\<lparr>sv_desired := True\<rparr>) in (r, releaseOp s2)))"

definition Stop :: "supervisor \<Rightarrow> (ctl_error, unit) result \<times> supervisor" where
  "Stop s = (case acquireOp s of
     Inl err \<Rightarrow> (Inl err, s)
   | Inr s1 \<Rightarrow> (Inr (), releaseOp (sup_stop (s1\<lparr>sv_desired := False\<rparr>))))"

definition Restart :: "launch_env \<Rightarrow> supervisor \<Rightarrow> (ctl_error, unit) result \<times> supervisor" where
  "Restart e s = (case acquireOp s of
     Inl err \<Rightarrow> (Inl err, s)
   | Inr s1 \<Rightarrow> (let (r, s2) = sup_start e (sup_stop (s1\<lparr>sv_desired := True\<rparr>)) in (r, releaseOp s2)))"

text \<open>\<open>sig\<close> is whether the kernel delivers SIGUSR1.\<close>

definition Reconnect :: "bool \<Rightarrow> supervisor \<Rightarrow> (ctl_error, unit) result \<times> supervisor" where
  "Reconnect sig s = (case acquireOp s of
     Inl err \<Rightarrow> (Inl err, s)
   | Inr s1 \<Rightarrow> (if \<not> Running s1 then Inl NotRunning else if sig then Inr () else Inl SignalFailed, releaseOp s1))"

subsection \<open>Interleavings\<close>

text \<open>
  \<open>opc\<close> is where the holder of \<^verbatim>\<open>opMu\<close> stands: before it has written \<^verbatim>\<open>desired\<close>, in
  \<^verbatim>\<open>stop\<close> before the snapshot, before the mark of the snapshotted child, waiting for that child's
  \<^verbatim>\<open>done\<close> (the flag says that a start follows, as in \<^verbatim>\<open>Restart\<close>), in \<^verbatim>\<open>start\<close> before the
  check of \<^verbatim>\<open>running\<close>, before the launch, or in \<^verbatim>\<open>autoRestart\<close> before \<^verbatim>\<open>stillWanted\<close>.
  Children are numbered in the order of their launch; \<open>w_live\<close> are the processes that run,
  \<open>w_dead\<close> those that have exited and are not yet reaped, \<open>w_done\<close> those whose
  \<^verbatim>\<open>done\<close> is closed. Each auto-restart goroutine is either before its count of the crash or
  asleep until a time.
\<close>

datatype verb = VStart | VStop | VRestart

datatype opc =
    Free
  | SetDesired verb
  | Snapshot bool
  | Mark bool nat
  | Await bool nat
  | CheckRunning
  | Launching
  | StillWanted

datatype auto = Counting | Sleeping int

record sup_world =
  w_sup :: supervisor
  w_pc :: opc
  w_autos :: "auto list"
  w_live :: "nat list"
  w_dead :: "nat list"
  w_done :: "nat list"
  w_gen :: nat
  w_now :: int
  w_gaveup :: nat

datatype sup_label =
    Request verb
  | OpStep launch_env
  | Exit nat
  | Reap nat
  | Count nat
  | Wake nat
  | Tick int

definition drop_nth :: "nat \<Rightarrow> 'a list \<Rightarrow> 'a list" where
  "drop_nth i xs = take i xs @ drop (Suc i) xs"

definition op_release :: "sup_world \<Rightarrow> sup_world" where
  "op_release w = w\<lparr>w_pc := Free, w_sup := releaseOp (w_sup w)\<rparr>"

text \<open>One atomic step of the operation that holds \<^verbatim>\<open>opMu\<close>; \<open>None\<close> when it cannot go on.\<close>

definition op_step :: "launch_env \<Rightarrow> sup_world \<Rightarrow> sup_world option" where
  "op_step e w = (let s = w_sup w in case w_pc w of
     Free \<Rightarrow> None
   | SetDesired v \<Rightarrow> Some (w\<lparr>w_sup := s\<lparr>sv_desired := (v \<noteq> VStop)\<rparr>,
       w_pc := (case v of VStart \<Rightarrow> CheckRunning | VStop \<Rightarrow> Snapshot False | VRestart \<Rightarrow> Snapshot True)\<rparr>)
   | Snapshot r \<Rightarrow> Some (if sv_running s then w\<lparr>w_pc := Mark r (w_gen w)\<rparr>
       else if r then w\<lparr>w_pc := CheckRunning\<rparr> else op_release w)
   | Mark r g \<Rightarrow> Some (w\<lparr>w_sup := s\<lparr>sv_stopped := True\<rparr>, w_pc := Await r g\<rparr>)
   | Await r g \<Rightarrow> if g \<notin> set (w_done w) then None
       else Some (if r then w\<lparr>w_pc := CheckRunning\<rparr> else op_release w)
   | CheckRunning \<Rightarrow> Some (if sv_running s then op_release w else w\<lparr>w_pc := Launching\<rparr>)
   | Launching \<Rightarrow>
       (let s0 = (case le_PreStart e of None \<Rightarrow> s | Some as \<Rightarrow> s\<lparr>sv_Args := as\<rparr>) in
        case supervise_launch (le_launch e) (w_now w) s0 of
          (Inl _, s1) \<Rightarrow> Some (op_release (w\<lparr>w_sup := s1\<rparr>))
        | (Inr _, s1) \<Rightarrow> Some (op_release (w\<lparr>w_sup := s1, w_gen := Suc (w_gen w), w_live := Suc (w_gen w) # w_live w\<rparr>)))
   | StillWanted \<Rightarrow> Some (if sv_desired s \<and> \<not> sv_running s then w\<lparr>w_pc := CheckRunning\<rparr> else op_release w))"

fun sup_step :: "sup_label \<Rightarrow> sup_world \<Rightarrow> sup_world option" where
  "sup_step (Request v) w = (case acquireOp (w_sup w) of
     Inl _ \<Rightarrow> Some w
   | Inr s \<Rightarrow> Some (w\<lparr>w_sup := s, w_pc := SetDesired v\<rparr>))"
| "sup_step (OpStep e) w = op_step e w"
| "sup_step (Exit g) w = (if g \<notin> set (w_live w) then None
     else Some (w\<lparr>w_live := remove1 g (w_live w), w_dead := g # w_dead w\<rparr>))"
| "sup_step (Reap g) w = (if g \<notin> set (w_dead w) then None
     else let (again, s) = supervise_reap (w_sup w) in
       Some (w\<lparr>w_sup := s, w_dead := remove1 g (w_dead w), w_done := g # w_done w,
               w_autos := w_autos w @ (if again then [Counting] else [])\<rparr>))"
| "sup_step (Count i) w = (if i \<ge> length (w_autos w) \<or> w_autos w ! i \<noteq> Counting then None
     else let (streak, s) = count_crash (w_now w) (w_sup w) in
       Some (if streak > crash_max s then w\<lparr>w_sup := s, w_autos := drop_nth i (w_autos w), w_gaveup := Suc (w_gaveup w)\<rparr>
             else w\<lparr>w_sup := s, w_autos := (w_autos w)[i := Sleeping (w_now w + crash_delay s)]\<rparr>))"
| "sup_step (Wake i) w = (if i \<ge> length (w_autos w) then None
     else case w_autos w ! i of
       Counting \<Rightarrow> None
     | Sleeping t \<Rightarrow> if t > w_now w \<or> sv_opMu (w_sup w) then None
         else Some (w\<lparr>w_sup := (w_sup w)\<lparr>sv_opMu := True\<rparr>, w_autos := drop_nth i (w_autos w), w_pc := StillWanted\<rparr>))"
| "sup_step (Tick d) w = (if d < 0 then None else Some (w\<lparr>w_now := w_now w + d\<rparr>))"

fun sup_run :: "sup_label list \<Rightarrow> sup_world \<Rightarrow> sup_world option" where
  "sup_run [] w = Some w"
| "sup_run (l # ls) w = (case sup_step l w of None \<Rightarrow> None | Some w' \<Rightarrow> sup_run ls w')"

text \<open>A supervisor as it is built: nothing runs, nothing was asked for.\<close>

definition sup_fresh :: "string \<Rightarrow> string \<Rightarrow> string list \<Rightarrow> int \<Rightarrow> int \<Rightarrow> int \<Rightarrow> supervisor" where
  "sup_fresh name bin args delay window mx =
    \<lparr>sv_Name = name, sv_Bin = bin, sv_Args = args, sv_CrashRestartDelay = delay, sv_CrashLoopWindow = window,
     sv_CrashLoopMax = mx, sv_opMu = False, sv_cmd = None, sv_running = False, sv_desired = False, sv_stopped = False,
     sv_startedAt = None, sv_crashAt = None, sv_crashStreak = 0\<rparr>"

definition world_of :: "supervisor \<Rightarrow> int \<Rightarrow> sup_world" where
  "world_of s now = \<lparr>w_sup = s, w_pc = Free, w_autos = [], w_live = [], w_dead = [], w_done = [], w_gen = 0,
     w_now = now, w_gaveup = 0\<rparr>"

inductive sup_reachable :: "sup_world \<Rightarrow> bool" where
  fresh: "sup_reachable (world_of (sup_fresh name bin args delay window mx) now)"
| step: "sup_reachable w \<Longrightarrow> sup_step l w = Some w' \<Longrightarrow> sup_reachable w'"

subsection \<open>Host checks\<close>

text \<open>What the host answers is an argument: the path a lookup finds, the output of a command (\<open>None\<close>
  when it failed), the contents of a file of \<^verbatim>\<open>/proc\<close>.\<close>

definition binVersion :: "string option \<Rightarrow> string \<Rightarrow> nat \<Rightarrow> (string \<times> string) option" where
  "binVersion path out verIdx = (case path of None \<Rightarrow> None
     | Some p \<Rightarrow> (let first = (case cut_c LF out of None \<Rightarrow> out | Some (a, _) \<Rightarrow> a); fields = fields_s first in
         if length fields \<le> verIdx then None else Some (fields ! 0 @ '' '' @ fields ! verIdx, p)))"

definition OpenVPNVersion :: "string option \<Rightarrow> string \<Rightarrow> (string \<times> string) option" where
  "OpenVPNVersion path out = binVersion path out 1"

definition DnsmasqVersion :: "string option \<Rightarrow> string \<Rightarrow> (string \<times> string) option" where
  "DnsmasqVersion path out = binVersion path out 2"

definition NftablesVersion :: "string option \<Rightarrow> string \<Rightarrow> (string \<times> string) option" where
  "NftablesVersion path out = binVersion path out 1"

definition ipForwardEnabled :: "string option \<Rightarrow> bool" where
  "ipForwardEnabled f = (case f of None \<Rightarrow> False | Some b \<Rightarrow> trim_space b = ''1'')"

text \<open>\<^verbatim>\<open>strings.ToUpper\<close> as a search for ASCII words sees it: beside the ASCII letters, only U+017F and
  U+0131 have an ASCII upper case.\<close>

fun to_upper :: "string \<Rightarrow> string" where
  "to_upper (a # b # s) =
    (if byte_of a = 0xC5 \<and> byte_of b = 0xBF then CHR ''S'' # to_upper s
     else if byte_of a = 0xC4 \<and> byte_of b = 0xB1 then CHR ''I'' # to_upper s
     else (if is_lower_c a then char_of (byte_of a - 32) else a) # to_upper (b # s))"
| "to_upper [a] = [if is_lower_c a then char_of (byte_of a - 32) else a]"
| "to_upper [] = []"

definition natConfigured :: "string option \<Rightarrow> string option \<Rightarrow> bool \<times> bool" where
  "natConfigured path out = (case path of None \<Rightarrow> (False, False)
     | Some _ \<Rightarrow> (case out of None \<Rightarrow> (False, False)
       | Some o' \<Rightarrow> (let up = to_upper o' in (contains_s up ''MASQUERADE'' \<or> contains_s up ''SNAT'', True))))"

definition RoutingPrereqsWarning :: "bool \<Rightarrow> string option \<Rightarrow> bool \<times> bool \<Rightarrow> string" where
  "RoutingPrereqsWarning ovcpNAT fwd natc =
    (let missing = (if \<not> ipForwardEnabled fwd then [''IPv4 forwarding is off (sysctl -w net.ipv4.ip_forward=1)''] else [])
       @ (if \<not> ovcpNAT \<and> snd natc \<and> \<not> fst natc then [''no outbound NAT/masquerade rule found in iptables'' @ CHR 0x27 # '' nat table''] else []) in
     if missing = [] then [] else ''baseline routing: '' @ join_s ''; '' missing)"

text \<open>\<^verbatim>\<open>logLines\<close>: each line of the worker's output, stamped; \<open>stamps\<close> are the times of the lines.
  The scanner drops a carriage return at the end of a line and gives up at a line that does not fit
  its buffer of one megabyte.\<close>

fun logLines :: "string list \<Rightarrow> string list \<Rightarrow> string" where
  "logLines (t # ts) (l # ls) = (if int (length l) \<ge> 1048576 then []
     else t @ '' '' @ trim_suffix l [CR] @ NL @ logLines ts ls)"
| "logLines _ _ = []"

end
