(* ===== verification/Supervisor_Props.thy ===== *)
theory Supervisor_Props
  imports Supervisor
begin

section \<open>The supervisor: one child, stops that hold, bounded restarts\<close>

text \<open>
  The invariant of every interleaving, the lemmas that each step keeps it, and the properties: a
  stopped worker stays stopped whatever goroutines are pending, a crash-looping worker is started
  only a bounded number of times, and an operation that has begun can always be completed. The
  operations run alone are runs of the interleaved semantics.
\<close>

subsection \<open>The invariant\<close>

text \<open>What the holder of \<^verbatim>\<open>opMu\<close> relies on at each point: \<open>run\<close> and \<open>des\<close> are the fields
  \<^verbatim>\<open>running\<close> and \<^verbatim>\<open>desired\<close>, \<open>n\<close> the number of the last child.\<close>

fun pc_ok :: "opc \<Rightarrow> bool \<Rightarrow> bool \<Rightarrow> nat \<Rightarrow> bool" where
  "pc_ok Free run des n = (run \<longrightarrow> des)"
| "pc_ok (SetDesired v) run des n = (run \<longrightarrow> des)"
| "pc_ok StillWanted run des n = (run \<longrightarrow> des)"
| "pc_ok (Snapshot r) run des n = (des = r)"
| "pc_ok (Mark r g) run des n = (des = r \<and> g = n \<and> 1 \<le> n)"
| "pc_ok (Await r g) run des n = (des = r \<and> g = n \<and> 1 \<le> n)"
| "pc_ok CheckRunning run des n = des"
| "pc_ok Launching run des n = (des \<and> \<not> run)"

text \<open>The children: \<open>n\<close> were launched, the last is alive or unreaped exactly while
  \<^verbatim>\<open>running\<close> is set, the \<^verbatim>\<open>done\<close> of all others is closed.\<close>

definition children_ok :: "bool \<Rightarrow> nat \<Rightarrow> nat list \<Rightarrow> nat list \<Rightarrow> nat list \<Rightarrow> bool" where
  "children_ok run n live dead dn \<longleftrightarrow>
     (if run then n \<ge> 1 \<and> (live = [n] \<and> dead = [] \<or> live = [] \<and> dead = [n]) \<and> set dn = {1..<n}
      else live = [] \<and> dead = [] \<and> set dn = {1..<Suc n})"

definition sup_inv :: "sup_world \<Rightarrow> bool" where
  "sup_inv w \<longleftrightarrow> (sv_opMu (w_sup w) \<longleftrightarrow> w_pc w \<noteq> Free)
   \<and> children_ok (sv_running (w_sup w)) (w_gen w) (w_live w) (w_dead w) (w_done w)
   \<and> pc_ok (w_pc w) (sv_running (w_sup w)) (sv_desired (w_sup w)) (w_gen w)"

lemma sup_inv_fresh [go_inv]: "sup_inv (world_of (sup_fresh name bin args delay window mx) now)"
  by (simp add: sup_inv_def children_ok_def world_of_def sup_fresh_def)

lemma children_launch: "children_ok False n live dead dn \<Longrightarrow> children_ok True (Suc n) (Suc n # live) dead dn"
  by (simp add: children_ok_def)

lemma children_exit: "children_ok run n live dead dn \<Longrightarrow> g \<in> set live \<Longrightarrow> children_ok run n (remove1 g live) (g # dead) dn"
  by (cases run) (auto simp: children_ok_def)

lemma children_reap: "children_ok run n live dead dn \<Longrightarrow> g \<in> set dead \<Longrightarrow> children_ok False n live (remove1 g dead) (g # dn)"
  by (cases "run \<and> live = [] \<and> dead = [n] \<and> g = n \<and> 1 \<le> n")
     (simp add: children_ok_def atLeastLessThanSuc, auto simp: children_ok_def simp del: atLeastLessThan_iff split: if_splits)

lemma children_awaited: "children_ok run n live dead dn \<Longrightarrow> n \<in> set dn \<Longrightarrow> \<not> run"
  by (simp add: children_ok_def split: if_splits)

lemma pc_reaped: "pc_ok pc run des n \<Longrightarrow> pc_ok pc False des n"
  by (cases pc) simp_all

lemmas sup_step_defs = op_release_def releaseOp_def supervise_reap_def count_crash_def

subsection \<open>Each step keeps it\<close>

text \<open>The launch, with its three failures and its success.\<close>

lemma supervise_launch_cases:
  obtains (fail) err where "supervise_launch l now s = (Inl err, s)"
  | (up) p where "l = Launched p" "sv_Bin s \<noteq> []"
      "supervise_launch l now s = (Inr (), s\<lparr>sv_cmd := Some p, sv_running := True, sv_startedAt := Some now\<rparr>)"
  by (cases l; cases "sv_Bin s = []") (auto simp: supervise_launch_def)

lemma op_step_launch:
  assumes pc: "w_pc w = Launching" and s: "op_step e w = Some w'"
  obtains (fail) as where "w' = w\<lparr>w_sup := (w_sup w)\<lparr>sv_Args := as, sv_opMu := False\<rparr>, w_pc := Free\<rparr>"
  | (up) as p where
      "w' = w\<lparr>w_sup := (w_sup w)\<lparr>sv_Args := as, sv_opMu := False, sv_cmd := Some p, sv_running := True, sv_startedAt := Some (w_now w)\<rparr>,
              w_pc := Free, w_gen := Suc (w_gen w), w_live := Suc (w_gen w) # w_live w\<rparr>"
proof -
  define s0 where "s0 = (case le_PreStart e of None \<Rightarrow> w_sup w | Some as \<Rightarrow> (w_sup w)\<lparr>sv_Args := as\<rparr>)"
  have s0: "s0 = (w_sup w)\<lparr>sv_Args := sv_Args s0\<rparr>" by (cases "le_PreStart e") (simp_all add: s0_def)
  have eq: "op_step e w = (case supervise_launch (le_launch e) (w_now w) s0 of
          (Inl _, s1) \<Rightarrow> Some (op_release (w\<lparr>w_sup := s1\<rparr>))
        | (Inr _, s1) \<Rightarrow> Some (op_release (w\<lparr>w_sup := s1, w_gen := Suc (w_gen w), w_live := Suc (w_gen w) # w_live w\<rparr>)))"
    by (simp add: op_step_def pc s0_def Let_def)
  show ?thesis
  proof (cases rule: supervise_launch_cases [of "le_launch e" "w_now w" s0])
    case (fail err)
    then have w': "w' = op_release (w\<lparr>w_sup := s0\<rparr>)" using s eq by simp
    show ?thesis by (rule that(1) [of "sv_Args s0"]) (subst w', subst s0, simp add: op_release_def releaseOp_def)
  next
    case (up p)
    then have w': "w' = op_release (w\<lparr>w_sup := s0\<lparr>sv_cmd := Some p, sv_running := True, sv_startedAt := Some (w_now w)\<rparr>,
        w_gen := Suc (w_gen w), w_live := Suc (w_gen w) # w_live w\<rparr>)" using s eq by simp
    show ?thesis by (rule that(2) [of p "sv_Args s0"]) (subst w', subst s0, simp add: op_release_def releaseOp_def)
  qed
qed

lemma sup_inv_launch:
  assumes i: "sup_inv w" and pc: "w_pc w = Launching" and s: "op_step e w = Some w'"
  shows "sup_inv w'"
  using pc s
proof (cases rule: op_step_launch)
  case (fail as)
  show ?thesis using i by (auto simp: fail sup_inv_def pc)
next
  case (up as p)
  show ?thesis using i by (auto simp: up sup_inv_def pc children_launch)
qed

text \<open>The other steps of an operation: what each does to the fields.\<close>

lemma op_step_simps:
  "w_pc w = Free \<Longrightarrow> op_step e w = None"
  "w_pc w = SetDesired v \<Longrightarrow> op_step e w = Some (w\<lparr>w_sup := (w_sup w)\<lparr>sv_desired := (v \<noteq> VStop)\<rparr>,
     w_pc := (case v of VStart \<Rightarrow> CheckRunning | VStop \<Rightarrow> Snapshot False | VRestart \<Rightarrow> Snapshot True)\<rparr>)"
  "w_pc w = Snapshot r \<Longrightarrow> op_step e w = Some (if sv_running (w_sup w) then w\<lparr>w_pc := Mark r (w_gen w)\<rparr>
       else if r then w\<lparr>w_pc := CheckRunning\<rparr> else op_release w)"
  "w_pc w = Mark r g \<Longrightarrow> op_step e w = Some (w\<lparr>w_sup := (w_sup w)\<lparr>sv_stopped := True\<rparr>, w_pc := Await r g\<rparr>)"
  "w_pc w = Await r g \<Longrightarrow> op_step e w = (if g \<notin> set (w_done w) then None
       else Some (if r then w\<lparr>w_pc := CheckRunning\<rparr> else op_release w))"
  "w_pc w = CheckRunning \<Longrightarrow> op_step e w = Some (if sv_running (w_sup w) then op_release w else w\<lparr>w_pc := Launching\<rparr>)"
  "w_pc w = StillWanted \<Longrightarrow> op_step e w = Some (if sv_desired (w_sup w) \<and> \<not> sv_running (w_sup w)
       then w\<lparr>w_pc := CheckRunning\<rparr> else op_release w)"
  by (simp_all add: op_step_def Let_def)

lemma sup_inv_op_step [go_inv]:
  assumes i: "sup_inv w" and s: "op_step e w = Some w'"
  shows "sup_inv w'"
proof (cases "w_pc w")
  case Free
  then show ?thesis using s by (simp add: op_step_simps)
next
  case (SetDesired v)
  then show ?thesis using i s by (cases v) (auto simp: op_step_simps sup_inv_def)
next
  case (Snapshot r)
  then show ?thesis using i s
    by (cases "sv_running (w_sup w)"; cases r)
       (auto simp: op_step_simps sup_inv_def op_release_def releaseOp_def children_ok_def)
next
  case (Mark r g)
  then show ?thesis using i s by (auto simp: op_step_simps sup_inv_def)
next
  case (Await r g)
  then have g: "g \<in> set (w_done w)" "g = w_gen w" using i s by (auto simp: op_step_simps sup_inv_def split: if_splits)
  then have "\<not> sv_running (w_sup w)" using i children_awaited [of _ "w_gen w"] unfolding sup_inv_def by blast
  then show ?thesis using i s Await g
    by (cases r) (auto simp: op_step_simps sup_inv_def op_release_def releaseOp_def)
next
  case CheckRunning
  then show ?thesis using i s
    by (cases "sv_running (w_sup w)") (auto simp: op_step_simps sup_inv_def op_release_def releaseOp_def)
next
  case Launching
  show ?thesis by (rule sup_inv_launch [OF i Launching s])
next
  case StillWanted
  then show ?thesis using i s
    by (cases "sv_desired (w_sup w) \<and> \<not> sv_running (w_sup w)")
       (auto simp: op_step_simps sup_inv_def op_release_def releaseOp_def)
qed

text \<open>The other processes: what each of their steps leaves.\<close>

lemma count_crash_fields:
  "count_crash now s = (n, s') \<Longrightarrow> s' = s\<lparr>sv_crashStreak := n, sv_crashAt := Some now\<rparr>"
  by (auto simp: count_crash_def Let_def)

lemma step_Count:
  assumes "sup_step (Count k) w = Some w'"
  obtains (sleep) n where "k < length (w_autos w)" "w_autos w ! k = Counting" "n = fst (count_crash (w_now w) (w_sup w))"
      "n \<le> crash_max (w_sup w)"
      "w' = w\<lparr>w_sup := (w_sup w)\<lparr>sv_crashStreak := n, sv_crashAt := Some (w_now w)\<rparr>,
              w_autos := (w_autos w)[k := Sleeping (w_now w + crash_delay (w_sup w))]\<rparr>"
  | (giveup) n where "k < length (w_autos w)" "w_autos w ! k = Counting" "n = fst (count_crash (w_now w) (w_sup w))"
      "n > crash_max (w_sup w)"
      "w' = w\<lparr>w_sup := (w_sup w)\<lparr>sv_crashStreak := n, sv_crashAt := Some (w_now w)\<rparr>,
              w_autos := drop_nth k (w_autos w), w_gaveup := Suc (w_gaveup w)\<rparr>"
proof -
  obtain n s2 where c: "count_crash (w_now w) (w_sup w) = (n, s2)" by (cases "count_crash (w_now w) (w_sup w)")
  note s2 = count_crash_fields [OF c]
  have m: "crash_max s2 = crash_max (w_sup w)" "crash_delay s2 = crash_delay (w_sup w)"
    by (simp_all add: s2 crash_max_def crash_delay_def)
  have k: "k < length (w_autos w)" "w_autos w ! k = Counting"
    using assms by (auto split: if_splits)
  show ?thesis
  proof (cases "n > crash_max (w_sup w)")
    case True
    then show ?thesis using giveup [of n] k c m assms by (simp add: s2)
  next
    case False
    then show ?thesis using sleep [of n] k c m assms by (simp add: s2)
  qed
qed

lemma step_Wake:
  assumes "sup_step (Wake k) w = Some w'"
  obtains t where "k < length (w_autos w)" "w_autos w ! k = Sleeping t" "t \<le> w_now w" "\<not> sv_opMu (w_sup w)"
    "w' = w\<lparr>w_sup := (w_sup w)\<lparr>sv_opMu := True\<rparr>, w_autos := drop_nth k (w_autos w), w_pc := StillWanted\<rparr>"
proof (cases "w_autos w ! k")
  case Counting
  then show ?thesis using assms by (simp split: if_splits)
next
  case (Sleeping t)
  then show ?thesis using assms by (intro that [of t]) (auto split: if_splits)
qed

lemma step_Reap:
  assumes "sup_step (Reap g) w = Some w'"
  obtains "g \<in> set (w_dead w)"
    "w' = w\<lparr>w_sup := snd (supervise_reap (w_sup w)), w_dead := remove1 g (w_dead w), w_done := g # w_done w,
           w_autos := w_autos w @ (if \<not> sv_stopped (w_sup w) \<and> sv_desired (w_sup w) then [Counting] else [])\<rparr>"
  using assms by (cases "g \<in> set (w_dead w)") (auto simp: supervise_reap_def)

lemma sup_inv_step [go_inv]:
  assumes i: "sup_inv w" and s: "sup_step l w = Some w'"
  shows "sup_inv w'"
proof (cases l)
  case (Request v)
  show ?thesis
  proof (cases "sv_opMu (w_sup w)")
    case True
    then show ?thesis using i s Request by (simp add: acquireOp_def)
  next
    case False
    then have "w_pc w = Free" "w' = w\<lparr>w_sup := (w_sup w)\<lparr>sv_opMu := True\<rparr>, w_pc := SetDesired v\<rparr>"
      using i s Request by (auto simp: acquireOp_def sup_inv_def)
    then show ?thesis using i by (simp add: sup_inv_def)
  qed
next
  case (OpStep e)
  then show ?thesis using i s by (auto intro: sup_inv_op_step)
next
  case (Exit g)
  then have "g \<in> set (w_live w)" "w' = w\<lparr>w_live := remove1 g (w_live w), w_dead := g # w_dead w\<rparr>"
    using s by (auto split: if_splits)
  then show ?thesis using i by (simp add: sup_inv_def children_exit)
next
  case (Reap g)
  with s have "sup_step (Reap g) w = Some w'" by simp
  then show ?thesis
    by (rule step_Reap) (use i pc_reaped in \<open>auto simp: sup_inv_def supervise_reap_def children_reap\<close>)
next
  case (Count k)
  with s have "sup_step (Count k) w = Some w'" by simp
  then show ?thesis
    by (cases rule: step_Count) (use i in \<open>auto simp: sup_inv_def\<close>)
next
  case (Wake k)
  with s have "sup_step (Wake k) w = Some w'" by simp
  then show ?thesis by (rule step_Wake) (use i in \<open>auto simp: sup_inv_def\<close>)
next
  case (Tick d)
  then have "w' = w\<lparr>w_now := w_now w + d\<rparr>" using s by (auto split: if_splits)
  then show ?thesis using i by (simp add: sup_inv_def)
qed

lemma sup_reachable_inv: "sup_reachable w \<Longrightarrow> sup_inv w"
  by (induction rule: sup_reachable.induct) (blast intro: go_inv)+

lemma sup_run_inv: "sup_run ls w = Some w' \<Longrightarrow> sup_inv w \<Longrightarrow> sup_inv w'"
  by (induction ls arbitrary: w) (auto split: option.splits intro: sup_inv_step)

lemma single_child:
  "sup_reachable w \<Longrightarrow> length (w_live w @ w_dead w) \<le> 1 \<and> (w_live w @ w_dead w \<noteq> [] \<longleftrightarrow> Running (w_sup w))"
  using sup_reachable_inv [of w] by (auto simp: sup_inv_def children_ok_def Running_def split: if_splits)

subsection \<open>A stopped worker\<close>

text \<open>Nothing runs, nothing is wanted, and whoever holds \<^verbatim>\<open>opMu\<close> is not on the way to a launch.\<close>

definition sup_quiet :: "sup_world \<Rightarrow> bool" where
  "sup_quiet w \<longleftrightarrow> \<not> sv_desired (w_sup w) \<and> \<not> sv_running (w_sup w) \<and> w_live w = [] \<and> w_dead w = []
     \<and> (w_pc w \<noteq> Free \<longleftrightarrow> sv_opMu (w_sup w))
     \<and> w_pc w \<in> {Free, StillWanted, SetDesired VStop, Snapshot False}"

lemma sup_quiet_step:
  assumes q: "sup_quiet w" and s: "sup_step l w = Some w'" and l: "l \<noteq> Request VStart" "l \<noteq> Request VRestart"
  shows "sup_quiet w' \<and> w_gen w' = w_gen w"
proof (cases l)
  case (Request v)
  then have v: "v = VStop" using l by (cases v) simp_all
  show ?thesis using q s by (cases "sv_opMu (w_sup w)") (auto simp: Request v acquireOp_def sup_quiet_def)
next
  case (OpStep e)
  then show ?thesis using q s by (auto simp: sup_quiet_def op_step_simps op_release_def releaseOp_def)
next
  case (Exit g)
  then show ?thesis using q s by (simp add: sup_quiet_def)
next
  case (Reap g)
  then show ?thesis using q s by (simp add: sup_quiet_def)
next
  case (Count k)
  with s have "sup_step (Count k) w = Some w'" by simp
  then show ?thesis by (cases rule: step_Count) (use q in \<open>auto simp: sup_quiet_def\<close>)
next
  case (Wake k)
  with s have "sup_step (Wake k) w = Some w'" by simp
  then show ?thesis by (rule step_Wake) (use q in \<open>auto simp: sup_quiet_def\<close>)
next
  case (Tick d)
  then have "w' = w\<lparr>w_now := w_now w + d\<rparr>" using s by (auto split: if_splits)
  then show ?thesis using q by (simp add: sup_quiet_def)
qed

lemma sup_quiet_run:
  "sup_quiet w \<Longrightarrow> sup_run ls w = Some w' \<Longrightarrow> Request VStart \<notin> set ls \<Longrightarrow> Request VRestart \<notin> set ls \<Longrightarrow>
   sup_quiet w' \<and> w_gen w' = w_gen w"
proof (induction ls arbitrary: w)
  case (Cons l ls)
  then obtain w1 where w1: "sup_step l w = Some w1" "sup_run ls w1 = Some w'" by (auto split: option.splits)
  then have "sup_quiet w1 \<and> w_gen w1 = w_gen w" using Cons.prems by (intro sup_quiet_step) auto
  then show ?case using Cons.IH [OF _ w1(2)] Cons.prems by simp
qed simp

lemma stopped_quiet: "sup_inv w \<Longrightarrow> w_pc w = Free \<Longrightarrow> \<not> sv_desired (w_sup w) \<Longrightarrow> sup_quiet w"
  by (auto simp: sup_inv_def sup_quiet_def children_ok_def)

subsection \<open>Crash loops\<close>

text \<open>The tuning of the supervisor, which no step changes.\<close>

lemma crash_cfg [simp]:
  "crash_max (s\<lparr>sv_crashStreak := n\<rparr>) = crash_max s" "crash_window (s\<lparr>sv_crashStreak := n\<rparr>) = crash_window s"
  "crash_max (s\<lparr>sv_crashAt := t\<rparr>) = crash_max s" "crash_window (s\<lparr>sv_crashAt := t\<rparr>) = crash_window s"
  "crash_max (s\<lparr>sv_opMu := b\<rparr>) = crash_max s" "crash_window (s\<lparr>sv_opMu := b\<rparr>) = crash_window s"
  "crash_max (s\<lparr>sv_desired := b\<rparr>) = crash_max s" "crash_window (s\<lparr>sv_desired := b\<rparr>) = crash_window s"
  "crash_max (s\<lparr>sv_stopped := b\<rparr>) = crash_max s" "crash_window (s\<lparr>sv_stopped := b\<rparr>) = crash_window s"
  "crash_max (s\<lparr>sv_running := b\<rparr>) = crash_max s" "crash_window (s\<lparr>sv_running := b\<rparr>) = crash_window s"
  "crash_max (s\<lparr>sv_Args := as\<rparr>) = crash_max s" "crash_window (s\<lparr>sv_Args := as\<rparr>) = crash_window s"
  "crash_max (s\<lparr>sv_cmd := c\<rparr>) = crash_max s" "crash_window (s\<lparr>sv_cmd := c\<rparr>) = crash_window s"
  "crash_max (s\<lparr>sv_startedAt := t\<rparr>) = crash_max s" "crash_window (s\<lparr>sv_startedAt := t\<rparr>) = crash_window s"
  "crash_max (snd (supervise_reap s)) = crash_max s" "crash_window (snd (supervise_reap s)) = crash_window s"
  by (simp_all add: crash_max_def crash_window_def supervise_reap_def)

definition sleepers :: "sup_world \<Rightarrow> nat" where
  "sleepers w = length (filter (\<lambda>a. a \<noteq> Counting) (w_autos w)) + (if w_pc w = Free then 0 else 1)"

lemma filter_drop_nth:
  "k < length xs \<Longrightarrow> length (filter P xs) = length (filter P (drop_nth k xs)) + (if P (xs ! k) then 1 else 0)"
  by (subst id_take_nth_drop [of k xs]) (simp_all add: drop_nth_def)

lemma filter_update:
  "k < length xs \<Longrightarrow> length (filter P (xs[k := y])) + (if P (xs ! k) then 1 else 0) = length (filter P xs) + (if P y then 1 else 0)"
  using arg_cong [OF id_take_nth_drop [of k xs], of "\<lambda>ys. length (filter P ys)"]
  by (simp add: upd_conv_take_nth_drop)

text \<open>Since \<open>w0\<close>, \<open>c\<close> crashes were counted and answered with a restart.\<close>

definition crash_acct :: "sup_world \<Rightarrow> nat \<Rightarrow> sup_world \<Rightarrow> bool" where
  "crash_acct w0 c w \<longleftrightarrow>
     w_gen w + sleepers w \<le> w_gen w0 + sleepers w0 + c \<and> int c \<le> max 0 (crash_max (w_sup w0))
   \<and> crash_max (w_sup w) = crash_max (w_sup w0) \<and> crash_window (w_sup w) = crash_window (w_sup w0)
   \<and> w_now w0 \<le> w_now w
   \<and> (c = 0 \<or> int c \<le> sv_crashStreak (w_sup w) \<and> (\<exists>t. sv_crashAt (w_sup w) = Some t \<and> w_now w0 \<le> t))
   \<and> 0 \<le> sv_crashStreak (w_sup w)"

lemma count_crash_fst:
  "fst (count_crash now s) = (if (case sv_crashAt s of None \<Rightarrow> True | Some t \<Rightarrow> now - t > crash_window s) then 0 else sv_crashStreak s) + 1"
  by (simp add: count_crash_def Let_def)

lemma crash_acct_Count:
  assumes a: "crash_acct w0 c w" and s: "sup_step (Count k) w = Some w'" and t: "w_now w' \<le> w_now w0 + crash_window (w_sup w0)"
  shows "\<exists>c'. crash_acct w0 c' w'"
  using s
proof (cases rule: step_Count)
  case (sleep n)
  have n: "int c + 1 \<le> n"
  proof (cases "c = 0")
    case True
    then show ?thesis using a sleep(3) by (simp add: crash_acct_def count_crash_fst)
  next
    case False
    then obtain t0 where "sv_crashAt (w_sup w) = Some t0" "w_now w0 \<le> t0" "int c \<le> sv_crashStreak (w_sup w)"
      using a by (auto simp: crash_acct_def)
    then show ?thesis using a sleep(3,5) t by (simp add: crash_acct_def count_crash_fst)
  qed
  have "sleepers w' = Suc (sleepers w)"
    using filter_update [OF sleep(1), of "\<lambda>a. a \<noteq> Counting" "Sleeping (w_now w + crash_delay (w_sup w))"] sleep(2)
    by (simp add: sleepers_def sleep(5))
  then have "crash_acct w0 (Suc c) w'"
    using a sleep(4,5) n by (simp add: crash_acct_def)
  then show ?thesis by blast
next
  case (giveup n)
  have n: "int c \<le> n" "0 \<le> n" using a giveup(3,4) by (auto simp: crash_acct_def count_crash_fst split: if_splits)
  have "sleepers w' = sleepers w"
    using filter_drop_nth [OF giveup(1), of "\<lambda>a. a \<noteq> Counting"] giveup(2) by (simp add: sleepers_def giveup(5))
  then have "crash_acct w0 c w'"
    using a giveup(5) n by (simp add: crash_acct_def)
  then show ?thesis by blast
qed

lemma op_step_frame:
  assumes s: "op_step e w = Some w'" and l: "w_pc w \<noteq> Launching"
  shows "w_pc w \<noteq> Free" "w_gen w' = w_gen w" "w_now w' = w_now w" "w_autos w' = w_autos w"
    "crash_max (w_sup w') = crash_max (w_sup w)" "crash_window (w_sup w') = crash_window (w_sup w)"
    "sv_crashStreak (w_sup w') = sv_crashStreak (w_sup w)" "sv_crashAt (w_sup w') = sv_crashAt (w_sup w)"
proof -
  have "w_pc w \<noteq> Free \<and> w_gen w' = w_gen w \<and> w_now w' = w_now w \<and> w_autos w' = w_autos w
    \<and> crash_max (w_sup w') = crash_max (w_sup w) \<and> crash_window (w_sup w') = crash_window (w_sup w)
    \<and> sv_crashStreak (w_sup w') = sv_crashStreak (w_sup w) \<and> sv_crashAt (w_sup w') = sv_crashAt (w_sup w)"
    using s l
    by (cases "w_pc w") (simp_all add: op_step_simps op_release_def releaseOp_def split: if_splits, (hypsubst, simp)+)
  then show "w_pc w \<noteq> Free" "w_gen w' = w_gen w" "w_now w' = w_now w" "w_autos w' = w_autos w"
    "crash_max (w_sup w') = crash_max (w_sup w)" "crash_window (w_sup w') = crash_window (w_sup w)"
    "sv_crashStreak (w_sup w') = sv_crashStreak (w_sup w)" "sv_crashAt (w_sup w') = sv_crashAt (w_sup w)" by simp_all
qed

lemma crash_acct_OpStep:
  assumes a: "crash_acct w0 c w" and s: "op_step e w = Some w'"
  shows "crash_acct w0 c w'"
proof (cases "w_pc w = Launching")
  case True
  from True s show ?thesis
    by (cases rule: op_step_launch) (use a True in \<open>simp_all add: crash_acct_def sleepers_def\<close>)
next
  case False
  note f = op_step_frame [OF s False]
  then show ?thesis using a by (simp add: crash_acct_def sleepers_def)
qed

lemma crash_acct_step:
  assumes a: "crash_acct w0 c w" and s: "sup_step l w = Some w'" and l: "\<forall>v. l \<noteq> Request v"
    and t: "w_now w' \<le> w_now w0 + crash_window (w_sup w0)"
  shows "\<exists>c'. crash_acct w0 c' w'"
proof (cases l)
  case (Request v)
  then show ?thesis using l by simp
next
  case (OpStep e)
  then have "crash_acct w0 c w'" using crash_acct_OpStep [OF a] s by simp
  then show ?thesis by blast
next
  case (Exit g)
  then have "w' = w\<lparr>w_live := remove1 g (w_live w), w_dead := g # w_dead w\<rparr>" using s by (auto split: if_splits)
  then have "crash_acct w0 c w'" using a by (simp add: crash_acct_def sleepers_def)
  then show ?thesis by blast
next
  case (Reap g)
  with s have "sup_step (Reap g) w = Some w'" by simp
  then have "crash_acct w0 c w'"
    by (rule step_Reap) (use a in \<open>simp add: crash_acct_def sleepers_def, simp add: supervise_reap_def\<close>)
  then show ?thesis by blast
next
  case (Count k)
  then show ?thesis using crash_acct_Count [OF a _ t] s by simp
next
  case (Wake k)
  with s have "sup_step (Wake k) w = Some w'" by simp
  then have "crash_acct w0 c w'"
  proof (rule step_Wake)
    fix t' assume k: "k < length (w_autos w)" "w_autos w ! k = Sleeping t'"
      and w': "w' = w\<lparr>w_sup := (w_sup w)\<lparr>sv_opMu := True\<rparr>, w_autos := drop_nth k (w_autos w), w_pc := StillWanted\<rparr>"
    then have "sleepers w' \<le> sleepers w" using filter_drop_nth [OF k(1), of "\<lambda>a. a \<noteq> Counting"]
      by (simp add: sleepers_def)
    then show ?thesis using a w' by (simp add: crash_acct_def)
  qed
  then show ?thesis by blast
next
  case (Tick d)
  then have "w' = w\<lparr>w_now := w_now w + d\<rparr>" "0 \<le> d" using s by (auto split: if_splits)
  then have "crash_acct w0 c w'" using a by (simp add: crash_acct_def sleepers_def)
  then show ?thesis by blast
qed

text \<open>Time never goes back, so a run that ends inside the window stays inside it.\<close>

lemma op_step_now: "op_step e w = Some w' \<Longrightarrow> w_now w' = w_now w"
proof (cases "w_pc w = Launching")
  case True
  assume "op_step e w = Some w'"
  with True show ?thesis by (cases rule: op_step_launch) simp_all
next
  case False
  assume "op_step e w = Some w'"
  then show ?thesis using op_step_frame(3) False by blast
qed

lemma sup_step_now: "sup_step l w = Some w' \<Longrightarrow> w_now w \<le> w_now w'"
proof (cases l)
  case (Count k)
  assume "sup_step l w = Some w'"
  with Count have "sup_step (Count k) w = Some w'" by simp
  then show ?thesis by (cases rule: step_Count) simp_all
qed (auto simp: supervise_reap_def acquireOp_def dest: op_step_now split: if_splits auto.splits)

lemma sup_run_now: "sup_run ls w = Some w' \<Longrightarrow> w_now w \<le> w_now w'"
  by (induction ls arbitrary: w) (auto split: option.splits dest: sup_step_now intro: order_trans)

lemma crash_acct_run:
  "sup_run ls w = Some w' \<Longrightarrow> crash_acct w0 c w \<Longrightarrow> \<forall>v. Request v \<notin> set ls \<Longrightarrow>
   w_now w' \<le> w_now w0 + crash_window (w_sup w0) \<Longrightarrow> \<exists>c'. crash_acct w0 c' w'"
proof (induction ls arbitrary: w c)
  case (Cons l ls)
  then obtain w1 where w1: "sup_step l w = Some w1" "sup_run ls w1 = Some w'" by (auto split: option.splits)
  have "w_now w1 \<le> w_now w0 + crash_window (w_sup w0)" using sup_run_now [OF w1(2)] Cons.prems(4) by simp
  then obtain c1 where "crash_acct w0 c1 w1"
    using crash_acct_step [OF Cons.prems(2) w1(1)] Cons.prems(3) by auto
  then show ?case using Cons.IH [OF w1(2)] Cons.prems(3,4) by auto
qed auto

lemma crash_acct_start: "0 \<le> sv_crashStreak (w_sup w) \<Longrightarrow> crash_acct w 0 w"
  by (simp add: crash_acct_def)

text \<open>The streak is never negative.\<close>

lemma streak_nonneg_step:
  assumes p: "0 \<le> sv_crashStreak (w_sup w)" and s: "sup_step l w = Some w'"
  shows "0 \<le> sv_crashStreak (w_sup w')"
proof (cases l)
  case (OpStep e)
  with s have e: "op_step e w = Some w'" by simp
  show ?thesis
  proof (cases "w_pc w = Launching")
    case True
    from True e show ?thesis by (cases rule: op_step_launch) (simp_all add: p)
  next
    case False
    then show ?thesis using op_step_frame(7) [OF e] p by simp
  qed
next
  case (Count k)
  with s have "sup_step (Count k) w = Some w'" by simp
  then show ?thesis by (cases rule: step_Count) (use p in \<open>simp_all add: count_crash_fst\<close>)
qed (use p s in \<open>auto simp: supervise_reap_def acquireOp_def split: if_splits auto.splits\<close>)

lemma streak_nonneg: "sup_reachable w \<Longrightarrow> 0 \<le> sv_crashStreak (w_sup w)"
  by (induction rule: sup_reachable.induct) (simp add: world_of_def sup_fresh_def, rule streak_nonneg_step)

subsection \<open>An operation completes\<close>

text \<open>\<open>completes n w\<close>: within \<open>n\<close> steps of the operation itself, of the child it waits for and
  of that child's reaper, \<^verbatim>\<open>opMu\<close> is free again.\<close>

definition own_label :: "launch_env \<Rightarrow> nat \<Rightarrow> sup_label \<Rightarrow> bool" where
  "own_label e g l \<longleftrightarrow> l = OpStep e \<or> l = Exit g \<or> l = Reap g"

definition completes :: "launch_env \<Rightarrow> nat \<Rightarrow> sup_world \<Rightarrow> bool" where
  "completes e n w \<longleftrightarrow> (\<exists>ls w'. length ls \<le> n \<and> list_all (own_label e (w_gen w)) ls \<and> sup_run ls w = Some w' \<and> w_pc w' = Free)"

lemma completes_free: "w_pc w = Free \<Longrightarrow> completes e n w"
  unfolding completes_def by (intro exI [of _ "[]"]) simp

lemma completes_step:
  "sup_step l w = Some w1 \<Longrightarrow> own_label e (w_gen w) l \<Longrightarrow> w_gen w1 = w_gen w \<Longrightarrow> completes e n w1 \<Longrightarrow> completes e (Suc n) w"
  unfolding completes_def by (elim exE conjE, rule_tac x = "l # ls" in exI) auto

lemma completes_last:
  "op_step e w = Some w1 \<Longrightarrow> w_pc w1 = Free \<Longrightarrow> completes e (Suc n) w"
  unfolding completes_def by (rule exI [of _ "[OpStep e]"]) (auto simp: own_label_def)

lemma completes_op:
  "op_step e w = Some w1 \<Longrightarrow> w_gen w1 = w_gen w \<Longrightarrow> completes e n w1 \<Longrightarrow> completes e (Suc n) w"
  by (rule completes_step [of "OpStep e"]) (auto simp: own_label_def)

lemma completes_mono: "completes e m w \<Longrightarrow> m \<le> n \<Longrightarrow> completes e n w"
  unfolding completes_def by (meson order_trans)

lemma op_step_Launching_ex: "w_pc w = Launching \<Longrightarrow> \<exists>w'. op_step e w = Some w' \<and> w_pc w' = Free"
  by (cases rule: supervise_launch_cases [of "le_launch e" "w_now w" "case le_PreStart e of None \<Rightarrow> w_sup w | Some as \<Rightarrow> (w_sup w)\<lparr>sv_Args := as\<rparr>"])
     (simp_all add: op_step_def Let_def op_release_def)

lemma completes_Launching: "w_pc w = Launching \<Longrightarrow> completes e 1 w"
  using op_step_Launching_ex [of w e] completes_last [of e w _ 0] by auto

lemma completes_CheckRunning: "w_pc w = CheckRunning \<Longrightarrow> completes e 2 w"
proof (cases "sv_running (w_sup w)")
  case True
  assume "w_pc w = CheckRunning"
  with True show ?thesis using completes_last [of e w "op_release w" 1] by (simp add: op_step_simps op_release_def numeral_2_eq_2)
next
  case False
  assume "w_pc w = CheckRunning"
  with False show ?thesis
    using completes_op [of e w "w\<lparr>w_pc := Launching\<rparr>" 1] completes_Launching [of "w\<lparr>w_pc := Launching\<rparr>" e]
    by (simp add: op_step_simps numeral_2_eq_2)
qed

lemma completes_done:
  assumes "w_pc w = Await r g" "g \<in> set (w_done w)"
  shows "completes e 3 w"
proof (cases r)
  case True
  then show ?thesis using assms completes_op [of e w "w\<lparr>w_pc := CheckRunning\<rparr>" 2] completes_CheckRunning [of "w\<lparr>w_pc := CheckRunning\<rparr>" e]
    by (simp add: op_step_simps numeral_3_eq_3 numeral_2_eq_2)
next
  case False
  then show ?thesis using assms completes_last [of e w "op_release w" 2]
    by (simp add: op_step_simps op_release_def numeral_3_eq_3 numeral_2_eq_2)
qed

lemma completes_reaped:
  assumes pc: "w_pc w = Await r (w_gen w)" and d: "w_dead w = [w_gen w]"
  shows "completes e 4 w"
proof -
  obtain as where w1: "sup_step (Reap (w_gen w)) w = Some (w\<lparr>w_sup := snd (supervise_reap (w_sup w)), w_dead := [],
      w_done := w_gen w # w_done w, w_autos := as\<rparr>)" using d by (simp add: supervise_reap_def)
  have "completes e 3 (w\<lparr>w_sup := snd (supervise_reap (w_sup w)), w_dead := [], w_done := w_gen w # w_done w, w_autos := as\<rparr>)"
    by (rule completes_done [of _ r "w_gen w"]) (use pc in simp_all)
  then show ?thesis using completes_step [OF w1, of e 3] by (simp add: own_label_def)
qed

lemma completes_Await:
  assumes i: "sup_inv w" and pc: "w_pc w = Await r g"
  shows "completes e 5 w"
proof -
  have g: "g = w_gen w" "1 \<le> w_gen w" using i pc by (simp_all add: sup_inv_def)
  consider "w_gen w \<in> set (w_done w)" | "w_dead w = [w_gen w]" | "w_live w = [w_gen w]" "w_dead w = []"
    using i g by (auto simp: sup_inv_def children_ok_def split: if_splits)
  then show ?thesis
  proof cases
    case 1
    then show ?thesis using completes_done [OF pc, of e] g completes_mono by simp
  next
    case 2
    then show ?thesis using completes_reaped [of w r e] pc g completes_mono by simp
  next
    case 3
    let ?w = "w\<lparr>w_live := [], w_dead := [w_gen w]\<rparr>"
    have "sup_step (Exit (w_gen w)) w = Some ?w" using 3 by simp
    moreover have "completes e 4 ?w" by (rule completes_reaped [of _ r]) (use pc g in simp_all)
    ultimately show ?thesis using completes_step [of "Exit (w_gen w)" w ?w e 4] by (simp add: own_label_def)
  qed
qed

lemma completes_Snapshot:
  assumes i: "sup_inv w" and pc: "w_pc w = Snapshot r"
  shows "completes e 7 w"
proof -
  obtain w1 where w1: "op_step e w = Some w1" using pc by (simp add: op_step_simps)
  have i1: "sup_inv w1" by (rule sup_inv_op_step [OF i w1])
  consider "w_pc w1 = Free" | "w_pc w1 = CheckRunning" "w_gen w1 = w_gen w" | g where "w_pc w1 = Mark r g" "w_gen w1 = w_gen w"
    using w1 pc by (auto simp: op_step_simps op_release_def split: if_splits)
  then have "completes e 6 w1 \<and> w_gen w1 = w_gen w"
  proof cases
    case 1
    then show ?thesis using w1 pc completes_free [of w1 e 6] by (auto simp: op_step_simps op_release_def split: if_splits)
  next
    case 2
    then show ?thesis using completes_mono [OF completes_CheckRunning [OF 2(1), of e], of 6] by simp
  next
    case (3 g)
    then obtain w2 where w2: "op_step e w1 = Some w2" "w_pc w2 = Await r g" "w_gen w2 = w_gen w1" by (simp add: op_step_simps)
    show ?thesis using completes_op [OF w2(1,3), of 5] completes_Await [OF sup_inv_op_step [OF i1 w2(1)] w2(2), of e] 3 by simp
  qed
  then show ?thesis using completes_op [OF w1, of 6] by simp
qed

lemma completes_SetDesired:
  assumes i: "sup_inv w" and pc: "w_pc w = SetDesired v"
  shows "completes e 8 w"
proof -
  obtain w1 where w1: "op_step e w = Some w1" "w_gen w1 = w_gen w" using pc by (simp add: op_step_simps)
  have i1: "sup_inv w1" by (rule sup_inv_op_step [OF i w1(1)])
  have "w_pc w1 = CheckRunning \<or> (\<exists>r. w_pc w1 = Snapshot r)"
    using w1 pc by (cases v) (auto simp: op_step_simps)
  then have "completes e 7 w1"
    using completes_Snapshot [OF i1] completes_mono [OF completes_CheckRunning, of w1 7 e] by auto
  then show ?thesis using completes_op [OF w1, of 7] by simp
qed

lemma completes_any:
  assumes i: "sup_inv w"
  shows "completes e 8 w"
proof (cases "w_pc w")
  case Free
  then show ?thesis by (rule completes_free)
next
  case (SetDesired v)
  then show ?thesis by (rule completes_SetDesired [OF i])
next
  case (Snapshot r)
  then show ?thesis using completes_mono [OF completes_Snapshot [OF i Snapshot], of 8] by simp
next
  case (Mark r g)
  obtain w2 where w2: "op_step e w = Some w2" "w_pc w2 = Await r g" "w_gen w2 = w_gen w" using Mark by (simp add: op_step_simps)
  show ?thesis using completes_op [OF w2(1,3), of 7] completes_mono [OF completes_Await [OF sup_inv_op_step [OF i w2(1)] w2(2)], of 7] by simp
next
  case (Await r g)
  then show ?thesis using completes_mono [OF completes_Await [OF i Await], of 8] by simp
next
  case CheckRunning
  then show ?thesis using completes_mono [OF completes_CheckRunning [OF CheckRunning], of 8] by simp
next
  case Launching
  then show ?thesis using completes_mono [OF completes_Launching [OF Launching], of 8] by simp
next
  case StillWanted
  show ?thesis
  proof (cases "sv_desired (w_sup w) \<and> \<not> sv_running (w_sup w)")
    case True
    then show ?thesis using StillWanted completes_op [of e w "w\<lparr>w_pc := CheckRunning\<rparr>" 7]
        completes_mono [OF completes_CheckRunning [of "w\<lparr>w_pc := CheckRunning\<rparr>" e], of 7] by (simp add: op_step_simps)
  next
    case False
    then have "op_step e w = Some (op_release w)" using StillWanted by (auto simp: op_step_simps)
    then show ?thesis using completes_last [of e w "op_release w" 7] by (simp add: op_release_def)
  qed
qed

subsection \<open>The operations run alone are runs of the interleaving\<close>

lemma sup_run_Cons: "sup_step l w = Some w1 \<Longrightarrow> sup_run ls w1 = Some w' \<Longrightarrow> sup_run (l # ls) w = Some w'"
  by simp

text \<open>\<open>runs_to w w'\<close>: some sequence of steps leads from one to the other.\<close>

definition runs_to :: "sup_world \<Rightarrow> sup_world \<Rightarrow> bool" where
  "runs_to w w' \<longleftrightarrow> (\<exists>ls. sup_run ls w = Some w')"

lemma runs_to_step: "sup_step l w = Some w1 \<Longrightarrow> runs_to w1 w' \<Longrightarrow> runs_to w w'"
  unfolding runs_to_def by (elim exE, rule_tac x = "l # ls" in exI) simp

lemma runs_to_refl: "runs_to w w"
  unfolding runs_to_def by (rule exI [of _ "[]"]) simp

lemma start_runs:
  assumes pc: "w_pc w = CheckRunning" and e: "le_now e = w_now w"
  shows "\<exists>w'. runs_to w w' \<and> w_pc w' = Free \<and> w_sup w' = releaseOp (snd (sup_start e (w_sup w)))"
proof (cases "sv_running (w_sup w)")
  case True
  then have "sup_step (OpStep e) w = Some (op_release w)" using pc by (simp add: op_step_simps)
  then have "runs_to w (op_release w)" using runs_to_step runs_to_refl by blast
  then show ?thesis using True by (intro exI [of _ "op_release w"]) (simp add: op_release_def sup_start_def Running_def)
next
  case False
  define s0 where "s0 = (case le_PreStart e of None \<Rightarrow> w_sup w | Some as \<Rightarrow> (w_sup w)\<lparr>sv_Args := as\<rparr>)"
  let ?w = "w\<lparr>w_pc := Launching\<rparr>"
  have one: "sup_step (OpStep e) w = Some ?w" using pc False by (simp add: op_step_simps)
  obtain w' where w': "op_step e ?w = Some w'" "w_pc w' = Free" "w_sup w' = releaseOp (snd (supervise_launch (le_launch e) (w_now w) s0))"
    by (cases rule: supervise_launch_cases [of "le_launch e" "w_now w" s0])
       (simp_all add: op_step_def Let_def s0_def [symmetric] op_release_def)
  have "runs_to w w'" using runs_to_step [OF one runs_to_step [of "OpStep e" ?w w' w', OF _ runs_to_refl]] w'(1) by simp
  moreover have "snd (sup_start e (w_sup w)) = snd (supervise_launch (le_launch e) (w_now w) s0)"
    using False e by (simp add: sup_start_def Running_def s0_def)
  ultimately show ?thesis using w'(2,3) by auto
qed

text \<open>The child exits on the signal and is reaped: what \<^verbatim>\<open>stop\<close> waits for.\<close>

lemma stop_runs:
  assumes i: "sup_inv w" and pc: "w_pc w = Snapshot r" and live: "w_dead w = []"
  shows "\<exists>w'. runs_to w w' \<and> (if r then w_pc w' = CheckRunning \<and> w_sup w' = sup_stop (w_sup w)
           else w_pc w' = Free \<and> w_sup w' = releaseOp (sup_stop (w_sup w))) \<and> w_now w' = w_now w"
proof (cases "sv_running (w_sup w)")
  case False
  then have "sup_step (OpStep e) w = Some (if r then w\<lparr>w_pc := CheckRunning\<rparr> else op_release w)" for e
    using pc by (simp add: op_step_simps)
  then have "runs_to w (if r then w\<lparr>w_pc := CheckRunning\<rparr> else op_release w)" using runs_to_step runs_to_refl by blast
  then show ?thesis using False
    by (intro exI [of _ "if r then w\<lparr>w_pc := CheckRunning\<rparr> else op_release w"]) (simp add: op_release_def sup_stop_def Running_def)
next
  case True
  let ?g = "w_gen w"
  have l: "w_live w = [?g]" using i True live by (auto simp: sup_inv_def children_ok_def)
  define e where "e = \<lparr>le_PreStart = None, le_launch = LogErr, le_now = 0\<rparr>"
  define s1 where "s1 = (w_sup w)\<lparr>sv_stopped := True\<rparr>"
  define w3 where "w3 = w\<lparr>w_sup := s1, w_pc := Await r ?g, w_live := [], w_dead := [?g]\<rparr>"
  define w4 where "w4 = w3\<lparr>w_sup := snd (supervise_reap s1), w_dead := [], w_done := ?g # w_done w\<rparr>"
  define w5 where "w5 = (if r then w4\<lparr>w_pc := CheckRunning\<rparr> else op_release w4)"
  have "runs_to w w5"
  proof (rule runs_to_step [of "OpStep e" w "w\<lparr>w_pc := Mark r ?g\<rparr>"])
    show "runs_to (w\<lparr>w_pc := Mark r ?g\<rparr>) w5"
    proof (rule runs_to_step [of "OpStep e" _ "w\<lparr>w_sup := s1, w_pc := Await r ?g\<rparr>"])
      show "runs_to (w\<lparr>w_sup := s1, w_pc := Await r ?g\<rparr>) w5"
      proof (rule runs_to_step [of "Exit ?g" _ w3])
        show "runs_to w3 w5"
        proof (rule runs_to_step [of "Reap ?g" _ w4])
          show "runs_to w4 w5"
            by (rule runs_to_step [of "OpStep e" _ w5, OF _ runs_to_refl]) (simp add: w4_def w3_def w5_def op_step_simps)
        qed (simp add: w3_def w4_def s1_def supervise_reap_def)
      qed (simp add: w3_def l live)
    qed (simp add: op_step_simps s1_def)
  qed (use True pc in \<open>simp add: op_step_simps\<close>)
  moreover have "sup_stop (w_sup w) = snd (supervise_reap s1)" using True by (simp add: sup_stop_def Running_def s1_def)
  ultimately show ?thesis
    by (intro exI [of _ w5]) (simp add: w5_def w4_def w3_def op_release_def)
qed

lemma Stop_runs:
  assumes i: "sup_inv w" and pc: "w_pc w = Free" and live: "w_dead w = []"
  shows "\<exists>w'. runs_to w w' \<and> w_pc w' = Free \<and> w_sup w' = snd (Stop (w_sup w))"
proof -
  have f: "\<not> sv_opMu (w_sup w)" using i pc by (simp add: sup_inv_def)
  define w1 where "w1 = w\<lparr>w_sup := (w_sup w)\<lparr>sv_opMu := True\<rparr>, w_pc := SetDesired VStop\<rparr>"
  define w2 where "w2 = w1\<lparr>w_sup := (w_sup w1)\<lparr>sv_desired := False\<rparr>, w_pc := Snapshot False\<rparr>"
  have s1: "sup_step (Request VStop) w = Some w1" using f by (simp add: acquireOp_def w1_def)
  have s2: "sup_step (OpStep e) w1 = Some w2" for e by (simp add: w1_def w2_def op_step_simps)
  have i2: "sup_inv w2" using sup_inv_step [OF sup_inv_step [OF i s1] s2] .
  obtain w' where w': "runs_to w2 w'" "w_pc w' = Free" "w_sup w' = releaseOp (sup_stop (w_sup w2))"
    using stop_runs [OF i2, of False] live by (auto simp: w2_def w1_def)
  have "runs_to w w'" by (rule runs_to_step [OF s1 runs_to_step [OF s2 w'(1)]])
  moreover have "snd (Stop (w_sup w)) = w_sup w'" using f w'(3) by (simp add: Stop_def acquireOp_def w2_def w1_def)
  ultimately show ?thesis using w'(2) by auto
qed

lemma Start_runs:
  assumes i: "sup_inv w" and pc: "w_pc w = Free" and e: "le_now e = w_now w"
  shows "\<exists>w'. runs_to w w' \<and> w_pc w' = Free \<and> w_sup w' = snd (Start e (w_sup w))"
proof -
  have f: "\<not> sv_opMu (w_sup w)" using i pc by (simp add: sup_inv_def)
  define w1 where "w1 = w\<lparr>w_sup := (w_sup w)\<lparr>sv_opMu := True\<rparr>, w_pc := SetDesired VStart\<rparr>"
  define w2 where "w2 = w1\<lparr>w_sup := (w_sup w1)\<lparr>sv_desired := True\<rparr>, w_pc := CheckRunning\<rparr>"
  have s1: "sup_step (Request VStart) w = Some w1" using f by (simp add: acquireOp_def w1_def)
  have s2: "sup_step (OpStep e') w1 = Some w2" for e' by (simp add: w1_def w2_def op_step_simps)
  obtain w' where w': "runs_to w2 w'" "w_pc w' = Free" "w_sup w' = releaseOp (snd (sup_start e (w_sup w2)))"
    using start_runs [of w2 e] e by (auto simp: w2_def w1_def)
  have "runs_to w w'" by (rule runs_to_step [OF s1 runs_to_step [OF s2 w'(1)]])
  moreover have "snd (Start e (w_sup w)) = w_sup w'"
    using f w'(3) by (simp add: Start_def acquireOp_def w2_def w1_def split: prod.splits)
  ultimately show ?thesis using w'(2) by auto
qed

lemma sup_run_append: "sup_run (ls @ ks) w = (case sup_run ls w of None \<Rightarrow> None | Some u \<Rightarrow> sup_run ks u)"
  by (induction ls arbitrary: w) (auto split: option.splits)

lemma runs_to_trans: "runs_to w w1 \<Longrightarrow> runs_to w1 w2 \<Longrightarrow> runs_to w w2"
  unfolding runs_to_def by (metis sup_run_append option.simps(5))

lemma Restart_runs:
  assumes i: "sup_inv w" and pc: "w_pc w = Free" and live: "w_dead w = []" and e: "le_now e = w_now w"
  shows "\<exists>w'. runs_to w w' \<and> w_pc w' = Free \<and> w_sup w' = snd (Restart e (w_sup w))"
proof -
  have f: "\<not> sv_opMu (w_sup w)" using i pc by (simp add: sup_inv_def)
  define w1 where "w1 = w\<lparr>w_sup := (w_sup w)\<lparr>sv_opMu := True\<rparr>, w_pc := SetDesired VRestart\<rparr>"
  define w2 where "w2 = w1\<lparr>w_sup := (w_sup w1)\<lparr>sv_desired := True\<rparr>, w_pc := Snapshot True\<rparr>"
  have s1: "sup_step (Request VRestart) w = Some w1" using f by (simp add: acquireOp_def w1_def)
  have s2: "sup_step (OpStep e') w1 = Some w2" for e' by (simp add: w1_def w2_def op_step_simps)
  have i2: "sup_inv w2" using sup_inv_step [OF sup_inv_step [OF i s1] s2] .
  obtain w3 where w3: "runs_to w2 w3" "w_pc w3 = CheckRunning" "w_sup w3 = sup_stop (w_sup w2)" "w_now w3 = w_now w2"
    using stop_runs [OF i2, of True] live by (auto simp: w2_def w1_def)
  obtain w' where w': "runs_to w3 w'" "w_pc w' = Free" "w_sup w' = releaseOp (snd (sup_start e (w_sup w3)))"
    using start_runs [OF w3(2), of e] e w3(4) by (auto simp: w2_def w1_def)
  have "runs_to w w'"
    by (rule runs_to_step [OF s1 runs_to_step [OF s2 runs_to_trans [OF w3(1) w'(1)]]])
  moreover have "snd (Restart e (w_sup w)) = w_sup w'"
    using f w'(3) w3(3) by (simp add: Restart_def acquireOp_def w2_def w1_def split: prod.splits)
  ultimately show ?thesis using w'(2) by auto
qed

subsection \<open>A stale mark\<close>

text \<open>An environment in which every launch succeeds, and a run of it: the worker is started, a restart
  takes its snapshot, the child crashes and is reaped before the restart has written its mark, the
  mark is written all the same, the restart launches the next child; when that one crashes its
  reaper takes the exit for requested.\<close>

definition env_up :: launch_env where
  "env_up = \<lparr>le_PreStart = None, le_launch = Launched 7, le_now = 0\<rparr>"

definition sup_demo :: sup_world where
  "sup_demo = world_of (sup_fresh ''openvpn'' ''/usr/sbin/openvpn'' [] 0 0 0) 0"

definition start_labels :: "sup_label list" where
  "start_labels = [Request VStart, OpStep env_up, OpStep env_up, OpStep env_up]"

definition stale_run :: "sup_label list" where
  "stale_run = start_labels @ [Request VRestart, OpStep env_up, OpStep env_up, Exit 1, Reap 1, OpStep env_up, OpStep env_up,
     OpStep env_up, OpStep env_up, Count 0, Tick 4000000000, Wake 0, OpStep env_up, Exit 2, Reap 2]"

text \<open>The worker is wanted, it does not run, and nothing will start it: no restart is pending, no
  operation is in flight and the crash-loop limit was not reached.\<close>

lemma stale_stopped_loses_restart:
  "\<exists>w. sup_run stale_run sup_demo = Some w \<and> sv_desired (w_sup w) \<and> \<not> Running (w_sup w)
     \<and> w_pc w = Free \<and> w_autos w = [] \<and> w_gaveup w = 0"
proof -
  have "case sup_run stale_run sup_demo of None \<Rightarrow> False | Some w \<Rightarrow> sv_desired (w_sup w) \<and> \<not> Running (w_sup w)
     \<and> w_pc w = Free \<and> w_autos w = [] \<and> w_gaveup w = 0" by code_simp
  then show ?thesis by (simp split: option.splits)
qed

subsection \<open>Properties\<close>

text \<open>C14: a stop is final: once an operation has left the worker unwanted and \<^verbatim>\<open>opMu\<close> is free, no
  process exists, and none is launched by anything but a new start or restart, whatever auto-restart
  goroutines are pending, whatever children of the past do and however the steps interleave.\<close>

theorem stop_is_final:
  assumes "sup_reachable w" and "w_pc w = Free" and "\<not> sv_desired (w_sup w)"
    and "sup_run ls w = Some w'" and "Request VStart \<notin> set ls" and "Request VRestart \<notin> set ls"
  shows "w_live w' = [] \<and> w_dead w' = [] \<and> Pid (w_sup w') = 0 \<and> w_gen w' = w_gen w"
  using sup_quiet_run [OF stopped_quiet [OF sup_reachable_inv [OF assms(1)] assms(2,3)] assms(4-6)]
  by (simp add: sup_quiet_def Pid_def)

definition stopped_labels :: "sup_label list" where
  "stopped_labels = start_labels @ [Exit 1, Reap 1, Count 0, Request VStop, OpStep env_up, OpStep env_up]"

lemma run_reachable: "sup_run ls w = Some w' \<Longrightarrow> sup_reachable w \<Longrightarrow> sup_reachable w'"
  by (induction ls arbitrary: w) (auto split: option.splits intro: sup_reachable.step)

lemma demo_reachable: "sup_reachable sup_demo"
  unfolding sup_demo_def by (rule sup_reachable.fresh)

text \<open>A crash has left an auto-restart asleep, the worker is stopped, the goroutine wakes: nothing is
  launched.\<close>

theorem stop_is_final_witness:
  "w_gen (the (sup_run (stopped_labels @ [Tick 5000000000, Wake 0, OpStep env_up]) sup_demo)) = 1"
proof -
  define w where "w = the (sup_run stopped_labels sup_demo)"
  have r: "sup_run stopped_labels sup_demo = Some w \<and> w_pc w = Free \<and> \<not> sv_desired (w_sup w) \<and> w_gen w = 1
    \<and> \<not> Option.is_none (sup_run [Tick 5000000000, Wake 0, OpStep env_up] w)"
    unfolding w_def by code_simp
  then obtain w' where w': "sup_run [Tick 5000000000, Wake 0, OpStep env_up] w = Some w'" by (auto simp: Option.is_none_def)
  have "sup_reachable w" using run_reachable [OF _ demo_reachable] r by blast
  then have "w_gen w' = 1" using stop_is_final [OF _ _ _ w'] r by simp
  moreover have "sup_run (stopped_labels @ [Tick 5000000000, Wake 0, OpStep env_up]) sup_demo = Some w'"
    using r w' by (simp add: sup_run_append)
  ultimately show ?thesis by simp
qed

text \<open>C15: crash loops are bounded: in any stretch of time no longer than the crash-loop window and without
  a request of the operator, the worker is launched at most \<^verbatim>\<open>CrashLoopMax\<close> times (5 when it is not set)
  more than the restarts already asleep and the operation already in flight, whatever the order in which
  children exit, reapers run and goroutines count and wake.\<close>

theorem crash_loop_bounded:
  assumes "sup_reachable w" and "sup_run ls w = Some w'" and "\<forall>v. Request v \<notin> set ls"
    and "w_now w' - w_now w \<le> crash_window (w_sup w)"
  shows "int (w_gen w') \<le> int (w_gen w) + int (sleepers w) + max 0 (crash_max (w_sup w))"
proof -
  obtain c where "crash_acct w c w'"
    using crash_acct_run [OF assms(2) crash_acct_start [OF streak_nonneg [OF assms(1)]] assms(3)] assms(4) by auto
  then show ?thesis by (simp add: crash_acct_def)
qed

text \<open>One round of a loop: the child exits and is reaped, the goroutine counts, sleeps and launches the next.\<close>

definition crash_round :: "nat \<Rightarrow> sup_label list" where
  "crash_round g = [Exit g, Reap g, Count 0, Tick 3000000000, Wake 0, OpStep env_up, OpStep env_up, OpStep env_up]"

definition crash_labels :: "sup_label list" where
  "crash_labels = concat (map crash_round [1, 2, 3, 4, 5]) @ [Exit 6, Reap 6, Count 0]"

theorem crash_loop_bounded_witness:
  "\<exists>w w'. sup_run start_labels sup_demo = Some w \<and> sup_run crash_labels w = Some w'
    \<and> w_gaveup w' = 1 \<and> w_gen w' = 6 \<and> int (w_gen w') \<le> int (w_gen w) + int (sleepers w) + 5"
proof -
  define w where "w = the (sup_run start_labels sup_demo)"
  define w' where "w' = the (sup_run crash_labels w)"
  have r: "sup_run start_labels sup_demo = Some w" "sup_run crash_labels w = Some w'"
    unfolding w_def w'_def by code_simp+
  have v: "w_now w' - w_now w \<le> crash_window (w_sup w)" "crash_max (w_sup w) = 5" "w_gaveup w' = 1" "w_gen w' = 6"
    unfolding w_def w'_def by code_simp+
  have n: "\<forall>v. Request v \<notin> set crash_labels" by (simp add: crash_labels_def crash_round_def)
  have "sup_reachable w" by (rule run_reachable [OF r(1) demo_reachable])
  from crash_loop_bounded [OF this r(2) n v(1)] show ?thesis using r v by auto
qed

text \<open>C16: no lifecycle operation can get stuck: wherever the holder of \<^verbatim>\<open>opMu\<close> stands, in every reachable
  interleaving and whatever the system answers to a launch, at most eight steps of the operation itself,
  of the child it waits for and of that child's reaper release the lock.\<close>

theorem operations_complete:
  assumes "sup_reachable w"
  shows "\<exists>ls w'. length ls \<le> 8 \<and> list_all (own_label e (w_gen w)) ls \<and> sup_run ls w = Some w' \<and> w_pc w' = Free
    \<and> \<not> sv_opMu (w_sup w')"
proof -
  have i: "sup_inv w" by (rule sup_reachable_inv [OF assms])
  obtain ls w' where r: "length ls \<le> 8" "list_all (own_label e (w_gen w)) ls" "sup_run ls w = Some w'" "w_pc w' = Free"
    using completes_any [OF i, of e] by (auto simp: completes_def)
  then show ?thesis using sup_run_inv [OF r(3) i] by (auto simp: sup_inv_def)
qed

theorem operations_complete_witness:
  "\<exists>ls w'. length ls \<le> 8 \<and> sup_run (start_labels @ [Request VRestart, OpStep env_up] @ ls) sup_demo = Some w'
    \<and> \<not> sv_opMu (w_sup w')"
proof -
  define w where "w = the (sup_run (start_labels @ [Request VRestart, OpStep env_up]) sup_demo)"
  have r: "sup_run (start_labels @ [Request VRestart, OpStep env_up]) sup_demo = Some w"
    unfolding w_def by code_simp
  then have "sup_reachable w" by (rule run_reachable [OF _ demo_reachable])
  from operations_complete [OF this, of env_up] obtain ls w' where
    "length ls \<le> 8" "sup_run ls w = Some w'" "\<not> sv_opMu (w_sup w')" by blast
  then show ?thesis using r sup_run_append [of "start_labels @ [Request VRestart, OpStep env_up]" ls sup_demo]
    by (intro exI [of _ ls] exI [of _ w']) simp
qed



end
