(* ===== verification/Mgmt.thy ===== *)
theory Mgmt
  imports Go_Strings
begin

section \<open>openvpn's management connection (internal/controller/mgmt.go)\<close>

text \<open>
  The client that \<^verbatim>\<open>serve\<close> holds on openvpn's management socket. A buffered reader is the list
  of the complete lines it has still to give, without their newline; the end of the list is the read
  error of \<^verbatim>\<open>ReadString\<close> (end of file, or a last line without its newline). The functions here are
  the parsers (\<open>parseStatusFile\<close>, \<open>readClientEnv\<close>, \<open>releaseHold\<close>, the reply of a simple
  command), the reader loop with its dispatch to the handlers, and \<^verbatim>\<open>exec\<close> with its one retry. The
  peer (openvpn) is a parameter: what a dial gives, and the reply lines of a command.
\<close>

type_synonym reader = "string list"

text \<open>\<^verbatim>\<open>strings.TrimRight(line, "\r\n")\<close>.\<close>

definition trim_crlf :: "string \<Rightarrow> string" where
  "trim_crlf s = rev (dropWhile (\<lambda>c. c = CR \<or> c = LF) (rev s))"

datatype mgmt_error =
    TornRead
  | ReadFailed
  | DialFailed
  | NotConnected
  | WriteFailed
  | HoldRefused string
  | NotEnv string
  | AppErr string
  | BadKillMessage string
  | NoStatusFile

record vpn_client =
  vc_CID :: string
  vc_CN :: string
  vc_RealAddress :: string
  vc_VirtualAddress :: string
  vc_BytesRecv :: int
  vc_BytesSent :: int
  vc_ConnectedSince :: "int option"
  vc_Cipher :: string

subsection \<open>The status file\<close>

text \<open>\<^verbatim>\<open>strconv.ParseUint(s, 10, 64)\<close> with its error ignored: 0 on a syntax error, the greatest
  uint64 on overflow, whichever the scan meets first.\<close>

abbreviation uint64_max :: int where "uint64_max \<equiv> 18446744073709551615"

fun parse_uint_from :: "int \<Rightarrow> string \<Rightarrow> int" where
  "parse_uint_from n [] = n"
| "parse_uint_from n (c # s) =
    (if \<not> is_digit_c c then 0
     else if n \<ge> uint64_max div 10 + 1 then uint64_max
     else if n * 10 + int (digit_val c) > uint64_max then uint64_max
     else parse_uint_from (n * 10 + int (digit_val c)) s)"

definition parse_uint64 :: "string \<Rightarrow> int" where
  "parse_uint64 s = parse_uint_from 0 s"

text \<open>One \<^verbatim>\<open>CLIENT_LIST\<close> row; a row with fewer than twelve fields is skipped.\<close>

definition client_row :: "string \<Rightarrow> vpn_client option" where
  "client_row line = (let f = split_c TAB line in
     if length f < 12 then None
     else Some \<lparr>vc_CID = f ! 10, vc_CN = f ! 1, vc_RealAddress = f ! 2, vc_VirtualAddress = f ! 3,
                vc_BytesRecv = parse_uint64 (f ! 5), vc_BytesSent = parse_uint64 (f ! 6),
                vc_ConnectedSince = atoi (f ! 8), vc_Cipher = (if length f \<ge> 13 then f ! 12 else [])\<rparr>)"

fun parse_status :: "vpn_client list \<Rightarrow> reader \<Rightarrow> (mgmt_error, vpn_client list \<times> reader) result" where
  "parse_status out [] = Inl TornRead"
| "parse_status out (l # r) = (let line = trim_crlf l in
     if line = ''END'' then Inr (out, r)
     else if has_prefix line (''CLIENT_LIST'' @ [TAB]) then
       (case client_row line of None \<Rightarrow> parse_status out r | Some vc \<Rightarrow> parse_status (out @ [vc]) r)
     else parse_status out r)"

definition parseStatusFile :: "reader \<Rightarrow> (mgmt_error, vpn_client list \<times> reader) result" where
  "parseStatusFile r = parse_status [] r"

text \<open>\<^verbatim>\<open>Status\<close>: the file, as its complete lines, or \<^verbatim>\<open>None\<close> when it cannot be opened.\<close>

definition file_lines :: "string \<Rightarrow> reader" where
  "file_lines data = butlast (split_c LF data)"

definition Status_mgmt :: "string option \<Rightarrow> (mgmt_error, vpn_client list) result" where
  "Status_mgmt f = (case f of None \<Rightarrow> Inl NoStatusFile
     | Some data \<Rightarrow> (case parseStatusFile (file_lines data) of Inl e \<Rightarrow> Inl e | Inr (l, _) \<Rightarrow> Inr l))"

subsection \<open>Notifications\<close>

text \<open>The environment block of a notification, up to its END line.\<close>

fun read_env :: "(string \<rightharpoonup> string) \<Rightarrow> reader \<Rightarrow> (mgmt_error, (string \<rightharpoonup> string)) result \<times> reader" where
  "read_env env [] = (Inl ReadFailed, [])"
| "read_env env (l # r) = (let line = trim_crlf l in
     case cut_prefix line ''>CLIENT:ENV,'' of
       None \<Rightarrow> (Inl (NotEnv line), r)
     | Some rest \<Rightarrow>
         if rest = ''END'' then (Inr env, r)
         else (case cut_c CHR ''='' rest of
             None \<Rightarrow> read_env (env(rest \<mapsto> [])) r
           | Some (name, val) \<Rightarrow> read_env (env(name \<mapsto> val)) r))"

definition readClientEnv :: "reader \<Rightarrow> (mgmt_error, (string \<rightharpoonup> string)) result \<times> reader" where
  "readClientEnv r = read_env Map.empty r"

lemma read_env_length: "length (snd (read_env env r)) \<le> length r"
proof (induction r arbitrary: env)
  case (Cons l r)
  have "length (snd (read_env e r)) \<le> Suc (length r)" for e using Cons.IH [of e] by simp
  then show ?case by (simp add: Let_def split: option.split prod.split)
qed simp

text \<open>A missing key of a Go map reads as the zero value.\<close>

definition env_get :: "(string \<rightharpoonup> string) \<Rightarrow> string \<Rightarrow> string" where
  "env_get env k = (case env k of None \<Rightarrow> [] | Some v \<Rightarrow> v)"

text \<open>What the reader does for a line: it answers a client-auth request, calls a handler, or hands a
  reply line to the waiting command.\<close>

datatype mgmt_event =
    Approve string string
  | Established string string string
  | Disconnected string
  | Reply string

definition handleConnect :: "string \<Rightarrow> reader \<Rightarrow> mgmt_event list \<times> reader" where
  "handleConnect header r = (case cut_c CHR '','' header of
     None \<Rightarrow> ([], r)
   | Some (_, rest) \<Rightarrow> (case cut_c CHR '','' rest of
       None \<Rightarrow> ([], r)
     | Some (cid, kid) \<Rightarrow> (case readClientEnv r of
         (Inl _, r') \<Rightarrow> ([], r')
       | (Inr _, r') \<Rightarrow> ([Approve cid kid], r'))))"

definition handleEstablished :: "string \<Rightarrow> reader \<Rightarrow> mgmt_event list \<times> reader" where
  "handleEstablished header r = (case cut_c CHR '','' header of
     None \<Rightarrow> ([], r)
   | Some (_, cid) \<Rightarrow> (case readClientEnv r of
       (Inl _, r') \<Rightarrow> ([], r')
     | (Inr env, r') \<Rightarrow> ([Established cid (env_get env ''common_name'') (env_get env ''ifconfig_pool_remote_ip'')], r')))"

definition handleDisconnect :: "string \<Rightarrow> reader \<Rightarrow> mgmt_event list \<times> reader" where
  "handleDisconnect header r = (case cut_c CHR '','' header of
     None \<Rightarrow> ([], r)
   | Some (_, cid) \<Rightarrow> (case readClientEnv r of
       (Inl _, r') \<Rightarrow> ([], r')
     | (Inr _, r') \<Rightarrow> ([Disconnected cid], r')))"

text \<open>One turn of the loop.\<close>

definition dispatch :: "string \<Rightarrow> reader \<Rightarrow> mgmt_event list \<times> reader" where
  "dispatch raw r = (let line = trim_crlf raw in
     if has_prefix line ''>CLIENT:CONNECT,'' \<or> has_prefix line ''>CLIENT:REAUTH,'' then handleConnect line r
     else if has_prefix line ''>CLIENT:ESTABLISHED,'' then handleEstablished line r
     else if has_prefix line ''>CLIENT:DISCONNECT,'' then handleDisconnect line r
     else if has_prefix line ''>'' then ([], r)
     else ([Reply raw], r))"

lemma readClientEnv_length: "readClientEnv r = (x, r') \<Longrightarrow> length r' \<le> length r"
  using read_env_length [of Map.empty r] by (simp add: readClientEnv_def)

lemma dispatch_length: "dispatch raw r = (ev, r') \<Longrightarrow> length r' \<le> length r"
  by (auto simp: dispatch_def handleConnect_def handleEstablished_def handleDisconnect_def Let_def
      dest!: readClientEnv_length split: if_splits option.splits prod.splits sum.splits)

text \<open>The loop ends when the peer hangs up; the connection is dropped then.\<close>

function readLoop :: "reader \<Rightarrow> mgmt_event list" where
  "readLoop r = (case r of [] \<Rightarrow> [] | raw # r1 \<Rightarrow> (case dispatch raw r1 of (ev, r2) \<Rightarrow> ev @ readLoop r2))"
  by pat_completeness auto
termination
  by (relation "measure length") (auto dest!: dispatch_length [OF sym])

declare readLoop.simps [simp del]

text \<open>\<^verbatim>\<open>chanReader\<close>: the reply lines as a reader for a command's parser.\<close>

record chan_reader =
  ch_lines :: "string list"
  ch_buf :: string

text \<open>One read of at most \<open>n\<close> bytes; None is the end, when the channel is closed.\<close>

definition chan_Read :: "nat \<Rightarrow> chan_reader \<Rightarrow> string option \<times> chan_reader" where
  "chan_Read n r = (if ch_buf r = []
     then (case ch_lines r of [] \<Rightarrow> (None, r)
       | line # ls \<Rightarrow> (Some (take n line), \<lparr>ch_lines = ls, ch_buf = drop n line\<rparr>))
     else (Some (take n (ch_buf r)), r\<lparr>ch_buf := drop n (ch_buf r)\<rparr>))"

definition chan_text :: "chan_reader \<Rightarrow> string" where
  "chan_text r = ch_buf r @ concat (ch_lines r)"

text \<open>Reads of any sizes yield the text of the lines in order, and the end comes when all of it was read.\<close>

lemma chan_Read_text:
  "chan_Read n r = (out, r') \<Longrightarrow> (case out of None \<Rightarrow> chan_text r = [] \<and> r' = r | Some t \<Rightarrow> chan_text r = t @ chan_text r')"
  by (auto simp: chan_Read_def chan_text_def split: if_splits list.splits)

subsection \<open>Commands\<close>

text \<open>\<^verbatim>\<open>hold release\<close>: its reply is awaited, notices before it are skipped.\<close>

fun releaseHold :: "reader \<Rightarrow> (mgmt_error, reader) result" where
  "releaseHold [] = Inl ReadFailed"
| "releaseHold (l # r) = (let line = trim_crlf l in
     if has_prefix line ''>'' then releaseHold r
     else if has_prefix line ''SUCCESS'' then Inr r
     else if has_prefix line ''ERROR'' then Inl (HoldRefused line)
     else releaseHold r)"

fun simple_reply :: "reader \<Rightarrow> (mgmt_error, unit) result" where
  "simple_reply [] = Inl ReadFailed"
| "simple_reply (l # r) = (let line = trim_crlf l in
     if has_prefix line ''>'' then simple_reply r
     else if has_prefix line ''SUCCESS'' then Inr ()
     else if has_prefix line ''ERROR'' then Inl (AppErr line)
     else simple_reply r)"

text \<open>The peer: \<open>mp_dial\<close> is a dial and the lines of the new connection up to the reply to
  \<^verbatim>\<open>hold release\<close>; \<open>mp_send\<close> is a command written to a live connection, with the reply lines that
  reach it before the connection ends or the timeout passes (\<open>None\<close>: the write fails).\<close>

record 'p mgmt_peer =
  mp_dial :: "'p \<Rightarrow> reader option \<times> 'p"
  mp_send :: "string \<Rightarrow> 'p \<Rightarrow> reader option \<times> 'p"

record 'p mgmt_conn =
  mc_live :: bool
  mc_sent :: "string list"
  mc_peer :: 'p

definition mgmt_connect :: "'p mgmt_peer \<Rightarrow> 'p mgmt_conn \<Rightarrow> (mgmt_error, unit) result \<times> 'p mgmt_conn" where
  "mgmt_connect P c = (case mp_dial P (mc_peer c) of
     (None, p) \<Rightarrow> (Inl DialFailed, c\<lparr>mc_peer := p\<rparr>)
   | (Some [], p) \<Rightarrow> (Inl ReadFailed, c\<lparr>mc_peer := p\<rparr>)
   | (Some (banner # r), p) \<Rightarrow> (case releaseHold r of
       Inl e \<Rightarrow> (Inl e, c\<lparr>mc_peer := p\<rparr>)
     | Inr _ \<Rightarrow> (Inr (), c\<lparr>mc_peer := p, mc_live := True\<rparr>)))"

definition Connect :: "'p mgmt_peer \<Rightarrow> 'p mgmt_conn \<Rightarrow> (mgmt_error, unit) result \<times> 'p mgmt_conn" where
  "Connect P c = (if mc_live c then (Inr (), c) else mgmt_connect P c)"

definition mgmt_drop :: "'p mgmt_conn \<Rightarrow> 'p mgmt_conn" where
  "mgmt_drop c = c\<lparr>mc_live := False\<rparr>"

text \<open>\<^verbatim>\<open>ConnectRetry\<close>: attempts 100 ms apart until one succeeds or the deadline has passed; \<open>n\<close> is
  the number of attempts that fit, at least one.\<close>

fun ConnectRetry :: "nat \<Rightarrow> 'p mgmt_peer \<Rightarrow> 'p mgmt_conn \<Rightarrow> (mgmt_error, unit) result \<times> 'p mgmt_conn" where
  "ConnectRetry 0 P c = Connect P c"
| "ConnectRetry (Suc n) P c = (case Connect P c of
     (Inr u, c') \<Rightarrow> (Inr u, c')
   | (Inl _, c') \<Rightarrow> ConnectRetry n P c')"

definition mgmt_write :: "'p mgmt_peer \<Rightarrow> string \<Rightarrow> 'p mgmt_conn \<Rightarrow> (mgmt_error, reader) result \<times> 'p mgmt_conn" where
  "mgmt_write P cmd c = (if \<not> mc_live c then (Inl NotConnected, c)
     else case mp_send P cmd (mc_peer c) of
       (None, p) \<Rightarrow> (Inl WriteFailed, c\<lparr>mc_peer := p\<rparr>)
     | (Some r, p) \<Rightarrow> (Inr r, c\<lparr>mc_peer := p, mc_sent := mc_sent c @ [cmd]\<rparr>))"

definition tryExec :: "'p mgmt_peer \<Rightarrow> string \<Rightarrow> (reader \<Rightarrow> (mgmt_error, 'a) result) \<Rightarrow> 'p mgmt_conn
    \<Rightarrow> (mgmt_error, 'a) result \<times> 'p mgmt_conn" where
  "tryExec P cmd parse c = (case (if mc_live c then (Inr (), c) else mgmt_connect P c) of
     (Inl e, c1) \<Rightarrow> (Inl e, c1)
   | (Inr _, c1) \<Rightarrow> (case mgmt_write P cmd c1 of
       (Inl e, c2) \<Rightarrow> (Inl e, c2)
     | (Inr r, c2) \<Rightarrow> (parse r, c2)))"

definition is_app_err :: "mgmt_error \<Rightarrow> bool" where
  "is_app_err e = (case e of AppErr _ \<Rightarrow> True | _ \<Rightarrow> False)"

fun exec_loop :: "nat \<Rightarrow> 'p mgmt_peer \<Rightarrow> string \<Rightarrow> (reader \<Rightarrow> (mgmt_error, 'a) result) \<Rightarrow> mgmt_error \<Rightarrow> 'p mgmt_conn
    \<Rightarrow> (mgmt_error, 'a) result \<times> 'p mgmt_conn" where
  "exec_loop 0 P cmd parse err c = (Inl err, c)"
| "exec_loop (Suc n) P cmd parse err c = (case tryExec P cmd parse c of
     (Inr v, c') \<Rightarrow> (Inr v, c')
   | (Inl e, c') \<Rightarrow> if is_app_err e then (Inl e, c') else exec_loop n P cmd parse e (mgmt_drop c'))"

definition exec :: "'p mgmt_peer \<Rightarrow> string \<Rightarrow> (reader \<Rightarrow> (mgmt_error, 'a) result) \<Rightarrow> 'p mgmt_conn
    \<Rightarrow> (mgmt_error, 'a) result \<times> 'p mgmt_conn" where
  "exec P cmd parse c = exec_loop 2 P cmd parse ReadFailed c"

definition simple_cmd :: "'p mgmt_peer \<Rightarrow> string \<Rightarrow> 'p mgmt_conn \<Rightarrow> (mgmt_error, unit) result \<times> 'p mgmt_conn" where
  "simple_cmd P cmd c = exec P cmd simple_reply c"

definition kill_cmd :: "string \<Rightarrow> string \<Rightarrow> string" where
  "kill_cmd cid msg = ''client-kill '' @ cid @ '' '' @ msg"

fun kill_each :: "'p mgmt_peer \<Rightarrow> string \<Rightarrow> string \<Rightarrow> int \<Rightarrow> vpn_client list \<Rightarrow> 'p mgmt_conn
    \<Rightarrow> int \<times> mgmt_error option \<times> 'p mgmt_conn" where
  "kill_each P cn msg n [] c = (n, None, c)"
| "kill_each P cn msg n (v # vs) c =
    (if vc_CN v = cn then (case simple_cmd P (kill_cmd (vc_CID v) msg) c of
         (Inl e, c') \<Rightarrow> (n, Some e, c')
       | (Inr _, c') \<Rightarrow> kill_each P cn msg (n + 1) vs c')
     else kill_each P cn msg n vs c)"

definition status_reply :: "reader \<Rightarrow> (mgmt_error, vpn_client list) result" where
  "status_reply r = (case parseStatusFile r of Inl e \<Rightarrow> Inl e | Inr (l, _) \<Rightarrow> Inr l)"

definition Kill :: "'p mgmt_peer \<Rightarrow> string \<Rightarrow> string \<Rightarrow> 'p mgmt_conn \<Rightarrow> int \<times> mgmt_error option \<times> 'p mgmt_conn" where
  "Kill P cn msg c = (if msg \<noteq> ''HALT'' \<and> msg \<noteq> ''RESTART'' then (0, Some (BadKillMessage msg), c)
     else case exec P ''status 3'' status_reply c of
       (Inl e, c1) \<Rightarrow> (0, Some e, c1)
     | (Inr live, c1) \<Rightarrow> kill_each P cn msg 0 live c1)"

end
