(* ===== verification/Control.thy ===== *)
theory Control
  imports Supervisor Mgmt Pki_Names
begin

section \<open>Lifecycle operations and the control socket (internal/controller/control.go)\<close>

text \<open>
  \<open>RunOp\<close> is every lifecycle operation on a worker, from the socket and from the web API. The Go
  interfaces are records of methods over a world \<open>'w\<close>; \<open>supervisor_lifecycle\<close> is the instance for a
  supervisor. The server side of the socket, \<open>serveControlConn\<close>, maps the bytes of a request to the
  bytes of the reply; the client side, \<open>controlRequest\<close> and the functions on it, is what the CLI calls.
  A call that panics yields \<open>None\<close>, which \<^verbatim>\<open>recover\<close> turns into a reply. The JSON of the replies is a
  parameter (\<open>json_codec\<close>).
\<close>

record 'w lifecycle =
  lc_Start :: "'w \<Rightarrow> (ctl_error, unit) result \<times> 'w"
  lc_Stop :: "'w \<Rightarrow> (ctl_error, unit) result \<times> 'w"
  lc_Restart :: "'w \<Rightarrow> (ctl_error, unit) result \<times> 'w"
  lc_Reconnect :: "'w \<Rightarrow> (ctl_error, unit) result \<times> 'w"
  lc_Pid :: "'w \<Rightarrow> int"
  lc_StartedAt :: "'w \<Rightarrow> int option"

record control_result =
  cr_Pid :: int
  cr_Changed :: bool
  cr_StartedAt :: "int option"
  cr_ServeStartedAt :: "int option"

definition supervisor_lifecycle :: "launch_env \<Rightarrow> bool \<Rightarrow> supervisor lifecycle" where
  "supervisor_lifecycle e sig = \<lparr>lc_Start = Start e, lc_Stop = Stop, lc_Restart = Restart e, lc_Reconnect = Reconnect sig,
     lc_Pid = Pid, lc_StartedAt = StartedAt\<rparr>"

subsection \<open>RunOp\<close>

text \<open>The verb on the target; \<open>None\<close>: the target has no such operation.\<close>

definition run_verb :: "'w lifecycle \<Rightarrow> string \<Rightarrow> bool \<Rightarrow> 'w \<Rightarrow> ((ctl_error, unit) result \<times> 'w) option" where
  "run_verb t verb canReconnect w =
    (if verb = ''status'' then Some (Inr (), w)
     else if verb = ''start'' then Some (lc_Start t w)
     else if verb = ''stop'' then Some (lc_Stop t w)
     else if verb = ''restart'' then Some (lc_Restart t w)
     else if verb = ''reconnect'' then (if \<not> canReconnect then None else Some (lc_Reconnect t w))
     else None)"

type_synonym 'w closure = "'w \<Rightarrow> (string, unit) result option \<times> 'w"

definition op_report :: "'w lifecycle \<Rightarrow> int \<Rightarrow> int \<Rightarrow> 'w \<Rightarrow> control_result" where
  "op_report t started before w =
    \<lparr>cr_Pid = lc_Pid t w, cr_Changed = (lc_Pid t w \<noteq> before),
     cr_StartedAt = (if lc_Pid t w \<noteq> 0 then lc_StartedAt t w else None), cr_ServeStartedAt = Some started\<rparr>"

definition RunOp :: "int \<Rightarrow> 'w lifecycle \<Rightarrow> string \<Rightarrow> bool \<Rightarrow> 'w closure option \<Rightarrow> 'w
    \<Rightarrow> (ctl_error, control_result) result option \<times> 'w" where
  "RunOp started t verb canReconnect afterStart w = (case run_verb t verb canReconnect w of
     None \<Rightarrow> (Some (Inl UnknownOp), w)
   | Some (Inl err, w1) \<Rightarrow> (Some (Inl err), w1)
   | Some (Inr _, w1) \<Rightarrow>
      (case afterStart of
         Some f \<Rightarrow> if verb = ''start'' \<or> verb = ''restart'' then
             (case f w1 of
                (None, w2) \<Rightarrow> (None, w2)
              | (Some (Inl m), w2) \<Rightarrow> (Some (Inl (ReapplyFailed m)), w2)
              | (Some (Inr _), w2) \<Rightarrow> (Some (Inr (op_report t started (lc_Pid t w) w2)), w2))
           else (Some (Inr (op_report t started (lc_Pid t w) w1)), w1)
       | None \<Rightarrow> (Some (Inr (op_report t started (lc_Pid t w) w1)), w1)))"

subsection \<open>The telegram poller's operations\<close>

record telegram_status =
  tg_Running :: bool
  tg_TokenSet :: bool
  tg_Admin :: string
  tg_ChatLinked :: bool
  tg_Changed :: bool

record 'w telegram_controller =
  tc_Start :: "'w \<Rightarrow> (ctl_error, unit) result \<times> 'w"
  tc_Stop :: "'w \<Rightarrow> (ctl_error, unit) result \<times> 'w"
  tc_Restart :: "'w \<Rightarrow> (ctl_error, unit) result \<times> 'w"
  tc_Status :: "'w \<Rightarrow> telegram_status"

definition RunTelegramOp :: "'w telegram_controller \<Rightarrow> string \<Rightarrow> 'w \<Rightarrow> (ctl_error, telegram_status) result \<times> 'w" where
  "RunTelegramOp t verb w =
    (case (if verb = ''status'' then (Inr (), w)
           else if verb = ''start'' then tc_Start t w
           else if verb = ''stop'' then tc_Stop t w
           else if verb = ''restart'' then tc_Restart t w
           else (Inl UnknownOp, w)) of
       (Inl err, w1) \<Rightarrow> (Inl err, w1)
     | (Inr _, w1) \<Rightarrow> (Inr ((tc_Status t w1)\<lparr>tg_Changed := (tg_Running (tc_Status t w1) \<noteq> tg_Running (tc_Status t w))\<rparr>), w1))"

subsection \<open>The server\<close>

record 'w control_deps =
  cd_started :: int
  cd_VPN :: "'w lifecycle"
  cd_DNS :: "'w lifecycle"
  cd_Kill :: "string \<Rightarrow> string \<Rightarrow> 'w \<Rightarrow> (string, int) result \<times> 'w"
  cd_Status :: "'w \<Rightarrow> (string, vpn_client list) result"
  cd_Level :: "bool \<Rightarrow> 'w \<Rightarrow> 'w"
  cd_Telegram :: "'w telegram_controller"
  cd_UpstreamRewrite :: "string \<Rightarrow> 'w closure"
  cd_UpstreamReapply :: "'w closure option"

record json_codec =
  jc_result :: "control_result \<Rightarrow> string"
  jd_result :: "string \<Rightarrow> control_result option"
  jc_clients :: "vpn_client list \<Rightarrow> string"
  jd_clients :: "string \<Rightarrow> vpn_client list option"
  jc_telegram :: "telegram_status \<Rightarrow> string"
  jd_telegram :: "string \<Rightarrow> telegram_status option"

definition replyOK :: "(string, unit) result \<Rightarrow> string" where
  "replyOK r = (case r of Inl err \<Rightarrow> ''ERR '' @ err @ NL | Inr _ \<Rightarrow> ''OK'' @ NL)"

definition replyJSON :: "('a \<Rightarrow> string) \<Rightarrow> (ctl_error, 'a) result \<Rightarrow> string" where
  "replyJSON enc r = (case r of Inl err \<Rightarrow> ''ERR '' @ err_text err @ NL | Inr v \<Rightarrow> ''OK '' @ enc v @ NL)"

definition panic_reply :: string where
  "panic_reply = ''ERR internal error'' @ NL"

definition reply_closure :: "(string, unit) result option \<times> 'w \<Rightarrow> string \<times> 'w" where
  "reply_closure x = (case x of (None, w) \<Rightarrow> (panic_reply, w) | (Some r, w) \<Rightarrow> (replyOK r, w))"

definition reply_op :: "('a \<Rightarrow> string) \<Rightarrow> (ctl_error, 'a) result option \<times> 'w \<Rightarrow> string \<times> 'w" where
  "reply_op enc x = (case x of (None, w) \<Rightarrow> (panic_reply, w) | (Some r, w) \<Rightarrow> (replyJSON enc r, w))"

text \<open>A closure that is nil panics when it is called.\<close>

definition call_closure :: "'w closure option \<Rightarrow> 'w closure" where
  "call_closure f w = (case f of None \<Rightarrow> (None, w) | Some g \<Rightarrow> g w)"

text \<open>One operation, after the request line was read and trimmed.\<close>

definition control_op :: "json_codec \<Rightarrow> 'w control_deps \<Rightarrow> string \<Rightarrow> 'w \<Rightarrow> string \<times> 'w" where
  "control_op J d op w =
    (case cut_prefix op ''kill '' of
       Some arg \<Rightarrow>
         (let (msg, cn) = (case cut_c CHR '' '' arg of None \<Rightarrow> (arg, []) | Some (a, b) \<Rightarrow> (a, b)) in
          case cd_Kill d cn msg w of
            (Inl e, w1) \<Rightarrow> (replyOK (Inl e), w1)
          | (Inr n, w1) \<Rightarrow> (''OK '' @ itoa n @ NL, w1))
     | None \<Rightarrow>
     if op = ''clients'' then (replyJSON (jc_clients J) (case cd_Status d w of Inl e \<Rightarrow> Inl (OtherError e) | Inr l \<Rightarrow> Inr l), w)
     else (case cut_prefix op ''upstream-assign '' of
       Some cn \<Rightarrow> reply_closure (cd_UpstreamRewrite d cn w)
     | None \<Rightarrow>
     if op = ''upstream-reapply'' then reply_closure (call_closure (cd_UpstreamReapply d) w)
     else (case cut_prefix op ''telegram-'' of
       Some verb \<Rightarrow> (let (r, w1) = RunTelegramOp (cd_Telegram d) verb w in (replyJSON (jc_telegram J) r, w1))
     | None \<Rightarrow>
     if op = ''debug on'' then (replyOK (Inr ()), cd_Level d True w)
     else if op = ''debug off'' then (replyOK (Inr ()), cd_Level d False w)
     else (case cut_prefix op ''dns-'' of
       Some verb \<Rightarrow> reply_op (jc_result J) (RunOp (cd_started d) (cd_DNS d) verb False None w)
     | None \<Rightarrow> reply_op (jc_result J) (RunOp (cd_started d) (cd_VPN d) op True (cd_UpstreamReapply d) w)))))"

text \<open>The request is read up to its first newline; without one there is no reply.\<close>

definition serveControlConn :: "json_codec \<Rightarrow> 'w control_deps \<Rightarrow> string \<Rightarrow> 'w \<Rightarrow> string \<times> 'w" where
  "serveControlConn J d req w = (case cut_c LF req of None \<Rightarrow> ([], w) | Some (line, _) \<Rightarrow> control_op J d (trim_space line) w)"

subsection \<open>The client\<close>

datatype request_error =
    ServeDown
  | Remote string
  | UnexpectedResponse string
  | BadPayload string

text \<open>The server as the client sees it: \<open>None\<close> when nothing listens, else request bytes to reply bytes.\<close>

type_synonym 'w serve = "(string \<Rightarrow> 'w \<Rightarrow> string \<times> 'w) option"

definition parse_response :: "string \<Rightarrow> (request_error, string) result" where
  "parse_response bytes =
    (let resp = trim_space (case cut_c LF bytes of None \<Rightarrow> bytes | Some (line, _) \<Rightarrow> line @ NL) in
     if has_prefix resp ''ERR '' then Inl (Remote (trim_prefix resp ''ERR ''))
     else case cut_prefix resp ''OK'' of
       None \<Rightarrow> Inl (UnexpectedResponse resp)
     | Some payload \<Rightarrow> Inr (trim_space payload))"

definition controlRequest :: "'w serve \<Rightarrow> string \<Rightarrow> 'w \<Rightarrow> (request_error, string) result \<times> 'w" where
  "controlRequest srv op w = (case srv of None \<Rightarrow> (Inl ServeDown, w)
     | Some f \<Rightarrow> (let (resp, w1) = f (op @ NL) w in (parse_response resp, w1)))"

definition decode_payload :: "(string \<Rightarrow> 'a option) \<Rightarrow> (request_error, string) result \<times> 'w \<Rightarrow> (request_error, 'a) result \<times> 'w" where
  "decode_payload dec x = (case x of (Inl e, w) \<Rightarrow> (Inl e, w)
     | (Inr payload, w) \<Rightarrow> (case dec payload of None \<Rightarrow> (Inl (BadPayload payload), w) | Some v \<Rightarrow> (Inr v, w)))"

definition Control_req :: "json_codec \<Rightarrow> 'w serve \<Rightarrow> string \<Rightarrow> 'w \<Rightarrow> (request_error, control_result) result \<times> 'w" where
  "Control_req J srv op w = decode_payload (jd_result J) (controlRequest srv op w)"

definition Clients_req :: "json_codec \<Rightarrow> 'w serve \<Rightarrow> 'w \<Rightarrow> (request_error, vpn_client list) result \<times> 'w" where
  "Clients_req J srv w = decode_payload (jd_clients J) (controlRequest srv ''clients'' w)"

definition Kill_req :: "'w serve \<Rightarrow> string \<Rightarrow> string \<Rightarrow> 'w \<Rightarrow> (request_error, int) result \<times> 'w" where
  "Kill_req srv cn msg w = decode_payload atoi (controlRequest srv (''kill '' @ msg @ '' '' @ cn) w)"

definition UpstreamAssign_req :: "'w serve \<Rightarrow> string \<Rightarrow> 'w \<Rightarrow> (request_error, unit) result \<times> 'w" where
  "UpstreamAssign_req srv cn w = decode_payload (\<lambda>_. Some ()) (controlRequest srv (''upstream-assign '' @ cn) w)"

definition UpstreamReapply_req :: "'w serve \<Rightarrow> 'w \<Rightarrow> (request_error, unit) result \<times> 'w" where
  "UpstreamReapply_req srv w = decode_payload (\<lambda>_. Some ()) (controlRequest srv ''upstream-reapply'' w)"

definition Debug_req :: "'w serve \<Rightarrow> bool \<Rightarrow> 'w \<Rightarrow> (request_error, unit) result \<times> 'w" where
  "Debug_req srv on w = decode_payload (\<lambda>_. Some ()) (controlRequest srv (if on then ''debug on'' else ''debug off'') w)"

definition TelegramOp_req :: "json_codec \<Rightarrow> 'w serve \<Rightarrow> string \<Rightarrow> 'w \<Rightarrow> (request_error, telegram_status) result \<times> 'w" where
  "TelegramOp_req J srv verb w = decode_payload (jd_telegram J) (controlRequest srv (''telegram-'' @ verb) w)"

end
