(* ===== verification/Control_Props.thy ===== *)
theory Control_Props
  imports Control
begin

section \<open>Lifecycle reports and the control protocol\<close>

text \<open>
  The contract of a worker as a locale, interpreted on the supervisor of \<open>Supervisor\<close>, from which the reports of \<^verbatim>\<open>RunOp\<close> follow; and the
  control socket: a request written by the client is the one served, and the answer comes back as it was given.
\<close>

subsection \<open>What a worker promises to its callers\<close>

text \<open>\<open>ok\<close> is the state in which the worker may be found between operations. A successful start or
  restart leaves a process, a successful stop none, a start of a running worker and a reconnect keep
  it, and the start time is known exactly while a process runs.\<close>

locale worker =
  fixes t :: "'w lifecycle" and ok :: "'w \<Rightarrow> bool"
  assumes start_up: "ok w \<Longrightarrow> lc_Start t w = (Inr (), w') \<Longrightarrow> ok w' \<and> lc_Pid t w' \<noteq> 0 \<and> (lc_Pid t w = 0 \<or> lc_Pid t w' = lc_Pid t w)"
    and stop_down: "ok w \<Longrightarrow> lc_Stop t w = (Inr (), w') \<Longrightarrow> ok w' \<and> lc_Pid t w' = 0"
    and restart_up: "ok w \<Longrightarrow> lc_Restart t w = (Inr (), w') \<Longrightarrow> ok w' \<and> lc_Pid t w' \<noteq> 0"
    and reconnect_keeps: "ok w \<Longrightarrow> lc_Reconnect t w = (Inr (), w') \<Longrightarrow> ok w' \<and> lc_Pid t w \<noteq> 0 \<and> lc_Pid t w' = lc_Pid t w"
    and started_iff: "ok w \<Longrightarrow> lc_StartedAt t w \<noteq> None \<longleftrightarrow> lc_Pid t w \<noteq> 0"
begin

lemma run_verb_effect:
  assumes "ok w" and "run_verb t verb c w = Some (Inr (), w')"
  shows "ok w' \<and> (verb \<in> {''start'', ''restart''} \<longrightarrow> lc_Pid t w' \<noteq> 0) \<and> (verb = ''stop'' \<longrightarrow> lc_Pid t w' = 0)
    \<and> (verb \<in> {''status'', ''reconnect''} \<or> verb = ''start'' \<and> lc_Pid t w \<noteq> 0 \<longrightarrow> lc_Pid t w' = lc_Pid t w)"
  using assms(2) start_up [OF assms(1)] stop_down [OF assms(1)] restart_up [OF assms(1)] reconnect_keeps [OF assms(1)] assms(1)
  by (auto simp: run_verb_def split: if_splits)

lemma run_op_report:
  assumes ok: "ok w" and keep: "\<forall>f. after = Some f \<longrightarrow> (\<forall>x. snd (f x) = x)"
    and run: "RunOp started t verb c after w = (Some (Inr r), w')"
  shows "cr_Pid r = lc_Pid t w' \<and> (cr_Changed r \<longleftrightarrow> lc_Pid t w' \<noteq> lc_Pid t w)
    \<and> (cr_StartedAt r = None \<longleftrightarrow> lc_Pid t w' = 0) \<and> run_verb t verb c w = Some (Inr (), w') \<and> ok w'"
proof -
  obtain w1 where v: "run_verb t verb c w = Some (Inr (), w1)"
    using run by (auto simp: RunOp_def split: option.splits sum.splits prod.splits)
  have "w' = w1 \<and> r = op_report t started (lc_Pid t w) w1"
  proof (cases after)
    case None
    then show ?thesis using run v by (auto simp: RunOp_def)
  next
    case (Some f)
    then have "snd (f w1) = w1" using keep by blast
    then obtain x where "f w1 = (x, w1)" by (cases "f w1") simp
    then show ?thesis using run v Some
      by (auto simp: RunOp_def split: if_splits option.splits sum.splits prod.splits)
  qed
  then show ?thesis using v run_verb_effect [OF ok v] started_iff [of w1] by (auto simp: op_report_def)
qed

end

text \<open>A supervisor keeps the contract when the system gives its children positive pids.\<close>

definition env_ok :: "launch_env \<Rightarrow> bool" where
  "env_ok e = (case le_launch e of Launched p \<Rightarrow> p > 0 | _ \<Rightarrow> True)"

definition sup_ok :: "launch_env \<Rightarrow> supervisor \<Rightarrow> bool" where
  "sup_ok e s \<longleftrightarrow> env_ok e \<and> (sv_running s \<longrightarrow> (\<exists>p > 0. sv_cmd s = Some p) \<and> sv_startedAt s \<noteq> None)"

lemma sup_start_ok:
  assumes "sup_ok e s" and "sup_start e s = (Inr (), s')"
  shows "sup_ok e s' \<and> sv_running s' \<and> Pid s' \<noteq> 0 \<and> (Pid s = 0 \<or> Pid s' = Pid s)"
proof (cases "sv_running s")
  case True
  then show ?thesis using assms by (auto simp: sup_start_def Running_def sup_ok_def Pid_def)
next
  case False
  define s0 where "s0 = (case le_PreStart e of None \<Rightarrow> s | Some as \<Rightarrow> s\<lparr>sv_Args := as\<rparr>)"
  have "supervise_launch (le_launch e) (le_now e) s0 = (Inr (), s')"
    using assms(2) False by (simp add: sup_start_def Running_def s0_def)
  then obtain p where "le_launch e = Launched p" "s' = s0\<lparr>sv_cmd := Some p, sv_running := True, sv_startedAt := Some (le_now e)\<rparr>"
    by (auto simp: supervise_launch_def split: if_splits launch.splits)
  then show ?thesis using assms(1) False by (auto simp: sup_ok_def env_ok_def Pid_def)
qed

lemma sup_ok_frame [simp]:
  "sup_ok e (s\<lparr>sv_opMu := b\<rparr>) = sup_ok e s" "sup_ok e (s\<lparr>sv_desired := b\<rparr>) = sup_ok e s"
  "Pid (s\<lparr>sv_opMu := b\<rparr>) = Pid s" "Pid (s\<lparr>sv_desired := b\<rparr>) = Pid s"
  by (simp_all add: sup_ok_def Pid_def)

lemma sup_stop_ok: "sup_ok e s \<Longrightarrow> sup_ok e (sup_stop s) \<and> \<not> sv_running (sup_stop s)"
  by (auto simp: sup_stop_def sup_ok_def Running_def supervise_reap_def)

text \<open>An operation that succeeds was not refused and releases the lock.\<close>

abbreviation locked :: "bool \<Rightarrow> supervisor \<Rightarrow> supervisor" where
  "locked d s \<equiv> s\<lparr>sv_opMu := True, sv_desired := d\<rparr>"

lemma Start_Inr:
  assumes "Start e s = (Inr (), s')"
  obtains s2 where "sup_start e (locked True s) = (Inr (), s2)" "s' = s2\<lparr>sv_opMu := False\<rparr>"
proof (cases "sv_opMu s")
  case True
  then show ?thesis using assms by (simp add: Start_def acquireOp_def)
next
  case False
  obtain r s2 where r: "sup_start e (locked True s) = (r, s2)" by (cases "sup_start e (locked True s)")
  then have "r = Inr () \<and> s' = s2\<lparr>sv_opMu := False\<rparr>" using assms False by (simp add: Start_def acquireOp_def releaseOp_def)
  then show ?thesis using that r by simp
qed

lemma Stop_Inr: "Stop s = (Inr (), s') \<Longrightarrow> s' = (sup_stop (locked False s))\<lparr>sv_opMu := False\<rparr>"
  by (cases "sv_opMu s") (simp_all add: Stop_def acquireOp_def releaseOp_def)

lemma Restart_Inr:
  assumes "Restart e s = (Inr (), s')"
  obtains s2 where "sup_start e (sup_stop (locked True s)) = (Inr (), s2)" "s' = s2\<lparr>sv_opMu := False\<rparr>"
proof (cases "sv_opMu s")
  case True
  then show ?thesis using assms by (simp add: Restart_def acquireOp_def)
next
  case False
  obtain r s2 where r: "sup_start e (sup_stop (locked True s)) = (r, s2)" by (cases "sup_start e (sup_stop (locked True s))")
  then have "r = Inr () \<and> s' = s2\<lparr>sv_opMu := False\<rparr>" using assms False by (simp add: Restart_def acquireOp_def releaseOp_def)
  then show ?thesis using that r by simp
qed

lemma Reconnect_Inr: "Reconnect sig s = (Inr (), s') \<Longrightarrow> sv_running s \<and> s' = s\<lparr>sv_opMu := False\<rparr>"
  by (cases "sv_opMu s"; cases "sv_running s"; cases sig) (simp_all add: Reconnect_def acquireOp_def releaseOp_def Running_def)

lemma Start_ok:
  assumes "sup_ok e s" "Start e s = (Inr (), s')"
  shows "sup_ok e s' \<and> Pid s' \<noteq> 0 \<and> (Pid s = 0 \<or> Pid s' = Pid s)"
  using assms(2) by (rule Start_Inr) (use sup_start_ok [of e "locked True s"] assms(1) in simp)

lemma Stop_ok: "sup_ok e s \<Longrightarrow> Stop s = (Inr (), s') \<Longrightarrow> sup_ok e s' \<and> Pid s' = 0"
  using Stop_Inr [of s s'] sup_stop_ok [of e "locked False s"] by (simp add: Pid_def)

lemma Restart_ok:
  assumes "sup_ok e s" "Restart e s = (Inr (), s')"
  shows "sup_ok e s' \<and> Pid s' \<noteq> 0"
  using assms(2) by (rule Restart_Inr) (use sup_start_ok [of e "sup_stop (locked True s)"] sup_stop_ok [of e "locked True s"] assms(1) in simp)

lemma Reconnect_ok: "sup_ok e s \<Longrightarrow> Reconnect sig s = (Inr (), s') \<Longrightarrow> sup_ok e s' \<and> Pid s \<noteq> 0 \<and> Pid s' = Pid s"
  using Reconnect_Inr [of sig s s'] by (auto simp: sup_ok_def Pid_def)

lemma StartedAt_ok: "sup_ok e s \<Longrightarrow> StartedAt s \<noteq> None \<longleftrightarrow> Pid s \<noteq> 0"
  by (auto simp: StartedAt_def Pid_def sup_ok_def)

lemma supervisor_methods [simp]:
  "lc_Start (supervisor_lifecycle e sig) = Start e" "lc_Stop (supervisor_lifecycle e sig) = Stop"
  "lc_Restart (supervisor_lifecycle e sig) = Restart e" "lc_Reconnect (supervisor_lifecycle e sig) = Reconnect sig"
  "lc_Pid (supervisor_lifecycle e sig) = Pid" "lc_StartedAt (supervisor_lifecycle e sig) = StartedAt"
  by (simp_all add: supervisor_lifecycle_def)

interpretation sup: worker "supervisor_lifecycle e sig" "sup_ok e" for e sig
proof (unfold_locales, goal_cases)
  case (1 w w')
  then show ?case using Start_ok [of e w w'] by simp
next
  case (2 w w')
  then show ?case using Stop_ok [of e w w'] by simp
next
  case (3 w w')
  then show ?case using Restart_ok [of e w w'] by simp
next
  case (4 w w')
  then show ?case using Reconnect_ok [of e w sig w'] by simp
next
  case (5 w)
  then show ?case using StartedAt_ok [of e w] by simp
qed

subsection \<open>Bytes on the socket\<close>

text \<open>A text that neither trimming nor the line protocol changes: no newline, printable ASCII at both
  ends.\<close>

definition wire_ok :: "string \<Rightarrow> bool" where
  "wire_ok s \<longleftrightarrow> s \<noteq> [] \<and> LF \<notin> set s \<and> plain_c (hd s) \<and> plain_c (last s)"

lemma plain_space_len_rev_hd: "plain_c (hd s) \<Longrightarrow> space_len_rev s = 0"
  by (induction s rule: space_len_rev.induct) (auto simp: plain_c_def ascii_space_def space2_def space3_def)

lemma trim_space_edges: "s \<noteq> [] \<Longrightarrow> plain_c (hd s) \<Longrightarrow> plain_c (last s) \<Longrightarrow> trim_space s = s"
  using plain_space_len [of s] plain_space_len_rev_hd [of "rev s"]
  by (simp add: trim_space_def trim_left_space_id trim_right_rev_id hd_rev)

lemma trim_space_wire: "wire_ok s \<Longrightarrow> trim_space s = s"
  by (simp add: wire_ok_def trim_space_edges)

lemma space_len_LF: "space_len_rev (LF # s) = 1"
  by (cases s; cases "tl s") (simp_all add: ascii_space_def byte_of_def)

lemma trim_right_LF: "trim_right_rev (LF # s) = trim_right_rev s"
  by (subst trim_right_rev.simps) (simp add: space_len_LF)

lemma trim_space_NL: "wire_ok s \<Longrightarrow> trim_space (s @ NL) = s"
proof -
  assume w: "wire_ok s"
  then have "space_len (s @ NL) = 0" by (intro plain_space_len) (simp add: wire_ok_def)
  moreover have "trim_right_rev (rev s) = rev s"
    using w plain_space_len_rev_hd [of "rev s"] by (simp add: wire_ok_def hd_rev trim_right_rev_id)
  ultimately show ?thesis by (simp add: trim_space_def trim_left_space_id trim_right_LF)
qed

lemma space_len_blank: "space_len (CHR '' '' # s) = 1"
  by (cases s; cases "tl s") (simp_all add: ascii_space_def byte_of_def)

lemma trim_space_blank: "wire_ok s \<Longrightarrow> trim_space (CHR '' '' # s) = s"
proof -
  assume w: "wire_ok s"
  have "trim_left_space (CHR '' '' # s) = trim_left_space s"
    by (subst trim_left_space.simps) (simp add: space_len_blank)
  then show ?thesis using trim_space_wire [OF w] by (simp add: trim_space_def)
qed

lemma wire_ok_prefix: "wire_ok s \<Longrightarrow> wire_ok p \<Longrightarrow> wire_ok (p @ s)"
  by (auto simp: wire_ok_def)

lemma wire_ok_blank: "wire_ok s \<Longrightarrow> wire_ok p \<Longrightarrow> wire_ok (p @ '' '' @ s)"
  by (auto simp: wire_ok_def)

lemma wire_ok_itoa: "wire_ok (itoa n)"
proof -
  have "plain_c c" if "c \<in> set (itoa n)" for c using plain_itoa [of n] that by (simp add: list_all_iff)
  moreover have "\<not> plain_c LF" by (simp add: plain_c_def byte_of_def)
  ultimately show ?thesis by (auto simp: wire_ok_def)
qed

lemma wire_ok_name: "nameRe s \<Longrightarrow> wire_ok s"
proof -
  assume n: "nameRe s"
  have "plain_c c \<and> c \<noteq> LF" if "c \<in> set s" for c
    using name_c_safe [OF nameRe_name_c [OF n that]] by (simp add: plain_c_def)
  then show ?thesis using nameRe_nonempty [OF n] by (auto simp: wire_ok_def)
qed

text \<open>What the client makes of the replies.\<close>

lemma parse_response_OK: "wire_ok s \<Longrightarrow> parse_response (''OK '' @ s @ NL) = Inr s"
proof -
  assume w: "wire_ok s"
  have o: "wire_ok (''OK '' @ s)" using wire_ok_blank [OF w, of "''OK''"] by (simp add: wire_ok_def plain_c_def byte_of_def)
  have "cut_c LF (''OK '' @ s @ NL) = Some (''OK '' @ s, [])"
    using cut_c_append [of LF "''OK '' @ s" "[]"] o by (simp add: wire_ok_def)
  moreover have "trim_space ((''OK '' @ s) @ NL) = ''OK '' @ s" by (rule trim_space_NL [OF o])
  ultimately show ?thesis using trim_space_blank [OF w]
    by (simp add: parse_response_def Let_def has_prefix_def cut_prefix_def)
qed

lemma parse_response_bare_OK: "parse_response (''OK'' @ NL) = Inr []"
  by code_simp

lemma parse_response_ERR: "wire_ok s \<Longrightarrow> parse_response (''ERR '' @ s @ NL) = Inl (Remote s)"
proof -
  assume w: "wire_ok s"
  have o: "wire_ok (''ERR '' @ s)" using wire_ok_blank [OF w, of "''ERR''"] by (simp add: wire_ok_def plain_c_def byte_of_def)
  have "cut_c LF (''ERR '' @ s @ NL) = Some (''ERR '' @ s, [])"
    using cut_c_append [of LF "''ERR '' @ s" "[]"] o by (simp add: wire_ok_def)
  moreover have "trim_space ((''ERR '' @ s) @ NL) = ''ERR '' @ s" by (rule trim_space_NL [OF o])
  ultimately show ?thesis by (simp add: parse_response_def Let_def has_prefix_def trim_prefix_def)
qed

lemma request_reaches:
  "wire_ok op \<Longrightarrow> controlRequest (Some (serveControlConn J d)) op w
     = (parse_response (fst (control_op J d op w)), snd (control_op J d op w))"
  using cut_c_append [of LF op "[]"]
  by (simp add: controlRequest_def serveControlConn_def wire_ok_def trim_space_edges Let_def split: prod.split)

subsection \<open>Which handler a request reaches\<close>

lemma control_op_kill:
  assumes "CHR '' '' \<notin> set msg"
  shows "control_op J d (''kill '' @ msg @ '' '' @ cn) w = (case cd_Kill d cn msg w of
     (Inl e, w1) \<Rightarrow> (replyOK (Inl e), w1) | (Inr n, w1) \<Rightarrow> (''OK '' @ itoa n @ NL, w1))"
  using cut_c_append [OF assms, of cn] by (simp add: control_op_def cut_prefix_def has_prefix_def)

lemma control_op_assign: "control_op J d (''upstream-assign '' @ cn) w = reply_closure (cd_UpstreamRewrite d cn w)"
  by (simp add: control_op_def cut_prefix_def has_prefix_def)

lemma control_op_dns: "control_op J d (''dns-'' @ verb) w = reply_op (jc_result J) (RunOp (cd_started d) (cd_DNS d) verb False None w)"
  by (simp add: control_op_def cut_prefix_def has_prefix_def)

definition vpn_verbs :: "string list" where
  "vpn_verbs = [''status'', ''start'', ''stop'', ''restart'', ''reconnect'']"

lemma control_op_vpn:
  "verb \<in> set vpn_verbs \<Longrightarrow> control_op J d verb w = reply_op (jc_result J) (RunOp (cd_started d) (cd_VPN d) verb True (cd_UpstreamReapply d) w)"
  unfolding vpn_verbs_def list.set insert_iff empty_iff
  by (elim disjE; simp add: control_op_def cut_prefix_def has_prefix_def)

lemma wire_words: "wire_ok ''kill''" "wire_ok ''upstream-assign''" "wire_ok ''dns-''" "list_all wire_ok vpn_verbs"
  by code_simp+

text \<open>What the caller gets for the outcome of an operation: its report through the codec, or its error.\<close>

definition wire_outcome :: "json_codec \<Rightarrow> (ctl_error, control_result) result option \<Rightarrow> bool" where
  "wire_outcome J out = (case out of None \<Rightarrow> True
     | Some (Inl e) \<Rightarrow> wire_ok (err_text e)
     | Some (Inr r) \<Rightarrow> wire_ok (jc_result J r) \<and> jd_result J (jc_result J r) = Some r)"

definition seen_outcome :: "(ctl_error, control_result) result option \<Rightarrow> (request_error, control_result) result" where
  "seen_outcome out = (case out of None \<Rightarrow> Inl (Remote ''internal error'')
     | Some (Inl e) \<Rightarrow> Inl (Remote (err_text e)) | Some (Inr r) \<Rightarrow> Inr r)"

lemma decode_reply_op:
  assumes "wire_outcome J (fst x)"
  shows "decode_payload (jd_result J) (parse_response (fst (reply_op (jc_result J) x)), snd (reply_op (jc_result J) x)) = (seen_outcome (fst x), snd x)"
proof -
  obtain out w where x: "x = (out, w)" by (cases x)
  have p: "parse_response panic_reply = Inl (Remote ''internal error'')" by code_simp
  show ?thesis
  proof (cases out)
    case None
    then show ?thesis by (simp add: x reply_op_def p decode_payload_def seen_outcome_def)
  next
    case (Some r)
    show ?thesis
    proof (cases r)
      case (Inl e)
      then have "wire_ok (err_text e)" using assms Some by (simp add: x wire_outcome_def)
      then show ?thesis using parse_response_ERR [of "err_text e"] Some Inl
        by (simp add: x reply_op_def replyJSON_def decode_payload_def seen_outcome_def)
    next
      case (Inr v)
      then have "wire_ok (jc_result J v)" "jd_result J (jc_result J v) = Some v" using assms Some by (simp_all add: x wire_outcome_def)
      then show ?thesis using parse_response_OK [of "jc_result J v"] Some Inr
        by (simp add: x reply_op_def replyJSON_def decode_payload_def seen_outcome_def)
    qed
  qed
qed

lemma Control_req_vpn:
  assumes "verb \<in> set vpn_verbs" and "wire_outcome J (fst (RunOp (cd_started d) (cd_VPN d) verb True (cd_UpstreamReapply d) w))"
  shows "Control_req J (Some (serveControlConn J d)) verb w
    = (seen_outcome (fst (RunOp (cd_started d) (cd_VPN d) verb True (cd_UpstreamReapply d) w)),
       snd (RunOp (cd_started d) (cd_VPN d) verb True (cd_UpstreamReapply d) w))"
proof -
  have "wire_ok verb" using assms(1) wire_words(4) by (simp add: list_all_iff)
  then show ?thesis
    using control_op_vpn [OF assms(1), of J d w] decode_reply_op [OF assms(2)] request_reaches [of verb J d w]
    by (simp add: Control_req_def)
qed

lemma Control_req_dns:
  assumes "wire_ok verb" and "wire_outcome J (fst (RunOp (cd_started d) (cd_DNS d) verb False None w))"
  shows "Control_req J (Some (serveControlConn J d)) (''dns-'' @ verb) w
    = (seen_outcome (fst (RunOp (cd_started d) (cd_DNS d) verb False None w)), snd (RunOp (cd_started d) (cd_DNS d) verb False None w))"
  using control_op_dns [of J d verb w] decode_reply_op [OF assms(2)] request_reaches [OF wire_ok_prefix [OF assms(1) wire_words(3)], of J d w]
  by (simp add: Control_req_def)

lemma Kill_req_reaches:
  assumes "nameRe cn" and "msg = ''HALT'' \<or> msg = ''RESTART''" and "cd_Kill d cn msg w = (r, w1)"
    and "case r of Inl e \<Rightarrow> wire_ok e | Inr n \<Rightarrow> in_int64 n"
  shows "Kill_req (Some (serveControlConn J d)) cn msg w = (case r of Inl e \<Rightarrow> Inl (Remote e) | Inr n \<Rightarrow> Inr n, w1)"
proof -
  have "wire_ok msg" "CHR '' '' \<notin> set msg" using assms(2) by (auto simp: wire_ok_def plain_c_def byte_of_def)
  moreover have "wire_ok (''kill'' @ '' '' @ (msg @ '' '' @ cn))"
    by (rule wire_ok_blank [OF wire_ok_blank [OF wire_ok_name [OF assms(1)] \<open>wire_ok msg\<close>] wire_words(1)])
  ultimately show ?thesis
    using assms(3,4) control_op_kill [of msg J d cn w] request_reaches [of "''kill '' @ msg @ '' '' @ cn" J d w]
      parse_response_OK [OF wire_ok_itoa] parse_response_ERR
    by (cases r) (simp_all add: Kill_req_def decode_payload_def replyOK_def atoi_itoa)
qed

lemma Assign_req_reaches:
  assumes "nameRe cn" and "cd_UpstreamRewrite d cn w = (Some r, w1)" and "case r of Inl e \<Rightarrow> wire_ok e | Inr _ \<Rightarrow> True"
  shows "UpstreamAssign_req (Some (serveControlConn J d)) cn w = (case r of Inl e \<Rightarrow> Inl (Remote e) | Inr _ \<Rightarrow> Inr (), w1)"
proof -
  have "wire_ok (''upstream-assign'' @ '' '' @ cn)" by (rule wire_ok_blank [OF wire_ok_name [OF assms(1)] wire_words(2)])
  then show ?thesis
    using assms(2,3) control_op_assign [of J d cn w] request_reaches [of "''upstream-assign '' @ cn" J d w]
      parse_response_bare_OK parse_response_ERR
    by (cases r) (simp_all add: UpstreamAssign_req_def decode_payload_def reply_closure_def replyOK_def)
qed

subsection \<open>Properties\<close>

text \<open>The report of a lifecycle operation on a supervisor tells the truth: its pid is the pid afterwards,
  \<^verbatim>\<open>changed\<close> says whether the process is another one than before, a start time is given exactly while
  one runs; a successful start or restart leaves a process, a stop none, a status, a reconnect and the
  start of a running worker change nothing; an unknown verb is refused and nothing happens.\<close>

theorem RunOp_reports:
  assumes "sup_ok e s" and "\<forall>f. after = Some f \<longrightarrow> (\<forall>x. snd (f x) = x)"
    and "RunOp started (supervisor_lifecycle e sig) verb c after s = (Some out, s')"
  shows "case out of
      Inl UnknownOp \<Rightarrow> (verb \<notin> set vpn_verbs \<or> verb = ''reconnect'' \<and> \<not> c) \<longrightarrow> s' = s
    | Inl _ \<Rightarrow> verb \<in> set vpn_verbs
    | Inr r \<Rightarrow> cr_Pid r = Pid s' \<and> (cr_Changed r \<longleftrightarrow> Pid s' \<noteq> Pid s) \<and> (cr_StartedAt r = None \<longleftrightarrow> Pid s' = 0)
        \<and> (verb \<in> {''start'', ''restart''} \<longrightarrow> Pid s' \<noteq> 0) \<and> (verb = ''stop'' \<longrightarrow> Pid s' = 0)
        \<and> (verb \<in> {''status'', ''reconnect''} \<or> verb = ''start'' \<and> Pid s \<noteq> 0 \<longrightarrow> \<not> cr_Changed r)
        \<and> verb \<in> set vpn_verbs"
proof (cases out)
  case (Inr r)
  note rep = sup.run_op_report [where e = e and w = s and after = after and started = started and sig = sig
      and verb = verb and c = c and r = r and w' = s', OF assms(1,2) assms(3) [unfolded Inr]]
  then have "run_verb (supervisor_lifecycle e sig) verb c s = Some (Inr (), s')" by blast
  moreover from this have "verb \<in> set vpn_verbs" by (auto simp: run_verb_def vpn_verbs_def split: if_splits)
  ultimately show ?thesis using rep sup.run_verb_effect [OF assms(1), of sig verb c s'] Inr by auto
next
  case (Inl err)
  show ?thesis
  proof (cases "run_verb (supervisor_lifecycle e sig) verb c s")
    case None
    then show ?thesis using assms(3) Inl by (auto simp: RunOp_def)
  next
    case (Some p)
    then have "verb \<in> set vpn_verbs" "\<not> (verb = ''reconnect'' \<and> \<not> c)" by (auto simp: run_verb_def vpn_verbs_def split: if_splits)
    then show ?thesis using Inl by (cases err) auto
  qed
qed

definition demo_sup :: supervisor where
  "demo_sup = sup_fresh ''dnsmasq'' ''/usr/sbin/dnsmasq'' [] 0 0 0"

definition demo_env :: launch_env where
  "demo_env = \<lparr>le_PreStart = None, le_launch = Launched 7, le_now = 9\<rparr>"

definition demo_report :: control_result where
  "demo_report = \<lparr>cr_Pid = 7, cr_Changed = True, cr_StartedAt = Some 9, cr_ServeStartedAt = Some 5\<rparr>"

lemma demo_restart:
  "RunOp 5 (supervisor_lifecycle demo_env True) ''restart'' True None demo_sup
    = (Some (Inr demo_report), snd (Restart demo_env demo_sup))"
  by code_simp

theorem RunOp_reports_witness:
  "cr_Changed demo_report \<longleftrightarrow> Pid (snd (Restart demo_env demo_sup)) \<noteq> Pid demo_sup"
proof -
  have "sup_ok demo_env demo_sup" by (simp add: sup_ok_def env_ok_def demo_env_def demo_sup_def sup_fresh_def)
  from RunOp_reports [OF this _ demo_restart] show ?thesis by simp
qed

text \<open>C18: the control socket is transparent: a request that the CLI makes reaches exactly the operation it
  names with the arguments it names, and the caller gets that operation's outcome: kills and reassignments
  of a client whose name \<^verbatim>\<open>CheckName\<close> accepts, and every lifecycle verb of openvpn and dnsmasq, for
  reports and error texts that are single lines; with no server the request fails and nothing happens.\<close>

theorem control_socket_transparent:
  fixes J :: json_codec and d :: "'w control_deps"
  defines "srv \<equiv> Some (serveControlConn J d)"
  assumes "nameRe cn" and "msg = ''HALT'' \<or> msg = ''RESTART''"
    and "cd_Kill d cn msg w = (rk, wk)" and "case rk of Inl e \<Rightarrow> wire_ok e | Inr n \<Rightarrow> in_int64 n"
    and "cd_UpstreamRewrite d cn w = (Some ru, wu)" and "case ru of Inl e \<Rightarrow> wire_ok e | Inr _ \<Rightarrow> True"
    and "verb \<in> set vpn_verbs"
    and "RunOp (cd_started d) (cd_VPN d) verb True (cd_UpstreamReapply d) w = (rv, wv)" and "wire_outcome J rv"
    and "RunOp (cd_started d) (cd_DNS d) verb False None w = (rd, wd)" and "wire_outcome J rd"
  shows "Kill_req srv cn msg w = (case rk of Inl e \<Rightarrow> Inl (Remote e) | Inr n \<Rightarrow> Inr n, wk)
    \<and> UpstreamAssign_req srv cn w = (case ru of Inl e \<Rightarrow> Inl (Remote e) | Inr _ \<Rightarrow> Inr (), wu)
    \<and> Control_req J srv verb w = (seen_outcome rv, wv)
    \<and> Control_req J srv (''dns-'' @ verb) w = (seen_outcome rd, wd)
    \<and> Control_req J None verb w = (Inl ServeDown, w)"
proof -
  have "wire_ok verb" using assms(8) wire_words(4) by (simp add: list_all_iff)
  then show ?thesis
    using Kill_req_reaches [OF assms(2-5), of J] Assign_req_reaches [OF assms(2,6,7), of J]
      Control_req_vpn [OF assms(8), of J d w] Control_req_dns [of verb J d w] assms(9-12)
    by (simp add: srv_def) (simp add: Control_req_def controlRequest_def decode_payload_def)
qed

text \<open>Two workers, a codec for the one report of the example, a kill that reaches two sessions.\<close>

definition demo_codec :: json_codec where
  "demo_codec = \<lparr>jc_result = (\<lambda>_. ''{}''), jd_result = (\<lambda>_. Some demo_report), jc_clients = (\<lambda>_. ''[]''), jd_clients = (\<lambda>_. Some []),
     jc_telegram = (\<lambda>_. ''{}''), jd_telegram = (\<lambda>_. None)\<rparr>"

definition demo_deps :: "supervisor control_deps" where
  "demo_deps = \<lparr>cd_started = 5, cd_VPN = supervisor_lifecycle demo_env True, cd_DNS = supervisor_lifecycle demo_env True,
     cd_Kill = (\<lambda>cn msg w. (Inr 2, w)), cd_Status = (\<lambda>w. Inr []), cd_Level = (\<lambda>_ w. w),
     cd_Telegram = \<lparr>tc_Start = (\<lambda>w. (Inr (), w)), tc_Stop = (\<lambda>w. (Inr (), w)), tc_Restart = (\<lambda>w. (Inr (), w)),
       tc_Status = (\<lambda>w. \<lparr>tg_Running = False, tg_TokenSet = False, tg_Admin = [], tg_ChatLinked = False, tg_Changed = False\<rparr>)\<rparr>,
     cd_UpstreamRewrite = (\<lambda>cn w. (Some (Inr ()), w)), cd_UpstreamReapply = None\<rparr>"

theorem control_socket_transparent_witness:
  "Kill_req (Some (serveControlConn demo_codec demo_deps)) ''alice'' ''HALT'' demo_sup = (Inr 2, demo_sup)
   \<and> Control_req demo_codec (Some (serveControlConn demo_codec demo_deps)) ''restart'' demo_sup
       = (Inr demo_report, snd (Restart demo_env demo_sup))"
proof -
  have n: "nameRe ''alice''" "''restart'' \<in> set vpn_verbs" "in_int64 2" by code_simp+
  have w: "wire_outcome demo_codec (Some (Inr demo_report))"
    by (simp add: wire_outcome_def demo_codec_def wire_ok_def plain_c_def byte_of_def)
  have v: "RunOp (cd_started demo_deps) (cd_VPN demo_deps) ''restart'' True (cd_UpstreamReapply demo_deps) demo_sup
      = (Some (Inr demo_report), snd (Restart demo_env demo_sup))"
    using demo_restart by (simp add: demo_deps_def)
  have dn: "RunOp (cd_started demo_deps) (cd_DNS demo_deps) ''restart'' False None demo_sup
      = (Some (Inr demo_report), snd (Restart demo_env demo_sup))"
    by code_simp
  show ?thesis
    using control_socket_transparent [OF n(1) _ _ _ _ _ n(2) v w dn w, of "''HALT''" "Inr 2" demo_sup "Inr ()" demo_sup] n(3)
    by (simp add: demo_deps_def seen_outcome_def)
qed

end
