(* ===== verification/Mgmt_Props.thy ===== *)
theory Mgmt_Props
  imports Mgmt
begin

section \<open>The management connection: no torn read, one reaction per event, every session killed\<close>

text \<open>
  The status file against the text openvpn writes, cut at any byte; the notifications against a printer of the
  protocol; the client-kill loop.
\<close>

subsection \<open>Lines\<close>

definition no_eol :: "string \<Rightarrow> bool" where
  "no_eol s \<longleftrightarrow> LF \<notin> set s \<and> CR \<notin> set s"

lemma trim_crlf_id: "no_eol s \<Longrightarrow> trim_crlf s = s"
  by (cases s rule: rev_cases) (auto simp: trim_crlf_def no_eol_def)

definition text_of :: "string list \<Rightarrow> string" where
  "text_of ls = concat (map (\<lambda>l. l @ NL) ls)"

lemma split_c_text: "\<forall>l \<in> set ls. LF \<notin> set l \<Longrightarrow> split_c LF (text_of ls) = ls @ [[]]"
  by (induction ls) (simp_all add: text_of_def split_c_append)

lemma file_lines_text: "\<forall>l \<in> set ls. LF \<notin> set l \<Longrightarrow> file_lines (text_of ls) = ls"
  by (simp add: file_lines_def split_c_text)

text \<open>A file cut short at any byte has lost at least its last line.\<close>

lemma file_lines_torn:
  "\<forall>l \<in> set ls. LF \<notin> set l \<Longrightarrow> n < length (text_of ls) \<Longrightarrow> \<exists>k < length ls. file_lines (take n (text_of ls)) = take k ls"
proof (induction ls arbitrary: n)
  case (Cons l ls)
  show ?case
  proof (cases "n \<le> length l")
    case True
    then have "take n (text_of (l # ls)) = take n l" by (simp add: text_of_def)
    moreover have "split_c LF (take n l) = [take n l]"
      using Cons.prems(1) by (intro split_c_absent) (auto dest: in_set_takeD)
    ultimately show ?thesis by (intro exI [of _ 0]) (simp add: file_lines_def)
  next
    case False
    then obtain m where m: "n = Suc (length l) + m" using less_eqE by (metis Suc_leI not_le)
    then have t: "take n (text_of (l # ls)) = l @ LF # take m (text_of ls)" by (simp add: text_of_def)
    have "m < length (text_of ls)" using Cons.prems(2) m by (simp add: text_of_def)
    then obtain k where k: "k < length ls" "file_lines (take m (text_of ls)) = take k ls"
      using Cons.IH Cons.prems(1) by auto
    have "file_lines (take n (text_of (l # ls))) = l # file_lines (take m (text_of ls))"
      using Cons.prems(1) by (simp add: t file_lines_def split_c_append)
    then show ?thesis using k by (intro exI [of _ "Suc k"]) simp
  qed
qed (simp add: text_of_def)

subsection \<open>Counters\<close>

lemma digits_val_ge: "n \<le> digits_val n s"
  by (induction s arbitrary: n) (simp, metis digits_val.simps(2) le_add1 le_trans mult_le_mono1 mult.commute nat_mult_1_right one_le_numeral)

lemma parse_uint_digits:
  "list_all is_digit_c s \<Longrightarrow> int (digits_val n s) \<le> uint64_max \<Longrightarrow> parse_uint_from (int n) s = int (digits_val n s)"
proof (induction s arbitrary: n)
  case (Cons c s)
  have le: "int (10 * n + digit_val c) \<le> uint64_max"
    using Cons.prems(2) digits_val_ge [of "10 * n + digit_val c" s] by simp
  then have "int n < uint64_max div 10 + 1" by simp
  moreover have "parse_uint_from (int (10 * n + digit_val c)) s = int (digits_val (10 * n + digit_val c) s)"
    by (rule Cons.IH) (use Cons.prems in simp_all)
  ultimately show ?case using Cons.prems(1) le by (simp add: mult.commute)
qed simp

lemma parse_uint64_itoa: "0 \<le> n \<Longrightarrow> n \<le> uint64_max \<Longrightarrow> parse_uint64 (itoa n) = n"
  using parse_uint_digits [of "nat_str (nat n)" 0]
  by (simp add: parse_uint64_def itoa_def nat_str_digits digits_val_nat_str)

subsection \<open>Status rows\<close>

text \<open>A client as openvpn writes its row; the columns the parser does not read are \<open>v6\<close>, \<open>since\<close>,
  \<open>user\<close> and \<open>peer\<close>.\<close>

definition field_ok :: "string \<Rightarrow> bool" where
  "field_ok s \<longleftrightarrow> no_eol s \<and> TAB \<notin> set s"

definition row_of :: "string \<Rightarrow> string \<Rightarrow> string \<Rightarrow> string \<Rightarrow> vpn_client \<Rightarrow> string" where
  "row_of v6 since user peer v = join_s [TAB] [''CLIENT_LIST'', vc_CN v, vc_RealAddress v, vc_VirtualAddress v, v6,
     itoa (vc_BytesRecv v), itoa (vc_BytesSent v), since,
     (case vc_ConnectedSince v of None \<Rightarrow> [] | Some t \<Rightarrow> itoa t), user, vc_CID v, peer, vc_Cipher v]"

definition client_ok :: "vpn_client \<Rightarrow> bool" where
  "client_ok v \<longleftrightarrow> field_ok (vc_CN v) \<and> field_ok (vc_RealAddress v) \<and> field_ok (vc_VirtualAddress v) \<and> field_ok (vc_CID v)
     \<and> field_ok (vc_Cipher v) \<and> 0 \<le> vc_BytesRecv v \<and> vc_BytesRecv v \<le> uint64_max \<and> 0 \<le> vc_BytesSent v \<and> vc_BytesSent v \<le> uint64_max
     \<and> (case vc_ConnectedSince v of None \<Rightarrow> True | Some t \<Rightarrow> in_int64 t)"

lemma field_ok_itoa: "field_ok (itoa n)"
  using set_itoa [of _ n] by (fastforce simp: field_ok_def no_eol_def is_digit_c_def byte_of_def)

lemma field_ok_since: "field_ok (case t of None \<Rightarrow> [] | Some x \<Rightarrow> itoa x)"
  using field_ok_itoa by (auto simp: field_ok_def no_eol_def split: option.splits)

lemma join_no_eol: "\<forall>x \<in> set xs. no_eol x \<Longrightarrow> no_eol (join_s [TAB] xs)"
  by (induction xs rule: induct_list012) (auto simp: no_eol_def)

lemma row_fields:
  assumes "client_ok v" "field_ok v6" "field_ok since" "field_ok user" "field_ok peer"
  shows "\<forall>x \<in> set [''CLIENT_LIST'', vc_CN v, vc_RealAddress v, vc_VirtualAddress v, v6,
     itoa (vc_BytesRecv v), itoa (vc_BytesSent v), since,
     (case vc_ConnectedSince v of None \<Rightarrow> [] | Some t \<Rightarrow> itoa t), user, vc_CID v, peer, vc_Cipher v]. field_ok x"
  using assms field_ok_itoa field_ok_since by (simp add: client_ok_def) (simp add: field_ok_def no_eol_def)

lemma client_row_of:
  assumes "client_ok v" "field_ok v6" "field_ok since" "field_ok user" "field_ok peer"
  shows "client_row (row_of v6 since user peer v) = Some v"
proof -
  have "split_c TAB (row_of v6 since user peer v) = [''CLIENT_LIST'', vc_CN v, vc_RealAddress v, vc_VirtualAddress v, v6,
     itoa (vc_BytesRecv v), itoa (vc_BytesSent v), since,
     (case vc_ConnectedSince v of None \<Rightarrow> [] | Some t \<Rightarrow> itoa t), user, vc_CID v, peer, vc_Cipher v]"
    unfolding row_of_def by (rule split_join) (use row_fields [OF assms] in \<open>auto simp: field_ok_def\<close>)
  moreover have "atoi (case vc_ConnectedSince v of None \<Rightarrow> [] | Some t \<Rightarrow> itoa t) = vc_ConnectedSince v"
  proof (cases "vc_ConnectedSince v")
    case None
    then show ?thesis by (simp add: atoi_def)
  next
    case (Some t)
    then show ?thesis using assms(1) by (simp add: client_ok_def atoi_itoa)
  qed
  ultimately show ?thesis using assms(1)
    by (simp add: client_row_def Let_def client_ok_def parse_uint64_itoa eval_nat_numeral)
qed

lemma row_of_line:
  assumes "client_ok v" "field_ok v6" "field_ok since" "field_ok user" "field_ok peer"
  shows "no_eol (row_of v6 since user peer v)" "row_of v6 since user peer v \<noteq> ''END''"
    "has_prefix (row_of v6 since user peer v) (''CLIENT_LIST'' @ [TAB])"
proof -
  show "no_eol (row_of v6 since user peer v)"
    unfolding row_of_def by (rule join_no_eol) (use row_fields [OF assms] in \<open>auto simp: field_ok_def\<close>)
qed (simp_all add: row_of_def has_prefix_def)

text \<open>A status file: rows of clients among lines of other kinds, then END.\<close>

datatype status_line = Row string string string string vpn_client | Other string

fun line_text :: "status_line \<Rightarrow> string" where
  "line_text (Row v6 since user peer v) = row_of v6 since user peer v"
| "line_text (Other l) = l"

fun line_ok :: "status_line \<Rightarrow> bool" where
  "line_ok (Row v6 since user peer v) = (client_ok v \<and> field_ok v6 \<and> field_ok since \<and> field_ok user \<and> field_ok peer)"
| "line_ok (Other l) = (no_eol l \<and> l \<noteq> ''END'' \<and> \<not> has_prefix l (''CLIENT_LIST'' @ [TAB]))"

fun row_clients :: "status_line list \<Rightarrow> vpn_client list" where
  "row_clients [] = []"
| "row_clients (Row v6 since user peer v # ls) = v # row_clients ls"
| "row_clients (Other l # ls) = row_clients ls"

lemma line_ok_no_eol: "line_ok x \<Longrightarrow> no_eol (line_text x) \<and> line_text x \<noteq> ''END''"
  by (cases x) (auto dest: row_of_line)

lemma parse_status_rows:
  "\<forall>x \<in> set xs. line_ok x \<Longrightarrow> parse_status out (map line_text xs @ ''END'' # r) = Inr (out @ row_clients xs, r)"
proof (induction xs arbitrary: out)
  case Nil
  then show ?case by (simp add: trim_crlf_id no_eol_def)
next
  case (Cons x xs)
  have e: "trim_crlf (line_text x) = line_text x" "line_text x \<noteq> ''END''"
    using Cons.prems line_ok_no_eol [of x] trim_crlf_id by auto
  show ?case
  proof (cases x)
    case (Row v6 since user peer v)
    then show ?thesis using Cons e row_of_line [of v v6 since user peer] client_row_of [of v v6 since user peer] by simp
  next
    case (Other l)
    then show ?thesis using Cons e by simp
  qed
qed

lemma parse_status_no_END: "\<forall>l \<in> set ls. trim_crlf l \<noteq> ''END'' \<Longrightarrow> parse_status out ls = Inl TornRead"
  by (induction ls arbitrary: out) (simp_all add: Let_def split: option.split)

definition status_text :: "status_line list \<Rightarrow> string" where
  "status_text xs = text_of (map line_text xs @ [''END''])"

lemma status_lines_LF: "\<forall>x \<in> set xs. line_ok x \<Longrightarrow> \<forall>l \<in> set (map line_text xs @ [''END'']). LF \<notin> set l"
  using line_ok_no_eol by (auto simp: no_eol_def)

subsection \<open>The event stream\<close>

text \<open>What openvpn writes: client notifications with their environment block, other notices and reply
  lines of commands.\<close>

datatype notice =
    NConnect bool string string "(string \<times> string) list"
  | NEstablished string "(string \<times> string) list"
  | NDisconnect string "(string \<times> string) list"
  | NNotice string
  | NReply string

definition env_lines :: "(string \<times> string) list \<Rightarrow> string list" where
  "env_lines kvs = map (\<lambda>(k, v). ''>CLIENT:ENV,'' @ k @ ''='' @ v) kvs @ [''>CLIENT:ENV,END'']"

fun notice_lines :: "notice \<Rightarrow> string list" where
  "notice_lines (NConnect re cid kid env) =
     ((if re then ''>CLIENT:REAUTH,'' else ''>CLIENT:CONNECT,'') @ cid @ '','' @ kid) # env_lines env"
| "notice_lines (NEstablished cid env) = (''>CLIENT:ESTABLISHED,'' @ cid) # env_lines env"
| "notice_lines (NDisconnect cid env) = (''>CLIENT:DISCONNECT,'' @ cid) # env_lines env"
| "notice_lines (NNotice l) = [CHR ''>'' # l]"
| "notice_lines (NReply l) = [l]"

definition env_of :: "(string \<times> string) list \<Rightarrow> (string \<rightharpoonup> string)" where
  "env_of kvs = map_of (rev kvs)"

fun notice_events :: "notice \<Rightarrow> mgmt_event list" where
  "notice_events (NConnect re cid kid env) = [Approve cid kid]"
| "notice_events (NEstablished cid env) =
     [Established cid (env_get (env_of env) ''common_name'') (env_get (env_of env) ''ifconfig_pool_remote_ip'')]"
| "notice_events (NDisconnect cid env) = [Disconnected cid]"
| "notice_events (NNotice l) = []"
| "notice_events (NReply l) = [Reply l]"

definition env_ok :: "(string \<times> string) list \<Rightarrow> bool" where
  "env_ok kvs \<longleftrightarrow> (\<forall>(k, v) \<in> set kvs. no_eol k \<and> no_eol v \<and> CHR ''='' \<notin> set k)"

fun notice_ok :: "notice \<Rightarrow> bool" where
  "notice_ok (NConnect re cid kid env) = (no_eol cid \<and> no_eol kid \<and> CHR '','' \<notin> set cid \<and> env_ok env)"
| "notice_ok (NEstablished cid env) = (no_eol cid \<and> env_ok env)"
| "notice_ok (NDisconnect cid env) = (no_eol cid \<and> env_ok env)"
| "notice_ok (NNotice l) = (no_eol l \<and> \<not> has_prefix l ''CLIENT:'')"
| "notice_ok (NReply l) = (no_eol l \<and> \<not> has_prefix l ''>'')"

lemma no_eol_append [simp]: "no_eol (a @ b) \<longleftrightarrow> no_eol a \<and> no_eol b"
  by (auto simp: no_eol_def)

lemma no_eol_Cons [simp]: "no_eol (c # s) \<longleftrightarrow> c \<noteq> LF \<and> c \<noteq> CR \<and> no_eol s" "no_eol []"
  by (auto simp: no_eol_def)

lemma cut_env: "cut_prefix (''>CLIENT:ENV,'' @ s) ''>CLIENT:ENV,'' = Some s"
  by (rule cut_prefix_append)

lemma read_env_block:
  "env_ok kvs \<Longrightarrow> read_env m (env_lines kvs @ r) = (Inr (m ++ env_of kvs), r)"
proof (induction kvs arbitrary: m)
  case Nil
  have "trim_crlf ''>CLIENT:ENV,END'' = ''>CLIENT:ENV,END''" by (simp add: trim_crlf_id)
  then show ?case by (simp add: env_lines_def env_of_def cut_prefix_def has_prefix_def)
next
  case (Cons kv kvs)
  obtain k v where kv: "kv = (k, v)" by (cases kv)
  have ok: "no_eol k" "no_eol v" "CHR ''='' \<notin> set k" "env_ok kvs" using Cons.prems by (auto simp: env_ok_def kv)
  have t: "trim_crlf (''>CLIENT:ENV,'' @ k @ ''='' @ v) = ''>CLIENT:ENV,'' @ (k @ ''='' @ v)"
    using ok by (simp add: trim_crlf_id)
  have ne: "k @ ''='' @ v \<noteq> ''END''"
  proof
    assume "k @ ''='' @ v = ''END''"
    then have "CHR ''='' \<in> set ''END''" by (metis in_set_conv_decomp append_Cons append_Nil)
    then show False by simp
  qed
  have "read_env m (env_lines (kv # kvs) @ r) = read_env m ((''>CLIENT:ENV,'' @ k @ ''='' @ v) # env_lines kvs @ r)"
    by (simp add: env_lines_def kv)
  also have "\<dots> = read_env (m(k \<mapsto> v)) (env_lines kvs @ r)"
    using ne ok(3) by (subst read_env.simps) (simp add: t [simplified] cut_env [simplified] cut_c_append Let_def)
  also have "\<dots> = (Inr (m(k \<mapsto> v) ++ env_of kvs), r)" by (rule Cons.IH [OF ok(4)])
  also have "m(k \<mapsto> v) ++ env_of kvs = m ++ env_of (kv # kvs)"
    by (simp add: env_of_def kv map_add_def fun_eq_iff split: option.split)
  finally show ?case .
qed

lemma readClientEnv_block: "env_ok kvs \<Longrightarrow> readClientEnv (env_lines kvs @ r) = (Inr (env_of kvs), r)"
  using read_env_block [of kvs Map.empty r] by (simp add: readClientEnv_def)

lemma dispatch_notice:
  assumes "notice_ok n"
  shows "\<exists>l ls. notice_lines n = l # ls \<and> dispatch l (ls @ r) = (notice_events n, r)"
proof (cases n)
  case (NConnect re cid kid env)
  have c: "cut_c CHR '','' (cid @ CHR '','' # kid) = Some (cid, kid)" using assms NConnect by (simp add: cut_c_append)
  have "trim_crlf (''>CLIENT:REAUTH,'' @ cid @ '','' @ kid) = ''>CLIENT:REAUTH,'' @ cid @ '','' @ kid"
    "trim_crlf (''>CLIENT:CONNECT,'' @ cid @ '','' @ kid) = ''>CLIENT:CONNECT,'' @ cid @ '','' @ kid"
    using assms NConnect by (intro trim_crlf_id, simp)+
  note h = this [simplified]
  show ?thesis
  proof (cases re)
    case True
    then show ?thesis using assms
      by (simp add: NConnect dispatch_def h(1) handleConnect_def has_prefix_def c readClientEnv_block)
  next
    case False
    then show ?thesis using assms
      by (simp add: NConnect dispatch_def h(2) handleConnect_def has_prefix_def c readClientEnv_block)
  qed
next
  case (NEstablished cid env)
  then have h: "trim_crlf (''>CLIENT:ESTABLISHED,'' @ cid) = ''>CLIENT:ESTABLISHED,'' @ cid" using assms by (intro trim_crlf_id) simp
  show ?thesis using assms
    by (simp add: NEstablished dispatch_def h [simplified] handleEstablished_def has_prefix_def readClientEnv_block)
next
  case (NDisconnect cid env)
  then have h: "trim_crlf (''>CLIENT:DISCONNECT,'' @ cid) = ''>CLIENT:DISCONNECT,'' @ cid" using assms by (intro trim_crlf_id) simp
  show ?thesis using assms
    by (simp add: NDisconnect dispatch_def h [simplified] handleDisconnect_def has_prefix_def readClientEnv_block)
next
  case (NNotice l)
  then have h: "trim_crlf (CHR ''>'' # l) = CHR ''>'' # l" using assms by (intro trim_crlf_id) simp
  have np: "take (length p) l \<noteq> p" if "p = ''CLIENT:'' @ q" for p q
  proof
    assume "take (length p) l = p"
    then have "take 7 (take (length p) l) = take 7 p" by simp
    then show False using assms NNotice that by (simp add: has_prefix_def min_def eval_nat_numeral split: if_splits)
  qed
  show ?thesis
    using np [of "''CLIENT:CONNECT,''" "''CONNECT,''"] np [of "''CLIENT:REAUTH,''" "''REAUTH,''"]
      np [of "''CLIENT:ESTABLISHED,''" "''ESTABLISHED,''"] np [of "''CLIENT:DISCONNECT,''" "''DISCONNECT,''"]
    by (simp add: NNotice dispatch_def h has_prefix_def)
next
  case (NReply l)
  then have h: "trim_crlf l = l" using assms by (intro trim_crlf_id) simp
  have "l = [] \<or> (\<exists>c t. l = c # t \<and> c \<noteq> CHR ''>'')" using assms NReply by (cases l) (auto simp: has_prefix_def)
  then show ?thesis using h by (auto simp: NReply dispatch_def has_prefix_def)
qed

lemma readLoop_stream:
  "\<forall>n \<in> set ns. notice_ok n \<Longrightarrow> readLoop (concat (map notice_lines ns)) = concat (map notice_events ns)"
proof (induction ns)
  case Nil
  then show ?case by (simp add: readLoop.simps)
next
  case (Cons n ns)
  obtain l ls where l: "notice_lines n = l # ls"
      "dispatch l (ls @ concat (map notice_lines ns)) = (notice_events n, concat (map notice_lines ns))"
    using dispatch_notice [of n "concat (map notice_lines ns)"] Cons.prems by auto
  then show ?case using Cons by (subst readLoop.simps) simp
qed

subsection \<open>Kill\<close>

text \<open>A peer that answers every kill of a session with SUCCESS.\<close>

definition kills_ok :: "'p mgmt_peer \<Rightarrow> string \<Rightarrow> bool" where
  "kills_ok P msg \<longleftrightarrow> (\<forall>cid p. \<exists>r p'. mp_send P (kill_cmd cid msg) p = (Some (''SUCCESS: client-kill command succeeded'' # r), p'))"

lemma simple_cmd_ok:
  assumes "kills_ok P msg" "mc_live c"
  shows "\<exists>p. simple_cmd P (kill_cmd cid msg) c = (Inr (), c\<lparr>mc_peer := p, mc_sent := mc_sent c @ [kill_cmd cid msg]\<rparr>)"
proof -
  obtain r p where "mp_send P (kill_cmd cid msg) (mc_peer c) = (Some (''SUCCESS: client-kill command succeeded'' # r), p)"
    using assms(1) unfolding kills_ok_def by blast
  moreover have "trim_crlf ''SUCCESS: client-kill command succeeded'' = ''SUCCESS: client-kill command succeeded''"
    by (simp add: trim_crlf_id)
  ultimately show ?thesis using assms(2)
    by (intro exI [of _ p]) (simp add: simple_cmd_def exec_def numeral_2_eq_2 tryExec_def mgmt_write_def has_prefix_def)
qed

lemma kill_each_ok:
  "kills_ok P msg \<Longrightarrow> mc_live c \<Longrightarrow> \<exists>c'. kill_each P cn msg n vs c = (n + int (length (filter (\<lambda>v. vc_CN v = cn) vs)), None, c')
     \<and> mc_sent c' = mc_sent c @ map (\<lambda>v. kill_cmd (vc_CID v) msg) (filter (\<lambda>v. vc_CN v = cn) vs)"
proof (induction vs arbitrary: n c)
  case (Cons v vs)
  show ?case
  proof (cases "vc_CN v = cn")
    case True
    obtain p where p: "simple_cmd P (kill_cmd (vc_CID v) msg) c = (Inr (), c\<lparr>mc_peer := p, mc_sent := mc_sent c @ [kill_cmd (vc_CID v) msg]\<rparr>)"
      using simple_cmd_ok [OF Cons.prems] by blast
    let ?c = "c\<lparr>mc_peer := p, mc_sent := mc_sent c @ [kill_cmd (vc_CID v) msg]\<rparr>"
    obtain c' where "kill_each P cn msg (n + 1) vs ?c = (n + 1 + int (length (filter (\<lambda>v. vc_CN v = cn) vs)), None, c')"
      "mc_sent c' = mc_sent ?c @ map (\<lambda>v. kill_cmd (vc_CID v) msg) (filter (\<lambda>v. vc_CN v = cn) vs)"
      using Cons.IH [OF Cons.prems(1), of ?c "n + 1"] Cons.prems(2) by auto
    then show ?thesis using p True by simp
  next
    case False
    then show ?thesis using Cons by simp
  qed
qed simp

lemma exec_status:
  assumes "mc_live c" "mp_send P ''status 3'' (mc_peer c) = (Some r, p)" "parseStatusFile r = Inr (l, r')"
  shows "exec P ''status 3'' status_reply c = (Inr l, c\<lparr>mc_sent := mc_sent c @ [''status 3''], mc_peer := p\<rparr>)"
  using assms by (simp add: exec_def numeral_2_eq_2 tryExec_def mgmt_write_def status_reply_def)

text \<open>At most two attempts: an I/O failure is retried once, an answer of openvpn never.\<close>

lemma exec_attempts:
  assumes "\<And>c. fst (tryExec P cmd parse c) = Inl e" "\<not> is_app_err e"
  shows "fst (exec P cmd parse c) = Inl e \<and> mc_live (snd (exec P cmd parse c)) = False"
proof -
  obtain c1 where c1: "tryExec P cmd parse c = (Inl e, c1)" using assms(1) [of c] by (cases "tryExec P cmd parse c") auto
  obtain c2 where "tryExec P cmd parse (mgmt_drop c1) = (Inl e, c2)"
    using assms(1) [of "mgmt_drop c1"] by (cases "tryExec P cmd parse (mgmt_drop c1)") auto
  then show ?thesis using c1 assms(2) by (simp add: exec_def numeral_2_eq_2 mgmt_drop_def)
qed

lemma exec_app_err_once:
  "tryExec P cmd parse c = (Inl (AppErr m), c') \<Longrightarrow> exec P cmd parse c = (Inl (AppErr m), c')"
  by (simp add: exec_def numeral_2_eq_2 is_app_err_def)

subsection \<open>Properties\<close>

text \<open>C19: a status file gives all its clients or an error: what openvpn writes for a list of clients, among
  lines of other kinds, is read back as exactly those clients in their order, counters and start times
  included; the same file cut short at any byte is a torn read, never a shorter list.\<close>

theorem status_all_or_nothing:
  assumes "\<forall>x \<in> set xs. line_ok x"
  shows "Status_mgmt (Some (status_text xs)) = Inr (row_clients xs)
    \<and> (\<forall>n < length (status_text xs). Status_mgmt (Some (take n (status_text xs))) = Inl TornRead)"
proof (intro conjI)
  show "Status_mgmt (Some (status_text xs)) = Inr (row_clients xs)"
    using parse_status_rows [OF assms, of "[]" "[]"] file_lines_text [OF status_lines_LF [OF assms]]
    by (simp add: Status_mgmt_def status_text_def parseStatusFile_def)
  show "\<forall>n < length (status_text xs). Status_mgmt (Some (take n (status_text xs))) = Inl TornRead"
  proof (intro allI impI)
    fix n assume "n < length (status_text xs)"
    then obtain k where k: "k < length (map line_text xs @ [''END''])"
        "file_lines (take n (status_text xs)) = take k (map line_text xs @ [''END''])"
      using file_lines_torn [OF status_lines_LF [OF assms], of n] unfolding status_text_def by blast
    then have "set (file_lines (take n (status_text xs))) \<subseteq> line_text ` set xs"
      by (auto dest: in_set_takeD)
    then have "\<forall>l \<in> set (file_lines (take n (status_text xs))). trim_crlf l \<noteq> ''END''"
      using assms line_ok_no_eol trim_crlf_id by fastforce
    then show "Status_mgmt (Some (take n (status_text xs))) = Inl TornRead"
      by (simp add: Status_mgmt_def parseStatusFile_def parse_status_no_END)
  qed
qed

definition demo_client :: vpn_client where
  "demo_client = \<lparr>vc_CID = ''3'', vc_CN = ''alice'', vc_RealAddress = ''198.51.100.7:4242'', vc_VirtualAddress = ''10.8.0.2'',
     vc_BytesRecv = 12, vc_BytesSent = 34, vc_ConnectedSince = Some 77, vc_Cipher = ''AES-256-GCM''\<rparr>"

definition demo_rows :: "status_line list" where
  "demo_rows = [Other ''TITLE'', Row [] ''then'' ''UNDEF'' ''0'' demo_client]"

theorem status_all_or_nothing_witness:
  "Status_mgmt (Some (status_text demo_rows)) = Inr [demo_client]
   \<and> Status_mgmt (Some (take 60 (status_text demo_rows))) = Inl TornRead"
proof -
  have ok: "\<forall>x \<in> set demo_rows. line_ok x" by code_simp
  have "60 < length (status_text demo_rows)" "row_clients demo_rows = [demo_client]" by code_simp+
  then show ?thesis using status_all_or_nothing [OF ok] by simp
qed

text \<open>C20: every event of the management stream gets exactly its reaction, in order: each connection or
  reauthentication request one approval with its own client and key id, each established and each
  disconnected client one call of its handler with the id, name and address openvpn reported, each reply
  line goes to the waiting command, other notices to nobody.\<close>

theorem stream_reactions:
  assumes "\<forall>n \<in> set ns. notice_ok n"
  shows "readLoop (concat (map notice_lines ns)) = concat (map notice_events ns)"
  by (rule readLoop_stream [OF assms])

theorem stream_reactions_witness:
  "readLoop [''>CLIENT:CONNECT,3,1'', ''>CLIENT:ENV,common_name=alice'', ''>CLIENT:ENV,END'', ''SUCCESS: client-auth command succeeded'',
     ''>CLIENT:ESTABLISHED,3'', ''>CLIENT:ENV,common_name=alice'', ''>CLIENT:ENV,ifconfig_pool_remote_ip=10.8.0.2'', ''>CLIENT:ENV,END'']
   = [Approve ''3'' ''1'', Reply ''SUCCESS: client-auth command succeeded'', Established ''3'' ''alice'' ''10.8.0.2'']"
proof -
  define ns where "ns = [NConnect False ''3'' ''1'' [(''common_name'', ''alice'')], NReply ''SUCCESS: client-auth command succeeded'',
     NEstablished ''3'' [(''common_name'', ''alice''), (''ifconfig_pool_remote_ip'', ''10.8.0.2'')]]"
  have ok: "\<forall>n \<in> set ns. notice_ok n" unfolding ns_def by code_simp
  show ?thesis using stream_reactions [OF ok] by (simp add: ns_def env_lines_def env_of_def env_get_def)
qed

text \<open>\<^verbatim>\<open>Kill\<close> reaches every live session of the name and no other: it reads the sessions from openvpn,
  sends one \<^verbatim>\<open>client-kill\<close> per session of that name in their order and returns their number; a message
  other than HALT and RESTART is refused before anything is sent.\<close>

theorem Kill_reaches_every_session:
  assumes "mc_live c" and "mp_send P ''status 3'' (mc_peer c) = (Some r, p)" and "parseStatusFile r = Inr (l, r')"
    and "kills_ok P msg"
  shows "if msg = ''HALT'' \<or> msg = ''RESTART''
    then \<exists>c'. Kill P cn msg c = (int (length (filter (\<lambda>v. vc_CN v = cn) l)), None, c')
      \<and> mc_sent c' = mc_sent c @ ''status 3'' # map (\<lambda>v. kill_cmd (vc_CID v) msg) (filter (\<lambda>v. vc_CN v = cn) l)
    else Kill P cn msg c = (0, Some (BadKillMessage msg), c)"
proof -
  let ?c = "c\<lparr>mc_sent := mc_sent c @ [''status 3''], mc_peer := p\<rparr>"
  obtain c' where "kill_each P cn msg 0 l ?c = (int (length (filter (\<lambda>v. vc_CN v = cn) l)), None, c')"
    "mc_sent c' = mc_sent ?c @ map (\<lambda>v. kill_cmd (vc_CID v) msg) (filter (\<lambda>v. vc_CN v = cn) l)"
    using kill_each_ok [OF assms(4), of ?c cn 0 l] assms(1) by auto
  then show ?thesis using exec_status [OF assms(1-3)] by (auto simp: Kill_def)
qed

text \<open>A peer that lists alice twice and bob once.\<close>

definition demo_peer :: "unit mgmt_peer" where
  "demo_peer = \<lparr>mp_dial = (\<lambda>p. (None, p)),
     mp_send = (\<lambda>cmd p. (Some (if cmd = ''status 3''
       then map line_text [Row [] [] [] [] demo_client, Row [] [] [] [] (demo_client\<lparr>vc_CID := ''4'', vc_CN := ''bob''\<rparr>),
              Row [] [] [] [] (demo_client\<lparr>vc_CID := ''5''\<rparr>)] @ [''END'']
       else [''SUCCESS: client-kill command succeeded'']), p))\<rparr>"

theorem Kill_reaches_every_session_witness:
  "\<exists>c'. Kill demo_peer ''alice'' ''RESTART'' \<lparr>mc_live = True, mc_sent = [], mc_peer = ()\<rparr> = (2, None, c')
    \<and> mc_sent c' = [''status 3'', ''client-kill 3 RESTART'', ''client-kill 5 RESTART'']"
proof -
  define rows where "rows = [Row [] [] [] [] demo_client, Row [] [] [] [] (demo_client\<lparr>vc_CID := ''4'', vc_CN := ''bob''\<rparr>),
              Row [] [] [] [] (demo_client\<lparr>vc_CID := ''5''\<rparr>)]"
  have ok: "\<forall>x \<in> set rows. line_ok x" unfolding rows_def by code_simp
  have p: "parseStatusFile (map line_text rows @ [''END'']) = Inr (row_clients rows, [])"
    using parse_status_rows [OF ok, of "[]" "[]"] by (simp add: parseStatusFile_def)
  have k: "kills_ok demo_peer ''RESTART''" by (simp add: kills_ok_def demo_peer_def kill_cmd_def)
  have s: "mp_send demo_peer ''status 3'' () = (Some (map line_text rows @ [''END'']), ())"
    by (simp add: demo_peer_def rows_def)
  show ?thesis
    using Kill_reaches_every_session [of "\<lparr>mc_live = True, mc_sent = [], mc_peer = ()\<rparr>" demo_peer _ "()", OF _ _ p k, of "''alice''"] s
    by (simp add: rows_def demo_client_def kill_cmd_def)
qed

end
