(* ===== verification/Logrotate.thy ===== *)
theory Logrotate
  imports Go_FS Ovpnconf
begin

section \<open>Log rotation (internal/controller/logrotate.go)\<close>

text \<open>
  Rotation by copy and truncate, compression of old generations, deletion of expired ones, on the file
  system of \<open>Go_FS\<close> in which every operation may fail. The host gives the clock's formatting and
  parsing of a stamp, gzip and the directory listing. Times are unix seconds.
\<close>

record log_host =
  lh_format :: "int \<Rightarrow> string"
  lh_parse :: "string \<Rightarrow> int option"
  lh_gzip :: "string \<Rightarrow> string"
  lh_ls :: "fsys \<Rightarrow> string list"

definition LogNames :: "string list" where
  "LogNames = [''openvpn'', ''ovcp'', ''dnsmasq'']"

definition LogPaths :: "string \<Rightarrow> string list" where
  "LogPaths logsDir = map (\<lambda>name. path_join logsDir (name @ ''.log'')) LogNames"

record log_config =
  lo_Enabled :: bool
  lo_RetentionDays :: int
  lo_KeepUncompressed :: int

definition DefaultLogConfig :: "(string \<Rightarrow> string) \<Rightarrow> log_config" where
  "DefaultLogConfig env = \<lparr>lo_Enabled = (env ''OVCP_LOG_ROTATE_ENABLED'' \<noteq> ''false''),
     lo_RetentionDays = EnvInt (env ''OVCP_LOG_RETENTION_DAYS'') 14,
     lo_KeepUncompressed = EnvInt (env ''OVCP_LOG_KEEP_UNCOMPRESSED'') 2\<rparr>"

datatype rot_error = RotRead | RotWrite | RotTruncate | RotRemove
datatype rot_step = StepRotate | StepCompress | StepPrune

text \<open>\<^verbatim>\<open>os.ReadFile\<close> with the difference between a missing file and a failed read.\<close>

datatype read_result = Missing | ReadErr | Contents string

definition fs_read3 :: "string \<Rightarrow> fsys \<Rightarrow> read_result \<times> fsys" where
  "fs_read3 p s = (case next_fault s of (f, s1) \<Rightarrow>
     ((if f \<noteq> None then ReadErr else case fs_files s1 p of None \<Rightarrow> Missing | Some c \<Rightarrow> Contents c), s1))"

definition fs_truncate :: "string \<Rightarrow> fsys \<Rightarrow> bool \<times> fsys" where
  "fs_truncate p s = (case next_fault s of (f, s1) \<Rightarrow>
     if f \<noteq> None \<or> fs_files s1 p = None then (False, s1) else (True, put_file p [] s1))"

definition rotated_name :: "log_host \<Rightarrow> int \<Rightarrow> string \<Rightarrow> string" where
  "rotated_name H now path = path @ ''-'' @ lh_format H now"

definition RotateLog :: "log_host \<Rightarrow> int \<Rightarrow> string \<Rightarrow> fsys \<Rightarrow> rot_error option \<times> fsys" where
  "RotateLog H now path s = (case fs_read3 path s of
     (Missing, s1) \<Rightarrow> (None, s1)
   | (ReadErr, s1) \<Rightarrow> (Some RotRead, s1)
   | (Contents data, s1) \<Rightarrow>
       if data = [] then (None, s1)
       else (case fs_write_file (rotated_name H now path) data s1 of
           (False, s2) \<Rightarrow> (Some RotWrite, s2)
         | (True, s2) \<Rightarrow> (case fs_truncate path s2 of
             (ok, s3) \<Rightarrow> (if ok then None else Some RotTruncate, s3))))"

record generation =
  ge_file :: string
  ge_t :: int
  ge_compressed :: bool

definition gen_of :: "log_host \<Rightarrow> string \<Rightarrow> string \<Rightarrow> generation option" where
  "gen_of H path m = (case cut_prefix m (path @ ''-'') of
     None \<Rightarrow> None
   | Some stamp \<Rightarrow>
       if CHR ''/'' \<in> set stamp then None
       else (case lh_parse H (trim_suffix stamp ''.gz'') of
           None \<Rightarrow> None
         | Some t \<Rightarrow> Some \<lparr>ge_file = m, ge_t = t, ge_compressed = has_suffix stamp ''.gz''\<rparr>))"

definition rotatedGenerations :: "log_host \<Rightarrow> string \<Rightarrow> fsys \<Rightarrow> generation list" where
  "rotatedGenerations H path s = sort_key ge_t (List.map_filter (gen_of H path) (lh_ls H s))"

definition gzipFile :: "log_host \<Rightarrow> string \<Rightarrow> fsys \<Rightarrow> rot_error option \<times> fsys" where
  "gzipFile H path s = (case fs_read3 path s of
     (Contents data, s1) \<Rightarrow> (case fs_write_file (path @ ''.gz'') (lh_gzip H data) s1 of
         (False, s2) \<Rightarrow> (Some RotWrite, s2)
       | (True, s2) \<Rightarrow> (case fs_remove path s2 of (ok, s3) \<Rightarrow> (if ok then None else Some RotRemove, s3)))
   | (_, s1) \<Rightarrow> (Some RotRead, s1))"

fun gzip_each :: "log_host \<Rightarrow> generation list \<Rightarrow> fsys \<Rightarrow> rot_error option \<times> fsys" where
  "gzip_each H [] s = (None, s)"
| "gzip_each H (g # gs) s = (case gzipFile H (ge_file g) s of
     (Some e, s1) \<Rightarrow> (Some e, s1) | (None, s1) \<Rightarrow> gzip_each H gs s1)"

definition compressOld :: "log_host \<Rightarrow> string \<Rightarrow> int \<Rightarrow> fsys \<Rightarrow> rot_error option \<times> fsys" where
  "compressOld H path keepUncompressed s =
    (let plain = filter (\<lambda>g. \<not> ge_compressed g) (rotatedGenerations H path s);
         keep = (if keepUncompressed < 0 then 0 else keepUncompressed) in
     if int (length plain) \<le> keep then (None, s)
     else gzip_each H (take (length plain - nat keep) plain) s)"

fun remove_each :: "int \<Rightarrow> generation list \<Rightarrow> fsys \<Rightarrow> rot_error option \<times> fsys" where
  "remove_each cutoff [] s = (None, s)"
| "remove_each cutoff (g # gs) s = (if ge_t g < cutoff
     then (case fs_remove (ge_file g) s of (False, s1) \<Rightarrow> (Some RotRemove, s1) | (True, s1) \<Rightarrow> remove_each cutoff gs s1)
     else remove_each cutoff gs s)"

definition cutoff_of :: "int \<Rightarrow> int \<Rightarrow> int" where
  "cutoff_of now retentionDays = now - retentionDays * 86400"

definition pruneOld :: "log_host \<Rightarrow> int \<Rightarrow> string \<Rightarrow> int \<Rightarrow> fsys \<Rightarrow> rot_error option \<times> fsys" where
  "pruneOld H now path retentionDays s = (if retentionDays \<le> 0 then (None, s)
     else remove_each (cutoff_of now retentionDays) (rotatedGenerations H path s) s)"

definition err_list :: "rot_step \<Rightarrow> string \<Rightarrow> rot_error option \<Rightarrow> (string \<times> rot_step \<times> rot_error) list" where
  "err_list k p e = (case e of None \<Rightarrow> [] | Some x \<Rightarrow> [(p, k, x)])"

text \<open>One path; the errors of all paths are joined.\<close>

definition rotate_one :: "log_host \<Rightarrow> int \<Rightarrow> log_config \<Rightarrow> string \<Rightarrow> fsys \<Rightarrow> (string \<times> rot_step \<times> rot_error) list \<times> fsys" where
  "rotate_one H now cfg p s = (case RotateLog H now p s of
     (Some e, s1) \<Rightarrow> ([(p, StepRotate, e)], s1)
   | (None, s1) \<Rightarrow> (case compressOld H p (lo_KeepUncompressed cfg) s1 of (e1, s2) \<Rightarrow>
       (case pruneOld H now p (lo_RetentionDays cfg) s2 of (e2, s3) \<Rightarrow>
         (err_list StepCompress p e1 @ err_list StepPrune p e2, s3))))"

fun RotateLogs :: "log_host \<Rightarrow> int \<Rightarrow> string list \<Rightarrow> log_config \<Rightarrow> fsys \<Rightarrow> (string \<times> rot_step \<times> rot_error) list \<times> fsys" where
  "RotateLogs H now [] cfg s = ([], s)"
| "RotateLogs H now (p # ps) cfg s = (case rotate_one H now cfg p s of (e1, s1) \<Rightarrow>
     (case RotateLogs H now ps cfg s1 of (e2, s2) \<Rightarrow> (e1 @ e2, s2)))"

record log_status =
  lt_Name :: string
  lt_Path :: string
  lt_CurrentSize :: int
  lt_Generations :: int
  lt_Oldest :: "int option"
  lt_Newest :: "int option"

definition LogStatusFor :: "log_host \<Rightarrow> string \<Rightarrow> string \<Rightarrow> fsys \<Rightarrow> log_status" where
  "LogStatusFor H name path s = (let gens = rotatedGenerations H path s in
     \<lparr>lt_Name = name, lt_Path = path, lt_CurrentSize = (case fs_files s path of None \<Rightarrow> 0 | Some c \<Rightarrow> int (length c)),
      lt_Generations = int (length gens),
      lt_Oldest = (if gens = [] then None else Some (ge_t (hd gens))),
      lt_Newest = (if gens = [] then None else Some (ge_t (last gens)))\<rparr>)"

end
