(* ===== verification/Logrotate_Props.thy ===== *)
theory Logrotate_Props
  imports Logrotate
begin

section \<open>Rotation loses nothing within the retention\<close>

text \<open>
  What each step of \<open>Logrotate\<close> does to the generations of a log, with any file operation failing, and the composition over a
  whole rotation.
\<close>

text \<open>A plain generation survives as itself or, once it is gone, as its compressed copy.\<close>

definition kept :: "log_host \<Rightarrow> string \<Rightarrow> string \<Rightarrow> fsys \<Rightarrow> bool" where
  "kept H q c s \<longleftrightarrow> fs_files s q = Some c \<or> fs_files s q = None \<and> fs_files s (q @ ''.gz'') = Some (lh_gzip H c)"

lemma kept_frame: "fs_files s' q = fs_files s q \<Longrightarrow> fs_files s' (q @ ''.gz'') = fs_files s (q @ ''.gz'') \<Longrightarrow> kept H q c s' = kept H q c s"
  by (simp add: kept_def)

lemma fs_read3_files: "fs_read3 p s = (r, s1) \<Longrightarrow> fs_files s1 = fs_files s \<and> (\<forall>c. r = Contents c \<longrightarrow> fs_files s p = Some c)
    \<and> (r = Missing \<longrightarrow> fs_files s p = None)"
  by (auto simp: fs_read3_def split: prod.splits if_splits option.splits)

lemma fs_truncate_files: "fs_truncate p s = (b, s1) \<Longrightarrow> fs_files s1 = (if b then (fs_files s)(p \<mapsto> []) else fs_files s)"
  by (auto simp: fs_truncate_def put_file_def split: prod.splits if_splits)

lemma suffix_gz: "has_suffix (q @ ''.gz'') ''.gz''"
  by (auto simp: has_suffix_iff)

lemma gz_neq: "\<not> has_suffix q ''.gz'' \<Longrightarrow> q \<noteq> p @ ''.gz''"
  using suffix_gz by metis

subsection \<open>Compression\<close>

text \<open>Compressing one file touches that file and its copy only: nothing happens, the copy is written (or
  begun), or the copy is complete and the file gone.\<close>

lemma gzipFile_cases:
  assumes "gzipFile H p s = (e, s')"
  shows "fs_files s' = fs_files s
    \<or> (\<exists>d c. fs_files s p = Some d \<and> fs_files s' = (fs_files s)(p @ ''.gz'' \<mapsto> c))
    \<or> (\<exists>d. fs_files s p = Some d \<and> fs_files s' = (fs_files s)(p @ ''.gz'' \<mapsto> lh_gzip H d, p := None))"
proof -
  obtain r s1 where r: "fs_read3 p s = (r, s1)" by (metis surj_pair)
  note f1 = fs_read3_files [OF r]
  show ?thesis
  proof (cases r)
    case (Contents d)
    obtain b s2 where w: "fs_write_file (p @ ''.gz'') (lh_gzip H d) s1 = (b, s2)" by (metis surj_pair)
    note f2 = fs_write_file_files [OF w]
    obtain b3 s3 where m: "fs_remove p s2 = (b3, s3)" by (metis surj_pair)
    note f3 = fs_remove_files [OF m]
    have d: "fs_files s p = Some d" using f1 Contents by simp
    show ?thesis
    proof (cases b)
      case True
      then have "s' = s3" "fs_files s2 = (fs_files s)(p @ ''.gz'' \<mapsto> lh_gzip H d)"
        using assms r Contents w m f1 f2 by (auto simp: gzipFile_def)
      then show ?thesis using f3 d by (cases b3) auto
    next
      case False
      then have "s' = s2" using assms r Contents w by (simp add: gzipFile_def)
      then show ?thesis using f1 f2 d by auto
    qed
  qed (use assms r f1 in \<open>simp_all add: gzipFile_def\<close>)
qed

lemma gzipFile_other:
  "gzipFile H p s = (e, s') \<Longrightarrow> x \<noteq> p \<Longrightarrow> x \<noteq> p @ ''.gz'' \<Longrightarrow> fs_files s' x = fs_files s x"
  using gzipFile_cases [of H p s e s'] by auto

lemma gzipFile_kept:
  assumes z: "gzipFile H p s = (e, s')" and p: "\<not> has_suffix p ''.gz''" and q: "\<not> has_suffix q ''.gz''" and k: "kept H q c s"
  shows "kept H q c s'"
proof (cases "p = q")
  case False
  have "q \<noteq> p @ ''.gz''" "q @ ''.gz'' \<noteq> p" using gz_neq [OF q] gz_neq [OF p] by auto
  then show ?thesis using gzipFile_other [OF z] k False kept_frame [of s' q s H c] by simp
next
  case True
  then show ?thesis using gzipFile_cases [OF z] k by (auto simp: kept_def)
qed

lemma gzip_each_kept:
  "gzip_each H gs s = (e, s') \<Longrightarrow> \<forall>g \<in> set gs. \<not> has_suffix (ge_file g) ''.gz'' \<Longrightarrow> \<not> has_suffix q ''.gz'' \<Longrightarrow> kept H q c s \<Longrightarrow> kept H q c s'"
proof (induction gs arbitrary: s)
  case (Cons g gs)
  obtain e1 s1 where g: "gzipFile H (ge_file g) s = (e1, s1)" by (metis surj_pair)
  have "kept H q c s1" by (rule gzipFile_kept [OF g]) (use Cons.prems in simp_all)
  then show ?case using Cons g by (cases e1) simp_all
qed simp

lemma gzip_each_other:
  "gzip_each H gs s = (e, s') \<Longrightarrow> \<forall>g \<in> set gs. x \<noteq> ge_file g \<and> x \<noteq> ge_file g @ ''.gz'' \<Longrightarrow> fs_files s' x = fs_files s x"
proof (induction gs arbitrary: s)
  case (Cons g gs)
  obtain e1 s1 where g: "gzipFile H (ge_file g) s = (e1, s1)" by (metis surj_pair)
  have "fs_files s1 x = fs_files s x" using gzipFile_other [OF g] Cons.prems(2) by simp
  then show ?case using Cons g by (cases e1) simp_all
qed simp

lemma remove_each_other:
  "remove_each cutoff gs s = (e, s') \<Longrightarrow> \<forall>g \<in> set gs. ge_t g < cutoff \<longrightarrow> x \<noteq> ge_file g \<Longrightarrow> fs_files s' x = fs_files s x"
proof (induction gs arbitrary: s)
  case (Cons g gs)
  show ?case
  proof (cases "ge_t g < cutoff")
    case True
    obtain b s1 where m: "fs_remove (ge_file g) s = (b, s1)" by (metis surj_pair)
    have "fs_files s1 x = fs_files s x" using fs_remove_files [OF m] Cons.prems(2) True by (simp split: if_splits)
    then show ?thesis using Cons m True by (cases b) simp_all
  next
    case False
    then show ?thesis using Cons by simp
  qed
qed simp

subsection \<open>Generations\<close>

lemma dash_suffix: "has_suffix (p @ ''-'' @ t) ''.gz'' \<longleftrightarrow> has_suffix t ''.gz''"
  by (cases "rev t"; cases "tl (rev t)"; cases "tl (tl (rev t))") (auto simp: has_suffix_def has_prefix_def)

lemma gen_of_shape:
  assumes "gen_of H path m = Some g"
  obtains stamp where "m = path @ ''-'' @ stamp" "CHR ''/'' \<notin> set stamp" "ge_file g = m"
    "lh_parse H (trim_suffix stamp ''.gz'') = Some (ge_t g)" "ge_compressed g = has_suffix m ''.gz''"
proof -
  obtain stamp t where st: "cut_prefix m (path @ ''-'') = Some stamp" "CHR ''/'' \<notin> set stamp"
      "lh_parse H (trim_suffix stamp ''.gz'') = Some t" "g = \<lparr>ge_file = m, ge_t = t, ge_compressed = has_suffix stamp ''.gz''\<rparr>"
    using assms by (auto simp: gen_of_def split: option.splits if_splits)
  have m: "m = path @ ''-'' @ stamp" using st(1) by (simp add: cut_prefix_Some)
  have "has_suffix stamp ''.gz'' = has_suffix m ''.gz''" using dash_suffix by (simp add: m)
  then show ?thesis using that [OF m st(2)] st by simp
qed

lemma gens_set: "set (rotatedGenerations H path s) = {g. \<exists>m \<in> set (lh_ls H s). gen_of H path m = Some g}"
proof -
  have "g \<in> set (List.map_filter f xs) \<longleftrightarrow> (\<exists>m \<in> set xs. f m = Some g)" for f :: "string \<Rightarrow> generation option" and g xs
    by (induction xs) (auto simp: List.map_filter_def)
  then show ?thesis by (auto simp: rotatedGenerations_def)
qed

text \<open>A generation and its compressed copy carry the same stamp.\<close>

lemma gen_of_gz:
  assumes "gen_of H path (q @ ''.gz'') = Some g" and "\<not> has_suffix q ''.gz''"
  shows "\<exists>g'. gen_of H path q = Some g' \<and> ge_t g' = ge_t g"
proof -
  obtain stamp where st: "q @ ''.gz'' = path @ ''-'' @ stamp" "CHR ''/'' \<notin> set stamp" "lh_parse H (trim_suffix stamp ''.gz'') = Some (ge_t g)"
    using assms(1) by (rule gen_of_shape)
  have "has_suffix stamp ''.gz''" using dash_suffix [of path stamp] suffix_gz [of q] unfolding st(1) by blast
  then obtain t where t: "stamp = t @ ''.gz''" by (auto simp: has_suffix_iff)
  then have q: "q = path @ ''-'' @ t" using st(1) by simp
  have "\<not> has_suffix t ''.gz''" using assms(2) using dash_suffix [of path t] by (simp add: q)
  then have "trim_suffix t ''.gz'' = t" by (simp add: trim_suffix_def)
  moreover have "trim_suffix stamp ''.gz'' = t" by (simp add: t trim_suffix_append)
  ultimately show ?thesis using st(2,3) t by (simp add: gen_of_def q cut_prefix_append [of "path @ ''-''" t, simplified])
qed

subsection \<open>The passes over one path\<close>

text \<open>The file \<open>q\<close> is young: no reading of its name as a generation of the path is before the cutoff.\<close>

definition young :: "log_host \<Rightarrow> int \<Rightarrow> log_config \<Rightarrow> string \<Rightarrow> string \<Rightarrow> bool" where
  "young H now cfg path q \<longleftrightarrow> lo_RetentionDays cfg \<le> 0
     \<or> (\<forall>g. gen_of H path q = Some g \<longrightarrow> cutoff_of now (lo_RetentionDays cfg) \<le> ge_t g)"

lemma compressOld_kept:
  assumes z: "compressOld H path k s = (e, s')" and q: "\<not> has_suffix q ''.gz''" and k: "kept H q c s"
  shows "kept H q c s'"
proof -
  define gs where "gs = (let plain = filter (\<lambda>g. \<not> ge_compressed g) (rotatedGenerations H path s);
         keep = (if k < 0 then 0 else k) in take (length plain - nat keep) plain)"
  have "\<forall>g \<in> set gs. \<not> has_suffix (ge_file g) ''.gz''"
  proof
    fix g assume "g \<in> set gs"
    then have "g \<in> set (rotatedGenerations H path s)" "\<not> ge_compressed g" by (auto simp: gs_def Let_def dest: in_set_takeD)
    then obtain m where "gen_of H path m = Some g" by (auto simp: gens_set)
    then show "\<not> has_suffix (ge_file g) ''.gz''" using \<open>\<not> ge_compressed g\<close> by (auto elim: gen_of_shape)
  qed
  moreover have "s' = s \<or> gzip_each H gs s = (e, s')" using z by (auto simp: compressOld_def gs_def Let_def split: if_splits)
  ultimately show ?thesis using gzip_each_kept [of H gs s e s' q c] q k by auto
qed

lemma compressOld_path:
  assumes z: "compressOld H path k s = (e, s')" and p: "\<not> has_suffix path ''.gz''"
  shows "fs_files s' path = fs_files s path"
proof -
  define gs where "gs = (let plain = filter (\<lambda>g. \<not> ge_compressed g) (rotatedGenerations H path s);
         keep = (if k < 0 then 0 else k) in take (length plain - nat keep) plain)"
  have "\<forall>g \<in> set gs. path \<noteq> ge_file g \<and> path \<noteq> ge_file g @ ''.gz''"
  proof
    fix g assume "g \<in> set gs"
    then have "g \<in> set (rotatedGenerations H path s)" by (auto simp: gs_def Let_def dest: in_set_takeD)
    then obtain m where "gen_of H path m = Some g" by (auto simp: gens_set)
    then show "path \<noteq> ge_file g \<and> path \<noteq> ge_file g @ ''.gz''" using gz_neq [OF p] by (auto elim!: gen_of_shape)
  qed
  moreover have "s' = s \<or> gzip_each H gs s = (e, s')" using z by (auto simp: compressOld_def gs_def Let_def split: if_splits)
  ultimately show ?thesis using gzip_each_other [of H gs s e s' path] by auto
qed

lemma pruneOld_other:
  assumes z: "pruneOld H now path (lo_RetentionDays cfg) s = (e, s')" and y: "young H now cfg path q"
  shows "fs_files s' q = fs_files s q"
proof (cases "lo_RetentionDays cfg \<le> 0")
  case True
  then show ?thesis using z by (simp add: pruneOld_def)
next
  case False
  then have r: "remove_each (cutoff_of now (lo_RetentionDays cfg)) (rotatedGenerations H path s) s = (e, s')"
    using z by (simp add: pruneOld_def)
  have "\<forall>g \<in> set (rotatedGenerations H path s). ge_t g < cutoff_of now (lo_RetentionDays cfg) \<longrightarrow> q \<noteq> ge_file g"
  proof (intro ballI impI)
    fix g assume "g \<in> set (rotatedGenerations H path s)" and t: "ge_t g < cutoff_of now (lo_RetentionDays cfg)"
    then obtain m where m: "gen_of H path m = Some g" by (auto simp: gens_set)
    then have "ge_file g = m" by (rule gen_of_shape)
    then show "q \<noteq> ge_file g" using m y t False by (auto simp: young_def)
  qed
  from remove_each_other [OF r this] show ?thesis .
qed

lemma young_gz: "young H now cfg path q \<Longrightarrow> \<not> has_suffix q ''.gz'' \<Longrightarrow> young H now cfg path (q @ ''.gz'')"
  using gen_of_gz [of H path q] by (fastforce simp: young_def)

lemma young_path: "young H now cfg path path"
  by (auto simp: young_def elim!: gen_of_shape)

text \<open>Copy and truncate: nothing happens, the copy is begun, the copy is complete, or it is and the log is
  empty.\<close>

lemma RotateLog_cases:
  assumes "RotateLog H now path s = (e, s')"
  shows "fs_files s' = fs_files s
    \<or> (\<exists>d c. fs_files s path = Some d \<and> fs_files s' = (fs_files s)(rotated_name H now path \<mapsto> c))
    \<or> (\<exists>d. fs_files s path = Some d \<and> fs_files s' = (fs_files s)(rotated_name H now path \<mapsto> d, path \<mapsto> []))"
proof -
  obtain r s1 where r: "fs_read3 path s = (r, s1)" by (metis surj_pair)
  note f1 = fs_read3_files [OF r]
  show ?thesis
  proof (cases r)
    case (Contents d)
    obtain b s2 where w: "fs_write_file (rotated_name H now path) d s1 = (b, s2)" by (metis surj_pair)
    note f2 = fs_write_file_files [OF w]
    obtain b3 s3 where m: "fs_truncate path s2 = (b3, s3)" by (metis surj_pair)
    note f3 = fs_truncate_files [OF m]
    have d: "fs_files s path = Some d" using f1 Contents by simp
    consider "d = []" | "d \<noteq> []" "b" | "d \<noteq> []" "\<not> b" by blast
    then show ?thesis
    proof cases
      case 1
      then show ?thesis using assms r Contents f1 by (simp add: RotateLog_def)
    next
      case 2
      then have "s' = s3" "fs_files s2 = (fs_files s)(rotated_name H now path \<mapsto> d)"
        using assms r Contents w m f1 f2 by (auto simp: RotateLog_def)
      then show ?thesis using f3 d by (cases b3) auto
    next
      case 3
      then have "s' = s2" using assms r Contents w by (simp add: RotateLog_def)
      then show ?thesis using f1 f2 d by auto
    qed
  qed (use assms r f1 in \<open>simp_all add: RotateLog_def\<close>)
qed

lemma rotate_one_steps:
  assumes "rotate_one H now cfg path s = (es, s')"
  obtains (stop) "fst (RotateLog H now path s) \<noteq> None" "s' = snd (RotateLog H now path s)"
  | (all) s1 e1 s2 e2 where "RotateLog H now path s = (None, s1)" "compressOld H path (lo_KeepUncompressed cfg) s1 = (e1, s2)"
      "pruneOld H now path (lo_RetentionDays cfg) s2 = (e2, s')"
proof -
  obtain e0 s1 where r: "RotateLog H now path s = (e0, s1)" by (metis surj_pair)
  obtain e1 s2 where c: "compressOld H path (lo_KeepUncompressed cfg) s1 = (e1, s2)" by (metis surj_pair)
  obtain e2 s3 where p: "pruneOld H now path (lo_RetentionDays cfg) s2 = (e2, s3)" by (metis surj_pair)
  show ?thesis
  proof (cases e0)
    case None
    then have "s' = s3" using assms r c p by (simp add: rotate_one_def)
    then show ?thesis using all [of s1 e1 s2 e2] r c p None by simp
  next
    case (Some x)
    then have "s' = s1" using assms r by (simp add: rotate_one_def)
    then show ?thesis using stop r Some by simp
  qed
qed

text \<open>The clock: a stamp reads back as its time, and is neither a path nor a compressed name.\<close>

definition clock_ok :: "log_host \<Rightarrow> int \<Rightarrow> bool" where
  "clock_ok H now \<longleftrightarrow> lh_parse H (lh_format H now) = Some now \<and> CHR ''/'' \<notin> set (lh_format H now)
     \<and> \<not> has_suffix (lh_format H now) ''.gz''"

lemma rotated_plain: "clock_ok H now \<Longrightarrow> \<not> has_suffix (rotated_name H now path) ''.gz''"
  using dash_suffix [of path "lh_format H now"] by (simp add: rotated_name_def clock_ok_def)

lemma rotated_young: "clock_ok H now \<Longrightarrow> young H now cfg path (rotated_name H now path)"
  using cut_prefix_append [of "path @ ''-''" "lh_format H now"]
  by (auto simp: young_def gen_of_def rotated_name_def clock_ok_def cutoff_of_def trim_suffix_def)

lemma rotated_neq: "rotated_name H now path \<noteq> path" "rotated_name H now path @ ''.gz'' \<noteq> path"
  by (simp_all add: rotated_name_def)

subsection \<open>One path, all passes\<close>

lemma passes_kept:
  assumes c: "compressOld H path k s1 = (e1, s2)" and p: "pruneOld H now path (lo_RetentionDays cfg) s2 = (e2, s')"
    and q: "\<not> has_suffix q ''.gz''" and y: "young H now cfg path q" and k: "kept H q c' s1"
  shows "kept H q c' s'"
  using compressOld_kept [OF c q k] pruneOld_other [OF p y] pruneOld_other [OF p young_gz [OF y q]] kept_frame by metis

lemma rotate_one_generation:
  assumes r: "rotate_one H now cfg path s = (es, s')" and ck: "clock_ok H now"
    and q: "\<not> has_suffix q ''.gz''" "q \<noteq> path" "q @ ''.gz'' \<noteq> path" "q \<noteq> rotated_name H now path" and y: "young H now cfg path q"
    and k: "kept H q c s"
  shows "kept H q c s'"
proof -
  obtain e0 s1 where l: "RotateLog H now path s = (e0, s1)" by (metis surj_pair)
  have "q @ ''.gz'' \<noteq> rotated_name H now path" using rotated_plain [OF ck] suffix_gz by metis
  then have "fs_files s1 q = fs_files s q" "fs_files s1 (q @ ''.gz'') = fs_files s (q @ ''.gz'')"
    using RotateLog_cases [OF l] q by auto
  then have k1: "kept H q c s1" using k kept_frame by metis
  from r show ?thesis
  proof (cases rule: rotate_one_steps)
    case stop
    then show ?thesis using k1 l by simp
  next
    case (all s1' e1 s2 e2)
    then show ?thesis using passes_kept [OF all(2,3) q(1) y] k1 l by simp
  qed
qed

lemma rotate_one_live:
  assumes r: "rotate_one H now cfg path s = (es, s')" and ck: "clock_ok H now"
    and p: "\<not> has_suffix path ''.gz''" and d: "fs_files s path = Some d" and "d \<noteq> []" and fresh: "fs_files s (rotated_name H now path) = None"
  shows "fs_files s' path = Some d \<or> fs_files s' path = Some [] \<and> kept H (rotated_name H now path) d s'"
proof -
  obtain e0 s1 where l: "RotateLog H now path s = (e0, s1)" by (metis surj_pair)
  have one: "fs_files s1 path = Some d \<or> fs_files s1 path = Some [] \<and> fs_files s1 (rotated_name H now path) = Some d"
    using RotateLog_cases [OF l] d rotated_neq(1) [of H now path] by auto
  from r show ?thesis
  proof (cases rule: rotate_one_steps)
    case stop
    then show ?thesis using one l by (auto simp: kept_def)
  next
    case (all s1' e1 s2 e2)
    have "fs_files s' path = fs_files s1 path"
      using pruneOld_other [OF all(3) young_path] compressOld_path [OF all(2) p] all(1) l by simp
    moreover have "kept H (rotated_name H now path) d s'" if "fs_files s1 (rotated_name H now path) = Some d"
      using passes_kept [OF all(2,3) rotated_plain [OF ck] rotated_young [OF ck]] that all(1) l by (simp add: kept_def)
    ultimately show ?thesis using one by auto
  qed
qed

lemma rotate_one_other_log:
  assumes r: "rotate_one H now cfg path s = (es, s')" and x: "\<not> has_prefix x (path @ ''-'')" "x \<noteq> path"
  shows "fs_files s' x = fs_files s x"
proof -
  obtain e0 s1 where l: "RotateLog H now path s = (e0, s1)" by (metis surj_pair)
  have "x \<noteq> rotated_name H now path" using x(1) by (auto simp: rotated_name_def has_prefix_iff)
  then have one: "fs_files s1 x = fs_files s x" using RotateLog_cases [OF l] x(2) by auto
  have g: "x \<noteq> ge_file g \<and> x \<noteq> ge_file g @ ''.gz''" if "gen_of H path m = Some g" for g m
    using that x(1) by (auto elim!: gen_of_shape simp: has_prefix_iff)
  from r show ?thesis
  proof (cases rule: rotate_one_steps)
    case stop
    then show ?thesis using one l by simp
  next
    case (all s1' e1 s2 e2)
    define gs where "gs = (let plain = filter (\<lambda>g. \<not> ge_compressed g) (rotatedGenerations H path s1');
         keep = (if lo_KeepUncompressed cfg < 0 then 0 else lo_KeepUncompressed cfg) in take (length plain - nat keep) plain)"
    have "s2 = s1' \<or> gzip_each H gs s1' = (e1, s2)" using all(2) by (auto simp: compressOld_def gs_def Let_def split: if_splits)
    moreover have "\<forall>g \<in> set gs. x \<noteq> ge_file g \<and> x \<noteq> ge_file g @ ''.gz''"
    proof
      fix h assume "h \<in> set gs"
      then have "h \<in> set (rotatedGenerations H path s1')" by (auto simp: gs_def Let_def dest: in_set_takeD)
      then show "x \<noteq> ge_file h \<and> x \<noteq> ge_file h @ ''.gz''" using g by (auto simp: gens_set)
    qed
    ultimately have "fs_files s2 x = fs_files s1' x" using gzip_each_other [of H gs s1' e1 s2 x] by auto
    moreover have "gen_of H path x = None"
    proof (rule ccontr)
      assume "gen_of H path x \<noteq> None"
      then obtain h where h: "gen_of H path x = Some h" by blast
      then have "ge_file h = x" by (rule gen_of_shape)
      then show False using g [OF h] by simp
    qed
    then have "young H now cfg path x" by (simp add: young_def)
    ultimately show ?thesis using pruneOld_other [OF all(3)] one all(1) l by simp
  qed
qed

subsection \<open>Property\<close>


text \<open>A directory with a log of two bytes and one generation of three days, a clock that writes plain
  numbers, and a write that fails half way.\<close>

definition demo_log_host :: log_host where
  "demo_log_host = \<lparr>lh_format = itoa, lh_parse = atoi, lh_gzip = (\<lambda>c. ''gz'' @ c),
     lh_ls = (\<lambda>s. filter (\<lambda>p. fs_files s p \<noteq> None) [''v.log'', ''v.log-100'', ''v.log-300'', ''v.log-100.gz''])\<rparr>"

definition demo_logs :: "nat option list \<Rightarrow> fsys" where
  "demo_logs faults = \<lparr>fs_files = [''v.log'' \<mapsto> ''ab'', ''v.log-100'' \<mapsto> ''old'', ''w.log'' \<mapsto> ''w''], fs_faults = faults\<rparr>"


text \<open>Stamps count whole seconds: a second rotation in the same second overwrites what the first one
  saved.\<close>

lemma second_rotation_overwrites:
  "let s1 = snd (RotateLog demo_log_host 7 ''v.log'' (demo_logs []));
       s2 = snd (RotateLog demo_log_host 7 ''v.log'' (put_file ''v.log'' ''new'' s1))
   in fs_files s1 ''v.log-7'' = Some ''ab'' \<and> fs_files s2 ''v.log-7'' = Some ''new'' \<and> fs_files s2 ''v.log'' = Some []"
  by code_simp

end
