(* ===== verification/Stats.thy ===== *)
theory Stats
  imports Store Mgmt Ovpnconf
begin

section \<open>Traffic history (internal/store/stats.go, internal/api/stats.go)\<close>

text \<open>
  The samples and the ended sessions kept in the store, the series computed from them, and the sampler
  that writes them from openvpn's status. Counters are uint64: sums are taken modulo \<open>2 ^ 64\<close>; a
  stored counter lies below \<open>2 ^ 63\<close> because the database refuses larger ones. Rates go through
  float64 as the code does: \<open>f64_quot\<close> is the IEEE quotient, truncated.
\<close>

subsection \<open>Rates\<close>

definition u64 :: "int \<Rightarrow> int" where
  "u64 n = n mod 2 ^ 64"

text \<open>The number of bits of a positive integer.\<close>

function bitlen :: "int \<Rightarrow> int" where
  "bitlen n = (if n \<le> 0 then 0 else 1 + bitlen (n div 2))"
  by pat_completeness auto
termination
  by (relation "measure nat") auto

declare bitlen.simps [simp del]

text \<open>Division rounded to nearest, ties to even; the conversion of an integer to float64; the truncated
  quotient of two positive integers that are float64 values.\<close>

definition rne_div :: "int \<Rightarrow> int \<Rightarrow> int" where
  "rne_div p q = (let d = p div q; r = p mod q in
     if 2 * r < q then d else if 2 * r > q then d + 1 else if even d then d else d + 1)"

definition f64_of :: "int \<Rightarrow> int" where
  "f64_of n = (if bitlen n \<le> 53 then n else rne_div n (2 ^ nat (bitlen n - 53)) * 2 ^ nat (bitlen n - 53))"

definition f64_quot :: "int \<Rightarrow> int \<Rightarrow> int" where
  "f64_quot a b = (if a \<le> 0 then 0 else
     let e = 53 - (bitlen a - bitlen b);
         p = a * 2 ^ nat e; q = b * 2 ^ nat (- e);
         (m, e') = (if p \<ge> 2 ^ 53 * q then (rne_div p (2 * q), e - 1) else (rne_div p q, e))
     in if e' \<ge> 0 then m div 2 ^ nat e' else m * 2 ^ nat (- e'))"

definition ClampedDelta :: "int \<Rightarrow> int \<Rightarrow> int" where
  "ClampedDelta prev cur = (if cur \<le> prev then 0 else cur - prev)"

text \<open>\<open>dt\<close> in whole seconds, as the series have it.\<close>

definition Rate :: "int \<Rightarrow> int \<Rightarrow> int \<Rightarrow> int" where
  "Rate prev cur dt = (if dt \<le> 0 then 0 else f64_quot (f64_of (ClampedDelta prev cur)) dt)"

subsection \<open>Series\<close>

record sample =
  sm_TS :: int
  sm_Clients :: int
  sm_Recv :: int
  sm_Sent :: int
  sm_RecvRate :: int
  sm_SentRate :: int

definition AddClientSample :: "int \<Rightarrow> string \<Rightarrow> int \<Rightarrow> int \<Rightarrow> store \<Rightarrow> store" where
  "AddClientSample ts cn recv sent st =
     st\<lparr>st_samples := filter (\<lambda>r. \<not> (cs_TS r = ts \<and> cs_CN r = cn)) (st_samples st)
        @ [\<lparr>cs_TS = ts, cs_CN = cn, cs_Recv = recv, cs_Sent = sent\<rparr>]\<rparr>"

text \<open>A tick: its time and the reading of each client.\<close>

type_synonym tick = "int \<times> (string \<times> int \<times> int) list"

definition tick_add :: "tick list \<Rightarrow> client_sample \<Rightarrow> tick list" where
  "tick_add ticks r =
    (if ticks = [] \<or> fst (last ticks) \<noteq> cs_TS r then ticks @ [(cs_TS r, [(cs_CN r, cs_Recv r, cs_Sent r)])]
     else butlast ticks @ [(cs_TS r, AList.update (cs_CN r) (cs_Recv r, cs_Sent r) (snd (last ticks)))])"

definition ticks_of :: "client_sample list \<Rightarrow> tick list" where
  "ticks_of rows = foldl tick_add [] rows"

definition sum_u64 :: "int list \<Rightarrow> int" where
  "sum_u64 xs = foldl (\<lambda>s x. u64 (s + x)) 0 xs"

definition recv_delta :: "tick \<Rightarrow> tick \<Rightarrow> int" where
  "recv_delta prev tk = sum_u64 (map (\<lambda>(cn, r, s). case map_of (snd prev) cn of None \<Rightarrow> 0 | Some (pr, ps) \<Rightarrow> ClampedDelta pr r) (snd tk))"

definition sent_delta :: "tick \<Rightarrow> tick \<Rightarrow> int" where
  "sent_delta prev tk = sum_u64 (map (\<lambda>(cn, r, s). case map_of (snd prev) cn of None \<Rightarrow> 0 | Some (pr, ps) \<Rightarrow> ClampedDelta ps s) (snd tk))"

definition sample_at :: "tick option \<Rightarrow> tick \<Rightarrow> sample" where
  "sample_at prev tk =
    \<lparr>sm_TS = fst tk, sm_Clients = int (length (snd tk)),
     sm_Recv = sum_u64 (map (\<lambda>(cn, r, s). r) (snd tk)), sm_Sent = sum_u64 (map (\<lambda>(cn, r, s). s) (snd tk)),
     sm_RecvRate = (case prev of None \<Rightarrow> 0 | Some p \<Rightarrow> Rate 0 (recv_delta p tk) (fst tk - fst p)),
     sm_SentRate = (case prev of None \<Rightarrow> 0 | Some p \<Rightarrow> Rate 0 (sent_delta p tk) (fst tk - fst p))\<rparr>"

fun samples_from :: "tick option \<Rightarrow> tick list \<Rightarrow> sample list" where
  "samples_from prev [] = []"
| "samples_from prev (tk # tks) = sample_at prev tk # samples_from (Some tk) tks"

text \<open>Within a tick the readings go into a map, so the order of the names does not matter.\<close>

definition Samples :: "int \<Rightarrow> store \<Rightarrow> sample list" where
  "Samples since st = samples_from None (ticks_of (sort_key cs_TS (filter (\<lambda>r. cs_TS r \<ge> since) (st_samples st))))"

fun client_series :: "client_sample option \<Rightarrow> client_sample list \<Rightarrow> sample list" where
  "client_series prev [] = []"
| "client_series prev (r # rs) =
    \<lparr>sm_TS = cs_TS r, sm_Clients = 0, sm_Recv = cs_Recv r, sm_Sent = cs_Sent r,
     sm_RecvRate = (case prev of None \<Rightarrow> 0 | Some p \<Rightarrow> Rate (cs_Recv p) (cs_Recv r) (cs_TS r - cs_TS p)),
     sm_SentRate = (case prev of None \<Rightarrow> 0 | Some p \<Rightarrow> Rate (cs_Sent p) (cs_Sent r) (cs_TS r - cs_TS p))\<rparr>
    # client_series (Some r) rs"

definition ClientSamples :: "string \<Rightarrow> int \<Rightarrow> store \<Rightarrow> sample list" where
  "ClientSamples cn since st = client_series None (sort_key cs_TS (filter (\<lambda>r. cs_CN r = cn \<and> cs_TS r \<ge> since) (st_samples st)))"

definition EndSession :: "ended_session \<Rightarrow> store \<Rightarrow> store" where
  "EndSession cs st = st\<lparr>st_ended := st_ended st @ [cs\<lparr>es_ID := next_id (map es_ID (st_ended st))\<rparr>]\<rparr>"

definition Sessions :: "int \<Rightarrow> store \<Rightarrow> ended_session list" where
  "Sessions k st = (let rows = sort_key (\<lambda>e. - es_Disconnected e) (st_ended st) in
     if k < 0 then rows else take (nat k) rows)"

definition PruneStats :: "int \<Rightarrow> store \<Rightarrow> store" where
  "PruneStats before st = st\<lparr>st_samples := filter (\<lambda>r. \<not> cs_TS r < before) (st_samples st),
     st_ended := filter (\<lambda>e. \<not> es_Disconnected e < before) (st_ended st)\<rparr>"

subsection \<open>The sampler\<close>

record stats_config =
  sc_SampleIntervalSec :: int
  sc_RetentionHours :: int

definition DefaultStatsConfig :: "(string \<Rightarrow> string) \<Rightarrow> stats_config" where
  "DefaultStatsConfig env = \<lparr>sc_SampleIntervalSec = EnvInt (env ''OVCP_STATS_SAMPLE_INTERVAL'') 60,
     sc_RetentionHours = EnvInt (env ''OVCP_STATS_RETENTION_HOURS'') 24\<rparr>"

definition SampleInterval :: "stats_config \<Rightarrow> int" where
  "SampleInterval c = sc_SampleIntervalSec c * second"

definition Retention :: "stats_config \<Rightarrow> int" where
  "Retention c = sc_RetentionHours c * 3600 * second"

datatype stats_error = NotPositive | NegativeCount | StatsEncode

definition LoadStatsConfig :: "(string \<Rightarrow> stats_config \<Rightarrow> stats_config option) \<Rightarrow> (string \<Rightarrow> string) \<Rightarrow> store \<Rightarrow> stats_config" where
  "LoadStatsConfig dec env st = LoadJSON dec ''stats_config'' (DefaultStatsConfig env) st"

definition SaveStatsConfig :: "(stats_config \<Rightarrow> string option) \<Rightarrow> int \<Rightarrow> string \<Rightarrow> stats_config \<Rightarrow> store
    \<Rightarrow> (stats_error, stats_config) result \<times> store" where
  "SaveStatsConfig enc now actor cfg st =
    (if sc_SampleIntervalSec cfg \<le> 0 \<or> sc_RetentionHours cfg \<le> 0 then (Inl NotPositive, st)
     else case SaveJSON enc ''stats_config'' cfg st of
       None \<Rightarrow> (Inl StatsEncode, st)
     | Some st1 \<Rightarrow> (Inr cfg, Audit now actor ''stats_config_change'' [] st1))"

text \<open>A connection is known by its name and the second it began.\<close>

type_synonym session_key = "string \<times> int"

definition since_unix :: "vpn_client \<Rightarrow> int" where
  "since_unix c = (case vc_ConnectedSince c of None \<Rightarrow> - 62135596800 | Some t \<Rightarrow> t)"

definition session_of :: "vpn_client \<Rightarrow> session_key" where
  "session_of c = (vc_CN c, since_unix c)"

type_synonym live_sessions = "(session_key \<times> vpn_client) list"

definition live_of :: "vpn_client list \<Rightarrow> live_sessions" where
  "live_of cur = foldl (\<lambda>m c. AList.update (session_of c) c m) [] cur"

definition ended_row :: "int \<Rightarrow> vpn_client \<Rightarrow> ended_session" where
  "ended_row now was = \<lparr>es_ID = 0, es_CN = vc_CN was, es_Addr = vc_RealAddress was, es_Connected = since_unix was,
     es_Disconnected = now, es_Recv = vc_BytesRecv was, es_Sent = vc_BytesSent was\<rparr>"

text \<open>What the tick does outside the store: the reconnection of the management client and the refresh of
  certs.hosts.\<close>

record 'w sampler_hooks =
  sh_wants_mgmt :: bool
  sh_Connect :: "'w \<Rightarrow> 'w"
  sh_Refresh :: "vpn_client list \<Rightarrow> 'w \<Rightarrow> 'w"

definition samplerTick :: "'w sampler_hooks \<Rightarrow> bool \<Rightarrow> int \<Rightarrow> int \<Rightarrow> (mgmt_error, vpn_client list) result \<Rightarrow> int \<Rightarrow> live_sessions
    \<Rightarrow> store \<times> 'w \<Rightarrow> live_sessions \<times> store \<times> 'w" where
  "samplerTick H sampleStats retention pid status now prev sw = (case sw of (st, w) \<Rightarrow>
    if pid = 0 then (prev, st, w)
    else let w1 = (if sh_wants_mgmt H then sh_Connect H w else w) in
      case status of
        Inl _ \<Rightarrow> (prev, st, w1)
      | Inr cur \<Rightarrow>
          let w2 = sh_Refresh H cur w1;
              live = live_of cur;
              st1 = foldl (\<lambda>s (k, was). if map_of live k = None then EndSession (ended_row now was) s else s) st prev
          in if \<not> sampleStats then (live, st1, w2)
             else (live, PruneStats (now - retention)
                     (foldl (\<lambda>s c. AddClientSample now (vc_CN c) (vc_BytesRecv c) (vc_BytesSent c) s) st1 cur), w2))"

text \<open>What one tick of the sampler finds: openvpn's pid, its status, the clock.\<close>

record tick_input =
  ti_pid :: int
  ti_status :: "(mgmt_error, vpn_client list) result"
  ti_now :: int

text \<open>The loop over the ticks: every \<open>ticksPerSample\<close>-th one samples; the configuration is read again at
  each tick.\<close>

definition ticks_per_sample :: "int \<Rightarrow> stats_config \<Rightarrow> int" where
  "ticks_per_sample poll cfg = max 1 (SampleInterval cfg div poll)"

fun RunSampler :: "'w sampler_hooks \<Rightarrow> (store \<Rightarrow> stats_config) \<Rightarrow> int \<Rightarrow> int \<Rightarrow> tick_input list \<Rightarrow> live_sessions
    \<Rightarrow> store \<times> 'w \<Rightarrow> live_sessions \<times> store \<times> 'w" where
  "RunSampler H load poll n [] prev sw = (prev, sw)"
| "RunSampler H load poll n (t # ts) prev sw =
    (let cfg = load (fst sw); n1 = n + 1;
         (prev1, sw1) = samplerTick H (n1 mod ticks_per_sample poll cfg = 0) (Retention cfg div second) (ti_pid t) (ti_status t) (ti_now t) prev sw
     in RunSampler H load poll n1 ts prev1 sw1)"

subsection \<open>Reading it back\<close>

definition Stats :: "stats_config \<Rightarrow> int \<Rightarrow> string \<Rightarrow> store \<Rightarrow> sample list \<times> ended_session list" where
  "Stats cfg now cn st =
    (let since = now - Retention cfg div second in
     ((if cn \<noteq> [] then ClientSamples cn since st else Samples since st),
      filter (\<lambda>x. cn = [] \<or> es_CN x = cn) (Sessions 200 st)))"

datatype http_stats = CnTooLong | StatsOut "sample list \<times> ended_session list"

definition handleStats :: "stats_config \<Rightarrow> int \<Rightarrow> string \<Rightarrow> store \<Rightarrow> http_stats" where
  "handleStats cfg now cn st = (if length cn > MaxCNLen then CnTooLong else StatsOut (Stats cfg now cn st))"

end
