(* ===== verification/Stats_Props.thy ===== *)
theory Stats_Props
  imports Stats
begin

section \<open>Traffic history: one view of one client, one row per departure\<close>

text \<open>
  The series of a client against the samples stored, the bounds that keep counters from wrapping, and the sampler's record of
  departures.
\<close>

subsection \<open>Series\<close>

definition stored_ok :: "client_sample \<Rightarrow> bool" where
  "stored_ok r \<longleftrightarrow> 0 \<le> cs_Recv r \<and> cs_Recv r < 2 ^ 63 \<and> 0 \<le> cs_Sent r \<and> cs_Sent r < 2 ^ 63"

definition tick1 :: "client_sample \<Rightarrow> tick" where
  "tick1 r = (cs_TS r, [(cs_CN r, cs_Recv r, cs_Sent r)])"

lemma tick_add_new: "ticks = [] \<or> fst (last ticks) \<noteq> cs_TS r \<Longrightarrow> tick_add ticks r = ticks @ [tick1 r]"
  by (auto simp: tick_add_def tick1_def)

lemma ticks_single:
  "distinct (map cs_TS rows) \<Longrightarrow> ticks = [] \<or> fst (last ticks) \<notin> cs_TS ` set rows \<Longrightarrow>
   foldl tick_add ticks rows = ticks @ map tick1 rows"
proof (induction rows arbitrary: ticks)
  case (Cons r rows)
  have "tick_add ticks r = ticks @ [tick1 r]" by (rule tick_add_new) (use Cons.prems in auto)
  moreover have "foldl tick_add (ticks @ [tick1 r]) rows = (ticks @ [tick1 r]) @ map tick1 rows"
    by (rule Cons.IH) (use Cons.prems in \<open>auto simp: tick1_def\<close>)
  ultimately show ?case by simp
qed simp

lemma u64_small: "0 \<le> n \<Longrightarrow> n < 2 ^ 63 \<Longrightarrow> u64 n = n"
  by (simp add: u64_def)

lemma sum_single: "0 \<le> n \<Longrightarrow> n < 2 ^ 63 \<Longrightarrow> sum_u64 [n] = n"
  by (simp add: sum_u64_def u64_small)

lemma ClampedDelta_bounds: "0 \<le> prev \<Longrightarrow> cur < 2 ^ 63 \<Longrightarrow> 0 \<le> ClampedDelta prev cur \<and> ClampedDelta prev cur < 2 ^ 63"
  by (simp add: ClampedDelta_def)

lemma ClampedDelta_idem: "0 \<le> prev \<Longrightarrow> ClampedDelta 0 (ClampedDelta prev cur) = ClampedDelta prev cur"
  by (simp add: ClampedDelta_def)

lemma Rate_clamped: "0 \<le> prev \<Longrightarrow> Rate 0 (ClampedDelta prev cur) dt = Rate prev cur dt"
  by (simp add: Rate_def ClampedDelta_idem)

lemma deltas_single:
  assumes "stored_ok p" "stored_ok r" "cs_CN p = cs_CN r"
  shows "recv_delta (tick1 p) (tick1 r) = ClampedDelta (cs_Recv p) (cs_Recv r)"
    "sent_delta (tick1 p) (tick1 r) = ClampedDelta (cs_Sent p) (cs_Sent r)"
  using assms ClampedDelta_bounds [of "cs_Recv p" "cs_Recv r"] ClampedDelta_bounds [of "cs_Sent p" "cs_Sent r"]
  by (simp_all add: recv_delta_def sent_delta_def tick1_def stored_ok_def sum_single)

lemma series_single:
  "\<forall>r \<in> set rows. stored_ok r \<and> cs_CN r = cn \<Longrightarrow> (case prev of None \<Rightarrow> True | Some p \<Rightarrow> stored_ok p \<and> cs_CN p = cn) \<Longrightarrow>
   map (\<lambda>s. s\<lparr>sm_Clients := 0\<rparr>) (samples_from (map_option tick1 prev) (map tick1 rows)) = client_series prev rows"
proof (induction rows arbitrary: prev)
  case (Cons r rows)
  have r: "stored_ok r" "cs_CN r = cn" using Cons.prems(1) by simp_all
  have s: "sum_u64 [cs_Recv r] = cs_Recv r" "sum_u64 [cs_Sent r] = cs_Sent r" using r(1) by (simp_all add: stored_ok_def sum_single)
  have "sample_at (map_option tick1 prev) (tick1 r) = \<lparr>sm_TS = cs_TS r, sm_Clients = 1, sm_Recv = cs_Recv r, sm_Sent = cs_Sent r,
     sm_RecvRate = (case prev of None \<Rightarrow> 0 | Some p \<Rightarrow> Rate (cs_Recv p) (cs_Recv r) (cs_TS r - cs_TS p)),
     sm_SentRate = (case prev of None \<Rightarrow> 0 | Some p \<Rightarrow> Rate (cs_Sent p) (cs_Sent r) (cs_TS r - cs_TS p))\<rparr>"
  proof (cases prev)
    case None
    then show ?thesis using s by (simp add: sample_at_def tick1_def)
  next
    case (Some p)
    then have p: "stored_ok p" "cs_CN p = cs_CN r" using Cons.prems(2) r(2) by simp_all
    have "Rate 0 (recv_delta (tick1 p) (tick1 r)) dt = Rate (cs_Recv p) (cs_Recv r) dt"
      "Rate 0 (sent_delta (tick1 p) (tick1 r)) dt = Rate (cs_Sent p) (cs_Sent r) dt" for dt
      using deltas_single [OF p(1) r(1) p(2)] Rate_clamped p(1) by (simp_all add: stored_ok_def)
    then show ?thesis using Some s by (simp add: sample_at_def) (simp add: tick1_def)
  qed
  moreover have "map (\<lambda>s. s\<lparr>sm_Clients := 0\<rparr>) (samples_from (Some (tick1 r)) (map tick1 rows)) = client_series (Some r) rows"
    using Cons.IH [of "Some r"] Cons.prems(1) r by simp
  ultimately show ?case by simp
qed simp

subsection \<open>Departures\<close>

definition departs :: "session_key list \<Rightarrow> session_key list \<Rightarrow> session_key \<Rightarrow> nat" where
  "departs before after k = (if k \<in> set before \<and> k \<notin> set after then 1 else 0)"

fun departures :: "session_key list list \<Rightarrow> session_key \<Rightarrow> nat" where
  "departures (a # b # rest) k = departs a b k + departures (b # rest) k"
| "departures _ k = 0"

definition rows_of :: "session_key \<Rightarrow> store \<Rightarrow> nat" where
  "rows_of k st = length (filter (\<lambda>e. (es_CN e, es_Connected e) = k) (st_ended st))"

lemma update_new: "k \<notin> fst ` set m \<Longrightarrow> AList.update k v m = m @ [(k, v)]"
  by (induction m) auto

lemma live_of_distinct:
  "distinct (map session_of cur) \<Longrightarrow> session_of ` set cur \<inter> fst ` set m = {} \<Longrightarrow>
   foldl (\<lambda>m c. AList.update (session_of c) c m) m cur = m @ map (\<lambda>c. (session_of c, c)) cur"
proof (induction cur arbitrary: m)
  case (Cons c cur)
  have "AList.update (session_of c) c m = m @ [(session_of c, c)]" by (rule update_new) (use Cons.prems in auto)
  moreover have "foldl (\<lambda>m c. AList.update (session_of c) c m) (m @ [(session_of c, c)]) cur
      = (m @ [(session_of c, c)]) @ map (\<lambda>c. (session_of c, c)) cur"
    by (rule Cons.IH) (use Cons.prems in auto)
  ultimately show ?case by simp
qed simp

lemma live_of_map: "distinct (map session_of cur) \<Longrightarrow> live_of cur = map (\<lambda>c. (session_of c, c)) cur"
  using live_of_distinct [of cur "[]"] by (simp add: live_of_def)

lemma map_of_live_None: "map_of (map (\<lambda>c. (session_of c, c)) cur) k = None \<longleftrightarrow> k \<notin> set (map session_of cur)"
  by (induction cur) auto

lemma rows_of_end: "rows_of k (EndSession (ended_row now was) st) = rows_of k st + (if session_of was = k then 1 else 0)"
  by (simp add: rows_of_def EndSession_def ended_row_def session_of_def)

lemma rows_of_ended:
  "distinct (map session_of ps) \<Longrightarrow>
   rows_of k (foldl (\<lambda>s (key, was). if P key then EndSession (ended_row now was) s else s) st (map (\<lambda>c. (session_of c, c)) ps))
     = rows_of k st + (if k \<in> set (map session_of ps) \<and> P k then 1 else 0)"
  by (induction ps arbitrary: st) (auto simp: rows_of_end)

text \<open>A good tick: openvpn runs and its status was read. The clients it lists are \<open>cur\<close>.\<close>

lemma samplerTick_departures:
  assumes "distinct (map session_of cur)" "distinct (map session_of prev)" "pid \<noteq> 0"
  shows "\<exists>st' w'. samplerTick H False ret pid (Inr cur) now (map (\<lambda>c. (session_of c, c)) prev) (st, w)
      = (map (\<lambda>c. (session_of c, c)) cur, st', w')
    \<and> rows_of k st' = rows_of k st + departs (map session_of prev) (map session_of cur) k"
  using assms rows_of_ended [OF assms(2), of k "\<lambda>key. key \<notin> set (map session_of cur)" now st]
  by (simp add: samplerTick_def live_of_map map_of_live_None departs_def)

fun good_tick :: "tick_input \<Rightarrow> vpn_client list option" where
  "good_tick t = (if ti_pid t = 0 then None else case ti_status t of Inl _ \<Rightarrow> None | Inr cur \<Rightarrow> Some cur)"

text \<open>A tick that cannot read the status changes nothing.\<close>

lemma samplerTick_skip:
  assumes "good_tick t = None"
  shows "\<exists>w'. samplerTick H s ret (ti_pid t) (ti_status t) now prev (st, w) = (prev, st, w')"
  using assms by (auto simp: samplerTick_def Let_def split: sum.splits if_splits)

text \<open>The sampler between two samples of the traffic.\<close>

fun tick_run :: "'w sampler_hooks \<Rightarrow> tick_input list \<Rightarrow> live_sessions \<Rightarrow> store \<times> 'w \<Rightarrow> live_sessions \<times> store \<times> 'w" where
  "tick_run H [] prev sw = (prev, sw)"
| "tick_run H (t # ts) prev sw =
    (case samplerTick H False 0 (ti_pid t) (ti_status t) (ti_now t) prev sw of (prev1, sw1) \<Rightarrow> tick_run H ts prev1 sw1)"

definition statuses :: "tick_input list \<Rightarrow> vpn_client list list" where
  "statuses ts = List.map_filter good_tick ts"

lemma statuses_Cons: "statuses (t # ts) = (case good_tick t of None \<Rightarrow> statuses ts | Some cur \<Rightarrow> cur # statuses ts)"
  by (simp add: statuses_def List.map_filter_def split: option.split)

lemma tick_run_departures:
  "distinct (map session_of prev) \<Longrightarrow> \<forall>cur \<in> set (statuses ts). distinct (map session_of cur) \<Longrightarrow>
   rows_of k (fst (snd (tick_run H ts (map (\<lambda>c. (session_of c, c)) prev) (st, w))))
     = rows_of k st + departures (map session_of prev # map (map session_of) (statuses ts)) k"
proof (induction ts arbitrary: prev st w)
  case Nil
  then show ?case by (simp add: statuses_def List.map_filter_def)
next
  case (Cons t ts)
  show ?case
  proof (cases "good_tick t")
    case None
    then obtain w' where "samplerTick H False 0 (ti_pid t) (ti_status t) (ti_now t) (map (\<lambda>c. (session_of c, c)) prev) (st, w)
        = (map (\<lambda>c. (session_of c, c)) prev, st, w')"
      using samplerTick_skip [OF None, of H False 0 "ti_now t" "map (\<lambda>c. (session_of c, c)) prev" st w] by blast
    then show ?thesis using Cons None by (simp add: statuses_Cons del: good_tick.simps)
  next
    case (Some cur)
    then have c: "ti_pid t \<noteq> 0" "ti_status t = Inr cur" by (auto split: if_splits sum.splits)
    have d: "distinct (map session_of cur)" using Cons.prems(2) Some by (simp add: statuses_Cons del: good_tick.simps)
    obtain st' w' where s: "samplerTick H False 0 (ti_pid t) (ti_status t) (ti_now t) (map (\<lambda>c. (session_of c, c)) prev) (st, w)
        = (map (\<lambda>c. (session_of c, c)) cur, st', w')"
      "rows_of k st' = rows_of k st + departs (map session_of prev) (map session_of cur) k"
      using samplerTick_departures [OF d Cons.prems(1) c(1), of H 0 "ti_now t" st w k] c(2) by auto
    then show ?thesis using Cons.IH [OF d, of st' w'] Cons.prems(2) Some by (simp add: statuses_Cons del: good_tick.simps)
  qed
qed

text \<open>Two sessions of one name that began in the same second are one key: when one of them leaves,
  nothing is logged.\<close>

definition twin :: "string \<Rightarrow> vpn_client" where
  "twin cid = \<lparr>vc_CID = cid, vc_CN = ''alice'', vc_RealAddress = ''198.51.100.7:4242'', vc_VirtualAddress = ''10.8.0.2'',
     vc_BytesRecv = 1, vc_BytesSent = 1, vc_ConnectedSince = Some 77, vc_Cipher = []\<rparr>"

definition no_hooks :: "unit sampler_hooks" where
  "no_hooks = \<lparr>sh_wants_mgmt = False, sh_Connect = (\<lambda>w. w), sh_Refresh = (\<lambda>_ w. w)\<rparr>"

lemma twin_sessions_merge:
  "st_ended (fst (snd (tick_run no_hooks [\<lparr>ti_pid = 7, ti_status = Inr [twin ''1'', twin ''2''], ti_now = 80\<rparr>,
     \<lparr>ti_pid = 7, ti_status = Inr [twin ''2''], ti_now = 90\<rparr>] [] (empty_store, ())))) = []"
  by code_simp

subsection \<open>Properties\<close>



text \<open>The two views of the history agree: when the samples are all of one client, the whole-VPN series is
  that client's own series, point for point in time, volume and rate, though one sums clamped deltas over
  a map of readings and the other walks the rows.\<close>

theorem global_series_is_client_series:
  assumes "\<forall>r \<in> set (st_samples st). stored_ok r \<and> cs_CN r = cn" and "distinct (map cs_TS (st_samples st))"
  shows "map (\<lambda>s. s\<lparr>sm_Clients := 0\<rparr>) (Samples since st) = ClientSamples cn since st"
proof -
  define rows where "rows = sort_key cs_TS (filter (\<lambda>r. cs_TS r \<ge> since) (st_samples st))"
  have f: "filter (\<lambda>r. cs_CN r = cn \<and> cs_TS r \<ge> since) (st_samples st) = filter (\<lambda>r. cs_TS r \<ge> since) (st_samples st)"
    using assms(1) by (intro filter_cong) auto
  have "distinct (map cs_TS (filter (\<lambda>r. cs_TS r \<ge> since) (st_samples st)))" by (rule distinct_map_filter_key [OF assms(2)])
  then have d: "distinct (map cs_TS rows)"
    by (simp add: rows_def distinct_map inj_on_def)
  have r: "\<forall>r \<in> set rows. stored_ok r \<and> cs_CN r = cn" using assms(1) by (simp add: rows_def)
  have "ticks_of rows = map tick1 rows" using ticks_single [OF d, of "[]"] by (simp add: ticks_of_def)
  then show ?thesis using series_single [OF r, of None] by (simp add: Samples_def ClientSamples_def f rows_def [symmetric])
qed

definition alice_samples :: store where
  "alice_samples = AddClientSample 120 ''alice'' 900 30 (AddClientSample 60 ''alice'' 300 20 empty_store)"

theorem global_series_is_client_series_witness:
  "map sm_RecvRate (ClientSamples ''alice'' 0 alice_samples) = [0, 10] \<and> map sm_RecvRate (Samples 0 alice_samples) = [0, 10]"
proof -
  have h: "list_all (\<lambda>r. stored_ok r \<and> cs_CN r = ''alice'') (st_samples alice_samples)" "distinct (map cs_TS (st_samples alice_samples))"
    by code_simp+
  have "map sm_RecvRate (Samples 0 alice_samples) = [0, 10]" by code_simp
  moreover have "map (\<lambda>s. s\<lparr>sm_Clients := 0\<rparr>) (Samples 0 alice_samples) = ClientSamples ''alice'' 0 alice_samples"
    by (rule global_series_is_client_series) (use h in \<open>simp_all add: list_all_iff\<close>)
  from arg_cong [OF this, of "map sm_RecvRate"] have "map sm_RecvRate (Samples 0 alice_samples) = map sm_RecvRate (ClientSamples ''alice'' 0 alice_samples)"
    by (simp add: comp_def)
  ultimately show ?thesis by simp
qed

end
