(* ===== verification/Pki.thy ===== *)
theory Pki
  imports Go_FS Go_Net Pki_Names Store
begin

section \<open>The certificate authority\<close>

text \<open>
  \<^verbatim>\<open>src/internal/pki\<close>: the sealed key file (\<^verbatim>\<open>keystore.go\<close>), the CA with its issue, renewal,
  passphrase rotation and revocation list (\<^verbatim>\<open>pki.go\<close>), the client profile (\<^verbatim>\<open>ovpn.go\<close>). A byte slice
  is a string. The cryptography (argon2, AES-GCM, ECDSA, the DER and PEM codecs, the envelope's
  JSON codec) is the record \<open>pki_lib\<close>; what the operations draw from the machine (clock, calendar,
  random bytes, fresh keys) is the record \<open>pki_env\<close>, a draw that fails being None. Methods are
  steps on the files of \<open>Go_FS\<close>; file modes are not modelled.
\<close>

subsection \<open>Data\<close>

datatype priv_key = EcKey string | OtherKey string

datatype key_usage = DigitalSignature | KeyEncipherment | CertSign | CRLSign
datatype ext_key_usage = ServerAuth | ClientAuth

record x509_cert =
  xc_Serial :: int
  xc_Subject :: string
  xc_NotBefore :: int
  xc_NotAfter :: int
  xc_IsCA :: bool
  xc_BasicConstraints :: bool
  xc_MaxPathLenZero :: bool
  xc_KeyUsage :: "key_usage list"
  xc_ExtKeyUsage :: "ext_key_usage list"
  xc_DNSNames :: "string list"

record revocation_list =
  rl_Number :: int
  rl_ThisUpdate :: int
  rl_NextUpdate :: int
  rl_Entries :: "(int \<times> int) list"

record envelope =
  ev_V :: int
  ev_KDF :: string
  ev_Time :: int
  ev_MemKiB :: int
  ev_Threads :: int
  ev_Salt :: string
  ev_Nonce :: string
  ev_CT :: string

text \<open>\<open>px_cipher key\<close> is \<^verbatim>\<open>cipher.NewGCM(aes.NewCipher(key))\<close>: seal takes nonce and plaintext, open nonce and
  ciphertext. \<open>px_create\<close> takes template, parent, public key, signing key.\<close>

record pki_lib =
  px_kdf :: "string \<Rightarrow> string \<Rightarrow> int \<Rightarrow> int \<Rightarrow> int \<Rightarrow> nat \<Rightarrow> string"
  px_cipher :: "string \<Rightarrow> aead"
  px_marshal :: "envelope \<Rightarrow> string"
  px_unmarshal :: "string \<Rightarrow> envelope option"
  px_pem :: "string \<Rightarrow> string \<Rightarrow> string"
  px_unpem :: "string \<Rightarrow> string option"
  px_public :: "priv_key \<Rightarrow> string"
  px_create :: "x509_cert \<Rightarrow> x509_cert \<Rightarrow> string \<Rightarrow> priv_key \<Rightarrow> string option"
  px_parse :: "string \<Rightarrow> x509_cert option"
  px_pkcs8 :: "priv_key \<Rightarrow> string option"
  px_unpkcs8 :: "string \<Rightarrow> priv_key option"
  px_create_crl :: "revocation_list \<Rightarrow> x509_cert \<Rightarrow> priv_key \<Rightarrow> string option"
  px_sec1 :: "priv_key \<Rightarrow> string option"
  px_encrypt_block :: "string \<Rightarrow> string \<Rightarrow> string \<Rightarrow> string option"

record pki_env =
  pe_Now :: int
  pe_AddDate :: "int \<Rightarrow> int \<Rightarrow> int \<Rightarrow> int"
  pe_Key :: "priv_key option"
  pe_Serial :: "int option"
  pe_Salt :: "string option"
  pe_Nonce :: "string option"
  pe_Random :: "string option"

record issued_cert =
  ic_SerialHex :: string
  ic_CN :: string
  ic_NotAfter :: int
  ic_CertPEM :: string
  ic_KeyPEM :: string

record revoked_entry =
  re_SerialHex :: string
  re_RevokedAt :: int

text \<open>\<open>Panic\<close> stands for the run-time panics of \<^verbatim>\<open>argon2.IDKey\<close> and of GCM's \<^verbatim>\<open>Open\<close> on parameters they
  do not accept.\<close>

datatype pki_error =
    ErrCAExists
  | ErrBadPassphrase
  | UnsupportedEnvelope
  | Panic
  | BadPkiName name_error
  | BadValidity
  | NoPEMBlock
  | ParseError
  | UnexpectedKeyType
  | BadSerial string
  | NotInitialized
  | ReadError
  | WriteError
  | RandError
  | SignError
  | BadRemoteOrCN

type_synonym 'a pki_step = "(fsys, pki_error, 'a) step"

subsection \<open>Files: WriteFileAtomic\<close>

text \<open>A file operation that can fail, as a step.\<close>

definition fsE :: "pki_error \<Rightarrow> (fsys \<Rightarrow> bool \<times> fsys) \<Rightarrow> unit pki_step" where
  "fsE e f s = (case f s of (ok, s1) \<Rightarrow> (if ok then Inr () else Inl e, s1))"

definition readE :: "pki_error \<Rightarrow> string \<Rightarrow> string pki_step" where
  "readE e p s = (case fs_read_file p s of (None, s1) \<Rightarrow> (Inl e, s1) | (Some d, s1) \<Rightarrow> (Inr d, s1))"

text \<open>The best-effort sync of the directory after the rename changes no file and is ignored.\<close>

definition tmp_of :: "string \<Rightarrow> string" where
  "tmp_of path = path @ ''.tmp''"

definition WriteFileAtomic :: "string \<Rightarrow> string \<Rightarrow> unit pki_step" where
  "WriteFileAtomic path data s =
     bindE (fsE WriteError (fs_create_excl (tmp_of path))) (\<lambda>_.
     bindE (fsE WriteError (fs_write_open (tmp_of path) data)) (\<lambda>_.
     bindE (fsE WriteError fs_check) (\<lambda>_.
     bindE (fsE WriteError fs_check) (\<lambda>_.
     fsE WriteError (fs_rename (tmp_of path) path))))) (snd (fs_remove (tmp_of path) s))"

subsection \<open>The sealed key file\<close>

abbreviation kdfTime :: int where "kdfTime \<equiv> 2"
abbreviation kdfMemKiB :: int where "kdfMemKiB \<equiv> 65536"
abbreviation kdfThreads :: int where "kdfThreads \<equiv> 4"

definition Seal :: "pki_lib \<Rightarrow> pki_env \<Rightarrow> string \<Rightarrow> string \<Rightarrow> (pki_error, string) result" where
  "Seal px en plaintext passphrase = (case pe_Salt en of None \<Rightarrow> Inl RandError
     | Some salt \<Rightarrow> (let key = px_kdf px passphrase salt kdfTime kdfMemKiB kdfThreads 32 in
       case pe_Nonce en of None \<Rightarrow> Inl RandError
       | Some nonce \<Rightarrow> Inr (px_marshal px \<lparr>ev_V = 1, ev_KDF = ''argon2id'', ev_Time = kdfTime, ev_MemKiB = kdfMemKiB,
           ev_Threads = kdfThreads, ev_Salt = salt, ev_Nonce = nonce,
           ev_CT = ae_seal (px_cipher px key) nonce plaintext\<rparr>)))"

text \<open>\<^verbatim>\<open>IDKey\<close> panics on zero passes or threads, \<^verbatim>\<open>Open\<close> on a nonce of the wrong length.\<close>

definition Open_env :: "pki_lib \<Rightarrow> string \<Rightarrow> string \<Rightarrow> (pki_error, string) result" where
  "Open_env px data passphrase = (case px_unmarshal px data of None \<Rightarrow> Inl ErrBadPassphrase
     | Some e \<Rightarrow>
       if ev_KDF e \<noteq> ''argon2id'' \<or> ev_V e \<noteq> 1 then Inl UnsupportedEnvelope
       else if ev_Time e < 1 \<or> ev_Threads e < 1 then Inl Panic
       else if length (ev_Nonce e) \<noteq> NonceSize then Inl Panic
       else (case ae_open (px_cipher px (px_kdf px passphrase (ev_Salt e) (ev_Time e) (ev_MemKiB e) (ev_Threads e) 32))
               (ev_Nonce e) (ev_CT e) of
           None \<Rightarrow> Inl ErrBadPassphrase | Some pt \<Rightarrow> Inr pt))"

definition sealToFile :: "pki_lib \<Rightarrow> pki_env \<Rightarrow> string \<Rightarrow> string \<Rightarrow> string \<Rightarrow> unit pki_step" where
  "sealToFile px en path plaintext passphrase =
     bindE (pureE (Seal px en plaintext passphrase)) (\<lambda>data. WriteFileAtomic path data)"

definition openFromFile :: "pki_lib \<Rightarrow> string \<Rightarrow> string \<Rightarrow> string pki_step" where
  "openFromFile px path passphrase =
     bindE (readE ReadError path) (\<lambda>data. pureE (Open_env px data passphrase))"

subsection \<open>The CA\<close>

text \<open>\<open>dir\<close> is the field \<^verbatim>\<open>Dir\<close> of \<^verbatim>\<open>PKI\<close>.\<close>

definition caCertPath :: "string \<Rightarrow> string" where "caCertPath dir = path_join dir ''ca.crt''"
definition caKeyPath :: "string \<Rightarrow> string" where "caKeyPath dir = path_join dir ''ca.key.enc''"
definition CRLPath :: "string \<Rightarrow> string" where "CRLPath dir = path_join dir ''crl.pem''"

definition caTemplate :: "pki_env \<Rightarrow> string \<Rightarrow> int \<Rightarrow> int \<Rightarrow> x509_cert" where
  "caTemplate en subject serial years = \<lparr>xc_Serial = serial, xc_Subject = subject,
     xc_NotBefore = pe_Now en - 5 * 60, xc_NotAfter = pe_AddDate en (pe_Now en) years 0,
     xc_IsCA = True, xc_BasicConstraints = True, xc_MaxPathLenZero = True,
     xc_KeyUsage = [CertSign, CRLSign], xc_ExtKeyUsage = [], xc_DNSNames = []\<rparr>"

definition parseCertPEM :: "pki_lib \<Rightarrow> string \<Rightarrow> (pki_error, x509_cert) result" where
  "parseCertPEM px data = (case px_unpem px data of None \<Rightarrow> Inl NoPEMBlock
     | Some der \<Rightarrow> orE (px_parse px der) ParseError)"

definition CACertPEM :: "string \<Rightarrow> string pki_step" where
  "CACertPEM dir = readE ReadError (caCertPath dir)"

definition CACert :: "pki_lib \<Rightarrow> string \<Rightarrow> x509_cert pki_step" where
  "CACert px dir = bindE (CACertPEM dir) (\<lambda>pem. pureE (parseCertPEM px pem))"

definition signing_key :: "pki_lib \<Rightarrow> string \<Rightarrow> (pki_error, priv_key) result" where
  "signing_key px keyDER = (case px_unpkcs8 px keyDER of None \<Rightarrow> Inl ErrBadPassphrase
     | Some (EcKey k) \<Rightarrow> Inr (EcKey k)
     | Some (OtherKey _) \<Rightarrow> Inl UnexpectedKeyType)"

definition loadCA :: "pki_lib \<Rightarrow> string \<Rightarrow> string \<Rightarrow> (x509_cert \<times> priv_key) pki_step" where
  "loadCA px dir passphrase =
     bindE (mapE (\<lambda>_. NotInitialized) (CACertPEM dir)) (\<lambda>pem.
     bindE (pureE (parseCertPEM px pem)) (\<lambda>cert.
     bindE (openFromFile px (caKeyPath dir) passphrase) (\<lambda>keyDER.
     bindE (pureE (signing_key px keyDER)) (\<lambda>key.
     pureE (Inr (cert, key))))))"

definition CheckPassphrase :: "pki_lib \<Rightarrow> string \<Rightarrow> string \<Rightarrow> unit pki_step" where
  "CheckPassphrase px dir passphrase = bindE (loadCA px dir passphrase) (\<lambda>_. pureE (Inr ()))"

text \<open>\<^verbatim>\<open>SetString(s, 16)\<close> of a \<^verbatim>\<open>big.Int\<close>.\<close>

definition parse_hex_digits :: "string \<Rightarrow> int option" where
  "parse_hex_digits s = (if s \<noteq> [] \<and> list_all is_hex_c s then Some (int (hexs_val s)) else None)"

definition parse_hex_big :: "string \<Rightarrow> int option" where
  "parse_hex_big s = (case s of [] \<Rightarrow> None
     | c # r \<Rightarrow> if c = CHR ''-'' then map_option uminus (parse_hex_digits r)
         else if c = CHR ''+'' then parse_hex_digits r else parse_hex_digits s)"

fun crl_entries :: "revoked_entry list \<Rightarrow> (pki_error, (int \<times> int) list) result" where
  "crl_entries [] = Inr []"
| "crl_entries (r # rs) = (case parse_hex_big (re_SerialHex r) of None \<Rightarrow> Inl (BadSerial (re_SerialHex r))
     | Some n \<Rightarrow> (case crl_entries rs of Inl e \<Rightarrow> Inl e | Inr es \<Rightarrow> Inr ((n, re_RevokedAt r) # es)))"

definition crl_template :: "pki_env \<Rightarrow> (int \<times> int) list \<Rightarrow> revocation_list" where
  "crl_template en entries = \<lparr>rl_Number = pe_Now en, rl_ThisUpdate = pe_Now en,
     rl_NextUpdate = pe_AddDate en (pe_Now en) 10 0, rl_Entries = entries\<rparr>"

definition RegenCRL :: "pki_lib \<Rightarrow> pki_env \<Rightarrow> string \<Rightarrow> revoked_entry list \<Rightarrow> string \<Rightarrow> unit pki_step" where
  "RegenCRL px en dir revoked passphrase =
     bindE (loadCA px dir passphrase) (\<lambda>(caCert, caKey).
     bindE (pureE (crl_entries revoked)) (\<lambda>entries.
     bindE (pureE (orE (px_create_crl px (crl_template en entries) caCert caKey) SignError)) (\<lambda>der.
     WriteFileAtomic (CRLPath dir) (px_pem px ''X509 CRL'' der))))"

definition InitCA :: "pki_lib \<Rightarrow> pki_env \<Rightarrow> string \<Rightarrow> string \<Rightarrow> int \<Rightarrow> string \<Rightarrow> unit pki_step" where
  "InitCA px en dir cn years passphrase s = (case fs_stat (caCertPath dir) s of (found, s0) \<Rightarrow>
     if found then (Inl ErrCAExists, s0)
     else bindE (pureE (orE (pe_Key en) RandError)) (\<lambda>key.
       bindE (pureE (orE (pe_Serial en) RandError)) (\<lambda>serial.
       let tpl = caTemplate en cn serial years in
       bindE (pureE (orE (px_create px tpl tpl (px_public px key) key) SignError)) (\<lambda>der.
       bindE (pureE (orE (px_pkcs8 px key) SignError)) (\<lambda>keyDER.
       bindE (sealToFile px en (caKeyPath dir) keyDER passphrase) (\<lambda>_.
       bindE (WriteFileAtomic (caCertPath dir) (px_pem px ''CERTIFICATE'' der)) (\<lambda>_.
       RegenCRL px en dir [] passphrase)))))) s0)"

definition RenewCA :: "pki_lib \<Rightarrow> pki_env \<Rightarrow> string \<Rightarrow> int \<Rightarrow> string \<Rightarrow> x509_cert pki_step" where
  "RenewCA px en dir years passphrase =
     bindE (loadCA px dir passphrase) (\<lambda>(cur, key).
     bindE (pureE (orE (pe_Serial en) RandError)) (\<lambda>serial.
     let tpl = caTemplate en (xc_Subject cur) serial years in
     bindE (pureE (orE (px_create px tpl tpl (px_public px key) key) SignError)) (\<lambda>der.
     bindE (WriteFileAtomic (caCertPath dir) (px_pem px ''CERTIFICATE'' der)) (\<lambda>_.
     pureE (orE (px_parse px der) ParseError)))))"

definition Rotate :: "pki_lib \<Rightarrow> pki_env \<Rightarrow> string \<Rightarrow> string \<Rightarrow> string \<Rightarrow> unit pki_step" where
  "Rotate px en dir oldPassphrase newPassphrase =
     bindE (openFromFile px (caKeyPath dir) oldPassphrase) (\<lambda>keyDER.
     bindE (pureE (Seal px en keyDER newPassphrase)) (\<lambda>data.
     WriteFileAtomic (caKeyPath dir) data))"

subsection \<open>Issuing\<close>

datatype cert_kind = KindServer | KindClient

definition issue_template :: "pki_env \<Rightarrow> cert_kind \<Rightarrow> string \<Rightarrow> int \<Rightarrow> int \<Rightarrow> x509_cert" where
  "issue_template en kind cn serial days =
     (let tpl = \<lparr>xc_Serial = serial, xc_Subject = cn, xc_NotBefore = pe_Now en - 5 * 60,
        xc_NotAfter = pe_AddDate en (pe_Now en) 0 days, xc_IsCA = False, xc_BasicConstraints = False,
        xc_MaxPathLenZero = False, xc_KeyUsage = [DigitalSignature], xc_ExtKeyUsage = [], xc_DNSNames = []\<rparr> in
      case kind of
        KindServer \<Rightarrow> tpl\<lparr>xc_ExtKeyUsage := [ServerAuth], xc_KeyUsage := [DigitalSignature, KeyEncipherment],
          xc_DNSNames := [cn]\<rparr>
      | KindClient \<Rightarrow> tpl\<lparr>xc_ExtKeyUsage := [ClientAuth]\<rparr>)"

text \<open>\<^verbatim>\<open>%x\<close> of a serial; \<^verbatim>\<open>rand.Int\<close> draws none below 0.\<close>

definition serial_hex :: "int \<Rightarrow> string" where
  "serial_hex n = (if n < 0 then CHR ''-'' # hex_str (nat (- n)) else hex_str (nat n))"

definition Issue :: "pki_lib \<Rightarrow> pki_env \<Rightarrow> string \<Rightarrow> cert_kind \<Rightarrow> string \<Rightarrow> int \<Rightarrow> string \<Rightarrow> issued_cert pki_step" where
  "Issue px en dir kind cn days passphrase =
     bindE (pureE (case CheckName ''pki: cn'' cn of Inl e \<Rightarrow> Inl (BadPkiName e) | Inr u \<Rightarrow> Inr u)) (\<lambda>_.
     bindE (guardE (days \<le> 0) BadValidity) (\<lambda>_.
     bindE (loadCA px dir passphrase) (\<lambda>(caCert, caKey).
     bindE (pureE (orE (pe_Key en) RandError)) (\<lambda>key.
     bindE (pureE (orE (pe_Serial en) RandError)) (\<lambda>serial.
     let tpl = issue_template en kind cn serial days in
     bindE (pureE (orE (px_create px tpl caCert (px_public px key) caKey) SignError)) (\<lambda>der.
     bindE (pureE (orE (px_pkcs8 px key) SignError)) (\<lambda>keyDER.
     pureE (Inr \<lparr>ic_SerialHex = serial_hex serial, ic_CN = cn, ic_NotAfter = xc_NotAfter tpl,
       ic_CertPEM = px_pem px ''CERTIFICATE'' der, ic_KeyPEM = px_pem px ''PRIVATE KEY'' keyDER\<rparr>))))))))"

definition EncryptKeyPEM :: "pki_lib \<Rightarrow> pki_env \<Rightarrow> string \<Rightarrow> string \<Rightarrow> (pki_error, string) result" where
  "EncryptKeyPEM px en keyPEM password = (case px_unpem px keyPEM of None \<Rightarrow> Inl NoPEMBlock
     | Some der \<Rightarrow> (case px_unpkcs8 px der of None \<Rightarrow> Inl ParseError
       | Some (OtherKey _) \<Rightarrow> Inl UnexpectedKeyType
       | Some (EcKey k) \<Rightarrow> (case px_sec1 px (EcKey k) of None \<Rightarrow> Inl SignError
         | Some sec1 \<Rightarrow> (case pe_Random en of None \<Rightarrow> Inl RandError
           | Some rnd \<Rightarrow> orE (px_encrypt_block px rnd sec1 password) SignError))))"

subsection \<open>The client profile\<close>

fun chunks32 :: "nat \<Rightarrow> string \<Rightarrow> string" where
  "chunks32 0 h = []"
| "chunks32 (Suc n) h = take 32 h @ NL @ chunks32 n (drop 32 h)"

text \<open>\<open>raw\<close> is the 256 bytes read; the loop runs \<open>length h / 32\<close> = 16 times.\<close>

definition GenTLSCryptKey :: "string option \<Rightarrow> (pki_error, string) result" where
  "GenTLSCryptKey raw = (case raw of None \<Rightarrow> Inl RandError
     | Some r \<Rightarrow> Inr (''#'' @ NL @ ''# 2048 bit OpenVPN static key (OVCP)'' @ NL @ ''#'' @ NL
         @ ''-----BEGIN OpenVPN Static key V1-----'' @ NL
         @ chunks32 (length (hex_encode r) div 32) (hex_encode r)
         @ ''-----END OpenVPN Static key V1-----'' @ NL))"

record bundle_params =
  bp_Remote :: string
  bp_Port :: int
  bp_Proto :: string
  bp_CACertPEM :: string
  bp_ClientCert :: string
  bp_ClientKey :: string
  bp_TLSCrypt :: string
  bp_Cipher :: string
  bp_ServerCN :: string
  bp_SplitTunnel :: bool
  bp_Extra :: string

definition has_newline :: "string \<Rightarrow> bool" where
  "has_newline s = list_ex (\<lambda>c. c = CR \<or> c = LF) s"

definition inline_block :: "string \<Rightarrow> string \<Rightarrow> string" where
  "inline_block tag body = ''<'' @ tag @ ''>'' @ NL @ body
     @ (if body \<noteq> [] \<and> last body \<noteq> LF then NL else []) @ ''</'' @ tag @ ''>'' @ NL"

definition directive_lines :: "bundle_params \<Rightarrow> string list" where
  "directive_lines p =
     [''client'', ''dev tun'', ''proto '' @ bp_Proto p, ''remote '' @ bp_Remote p @ '' '' @ itoa (bp_Port p),
      ''resolv-retry infinite'', ''nobind'', ''persist-tun'', ''remote-cert-tls server'']
     @ (if bp_Proto p = ''udp'' then [''explicit-exit-notify 1''] else [])
     @ (if bp_ServerCN p \<noteq> [] then [''verify-x509-name '' @ bp_ServerCN p @ '' name''] else [])
     @ [''data-ciphers '' @ bp_Cipher p, ''data-ciphers-fallback '' @ bp_Cipher p, ''auth-nocache'', ''verb 3'']
     @ (if bp_SplitTunnel p then [''pull-filter ignore '' @ [DQ] @ ''redirect-gateway'' @ [DQ]] else [])
     @ (let extra = trim_space (bp_Extra p) in
        if extra \<noteq> [] then [''# --- custom options ---'', extra] else [])"

definition RenderOVPN :: "bundle_params \<Rightarrow> (pki_error, string) result" where
  "RenderOVPN p = (if has_newline (bp_Remote p) \<or> has_newline (bp_ServerCN p) then Inl BadRemoteOrCN
     else Inr (concat (map (\<lambda>l. l @ NL) (directive_lines p))
       @ inline_block ''ca'' (bp_CACertPEM p) @ inline_block ''cert'' (bp_ClientCert p)
       @ inline_block ''key'' (bp_ClientKey p)
       @ (if length (bp_TLSCrypt p) > 0 then inline_block ''tls-crypt'' (bp_TLSCrypt p) else [])))"

end
