(* ===== verification/Api_Base.thy ===== *)
theory Api_Base
  imports Pki Store Ovpnconf Upstream_Config
begin

section \<open>What the actions of the API share\<close>

text \<open>
  The actions of \<^verbatim>\<open>src/internal/api\<close> run on the store, the files and the workers behind the server
  (openvpn's management socket, nftables): the record \<open>srv\<close>, the workers being of any type. A \<open>server\<close>
  holds the fields of \<^verbatim>\<open>Server\<close> the actions read and its transports. An action reads the clock once,
  as \<open>pe_Now\<close> of its \<open>pki_env\<close>. Errors carry the kind the callers tell apart.
\<close>

record 'w srv =
  sv_store :: store
  sv_fs :: fsys
  sv_world :: 'w

datatype api_error =
    PkiErr pki_error
  | StoreErr store_error
  | OvpnErr ovpn_error
  | UpErr up_error
  | EncodeErr
  | ErrNoRedirect
  | ErrNoRemote
  | ErrNoServerCN
  | ErrNotConnected string
  | ErrNoUpstream string
  | ErrUpstreamsDisabled
  | Transport string
  | Text string
  | HttpError int api_error

type_synonym ('w, 'a) action = "('w srv, api_error, 'a) step"

definition fail :: "int \<Rightarrow> string \<Rightarrow> api_error" where
  "fail code msg = HttpError code (Text msg)"

text \<open>The parts of the state an action's calls work on.\<close>

definition onFS :: "('e \<Rightarrow> api_error) \<Rightarrow> (fsys, 'e, 'a) step \<Rightarrow> ('w, 'a) action" where
  "onFS g m s = (case m (sv_fs s) of (Inl e, f) \<Rightarrow> (Inl (g e), s\<lparr>sv_fs := f\<rparr>) | (Inr a, f) \<Rightarrow> (Inr a, s\<lparr>sv_fs := f\<rparr>))"

definition onStore :: "(store \<Rightarrow> (store_error, store) result) \<Rightarrow> ('w, unit) action" where
  "onStore f s = (case f (sv_store s) of Inl e \<Rightarrow> (Inl (StoreErr e), s) | Inr st \<Rightarrow> (Inr (), s\<lparr>sv_store := st\<rparr>))"

definition queryStore :: "(store \<Rightarrow> (store_error, 'a) result) \<Rightarrow> ('w, 'a) action" where
  "queryStore f s = (case f (sv_store s) of Inl e \<Rightarrow> (Inl (StoreErr e), s) | Inr a \<Rightarrow> (Inr a, s))"

definition onWorld :: "('w \<Rightarrow> (string, 'a) result \<times> 'w) \<Rightarrow> ('w, 'a) action" where
  "onWorld m s = (case m (sv_world s) of (Inl e, w) \<Rightarrow> (Inl (Transport e), s\<lparr>sv_world := w\<rparr>)
     | (Inr a, w) \<Rightarrow> (Inr a, s\<lparr>sv_world := w\<rparr>))"

definition audit :: "int \<Rightarrow> string \<Rightarrow> string \<Rightarrow> string \<Rightarrow> ('w, unit) action" where
  "audit now actor act detail s = (Inr (), s\<lparr>sv_store := Audit now actor act detail (sv_store s)\<rparr>)"

record dns_config =
  dn_BlockInternet :: bool

text \<open>\<open>sr_dec_config\<close> is \<^verbatim>\<open>json.Unmarshal\<close> into a \<^verbatim>\<open>Config\<close>, \<open>sr_getenv\<close> the environment (empty when unset),
  \<open>sr_Kill\<close> the transport that ends or restarts a client's sessions, \<open>sr_apply\<close> the one that programs the
  upstreams and returns a warning, \<open>sr_rewrite\<close> the one that rewrites a connected client's rule,
  \<open>sr_iface\<close> the test for an interface, \<open>sr_url\<close> is \<^verbatim>\<open>URL.String\<close>.\<close>

record 'w server =
  sr_px :: pki_lib
  sr_PKI :: string
  sr_TLSCrypt :: string
  sr_ServerCert :: string
  sr_ServerKey :: string
  sr_ConfigPath :: string
  sr_DefaultRemote :: string
  sr_getenv :: "string \<Rightarrow> string"
  sr_dec_config :: "string \<Rightarrow> ovpn_config \<Rightarrow> ovpn_config"
  sr_enc_config :: "ovpn_config \<Rightarrow> string"
  sr_dec_dns :: "string \<Rightarrow> dns_config \<Rightarrow> dns_config option"
  sr_enc_dns :: "dns_config \<Rightarrow> string option"
  sr_dec_up :: "string \<Rightarrow> config \<Rightarrow> config option"
  sr_enc_up :: "config \<Rightarrow> string option"
  sr_Kill :: "string \<Rightarrow> string \<Rightarrow> 'w \<Rightarrow> (string, int) result \<times> 'w"
  sr_apply :: "config \<Rightarrow> 'w \<Rightarrow> string \<times> 'w"
  sr_rewrite :: "string \<Rightarrow> 'w \<Rightarrow> (string, unit) result \<times> 'w"
  sr_iface :: "'w \<Rightarrow> string \<Rightarrow> bool"
  sr_url :: "url \<Rightarrow> string"

definition LoadConfig :: "'w server \<Rightarrow> store \<Rightarrow> ovpn_config" where
  "LoadConfig S st = Load (sr_dec_config S) (sr_getenv S) (GetSetting ''vpn_config'' st)"

definition SaveConfig :: "'w server \<Rightarrow> ovpn_config \<Rightarrow> store \<Rightarrow> store" where
  "SaveConfig S cfg st = SetSetting ''vpn_config'' (sr_enc_config S cfg) st"

text \<open>\<^verbatim>\<open>store.SaveJSON\<close>: an encoding that fails writes nothing.\<close>

definition saveJSON :: "('a \<Rightarrow> string option) \<Rightarrow> string \<Rightarrow> 'a \<Rightarrow> ('w, unit) action" where
  "saveJSON enc key v s = (case SaveJSON enc key v (sv_store s) of None \<Rightarrow> (Inl EncodeErr, s)
     | Some st \<Rightarrow> (Inr (), s\<lparr>sv_store := st\<rparr>))"

subsection \<open>Inversion of the calls\<close>

lemma saveJSON_Inr [go_step]:
  "saveJSON enc key v s = (Inr u, s') \<longleftrightarrow> (\<exists>st. SaveJSON enc key v (sv_store s) = Some st \<and> s' = s\<lparr>sv_store := st\<rparr>)"
  by (auto simp: saveJSON_def split: option.splits)

lemma saveJSON_Inl [go_step]:
  "saveJSON enc key v s = (Inl e, s') \<longleftrightarrow> SaveJSON enc key v (sv_store s) = None \<and> e = EncodeErr \<and> s' = s"
  by (auto simp: saveJSON_def split: option.splits)

lemma onFS_Inr [go_step]:
  "onFS g m s = (Inr a, s') \<longleftrightarrow> (\<exists>f. m (sv_fs s) = (Inr a, f) \<and> s' = s\<lparr>sv_fs := f\<rparr>)"
  by (auto simp: onFS_def split: prod.splits sum.splits)

lemma onFS_Inl [go_step]:
  "onFS g m s = (Inl e, s') \<longleftrightarrow> (\<exists>d f. m (sv_fs s) = (Inl d, f) \<and> e = g d \<and> s' = s\<lparr>sv_fs := f\<rparr>)"
  by (auto simp: onFS_def split: prod.splits sum.splits)

lemma onStore_Inr [go_step]:
  "onStore f s = (Inr u, s') \<longleftrightarrow> (\<exists>st. f (sv_store s) = Inr st \<and> s' = s\<lparr>sv_store := st\<rparr>)"
  by (auto simp: onStore_def split: sum.splits)

lemma onStore_Inl [go_step]:
  "onStore f s = (Inl e, s') \<longleftrightarrow> (\<exists>d. f (sv_store s) = Inl d \<and> e = StoreErr d \<and> s' = s)"
  by (auto simp: onStore_def split: sum.splits)

lemma queryStore_Inr [go_step]: "queryStore f s = (Inr a, s') \<longleftrightarrow> f (sv_store s) = Inr a \<and> s' = s"
  by (auto simp: queryStore_def split: sum.splits)

lemma queryStore_Inl [go_step]:
  "queryStore f s = (Inl e, s') \<longleftrightarrow> (\<exists>d. f (sv_store s) = Inl d \<and> e = StoreErr d \<and> s' = s)"
  by (auto simp: queryStore_def split: sum.splits)

lemma onWorld_Inr [go_step]:
  "onWorld m s = (Inr a, s') \<longleftrightarrow> (\<exists>w. m (sv_world s) = (Inr a, w) \<and> s' = s\<lparr>sv_world := w\<rparr>)"
  by (auto simp: onWorld_def split: prod.splits sum.splits)

lemma onWorld_Inl [go_step]:
  "onWorld m s = (Inl e, s') \<longleftrightarrow> (\<exists>d w. m (sv_world s) = (Inl d, w) \<and> e = Transport d \<and> s' = s\<lparr>sv_world := w\<rparr>)"
  by (auto simp: onWorld_def split: prod.splits sum.splits)

lemma audit_eq [go_step]:
  "audit now actor act detail s = (r, s') \<longleftrightarrow> Inr () = r \<and> s' = s\<lparr>sv_store := Audit now actor act detail (sv_store s)\<rparr>"
  by (auto simp: audit_def)

end
