(* ===== verification/Api_Actions.thy ===== *)
theory Api_Actions
  imports Auth Api_Base Logrotate
begin

section \<open>The actions on users, sessions, hosts and logs\<close>

text \<open>
  \<^verbatim>\<open>src/internal/api/results.go\<close> with the handlers in front of it (\<^verbatim>\<open>handlers.go\<close>), the QR rendering
  (\<^verbatim>\<open>qr.go\<close>), the TOTP enrolment (\<^verbatim>\<open>auth/totp.go\<close>) and the write of a hosts file (\<^verbatim>\<open>dns.go\<close>). An action
  returns its message and whether it changed anything. An action that has the name of the store or
  controller function it calls is suffixed with \<^verbatim>\<open>_api\<close>. \<open>policy\<close> holds what the password
  rule and the hash depend on besides the password.
\<close>

type_synonym msg = "string \<times> bool"

subsection \<open>Clients\<close>

definition Kill_api :: "'w server \<Rightarrow> int \<Rightarrow> string \<Rightarrow> string \<Rightarrow> ('w, msg) action" where
  "Kill_api S now actor cn =
     bindE (onWorld (sr_Kill S cn ''HALT'')) (\<lambda>n.
     bindE (guardE (n = 0) (ErrNotConnected cn)) (\<lambda>_.
     bindE (audit now actor ''kill'' (''cn='' @ cn)) (\<lambda>_.
     pureE (Inr (''killed '' @ cn, True)))))"

definition handleKill :: "'w server \<Rightarrow> int \<Rightarrow> string \<Rightarrow> string \<Rightarrow> ('w, msg) action" where
  "handleKill S now user cn =
     bindE (guardE (cn = []) (fail 400 ''cn required'')) (\<lambda>_. Kill_api S now user cn)"

definition set_cert_dns :: "string \<Rightarrow> bool \<Rightarrow> ('w, string \<times> bool) action" where
  "set_cert_dns serial incl s = (case SetCertDNS serial incl (sv_store s) of Inl e \<Rightarrow> (Inl (StoreErr e), s)
     | Inr (cn, changed, st) \<Rightarrow> (Inr (cn, changed), s\<lparr>sv_store := st\<rparr>))"

definition SetCertDNS_api :: "int \<Rightarrow> string \<Rightarrow> string \<Rightarrow> bool \<Rightarrow> ('w, msg) action" where
  "SetCertDNS_api now actor serial incl =
     (let oper = (if incl then ''include'' else ''exclude'') in
     bindE (set_cert_dns serial incl) (\<lambda>(cn, changed).
     if \<not> changed then pureE (Inr (cn @ '' is already '' @ oper @ ''d'', False))
     else bindE (audit now actor (''cert_dns_'' @ oper) (''cn='' @ cn @ '' serial='' @ serial)) (\<lambda>_.
          pureE (Inr (oper @ ''d: '' @ cn, True)))))"

subsection \<open>Hosts files\<close>

definition hosts_tmp :: "string \<Rightarrow> string" where
  "hosts_tmp path = path_join (path_dir path) (''.'' @ path_base path @ ''.tmp'')"

definition bool_step :: "(fsys \<Rightarrow> bool \<times> fsys) \<Rightarrow> (fsys, unit, unit) step" where
  "bool_step f s = (case f s of (ok, s1) \<Rightarrow> (if ok then Inr () else Inl (), s1))"

definition WriteAtomicHosts :: "string \<Rightarrow> string \<Rightarrow> (fsys, unit, unit) step" where
  "WriteAtomicHosts path data s = (case fs_read_file path s of (cur, s1) \<Rightarrow>
     if cur = Some data then (Inr (), s1)
     else bindE (bool_step (fs_write_file (hosts_tmp path) data)) (\<lambda>_.
          bool_step (fs_rename (hosts_tmp path) path)) s1)"

text \<open>The read's error is dropped: an unreadable file counts as empty.\<close>

definition current_hosts :: "string \<Rightarrow> ('w, string) action" where
  "current_hosts path s = (case fs_read_file path (sv_fs s) of (cur, f) \<Rightarrow>
     (Inr (case cur of None \<Rightarrow> [] | Some d \<Rightarrow> d), s\<lparr>sv_fs := f\<rparr>))"

definition SetCustomHosts :: "int \<Rightarrow> string \<Rightarrow> string \<Rightarrow> string \<Rightarrow> ('w, msg) action" where
  "SetCustomHosts now actor path content =
     bindE (current_hosts path) (\<lambda>cur.
     if cur = content then pureE (Inr (''no change'', False))
     else bindE (onFS (\<lambda>_. Text ''write'') (WriteAtomicHosts path content)) (\<lambda>_.
          bindE (audit now actor ''dns_custom_change'' []) (\<lambda>_.
          pureE (Inr (''saved'', True)))))"

subsection \<open>Logs\<close>

definition LoadLogConfig :: "(string \<Rightarrow> log_config \<Rightarrow> log_config option) \<Rightarrow> (string \<Rightarrow> string) \<Rightarrow> store \<Rightarrow> log_config" where
  "LoadLogConfig dec env st = LoadJSON dec ''log_config'' (DefaultLogConfig env) st"

definition SaveLogConfig :: "(log_config \<Rightarrow> string option) \<Rightarrow> int \<Rightarrow> string \<Rightarrow> log_config \<Rightarrow> ('w, log_config) action" where
  "SaveLogConfig enc now actor cfg =
     bindE (guardE (lo_RetentionDays cfg < 0 \<or> lo_KeepUncompressed cfg < 0)
       (Text ''retention-days and keep-uncompressed must be 0 or more'')) (\<lambda>_.
     bindE (saveJSON enc ''log_config'' cfg) (\<lambda>_.
     bindE (audit now actor ''log_config_change'' []) (\<lambda>_.
     pureE (Inr cfg))))"

definition rotate_step :: "log_host \<Rightarrow> int \<Rightarrow> string list \<Rightarrow> log_config \<Rightarrow> (fsys, unit, unit) step" where
  "rotate_step H now paths cfg f = (case RotateLogs H now paths cfg f of (errs, f1) \<Rightarrow> (if errs = [] then Inr () else Inl (), f1))"

definition RotateLogs_api :: "log_host \<Rightarrow> (string \<Rightarrow> log_config \<Rightarrow> log_config option) \<Rightarrow> (string \<Rightarrow> string) \<Rightarrow> int \<Rightarrow> string \<Rightarrow> string
    \<Rightarrow> ('w, msg) action" where
  "RotateLogs_api H dec env now actor dataDir =
     bindE (getE (\<lambda>s. LoadLogConfig dec env (sv_store s))) (\<lambda>cfg.
     bindE (onFS (\<lambda>_. Text ''rotate'') (rotate_step H now (LogPaths (path_join dataDir ''logs'')) cfg)) (\<lambda>_.
     bindE (audit now actor ''log_rotate'' []) (\<lambda>_.
     pureE (Inr (''rotated'', True)))))"

subsection \<open>Users\<close>

record policy =
  po_crypto :: crypto
  po_unicode :: "int \<Rightarrow> rune_class"
  po_YOLO :: bool
  po_salt :: "string option"

abbreviation SecretYOLOEnv :: string where "SecretYOLOEnv \<equiv> ''OVCP_YOLO_PASSWORD''"

definition SecretErr :: "string \<Rightarrow> string" where
  "SecretErr label = label @ '' too weak (min '' @ nat_str MinSecretLen @ '' chars, '' @ nat_str MinSecretClasses
     @ '' of upper/lower/digit/symbol)''"

definition checkPassword :: "policy \<Rightarrow> int \<Rightarrow> string \<Rightarrow> string \<Rightarrow> string \<Rightarrow> ('w, unit) action" where
  "checkPassword P now actor target password =
     (if SecretOK (po_unicode P) password then pureE (Inr ())
      else if \<not> po_YOLO P then pureE (Inl (Text (SecretErr ''password'')))
      else audit now actor ''weak_password_accepted'' (''target='' @ target @ '' reason='' @ SecretYOLOEnv @ '' is set''))"

definition hash_password :: "policy \<Rightarrow> string \<Rightarrow> (api_error, string) result" where
  "hash_password P password = (case po_salt P of None \<Rightarrow> Inl (Text ''random'')
     | Some salt \<Rightarrow> Inr (HashPassword (po_crypto P) salt password))"

definition add_user :: "int \<Rightarrow> string \<Rightarrow> string \<Rightarrow> string \<Rightarrow> ('w, int) action" where
  "add_user now name h role s = (case AddUser now name h role (sv_store s) of Inl e \<Rightarrow> (Inl (StoreErr e), s)
     | Inr (i, st) \<Rightarrow> (Inr i, s\<lparr>sv_store := st\<rparr>))"

definition AddUser_api :: "policy \<Rightarrow> int \<Rightarrow> string \<Rightarrow> string \<Rightarrow> string \<Rightarrow> string \<Rightarrow> ('w, msg) action" where
  "AddUser_api P now actor name password role =
     bindE (guardE (\<not> ValidRole role) (Text ''role must be admin, operator or readonly'')) (\<lambda>_.
     bindE (checkPassword P now actor name password) (\<lambda>_.
     bindE (pureE (hash_password P password)) (\<lambda>h.
     bindE (add_user now name h role) (\<lambda>_.
     bindE (audit now actor ''user_add'' (''name='' @ name @ '' role='' @ role)) (\<lambda>_.
     pureE (Inr (''user added: '' @ name @ '' ('' @ role @ '')'', True)))))))"

definition SetUserPassword_api :: "policy \<Rightarrow> int \<Rightarrow> string \<Rightarrow> string \<Rightarrow> string \<Rightarrow> ('w, msg) action" where
  "SetUserPassword_api P now actor name password =
     bindE (checkPassword P now actor name password) (\<lambda>_.
     bindE (pureE (hash_password P password)) (\<lambda>h.
     bindE (onStore (SetUserPassword name h)) (\<lambda>_.
     bindE (audit now actor ''user_passwd'' (''name='' @ name)) (\<lambda>_.
     pureE (Inr (''password updated: '' @ name, True))))))"

definition DeleteUser_api :: "int \<Rightarrow> string \<Rightarrow> string \<Rightarrow> ('w, msg) action" where
  "DeleteUser_api now actor name =
     bindE (onStore (DeleteUser name)) (\<lambda>_.
     bindE (audit now actor ''user_del'' (''name='' @ name)) (\<lambda>_.
     pureE (Inr (''deleted: '' @ name, True))))"

definition SetUserDisabled_api :: "int \<Rightarrow> string \<Rightarrow> string \<Rightarrow> bool \<Rightarrow> ('w, msg) action" where
  "SetUserDisabled_api now actor name disabled =
     (let oper = (if disabled then ''disable'' else ''enable'') in
     bindE (onStore (SetUserDisabled name disabled)) (\<lambda>_.
     bindE (audit now actor (''user_'' @ oper) (''name='' @ name)) (\<lambda>_.
     pureE (Inr (oper @ ''d: '' @ name, True)))))"

definition handleUserDelete :: "int \<Rightarrow> string \<Rightarrow> string \<Rightarrow> ('w, msg) action" where
  "handleUserDelete now user name =
     bindE (guardE (name = user) (fail 400 ''cannot delete your own account'')) (\<lambda>_. DeleteUser_api now user name)"

definition handleUserDisabled :: "int \<Rightarrow> string \<Rightarrow> string \<Rightarrow> bool \<Rightarrow> ('w, msg) action" where
  "handleUserDisabled now user name disabled =
     bindE (guardE (disabled \<and> name = user) (fail 400 ''cannot disable your own account'')) (\<lambda>_.
     SetUserDisabled_api now user name disabled)"

record user_summary =
  uy_Username :: string
  uy_Role :: string
  uy_Disabled :: bool
  uy_TOTP :: bool
  uy_CreatedAt :: int

definition NewUserSummary :: "user \<Rightarrow> user_summary" where
  "NewUserSummary u = \<lparr>uy_Username = us_Username u, uy_Role = us_Role u, uy_Disabled = us_Disabled u,
     uy_TOTP = (us_TOTP u \<noteq> []), uy_CreatedAt = us_CreatedAt u\<rparr>"

definition handleUsersList :: "aead \<Rightarrow> ('w, user_summary list) action" where
  "handleUsersList ae s = (case ListUsers ae (sv_store s) of Inl e \<Rightarrow> (Inl (HttpError 500 (StoreErr e)), s)
     | Inr us \<Rightarrow> (Inr (map NewUserSummary us), s))"

subsection \<open>Two-factor enrolment\<close>

fun byte_bits :: "nat \<Rightarrow> nat \<Rightarrow> bool list" where
  "byte_bits 0 n = []"
| "byte_bits (Suc k) n = byte_bits k (n div 2) @ [odd n]"

definition bits_nat :: "bool list \<Rightarrow> nat" where
  "bits_nat bs = foldl (\<lambda>a b. 2 * a + (if b then 1 else 0)) 0 bs"

definition b32_char :: "nat \<Rightarrow> char" where
  "b32_char n = (if n < 26 then char_of (65 + n) else char_of (24 + n))"

fun b32_groups :: "nat \<Rightarrow> bool list \<Rightarrow> string" where
  "b32_groups 0 bs = []"
| "b32_groups (Suc n) bs = b32_char (bits_nat (take 5 (bs @ replicate 4 False))) # b32_groups n (drop 5 bs)"

text \<open>Base32 without padding: five bits a character, the last group filled with zeros.\<close>

definition b32_encode :: "string \<Rightarrow> string" where
  "b32_encode s = (let bs = concat (map (\<lambda>c. byte_bits 8 (byte_of c)) s) in b32_groups ((length bs + 4) div 5) bs)"

definition TOTPGenerateSecret :: "string option \<Rightarrow> (api_error, string) result" where
  "TOTPGenerateSecret raw = (case raw of None \<Rightarrow> Inl (Text ''random'') | Some r \<Rightarrow> Inr (b32_encode r))"

text \<open>\<^verbatim>\<open>url.PathEscape\<close>.\<close>

definition upper_hex :: "nat \<Rightarrow> char" where
  "upper_hex n = (if n < 10 then char_of (48 + n) else char_of (55 + n))"

definition path_escape :: "string \<Rightarrow> string" where
  "path_escape s = concat (map (\<lambda>c. if is_alnum_c c \<or> c \<in> set ''-_.~$&+=:@'' then [c]
     else [CHR ''%'', upper_hex (byte_of c div 16), upper_hex (byte_of c mod 16)]) s)"

definition TOTPProvisioningURL :: "string \<Rightarrow> string \<Rightarrow> string \<Rightarrow> string" where
  "TOTPProvisioningURL secret account fqdn =
     (let acc = (if fqdn \<noteq> [] then account @ ''@'' @ fqdn else account) in
      ''otpauth://totp/OVCP:'' @ path_escape acc @ ''?secret='' @ secret @ ''&issuer=OVCP'')"

text \<open>\<open>qr\<close> is \<^verbatim>\<open>qr.Encode\<close>: the size and the black modules.\<close>

definition qr_rect :: "nat \<Rightarrow> nat \<Rightarrow> string" where
  "qr_rect x y = ''<rect x='' @ [DQ] @ nat_str ((x + 1) * 4) @ [DQ] @ '' y='' @ [DQ] @ nat_str ((y + 1) * 4) @ [DQ]
     @ '' width='' @ [DQ] @ ''4'' @ [DQ] @ '' height='' @ [DQ] @ ''4'' @ [DQ] @ ''/>''"

definition qr_svg :: "nat \<Rightarrow> (nat \<Rightarrow> nat \<Rightarrow> bool) \<Rightarrow> string" where
  "qr_svg n black = (let dim = nat_str ((n + 2) * 4); q = [DQ] in
     ''<svg xmlns='' @ q @ ''http://www.w3.org/2000/svg'' @ q @ '' viewBox='' @ q @ ''0 0 '' @ dim @ '' '' @ dim @ q
     @ '' width='' @ q @ dim @ q @ '' height='' @ q @ dim @ q @ ''>''
     @ ''<rect width='' @ q @ ''100%'' @ q @ '' height='' @ q @ ''100%'' @ q @ '' fill='' @ q @ ''#fff'' @ q @ ''/>''
     @ concat (map (\<lambda>y. concat (map (\<lambda>x. if black x y then qr_rect x y else []) [0..<n])) [0..<n])
     @ ''</svg>'')"

definition qrDataURI :: "(string \<Rightarrow> (nat \<times> (nat \<Rightarrow> nat \<Rightarrow> bool)) option) \<Rightarrow> string \<Rightarrow> (api_error, string) result" where
  "qrDataURI qr t = (case qr t of None \<Rightarrow> Inl (Text ''qr'')
     | Some (n, black) \<Rightarrow> Inr (''data:image/svg+xml;base64,'' @ b64_encode False True (qr_svg n black)))"

record totp_enrollment =
  te_Secret :: string
  te_URL :: string
  te_QR :: string

text \<open>\<open>raw\<close> are the random bytes of the secret, \<open>nonce\<close> those of its encryption at rest.\<close>

definition EnrollTOTP :: "policy \<Rightarrow> (string \<Rightarrow> (nat \<times> (nat \<Rightarrow> nat \<Rightarrow> bool)) option) \<Rightarrow> string option \<Rightarrow> string \<Rightarrow> int \<Rightarrow> string \<Rightarrow> string
    \<Rightarrow> string \<Rightarrow> ('w, totp_enrollment) action" where
  "EnrollTOTP P qr raw nonce now actor name issuer =
     bindE (pureE (TOTPGenerateSecret raw)) (\<lambda>sec.
     let url = TOTPProvisioningURL sec name issuer in
     bindE (pureE (qrDataURI qr url)) (\<lambda>img.
     bindE (onStore (SetUserTOTP (cr_aead (po_crypto P)) nonce name sec)) (\<lambda>_.
     bindE (audit now actor ''user_totp_enroll'' (''name='' @ name)) (\<lambda>_.
     pureE (Inr \<lparr>te_Secret = sec, te_URL = url, te_QR = img\<rparr>)))))"

definition DisableTOTP :: "policy \<Rightarrow> int \<Rightarrow> string \<Rightarrow> string \<Rightarrow> ('w, msg) action" where
  "DisableTOTP P now actor name =
     bindE (onStore (SetUserTOTP (cr_aead (po_crypto P)) [] name [])) (\<lambda>_.
     bindE (audit now actor ''user_totp_off'' (''name='' @ name)) (\<lambda>_.
     pureE (Inr (''2FA disabled: '' @ name, True))))"

end
