(* ===== verification/Api_Http.thy ===== *)
theory Api_Http
  imports Auth Api_Base Logrotate
begin

section \<open>Requests: routes, sessions, roles, errors\<close>

text \<open>
  \<^verbatim>\<open>src/internal/api/api.go\<close>: the table of routes, what \<^verbatim>\<open>Handler\<close> and \<^verbatim>\<open>wrap\<close> ask of a request before its
  handler runs, how an input is put together and how an error becomes a status. A request carries
  the segments of its path, unescaped, as \<^verbatim>\<open>http.ServeMux\<close> splits them. A handler is named here; what it
  does is in the theories of the actions. What is sent back is in \<open>Api_Response\<close>.
\<close>

record request =
  rq_Method :: string
  rq_Path :: "string list"
  rq_RemoteAddr :: string
  rq_Session :: "string option"
  rq_Csrf :: "string option"
  rq_CsrfHeader :: string

record route =
  rt_pattern :: string
  rt_role :: string
  rt_handler :: string

definition handle :: "string \<Rightarrow> string \<Rightarrow> string \<Rightarrow> route" where
  "handle p role h = \<lparr>rt_pattern = p, rt_role = role, rt_handler = h\<rparr>"

definition routes :: "route list" where
  "routes = [
    handle ''GET /healthz'' '''' ''handleHealthz'',
    handle ''POST /api/login'' '''' ''handleLogin'',
    handle ''POST /api/logout'' RoleReadonly ''handleLogout'',
    handle ''GET /api/me'' RoleReadonly ''handleMe'',
    handle ''GET /api/status'' RoleReadonly ''handleStatus'',
    handle ''GET /api/stats'' RoleReadonly ''handleStats'',
    handle ''GET /api/certs'' RoleReadonly ''handleCertList'',
    handle ''GET /api/vpn/config'' RoleReadonly ''handleVPNConfigGet'',
    handle ''GET /api/audit'' RoleReadonly ''handleAudit'',
    handle ''GET /api/logs/download'' RoleOperator ''handleLogsDownload'',
    handle ''GET /api/logs/config'' RoleReadonly ''handleLogsConfigGet'',
    handle ''PUT /api/logs/config'' RoleAdmin ''handleLogsConfigSet'',
    handle ''POST /api/logs/rotate'' RoleAdmin ''handleLogsRotate'',
    handle ''GET /api/stats/config'' RoleReadonly ''handleStatsConfigGet'',
    handle ''PUT /api/stats/config'' RoleAdmin ''handleStatsConfigSet'',
    handle ''GET /api/debug'' RoleReadonly ''handleDebugGet'',
    handle ''POST /api/debug'' RoleAdmin ''handleDebugSet'',
    handle ''POST /api/clients/kill'' RoleOperator ''handleKill'',
    handle ''POST /api/certs'' RoleOperator ''handleIssue'',
    handle ''POST /api/certs/revoke'' RoleOperator ''handleRevoke'',
    handle ''POST /api/certs/renew'' RoleAdmin ''handleRenew'',
    handle ''POST /api/backup'' RoleAdmin ''handleBackup'',
    handle ''POST /api/certs/export'' RoleOperator ''handleExport'',
    handle ''PUT /api/vpn/config'' RoleAdmin ''handleVPNConfigPut'',
    handle ''POST /api/vpn/config/preview'' RoleAdmin ''handleVPNConfigPreview'',
    handle ''POST /api/vpn/{op}'' RoleAdmin ''handleProc(vpn)'',
    handle ''POST /api/dns/{op}'' RoleAdmin ''handleProc(dns)'',
    handle ''PATCH /api/certs/{serial}/dns'' RoleOperator ''handleCertDNS'',
    handle ''GET /api/records'' RoleReadonly ''handleRecords'',
    handle ''PUT /api/records/custom'' RoleAdmin ''handleCustomHostsPut'',
    handle ''POST /api/records/custom/preview'' RoleAdmin ''handleCustomHostsPreview'',
    handle ''GET /api/dns/config'' RoleReadonly ''handleDNSConfigGet'',
    handle ''PUT /api/dns/config'' RoleAdmin ''handleDNSConfigSet'',
    handle ''GET /api/upstreams'' RoleReadonly ''handleUpstreamsGet'',
    handle ''POST /api/upstreams'' RoleAdmin ''handleUpstreamAdd'',
    handle ''DELETE /api/upstreams/{id}'' RoleAdmin ''handleUpstreamDelete'',
    handle ''PUT /api/upstreams/default'' RoleAdmin ''handleUpstreamSetDefault'',
    handle ''PUT /api/upstreams/assign'' RoleAdmin ''handleUpstreamAssign'',
    handle ''POST /api/upstreams/reconcile'' RoleAdmin ''handleUpstreamReconcile'',
    handle ''GET /api/telegram/config'' RoleReadonly ''handleTelegramConfigGet'',
    handle ''PUT /api/telegram/config'' RoleAdmin ''handleTelegramConfigSet'',
    handle ''POST /api/telegram/{op}'' RoleAdmin ''handleTelegramOp'',
    handle ''GET /api/certs/download'' RoleReadonly ''handleCertDownload'',
    handle ''GET /api/users'' RoleAdmin ''handleUsersList'',
    handle ''POST /api/users'' RoleAdmin ''handleUserAdd'',
    handle ''DELETE /api/users/{name}'' RoleAdmin ''handleUserDelete'',
    handle ''PATCH /api/users/{name}'' RoleAdmin ''handleUserDisabled'',
    handle ''POST /api/users/{name}/password'' RoleAdmin ''handleUserPassword'',
    handle ''POST /api/users/{name}/totp'' RoleAdmin ''handleUserTOTPEnroll'',
    handle ''DELETE /api/users/{name}/totp'' RoleAdmin ''handleUserTOTPOff'']
    @ map (\<lambda>name. handle (''GET /api/logs/'' @ name) RoleReadonly (''logHandler('' @ name @ '')'')) LogNames"

subsection \<open>Matching a request\<close>

text \<open>A pattern is a method and the segments of a path, \<^verbatim>\<open>{name}\<close> standing for any one segment that is not
  empty; \<^verbatim>\<open>GET\<close> also takes \<^verbatim>\<open>HEAD\<close>. Of several patterns that match, the more specific one wins.\<close>

definition rt_method :: "route \<Rightarrow> string" where
  "rt_method rt = (case cut_c CHR '' '' (rt_pattern rt) of None \<Rightarrow> [] | Some (m, _) \<Rightarrow> m)"

definition rt_segs :: "route \<Rightarrow> string list" where
  "rt_segs rt = (case cut_c CHR '' '' (rt_pattern rt) of None \<Rightarrow> [] | Some (_, p) \<Rightarrow> tl (split_c CHR ''/'' p))"

definition wild_name :: "string \<Rightarrow> string option" where
  "wild_name seg = map_option (\<lambda>n. trim_suffix n ''}'') (cut_prefix seg ''{'')"

definition wildcards :: "route \<Rightarrow> string list" where
  "wildcards rt = List.map_filter wild_name (rt_segs rt)"

fun match_segs :: "string list \<Rightarrow> string list \<Rightarrow> (string \<times> string) list option" where
  "match_segs [] [] = Some []"
| "match_segs (p # ps) (s # ss) = (case wild_name p of
     Some n \<Rightarrow> if s = [] then None else map_option ((#) (n, s)) (match_segs ps ss)
   | None \<Rightarrow> if p = s then match_segs ps ss else None)"
| "match_segs _ _ = None"

definition route_matches :: "request \<Rightarrow> route \<Rightarrow> bool" where
  "route_matches rq rt = ((rq_Method rq = rt_method rt \<or> rq_Method rq = ''HEAD'' \<and> rt_method rt = ''GET'')
     \<and> match_segs (rt_segs rt) (rq_Path rq) \<noteq> None)"

definition dispatch :: "request \<Rightarrow> route option" where
  "dispatch rq = (case sort_key (\<lambda>rt. length (wildcards rt)) (filter (route_matches rq) routes) of
     [] \<Rightarrow> None | rt # _ \<Rightarrow> Some rt)"

subsection \<open>Who may call a handler\<close>

text \<open>\<open>Served h u\<close>: the handler \<open>h\<close> runs, for the user \<open>u\<close>, on a public route for none; \<open>NotFound\<close>: no
  route, the mux answers 404 or 405, or the UI is served.\<close>

datatype outcome = Rejected int string | Served string "user option" | NotFound

definition wrap :: "crypto \<Rightarrow> int \<Rightarrow> service \<Rightarrow> string \<Rightarrow> string \<Rightarrow> request \<Rightarrow> outcome" where
  "wrap cr now a required h rq = (case rq_Session rq of
     None \<Rightarrow> Rejected 401 ''not authenticated''
   | Some c \<Rightarrow> (case Validate_token cr now c a of
       Inl _ \<Rightarrow> Rejected 401 ''not authenticated''
     | Inr None \<Rightarrow> Rejected 401 ''not authenticated''
     | Inr (Some u) \<Rightarrow>
         if rq_Method rq \<noteq> ''GET'' \<and> (case rq_Csrf rq of None \<Rightarrow> True | Some v \<Rightarrow> v = [] \<or> rq_CsrfHeader rq \<noteq> v)
         then Rejected 403 ''csrf check failed''
         else if \<not> Can (us_Role u) required then Rejected 403 ''insufficient role''
         else Served h (Some u)))"

definition Handler :: "crypto \<Rightarrow> int \<Rightarrow> service \<Rightarrow> request \<Rightarrow> outcome" where
  "Handler cr now a rq = (case dispatch rq of
     None \<Rightarrow> NotFound
   | Some rt \<Rightarrow> if rt_role rt = [] then Served (rt_handler rt) None
       else wrap cr now a (rt_role rt) (rt_handler rt) rq)"

subsection \<open>Inputs\<close>

text \<open>\<open>dec_body\<close> is the decoder of the request's body, the body's content being read already (at most 1 MiB), None for
  no body; \<open>dec_params\<close> that of \<^verbatim>\<open>{"k": "v", ...}\<close>. Each fills the fields it finds into \<open>v\<close>.\<close>

definition query_params :: "(string \<times> string list) list \<Rightarrow> (string \<times> string) list" where
  "query_params q = map (\<lambda>(k, vs). (k, hd vs)) q"

definition readIn :: "('b \<Rightarrow> 'v \<Rightarrow> 'v option) \<Rightarrow> ((string \<times> string) list \<Rightarrow> 'v \<Rightarrow> 'v option) \<Rightarrow> string
    \<Rightarrow> (string \<times> string list) list \<Rightarrow> 'b option \<Rightarrow> (string \<times> string) list \<Rightarrow> 'v \<Rightarrow> 'v option" where
  "readIn dec_body dec_params meth query body wild v =
     Option.bind (if meth = ''GET'' then Some v
                  else (case body of None \<Rightarrow> Some v | Some b \<Rightarrow> dec_body b v)) (\<lambda>v1.
     let params = foldl (\<lambda>m (k, x). AList.update k x m) (if meth = ''GET'' then query_params query else []) wild in
     if params = [] then Some v1 else dec_params params v1)"

text \<open>A patch: the raw body, None when there was none, applied onto the current value; the decoder also
  says whether it succeeded.\<close>

definition Onto :: "(string \<Rightarrow> 'v \<Rightarrow> 'v \<times> bool) \<Rightarrow> string option \<Rightarrow> 'v \<Rightarrow> 'v \<times> bool" where
  "Onto dec raw cur = (case raw of None \<Rightarrow> (cur, True) | Some r \<Rightarrow> dec r cur)"

subsection \<open>Results\<close>

definition respond :: "(api_error, 'a) result \<Rightarrow> int" where
  "respond r = (case r of
       Inr _ \<Rightarrow> 200
     | Inl (HttpError code _) \<Rightarrow> code
     | Inl (ErrNotConnected _) \<Rightarrow> 404
     | Inl (StoreErr (NoActiveCert _)) \<Rightarrow> 404
     | Inl (ErrNoUpstream _) \<Rightarrow> 404
     | Inl _ \<Rightarrow> 400)"

definition clientIP :: "request \<Rightarrow> string" where
  "clientIP rq = (case rcut_c CHR '':'' (rq_RemoteAddr rq) of
     None \<Rightarrow> rq_RemoteAddr rq
   | Some (a, _) \<Rightarrow> if length a > 0 then a else rq_RemoteAddr rq)"

subsection \<open>Login and logout\<close>

text \<open>The session token for the cookie and the user; \<open>raw\<close> are the random bytes.\<close>

definition handleLogin :: "crypto \<Rightarrow> int \<Rightarrow> string \<Rightarrow> request \<Rightarrow> string \<Rightarrow> string \<Rightarrow> string \<Rightarrow> service
    \<Rightarrow> (api_error, string \<times> user) result \<times> service" where
  "handleLogin cr now raw rq username password totp a =
     (case Login cr now raw username password totp (clientIP rq) a of
        (Inr tu, a1) \<Rightarrow> (Inr tu, a1)
      | (Inl TOTPRequired, a1) \<Rightarrow> (Inl (fail 401 ''totp required''), a1)
      | (Inl RateLimited, a1) \<Rightarrow> (Inl (fail 429 ''too many attempts, try again later''), a1)
      | (Inl _, a1) \<Rightarrow> (Inl (fail 401 ''invalid credentials''), a1))"

definition handleLogout :: "crypto \<Rightarrow> request \<Rightarrow> service \<Rightarrow> service" where
  "handleLogout cr rq a = (case rq_Session rq of None \<Rightarrow> a | Some c \<Rightarrow> Logout cr c a)"

end
