(* ===== verification/Api_Config.thy ===== *)
theory Api_Config
  imports Api_Http
begin

section \<open>The server's configuration and the DNS policy through the API\<close>

text \<open>
  The preview and the change of openvpn's configuration (\<^verbatim>\<open>api.go\<close>), the merge of a request onto the current
  one, the DNS policy and its leak warning (\<^verbatim>\<open>handlers.go\<close>). The configuration lives in the setting
  \<^verbatim>\<open>vpn_config\<close> and, rendered, in \<^verbatim>\<open>server.conf\<close>.
\<close>

subsection \<open>The DNS policy\<close>

definition DefaultDNSConfig :: "(string \<Rightarrow> string) \<Rightarrow> dns_config" where
  "DefaultDNSConfig env = \<lparr>dn_BlockInternet = (env ''OVCP_DNS_BLOCK_INTERNET'' = ''true'')\<rparr>"

definition LoadDNSConfig :: "'w server \<Rightarrow> store \<Rightarrow> dns_config" where
  "LoadDNSConfig S st = LoadJSON (sr_dec_dns S) ''dns_config'' (DefaultDNSConfig (sr_getenv S)) st"

definition SaveDNSConfig :: "'w server \<Rightarrow> dns_config \<Rightarrow> ('w, unit) action" where
  "SaveDNSConfig S cfg = saveJSON (sr_enc_dns S) ''dns_config'' cfg"

definition DNSLeakWarning :: "ovpn_config \<Rightarrow> dns_config \<Rightarrow> string" where
  "DNSLeakWarning vpn dns =
     (if dn_BlockInternet dns \<and> length (oc_DNS vpn) > 0
      then ''manual DNS entries can leak queries around Block internet DNS''
      else if dn_BlockInternet dns \<and> \<not> oc_PushInternalDNS vpn
      then ''Block internet DNS has no effect unless Push internal DNS is also on''
      else [])"

definition ViewDNS :: "'w server \<Rightarrow> store \<Rightarrow> dns_config \<times> string" where
  "ViewDNS S st = (let dns = LoadDNSConfig S st in (dns, DNSLeakWarning (LoadConfig S st) dns))"

definition SetDNSConfig :: "'w server \<Rightarrow> int \<Rightarrow> string \<Rightarrow> dns_config \<Rightarrow> ('w, dns_config \<times> string) action" where
  "SetDNSConfig S now actor cfg =
     bindE (SaveDNSConfig S cfg) (\<lambda>_.
     bindE (audit now actor (''dns_block_internet_'' @ (if dn_BlockInternet cfg then ''on'' else ''off'')) []) (\<lambda>_.
     getE (\<lambda>s. ViewDNS S (sv_store s))))"

subsection \<open>openvpn's configuration\<close>

record preview =
  pv_Diff :: "string list"
  pv_Changed :: bool
  pv_Warning :: string

definition PreviewVPNConfig :: "'w server \<Rightarrow> ovpn_config \<Rightarrow> ('w, preview) action" where
  "PreviewVPNConfig S cfg s = (case Validate_ovpn cfg of Inl e \<Rightarrow> (Inl (OvpnErr e), s)
     | Inr _ \<Rightarrow> (let cur = LoadConfig S (sv_store s); diff = Diff (Render cur) (Render cfg) in
         (Inr \<lparr>pv_Diff = diff, pv_Changed = (length diff > 0), pv_Warning = DNSLeakWarning cfg (LoadDNSConfig S (sv_store s))\<rparr>, s)))"

definition SetVPNConfig :: "'w server \<Rightarrow> int \<Rightarrow> string \<Rightarrow> string \<Rightarrow> ovpn_config \<Rightarrow> ('w, string list) action" where
  "SetVPNConfig S now actor confPath cfg =
     bindE (PreviewVPNConfig S cfg) (\<lambda>pv.
     if \<not> pv_Changed pv then pureE (Inr [])
     else bindE (onStore (\<lambda>st. Inr (SaveConfig S cfg st))) (\<lambda>_.
          bindE (onFS OvpnErr (WriteAtomic cfg confPath)) (\<lambda>_.
          bindE (audit now actor ''config_change'' []) (\<lambda>_.
          pureE (Inr (pv_Diff pv))))))"

definition SetManagementClientAuth :: "'w server \<Rightarrow> string \<Rightarrow> bool \<Rightarrow> ('w, unit) action" where
  "SetManagementClientAuth S confPath active =
     bindE (getE (\<lambda>s. (LoadConfig S (sv_store s))\<lparr>oc_ManagementClientAuth := active\<rparr>)) (\<lambda>cfg.
     bindE (onStore (\<lambda>st. Inr (SaveConfig S cfg st))) (\<lambda>_.
     onFS OvpnErr (WriteAtomic cfg confPath)))"

text \<open>The request's patch onto the current configuration; what the server owns is kept. The flag says
  whether the patch could be decoded.\<close>

definition merge_owned :: "ovpn_config \<Rightarrow> ovpn_config \<Rightarrow> ovpn_config" where
  "merge_owned cur inp = inp\<lparr>oc_CACert := oc_CACert cur, oc_ServerCert := oc_ServerCert cur, oc_ServerKey := oc_ServerKey cur,
     oc_CRL := oc_CRL cur, oc_TLSCrypt := oc_TLSCrypt cur, oc_MgmtSocket := oc_MgmtSocket cur, oc_StatusLog := oc_StatusLog cur,
     oc_StatusInterval := oc_StatusInterval cur, oc_ServerCN := oc_ServerCN cur\<rparr>"

definition mergedConfig :: "'w server \<Rightarrow> (string \<Rightarrow> ovpn_config \<Rightarrow> ovpn_config \<times> bool) \<Rightarrow> string option \<Rightarrow> ('w, ovpn_config) action" where
  "mergedConfig S dec raw s = (let cur = LoadConfig S (sv_store s) in
     case Onto dec raw cur of (inp, ok) \<Rightarrow>
       (if ok then Inr (merge_owned cur inp) else Inl (Text ''bad json''), s))"

definition handleVPNConfigPut :: "'w server \<Rightarrow> (string \<Rightarrow> ovpn_config \<Rightarrow> ovpn_config \<times> bool) \<Rightarrow> int \<Rightarrow> string \<Rightarrow> string option
    \<Rightarrow> ('w, ovpn_config) action" where
  "handleVPNConfigPut S dec now user raw =
     bindE (mergedConfig S dec raw) (\<lambda>inp.
     bindE (SetVPNConfig S now user (sr_ConfigPath S) inp) (\<lambda>_. pureE (Inr inp)))"

definition handleVPNConfigPreview :: "'w server \<Rightarrow> (string \<Rightarrow> ovpn_config \<Rightarrow> ovpn_config \<times> bool) \<Rightarrow> string option \<Rightarrow> ('w, preview) action" where
  "handleVPNConfigPreview S dec raw = bindE (mergedConfig S dec raw) (PreviewVPNConfig S)"

end
