(* ===== verification/Api_Upstream.thy ===== *)
theory Api_Upstream
  imports Api_Config Upstream_Live Mgmt
begin

section \<open>Upstreams through the API\<close>

text \<open>
  \<^verbatim>\<open>src/internal/api/upstream.go\<close>: the actions that change the stored upstream configuration and program it,
  and the reactions to openvpn's notifications. The configuration lives in the setting \<^verbatim>\<open>upstream_config\<close>.
\<close>

subsection \<open>The stored configuration\<close>

definition empty_config :: config where
  "empty_config = \<lparr>cf_Upstreams = [], cf_Default = [], cf_PerCN = []\<rparr>"

definition env_upstream :: "string \<Rightarrow> upstream" where
  "env_upstream raw = \<lparr>up_ID = ''socks'', up_Iface = [], up_Gateway = [], up_SOCKS = raw, up_DialTimeout = 0,
     up_HandshakeTimeout = 0, up_Table = 0, up_Description = []\<rparr>"

definition DefaultUpstreamConfig :: "(string \<Rightarrow> string) \<Rightarrow> config" where
  "DefaultUpstreamConfig env = (let raw = env ''OVCP_UPSTREAM_SOCKS'' in
     if raw = [] then empty_config
     else (case WithAdded empty_config (env_upstream raw) of Inl _ \<Rightarrow> empty_config
       | Inr (cfg, _) \<Rightarrow> (case SetDefault cfg ''socks'' of Inl _ \<Rightarrow> empty_config | Inr cfg2 \<Rightarrow> cfg2)))"

definition LoadUpstreamConfig :: "'w server \<Rightarrow> store \<Rightarrow> config" where
  "LoadUpstreamConfig S st = LoadJSON (sr_dec_up S) ''upstream_config'' (DefaultUpstreamConfig (sr_getenv S)) st"

definition SaveUpstreamConfig :: "'w server \<Rightarrow> config \<Rightarrow> ('w, unit) action" where
  "SaveUpstreamConfig S cfg = saveJSON (sr_enc_up S) ''upstream_config'' cfg"

definition UpstreamAuthActive :: "'w server \<Rightarrow> store \<Rightarrow> bool" where
  "UpstreamAuthActive S st = (length (cf_PerCN (LoadUpstreamConfig S st)) > 0)"

subsection \<open>What is shown\<close>

record upstream_row =
  uw_ID :: string
  uw_Up :: bool
  uw_Iface :: string
  uw_Gateway :: string
  uw_SOCKS :: string
  uw_Table :: int
  uw_Description :: string

record upstream_view =
  uv_Upstreams :: "upstream_row list"
  uv_Default :: string
  uv_PerCN :: "(string \<times> string) list"
  uv_Message :: string
  uv_Warning :: string

definition RedactSOCKS :: "(url \<Rightarrow> string) \<Rightarrow> string \<Rightarrow> string" where
  "RedactSOCKS str raw = (if raw = [] then [] else
     (case url_parse raw of None \<Rightarrow> raw
      | Some u \<Rightarrow> (case u_User u of None \<Rightarrow> raw
          | Some (_, None) \<Rightarrow> raw
          | Some (name, Some _) \<Rightarrow> str (u\<lparr>u_User := Some (name, Some ''***'')\<rparr>))))"

definition ViewUpstreams :: "'w server \<Rightarrow> config \<Rightarrow> string \<Rightarrow> 'w \<Rightarrow> upstream_view" where
  "ViewUpstreams S cfg warning w = \<lparr>uv_Upstreams = map (\<lambda>u. \<lparr>uw_ID = up_ID u, uw_Up = IsUp (sr_iface S w) u, uw_Iface = up_Iface u,
       uw_Gateway = up_Gateway u, uw_SOCKS = RedactSOCKS (sr_url S) (up_SOCKS u), uw_Table = up_Table u,
       uw_Description = up_Description u\<rparr>) (cf_Upstreams cfg),
     uv_Default = cf_Default cfg, uv_PerCN = cf_PerCN cfg, uv_Message = [], uv_Warning = warning\<rparr>"

subsection \<open>The actions\<close>

text \<open>An applier never fails its caller; it returns a warning.\<close>

definition applying :: "'w server \<Rightarrow> config \<Rightarrow> ('w, string) action" where
  "applying S cfg s = (case sr_apply S cfg (sv_world s) of (warning, w) \<Rightarrow> (Inr warning, s\<lparr>sv_world := w\<rparr>))"

definition saveApplyUpstreams :: "'w server \<Rightarrow> int \<Rightarrow> string \<Rightarrow> config \<Rightarrow> string \<Rightarrow> string \<Rightarrow> string \<Rightarrow> ('w, upstream_view) action" where
  "saveApplyUpstreams S now actor cfg msg act detail =
     bindE (SaveUpstreamConfig S cfg) (\<lambda>_.
     bindE (applying S cfg) (\<lambda>warning.
     bindE (getE (\<lambda>s. (ViewUpstreams S cfg warning (sv_world s))\<lparr>uv_Message := msg\<rparr>)) (\<lambda>v.
     bindE (audit now actor act detail) (\<lambda>_. pureE (Inr v)))))"

definition AddUpstream :: "'w server \<Rightarrow> int \<Rightarrow> string \<Rightarrow> bool \<Rightarrow> upstream \<Rightarrow> ('w, upstream_view) action" where
  "AddUpstream S now actor enabled u =
     bindE (guardE (\<not> enabled) ErrUpstreamsDisabled) (\<lambda>_.
     bindE (getE (\<lambda>s. LoadUpstreamConfig S (sv_store s))) (\<lambda>cur.
     bindE (pureE (case WithAdded cur u of Inl e \<Rightarrow> Inl (UpErr e) | Inr r \<Rightarrow> Inr r)) (\<lambda>(cfg, added).
     saveApplyUpstreams S now actor cfg (''added: '' @ up_ID u @ '' (table '' @ itoa (up_Table added) @ '')'') ''upstream_add'' (up_ID u))))"

definition DeleteUpstream :: "'w server \<Rightarrow> int \<Rightarrow> string \<Rightarrow> bool \<Rightarrow> string \<Rightarrow> ('w, upstream_view) action" where
  "DeleteUpstream S now actor enabled i =
     bindE (guardE (\<not> enabled) ErrUpstreamsDisabled) (\<lambda>_.
     bindE (getE (\<lambda>s. Without (LoadUpstreamConfig S (sv_store s)) i)) (\<lambda>(cfg, found).
     bindE (guardE (\<not> found) (ErrNoUpstream i)) (\<lambda>_.
     saveApplyUpstreams S now actor cfg (''deleted: '' @ i) ''upstream_del'' i)))"

definition SetDefaultUpstream :: "'w server \<Rightarrow> int \<Rightarrow> string \<Rightarrow> bool \<Rightarrow> string \<Rightarrow> ('w, upstream_view) action" where
  "SetDefaultUpstream S now actor enabled i =
     bindE (guardE (\<not> enabled) ErrUpstreamsDisabled) (\<lambda>_.
     bindE (getE (\<lambda>s. LoadUpstreamConfig S (sv_store s))) (\<lambda>cur.
     bindE (pureE (case SetDefault cur i of Inl e \<Rightarrow> Inl (UpErr e) | Inr cfg \<Rightarrow> Inr cfg)) (\<lambda>cfg.
     if i = [] then saveApplyUpstreams S now actor cfg ''default: off (host's own default route)'' ''upstream_default_off'' []
     else saveApplyUpstreams S now actor cfg (''default: '' @ i) ''upstream_default_set'' i)))"

definition RestartWarning :: string where
  "RestartWarning = ''run `ovcp vpn restart` to activate per-CN routing''"

definition set_auth :: "'w server \<Rightarrow> string \<Rightarrow> bool \<Rightarrow> bool \<Rightarrow> ('w, string list) action" where
  "set_auth S confPath before after =
     (if before \<noteq> after then bindE (SetManagementClientAuth S confPath after) (\<lambda>_.
        pureE (Inr (if after then [RestartWarning] else [])))
      else pureE (Inr []))"

definition down_warning :: "'w server \<Rightarrow> config \<Rightarrow> string \<Rightarrow> 'w \<Rightarrow> string list" where
  "down_warning S cfg i w = (case Find cfg i of None \<Rightarrow> []
     | Some u \<Rightarrow> if \<not> IsUp (sr_iface S w) u then [Warning (sr_iface S w) [u]] else [])"

definition applyAssign :: "'w server \<Rightarrow> string \<Rightarrow> bool \<Rightarrow> config \<Rightarrow> string \<Rightarrow> ('w, string) action" where
  "applyAssign S confPath before cfg i =
     bindE (SaveUpstreamConfig S cfg) (\<lambda>_.
     bindE (getE (\<lambda>s. UpstreamAuthActive S (sv_store s))) (\<lambda>after.
     bindE (set_auth S confPath before after) (\<lambda>ws.
     getE (\<lambda>s. join_s ''; '' (ws @ down_warning S cfg i (sv_world s))))))"

definition AssignUpstream :: "'w server \<Rightarrow> int \<Rightarrow> string \<Rightarrow> bool \<Rightarrow> string \<Rightarrow> string \<Rightarrow> string \<Rightarrow> bool \<Rightarrow> ('w, upstream_view) action" where
  "AssignUpstream S now actor enabled confPath cn i clear =
     bindE (guardE (\<not> enabled) ErrUpstreamsDisabled) (\<lambda>_.
     bindE (getE (\<lambda>s. (UpstreamAuthActive S (sv_store s), LoadUpstreamConfig S (sv_store s)))) (\<lambda>(before, cur).
     bindE (pureE (case Assign cur cn i clear of Inl e \<Rightarrow> Inl (UpErr e) | Inr cfg \<Rightarrow> Inr cfg)) (\<lambda>cfg.
     bindE (applyAssign S confPath before cfg i) (\<lambda>warning.
     bindE (onWorld (sr_rewrite S cn)) (\<lambda>_.
     bindE (getE (\<lambda>s. (ViewUpstreams S cfg warning (sv_world s))\<lparr>uv_Message :=
         (if clear then ''cleared: '' @ cn else ''assigned: '' @ cn @ '' -> '' @ i)\<rparr>)) (\<lambda>v.
     bindE (audit now actor (if clear then ''upstream_unassign'' else ''upstream_assign'') cn) (\<lambda>_.
     pureE (Inr v))))))))"

definition ReconcileUpstreams :: "'w server \<Rightarrow> int \<Rightarrow> string \<Rightarrow> bool \<Rightarrow> ('w, upstream_view) action" where
  "ReconcileUpstreams S now actor enabled =
     bindE (guardE (\<not> enabled) ErrUpstreamsDisabled) (\<lambda>_.
     bindE (getE (\<lambda>s. LoadUpstreamConfig S (sv_store s))) (\<lambda>cfg.
     bindE (applying S cfg) (\<lambda>warning.
     bindE (getE (\<lambda>s. ViewUpstreams S cfg warning (sv_world s))) (\<lambda>v.
     bindE (audit now actor ''upstream_reconcile'' []) (\<lambda>_. pureE (Inr v))))))"

subsection \<open>Inside serve\<close>

text \<open>The applier and the reactions of the server itself, on the routing state of \<open>Upstream_Live\<close>.\<close>

definition applyUpstreams :: "'w host \<Rightarrow> bool \<Rightarrow> config \<Rightarrow> 'w live \<Rightarrow> string \<times> 'w live" where
  "applyUpstreams h enabled cfg st = (if \<not> enabled then ([], st)
     else (case Apply h cfg st of (errs, st1) \<Rightarrow> (Warning (\<lambda>i. h_iface h i (lv_world st1)) (cf_Upstreams cfg), st1)))"

definition OnClientEstablished :: "'w host \<Rightarrow> config \<Rightarrow> string \<Rightarrow> string \<Rightarrow> string \<Rightarrow> 'w live \<Rightarrow> 'w live" where
  "OnClientEstablished h cfg cid cn ip st = snd (Establish h cid cn ip cfg st)"

definition OnClientDisconnect :: "'w host \<Rightarrow> string \<Rightarrow> 'w live \<Rightarrow> 'w live" where
  "OnClientDisconnect h cid st = Disconnect h cid st"

definition OnVPNExit :: "'w host \<Rightarrow> 'w live \<Rightarrow> 'w live" where
  "OnVPNExit h st = ClearAll h st"

text \<open>\<open>status\<close> is what openvpn answers; only the first session of the name is rewritten.\<close>

definition RewriteConnectedClientRule :: "'w host \<Rightarrow> config \<Rightarrow> (mgmt_error, vpn_client list) result \<Rightarrow> string \<Rightarrow> 'w live
    \<Rightarrow> (mgmt_error + live_error list) option \<times> 'w live" where
  "RewriteConnectedClientRule h cfg status cn st = (case status of
     Inl e \<Rightarrow> (Some (Inl e), st)
   | Inr live \<Rightarrow> (case List.find (\<lambda>c. vc_CN c = cn) live of
       None \<Rightarrow> (None, st)
     | Some c \<Rightarrow> (case Reassign h (vc_CID c) cn (vc_VirtualAddress c) cfg st of (errs, st1) \<Rightarrow>
         ((if errs = [] then None else Some (Inr errs)), st1))))"

end
