(* ===== verification/Api_Certs.thy ===== *)
theory Api_Certs
  imports Api_Base
begin

section \<open>Certificates through the API: issue, renew, revoke, export\<close>

text \<open>
  The actions of \<^verbatim>\<open>src/internal/api/handlers.go\<close> that join the certificate authority with the store:
  every issue, renewal, revocation and export, from the command line and the web alike, and the
  handlers in front of them.
\<close>

record client_request =
  cq_CN :: string
  cq_Days :: int
  cq_Passphrase :: string
  cq_KeyPass :: string
  cq_Renew :: bool

definition CertFrom :: "pki_env \<Rightarrow> issued_cert \<Rightarrow> string \<Rightarrow> cert" where
  "CertFrom en ic kind = \<lparr>ct_Serial = ic_SerialHex ic, ct_CN = ic_CN ic, ct_Kind = kind, ct_PEM = ic_CertPEM ic,
     ct_IssuedAt = pe_Now en, ct_NotAfter = ic_NotAfter ic, ct_RevokedAt = None, ct_IncludeDNS = True\<rparr>"

text \<open>The rebuild of the CRL from the store's revoked certificates.\<close>

definition revoked_entries :: "store \<Rightarrow> revoked_entry list" where
  "revoked_entries st = map (\<lambda>c. \<lparr>re_SerialHex = ct_Serial c, re_RevokedAt = the (ct_RevokedAt c)\<rparr>) (RevokedCerts st)"

definition RegenCRL_store :: "'w server \<Rightarrow> pki_env \<Rightarrow> string \<Rightarrow> ('w, unit) action" where
  "RegenCRL_store S en passphrase =
     bindE (getE (\<lambda>s. revoked_entries (sv_store s))) (\<lambda>entries.
     onFS PkiErr (RegenCRL (sr_px S) en (sr_PKI S) entries passphrase))"

definition encrypted_key :: "'w server \<Rightarrow> pki_env \<Rightarrow> string \<Rightarrow> issued_cert \<Rightarrow> (api_error, issued_cert) result" where
  "encrypted_key S en keyPass ic = (if keyPass = [] then Inr ic
     else (case EncryptKeyPEM (sr_px S) en (ic_KeyPEM ic) keyPass of Inl e \<Rightarrow> Inl (PkiErr e)
       | Inr pem \<Rightarrow> Inr (ic\<lparr>ic_KeyPEM := pem\<rparr>)))"

definition IssueClient :: "'w server \<Rightarrow> pki_env \<Rightarrow> client_request \<Rightarrow> ('w, issued_cert) action" where
  "IssueClient S en r =
     bindE (if cq_Renew r then queryStore (RequireActiveCert (cq_CN r) ''client'') else pureE (Inr ())) (\<lambda>_.
     bindE (onFS PkiErr (Issue (sr_px S) en (sr_PKI S) KindClient (cq_CN r) (cq_Days r) (cq_Passphrase r))) (\<lambda>ic0.
     bindE (pureE (encrypted_key S en (cq_KeyPass r) ic0)) (\<lambda>ic.
     let c = CertFrom en ic ''client'' in
     if \<not> cq_Renew r then bindE (onStore (AddCert c)) (\<lambda>_. pureE (Inr ic))
     else bindE (onStore (ReplaceCert (pe_Now en) c)) (\<lambda>_.
          bindE (RegenCRL_store S en (cq_Passphrase r)) (\<lambda>_. pureE (Inr ic))))))"

record export_opts =
  eo_Remote :: string
  eo_ServerCN :: string
  eo_Proto :: string
  eo_Extra :: string
  eo_Port :: int
  eo_SplitTunnel :: bool

definition export_config :: "export_opts \<Rightarrow> ovpn_config \<Rightarrow> ovpn_config" where
  "export_config o' cfg =
     (let cfg1 = (if eo_Port o' \<noteq> 0 then cfg\<lparr>oc_Port := eo_Port o'\<rparr> else cfg) in
      if eo_Proto o' \<noteq> [] then cfg1\<lparr>oc_Proto := eo_Proto o'\<rparr> else cfg1)"

definition bundle_of :: "export_opts \<Rightarrow> ovpn_config \<Rightarrow> string \<Rightarrow> string \<Rightarrow> issued_cert \<Rightarrow> bundle_params" where
  "bundle_of o' cfg caPEM tc ic = \<lparr>bp_Remote = eo_Remote o', bp_Port = oc_Port cfg, bp_Proto = oc_Proto cfg,
     bp_CACertPEM = caPEM, bp_ClientCert = ic_CertPEM ic, bp_ClientKey = ic_KeyPEM ic, bp_TLSCrypt = tc,
     bp_Cipher = oc_Cipher cfg, bp_ServerCN = eo_ServerCN o', bp_SplitTunnel = eo_SplitTunnel o', bp_Extra = eo_Extra o'\<rparr>"

definition ExportClient :: "'w server \<Rightarrow> pki_env \<Rightarrow> client_request \<Rightarrow> export_opts \<Rightarrow> ('w, issued_cert \<times> string) action" where
  "ExportClient S en r o' =
     bindE (guardE (eo_Remote o' = [] \<or> eo_ServerCN o' = []) ErrNoRemote) (\<lambda>_.
     bindE (getE (\<lambda>s. export_config o' (LoadConfig S (sv_store s)))) (\<lambda>cfg.
     bindE (guardE (eo_SplitTunnel o' \<and> \<not> CanSplitTunnel cfg) ErrNoRedirect) (\<lambda>_.
     bindE (onFS PkiErr (CACertPEM (sr_PKI S))) (\<lambda>caPEM.
     bindE (onFS PkiErr (readE ReadError (sr_TLSCrypt S))) (\<lambda>tc.
     bindE (IssueClient S en r) (\<lambda>ic.
     pureE (case RenderOVPN (bundle_of o' cfg caPEM tc ic) of Inl e \<Rightarrow> Inl (PkiErr e) | Inr bundle \<Rightarrow> Inr (ic, bundle))))))))"

definition defaultDays :: "int \<Rightarrow> int \<Rightarrow> int" where
  "defaultDays d def = (if d = 0 then def else d)"

definition AuditClient :: "int \<Rightarrow> string \<Rightarrow> client_request \<Rightarrow> issued_cert \<Rightarrow> ('w, unit) action" where
  "AuditClient now actor r ic = audit now actor (if cq_Renew r then ''renew'' else ''issue'')
     (''cn='' @ cq_CN r @ '' serial='' @ ic_SerialHex ic)"

subsection \<open>Revocation\<close>

definition restartSessions :: "'w server \<Rightarrow> string \<Rightarrow> ('w, unit) action" where
  "restartSessions S cn s = (Inr (), s\<lparr>sv_world := snd (sr_Kill S cn ''RESTART'' (sv_world s))\<rparr>)"

record revoke_result =
  rr_Serial :: string
  rr_CN :: string
  rr_CRLPath :: string

definition revoke_row :: "string \<Rightarrow> int \<Rightarrow> ('w, string) action" where
  "revoke_row serial now s = (case Revoke serial now (sv_store s) of Inl e \<Rightarrow> (Inl (StoreErr e), s)
     | Inr (cn, st) \<Rightarrow> (Inr cn, s\<lparr>sv_store := st\<rparr>))"

definition RevokeCert :: "'w server \<Rightarrow> pki_env \<Rightarrow> string \<Rightarrow> string \<Rightarrow> string \<Rightarrow> ('w, revoke_result) action" where
  "RevokeCert S en actor serial passphrase =
     bindE (onFS PkiErr (CheckPassphrase (sr_px S) (sr_PKI S) passphrase)) (\<lambda>_.
     bindE (revoke_row serial (pe_Now en)) (\<lambda>cn.
     bindE (RegenCRL_store S en passphrase) (\<lambda>_.
     bindE (audit (pe_Now en) actor ''revoke'' (''serial='' @ serial)) (\<lambda>_.
     pureE (Inr \<lparr>rr_Serial = serial, rr_CN = cn, rr_CRLPath = CRLPath (sr_PKI S)\<rparr>)))))"

subsection \<open>The server's own certificate\<close>

definition WriteServerCert :: "pki_env \<Rightarrow> string \<Rightarrow> string \<Rightarrow> issued_cert \<Rightarrow> ('w, unit) action" where
  "WriteServerCert en certPath keyPath ic =
     bindE (onFS PkiErr (WriteFileAtomic certPath (ic_CertPEM ic))) (\<lambda>_.
     bindE (onFS PkiErr (WriteFileAtomic keyPath (ic_KeyPEM ic))) (\<lambda>_.
     onStore (ReplaceCert (pe_Now en) (CertFrom en ic ''server''))))"

record renew_result =
  rn_CN :: string
  rn_Serial :: string
  rn_NotAfter :: int

definition RenewServer :: "'w server \<Rightarrow> pki_env \<Rightarrow> string \<Rightarrow> string \<Rightarrow> string \<Rightarrow> string \<Rightarrow> int \<Rightarrow> string \<Rightarrow> ('w, renew_result) action" where
  "RenewServer S en certPath keyPath actor cn days passphrase =
     bindE (queryStore (RequireActiveCert [] ''server'')) (\<lambda>_.
     bindE (guardE (cn = []) ErrNoServerCN) (\<lambda>_.
     bindE (onFS PkiErr (Issue (sr_px S) en (sr_PKI S) KindServer cn days passphrase)) (\<lambda>ic.
     bindE (WriteServerCert en certPath keyPath ic) (\<lambda>_.
     bindE (audit (pe_Now en) actor ''renew'' (''kind=server cn='' @ cn @ '' serial='' @ ic_SerialHex ic)) (\<lambda>_.
     pureE (Inr \<lparr>rn_CN = cn, rn_Serial = ic_SerialHex ic, rn_NotAfter = ic_NotAfter ic\<rparr>))))))"

subsection \<open>The handlers\<close>

definition pkiErr :: "api_error \<Rightarrow> api_error" where
  "pkiErr err = (case err of
       PkiErr ErrBadPassphrase \<Rightarrow> fail 403 ''wrong CA passphrase''
     | StoreErr (DuplicateCN _) \<Rightarrow> HttpError 400 err
     | StoreErr (NoActiveCert _) \<Rightarrow> HttpError 400 err
     | ErrNoRedirect \<Rightarrow> HttpError 400 err
     | ErrNoRemote \<Rightarrow> HttpError 400 err
     | ErrNoServerCN \<Rightarrow> HttpError 400 err
     | _ \<Rightarrow> HttpError 500 err)"

record issue_in =
  ii_CN :: string
  ii_Passphrase :: string
  ii_KeyPassphrase :: string
  ii_Days :: int

definition handleIssue :: "'w server \<Rightarrow> pki_env \<Rightarrow> string \<Rightarrow> issue_in \<Rightarrow> ('w, string \<times> string \<times> string) action" where
  "handleIssue S en user inp =
     bindE (guardE (ii_CN inp = [] \<or> ii_Passphrase inp = []) (fail 400 ''cn and passphrase required'')) (\<lambda>_.
     let req = \<lparr>cq_CN = ii_CN inp, cq_Days = defaultDays (ii_Days inp) 365, cq_Passphrase = ii_Passphrase inp,
       cq_KeyPass = ii_KeyPassphrase inp, cq_Renew = False\<rparr> in
     bindE (mapE pkiErr (IssueClient S en req)) (\<lambda>ic.
     bindE (AuditClient (pe_Now en) user req ic) (\<lambda>_.
     pureE (Inr (ic_SerialHex ic, ic_CertPEM ic, ic_KeyPEM ic)))))"

record export_in =
  xi_CN :: string
  xi_Passphrase :: string
  xi_Remote :: string
  xi_KeyPassphrase :: string
  xi_Extra :: string
  xi_Days :: int
  xi_SplitTunnel :: bool
  xi_Renew :: bool

definition handleExport :: "'w server \<Rightarrow> pki_env \<Rightarrow> string \<Rightarrow> export_in \<Rightarrow> ('w, string \<times> string) action" where
  "handleExport S en user inp =
     bindE (guardE (xi_CN inp = [] \<or> xi_Passphrase inp = []) (fail 400 ''cn and passphrase required'')) (\<lambda>_.
     let remote = (if xi_Remote inp = [] then sr_DefaultRemote S else xi_Remote inp);
         req = \<lparr>cq_CN = xi_CN inp, cq_Days = defaultDays (xi_Days inp) 365, cq_Passphrase = xi_Passphrase inp,
           cq_KeyPass = xi_KeyPassphrase inp, cq_Renew = xi_Renew inp\<rparr>;
         opts = \<lparr>eo_Remote = remote, eo_ServerCN = sr_DefaultRemote S, eo_Proto = [], eo_Extra = xi_Extra inp,
           eo_Port = 0, eo_SplitTunnel = xi_SplitTunnel inp\<rparr> in
     bindE (mapE pkiErr (ExportClient S en req opts)) (\<lambda>(ic, bundle).
     bindE (if xi_Renew inp then restartSessions S (xi_CN inp) else pureE (Inr ())) (\<lambda>_.
     bindE (AuditClient (pe_Now en) user req ic) (\<lambda>_.
     pureE (Inr (ic_SerialHex ic, bundle))))))"

definition handleRevoke :: "'w server \<Rightarrow> pki_env \<Rightarrow> string \<Rightarrow> string \<Rightarrow> string \<Rightarrow> ('w, revoke_result) action" where
  "handleRevoke S en user serial passphrase =
     bindE (guardE (serial = [] \<or> passphrase = []) (fail 400 ''serial and passphrase required'')) (\<lambda>_.
     bindE (mapE pkiErr (RevokeCert S en user serial passphrase)) (\<lambda>res.
     bindE (restartSessions S (rr_CN res)) (\<lambda>_.
     pureE (Inr res))))"

definition handleRenew :: "'w server \<Rightarrow> pki_env \<Rightarrow> string \<Rightarrow> string \<Rightarrow> int \<Rightarrow> ('w, renew_result) action" where
  "handleRenew S en user passphrase days =
     mapE pkiErr (RenewServer S en (sr_ServerCert S) (sr_ServerKey S) user (sr_DefaultRemote S) (defaultDays days 825) passphrase)"

text \<open>The public certificate of any serial; a name and the PEM.\<close>

definition handleCertDownload :: "string \<Rightarrow> ('w, string \<times> string) action" where
  "handleCertDownload serial s = (case GetCert serial (sv_store s) of
     Inl _ \<Rightarrow> (Inl (fail 404 ''certificate not found''), s)
   | Inr c \<Rightarrow> (Inr (ct_CN c @ ''.crt'', ct_PEM c), s))"

end
