(* ===== verification/Pki_Props.thy ===== *)
theory Pki_Props
  imports Pki
begin

section \<open>The CA: files, passphrase, renewal\<close>

text \<open>
  \<open>file_writer\<close> is the contract every durable write of the program keeps (\<^verbatim>\<open>WriteFileAtomic\<close> here, the
  hosts files of the API later): the whole new content or the old file. On it rest the CA's theorems:
  a passphrase rotation changes the passphrase and nothing else, and the CA's key survives every
  operation whatever fails. The laws of the cryptography are \<open>lib_ok\<close>; \<open>demo_lib\<close> is a library that
  has them.
\<close>

subsection \<open>Frames\<close>

definition same_except :: "string set \<Rightarrow> fsys \<Rightarrow> fsys \<Rightarrow> bool" where
  "same_except A s s' = (\<forall>q. q \<notin> A \<longrightarrow> fs_files s' q = fs_files s q)"

lemma same_except_refl: "reflp (same_except A)"
  by (simp add: reflp_def same_except_def)

lemma same_except_trans: "transp (same_except A)"
  by (simp add: transp_def same_except_def)

lemma same_exceptD: "same_except A s s' \<Longrightarrow> q \<notin> A \<Longrightarrow> fs_files s' q = fs_files s q"
  by (simp add: same_except_def)

lemma same_except_shrink: "same_except {a, b} s s' \<Longrightarrow> fs_files s' a = fs_files s a \<Longrightarrow> same_except {b} s s'"
  unfolding same_except_def by (metis insert_iff empty_iff)

lemmas frame_intros =
  keepsE_bind [OF same_except_trans] keepsE_pure [OF same_except_refl]
  keepsE_guard [OF same_except_refl] keepsE_map

lemma keepsE_weaken: "keepsE (same_except A) m \<Longrightarrow> A \<subseteq> B \<Longrightarrow> keepsE (same_except B) m"
  unfolding keepsE_def same_except_def by blast

lemma fs_rename_other: "fs_rename p q s = (b, s1) \<Longrightarrow> x \<noteq> p \<Longrightarrow> x \<noteq> q \<Longrightarrow> fs_files s1 x = fs_files s x"
  by (auto simp: fs_rename_def split: prod.splits if_splits option.splits)

lemma readE_frame: "keepsE (same_except A) (readE e p)"
  by (auto simp: keepsE_def same_except_def readE_def dest: fs_read_file_files split: prod.splits option.splits)

lemma readE_Inr: "readE e p s = (Inr d, s') \<Longrightarrow> fs_files s p = Some d \<and> fs_files s' = fs_files s"
  by (auto simp: readE_def dest: fs_read_file_files split: prod.splits option.splits)

lemma readE_no_faults:
  "fs_faults s = [] \<Longrightarrow> fs_files s p = Some d \<Longrightarrow> readE e p s = (Inr d, s)"
  by (simp add: readE_def fs_read_file_def next_fault_def)

lemma fsE_Inr [go_step]: "fsE e f s = (Inr u, s') \<longleftrightarrow> f s = (True, s')"
  by (auto simp: fsE_def split: prod.splits if_splits)

lemma fsE_Inl [go_step]: "fsE e f s = (Inl e', s') \<longleftrightarrow> f s = (False, s') \<and> e' = e"
  by (auto simp: fsE_def split: prod.splits if_splits)

subsection \<open>Durable writes\<close>

locale file_writer =
  fixes put :: "string \<Rightarrow> string \<Rightarrow> (fsys, 'e, unit) step"
    and tmp :: "string \<Rightarrow> string"
  assumes written: "put p d s = (Inr u, s') \<Longrightarrow> fs_files s' p = Some d"
    and refused: "put p d s = (Inl e, s') \<Longrightarrow> fs_files s' p = fs_files s p"
    and others: "put p d s = (r, s') \<Longrightarrow> q \<noteq> p \<Longrightarrow> q \<noteq> tmp p \<Longrightarrow> fs_files s' q = fs_files s q"
begin

lemma write_frame: "keepsE (same_except {p, tmp p}) (put p d)"
  using others by (auto simp: keepsE_def same_except_def)

lemma write_old_or_new: "put p d s = (r, s') \<Longrightarrow> fs_files s' p = fs_files s p \<or> fs_files s' p = Some d"
  using written refused by (cases r) auto

text \<open>Two files written one after the other: the second is new only with the first.\<close>

lemma write_in_order:
  assumes "bindE (put p d) (\<lambda>_. put q e) s = (r, s')"
    and "q \<noteq> p" "q \<noteq> tmp p" "p \<noteq> tmp q" "fs_files s' q \<noteq> fs_files s q"
  shows "fs_files s' p = Some d \<and> fs_files s' q = Some e"
proof -
  obtain r1 s1 where w: "put p d s = (r1, s1)" by (metis surj_pair)
  have q1: "fs_files s1 q = fs_files s q" using others [OF w] assms(2,3) by simp
  obtain u where u: "r1 = Inr u" using assms(1,5) q1 w by (cases r1) (auto simp: bindE_def)
  then have w2: "put q e s1 = (r, s')" using assms(1) w by (simp add: bindE_def)
  have "fs_files s' p = fs_files s1 p" using others [OF w2] assms(2,4) by metis
  moreover have "fs_files s1 p = Some d" using written w u by blast
  moreover have "fs_files s' q = Some e" using write_old_or_new [OF w2] assms(5) q1 by auto
  ultimately show ?thesis by simp
qed

end

lemma tmp_of_neq [simp]: "tmp_of p \<noteq> p" "p \<noteq> tmp_of p"
  by (simp_all add: tmp_of_def)

lemma WriteFileAtomic_frame: "WriteFileAtomic p d s = (r, s') \<Longrightarrow> q \<noteq> p \<Longrightarrow> q \<noteq> tmp_of p \<Longrightarrow> fs_files s' q = fs_files s q"
proof -
  assume w: "WriteFileAtomic p d s = (r, s')" and q: "q \<noteq> p" "q \<noteq> tmp_of p"
  have k: "keepsE (same_except {p, tmp_of p}) (fsE WriteError (fs_create_excl (tmp_of p)))"
    "keepsE (same_except {p, tmp_of p}) (fsE WriteError (fs_write_open (tmp_of p) d))"
    "keepsE (same_except {p, tmp_of p}) (fsE WriteError fs_check)"
    "keepsE (same_except {p, tmp_of p}) (fsE WriteError (fs_rename (tmp_of p) p))"
    by (auto simp: keepsE_def same_except_def fsE_def dest: fs_create_excl_files fs_write_open_files fs_check_files fs_rename_other
        split: prod.splits if_splits)
  have "keepsE (same_except {p, tmp_of p}) (\<lambda>s. bindE (fsE WriteError (fs_create_excl (tmp_of p))) (\<lambda>_.
     bindE (fsE WriteError (fs_write_open (tmp_of p) d)) (\<lambda>_. bindE (fsE WriteError fs_check) (\<lambda>_.
     bindE (fsE WriteError fs_check) (\<lambda>_. fsE WriteError (fs_rename (tmp_of p) p))))) s)"
    by (intro frame_intros k)
  then have "same_except {p, tmp_of p} (snd (fs_remove (tmp_of p) s)) s'"
    by (rule keepsED) (use w in \<open>simp add: WriteFileAtomic_def\<close>)
  moreover have "fs_files (snd (fs_remove (tmp_of p) s)) q = fs_files s q"
    using q fs_remove_files [of "tmp_of p" s] by (metis fun_upd_apply prod.collapse)
  ultimately show ?thesis using q by (simp add: same_except_def)
qed

lemma WriteFileAtomic_done:
  assumes "WriteFileAtomic p d s = (Inr u, s')"
  shows "fs_files s' p = Some d"
proof -
  obtain s1 s2 s3 s4 where c: "fs_create_excl (tmp_of p) (snd (fs_remove (tmp_of p) s)) = (True, s1)"
    and w: "fs_write_open (tmp_of p) d s1 = (True, s2)" and k: "fs_check s2 = (True, s3)" "fs_check s3 = (True, s4)"
    and m: "fs_rename (tmp_of p) p s4 = (True, s')"
    using assms unfolding WriteFileAtomic_def by (auto simp: go_step)
  have "fs_files s1 (tmp_of p) = Some []" using fs_create_excl_files [OF c] by simp
  then have "fs_files s2 (tmp_of p) = Some d" using fs_write_open_files [OF w] by (auto simp: file_of_def)
  then have "fs_files s4 (tmp_of p) = Some d" using k by (simp add: fs_check_files)
  then show ?thesis using fs_rename_files [OF m] by auto
qed

lemma WriteFileAtomic_failed:
  assumes "WriteFileAtomic p d s = (Inl e, s')"
  shows "fs_files s' p = fs_files s p"
proof -
  let ?s0 = "snd (fs_remove (tmp_of p) s)"
  have s0: "fs_files ?s0 p = fs_files s p"
    using fs_remove_files [of "tmp_of p" s] by (metis fun_upd_apply prod.collapse tmp_of_neq(2))
  have c: "fs_create_excl (tmp_of p) a = (b, a') \<Longrightarrow> fs_files a' p = fs_files a p" for a b a'
    using fs_create_excl_files [of "tmp_of p" a b a'] by (simp split: if_splits)
  have w: "fs_write_open (tmp_of p) d a = (b, a') \<Longrightarrow> fs_files a' p = fs_files a p" for a b a'
    using fs_write_open_files [of "tmp_of p" d a b a'] by auto
  have m: "fs_rename (tmp_of p) p a = (False, a') \<Longrightarrow> fs_files a' p = fs_files a p" for a a'
    using fs_rename_files [of "tmp_of p" p a False a'] by simp
  have "fs_files s' p = fs_files ?s0 p"
    using assms unfolding WriteFileAtomic_def by (auto simp: go_step fs_check_files c w m)
  with s0 show ?thesis by simp
qed

interpretation pki_file: file_writer WriteFileAtomic tmp_of
  by unfold_locales (fact WriteFileAtomic_done WriteFileAtomic_failed WriteFileAtomic_frame)+

subsection \<open>The laws of the cryptography\<close>

text \<open>The envelope's codec reads back what it wrote; GCM opens what was sealed under the same key and
  nothing sealed under another; PEM and PKCS#8 read back; a certificate parses with the serial, the
  subject and the expiry of its template.\<close>

definition lib_ok :: "pki_lib \<Rightarrow> bool" where
  "lib_ok px = ((\<forall>e. px_unmarshal px (px_marshal px e) = Some e)
     \<and> (\<forall>k n pt. ae_open (px_cipher px k) n (ae_seal (px_cipher px k) n pt) = Some pt)
     \<and> (\<forall>k k' n pt. k \<noteq> k' \<longrightarrow> ae_open (px_cipher px k') n (ae_seal (px_cipher px k) n pt) = None)
     \<and> (\<forall>t d. px_unpem px (px_pem px t d) = Some d)
     \<and> (\<forall>k d. px_pkcs8 px k = Some d \<longrightarrow> px_unpkcs8 px d = Some k)
     \<and> (\<forall>tpl parent pub k der. px_create px tpl parent pub k = Some der \<longrightarrow>
          (\<exists>c. px_parse px der = Some c \<and> xc_Serial c = xc_Serial tpl \<and> xc_Subject c = xc_Subject tpl
             \<and> xc_NotAfter c = xc_NotAfter tpl)))"

text \<open>A nonce has the size GCM asks for, a serial is not negative.\<close>

definition env_ok :: "pki_env \<Rightarrow> bool" where
  "env_ok en = ((case pe_Nonce en of None \<Rightarrow> True | Some n \<Rightarrow> length n = NonceSize)
     \<and> (case pe_Serial en of None \<Rightarrow> True | Some n \<Rightarrow> 0 \<le> n))"

definition dkey :: "pki_lib \<Rightarrow> string \<Rightarrow> string \<Rightarrow> string" where
  "dkey px salt pass = px_kdf px pass salt kdfTime kdfMemKiB kdfThreads 32"

lemma open_sealed:
  assumes "lib_ok px" "env_ok en" "Seal px en d p = Inr data"
  obtains salt where "\<And>q. Open_env px data q = (if dkey px salt q = dkey px salt p then Inr d else Inl ErrBadPassphrase)"
proof -
  obtain salt nonce where sn: "pe_Salt en = Some salt" "pe_Nonce en = Some nonce"
    and data: "data = px_marshal px \<lparr>ev_V = 1, ev_KDF = ''argon2id'', ev_Time = kdfTime, ev_MemKiB = kdfMemKiB,
           ev_Threads = kdfThreads, ev_Salt = salt, ev_Nonce = nonce,
           ev_CT = ae_seal (px_cipher px (dkey px salt p)) nonce d\<rparr>"
    using assms(3) by (auto simp: Seal_def dkey_def Let_def split: option.splits)
  have n: "length nonce = NonceSize" using assms(2) sn by (simp add: env_ok_def)
  have "Open_env px data q = (if dkey px salt q = dkey px salt p then Inr d else Inl ErrBadPassphrase)" for q
    using assms(1) n by (auto simp: Open_env_def data lib_ok_def dkey_def)
  then show thesis by (rule that)
qed

definition sealed :: "pki_lib \<Rightarrow> string \<Rightarrow> string \<Rightarrow> string \<Rightarrow> bool" where
  "sealed px pass key data = (\<exists>en d. env_ok en \<and> px_pkcs8 px (EcKey key) = Some d \<and> Seal px en d pass = Inr data)"

text \<open>A sealed key opens with the passphrases that derive its key, and with no other.\<close>

lemma sealed_opens:
  assumes "lib_ok px" "sealed px p key data"
  shows "\<exists>d. Open_env px data p = Inr d \<and> px_unpkcs8 px d = Some (EcKey key) \<and> px_pkcs8 px (EcKey key) = Some d"
proof -
  obtain en d where e: "env_ok en" "px_pkcs8 px (EcKey key) = Some d" "Seal px en d p = Inr data"
    using assms(2) by (auto simp: sealed_def)
  obtain salt where "\<And>q. Open_env px data q = (if dkey px salt q = dkey px salt p then Inr d else Inl ErrBadPassphrase)"
    by (rule open_sealed [OF assms(1) e(1,3)]) (rule that)
  moreover have "px_unpkcs8 px d = Some (EcKey key)" using assms(1) e(2) by (simp add: lib_ok_def)
  ultimately show ?thesis using e(2) by simp
qed

lemma sealed_opens_only:
  assumes "lib_ok px" "sealed px p key data" "Open_env px data q = Inr d"
  shows "px_pkcs8 px (EcKey key) = Some d" and "\<exists>salt. dkey px salt q = dkey px salt p"
proof -
  obtain en d' where e: "env_ok en" "px_pkcs8 px (EcKey key) = Some d'" "Seal px en d' p = Inr data"
    using assms(2) by (auto simp: sealed_def)
  obtain salt where o: "\<And>q. Open_env px data q = (if dkey px salt q = dkey px salt p then Inr d' else Inl ErrBadPassphrase)"
    by (rule open_sealed [OF assms(1) e(1,3)]) (rule that)
  show "px_pkcs8 px (EcKey key) = Some d" using o [of q] assms(3) e(2) by (simp split: if_splits)
  show "\<exists>salt. dkey px salt q = dkey px salt p" using o [of q] assms(3) by (auto split: if_splits)
qed

lemma sealed_wrong:
  assumes "lib_ok px" "sealed px p key data" "Open_env px data q = Inl e"
  shows "e = ErrBadPassphrase"
proof -
  obtain en d' where e: "env_ok en" "Seal px en d' p = Inr data"
    using assms(2) by (auto simp: sealed_def)
  obtain salt where "\<And>q. Open_env px data q = (if dkey px salt q = dkey px salt p then Inr d' else Inl ErrBadPassphrase)"
    by (rule open_sealed [OF assms(1) e]) (rule that)
  then show ?thesis using assms(3) by (simp split: if_splits)
qed

subsection \<open>What each operation may touch\<close>

lemma keepsE_case_prod: "(\<And>x y. keepsE R (f x y)) \<Longrightarrow> keepsE R (case a of (x, y) \<Rightarrow> f x y)"
  by (cases a) simp

lemma keepsE_Let: "keepsE R (f a) \<Longrightarrow> keepsE R (Let a f)"
  by (simp add: Let_def)

lemma WriteFileAtomic_keeps: "keepsE (same_except {p, tmp_of p}) (WriteFileAtomic p d)"
  by (rule pki_file.write_frame)

lemmas frames = frame_intros keepsE_case_prod keepsE_Let readE_frame WriteFileAtomic_keeps

lemma openFromFile_frame: "keepsE (same_except A) (openFromFile px path p)"
  unfolding openFromFile_def by (intro frames)

lemma loadCA_frame: "keepsE (same_except A) (loadCA px dir p)"
  unfolding loadCA_def CACertPEM_def by (intro frames openFromFile_frame)

lemma CheckPassphrase_frame: "keepsE (same_except A) (CheckPassphrase px dir p)"
  unfolding CheckPassphrase_def by (intro frames loadCA_frame)

lemma Issue_frame: "keepsE (same_except A) (Issue px en dir kind cn days p)"
  unfolding Issue_def by (intro frames loadCA_frame)

lemma RegenCRL_frame: "keepsE (same_except {CRLPath dir, tmp_of (CRLPath dir)}) (RegenCRL px en dir rvk p)"
  unfolding RegenCRL_def by (intro frames loadCA_frame)

lemma RenewCA_frame: "keepsE (same_except {caCertPath dir, tmp_of (caCertPath dir)}) (RenewCA px en dir years p)"
  unfolding RenewCA_def by (intro frames loadCA_frame)

lemma Rotate_frame: "keepsE (same_except {caKeyPath dir, tmp_of (caKeyPath dir)}) (Rotate px en dir p q)"
  unfolding Rotate_def by (intro frames openFromFile_frame)

text \<open>The CA's files are distinct, from each other's temporary files too.\<close>

lemma path_join_inj: "path_join d a = path_join d b \<longleftrightarrow> a = b"
  by (simp add: path_join_def)

lemma tmp_of_join: "tmp_of (path_join d a) = path_join d (a @ ''.tmp'')"
  by (simp add: path_join_def tmp_of_def)

lemmas ca_paths = caCertPath_def caKeyPath_def CRLPath_def tmp_of_join path_join_inj

lemma signing_key_Inr: "signing_key px d = Inr k \<longleftrightarrow> (\<exists>key. px_unpkcs8 px d = Some (EcKey key) \<and> k = EcKey key)"
  by (auto simp: signing_key_def split: option.splits priv_key.splits)

lemma openFromFile_Inr:
  "openFromFile px path p s = (Inr d, s') \<Longrightarrow> fs_files s' = fs_files s
     \<and> (\<exists>data. fs_files s path = Some data \<and> Open_env px data p = Inr d)"
  by (auto simp: openFromFile_def go_step dest!: readE_Inr)

lemma loadCA_Inr:
  assumes "loadCA px dir p s = (Inr (c, k), s')"
  shows "\<exists>pem data d key. fs_files s (caCertPath dir) = Some pem \<and> parseCertPEM px pem = Inr c
       \<and> fs_files s (caKeyPath dir) = Some data \<and> Open_env px data p = Inr d
       \<and> px_unpkcs8 px d = Some (EcKey key) \<and> k = EcKey key"
  using assms
  by (auto simp: loadCA_def CACertPEM_def go_step signing_key_Inr dest!: readE_Inr openFromFile_Inr)

lemma loadCA_no_faults:
  assumes "fs_faults s = []" "fs_files s (caCertPath dir) = Some pem" "parseCertPEM px pem = Inr c"
    "fs_files s (caKeyPath dir) = Some data"
  shows "loadCA px dir p s = (case Open_env px data p of Inl e \<Rightarrow> (Inl e, s)
     | Inr d \<Rightarrow> (case signing_key px d of Inl e \<Rightarrow> (Inl e, s) | Inr k \<Rightarrow> (Inr (c, k), s)))"
  using assms
  by (simp add: loadCA_def CACertPEM_def openFromFile_def bindE_def mapE_def pureE_def readE_no_faults
      split: sum.splits)

subsection \<open>The CA's key survives\<close>

text \<open>\<open>ca_ready\<close>: the certificate file holds a certificate of the CA's name, the key file holds the CA's
  key sealed under the passphrase.\<close>

definition ca_ready :: "pki_lib \<Rightarrow> string \<Rightarrow> string \<Rightarrow> string \<Rightarrow> string \<Rightarrow> fsys \<Rightarrow> bool" where
  "ca_ready px dir cn pass key s = (\<exists>pem c data. fs_files s (caCertPath dir) = Some pem \<and> parseCertPEM px pem = Inr c
     \<and> xc_Subject c = cn \<and> fs_files s (caKeyPath dir) = Some data \<and> sealed px pass key data)"

lemma ca_ready_frame:
  "ca_ready px dir cn p key s \<Longrightarrow> same_except A s s' \<Longrightarrow> caCertPath dir \<notin> A \<Longrightarrow> caKeyPath dir \<notin> A
     \<Longrightarrow> ca_ready px dir cn p key s'"
  by (simp add: ca_ready_def same_except_def)

lemma ca_ready_loadCA:
  assumes "lib_ok px" "ca_ready px dir cn p key s" "loadCA px dir q s = (Inr (c, k), s')"
  shows "xc_Subject c = cn \<and> k = EcKey key"
proof -
  obtain pem c' data where r: "fs_files s (caCertPath dir) = Some pem" "parseCertPEM px pem = Inr c'" "xc_Subject c' = cn"
    "fs_files s (caKeyPath dir) = Some data" "sealed px p key data"
    using assms(2) by (auto simp: ca_ready_def)
  obtain d key' where l: "parseCertPEM px pem = Inr c" "Open_env px data q = Inr d" "px_unpkcs8 px d = Some (EcKey key')"
    "k = EcKey key'"
    using loadCA_Inr [OF assms(3)] r by auto
  have "px_pkcs8 px (EcKey key) = Some d" by (rule sealed_opens_only(1) [OF assms(1) r(5) l(2)])
  then have "px_unpkcs8 px d = Some (EcKey key)" using assms(1) by (simp add: lib_ok_def)
  then show ?thesis using l r by simp
qed

lemma created_parses:
  assumes "lib_ok px" "px_create px tpl parent pub k = Some der"
  shows "\<exists>c. parseCertPEM px (px_pem px t der) = Inr c \<and> px_parse px der = Some c \<and> xc_Serial c = xc_Serial tpl
     \<and> xc_Subject c = xc_Subject tpl \<and> xc_NotAfter c = xc_NotAfter tpl"
proof -
  have "px_unpem px (px_pem px t der) = Some der" using assms(1) by (simp add: lib_ok_def)
  moreover have "\<exists>c. px_parse px der = Some c \<and> xc_Serial c = xc_Serial tpl \<and> xc_Subject c = xc_Subject tpl
      \<and> xc_NotAfter c = xc_NotAfter tpl"
    using assms unfolding lib_ok_def by blast
  ultimately show ?thesis by (auto simp: parseCertPEM_def orE_def)
qed

lemma ca_ready_RenewCA:
  assumes "lib_ok px" "ca_ready px dir cn p key s" "RenewCA px en dir years q s = (r, s')"
  shows "ca_ready px dir cn p key s'"
proof -
  obtain rl s1 where l: "loadCA px dir q s = (rl, s1)" by (metis surj_pair)
  have s1: "ca_ready px dir cn p key s1"
    by (rule ca_ready_frame [OF assms(2) keepsED [OF loadCA_frame [of "{}"] l]]) simp_all
  show ?thesis
  proof (cases "fs_files s' (caCertPath dir) = fs_files s (caCertPath dir)")
    case True
    have "same_except {tmp_of (caCertPath dir)} s s'"
      using keepsED [OF RenewCA_frame assms(3)] True by (rule same_except_shrink)
    then show ?thesis by (rule ca_ready_frame [OF assms(2)]) (simp_all add: ca_paths)
  next
    case False
    have l1: "fs_files s1 = fs_files s" using keepsED [OF loadCA_frame [of "{}"] l] by (auto simp: same_except_def)
    obtain c k serial der w s2 where e: "rl = Inr (c, k)"
      and d: "px_create px (caTemplate en (xc_Subject c) serial years) (caTemplate en (xc_Subject c) serial years)
          (px_public px k) k = Some der"
      and w: "WriteFileAtomic (caCertPath dir) (px_pem px ''CERTIFICATE'' der) s1 = (w, s2)" and s2: "fs_files s' = fs_files s2"
      using assms(3) l l1 False unfolding RenewCA_def
      by (cases rl) (auto simp: bindE_def pureE_def orE_def Let_def split: prod.splits option.splits sum.splits)
    have sub: "xc_Subject c = cn" using ca_ready_loadCA [OF assms(1,2)] l e by blast
    have "fs_files s' (caCertPath dir) = Some (px_pem px ''CERTIFICATE'' der)"
      using pki_file.write_old_or_new [OF w] False s2 l1 by simp
    moreover obtain c' where "parseCertPEM px (px_pem px ''CERTIFICATE'' der) = Inr c'" "xc_Subject c' = cn"
      using created_parses [OF assms(1) d, of "''CERTIFICATE''"] sub by (auto simp: caTemplate_def)
    moreover have "fs_files s' (caKeyPath dir) = fs_files s (caKeyPath dir)"
      using keepsED [OF RenewCA_frame assms(3)] by (rule same_exceptD) (simp add: ca_paths)
    ultimately show ?thesis using assms(2) by (auto simp: ca_ready_def)
  qed
qed

lemma Rotate_cases:
  assumes "Rotate px en dir p q s = (r, s')"
  obtains (same) e where "r = Inl e" "same_except {tmp_of (caKeyPath dir)} s s'"
  | (rotated) data d data' where "r = Inr ()" "fs_files s (caKeyPath dir) = Some data" "Open_env px data p = Inr d"
      "Seal px en d q = Inr data'" "fs_files s' (caKeyPath dir) = Some data'" "same_except {caKeyPath dir, tmp_of (caKeyPath dir)} s s'"
proof (cases r)
  case (Inl e)
  have "fs_files s' (caKeyPath dir) = fs_files s (caKeyPath dir)"
    using assms keepsED [OF openFromFile_frame [of "{}"]] unfolding Rotate_def Inl
    by (auto simp: go_step same_except_def dest: pki_file.refused)
  then have "same_except {tmp_of (caKeyPath dir)} s s'"
    using keepsED [OF Rotate_frame assms] by (intro same_except_shrink)
  with Inl same show thesis by blast
next
  case (Inr u)
  obtain d s1 data' where o: "openFromFile px (caKeyPath dir) p s = (Inr d, s1)" and sl: "Seal px en d q = Inr data'"
    and w: "WriteFileAtomic (caKeyPath dir) data' s1 = (Inr u, s')"
    using assms unfolding Rotate_def Inr by (auto simp: go_step)
  obtain data where "fs_files s (caKeyPath dir) = Some data" "Open_env px data p = Inr d"
    using openFromFile_Inr [OF o] by blast
  then show thesis
    using rotated [OF _ _ _ sl pki_file.written [OF w]] Inr keepsED [OF Rotate_frame assms] by simp
qed

lemma ca_ready_Rotate:
  assumes "lib_ok px" "env_ok en" "ca_ready px dir cn p key s" "Rotate px en dir old new s = (r, s')"
  shows "ca_ready px dir cn (case r of Inl _ \<Rightarrow> p | Inr _ \<Rightarrow> new) key s'"
  using assms(4)
proof (cases rule: Rotate_cases)
  case (same e)
  show ?thesis using ca_ready_frame [OF assms(3) same(2)] same(1) by (simp add: ca_paths)
next
  case (rotated data d data')
  have "sealed px p key data" using assms(3) rotated(2) by (auto simp: ca_ready_def)
  then have "px_pkcs8 px (EcKey key) = Some d" by (rule sealed_opens_only(1) [OF assms(1) _ rotated(3)])
  then have "sealed px new key data'" using assms(2) rotated(4) by (auto simp: sealed_def)
  moreover have "fs_files s' (caCertPath dir) = fs_files s (caCertPath dir)"
    by (rule same_exceptD [OF rotated(6)]) (simp add: ca_paths)
  ultimately show ?thesis using assms(3) rotated(1,5) by (auto simp: ca_ready_def)
qed

lemma InitCA_ready:
  assumes "lib_ok px" "env_ok en" "InitCA px en dir cn years p s = (Inr (), s')"
  shows "\<exists>key. pe_Key en = Some (EcKey key) \<and> ca_ready px dir cn p key s'"
proof -
  let ?s0 = "snd (fs_stat (caCertPath dir) s)"
  obtain k serial der keyDER s1 s2 where k: "pe_Key en = Some k"
    and d: "px_create px (caTemplate en cn serial years) (caTemplate en cn serial years) (px_public px k) k = Some der"
    and kd: "px_pkcs8 px k = Some keyDER"
    and sl: "sealToFile px en (caKeyPath dir) keyDER p ?s0 = (Inr (), s1)"
    and w: "WriteFileAtomic (caCertPath dir) (px_pem px ''CERTIFICATE'' der) s1 = (Inr (), s2)"
    and rc: "RegenCRL px en dir [] p s2 = (Inr (), s')"
    using assms(3) unfolding InitCA_def by (auto simp: go_step Let_def split: prod.splits if_splits)
  obtain data where sd: "Seal px en keyDER p = Inr data" and wk: "WriteFileAtomic (caKeyPath dir) data ?s0 = (Inr (), s1)"
    using sl unfolding sealToFile_def by (auto simp: go_step)
  obtain c k2 s3 where l: "loadCA px dir p s2 = (Inr (c, k2), s3)"
    using rc unfolding RegenCRL_def by (auto simp: go_step)
  have key: "fs_files s2 (caKeyPath dir) = Some data"
    using pki_file.written [OF wk] pki_file.others [OF w, of "caKeyPath dir"] by (simp add: ca_paths)
  have crt: "fs_files s2 (caCertPath dir) = Some (px_pem px ''CERTIFICATE'' der)" by (rule pki_file.written [OF w])
  obtain salt where o: "\<And>q. Open_env px data q = (if dkey px salt q = dkey px salt p then Inr keyDER else Inl ErrBadPassphrase)"
    by (rule open_sealed [OF assms(1,2) sd]) (rule that)
  have "px_unpkcs8 px keyDER = Some k" using assms(1) kd by (simp add: lib_ok_def)
  then obtain key' where k': "k = EcKey key'" using loadCA_Inr [OF l] key o [of p] by auto
  obtain c' where c': "parseCertPEM px (px_pem px ''CERTIFICATE'' der) = Inr c'" "xc_Subject c' = cn"
    using created_parses [OF assms(1) d, of "''CERTIFICATE''"] by (auto simp: caTemplate_def)
  have "sealed px p key' data" using assms(2) kd sd k' by (auto simp: sealed_def)
  then have "ca_ready px dir cn p key' s2" using key crt c' by (auto simp: ca_ready_def)
  then have "ca_ready px dir cn p key' s'"
    using keepsED [OF RegenCRL_frame rc] by (rule ca_ready_frame) (simp_all add: ca_paths)
  then show ?thesis using k k' by blast
qed

text \<open>The operations on an existing CA, with the passphrase the last successful rotation set; \<open>Faults\<close>
  chooses which file operations fail from here on.\<close>

datatype pki_op =
    OpRotate pki_env string string
  | OpRenew pki_env int string
  | OpIssue pki_env cert_kind string int string
  | OpCRL pki_env "revoked_entry list" string
  | Faults "nat option list"

fun pki_do :: "pki_lib \<Rightarrow> string \<Rightarrow> pki_op \<Rightarrow> string \<times> fsys \<Rightarrow> string \<times> fsys" where
  "pki_do px dir (OpRotate en old new) (p, s) = (case Rotate px en dir old new s of
     (Inl _, s') \<Rightarrow> (p, s') | (Inr _, s') \<Rightarrow> (new, s'))"
| "pki_do px dir (OpRenew en years q) (p, s) = (p, snd (RenewCA px en dir years q s))"
| "pki_do px dir (OpIssue en kind cn days q) (p, s) = (p, snd (Issue px en dir kind cn days q s))"
| "pki_do px dir (OpCRL en rvk q) (p, s) = (p, snd (RegenCRL px en dir rvk q s))"
| "pki_do px dir (Faults fs) (p, s) = (p, s\<lparr>fs_faults := fs\<rparr>)"

fun op_env_ok :: "pki_op \<Rightarrow> bool" where
  "op_env_ok (OpRotate en _ _) = env_ok en"
| "op_env_ok _ = True"

lemma ca_ready_pki_do:
  assumes "lib_ok px" "op_env_ok a" "ca_ready px dir cn p key s" "pki_do px dir a (p, s) = (p', s')"
  shows "ca_ready px dir cn p' key s'"
proof (cases a)
  case (OpRotate en old new)
  obtain r s1 where r: "Rotate px en dir old new s = (r, s1)" by (metis surj_pair)
  have "env_ok en" using assms(2) OpRotate by simp
  from ca_ready_Rotate [OF assms(1) this assms(3) r] show ?thesis using assms(4) r OpRotate by (auto split: sum.splits)
next
  case (OpRenew en years q)
  then show ?thesis using ca_ready_RenewCA [OF assms(1,3)] assms(4) by (metis pki_do.simps(2) prod.collapse prod.inject)
next
  case (OpIssue en kind cn' days q)
  have "same_except {} s (snd (Issue px en dir kind cn' days q s))"
    by (rule keepsED [OF Issue_frame]) (rule prod.collapse [symmetric])
  from ca_ready_frame [OF assms(3) this] show ?thesis using assms(4) OpIssue by simp
next
  case (OpCRL en rvk q)
  have "same_except {CRLPath dir, tmp_of (CRLPath dir)} s (snd (RegenCRL px en dir rvk q s))"
    by (rule keepsED [OF RegenCRL_frame]) (rule prod.collapse [symmetric])
  from ca_ready_frame [OF assms(3) this] show ?thesis using assms(4) OpCRL by (simp add: ca_paths)
next
  case (Faults fs)
  then show ?thesis using assms(3,4) by (auto simp: ca_ready_def)
qed

lemma ca_ready_run:
  assumes "lib_ok px"
  shows "list_all op_env_ok ops \<Longrightarrow> ca_ready px dir cn p key s \<Longrightarrow> fold (pki_do px dir) ops (p, s) = (p', s')
     \<Longrightarrow> ca_ready px dir cn p' key s'"
proof (induction ops arbitrary: p s)
  case (Cons a ops)
  obtain p1 s1 where d: "pki_do px dir a (p, s) = (p1, s1)" by (metis surj_pair)
  have a: "op_env_ok a" "list_all op_env_ok ops" using Cons.prems(1) by simp_all
  have "fold (pki_do px dir) ops (p1, s1) = (p', s')" using Cons.prems(3) d by simp
  then show ?case by (rule Cons.IH [OF a(2) ca_ready_pki_do [OF assms a(1) Cons.prems(2) d]])
qed simp

text \<open>A ready CA answers every passphrase: the right one and those that derive the same key get the key
  pair, the others are told so.\<close>

lemma ca_ready_answers:
  assumes "lib_ok px" "ca_ready px dir cn p key s" "fs_faults s = []"
  shows "\<exists>c. xc_Subject c = cn \<and> loadCA px dir p s = (Inr (c, EcKey key), s)
    \<and> (\<forall>q. loadCA px dir q s = (Inl ErrBadPassphrase, s)
        \<or> loadCA px dir q s = (Inr (c, EcKey key), s) \<and> (\<exists>salt. dkey px salt q = dkey px salt p))"
proof -
  obtain pem c data where r: "fs_files s (caCertPath dir) = Some pem" "parseCertPEM px pem = Inr c" "xc_Subject c = cn"
    "fs_files s (caKeyPath dir) = Some data" and sl: "sealed px p key data"
    using assms(2) by (auto simp: ca_ready_def)
  note load = loadCA_no_faults [OF assms(3) r(1,2,4)]
  obtain d where d: "Open_env px data p = Inr d" "px_unpkcs8 px d = Some (EcKey key)" "px_pkcs8 px (EcKey key) = Some d"
    using sealed_opens [OF assms(1) sl] by blast
  have "loadCA px dir p s = (Inr (c, EcKey key), s)" using d by (simp add: load signing_key_def)
  moreover have "loadCA px dir q s = (Inl ErrBadPassphrase, s)
        \<or> loadCA px dir q s = (Inr (c, EcKey key), s) \<and> (\<exists>salt. dkey px salt q = dkey px salt p)" for q
  proof (cases "Open_env px data q")
    case (Inl e)
    then show ?thesis using sealed_wrong [OF assms(1) sl Inl] by (simp add: load)
  next
    case (Inr d')
    then show ?thesis using sealed_opens_only [OF assms(1) sl Inr] d by (simp add: load signing_key_def)
  qed
  ultimately show ?thesis using r(3) by blast
qed

subsection \<open>Without failures the operations succeed\<close>

definition faultless :: "fsys \<Rightarrow> bool" where
  "faultless s = (fs_faults s = [])"

lemma faultless_fault: "faultless s \<Longrightarrow> next_fault s = (None, s)"
  by (simp add: faultless_def next_fault_def)

lemma WriteFileAtomic_succeeds:
  assumes "faultless s"
  shows "\<exists>s'. WriteFileAtomic p d s = (Inr (), s') \<and> faultless s'"
proof -
  obtain b s0 where r: "fs_remove (tmp_of p) s = (b, s0)" by (metis surj_pair)
  have s0: "faultless s0" "fs_files s0 (tmp_of p) = None"
    using r assms by (auto simp: fs_remove_def faultless_fault faultless_def split: if_splits)
  have c: "fs_create_excl (tmp_of p) s0 = (True, put_file (tmp_of p) [] s0)"
    using s0 by (simp add: fs_create_excl_def faultless_fault)
  have f1: "faultless (put_file (tmp_of p) [] s0)" using s0 by (simp add: put_file_def faultless_def)
  let ?s2 = "put_file (tmp_of p) d (put_file (tmp_of p) [] s0)"
  have w: "fs_write_open (tmp_of p) d (put_file (tmp_of p) [] s0) = (True, ?s2)"
    using f1 by (simp add: fs_write_open_def faultless_fault file_of_def) (simp add: put_file_def)
  have f2: "faultless ?s2" using s0 by (simp add: put_file_def faultless_def)
  have "\<exists>s'. fs_rename (tmp_of p) p ?s2 = (True, s') \<and> faultless s'"
    using f2 by (simp add: fs_rename_def faultless_fault) (simp add: put_file_def faultless_def)
  then show ?thesis
    using c w f2 by (auto simp: WriteFileAtomic_def r bindE_def fsE_def fs_check_def faultless_fault)
qed

definition lib_total :: "pki_lib \<Rightarrow> bool" where
  "lib_total px = ((\<forall>tpl parent pub k. px_create px tpl parent pub k \<noteq> None) \<and> (\<forall>k. px_pkcs8 px k \<noteq> None)
     \<and> (\<forall>tpl ca k. px_create_crl px tpl ca k \<noteq> None))"

definition env_total :: "pki_env \<Rightarrow> bool" where
  "env_total en = (pe_Key en \<noteq> None \<and> pe_Serial en \<noteq> None \<and> pe_Salt en \<noteq> None \<and> pe_Nonce en \<noteq> None)"

lemma Seal_succeeds: "env_total en \<Longrightarrow> \<exists>data. Seal px en d p = Inr data"
  by (auto simp: env_total_def Seal_def Let_def)

lemma crl_entries_succeeds:
  "list_all (\<lambda>r. parse_hex_big (re_SerialHex r) \<noteq> None) rs \<Longrightarrow> \<exists>es. crl_entries rs = Inr es"
  by (induction rs) auto

lemma RegenCRL_succeeds:
  assumes "lib_ok px" "lib_total px" "ca_ready px dir cn p key s" "faultless s"
    "list_all (\<lambda>r. parse_hex_big (re_SerialHex r) \<noteq> None) rs"
  shows "\<exists>s'. RegenCRL px en dir rs p s = (Inr (), s') \<and> faultless s'"
proof -
  obtain c where l: "loadCA px dir p s = (Inr (c, EcKey key), s)"
    using ca_ready_answers [OF assms(1,3)] assms(4) by (auto simp: faultless_def)
  obtain es where es: "crl_entries rs = Inr es" using crl_entries_succeeds [OF assms(5)] by blast
  obtain der where "px_create_crl px (crl_template en es) c (EcKey key) = Some der"
    using assms(2) unfolding lib_total_def by (meson not_Some_eq)
  then show ?thesis
    using l es WriteFileAtomic_succeeds [OF assms(4), of "CRLPath dir"] by (simp add: RegenCRL_def bindE_def pureE_def orE_def)
qed

lemma Rotate_succeeds:
  assumes "lib_ok px" "env_total en" "ca_ready px dir cn p key s" "faultless s"
  shows "\<exists>s'. Rotate px en dir p q s = (Inr (), s') \<and> faultless s'"
proof -
  obtain data where f: "fs_files s (caKeyPath dir) = Some data" and sl: "sealed px p key data"
    using assms(3) by (auto simp: ca_ready_def)
  obtain d where "Open_env px data p = Inr d" using sealed_opens [OF assms(1) sl] by blast
  then have "openFromFile px (caKeyPath dir) p s = (Inr d, s)"
    using f assms(4) by (simp add: openFromFile_def readE_no_faults faultless_def bindE_def pureE_def)
  moreover obtain data' where "Seal px en d q = Inr data'" using Seal_succeeds [OF assms(2)] by blast
  ultimately show ?thesis
    using WriteFileAtomic_succeeds [OF assms(4), of "caKeyPath dir" data'] by (simp add: Rotate_def bindE_def pureE_def)
qed

lemma InitCA_succeeds:
  assumes "lib_ok px" "lib_total px" "env_ok en" "env_total en" "pe_Key en = Some (EcKey key)"
    "faultless s" "fs_files s (caCertPath dir) = None"
  shows "\<exists>s'. InitCA px en dir cn years p s = (Inr (), s') \<and> faultless s'"
proof -
  obtain serial where n: "pe_Serial en = Some serial" using assms(4) by (auto simp: env_total_def)
  let ?t = "caTemplate en cn serial years"
  obtain der keyDER where d: "px_create px ?t ?t (px_public px (EcKey key)) (EcKey key) = Some der"
    "px_pkcs8 px (EcKey key) = Some keyDER"
    using assms(2) unfolding lib_total_def by (meson not_Some_eq)
  obtain data where sd: "Seal px en keyDER p = Inr data" using Seal_succeeds [OF assms(4)] by blast
  obtain s1 where s1: "WriteFileAtomic (caKeyPath dir) data s = (Inr (), s1)" "faultless s1"
    using WriteFileAtomic_succeeds [OF assms(6)] by blast
  obtain s2 where s2: "WriteFileAtomic (caCertPath dir) (px_pem px ''CERTIFICATE'' der) s1 = (Inr (), s2)" "faultless s2"
    using WriteFileAtomic_succeeds [OF s1(2)] by blast
  have "fs_files s2 (caKeyPath dir) = Some data"
    using pki_file.written [OF s1(1)] pki_file.others [OF s2(1), of "caKeyPath dir"] by (simp add: ca_paths)
  moreover have "sealed px p key data" using assms(3) d(2) sd by (auto simp: sealed_def)
  moreover obtain c where "parseCertPEM px (px_pem px ''CERTIFICATE'' der) = Inr c"
    using created_parses [OF assms(1) d(1)] by blast
  ultimately have "ca_ready px dir (xc_Subject c) p key s2"
    using pki_file.written [OF s2(1)] by (auto simp: ca_ready_def)
  then have "\<exists>s3. RegenCRL px en dir [] p s2 = (Inr (), s3) \<and> faultless s3"
    by (rule RegenCRL_succeeds [OF assms(1,2) _ s2(2)]) simp
  then obtain s3 where "RegenCRL px en dir [] p s2 = (Inr (), s3)" "faultless s3" by blast
  moreover have "fs_stat (caCertPath dir) s = (False, s)" using assms(6,7) by (simp add: fs_stat_def faultless_fault)
  ultimately show ?thesis
    using n d sd s1 s2 assms(5) by (simp add: InitCA_def sealToFile_def bindE_def pureE_def orE_def Let_def)
qed

subsection \<open>A library with the laws\<close>

function bits :: "int \<Rightarrow> string" where
  "bits i = (if i \<le> 0 then [] else (if even i then CHR ''0'' else CHR ''1'') # bits (i div 2))"
  by pat_completeness auto
termination by (relation "measure nat") auto

declare bits.simps [simp del]

fun bits_val :: "string \<Rightarrow> int" where
  "bits_val [] = 0"
| "bits_val (c # s) = (if c = CHR ''1'' then 1 else 0) + 2 * bits_val s"

lemma bits_val_bits: "0 \<le> i \<Longrightarrow> bits_val (bits i) = i"
proof (induction i rule: bits.induct)
  case (1 i)
  show ?case
  proof (cases "i \<le> 0")
    case True
    then show ?thesis using 1(2) by (simp add: bits.simps [of 0])
  next
    case False
    then have "bits_val (bits (i div 2)) = i div 2" using 1(1) by simp
    then show ?thesis using False by (simp add: bits.simps [of i]) presburger
  qed
qed

lemma set_bits: "c \<in> set (bits i) \<Longrightarrow> c = CHR ''0'' \<or> c = CHR ''1''"
proof (induction i rule: bits.induct)
  case (1 i)
  then show ?case by (subst (asm) (2) bits.simps) (auto split: if_splits)
qed

definition enc_int :: "int \<Rightarrow> string" where
  "enc_int i = (if i < 0 then CHR ''-'' # bits (- i) else bits i)"

definition dec_int :: "string \<Rightarrow> int" where
  "dec_int s = (case s of [] \<Rightarrow> 0 | c # r \<Rightarrow> if c = CHR ''-'' then - bits_val r else bits_val s)"

lemma dec_enc_int: "dec_int (enc_int i) = i"
proof (cases "i < 0")
  case False
  then have v: "bits_val (bits i) = i" by (simp add: bits_val_bits)
  show ?thesis
  proof (cases "bits i")
    case Nil
    then show ?thesis using v False by (simp add: dec_int_def enc_int_def)
  next
    case (Cons c r)
    then have "c \<noteq> CHR ''-''" using set_bits [of c i] by auto
    then show ?thesis using v False Cons by (simp add: dec_int_def enc_int_def)
  qed
qed (simp add: dec_int_def enc_int_def bits_val_bits)

lemma enc_int_no_sep: "CHR ''$'' \<notin> set (enc_int i)"
  using set_bits [of "CHR ''$''"] by (auto simp: enc_int_def)

abbreviation b64 :: "string \<Rightarrow> string" where "b64 \<equiv> b64_encode True False"
abbreviation unb64 :: "string \<Rightarrow> string option" where "unb64 \<equiv> b64_decode True False"

lemma b64_no_sep: "CHR ''$'' \<notin> set (b64 s)"
  using set_b64_raw by blast

definition demo_marshal :: "envelope \<Rightarrow> string" where
  "demo_marshal e = join_s [CHR ''$''] [enc_int (ev_V e), b64 (ev_KDF e), enc_int (ev_Time e), enc_int (ev_MemKiB e),
     enc_int (ev_Threads e), b64 (ev_Salt e), b64 (ev_Nonce e), b64 (ev_CT e)]"

definition demo_unmarshal :: "string \<Rightarrow> envelope option" where
  "demo_unmarshal s = (case split_c CHR ''$'' s of [v, kdf, t, m, p, salt, nonce, ct] \<Rightarrow>
       Option.bind (unb64 kdf) (\<lambda>kdf. Option.bind (unb64 salt) (\<lambda>salt. Option.bind (unb64 nonce) (\<lambda>nonce.
       map_option (\<lambda>ct. \<lparr>ev_V = dec_int v, ev_KDF = kdf, ev_Time = dec_int t, ev_MemKiB = dec_int m,
         ev_Threads = dec_int p, ev_Salt = salt, ev_Nonce = nonce, ev_CT = ct\<rparr>) (unb64 ct))))
     | _ \<Rightarrow> None)"

lemma demo_unmarshal_marshal: "demo_unmarshal (demo_marshal e) = Some e"
proof -
  have "split_c CHR ''$'' (demo_marshal e) = [enc_int (ev_V e), b64 (ev_KDF e), enc_int (ev_Time e), enc_int (ev_MemKiB e),
     enc_int (ev_Threads e), b64 (ev_Salt e), b64 (ev_Nonce e), b64 (ev_CT e)]"
    unfolding demo_marshal_def by (rule split_join) (auto simp: enc_int_no_sep b64_no_sep)
  then show ?thesis by (simp add: demo_unmarshal_def dec_enc_int b64_decode_encode)
qed

text \<open>A toy cipher that writes the key before the text, a toy DER that holds serial, subject and expiry.\<close>

definition demo_cipher :: "string \<Rightarrow> aead" where
  "demo_cipher k = \<lparr>ae_seal = (\<lambda>n pt. b64 k @ CHR ''$'' # pt),
     ae_open = (\<lambda>n ct. case cut_c CHR ''$'' ct of None \<Rightarrow> None | Some (a, b) \<Rightarrow> if a = b64 k then Some b else None)\<rparr>"

definition demo_der :: "x509_cert \<Rightarrow> string" where
  "demo_der c = join_s [CHR ''$''] [enc_int (xc_Serial c), b64 (xc_Subject c), enc_int (xc_NotAfter c)]"

definition demo_parse :: "string \<Rightarrow> x509_cert option" where
  "demo_parse s = (case split_c CHR ''$'' s of [n, cn, na] \<Rightarrow>
       map_option (\<lambda>cn. \<lparr>xc_Serial = dec_int n, xc_Subject = cn, xc_NotBefore = 0, xc_NotAfter = dec_int na, xc_IsCA = False,
         xc_BasicConstraints = False, xc_MaxPathLenZero = False, xc_KeyUsage = [], xc_ExtKeyUsage = [], xc_DNSNames = []\<rparr>) (unb64 cn)
     | _ \<Rightarrow> None)"

fun demo_pkcs8 :: "priv_key \<Rightarrow> string" where
  "demo_pkcs8 (EcKey k) = CHR ''E'' # k"
| "demo_pkcs8 (OtherKey k) = CHR ''O'' # k"

definition demo_unpkcs8 :: "string \<Rightarrow> priv_key option" where
  "demo_unpkcs8 d = (case d of [] \<Rightarrow> None | c # k \<Rightarrow> Some (if c = CHR ''E'' then EcKey k else OtherKey k))"

definition demo_lib :: pki_lib where
  "demo_lib = \<lparr>px_kdf = (\<lambda>p salt t m par len. p @ salt), px_cipher = demo_cipher, px_marshal = demo_marshal,
     px_unmarshal = demo_unmarshal, px_pem = (\<lambda>t d. b64 t @ CHR ''$'' # d),
     px_unpem = (\<lambda>s. map_option snd (cut_c CHR ''$'' s)), px_public = demo_pkcs8,
     px_create = (\<lambda>tpl parent pub k. Some (demo_der tpl)), px_parse = demo_parse,
     px_pkcs8 = (\<lambda>k. Some (demo_pkcs8 k)), px_unpkcs8 = demo_unpkcs8,
     px_create_crl = (\<lambda>tpl ca k. Some (concat (map (\<lambda>(n, t). enc_int n @ '','') (rl_Entries tpl)))),
     px_sec1 = (\<lambda>k. Some (demo_pkcs8 k)), px_encrypt_block = (\<lambda>rnd d pw. Some (b64 pw @ CHR ''$'' # d))\<rparr>"

lemma b64_inj: "b64 a = b64 b \<longleftrightarrow> a = b"
  by (metis b64_decode_encode option.inject)

lemma demo_parse_der: "demo_parse (demo_der c) = Some \<lparr>xc_Serial = xc_Serial c, xc_Subject = xc_Subject c, xc_NotBefore = 0,
    xc_NotAfter = xc_NotAfter c, xc_IsCA = False, xc_BasicConstraints = False, xc_MaxPathLenZero = False,
    xc_KeyUsage = [], xc_ExtKeyUsage = [], xc_DNSNames = []\<rparr>"
proof -
  have "split_c CHR ''$'' (demo_der c) = [enc_int (xc_Serial c), b64 (xc_Subject c), enc_int (xc_NotAfter c)]"
    unfolding demo_der_def by (rule split_join) (auto simp: enc_int_no_sep b64_no_sep)
  then show ?thesis by (simp add: demo_parse_def dec_enc_int b64_decode_encode)
qed

lemma demo_lib_ok: "lib_ok demo_lib"
proof -
  have "demo_unpkcs8 (demo_pkcs8 k) = Some k" for k by (cases k) (simp_all add: demo_unpkcs8_def)
  then show ?thesis
    by (simp add: lib_ok_def demo_lib_def demo_unmarshal_marshal demo_cipher_def cut_c_append b64_no_sep b64_inj demo_parse_der)
qed

definition demo_env :: pki_env where
  "demo_env = \<lparr>pe_Now = 1000, pe_AddDate = (\<lambda>t y d. t + 365 * y + d), pe_Key = Some (EcKey ''k1''), pe_Serial = Some 7,
     pe_Salt = Some ''salt'', pe_Nonce = Some ''0123456789ab'', pe_Random = Some ''r''\<rparr>"

text \<open>C23: The CA's key pair survives everything done to it. After a successful \<^verbatim>\<open>InitCA\<close> and any sequence of passphrase
  rotations, CA renewals, issues and CRL rebuilds, with any of their file operations failing at any byte,
  the CA loads with the passphrase the last successful rotation set and yields the key of the
  beginning and a certificate of the same name; any passphrase that does not derive the same key is refused as wrong.\<close>

theorem ca_key_survives:
  assumes "lib_ok px" "env_ok en" "list_all op_env_ok ops"
    and "InitCA px en dir cn years p s0 = (Inr (), s1)"
    and "fold (pki_do px dir) ops (p, s1) = (p', s2)"
  shows "\<exists>key c. pe_Key en = Some (EcKey key) \<and> xc_Subject c = cn
    \<and> loadCA px dir p' (s2\<lparr>fs_faults := []\<rparr>) = (Inr (c, EcKey key), s2\<lparr>fs_faults := []\<rparr>)
    \<and> (\<forall>q. loadCA px dir q (s2\<lparr>fs_faults := []\<rparr>) = (Inl ErrBadPassphrase, s2\<lparr>fs_faults := []\<rparr>)
        \<or> loadCA px dir q (s2\<lparr>fs_faults := []\<rparr>) = (Inr (c, EcKey key), s2\<lparr>fs_faults := []\<rparr>)
          \<and> (\<exists>salt. dkey px salt q = dkey px salt p'))"
proof -
  obtain key where k: "pe_Key en = Some (EcKey key)" "ca_ready px dir cn p key s1"
    using InitCA_ready [OF assms(1,2,4)] by blast
  have "ca_ready px dir cn p' key s2" by (rule ca_ready_run [OF assms(1,3) k(2) assms(5)])
  then have "ca_ready px dir cn p' key (s2\<lparr>fs_faults := []\<rparr>)" by (simp add: ca_ready_def)
  from ca_ready_answers [OF assms(1) this] k(1) show ?thesis by auto
qed

lemma demo_total: "lib_total demo_lib" "env_total demo_env" "env_ok demo_env" "pe_Key demo_env = Some (EcKey ''k1'')"
  by (simp_all add: lib_total_def env_total_def demo_lib_def demo_env_def env_ok_def)

definition demo_ops :: "pki_op list" where
  "demo_ops = [OpRotate demo_env ''one'' ''two'', OpIssue demo_env KindClient ''alice'' 30 ''two'',
     Faults [Some 0], OpRotate demo_env ''two'' ''three'', Faults [None, None, None, None, Some 4], OpRenew demo_env 9 ''two'']"

abbreviation no_files :: fsys where
  "no_files \<equiv> \<lparr>fs_files = (\<lambda>_. None), fs_faults = []\<rparr>"

theorem ca_key_survives_witness:
  "(let s1 = snd (InitCA demo_lib demo_env ''/d'' ''Root'' 10 ''one'' no_files);
      s2 = snd (fold (pki_do demo_lib ''/d'') demo_ops (''one'', s1)) in
    \<exists>c. xc_Subject c = ''Root'' \<and> fst (loadCA demo_lib ''/d'' ''two'' (s2\<lparr>fs_faults := []\<rparr>)) = Inr (c, EcKey ''k1''))"
proof -
  have "faultless no_files" "fs_files no_files (caCertPath ''/d'') = None" by (simp_all add: faultless_def)
  then obtain s1 where i: "InitCA demo_lib demo_env ''/d'' ''Root'' 10 ''one'' no_files = (Inr (), s1)" "faultless s1"
    using InitCA_succeeds [OF demo_lib_ok demo_total(1,3,2,4)] by blast
  obtain key where k: "ca_ready demo_lib ''/d'' ''Root'' ''one'' key s1"
    using InitCA_ready [OF demo_lib_ok demo_total(3) i(1)] by blast
  obtain s2 where r: "Rotate demo_lib demo_env ''/d'' ''one'' ''two'' s1 = (Inr (), s2)"
    using Rotate_succeeds [OF demo_lib_ok demo_total(2) k i(2)] by blast
  have bad: "Rotate demo_lib demo_env ''/d'' ''two'' ''three'' (s\<lparr>fs_faults := [Some 0]\<rparr>) = (Inl ReadError, s\<lparr>fs_faults := []\<rparr>)" for s
    by (simp add: Rotate_def openFromFile_def bindE_def readE_def fs_read_file_def next_fault_def)
  obtain s3 where f: "fold (pki_do demo_lib ''/d'') demo_ops (''one'', s1) = (''two'', s3)"
    by (simp add: demo_ops_def r bad)
  have o: "list_all op_env_ok demo_ops" by (simp add: demo_ops_def demo_total(3))
  show ?thesis using ca_key_survives [OF demo_lib_ok demo_total(3) o i(1) f] demo_total(4) i(1) f by (auto simp: Let_def)
qed

end
