(* ===== verification/Api_Certs_Props.thy ===== *)
theory Api_Certs_Props
  imports Api_Certs Pki_Props Store_Props
begin

section \<open>Revocation and renewal reach the revocation list\<close>

text \<open>
  The actions of \<open>Api_Certs\<close> against the theorems of the store and of the CA: when a revocation or a
  renewal reports success, the CRL on disk is the signed list of exactly the certificates the store
  has revoked; when it fails, the store and the CRL are as before, except that a revocation whose
  CRL could not be written has already marked its row.
\<close>

subsection \<open>The CRL on disk\<close>

lemma crl_entries_Inr:
  "crl_entries rs = Inr es \<Longrightarrow> map (Some \<circ> fst) es = map (parse_hex_big \<circ> re_SerialHex) rs \<and> map snd es = map re_RevokedAt rs"
  by (induction rs arbitrary: es) (auto simp: go_simps split: option.splits)

lemma RegenCRL_done:
  assumes "RegenCRL px en dir rvk p s = (Inr u, s')"
  shows "\<exists>es ca key der. crl_entries rvk = Inr es \<and> px_create_crl px (crl_template en es) ca key = Some der
    \<and> fs_files s' (CRLPath dir) = Some (px_pem px ''X509 CRL'' der)"
proof -
  obtain ca key s1 es der where "crl_entries rvk = Inr es" "px_create_crl px (crl_template en es) ca key = Some der"
    "WriteFileAtomic (CRLPath dir) (px_pem px ''X509 CRL'' der) s1 = (Inr u, s')"
    using assms unfolding RegenCRL_def by (auto simp: go_step)
  then show ?thesis using pki_file.written by blast
qed

lemma RegenCRL_failed:
  assumes "RegenCRL px en dir rvk p s = (Inl e, s')"
  shows "fs_files s' (CRLPath dir) = fs_files s (CRLPath dir)"
proof -
  obtain rl s1 where l: "loadCA px dir p s = (rl, s1)" by (metis surj_pair)
  have s1: "fs_files s1 = fs_files s" using keepsED [OF loadCA_frame [of "{}"] l] by (auto simp: same_except_def)
  show ?thesis
  proof (cases rl)
    case (Inl e')
    then show ?thesis using assms l s1 by (simp add: RegenCRL_def bindE_def)
  next
    case (Inr ck)
    obtain ca key where ck: "ck = (ca, key)" by (cases ck)
    have "s' = s1 \<or> (\<exists>d. WriteFileAtomic (CRLPath dir) d s1 = (Inl e, s'))"
      using assms l Inr ck unfolding RegenCRL_def
      by (auto simp: bindE_def pureE_def orE_def split: sum.splits option.splits)
    then show ?thesis using s1 pki_file.refused by fastforce
  qed
qed

text \<open>A passphrase that opened the CA once does not turn out wrong while the files stay the same.\<close>

lemma loadCA_again:
  assumes "loadCA px dir p s = (Inr x, s1)" and "fs_files t = fs_files s" and "loadCA px dir p t = (Inl e, t')"
  shows "e = NotInitialized \<or> e = ReadError"
proof -
  obtain c k where x: "x = (c, k)" by (cases x)
  obtain pem data d key where f: "fs_files s (caCertPath dir) = Some pem" "parseCertPEM px pem = Inr c"
    "fs_files s (caKeyPath dir) = Some data" "Open_env px data p = Inr d" "px_unpkcs8 px d = Some (EcKey key)"
    using loadCA_Inr [of px dir p s c k s1] assms(1) x by auto
  have r: "readE e0 q a = (Inl e1, b) \<Longrightarrow> e1 = e0" for e0 e1 :: pki_error and q a b
    by (auto simp: readE_def split: prod.splits option.splits)
  show ?thesis
  proof (cases "e = NotInitialized")
    case False
    obtain t1 where t1: "fs_files t1 = fs_files s" "openFromFile px (caKeyPath dir) p t1 = (Inl e, t') \<or>
        (\<exists>d t2. openFromFile px (caKeyPath dir) p t1 = (Inr d, t2) \<and> signing_key px d = Inl e)"
      using assms(2,3) False f(1,2) unfolding loadCA_def CACertPEM_def
      by (auto simp: go_step dest!: readE_Inr)
    show ?thesis
    proof (cases "openFromFile px (caKeyPath dir) p t1")
      case (Pair o' t2)
      show ?thesis
      proof (cases o')
        case (Inl e')
        then have "e' = ReadError" using Pair f(3,4) t1(1) by (auto simp: openFromFile_def go_step dest!: readE_Inr r)
        then show ?thesis using t1(2) Pair Inl by simp
      next
        case (Inr d')
        then have "d' = d" using openFromFile_Inr [of px "caKeyPath dir" p t1 d' t2] Pair f(3,4) t1(1) by simp
        then show ?thesis using t1(2) Pair Inr f(5) by (simp add: signing_key_def)
      qed
    qed
  qed simp
qed

text \<open>\<open>crl_lists\<close>: the CRL file holds the signed list of exactly the certificates the store has revoked.\<close>

definition crl_lists :: "'w server \<Rightarrow> pki_env \<Rightarrow> store \<Rightarrow> fsys \<Rightarrow> bool" where
  "crl_lists S en st f = (\<exists>es ca key der. map (Some \<circ> fst) es = map (parse_hex_big \<circ> ct_Serial) (RevokedCerts st)
     \<and> map (Some \<circ> snd) es = map ct_RevokedAt (RevokedCerts st)
     \<and> px_create_crl (sr_px S) (crl_template en es) ca key = Some der
     \<and> fs_files f (CRLPath (sr_PKI S)) = Some (px_pem (sr_px S) ''X509 CRL'' der))"

lemma RegenCRL_store_done:
  assumes "RegenCRL_store S en p s = (Inr u, s')"
  shows "crl_lists S en (sv_store s') (sv_fs s') \<and> sv_store s' = sv_store s"
proof -
  obtain f where r: "RegenCRL (sr_px S) en (sr_PKI S) (revoked_entries (sv_store s)) p (sv_fs s) = (Inr u, f)"
    and s': "s' = s\<lparr>sv_fs := f\<rparr>"
    using assms by (auto simp: RegenCRL_store_def go_step)
  obtain es ca key der where es: "crl_entries (revoked_entries (sv_store s)) = Inr es"
    and d: "px_create_crl (sr_px S) (crl_template en es) ca key = Some der"
      "fs_files f (CRLPath (sr_PKI S)) = Some (px_pem (sr_px S) ''X509 CRL'' der)"
    using RegenCRL_done [OF r] by blast
  have "map (Some \<circ> snd) es = map Some (map snd es)" by simp
  also have "\<dots> = map ct_RevokedAt (RevokedCerts (sv_store s))"
    using crl_entries_Inr [OF es] by (auto simp: revoked_entries_def RevokedCerts_def)
  finally show ?thesis
    using crl_entries_Inr [OF es] d s' by (auto simp: crl_lists_def revoked_entries_def comp_def)
qed

lemma RegenCRL_store_failed:
  assumes "RegenCRL_store S en p s = (Inl e, s')"
  shows "fs_files (sv_fs s') (CRLPath (sr_PKI S)) = fs_files (sv_fs s) (CRLPath (sr_PKI S)) \<and> sv_store s' = sv_store s"
  using assms by (auto simp: RegenCRL_store_def go_step dest: RegenCRL_failed)

lemma crl_lists_Audit: "crl_lists S en (Audit now a b c st) f = crl_lists S en st f"
  by (simp add: crl_lists_def RevokedCerts_def Audit_def)

lemma Revoke_Inr:
  assumes "Revoke serial at st = Inr (cn, st')"
  shows "\<exists>c \<in> set (st_certs st). ct_Serial c = serial \<and> ct_Kind c = ''client'' \<and> ct_RevokedAt c = None \<and> ct_CN c = cn"
    and "revoked_at st' serial at"
proof -
  obtain c where f: "List.find (\<lambda>c. ct_Serial c = serial \<and> ct_Kind c = ''client'' \<and> ct_RevokedAt c = None) (st_certs st) = Some c"
    and st': "cn = ct_CN c" "st' = st\<lparr>st_certs := update_certs (\<lambda>c. ct_Serial c = serial \<and> ct_Kind c = ''client'' \<and> ct_RevokedAt c = None)
      (\<lambda>d. d\<lparr>ct_RevokedAt := Some at\<rparr>) (st_certs st)\<rparr>"
    using assms by (auto simp: Revoke_def Let_def split: option.splits)
  have c: "c \<in> set (st_certs st)" "ct_Serial c = serial" "ct_Kind c = ''client''" "ct_RevokedAt c = None"
    using find_SomeD [OF f] by auto
  then show "\<exists>c \<in> set (st_certs st). ct_Serial c = serial \<and> ct_Kind c = ''client'' \<and> ct_RevokedAt c = None \<and> ct_CN c = cn"
    using st'(1) by blast
  have "c\<lparr>ct_RevokedAt := Some at\<rparr> \<in> set (st_certs st')"
    using c st'(2) by (auto simp: update_certs_def image_iff intro!: bexI [of _ c])
  then show "revoked_at st' serial at" unfolding revoked_at_def
    by (rule bexI [rotated]) (simp add: c(2))
qed

subsection \<open>Revocation\<close>

lemma revoke_row_Inr [go_step]:
  "revoke_row serial now s = (Inr cn, s') \<longleftrightarrow> (\<exists>st. Revoke serial now (sv_store s) = Inr (cn, st) \<and> s' = s\<lparr>sv_store := st\<rparr>)"
  by (auto simp: revoke_row_def split: sum.splits)

lemma revoke_row_Inl [go_step]:
  "revoke_row serial now s = (Inl e, s') \<longleftrightarrow> (\<exists>d. Revoke serial now (sv_store s) = Inl d \<and> e = StoreErr d \<and> s' = s)"
  by (auto simp: revoke_row_def split: sum.splits)

lemma RevokeCert_Inr:
  assumes "RevokeCert S en actor serial p s = (Inr res, s')"
  obtains f cn st s3 where "Revoke serial (pe_Now en) (sv_store s) = Inr (cn, st)"
    "RegenCRL_store S en p (s\<lparr>sv_fs := f, sv_store := st\<rparr>) = (Inr (), s3)"
    "s' = s3\<lparr>sv_store := Audit (pe_Now en) actor ''revoke'' (''serial='' @ serial) (sv_store s3)\<rparr>"
    "res = \<lparr>rr_Serial = serial, rr_CN = cn, rr_CRLPath = CRLPath (sr_PKI S)\<rparr>"
  using assms by (auto simp: RevokeCert_def go_step)

lemma CheckPassphrase_Inr: "CheckPassphrase px dir p s = (Inr u, s') \<longleftrightarrow> (\<exists>x. loadCA px dir p s = (Inr x, s'))"
  by (auto simp: CheckPassphrase_def go_step)

lemma CheckPassphrase_files: "CheckPassphrase px dir p s = (r, s') \<Longrightarrow> fs_files s' = fs_files s"
  using keepsED [OF CheckPassphrase_frame [of "{}"]] by (auto simp: same_except_def)

lemma RegenCRL_not_wrong:
  assumes "loadCA px dir p s = (Inr x, s1)" "fs_files t = fs_files s" "RegenCRL px en dir rvk p t = (Inl e, t')"
  shows "e \<noteq> ErrBadPassphrase"
proof (cases "loadCA px dir p t")
  case (Pair rl t1)
  show ?thesis
  proof (cases rl)
    case (Inl e')
    then show ?thesis using loadCA_again [OF assms(1,2)] Pair assms(3) by (auto simp: RegenCRL_def bindE_def)
  next
    case (Inr ck)
    have w: "WriteFileAtomic q d a = (Inl e1, b) \<Longrightarrow> e1 = WriteError" for q d e1 and a b :: fsys
      by (auto simp: WriteFileAtomic_def go_step)
    have c: "crl_entries rs = Inl e1 \<Longrightarrow> e1 \<noteq> ErrBadPassphrase" for rs e1
      by (induction rs) (auto split: option.splits sum.splits)
    show ?thesis
      using assms(3) Pair Inr unfolding RegenCRL_def
      by (auto simp: bindE_def pureE_def orE_def split: sum.splits option.splits prod.splits dest: w c)
  qed
qed

lemma RevokeCert_Inl:
  assumes "RevokeCert S en actor serial p s = (Inl e, s')"
  shows "fs_files (sv_fs s') (CRLPath (sr_PKI S)) = fs_files (sv_fs s) (CRLPath (sr_PKI S))
    \<and> (sv_store s' = sv_store s
       \<or> e \<noteq> PkiErr ErrBadPassphrase \<and> (\<exists>cn. Revoke serial (pe_Now en) (sv_store s) = Inr (cn, sv_store s')))"
proof -
  let ?chk = "CheckPassphrase (sr_px S) (sr_PKI S) p (sv_fs s)"
  obtain rc f where c: "?chk = (rc, f)" by (metis surj_pair)
  note f = CheckPassphrase_files [OF c]
  show ?thesis
  proof (cases rc)
    case (Inl d)
    then have "s' = s\<lparr>sv_fs := f\<rparr>" using assms c by (simp add: RevokeCert_def bindE_def onFS_def)
    then show ?thesis using f by simp
  next
    case (Inr u)
    obtain x where x: "loadCA (sr_px S) (sr_PKI S) p (sv_fs s) = (Inr x, f)"
      using c Inr CheckPassphrase_Inr by metis
    show ?thesis
    proof (cases "Revoke serial (pe_Now en) (sv_store s)")
      case (Inl d)
      then have "s' = s\<lparr>sv_fs := f\<rparr>" using assms c Inr by (simp add: RevokeCert_def bindE_def onFS_def revoke_row_def)
      then show ?thesis using f by simp
    next
      case rv: (Inr y)
      obtain cn st where y: "y = (cn, st)" by (cases y)
      have r: "RegenCRL_store S en p (s\<lparr>sv_fs := f, sv_store := st\<rparr>) = (Inl e, s')"
        using assms c Inr rv y by (auto simp: RevokeCert_def go_step)
      then obtain e' f' where "RegenCRL (sr_px S) en (sr_PKI S) (revoked_entries st) p f = (Inl e', f')" "e = PkiErr e'"
        by (auto simp: RegenCRL_store_def go_step)
      then have "e \<noteq> PkiErr ErrBadPassphrase" using RegenCRL_not_wrong [OF x f] by blast
      then show ?thesis using RegenCRL_store_failed [OF r] rv y f by simp
    qed
  qed
qed

lemma RevokeCert_succeeds:
  assumes "lib_ok (sr_px S)" "lib_total (sr_px S)" "ca_ready (sr_px S) (sr_PKI S) cn p key (sv_fs s)" "faultless (sv_fs s)"
    and "Revoke serial (pe_Now en) (sv_store s) = Inr (c, st)"
    and "list_all (\<lambda>c. parse_hex_big (ct_Serial c) \<noteq> None) (st_certs st)"
  shows "\<exists>res s'. RevokeCert S en actor serial p s = (Inr res, s')"
proof -
  obtain x where "loadCA (sr_px S) (sr_PKI S) p (sv_fs s) = (Inr x, sv_fs s)"
    using ca_ready_answers [OF assms(1,3)] assms(4) by (auto simp: faultless_def)
  then have "CheckPassphrase (sr_px S) (sr_PKI S) p (sv_fs s) = (Inr (), sv_fs s)"
    by (simp add: CheckPassphrase_def bindE_def pureE_def)
  moreover have "list_all (\<lambda>r. parse_hex_big (re_SerialHex r) \<noteq> None) (revoked_entries st)"
    using assms(6) by (auto simp: list_all_iff revoked_entries_def RevokedCerts_def)
  then have "\<exists>f. RegenCRL (sr_px S) en (sr_PKI S) (revoked_entries st) p (sv_fs s) = (Inr (), f) \<and> faultless f"
    by (rule RegenCRL_succeeds [OF assms(1,2,3,4)])
  ultimately show ?thesis
    using assms(5) by (auto simp: RevokeCert_def RegenCRL_store_def bindE_def onFS_def revoke_row_def getE_def audit_def pureE_def)
qed

text \<open>C24: A revocation that reports success has marked the named client's active certificate and left on disk a CRL
  that lists exactly the certificates the store has revoked. One that fails leaves the CRL as it was; with a
  wrong passphrase the store too. (A CRL write that fails leaves the row revoked and the CRL old.)\<close>

theorem revoke_reaches_crl:
  assumes "RevokeCert S en actor serial p s = (r, s')"
  shows "case r of
      Inr res \<Rightarrow> revoked_at (sv_store s') serial (pe_Now en) \<and> crl_lists S en (sv_store s') (sv_fs s')
        \<and> (\<exists>c \<in> set (st_certs (sv_store s)). ct_Serial c = serial \<and> ct_Kind c = ''client'' \<and> ct_RevokedAt c = None \<and> ct_CN c = rr_CN res)
    | Inl e \<Rightarrow> fs_files (sv_fs s') (CRLPath (sr_PKI S)) = fs_files (sv_fs s) (CRLPath (sr_PKI S))
        \<and> (sv_store s' = sv_store s
           \<or> e \<noteq> PkiErr ErrBadPassphrase \<and> (\<exists>cn. Revoke serial (pe_Now en) (sv_store s) = Inr (cn, sv_store s')))"
proof (cases r)
  case (Inl e)
  then show ?thesis using RevokeCert_Inl assms by fastforce
next
  case (Inr res)
  obtain f cn st s3 where v: "Revoke serial (pe_Now en) (sv_store s) = Inr (cn, st)"
    and g: "RegenCRL_store S en p (s\<lparr>sv_fs := f, sv_store := st\<rparr>) = (Inr (), s3)"
    and s': "s' = s3\<lparr>sv_store := Audit (pe_Now en) actor ''revoke'' (''serial='' @ serial) (sv_store s3)\<rparr>"
    and res: "res = \<lparr>rr_Serial = serial, rr_CN = cn, rr_CRLPath = CRLPath (sr_PKI S)\<rparr>"
    using assms Inr RevokeCert_Inr by metis
  have "crl_lists S en (sv_store s3) (sv_fs s3)" using RegenCRL_store_done [OF g] by blast
  moreover have "sv_store s3 = st" using RegenCRL_store_done [OF g] by simp
  ultimately have "crl_lists S en (sv_store s3) (sv_fs s3)" "sv_store s3 = st" by blast+
  then show ?thesis
    using Revoke_Inr [OF v] Inr res s' by (simp add: crl_lists_Audit revoked_at_def) (simp add: Audit_def)
qed

definition demo_server :: "unit server" where
  "demo_server = \<lparr>sr_px = demo_lib, sr_PKI = ''/d'', sr_TLSCrypt = ''/d/tc.key'', sr_ServerCert = ''/d/server.crt'',
     sr_ServerKey = ''/d/server.key'', sr_ConfigPath = ''/d/server.conf'', sr_DefaultRemote = ''vpn.example'',
     sr_getenv = (\<lambda>_. []), sr_dec_config = (\<lambda>_ c. c), sr_enc_config = (\<lambda>_. ''{}''),
     sr_dec_dns = (\<lambda>_ _. None), sr_enc_dns = (\<lambda>_. None), sr_dec_up = (\<lambda>_ _. None), sr_enc_up = (\<lambda>_. None),
     sr_Kill = (\<lambda>_ _ w. (Inr 0, w)), sr_apply = (\<lambda>_ w. ([], w)), sr_rewrite = (\<lambda>_ w. (Inr (), w)),
     sr_iface = (\<lambda>_ _. False), sr_url = (\<lambda>_. [])\<rparr>"

definition demo_files :: fsys where
  "demo_files = snd (InitCA demo_lib demo_env ''/d'' ''Root'' 10 ''one'' no_files)"

lemma demo_files_ready: "\<exists>key. ca_ready demo_lib ''/d'' ''Root'' ''one'' key demo_files" "faultless demo_files"
proof -
  have "faultless no_files" "fs_files no_files (caCertPath ''/d'') = None" by (simp_all add: faultless_def)
  then obtain s1 where i: "InitCA demo_lib demo_env ''/d'' ''Root'' 10 ''one'' no_files = (Inr (), s1)" "faultless s1"
    using InitCA_succeeds [OF demo_lib_ok demo_total(1,3,2,4)] by blast
  then show "\<exists>key. ca_ready demo_lib ''/d'' ''Root'' ''one'' key demo_files" "faultless demo_files"
    using InitCA_ready [OF demo_lib_ok demo_total(3) i(1)] by (auto simp: demo_files_def)
qed

theorem revoke_reaches_crl_witness:
  "(let s = \<lparr>sv_store = store1, sv_fs = demo_files, sv_world = ()\<rparr>;
      s' = snd (RevokeCert demo_server demo_env ''root'' ''0a'' ''one'' s) in
    revoked_at (sv_store s') ''0a'' 1000 \<and> crl_lists demo_server demo_env (sv_store s') (sv_fs s'))"
proof -
  let ?s = "\<lparr>sv_store = store1, sv_fs = demo_files, sv_world = ()\<rparr>"
  obtain c st where v: "Revoke ''0a'' (pe_Now demo_env) (sv_store ?s) = Inr (c, st)"
    and h: "list_all (\<lambda>c. parse_hex_big (ct_Serial c) \<noteq> None) (st_certs st)"
    by (simp add: Revoke_def store1_def alice_cert_def empty_store_def update_certs_def parse_hex_big_def
        parse_hex_digits_def is_hex_c_def is_digit_c_def byte_of_def)
  have "lib_ok (sr_px demo_server)" "lib_total (sr_px demo_server)" by (simp_all add: demo_server_def demo_lib_ok demo_total)
  moreover obtain key where "ca_ready (sr_px demo_server) (sr_PKI demo_server) ''Root'' ''one'' key (sv_fs ?s)"
    using demo_files_ready by (auto simp: demo_server_def)
  ultimately obtain res s' where r: "RevokeCert demo_server demo_env ''root'' ''0a'' ''one'' ?s = (Inr res, s')"
    using RevokeCert_succeeds [OF _ _ _ _ v h, of demo_server] demo_files_ready(2) by (metis srv.select_convs(2))
  from revoke_reaches_crl [OF r] show ?thesis using r by (simp add: demo_env_def)
qed

subsection \<open>Issue and renewal\<close>

lemma distinct_singleton: "distinct xs \<Longrightarrow> set xs = {c} \<Longrightarrow> xs = [c]"
proof (cases xs)
  case (Cons y ys)
  moreover assume "distinct xs" "set xs = {c}"
  ultimately have "y = c" "set ys \<subseteq> {c}" "c \<notin> set ys" by auto
  then have "set ys = {}" by (metis insertI1 subset_singletonD)
  with Cons \<open>y = c\<close> show ?thesis by simp
qed simp

lemma one_active:
  assumes "certs_inv cs" "c \<in> set cs" "activeCert ''client'' cn c"
  shows "filter (activeCert ''client'' cn) cs = [c]"
proof -
  have u: "d = c" if "d \<in> set cs" "activeCert ''client'' cn d" for d
  proof -
    have "same_slot d c" "ct_RevokedAt d = None" "ct_RevokedAt c = None"
      using that(2) assms(3) by (simp_all add: activeCert_def same_slot_def)
    moreover have "\<forall>c \<in> set cs. \<forall>d \<in> set cs. ct_RevokedAt c = None \<longrightarrow> ct_RevokedAt d = None \<longrightarrow> same_slot c d \<longrightarrow> c = d"
      using assms(1) unfolding certs_inv_def by (elim conjE)
    ultimately show ?thesis using assms(2) that(1) by simp
  qed
  have "set (filter (activeCert ''client'' cn) cs) = {c}" unfolding set_filter using assms(2,3) u by blast
  moreover have "distinct (filter (activeCert ''client'' cn) cs)"
    using assms(1) by (auto simp: certs_inv_def distinct_map)
  ultimately show ?thesis by (intro distinct_singleton)
qed

lemma update_none_active:
  "filter (activeCert kind cn) (update_certs (activeCert kind cn) (\<lambda>d. d\<lparr>ct_RevokedAt := Some t\<rparr>) cs) = []"
  by (induction cs) (auto simp: update_certs_def activeCert_def)

lemma CertFrom_active: "activeCert ''client'' (ic_CN ic) (CertFrom en ic ''client'')"
  by (simp add: activeCert_def CertFrom_def)

lemma CertFrom_fields [simp]: "ct_Kind (CertFrom en ic k) = k" "ct_CN (CertFrom en ic k) = ic_CN ic"
  "ct_Serial (CertFrom en ic k) = ic_SerialHex ic" "(CertFrom en ic k)\<lparr>ct_RevokedAt := None\<rparr> = CertFrom en ic k"
  by (simp_all add: CertFrom_def)

lemma Issue_Inr:
  assumes "Issue px en dir kind cn days p s = (Inr ic, s')"
  shows "nameRe cn \<and> 0 < days \<and> ic_CN ic = cn \<and> (\<exists>n. pe_Serial en = Some n \<and> ic_SerialHex ic = serial_hex n)
    \<and> fs_files s' = fs_files s"
proof -
  have f: "fs_files s' = fs_files s" using keepsED [OF Issue_frame [of "{}"] assms] by (auto simp: same_except_def)
  have "nameRe cn" using assms unfolding Issue_def by (auto simp: go_step CheckName_def split: if_splits)
  moreover have "0 < days" using assms unfolding Issue_def by (auto simp: go_step)
  moreover have "ic_CN ic = cn \<and> (\<exists>n. pe_Serial en = Some n \<and> ic_SerialHex ic = serial_hex n)"
    using assms unfolding Issue_def by (auto simp: go_step Let_def)
  ultimately show ?thesis using f by blast
qed

lemma encrypted_key_Inr: "encrypted_key S en kp ic0 = Inr ic \<Longrightarrow> ic_CN ic = ic_CN ic0 \<and> ic_SerialHex ic = ic_SerialHex ic0"
  by (auto simp: encrypted_key_def split: if_splits sum.splits)

lemma IssueClient_Inr:
  assumes "IssueClient S en r s = (Inr ic, s')"
  obtains f where "if cq_Renew r then RequireActiveCert (cq_CN r) ''client'' (sv_store s) = Inr () else True"
    "nameRe (cq_CN r)" "0 < cq_Days r" "ic_CN ic = cq_CN r" "fs_files f = fs_files (sv_fs s)"
    "if cq_Renew r then (\<exists>st. ReplaceCert (pe_Now en) (CertFrom en ic ''client'') (sv_store s) = Inr st
         \<and> RegenCRL_store S en (cq_Passphrase r) (s\<lparr>sv_fs := f, sv_store := st\<rparr>) = (Inr (), s'))
     else (\<exists>st. AddCert (CertFrom en ic ''client'') (sv_store s) = Inr st \<and> s' = s\<lparr>sv_fs := f, sv_store := st\<rparr>)"
proof -
  have q: "if cq_Renew r then RequireActiveCert (cq_CN r) ''client'' (sv_store s) = Inr () else True"
    using assms unfolding IssueClient_def by (cases "cq_Renew r") (simp_all add: go_step)
  have "(if cq_Renew r then queryStore (RequireActiveCert (cq_CN r) ''client'') else pureE (Inr ())) s = (Inr (), s)"
    using q by (cases "cq_Renew r") (simp_all add: go_step)
  then have rest: "bindE (onFS PkiErr (Issue (sr_px S) en (sr_PKI S) KindClient (cq_CN r) (cq_Days r) (cq_Passphrase r))) (\<lambda>ic0.
     bindE (pureE (encrypted_key S en (cq_KeyPass r) ic0)) (\<lambda>ic.
     let c = CertFrom en ic ''client'' in
     if \<not> cq_Renew r then bindE (onStore (AddCert c)) (\<lambda>_. pureE (Inr ic))
     else bindE (onStore (ReplaceCert (pe_Now en) c)) (\<lambda>_.
          bindE (RegenCRL_store S en (cq_Passphrase r)) (\<lambda>_. pureE (Inr ic))))) s = (Inr ic, s')"
    using assms unfolding IssueClient_def by (simp add: bindE_def [of "if cq_Renew r then _ else _"])
  then obtain ic0 f where i: "Issue (sr_px S) en (sr_PKI S) KindClient (cq_CN r) (cq_Days r) (cq_Passphrase r) (sv_fs s) = (Inr ic0, f)"
    and k: "encrypted_key S en (cq_KeyPass r) ic0 = Inr ic"
    and c: "(if \<not> cq_Renew r then bindE (onStore (AddCert (CertFrom en ic ''client''))) (\<lambda>_. pureE (Inr ic))
     else bindE (onStore (ReplaceCert (pe_Now en) (CertFrom en ic ''client''))) (\<lambda>_.
          bindE (RegenCRL_store S en (cq_Passphrase r)) (\<lambda>_. pureE (Inr ic)))) (s\<lparr>sv_fs := f\<rparr>) = (Inr ic, s')"
    by (auto simp: go_step Let_def split: if_splits)
  have d: "if cq_Renew r then (\<exists>st. ReplaceCert (pe_Now en) (CertFrom en ic ''client'') (sv_store s) = Inr st
         \<and> RegenCRL_store S en (cq_Passphrase r) (s\<lparr>sv_fs := f, sv_store := st\<rparr>) = (Inr (), s'))
     else (\<exists>st. AddCert (CertFrom en ic ''client'') (sv_store s) = Inr st \<and> s' = s\<lparr>sv_fs := f, sv_store := st\<rparr>)"
    using c by (cases "cq_Renew r") (auto simp: go_step)
  then show thesis using that [OF q _ _ _ _ d] Issue_Inr [OF i] encrypted_key_Inr [OF k] by simp
qed

lemma ReplaceCert_Inr:
  assumes "ReplaceCert now c st = Inr st'" "activeCert (ct_Kind c) (ct_CN c) d" "d \<in> set (st_certs st)"
  shows "revoked_at st' (ct_Serial d) now"
proof -
  have "d\<lparr>ct_RevokedAt := Some now\<rparr> \<in> set (st_certs st')"
    using assms by (auto simp: ReplaceCert_def go_simps insert_cert_ok update_certs_def image_iff intro!: bexI [of _ d])
  then show ?thesis unfolding revoked_at_def by (rule bexI [rotated]) simp
qed

lemma insert_cert_list: "insert_cert c cs = Inr cs' \<Longrightarrow> cs' = cs @ [c\<lparr>ct_RevokedAt := None\<rparr>]"
  by (simp add: insert_cert_ok)

text \<open>C25: An issue or a renewal that reports success had a valid name and a positive validity, and leaves the new
  certificate as the one active certificate of the client: an issue where there was none and adding just this row, a renewal with
  the certificate it replaces revoked and the CRL on disk listing exactly what the store has revoked.\<close>

theorem issued_is_the_active_one:
  assumes "certs_inv (st_certs (sv_store s))" and "IssueClient S en r s = (Inr ic, s')"
  shows "nameRe (cq_CN r) \<and> 0 < cq_Days r
    \<and> filter (activeCert ''client'' (cq_CN r)) (st_certs (sv_store s')) = [CertFrom en ic ''client'']
    \<and> (if cq_Renew r
       then (\<exists>old. filter (activeCert ''client'' (cq_CN r)) (st_certs (sv_store s)) = [old]
              \<and> revoked_at (sv_store s') (ct_Serial old) (pe_Now en)) \<and> crl_lists S en (sv_store s') (sv_fs s')
       else filter (activeCert ''client'' (cq_CN r)) (st_certs (sv_store s)) = []
              \<and> st_certs (sv_store s') = st_certs (sv_store s) @ [CertFrom en ic ''client''])"
proof -
  let ?c = "CertFrom en ic ''client''" and ?act = "activeCert ''client'' (cq_CN r)"
  obtain f where q: "if cq_Renew r then RequireActiveCert (cq_CN r) ''client'' (sv_store s) = Inr () else True"
    and n: "nameRe (cq_CN r)" "0 < cq_Days r" and cn: "ic_CN ic = cq_CN r"
    and c: "if cq_Renew r then (\<exists>st. ReplaceCert (pe_Now en) ?c (sv_store s) = Inr st
         \<and> RegenCRL_store S en (cq_Passphrase r) (s\<lparr>sv_fs := f, sv_store := st\<rparr>) = (Inr (), s'))
     else (\<exists>st. AddCert ?c (sv_store s) = Inr st \<and> s' = s\<lparr>sv_fs := f, sv_store := st\<rparr>)"
    using IssueClient_Inr [OF assms(2)] by metis
  have act: "?act ?c" using CertFrom_active [of ic en] cn by simp
  show ?thesis
  proof (cases "cq_Renew r")
    case True
    then obtain st where st: "ReplaceCert (pe_Now en) ?c (sv_store s) = Inr st"
      and g: "RegenCRL_store S en (cq_Passphrase r) (s\<lparr>sv_fs := f, sv_store := st\<rparr>) = (Inr (), s')"
      using c by auto
    have s': "sv_store s' = st" "crl_lists S en (sv_store s') (sv_fs s')"
      using RegenCRL_store_done [OF g] by (simp, blast)
    have "st_certs st = update_certs ?act (\<lambda>d. d\<lparr>ct_RevokedAt := Some (pe_Now en)\<rparr>) (st_certs (sv_store s)) @ [?c]"
      using st cn by (auto simp: ReplaceCert_def go_simps dest!: insert_cert_list)
    then have new: "filter ?act (st_certs st) = [?c]" using act by (simp add: update_none_active)
    have "filter ?act (st_certs (sv_store s)) \<noteq> []"
      using q True by (auto simp: RequireActiveCert_def split: if_splits)
    then obtain old where old: "old \<in> set (st_certs (sv_store s))" "?act old" by (auto simp: filter_empty_conv)
    have "revoked_at st (ct_Serial old) (pe_Now en)" by (rule ReplaceCert_Inr [OF st]) (use old cn in simp_all)
    then show ?thesis using n new s' True one_active [OF assms(1) old] by auto
  next
    case False
    then obtain st where st: "AddCert ?c (sv_store s) = Inr st" and s': "s' = s\<lparr>sv_fs := f, sv_store := st\<rparr>" using c by auto
    obtain cs where cs: "insert_cert ?c (st_certs (sv_store s)) = Inr cs" "st = (sv_store s)\<lparr>st_certs := cs\<rparr>"
      using st by (auto simp: AddCert_def go_simps)
    have "\<not> ?act d" if "d \<in> set (st_certs (sv_store s))" for d
      using cs(1) that cn by (auto simp: insert_cert_ok activeCert_def same_slot_def)
    then have "filter ?act (st_certs (sv_store s)) = []" by (simp add: filter_empty_conv)
    then show ?thesis using n act insert_cert_list [OF cs(1)] cs(2) s' False by simp
  qed
qed

lemma Issue_succeeds:
  assumes "lib_ok px" "lib_total px" "env_total en" "ca_ready px dir n p key s" "faultless s" "nameRe cn" "0 < days"
  shows "\<exists>ic. Issue px en dir kind cn days p s = (Inr ic, s) \<and> ic_CN ic = cn"
proof -
  obtain c where l: "loadCA px dir p s = (Inr (c, EcKey key), s)"
    using ca_ready_answers [OF assms(1,4)] assms(5) by (auto simp: faultless_def)
  obtain k serial where e: "pe_Key en = Some k" "pe_Serial en = Some serial" using assms(3) by (auto simp: env_total_def)
  obtain der keyDER where "px_create px (issue_template en kind cn serial days) c (px_public px k) (EcKey key) = Some der"
    "px_pkcs8 px k = Some keyDER"
    using assms(2) unfolding lib_total_def by (meson not_Some_eq)
  then show ?thesis
    using l e assms(6,7) by (simp add: Issue_def bindE_def pureE_def guardE_def orE_def Let_def CheckName_def)
qed

definition bob_request :: client_request where
  "bob_request = \<lparr>cq_CN = ''bob'', cq_Days = 30, cq_Passphrase = ''one'', cq_KeyPass = [], cq_Renew = False\<rparr>"

theorem issued_is_the_active_one_witness:
  "(let s' = snd (IssueClient demo_server demo_env bob_request \<lparr>sv_store = empty_store, sv_fs = demo_files, sv_world = ()\<rparr>) in
    map ct_CN (filter (activeCert ''client'' ''bob'') (st_certs (sv_store s'))) = [''bob''])"
proof -
  let ?s = "\<lparr>sv_store = empty_store, sv_fs = demo_files, sv_world = ()\<rparr>"
  obtain key where k: "ca_ready demo_lib ''/d'' ''Root'' ''one'' key demo_files" using demo_files_ready by blast
  have n: "nameRe ''bob''" by code_simp
  obtain ic where ic: "Issue demo_lib demo_env ''/d'' KindClient ''bob'' 30 ''one'' demo_files = (Inr ic, demo_files)" "ic_CN ic = ''bob''"
    using Issue_succeeds [OF demo_lib_ok demo_total(1,2) k demo_files_ready(2) n, of 30 KindClient] by auto
  have "insert_cert (CertFrom demo_env ic ''client'') [] = Inr [CertFrom demo_env ic ''client'']" by (simp add: insert_cert_def)
  then have "AddCert (CertFrom demo_env ic ''client'') empty_store = Inr (empty_store\<lparr>st_certs := [CertFrom demo_env ic ''client'']\<rparr>)"
    by (simp add: AddCert_def empty_store_def)
  then obtain s' where r: "IssueClient demo_server demo_env bob_request ?s = (Inr ic, s')"
    using ic by (simp add: IssueClient_def demo_server_def bob_request_def bindE_def pureE_def onFS_def encrypted_key_def
        onStore_def Let_def)
  have "certs_inv (st_certs (sv_store ?s))" by (simp add: empty_store_def certs_inv_def)
  from issued_is_the_active_one [OF this r] show ?thesis using r ic CertFrom_active [of ic demo_env]
    by (simp add: bob_request_def)
qed

end
