(* ===== verification/Api_Config_Props.thy ===== *)
theory Api_Config_Props
  imports Api_Config Api_Certs_Props Ovpnconf_Props
begin

section \<open>The stored configuration and server.conf\<close>

text \<open>
  What \<^verbatim>\<open>SetVPNConfig\<close> leaves behind on each outcome, and what a failed write of \<^verbatim>\<open>server.conf\<close> does to the
  attempts that follow it.
\<close>

lemma PreviewVPNConfig_cases:
  assumes "PreviewVPNConfig S cfg s = (r, s')"
  shows "s' = s \<and> (case r of Inl _ \<Rightarrow> \<not> ovpn_valid cfg
    | Inr pv \<Rightarrow> ovpn_valid cfg \<and> pv_Diff pv = Diff (Render (LoadConfig S (sv_store s))) (Render cfg)
        \<and> (pv_Changed pv \<longleftrightarrow> pv_Diff pv \<noteq> []))"
proof (cases "Validate_ovpn cfg")
  case (Inl e)
  then have "\<not> ovpn_valid cfg" using Validate_ovpn_ok [of cfg] by auto
  then show ?thesis using assms Inl by (auto simp: PreviewVPNConfig_def)
next
  case (Inr u)
  then have "ovpn_valid cfg" using Validate_ovpn_ok [of cfg] by auto
  then show ?thesis using assms Inr by (auto simp: PreviewVPNConfig_def Let_def)
qed

lemma PreviewVPNConfig_valid:
  "ovpn_valid cfg \<Longrightarrow> \<exists>pv. PreviewVPNConfig S cfg s = (Inr pv, s)"
  using PreviewVPNConfig_cases [of S cfg s] by (cases "PreviewVPNConfig S cfg s") (auto split: sum.splits)

text \<open>The three ways through \<^verbatim>\<open>SetVPNConfig\<close>.\<close>

lemma SetVPNConfig_cases:
  assumes "SetVPNConfig S now actor confPath cfg s = (r, s')"
  obtains (invalid) e where "r = Inl e" "s' = s" "\<not> ovpn_valid cfg"
  | (unchanged) "r = Inr []" "s' = s" "ovpn_valid cfg" "text_lines (Render (LoadConfig S (sv_store s))) = text_lines (Render cfg)"
  | (failed) e f where "r = Inl (OvpnErr e)" "WriteAtomic cfg confPath (sv_fs s) = (Inl e, f)"
      "s' = s\<lparr>sv_store := SaveConfig S cfg (sv_store s), sv_fs := f\<rparr>" "ovpn_valid cfg"
  | (written) f diff where "r = Inr diff" "diff \<noteq> []" "WriteAtomic cfg confPath (sv_fs s) = (Inr (), f)" "ovpn_valid cfg"
      "s' = s\<lparr>sv_fs := f, sv_store := Audit now actor ''config_change'' [] (SaveConfig S cfg (sv_store s))\<rparr>"
proof -
  obtain rp s1 where p: "PreviewVPNConfig S cfg s = (rp, s1)" by (metis surj_pair)
  note pc = PreviewVPNConfig_cases [OF p]
  show thesis
  proof (cases rp)
    case (Inl e)
    then show thesis using invalid [of e] assms p pc by (simp add: SetVPNConfig_def bindE_def)
  next
    case (Inr pv)
    have v: "ovpn_valid cfg" and d: "pv_Changed pv \<longleftrightarrow> pv_Diff pv \<noteq> []" and s1: "s1 = s"
      and e: "pv_Diff pv = Diff (Render (LoadConfig S (sv_store s))) (Render cfg)"
      using pc Inr by auto
    show thesis
    proof (cases "pv_Changed pv")
      case False
      then have "text_lines (Render (LoadConfig S (sv_store s))) = text_lines (Render cfg)" using d e Diff_empty by metis
      then show thesis using unchanged assms p Inr s1 v False by (simp add: SetVPNConfig_def bindE_def pureE_def)
    next
      case True
      obtain rw f where w: "WriteAtomic cfg confPath (sv_fs s) = (rw, f)" by (metis surj_pair)
      show thesis
      proof (cases rw)
        case (Inl e')
        then show thesis using failed [of e' f] assms p Inr s1 v True w
          by (simp add: SetVPNConfig_def bindE_def onStore_def onFS_def)
      next
        case rw: (Inr u)
        then show thesis using written [of "pv_Diff pv" f] assms p Inr s1 v True w d
          by (simp add: SetVPNConfig_def bindE_def onStore_def onFS_def audit_def pureE_def)
      qed
    qed
  qed
qed

text \<open>A write that failed is not made good by asking again: the setting already holds the new configuration, so
  the next attempt finds no change and leaves \<^verbatim>\<open>server.conf\<close> as it is.\<close>

lemma failed_config_write_sticks:
  assumes "SetVPNConfig S now actor confPath cfg s = (Inl (OvpnErr e), s')" "ovpn_valid cfg"
    and "LoadConfig S (SaveConfig S cfg (sv_store s)) = cfg"
  shows "SetVPNConfig S now' actor' confPath cfg s' = (Inr [], s')"
proof -
  have l: "LoadConfig S (sv_store s') = cfg"
    using assms(1)
  proof (cases rule: SetVPNConfig_cases)
    case (failed e' f)
    then show ?thesis using assms(3) by simp
  qed (use assms(2) in auto)
  obtain r t where r: "SetVPNConfig S now' actor' confPath cfg s' = (r, t)" by (metis surj_pair)
  obtain pv where p: "PreviewVPNConfig S cfg s' = (Inr pv, s')" using PreviewVPNConfig_valid [OF assms(2)] by blast
  have "pv_Diff pv = Diff (Render cfg) (Render cfg)" "pv_Changed pv \<longleftrightarrow> pv_Diff pv \<noteq> []"
    using PreviewVPNConfig_cases [OF p] l by simp_all
  then have "\<not> pv_Changed pv" by (simp add: Diff_empty)
  then show ?thesis using p by (simp add: SetVPNConfig_def bindE_def pureE_def)
qed

text \<open>C27: A configuration change that reports lines leaves the valid configuration both in the settings and, rendered, in
  \<^verbatim>\<open>server.conf\<close>, with one audit entry; one that reports none changed nothing and both render alike. A change that
  fails leaves \<^verbatim>\<open>server.conf\<close> as it was, and the settings too unless it was the write of the file that failed.\<close>

theorem config_and_file_agree:
  assumes "path_join (path_dir confPath) ''.server.conf.tmp'' \<noteq> confPath"
    and "SetVPNConfig S now actor confPath cfg s = (r, s')"
  shows "case r of
      Inr diff \<Rightarrow> ovpn_valid cfg \<and>
        (if diff = [] then s' = s \<and> text_lines (Render (LoadConfig S (sv_store s))) = text_lines (Render cfg)
         else sv_store s' = Audit now actor ''config_change'' [] (SaveConfig S cfg (sv_store s))
           \<and> fs_files (sv_fs s') confPath = Some (Render cfg))
    | Inl e \<Rightarrow> fs_files (sv_fs s') confPath = fs_files (sv_fs s) confPath
        \<and> (s' = s \<and> \<not> ovpn_valid cfg \<or> ovpn_valid cfg \<and> sv_store s' = SaveConfig S cfg (sv_store s))"
  using assms(2)
proof (cases rule: SetVPNConfig_cases)
  case (failed e f)
  then show ?thesis using WriteAtomic_outcome [OF assms(1) failed(2)] by simp
next
  case (written f diff)
  then show ?thesis using WriteAtomic_outcome [OF assms(1) written(3)] by simp
qed simp_all

definition demo_host :: "unit srv" where
  "demo_host = \<lparr>sv_store = empty_store, sv_fs = no_files, sv_world = ()\<rparr>"

theorem config_and_file_agree_witness:
  "(let s' = snd (SetVPNConfig demo_server 7 ''root'' ''/d/server.conf'' (ovpn_default\<lparr>oc_Port := 1195\<rparr>) demo_host) in
    fs_files (sv_fs s') ''/d/server.conf'' = Some (Render (ovpn_default\<lparr>oc_Port := 1195\<rparr>)))"
proof -
  let ?c = "ovpn_default\<lparr>oc_Port := 1195\<rparr>"
  have t: "path_join (path_dir ''/d/server.conf'') ''.server.conf.tmp'' \<noteq> ''/d/server.conf''" by code_simp
  have tj: "path_join (path_dir ''/d/server.conf'') ''.server.conf.tmp'' = ''/d/.server.conf.tmp''" by code_simp
  have v: "Validate_ovpn ?c = Inr ()" by code_simp
  have d: "Diff (Render (Default (\<lambda>_. []))) (Render ?c) \<noteq> []" by code_simp
  obtain f where w: "WriteAtomic ?c ''/d/server.conf'' no_files = (Inr (), f)"
    by (simp add: WriteAtomic_def v tj Let_def fs_write_file_def next_fault_def fs_write_open_def put_file_def fs_rename_def)
  have g: "GetSetting ''vpn_config'' empty_store = []" by (simp add: GetSetting_def empty_store_def)
  obtain diff s' where r: "SetVPNConfig demo_server 7 ''root'' ''/d/server.conf'' ?c demo_host = (Inr diff, s')" "diff \<noteq> []"
    using d w v g by (auto simp: SetVPNConfig_def bindE_def PreviewVPNConfig_def LoadConfig_def Load_def demo_server_def
        demo_host_def Let_def onStore_def onFS_def audit_def pureE_def)
  from config_and_file_agree [OF t r(1)] show ?thesis using r by simp
qed

end
