(* ===== verification/Api_Http_Props.thy ===== *)
theory Api_Http_Props
  imports Api_Http Auth_Props
begin

section \<open>Who may do what through the web API\<close>

text \<open>
  No handler runs for a request that does not carry a live session of an enabled user with the role the
  route asks for and, unless it is a GET, the CSRF token of its cookie. The facts about the table of
  routes are evaluated on the table itself: what is public, what a read-only user and an operator can reach.
\<close>

definition public_handlers :: "string list" where
  "public_handlers = [''handleHealthz'', ''handleLogin'']"

text \<open>The handlers an operator may run that are not reads of a read-only user.\<close>

definition operator_handlers :: "string list" where
  "operator_handlers = [''handleLogsDownload'', ''handleKill'', ''handleIssue'', ''handleRevoke'', ''handleExport'', ''handleCertDNS'']"

definition route_ok :: "route \<Rightarrow> bool" where
  "route_ok rt = ((if rt_role rt = [] then rt_handler rt \<in> set public_handlers
      else if rt_role rt = RoleReadonly then rt_method rt = ''GET'' \<or> rt_handler rt = ''handleLogout''
      else if rt_role rt = RoleOperator then rt_handler rt \<in> set operator_handlers
      else rt_role rt = RoleAdmin)
     \<and> (rt_role rt = [] \<or> rt_handler rt \<notin> set public_handlers))"

lemma routes_ok: "list_all route_ok routes"
  by code_simp

lemma dispatch_route:
  assumes "dispatch rq = Some rt"
  shows "rt \<in> set routes \<and> route_matches rq rt"
proof -
  obtain rts where "sort_key (\<lambda>rt. length (wildcards rt)) (filter (route_matches rq) routes) = rt # rts"
    using assms by (auto simp: dispatch_def split: list.splits)
  then have "rt \<in> set (sort_key (\<lambda>rt. length (wildcards rt)) (filter (route_matches rq) routes))" by simp
  then show ?thesis by (simp only: set_sort set_filter mem_Collect_eq)
qed

lemma dispatch_ok: "dispatch rq = Some rt \<Longrightarrow> route_ok rt"
  using dispatch_route routes_ok by (auto simp: list_all_iff)

text \<open>What the guard in front of a handler lets through.\<close>

definition csrf_ok :: "request \<Rightarrow> bool" where
  "csrf_ok rq = (rq_Method rq = ''GET'' \<or> (\<exists>v. rq_Csrf rq = Some v \<and> v \<noteq> [] \<and> rq_CsrfHeader rq = v))"

definition session_of_request :: "crypto \<Rightarrow> int \<Rightarrow> service \<Rightarrow> request \<Rightarrow> user \<Rightarrow> bool" where
  "session_of_request cr now a rq u = (\<exists>tok w s. rq_Session rq = Some tok \<and> tok \<noteq> []
     \<and> s \<in> set (st_sessions (sv_Store a)) \<and> se_Token s = hashToken cr tok \<and> now div second < se_Expires s
     \<and> w \<in> set (st_users (sv_Store a)) \<and> us_ID w = se_User s \<and> \<not> us_Disabled w
     \<and> us_Username u = us_Username w \<and> us_Role u = us_Role w)"

lemma Validate_token_Some:
  assumes "Validate_token cr now c a = Inr (Some u)" "rq_Session rq = Some c"
  shows "session_of_request cr now a rq u"
proof -
  have c: "c \<noteq> []" using assms(1) by (auto simp: Validate_token_def)
  then obtain w where w: "session_user (now div second) (hashToken cr c) (sv_Store a) = Some w" "scanUser (cr_aead cr) w = Inr u"
    using assms(1) by (auto simp: Validate_token_def SessionUser_def go_simps split: option.splits sum.splits)
  have "us_Username u = us_Username w \<and> us_Role u = us_Role w"
    using w(2) by (auto simp: scanUser_def split: sum.splits)
  moreover obtain s where "s \<in> set (st_sessions (sv_Store a))" "se_Token s = hashToken cr c" "se_User s = us_ID w"
      "now div second < se_Expires s"
    using session_user_Some [OF w(1)] by blast
  moreover have "w \<in> set (st_users (sv_Store a))" "\<not> us_Disabled w" using session_user_Some [OF w(1)] by simp_all
  ultimately show ?thesis using c assms(2) unfolding session_of_request_def
    by (intro exI [of _ c] exI [of _ w] exI [of _ s]) simp
qed

lemma wrap_Served:
  assumes "wrap cr now a required h rq = Served h' u'"
  shows "\<exists>u. u' = Some u \<and> h' = h \<and> session_of_request cr now a rq u \<and> csrf_ok rq \<and> Can (us_Role u) required"
  using assms Validate_token_Some
  by (auto simp: wrap_def csrf_ok_def split: option.splits sum.splits if_splits)

lemma rank_cases: "rank r = 0 \<or> rank r = 1 \<and> r = RoleOperator \<or> rank r = 2 \<and> r = RoleAdmin"
  by (simp add: rank_def)


definition dave :: user where
  "dave = \<lparr>us_ID = 1, us_Username = ''dave'', us_PassHash = [], us_Role = ''operator'', us_TOTP = [], us_Disabled = False,
     us_CreatedAt = 0\<rparr>"

definition dave_service :: service where
  "dave_service = NewService (empty_store\<lparr>st_users := [dave],
     st_sessions := [\<lparr>se_Token = hashToken toy_crypto ''t'', se_User = 1, se_Created = 0, se_Expires = 100\<rparr>]\<rparr>)"

definition kill_request :: request where
  "kill_request = \<lparr>rq_Method = ''POST'', rq_Path = [''api'', ''clients'', ''kill''], rq_RemoteAddr = ''10.0.0.9:55'',
     rq_Session = Some ''t'', rq_Csrf = Some ''x'', rq_CsrfHeader = ''x''\<rparr>"


end
