(* ===== verification/Api_Actions_Props.thy ===== *)
theory Api_Actions_Props
  imports Api_Actions Api_Upstream Api_Config_Props Api_Http_Props
begin

section \<open>Accountability, and an admin who stays\<close>

text \<open>
  The calls a user can make through the web API, as one datatype with one function that runs them. Two
  contracts are proved compositionally along the bodies of the actions: every action only adds
  audit entries, all under the name of the actor, and reports success without an entry only when it
  changed nothing; and whoever acts as an enabled admin still is one afterwards. The hosts file
  writer is an instance of the durable writes of \<open>Pki_Props\<close>.
\<close>

subsection \<open>The hosts file\<close>

lemma length_path_join_hosts: "length p < length (hosts_tmp p)"
proof (cases "rcut_c CHR ''/'' p")
  case None
  then show ?thesis by (simp add: hosts_tmp_def path_dir_def path_base_def path_join_def)
next
  case (Some ab)
  obtain a b where ab: "ab = (a, b)" by (cases ab)
  have "p = a @ CHR ''/'' # b" using Some ab by (simp add: rcut_c_Some)
  then show ?thesis using Some ab by (auto simp: hosts_tmp_def path_dir_def path_base_def path_join_def)
qed

lemma hosts_tmp_neq: "hosts_tmp p \<noteq> p"
  using length_path_join_hosts [of p] by auto

lemma bool_step_eq [go_step]:
  "bool_step f s = (Inr u, s') \<longleftrightarrow> f s = (True, s')" "bool_step f s = (Inl v, s') \<longleftrightarrow> f s = (False, s')"
  by (auto simp: bool_step_def split: prod.splits if_splits)

text \<open>The ways through \<^verbatim>\<open>WriteAtomicHosts\<close>: nothing to do, a failed write, a rename that fails or succeeds.\<close>

lemma WriteAtomicHosts_cases:
  assumes "WriteAtomicHosts p d s = (r, s')"
  obtains (same) "r = Inr ()" "fs_files s' = fs_files s" "fs_files s p = Some d"
  | (unwritten) s1 where "r = Inl ()" "fs_files s1 = fs_files s" "fs_write_file (hosts_tmp p) d s1 = (False, s')"
  | (renamed) s1 s2 ok where "r = (if ok then Inr () else Inl ())" "fs_files s1 = fs_files s"
      "fs_write_file (hosts_tmp p) d s1 = (True, s2)" "fs_rename (hosts_tmp p) p s2 = (ok, s')"
proof -
  obtain cur s1 where c: "fs_read_file p s = (cur, s1)" by (metis surj_pair)
  have s1: "fs_files s1 = fs_files s" "cur = None \<or> cur = fs_files s p" using fs_read_file_files [OF c] by simp_all
  show thesis
  proof (cases "cur = Some d")
    case True
    then show thesis using same assms c s1 by (auto simp: WriteAtomicHosts_def)
  next
    case False
    obtain ok s2 where w: "fs_write_file (hosts_tmp p) d s1 = (ok, s2)" by (metis surj_pair)
    obtain ok2 s3 where m: "fs_rename (hosts_tmp p) p s2 = (ok2, s3)" by (metis surj_pair)
    show thesis
    proof (cases ok)
      case True
      have "r = (if ok2 then Inr () else Inl ())" "s' = s3"
        using assms c False w m True by (auto simp: WriteAtomicHosts_def bindE_def bool_step_def)
      then show thesis using renamed [of ok2 s1 s2] s1(1) w m True by simp
    next
      case False2: False
      then show thesis using unwritten [of s1] assms c False s1(1) w
        by (auto simp: WriteAtomicHosts_def bindE_def bool_step_def)
    qed
  qed
qed

lemma WriteAtomicHosts_written:
  assumes "WriteAtomicHosts p d s = (Inr u, s')" shows "fs_files s' p = Some d"
  using assms
proof (cases rule: WriteAtomicHosts_cases)
  case (renamed s1 s2 ok)
  have "fs_files s2 (hosts_tmp p) = Some d" using fs_write_file_files [OF renamed(3)] by auto
  then show ?thesis using fs_rename_files [OF renamed(4)] renamed(1) by (auto split: if_splits)
qed simp_all

lemma fs_write_file_other: "fs_write_file q d s = (b, s1) \<Longrightarrow> x \<noteq> q \<Longrightarrow> fs_files s1 x = fs_files s x"
  using fs_write_file_files [of q d s b s1] by auto

lemma WriteAtomicHosts_refused:
  assumes "WriteAtomicHosts p d s = (Inl e, s')" shows "fs_files s' p = fs_files s p"
  using assms
proof (cases rule: WriteAtomicHosts_cases)
  case (unwritten s1)
  then show ?thesis using fs_write_file_other hosts_tmp_neq by metis
next
  case (renamed s1 s2 ok)
  then have "fs_files s' = fs_files s2" using fs_rename_files [OF renamed(4)] by (auto split: if_splits)
  then show ?thesis using fs_write_file_other [OF renamed(3)] renamed(2) hosts_tmp_neq by metis
qed simp_all

lemma WriteAtomicHosts_others:
  assumes "WriteAtomicHosts p d s = (r, s')" "q \<noteq> p" "q \<noteq> hosts_tmp p"
  shows "fs_files s' q = fs_files s q"
  using assms(1)
proof (cases rule: WriteAtomicHosts_cases)
  case (unwritten s1)
  then show ?thesis using fs_write_file_other assms(3) by metis
next
  case (renamed s1 s2 ok)
  then show ?thesis using fs_write_file_other fs_rename_other assms(2,3) by metis
qed simp_all

interpretation hosts_file: file_writer WriteAtomicHosts hosts_tmp
  by unfold_locales (fact WriteAtomicHosts_written WriteAtomicHosts_refused WriteAtomicHosts_others)+

subsection \<open>The calls\<close>

text \<open>The calls that can change something, with what the request names. \<open>run_call\<close> is the handler of each.\<close>

datatype api_call =
    CallKill string
  | CallCertDNS string bool
  | CallHosts string string
  | CallRotate string
  | CallAddUser string string string
  | CallPassword string string
  | CallDelete string
  | CallDisabled string bool
  | CallTOTPEnroll string
  | CallTOTPOff string
  | CallIssue issue_in
  | CallExport export_in
  | CallRevoke string string
  | CallRenew string int
  | CallConfig ovpn_config
  | CallDNS dns_config
  | CallUpAdd upstream
  | CallUpDelete string
  | CallUpDefault string
  | CallUpAssign string string bool
  | CallUpReconcile

text \<open>What the handlers depend on besides the server: the password policy, the draws, the log host, the QR encoder,
  whether upstreams are enabled.\<close>

record call_env =
  ce_policy :: policy
  ce_env :: pki_env
  ce_logs :: log_host
  ce_dec_log :: "string \<Rightarrow> log_config \<Rightarrow> log_config option"
  ce_qr :: "string \<Rightarrow> (nat \<times> (nat \<Rightarrow> nat \<Rightarrow> bool)) option"
  ce_secret :: "string option"
  ce_nonce :: string
  ce_upstreams :: bool

definition ignoring :: "('w, 'a) action \<Rightarrow> ('w, unit) action" where
  "ignoring m = bindE m (\<lambda>_. pureE (Inr ()))"

fun run_call :: "'w server \<Rightarrow> call_env \<Rightarrow> string \<Rightarrow> api_call \<Rightarrow> ('w, unit) action" where
  "run_call S E user (CallKill cn) = ignoring (handleKill S (pe_Now (ce_env E)) user cn)"
| "run_call S E user (CallCertDNS serial incl) = ignoring (SetCertDNS_api (pe_Now (ce_env E)) user serial incl)"
| "run_call S E user (CallHosts path content) = ignoring (SetCustomHosts (pe_Now (ce_env E)) user path content)"
| "run_call S E user (CallRotate dir) = ignoring (RotateLogs_api (ce_logs E) (ce_dec_log E) (sr_getenv S) (pe_Now (ce_env E)) user dir)"
| "run_call S E user (CallAddUser n p r) = ignoring (AddUser_api (ce_policy E) (pe_Now (ce_env E)) user n p r)"
| "run_call S E user (CallPassword n p) = ignoring (SetUserPassword_api (ce_policy E) (pe_Now (ce_env E)) user n p)"
| "run_call S E user (CallDelete n) = ignoring (handleUserDelete (pe_Now (ce_env E)) user n)"
| "run_call S E user (CallDisabled n b) = ignoring (handleUserDisabled (pe_Now (ce_env E)) user n b)"
| "run_call S E user (CallTOTPEnroll n) = ignoring (EnrollTOTP (ce_policy E) (ce_qr E) (ce_secret E) (ce_nonce E)
     (pe_Now (ce_env E)) user n (sr_DefaultRemote S))"
| "run_call S E user (CallTOTPOff n) = ignoring (DisableTOTP (ce_policy E) (pe_Now (ce_env E)) user n)"
| "run_call S E user (CallIssue inp) = ignoring (handleIssue S (ce_env E) user inp)"
| "run_call S E user (CallExport inp) = ignoring (handleExport S (ce_env E) user inp)"
| "run_call S E user (CallRevoke serial p) = ignoring (handleRevoke S (ce_env E) user serial p)"
| "run_call S E user (CallRenew p days) = ignoring (handleRenew S (ce_env E) user p days)"
| "run_call S E user (CallConfig cfg) = ignoring (SetVPNConfig S (pe_Now (ce_env E)) user (sr_ConfigPath S) cfg)"
| "run_call S E user (CallDNS cfg) = ignoring (SetDNSConfig S (pe_Now (ce_env E)) user cfg)"
| "run_call S E user (CallUpAdd u) = ignoring (AddUpstream S (pe_Now (ce_env E)) user (ce_upstreams E) u)"
| "run_call S E user (CallUpDelete i) = ignoring (DeleteUpstream S (pe_Now (ce_env E)) user (ce_upstreams E) i)"
| "run_call S E user (CallUpDefault i) = ignoring (SetDefaultUpstream S (pe_Now (ce_env E)) user (ce_upstreams E) i)"
| "run_call S E user (CallUpAssign cn i clear) = ignoring (AssignUpstream S (pe_Now (ce_env E)) user (ce_upstreams E)
     (sr_ConfigPath S) cn i clear)"
| "run_call S E user CallUpReconcile = ignoring (ReconcileUpstreams S (pe_Now (ce_env E)) user (ce_upstreams E))"

text \<open>The handler of a call, and the role its route asks for.\<close>

fun call_handler :: "api_call \<Rightarrow> string" where
  "call_handler (CallKill _) = ''handleKill''"
| "call_handler (CallCertDNS _ _) = ''handleCertDNS''"
| "call_handler (CallHosts _ _) = ''handleCustomHostsPut''"
| "call_handler (CallRotate _) = ''handleLogsRotate''"
| "call_handler (CallAddUser _ _ _) = ''handleUserAdd''"
| "call_handler (CallPassword _ _) = ''handleUserPassword''"
| "call_handler (CallDelete _) = ''handleUserDelete''"
| "call_handler (CallDisabled _ _) = ''handleUserDisabled''"
| "call_handler (CallTOTPEnroll _) = ''handleUserTOTPEnroll''"
| "call_handler (CallTOTPOff _) = ''handleUserTOTPOff''"
| "call_handler (CallIssue _) = ''handleIssue''"
| "call_handler (CallExport _) = ''handleExport''"
| "call_handler (CallRevoke _ _) = ''handleRevoke''"
| "call_handler (CallRenew _ _) = ''handleRenew''"
| "call_handler (CallConfig _) = ''handleVPNConfigPut''"
| "call_handler (CallDNS _) = ''handleDNSConfigSet''"
| "call_handler (CallUpAdd _) = ''handleUpstreamAdd''"
| "call_handler (CallUpDelete _) = ''handleUpstreamDelete''"
| "call_handler (CallUpDefault _) = ''handleUpstreamSetDefault''"
| "call_handler (CallUpAssign _ _ _) = ''handleUpstreamAssign''"
| "call_handler CallUpReconcile = ''handleUpstreamReconcile''"

definition handler_role :: "string \<Rightarrow> string" where
  "handler_role h = (case List.find (\<lambda>rt. rt_handler rt = h) routes of None \<Rightarrow> [] | Some rt \<Rightarrow> rt_role rt)"

definition required_role :: "api_call \<Rightarrow> string" where
  "required_role c = handler_role (call_handler c)"

lemma handler_roles:
  "handler_role ''handleKill'' = RoleOperator" "handler_role ''handleCertDNS'' = RoleOperator"
  "handler_role ''handleIssue'' = RoleOperator" "handler_role ''handleExport'' = RoleOperator"
  "handler_role ''handleRevoke'' = RoleOperator"
  "list_all (\<lambda>h. handler_role h = RoleAdmin) [''handleCustomHostsPut'', ''handleLogsRotate'', ''handleUserAdd'',
     ''handleUserPassword'', ''handleUserDelete'', ''handleUserDisabled'', ''handleUserTOTPEnroll'', ''handleUserTOTPOff'',
     ''handleRenew'', ''handleVPNConfigPut'', ''handleDNSConfigSet'', ''handleUpstreamAdd'', ''handleUpstreamDelete'',
     ''handleUpstreamSetDefault'', ''handleUpstreamAssign'', ''handleUpstreamReconcile'']"
  by code_simp+

lemma required_role_call:
  "required_role c = (case c of CallKill _ \<Rightarrow> RoleOperator | CallCertDNS _ _ \<Rightarrow> RoleOperator | CallIssue _ \<Rightarrow> RoleOperator
     | CallExport _ \<Rightarrow> RoleOperator | CallRevoke _ _ \<Rightarrow> RoleOperator | _ \<Rightarrow> RoleAdmin)"
  using handler_roles by (cases c) (simp_all only: required_role_def call_handler.simps api_call.case list.pred_inject)

subsection \<open>What holds along every call\<close>

lemma keepsE_if: "(b \<Longrightarrow> keepsE R m) \<Longrightarrow> (\<not> b \<Longrightarrow> keepsE R n) \<Longrightarrow> keepsE R (if b then m else n)"
  by simp

lemma keepsE_guard_then: "reflp R \<Longrightarrow> (\<not> b \<Longrightarrow> keepsE R (k ())) \<Longrightarrow> keepsE R (bindE (guardE b e) k)"
  by (auto simp: keepsE_def bindE_def guardE_def dest: reflpD)

text \<open>What an action of an operator keeps: a reflexive and transitive relation kept by every single effect that does
  not concern the accounts.\<close>

locale operator_effects =
  fixes R :: "'w srv \<Rightarrow> 'w srv \<Rightarrow> bool" and user :: string
  assumes rel_refl: "reflp R" and rel_trans: "transp R"
    and files: "R s (s\<lparr>sv_fs := f\<rparr>)"
    and workers: "R s (s\<lparr>sv_world := w\<rparr>)"
    and logged: "R s (s\<lparr>sv_store := Audit now user act detail (sv_store s)\<rparr>)"
    and certs: "R s (s\<lparr>sv_store := (sv_store s)\<lparr>st_certs := cs\<rparr>\<rparr>)"
    and setting: "R s (s\<lparr>sv_store := SetSetting key t (sv_store s)\<rparr>)"
begin

lemma refl_at: "R s s"
  using rel_refl by (rule reflpD)

lemma on_files: "keepsE R (onFS g m)"
  using files by (auto simp: keepsE_def onFS_def split: prod.splits sum.splits)

lemma on_query: "keepsE R (queryStore f)"
  using refl_at by (auto simp: keepsE_def queryStore_def split: sum.splits)

lemma on_workers: "keepsE R (onWorld m)"
  using workers by (auto simp: keepsE_def onWorld_def split: prod.splits sum.splits)

lemma on_log: "keepsE R (audit now user act detail)"
  using logged by (auto simp: keepsE_def audit_def)

lemma on_setting: "keepsE R (saveJSON enc key v)"
  using setting refl_at by (auto simp: keepsE_def saveJSON_def SaveJSON_def split: option.splits)

lemma on_store:
  assumes "\<And>s st. f (sv_store s) = Inr st \<Longrightarrow> R s (s\<lparr>sv_store := st\<rparr>)"
  shows "keepsE R (onStore f)"
  using assms refl_at by (auto simp: keepsE_def onStore_def split: sum.splits)

lemma on_certs:
  "keepsE R (onStore (AddCert c))" "keepsE R (onStore (ReplaceCert now c))"
  "keepsE R (onStore (\<lambda>st. Inr (SaveConfig S cfg st)))"
  by (rule on_store, auto simp: AddCert_def ReplaceCert_def SaveConfig_def certs setting go_simps)+

lemma on_steps:
  "keepsE R (revoke_row serial now)" "keepsE R (set_cert_dns serial incl)"
  "keepsE R (current_hosts path)" "keepsE R (applying S cfg)" "keepsE R (restartSessions S cn)" "keepsE R (PreviewVPNConfig S vcfg)"
  by (auto simp: keepsE_def revoke_row_def Revoke_def set_cert_dns_def SetCertDNS_def current_hosts_def applying_def
      restartSessions_def PreviewVPNConfig_def Let_def refl_at files workers certs split: prod.splits sum.splits option.splits if_splits)

lemmas shapes = keepsE_bind [OF rel_trans] keepsE_pure [OF rel_refl] keepsE_guard [OF rel_refl]
  keepsE_get [OF rel_refl] keepsE_map keepsE_if keepsE_case_prod keepsE_Let

lemmas effects = shapes on_files on_query on_workers on_log on_setting on_certs on_steps

lemma on_parts:
  "keepsE R (RegenCRL_store S en p)" "keepsE R (WriteServerCert en cp kp ic)" "keepsE R (SetManagementClientAuth S path b)"
  unfolding RegenCRL_store_def WriteServerCert_def SetManagementClientAuth_def by (intro effects)+

lemma on_issue: "keepsE R (IssueClient S en r)"
  unfolding IssueClient_def by (intro effects on_parts)

lemmas call_rules = effects on_parts on_issue

lemma on_operator_call:
  assumes "required_role c \<noteq> RoleAdmin"
  shows "keepsE R (run_call S E user c)"
  using assms
  by (cases c; simp only: required_role_call run_call.simps ignoring_def handleKill_def Kill_api_def SetCertDNS_api_def handleIssue_def
      handleExport_def ExportClient_def AuditClient_def handleRevoke_def RevokeCert_def api_call.case simp_thms;
      intro call_rules)

end

text \<open>An admin's calls also change accounts, but delete or disable only somebody else's.\<close>

locale call_effects = operator_effects R user for R :: "'w srv \<Rightarrow> 'w srv \<Rightarrow> bool" and user :: string +
  assumes added: "AddUser now n p r (sv_store s) = Inr (i, st) \<Longrightarrow> R s (s\<lparr>sv_store := st\<rparr>)"
    and password: "SetUserPassword n p (sv_store s) = Inr st \<Longrightarrow> R s (s\<lparr>sv_store := st\<rparr>)"
    and totp: "SetUserTOTP ae nonce n sec (sv_store s) = Inr st \<Longrightarrow> R s (s\<lparr>sv_store := st\<rparr>)"
    and deleted: "n \<noteq> user \<Longrightarrow> DeleteUser n (sv_store s) = Inr st \<Longrightarrow> R s (s\<lparr>sv_store := st\<rparr>)"
    and disabled: "\<not> (b \<and> n = user) \<Longrightarrow> SetUserDisabled n b (sv_store s) = Inr st \<Longrightarrow> R s (s\<lparr>sv_store := st\<rparr>)"
begin

lemma on_accounts:
  "keepsE R (onStore (SetUserPassword n p))" "keepsE R (onStore (SetUserTOTP ae nonce n sec))"
  "n \<noteq> user \<Longrightarrow> keepsE R (onStore (DeleteUser n))"
  by (rule on_store, auto simp: password totp deleted)+

lemma on_disable: "\<not> (b \<and> n = user) \<Longrightarrow> keepsE R (onStore (SetUserDisabled n b))"
  by (rule on_store) (rule disabled)

lemma on_added: "keepsE R (add_user now n p r)"
  by (auto simp: keepsE_def add_user_def refl_at added split: sum.splits)

lemma on_password_check: "keepsE R (checkPassword P now user n p)"
  unfolding checkPassword_def by (intro effects)

lemmas account_rules = call_rules on_accounts on_disable on_added on_password_check

lemma on_removal: "keepsE R (handleUserDelete now user n)" "keepsE R (handleUserDisabled now user n b)"
  unfolding handleUserDelete_def DeleteUser_api_def handleUserDisabled_def SetUserDisabled_api_def
  by (intro keepsE_guard_then [OF rel_refl] account_rules, assumption)+

lemma on_call: "keepsE R (run_call S E user c)"
proof (cases "required_role c = RoleAdmin")
  case False
  then show ?thesis by (rule on_operator_call)
next
  case True
  then show ?thesis
    by (cases c; simp only: required_role_call run_call.simps ignoring_def SetCustomHosts_def RotateLogs_api_def
        AddUser_api_def SetUserPassword_api_def EnrollTOTP_def DisableTOTP_def
        handleRenew_def RenewServer_def SetVPNConfig_def SetDNSConfig_def SaveDNSConfig_def AddUpstream_def DeleteUpstream_def
        SetDefaultUpstream_def AssignUpstream_def ReconcileUpstreams_def saveApplyUpstreams_def SaveUpstreamConfig_def applyAssign_def
        set_auth_def api_call.case list.inject char.inject list.distinct simp_thms;
        intro on_removal account_rules)
qed

end

subsection \<open>Audit entries are only added, under the actor's name\<close>

definition trail :: "string \<Rightarrow> 'w srv \<Rightarrow> 'w srv \<Rightarrow> bool" where
  "trail actor s s' = (\<exists>es. st_audit (sv_store s') = st_audit (sv_store s) @ es \<and> list_all (\<lambda>e. au_Actor e = actor) es)"

lemma trail_refl: "reflp (trail a)"
  by (simp add: reflp_def trail_def)

lemma trail_trans: "transp (trail a)"
  by (auto simp: transp_def trail_def)

lemma same_audit_trail: "st_audit (sv_store s') = st_audit (sv_store s) \<Longrightarrow> trail a s s'"
  by (simp add: trail_def)

text \<open>The store's operations leave the log alone.\<close>

lemma store_ops_audit:
  "AddUser now n p r st = Inr (i, st') \<Longrightarrow> st_audit st' = st_audit st"
  "SetUserPassword n p st = Inr st' \<Longrightarrow> st_audit st' = st_audit st"
  "DeleteUser n st = Inr st' \<Longrightarrow> st_audit st' = st_audit st"
  "SetUserDisabled n b st = Inr st' \<Longrightarrow> st_audit st' = st_audit st"
  "SetUserTOTP ae nonce n sec st = Inr st' \<Longrightarrow> st_audit st' = st_audit st"
  "SetCertDNS serial incl st = Inr (cn, ch, st') \<Longrightarrow> st_audit st' = st_audit st"
  by (auto simp: AddUser_ok SetUserPassword_def DeleteUser_def SetUserDisabled_def SetUserTOTP_def SetCertDNS_def mustAffect_ok
      split: option.splits if_splits)

interpretation tr: call_effects "trail user" user for user
proof unfold_locales
  show "trail user s (s\<lparr>sv_store := Audit now user act detail (sv_store s)\<rparr>)" for now act detail and s :: "'w srv"
    by (simp add: trail_def Audit_def)
qed (auto simp: trail_refl trail_trans SetSetting_def intro!: same_audit_trail dest: store_ops_audit)

subsection \<open>No change without an entry\<close>

definition grew :: "'w srv \<Rightarrow> 'w srv \<Rightarrow> bool" where
  "grew s s' = (length (st_audit (sv_store s)) < length (st_audit (sv_store s')))"

text \<open>\<open>quiet\<close>: the store, the contents of the files and the workers are as before.\<close>

definition quiet :: "'w srv \<Rightarrow> 'w srv \<Rightarrow> bool" where
  "quiet s s' = (sv_store s' = sv_store s \<and> fs_files (sv_fs s') = fs_files (sv_fs s) \<and> sv_world s' = sv_world s)"

definition grows :: "('w, 'a) action \<Rightarrow> bool" where
  "grows m = (\<forall>s v s'. m s = (Inr v, s') \<longrightarrow> grew s s')"

definition accounts :: "('w, 'a) action \<Rightarrow> bool" where
  "accounts m = (\<forall>s v s'. m s = (Inr v, s') \<longrightarrow> grew s s' \<or> quiet s s')"

lemma trail_length: "trail a s s' \<Longrightarrow> length (st_audit (sv_store s)) \<le> length (st_audit (sv_store s'))"
  by (auto simp: trail_def)

lemma grows_after: "keepsE (trail a) m \<Longrightarrow> (\<And>x. grows (k x)) \<Longrightarrow> grows (bindE m k)"
  unfolding grows_def grew_def bindE_Inr by (metis keepsED trail_length le_less_trans)

lemma grows_audit: "keepsE (trail a) (k ()) \<Longrightarrow> grows (bindE (audit now a act d) k)"
proof -
  assume k: "keepsE (trail a) (k ())"
  have "grew s s'" if "bindE (audit now a act d) k s = (Inr v, s')" for s v s'
  proof -
    have "k () (s\<lparr>sv_store := Audit now a act d (sv_store s)\<rparr>) = (Inr v, s')" using that by (simp add: bindE_def audit_def)
    from trail_length [OF keepsED [OF k this]] show ?thesis by (simp add: grew_def Audit_def)
  qed
  then show ?thesis by (simp add: grows_def)
qed

lemma grows_if: "grows m \<Longrightarrow> grows n \<Longrightarrow> grows (if b then m else n)"
  by simp

lemma grows_Let: "grows (f a) \<Longrightarrow> grows (Let a f)"
  by simp

lemma grows_map: "grows m \<Longrightarrow> grows (mapE g m)"
  by (simp add: grows_def mapE_Inr)

lemma grows_case_prod: "(\<And>x y. grows (f x y)) \<Longrightarrow> grows (case p of (x, y) \<Rightarrow> f x y)"
  by (cases p) simp

lemma ignoring_Inr: "ignoring m s = (Inr u, s') \<longleftrightarrow> (\<exists>v. m s = (Inr v, s'))"
  by (auto simp: ignoring_def go_step)

lemma accounts_grows: "grows m \<Longrightarrow> accounts (ignoring m)"
  by (auto simp: grows_def accounts_def ignoring_Inr)

lemma accounts_ignoring: "accounts m \<Longrightarrow> accounts (ignoring m)"
  by (auto simp: accounts_def ignoring_Inr)

lemma trail_user_ops: "keepsE (trail a) (onStore (DeleteUser n))" "keepsE (trail a) (onStore (SetUserDisabled n b))"
  by (auto simp: keepsE_def onStore_def intro!: same_audit_trail dest: store_ops_audit split: sum.splits)

lemmas grows_intros = trail_user_ops grows_audit grows_if grows_Let grows_map grows_case_prod tr.account_rules

lemma accounts_CertDNS: "accounts (SetCertDNS_api now user serial incl)"
proof -
  have "grew s s' \<or> quiet s s'" if a: "SetCertDNS_api now user serial incl s = (Inr v, s')" for s v s'
  proof -
    obtain cn ch s1 where c: "set_cert_dns serial incl s = (Inr (cn, ch), s1)"
      using a by (auto simp: SetCertDNS_api_def Let_def go_step)
    then obtain st where st: "SetCertDNS serial incl (sv_store s) = Inr (cn, ch, st)" "s1 = s\<lparr>sv_store := st\<rparr>"
      by (auto simp: set_cert_dns_def split: sum.splits)
    show ?thesis
    proof (cases ch)
      case True
      then show ?thesis using a c store_ops_audit(6) [OF st(1)] st(2)
        by (auto simp: SetCertDNS_api_def Let_def bindE_def audit_def pureE_def grew_def Audit_def)
    next
      case False
      then have "s' = s1" "st = sv_store s" using a c st(1)
        by (auto simp: SetCertDNS_api_def Let_def bindE_def pureE_def SetCertDNS_def split: option.splits if_splits)
      then show ?thesis using st(2) by (simp add: quiet_def)
    qed
  qed
  then show ?thesis unfolding accounts_def by blast
qed

lemma accounts_Hosts: "accounts (SetCustomHosts now user path content)"
proof -
  have "grew s s' \<or> quiet s s'" if a: "SetCustomHosts now user path content s = (Inr v, s')" for s v s'
  proof -
    obtain cur f where r: "fs_read_file path (sv_fs s) = (cur, f)" by (metis surj_pair)
    note f = fs_read_file_files [OF r]
    let ?cur = "case cur of None \<Rightarrow> [] | Some d \<Rightarrow> d"
    show ?thesis
    proof (cases "?cur = content")
      case True
      then have "s' = s\<lparr>sv_fs := f\<rparr>" using a r by (simp add: SetCustomHosts_def bindE_def current_hosts_def pureE_def)
      then show ?thesis using f by (simp add: quiet_def)
    next
      case False
      then show ?thesis using a r
        by (auto simp: SetCustomHosts_def bindE_def current_hosts_def pureE_def onFS_def audit_def grew_def Audit_def
            split: sum.splits prod.splits)
    qed
  qed
  then show ?thesis unfolding accounts_def by blast
qed

lemma accounts_Config: "accounts (SetVPNConfig S now user path cfg)"
proof -
  have "grew s s' \<or> quiet s s'" if a: "SetVPNConfig S now user path cfg s = (Inr v, s')" for s v s'
    using a by (cases rule: SetVPNConfig_cases) (auto simp: quiet_def grew_def SaveConfig_def SetSetting_def Audit_def)
  then show ?thesis unfolding accounts_def by blast
qed

lemma grows_before: "grows m \<Longrightarrow> (\<And>x. keepsE (trail a) (k x)) \<Longrightarrow> grows (bindE m k)"
  unfolding grows_def grew_def bindE_Inr by (metis keepsED trail_length less_le_trans)

lemma grows_Revoke: "grows (RevokeCert S en user serial p)"
  unfolding RevokeCert_def by (intro grows_intros | rule grows_after [where a = user])+

lemma grows_handleRevoke: "grows (handleRevoke S en user serial p)"
  unfolding handleRevoke_def
  by (rule grows_after [where a = user], intro tr.effects, rule grows_before [where a = user])
    (intro grows_intros grows_Revoke)+

lemma accounts_call: "accounts (run_call S E user c)"
proof (cases c)
  case (CallCertDNS serial incl)
  then show ?thesis by (simp add: accounts_ignoring accounts_CertDNS)
next
  case (CallHosts path content)
  then show ?thesis by (simp add: accounts_ignoring accounts_Hosts)
next
  case (CallConfig cfg)
  then show ?thesis by (simp add: accounts_ignoring accounts_Config)
next
  case (CallRevoke serial p)
  then show ?thesis by (simp add: accounts_grows grows_handleRevoke)
qed (simp only: run_call.simps handleKill_def Kill_api_def RotateLogs_api_def
      AddUser_api_def SetUserPassword_api_def handleUserDelete_def DeleteUser_api_def handleUserDisabled_def SetUserDisabled_api_def
      EnrollTOTP_def DisableTOTP_def handleIssue_def handleExport_def ExportClient_def AuditClient_def
      handleRenew_def RenewServer_def SetDNSConfig_def SaveDNSConfig_def AddUpstream_def DeleteUpstream_def
      SetDefaultUpstream_def AssignUpstream_def ReconcileUpstreams_def saveApplyUpstreams_def SaveUpstreamConfig_def applyAssign_def set_auth_def,
    rule accounts_grows, (intro grows_intros | rule grows_after [where a = user])+)+

subsection \<open>An admin is never the last to go\<close>

definition is_admin :: "store \<Rightarrow> string \<Rightarrow> bool" where
  "is_admin st n = (\<exists>u \<in> set (st_users st). us_Username u = n \<and> us_Role u = RoleAdmin \<and> \<not> us_Disabled u)"

lemma is_admin_update:
  assumes "is_admin st n"
    and "\<And>u. us_Username (f u) = us_Username u \<and> us_Role (f u) = us_Role u \<and> (us_Disabled (f u) \<longrightarrow> us_Disabled u \<or> m \<noteq> n)"
  shows "is_admin (update_users m f st) n"
proof -
  obtain u where u: "u \<in> set (st_users st)" "us_Username u = n" "us_Role u = RoleAdmin" "\<not> us_Disabled u"
    using assms(1) by (auto simp: is_admin_def)
  let ?v = "if us_Username u = m then f u else u"
  have "?v \<in> set (st_users (update_users m f st))" using u(1) by (auto simp: update_users_def)
  moreover have "us_Username ?v = n \<and> us_Role ?v = RoleAdmin \<and> \<not> us_Disabled ?v" using u assms(2) [of u] by auto
  ultimately show ?thesis unfolding is_admin_def by blast
qed

lemma is_admin_frame: "st_users st' = st_users st \<Longrightarrow> is_admin st' n = is_admin st n"
  by (simp add: is_admin_def)

lemma is_admin_certs: "is_admin (st\<lparr>st_certs := cs\<rparr>) n = is_admin st n" "is_admin (SetSetting k v st) n = is_admin st n"
  by (simp_all add: is_admin_def SetSetting_def)

lemma is_admin_ops:
  assumes "is_admin st a"
  shows "AddUser now n p r st = Inr (i, st') \<Longrightarrow> is_admin st' a"
    "SetUserPassword n p st = Inr st' \<Longrightarrow> is_admin st' a"
    "SetUserTOTP ae nonce n sec st = Inr st' \<Longrightarrow> is_admin st' a"
    "n \<noteq> a \<Longrightarrow> DeleteUser n st = Inr st' \<Longrightarrow> is_admin st' a"
    "\<not> (b \<and> n = a) \<Longrightarrow> SetUserDisabled n b st = Inr st' \<Longrightarrow> is_admin st' a"
proof -
  have s: "is_admin (end_sessions m st2) a = is_admin st2 a" for m st2 by (simp add: is_admin_def end_sessions_def)
  show "AddUser now n p r st = Inr (i, st') \<Longrightarrow> is_admin st' a"
    using assms by (auto simp: AddUser_ok is_admin_def)
  show "SetUserPassword n p st = Inr st' \<Longrightarrow> is_admin st' a"
    using is_admin_update [OF assms, of "\<lambda>u. u\<lparr>us_PassHash := p\<rparr>" n] by (auto simp: SetUserPassword_def mustAffect_ok s)
  show "SetUserTOTP ae nonce n sec st = Inr st' \<Longrightarrow> is_admin st' a"
    using is_admin_update [OF assms, of "\<lambda>u. u\<lparr>us_TOTP := encryptTOTP ae nonce sec\<rparr>" n] by (auto simp: SetUserTOTP_def mustAffect_ok)
  show "n \<noteq> a \<Longrightarrow> DeleteUser n st = Inr st' \<Longrightarrow> is_admin st' a"
    using assms by (auto simp: DeleteUser_def mustAffect_ok is_admin_def)
  show "\<not> (b \<and> n = a) \<Longrightarrow> SetUserDisabled n b st = Inr st' \<Longrightarrow> is_admin st' a"
    using is_admin_update [OF assms, of "\<lambda>u. u\<lparr>us_Disabled := b\<rparr>" n] by (auto simp: SetUserDisabled_def mustAffect_ok)
qed

interpretation usr: operator_effects "\<lambda>s s'. st_users (sv_store s') = st_users (sv_store s)" user for user
  by unfold_locales (auto simp: reflp_def transp_def Audit_def SetSetting_def)

definition stays_admin :: "string \<Rightarrow> 'w srv \<Rightarrow> 'w srv \<Rightarrow> bool" where
  "stays_admin user s s' = (is_admin (sv_store s) user \<longrightarrow> is_admin (sv_store s') user)"

interpretation adm: call_effects "stays_admin user" user for user
proof unfold_locales
  show "stays_admin user s (s\<lparr>sv_store := Audit now user act detail (sv_store s)\<rparr>)" for now act detail and s :: "'w srv"
    by (simp add: stays_admin_def Audit_def is_admin_def)
qed (auto simp: reflp_def transp_def stays_admin_def is_admin_certs intro: is_admin_ops)

text \<open>A user may make a call when the account is enabled and its role covers the route's. Calls that may
  not be made are answered 401 or 403 and change nothing.\<close>

definition may_call :: "store \<Rightarrow> string \<Rightarrow> api_call \<Rightarrow> bool" where
  "may_call st user c = (\<exists>u \<in> set (st_users st). us_Username u = user \<and> \<not> us_Disabled u \<and> Can (us_Role u) (required_role c))"

definition serve_call :: "'w server \<Rightarrow> string \<times> call_env \<times> api_call \<Rightarrow> 'w srv \<Rightarrow> 'w srv" where
  "serve_call S = (\<lambda>(user, E, c) s. if may_call (sv_store s) user c then snd (run_call S E user c s) else s)"

lemma serve_call_admin:
  assumes "is_admin (sv_store s) n" shows "\<exists>n'. is_admin (sv_store (serve_call S x s)) n'"
proof -
  obtain user E c where x: "x = (user, E, c)" by (cases x)
  obtain r s' where r: "run_call S E user c s = (r, s')" by (metis surj_pair)
  show ?thesis
  proof (cases "may_call (sv_store s) user c")
    case False
    then show ?thesis using assms x by (auto simp: serve_call_def)
  next
    case m: True
    show ?thesis
    proof (cases "required_role c = RoleAdmin")
      case True
      then have "is_admin (sv_store s) user" using m by (auto simp: may_call_def is_admin_def Can_def rank_def split: if_splits)
      then show ?thesis using keepsED [OF adm.on_call r] m r x by (auto simp: serve_call_def stays_admin_def)
    next
      case False
      have "st_users (sv_store s') = st_users (sv_store s)" using keepsED [OF usr.on_operator_call [OF False] r] .
      from is_admin_frame [OF this, of n] have "is_admin (sv_store s') n" using assms by simp
      then show ?thesis using m r x by (auto simp: serve_call_def)
    qed
  qed
qed

subsection \<open>Properties\<close>


definition demo_call_env :: call_env where
  "demo_call_env = \<lparr>ce_policy = \<lparr>po_crypto = toy_crypto, po_unicode = (\<lambda>_. Other),
     po_YOLO = False, po_salt = Some ''salt''\<rparr>,
     ce_env = demo_env, ce_logs = \<lparr>lh_format = itoa, lh_parse = atoi, lh_gzip = (@) ''gz'', lh_ls = (\<lambda>_. [])\<rparr>,
     ce_dec_log = (\<lambda>_ _. None), ce_qr = (\<lambda>_. None), ce_secret = Some ''s'', ce_nonce = ''n'', ce_upstreams = True\<rparr>"

text \<open>An admin cannot be deleted by the own account, but can be by another.\<close>

definition carol_server :: "unit srv" where
  "carol_server = \<lparr>sv_store = carol_store, sv_fs = no_files, sv_world = ()\<rparr>"


text \<open>C29: whatever sequence of calls signed-in users make through the web API, as long as each is allowed by its
  role, there is still an enabled admin afterwards if there was one: an admin can neither delete nor
  disable the own account, and nobody else can touch accounts.\<close>

theorem an_admin_remains:
  assumes "is_admin (sv_store s) n"
  shows "\<exists>n'. is_admin (sv_store (fold (serve_call S) calls s)) n'"
  using assms
proof (induction calls arbitrary: s n)
  case (Cons x calls)
  from serve_call_admin [OF Cons.prems] obtain n' where "is_admin (sv_store (serve_call S x s)) n'" by blast
  from Cons.IH [OF this] show ?case by simp
qed auto

theorem an_admin_remains_witness:
  "\<exists>n'. is_admin (sv_store (fold (serve_call demo_server) [(''carol'', demo_call_env, CallDelete ''carol''),
     (''carol'', demo_call_env, CallDisabled ''carol'' True), (''eve'', demo_call_env, CallDelete ''carol'')] carol_server)) n'"
proof (rule an_admin_remains)
  show "is_admin (sv_store carol_server) ''carol''" by (simp add: carol_server_def carol_store_def is_admin_def)
qed

end
