(* ===== verification/Telegram_Bot.thy ===== *)
theory Telegram_Bot
  imports Go_Encoding Auth
begin

section \<open>The Telegram Bot API client\<close>

text \<open>
  \<^verbatim>\<open>src/internal/telegram/bot.go\<close>: the types of the updates the bot receives, the calls it makes and
  the splitting of long messages. Every call but \<^verbatim>\<open>getMe\<close> and \<^verbatim>\<open>getUpdates\<close> is best-effort and its error is only logged, so
  such a call is a value, the method with its arguments; for these two the exchange is modelled over HTTP and JSON as parameters.
\<close>

record tg_user =
  tu_ID :: int
  tu_Username :: string

record tg_message =
  tm_Chat :: int
  tm_From :: tg_user
  tm_Text :: string

record tg_callback =
  tq_ID :: string
  tq_From :: tg_user
  tq_Data :: string
  tq_Message :: "tg_message option"

record tg_update =
  tp_UpdateID :: int
  tp_Message :: "tg_message option"
  tp_Callback :: "tg_callback option"

type_synonym inline_button = "string \<times> string"

datatype markup = NoMarkup | Inline "inline_button list list" | Reply "string list list"

abbreviation kb :: "inline_button list list \<Rightarrow> markup" where "kb rows \<equiv> Inline rows"
abbreviation btn :: "string \<Rightarrow> string \<Rightarrow> inline_button" where "btn label data \<equiv> (label, data)"
abbreviation rkb :: "string list list \<Rightarrow> markup" where "rkb rows \<equiv> Reply rows"

datatype bot_call =
    Send int string markup
  | AnswerCallback string
  | SetMyCommands "(string \<times> string) list"

subsection \<open>Calls with an answer\<close>

datatype bot_body = NoBody | UpdatesBody int int

record bot_envelope =
  ev_OK :: bool
  ev_Description :: string
  ev_Result :: string

text \<open>\<open>bh_post\<close> posts a body to a URL and gives the answer's, None when the request fails; \<open>bh_encode\<close>, \<open>bh_envelope\<close> and
  \<open>bh_updates\<close> are \<^verbatim>\<open>encoding/json\<close>.\<close>

record bot_http =
  bh_base :: string
  bh_encode :: "bot_body \<Rightarrow> string"
  bh_post :: "string \<Rightarrow> string \<Rightarrow> string option"
  bh_envelope :: "string \<Rightarrow> bot_envelope option"
  bh_updates :: "string \<Rightarrow> tg_update list option"

datatype bot_error = RequestFailed | BadAnswer | ApiRefused string

definition bot_request :: "bot_http \<Rightarrow> string \<Rightarrow> string \<Rightarrow> bot_body \<Rightarrow> (string \<Rightarrow> 'o option) \<Rightarrow> (bot_error, 'o) result" where
  "bot_request H token meth body out = (case bh_post H (bh_base H @ token @ ''/'' @ meth) (bh_encode H body) of
     None \<Rightarrow> Inl RequestFailed
   | Some answer \<Rightarrow> (case bh_envelope H answer of
       None \<Rightarrow> Inl BadAnswer
     | Some e \<Rightarrow> if \<not> ev_OK e then Inl (ApiRefused (''telegram: '' @ ev_Description e)) else orE (out (ev_Result e)) BadAnswer))"

definition getMe :: "bot_http \<Rightarrow> string \<Rightarrow> (bot_error, unit) result" where
  "getMe H token = bot_request H token ''getMe'' NoBody (\<lambda>_. Some ())"

definition getUpdates :: "bot_http \<Rightarrow> string \<Rightarrow> int \<Rightarrow> (bot_error, tg_update list) result" where
  "getUpdates H token offset = bot_request H token ''getUpdates'' (UpdatesBody offset 30) (bh_updates H)"

subsection \<open>Long messages\<close>

abbreviation maxMessage :: nat where "maxMessage \<equiv> 4096"

text \<open>\<^verbatim>\<open>utf8.RuneStart\<close>: not a continuation byte.\<close>

definition rune_start :: "char \<Rightarrow> bool" where
  "rune_start c = (\<not> cont_c (byte_of c))"

text \<open>From an index back to the start of a rune; None when the index would go below 0, where Go panics.\<close>

fun rune_back :: "string \<Rightarrow> nat \<Rightarrow> nat option" where
  "rune_back t 0 = (if rune_start (t ! 0) then Some 0 else None)"
| "rune_back t (Suc n) = (if rune_start (t ! Suc n) then Some (Suc n) else rune_back t n)"

definition cut_at :: "string \<Rightarrow> nat option" where
  "cut_at t = (case rcut_c LF (take maxMessage t) of
     Some (a, _) \<Rightarrow> if length a > 0 then Some (length a) else rune_back t maxMessage
   | None \<Rightarrow> rune_back t maxMessage)"

text \<open>The texts of the messages, the last one included. None: the loop panics, or cuts at 0 and so
  goes round for ever.\<close>

function chunks :: "string \<Rightarrow> string list option" where
  "chunks t = (if length t \<le> maxMessage then Some [t]
     else (case cut_at t of None \<Rightarrow> None
       | Some n \<Rightarrow> if n = 0 then None
           else map_option ((#) (take n t)) (chunks (trim_prefix (drop n t) NL))))"
  by pat_completeness auto
termination
  by (relation "measure length") (auto simp: trim_prefix_def)

declare chunks.simps [simp del]

text \<open>All but the last message go without markup.\<close>

definition sendMessage :: "int \<Rightarrow> string \<Rightarrow> markup \<Rightarrow> bot_call list option" where
  "sendMessage chatID t m =
     map_option (\<lambda>cs. map (\<lambda>c. Send chatID c NoMarkup) (butlast cs) @ [Send chatID (last cs) m]) (chunks t)"

subsection \<open>What is sent is the text\<close>

text \<open>\<open>runs_ok 0 t\<close>: no continuation byte at the start or after an ASCII byte and never more than three in a
  row, as in every valid UTF-8 text.\<close>

fun runs_ok :: "nat \<Rightarrow> string \<Rightarrow> bool" where
  "runs_ok k [] = True"
| "runs_ok k (c # cs) = (if rune_start c then runs_ok (if byte_of c < 0x80 then 0 else 3) cs else 0 < k \<and> runs_ok (k - 1) cs)"

lemma runs_ok_mono: "runs_ok k t \<Longrightarrow> k \<le> k' \<Longrightarrow> runs_ok k' t"
  by (induction t arbitrary: k k') (auto split: if_splits)

lemma runs_ok_take: "runs_ok k t \<Longrightarrow> runs_ok k (take n t)"
proof (induction t arbitrary: k n)
  case (Cons c t)
  then show ?case by (cases n) (auto split: if_splits)
qed simp

lemma runs_ok_drop: "runs_ok k t \<Longrightarrow> k \<le> 3 \<Longrightarrow> runs_ok 3 (drop n t)"
proof (induction n arbitrary: k t)
  case 0
  then show ?case using runs_ok_mono by simp
next
  case (Suc n)
  show ?case
  proof (cases t)
    case Nil
    then show ?thesis by simp
  next
    case (Cons c cs)
    let ?k = "if rune_start c then (if byte_of c < 0x80 then 0 else 3) else k - 1"
    have "runs_ok ?k cs" using Suc.prems(1) Cons by (auto split: if_splits)
    then show ?thesis using Suc.IH [of ?k cs] Suc.prems(2) Cons by (auto split: if_splits)
  qed
qed

lemma runs_ok_at_start: "runs_ok k (c # cs) \<Longrightarrow> rune_start c \<Longrightarrow> runs_ok 0 (c # cs)"
  by simp

lemma rune_back_le: "rune_back t n = Some m \<Longrightarrow> m \<le> n \<and> rune_start (t ! m)"
  by (induction n) (auto split: if_splits)

text \<open>From anywhere in the text a start is at most three bytes back.\<close>

lemma rune_back_near:
  assumes "runs_ok 0 t" "n < length t"
  shows "\<exists>m. rune_back t n = Some m \<and> n \<le> m + 3"
proof (rule ccontr)
  assume none: "\<not> ?thesis"
  have far: "(rune_back t n = rune_back t (n - j) \<and> (j \<noteq> 0 \<longrightarrow> \<not> rune_start (t ! (n - (j - 1)))))" if "j \<le> n" "j \<le> 4" for j
    using that
  proof (induction j)
    case (Suc j)
    then have e: "rune_back t n = rune_back t (n - j)" and s: "n - j = Suc (n - Suc j)" by auto
    show ?case
    proof (cases "rune_start (t ! (n - j))")
      case True
      then have "rune_back t n = Some (n - j)" using e s by simp
      then show ?thesis using none Suc.prems by auto
    next
      case False
      then show ?thesis using e s by auto
    qed
  qed simp
  show False
  proof (cases "n \<le> 3")
    case True
    have h: "\<not> rune_start (t ! 0)"
    proof
      assume "rune_start (t ! 0)"
      then have "rune_back t n = Some 0" using far [of n] True by (cases n) auto
      then show False using none True by auto
    qed
    then show False using assms by (cases t) auto
  next
    case False
    define u where "u = drop (n - 3) t"
    have c: "\<not> rune_start (u ! i)" if "i < 4" for i
    proof -
      have "u ! i = t ! (n - (4 - i - 1))" using that False assms(2) by (simp add: u_def add.commute)
      then show ?thesis using far [of "4 - i"] that False by (cases "4 - i = 0") auto
    qed
    have "runs_ok 3 u" unfolding u_def using runs_ok_drop [OF assms(1)] by simp
    moreover obtain a b c' d r where "u = a # b # c' # d # r"
    proof -
      have "4 \<le> length u" using False assms(2) by (simp add: u_def)
      then obtain a b c' d r where "u = a # b # c' # d # r"
        by (auto simp: numeral_eq_Suc Suc_le_length_iff)
      then show thesis using that by blast
    qed
    ultimately show False using c [of 0] c [of 1] c [of 2] c [of 3] by (auto simp: numeral_eq_Suc)
  qed
qed

lemma cut_at_ok:
  assumes "runs_ok 0 t" "maxMessage < length t"
  shows "\<exists>n. cut_at t = Some n \<and> 0 < n \<and> n \<le> maxMessage \<and> rune_start (t ! n)"
proof -
  have nl: "rune_start LF" by (simp add: rune_start_def cont_c_def byte_of_def)
  have rb: "\<exists>n. rune_back t maxMessage = Some n \<and> 0 < n \<and> n \<le> maxMessage \<and> rune_start (t ! n)"
    using rune_back_near [OF assms] rune_back_le by fastforce
  show ?thesis
  proof (cases "rcut_c LF (take maxMessage t)")
    case None
    then show ?thesis using rb by (simp add: cut_at_def)
  next
    case (Some ab)
    obtain a b where ab: "ab = (a, b)" by (cases ab)
    have s: "take maxMessage t = a @ LF # b" using Some ab by (simp add: rcut_c_Some)
    have "length (take maxMessage t) = maxMessage" using assms(2) by simp
    then have a: "length a < maxMessage" using s by simp
    have "t ! length a = take maxMessage t ! length a" using a by simp
    then have "t ! length a = LF" by (simp add: s)
    then show ?thesis using a Some ab rb nl by (auto simp: cut_at_def)
  qed
qed

text \<open>The pieces put together again, with what was dropped between them.\<close>

fun rejoin :: "string list \<Rightarrow> string list \<Rightarrow> string" where
  "rejoin [c] [] = c"
| "rejoin (c # cs) (s # ss) = c @ s @ rejoin cs ss"
| "rejoin _ _ = []"

definition sent_as :: "string \<Rightarrow> string list \<Rightarrow> bool" where
  "sent_as t cs = (list_all (\<lambda>c. length c \<le> maxMessage \<and> runs_ok 0 c) cs \<and>
     (\<exists>seps. Suc (length seps) = length cs \<and> set seps \<subseteq> {[], NL} \<and> t = rejoin cs seps))"

lemma chunks_total:
  assumes "runs_ok 0 t"
  shows "\<exists>cs. chunks t = Some cs \<and> sent_as t cs"
  using assms
proof (induction "length t" arbitrary: t rule: less_induct)
  case (less t)
  show ?case
  proof (cases "length t \<le> maxMessage")
    case True
    then have "chunks t = Some [t]" by (subst chunks.simps) simp
    moreover have "sent_as t [t]" using True less.prems unfolding sent_as_def by (auto intro: exI [of _ "[]"])
    ultimately show ?thesis by blast
  next
    case False
    obtain n where n: "cut_at t = Some n" "0 < n" "n \<le> maxMessage" "rune_start (t ! n)"
      using cut_at_ok [of t] less.prems False by auto
    let ?r = "drop n t"
    obtain c r where r: "?r = c # r" "rune_start c"
      using n False by (metis Cons_nth_drop_Suc le_less_linear le_trans linorder_le_less_linear not_less)
    then have ok: "runs_ok 0 ?r" using runs_ok_drop [OF less.prems, of n] by simp
    let ?u = "trim_prefix ?r NL"
    have u: "\<exists>sep \<in> {[], NL}. ?r = sep @ ?u" "runs_ok 0 ?u"
    proof -
      show "\<exists>sep \<in> {[], NL}. ?r = sep @ ?u" using r(1) by (auto simp: trim_prefix_def has_prefix_def)
      show "runs_ok 0 ?u" using ok r(1) by (auto simp: trim_prefix_def has_prefix_def byte_of_def rune_start_def cont_c_def)
    qed
    have "length ?u < length t" using n(2) False by (auto simp: trim_prefix_def)
    from less.hyps [OF this u(2)] obtain cs where cs: "chunks ?u = Some cs" "sent_as ?u cs" by blast
    then obtain seps where seps: "Suc (length seps) = length cs" "set seps \<subseteq> {[], NL}" "?u = rejoin cs seps"
      by (auto simp: sent_as_def)
    obtain sep where sep: "sep \<in> {[], NL}" "?r = sep @ ?u" using u(1) by blast
    have "t = take n t @ sep @ rejoin cs seps" using sep(2) seps(3) by (metis append_take_drop_id)
    then have "t = rejoin (take n t # cs) (sep # seps)" by simp
    moreover have "length (take n t) \<le> maxMessage" "runs_ok 0 (take n t)" using n(3) runs_ok_take [OF less.prems] by simp_all
    ultimately have "sent_as t (take n t # cs)" using cs(2) seps sep(1) unfolding sent_as_def by (auto intro!: exI [of _ "sep # seps"])
    moreover have "chunks t = Some (take n t # cs)" using False n cs(1) by (subst chunks.simps) simp
    ultimately show ?thesis by blast
  qed
qed

end
