(* ===== verification/Telegram.thy ===== *)
theory Telegram
  imports Telegram_Bot Control Store
begin

section \<open>The Telegram poller\<close>

text \<open>
  \<^verbatim>\<open>src/internal/telegram/poller.go\<close>: the settings of the bot, who is obeyed, what each command does,
  the notifications and the lifecycle of the polling goroutine. The state an update is handled in is the
  store and the world \<open>'w\<close> of the workers; the calls to Telegram are collected in order. A Go panic in
  the goroutine, which would end the process, is None.
\<close>

abbreviation keyToken :: string where "keyToken \<equiv> ''telegram_bot_token''"
abbreviation keyAdmin :: string where "keyAdmin \<equiv> ''telegram_admin''"
abbreviation keyChat :: string where "keyChat \<equiv> ''telegram_chat_id''"

definition notifyActions :: "string list" where
  "notifyActions = [''revoke'', ''user_add'', ''user_del'', ''ca_rotate'', ''renew_ca'']"

text \<open>\<open>be_vpn\<close> and \<open>be_dns\<close> are the workers, \<open>be_Status\<close> the management client's \<^verbatim>\<open>Status\<close>, \<open>be_ca\<close> the CA
  certificate's name and expiry, \<open>be_date\<close> prints a date as \<^verbatim>\<open>2006-01-02\<close> in the local time zone, \<open>be_now\<close> is in
  nanoseconds; \<open>be_fold\<close> is Unicode's simple case folding outside ASCII.\<close>

record 'w bot_env =
  be_vpn :: "'w lifecycle"
  be_dns :: "'w lifecycle"
  be_Status :: "'w \<Rightarrow> vpn_client list option"
  be_ca :: "(string \<times> int) option"
  be_now :: int
  be_started :: int
  be_date :: "int \<Rightarrow> string"
  be_fold :: "int \<Rightarrow> int"

definition isNumericID :: "string \<Rightarrow> bool" where
  "isNumericID s = (atoi s \<noteq> None)"

subsection \<open>Who is obeyed\<close>

text \<open>\<^verbatim>\<open>strings.EqualFold\<close>.\<close>

definition fold_rune :: "(int \<Rightarrow> int) \<Rightarrow> int \<Rightarrow> int" where
  "fold_rune uni r = (if 65 \<le> r \<and> r \<le> 90 then r + 32 else if r < 128 then r else uni r)"

definition equal_fold :: "(int \<Rightarrow> int) \<Rightarrow> string \<Rightarrow> string \<Rightarrow> bool" where
  "equal_fold uni s t = (map (fold_rune uni) (runes (map byte_of s)) = map (fold_rune uni) (runes (map byte_of t)))"

definition matches :: "(int \<Rightarrow> int) \<Rightarrow> string \<Rightarrow> tg_user \<Rightarrow> bool" where
  "matches uni admin u = (case atoi admin of
     Some i \<Rightarrow> tu_ID u = i
   | None \<Rightarrow> tu_Username u \<noteq> [] \<and> equal_fold uni (trim_prefix admin ''@'') (tu_Username u))"

text \<open>None: a callback whose message is absent is dereferenced.\<close>

definition senderOf :: "tg_update \<Rightarrow> (tg_user \<times> int) option" where
  "senderOf u = (case tp_Callback u of
     Some q \<Rightarrow> map_option (\<lambda>m. (tq_From q, tm_Chat m)) (tq_Message q)
   | None \<Rightarrow> (case tp_Message u of
       Some m \<Rightarrow> Some (tm_From m, tm_Chat m)
     | None \<Rightarrow> Some (\<lparr>tu_ID = 0, tu_Username = []\<rparr>, 0)))"

subsection \<open>Reports\<close>

definition resultText :: "string \<Rightarrow> (ctl_error, unit) result \<Rightarrow> string" where
  "resultText ok r = (case r of Inl err \<Rightarrow> u8 [0xE2, 0x9A, 0xA0, 0xEF, 0xB8, 0x8F] @ '' '' @ err_text err | Inr _ \<Rightarrow> ok)"

text \<open>\<^verbatim>\<open>Round(time.Second).String()\<close> of nanoseconds.\<close>

definition round_seconds :: "int \<Rightarrow> int" where
  "round_seconds d = (if d < 0 then - ((- d + second div 2) div second) else (d + second div 2) div second)"

definition seconds_str :: "int \<Rightarrow> string" where
  "seconds_str s = (let a = \<bar>s\<bar>; h = a div 3600; m = a div 60 mod 60 in
     (if s < 0 then ''-'' else [])
     @ (if h > 0 then itoa h @ ''h'' else [])
     @ (if a \<ge> 60 then itoa m @ ''m'' else [])
     @ itoa (a mod 60) @ ''s'')"

text \<open>Since a start, None standing for the zero time, which is more than the greatest duration ago.\<close>

definition since :: "int \<Rightarrow> int option \<Rightarrow> string" where
  "since now t = (case t of None \<Rightarrow> ''2562047h47m16.854775807s'' | Some s \<Rightarrow> seconds_str (round_seconds (now - s)))"

definition vpnLine :: "'w bot_env \<Rightarrow> 'w \<Rightarrow> string" where
  "vpnLine E w = (let pid = lc_Pid (be_vpn E) w in
     if pid = 0 then u8 [0xF0, 0x9F, 0x94, 0xB4] @ '' vpn down''
     else u8 [0xF0, 0x9F, 0x9F, 0xA2] @ '' vpn up (pid '' @ itoa pid @ '', up '' @ since (be_now E) (lc_StartedAt (be_vpn E) w) @ '') ''
       @ u8 [0xC2, 0xB7] @ '' '' @ nat_str (case be_Status E w of None \<Rightarrow> 0 | Some cl \<Rightarrow> length cl) @ '' client(s) connected'')"

definition dnsLine :: "'w bot_env \<Rightarrow> 'w \<Rightarrow> string" where
  "dnsLine E w = (let pid = lc_Pid (be_dns E) w in
     if pid \<noteq> 0 then u8 [0xF0, 0x9F, 0x9F, 0xA2] @ '' dns up (pid '' @ itoa pid @ '', up '' @ since (be_now E) (lc_StartedAt (be_dns E) w) @ '')''
     else u8 [0xF0, 0x9F, 0x94, 0xB4] @ '' dns down'')"

definition certLine :: "'w bot_env \<Rightarrow> store \<Rightarrow> string" where
  "certLine E st = (case CertCounts (be_now E) (AllCerts (be_ca E) st) of (live, soon) \<Rightarrow>
     if soon = 0 then u8 [0xF0, 0x9F, 0x93, 0x9C] @ '' '' @ itoa live @ '' cert(s)''
     else u8 [0xF0, 0x9F, 0x93, 0x9C] @ '' '' @ itoa live @ '' cert(s) '' @ u8 [0xC2, 0xB7] @ '' '' @ itoa soon
       @ '' expiring '' @ u8 [0xE2, 0x89, 0xA4] @ itoa ExpiryWarnDays @ ''d'')"

definition certStatusSections :: "(string \<times> string) list" where
  "certStatusSections = [(''expiring'', u8 [0xE2, 0x8F, 0xB3] @ '' Expiring''), (''expired'', u8 [0xE2, 0x9D, 0x8C] @ '' Expired''),
     (''revoked'', u8 [0xF0, 0x9F, 0x9A, 0xAB] @ '' Revoked''), (''valid'', u8 [0xE2, 0x9C, 0x85] @ '' Valid'')]"

text \<open>Whole days: an expiring certificate has not expired yet, an expired one is past its end.\<close>

definition certDetail :: "'w bot_env \<Rightarrow> cert \<Rightarrow> string" where
  "certDetail E c = (let s = Status (be_now E) c; left = ct_NotAfter c * second - be_now E in
     if s = ''expiring'' then itoa (left div (86400 * second)) @ ''d left''
     else if s = ''expired'' then ''expired '' @ itoa (- left div (86400 * second)) @ ''d ago''
     else if s = ''revoked'' then ''revoked''
     else ''until '' @ be_date E (ct_NotAfter c))"

definition cert_row :: "'w bot_env \<Rightarrow> cert \<Rightarrow> string" where
  "cert_row E c = NL @ ''  '' @ u8 [0xC2, 0xB7] @ '' '' @ ct_CN c @ '' ('' @ ct_Kind c @ '') '' @ u8 [0xE2, 0x80, 0x94] @ '' '' @ certDetail E c"

text \<open>Certificates of one status are listed by their expiry; for equal ones the library's order is not specified and the
  list's is taken.\<close>

definition cert_section :: "'w bot_env \<Rightarrow> cert list \<Rightarrow> string \<times> string \<Rightarrow> string" where
  "cert_section E certs sec = (let g = sort_key ct_NotAfter (filter (\<lambda>c. Status (be_now E) c = fst sec) certs) in
     if g = [] then [] else NL @ snd sec @ '' ('' @ nat_str (length g) @ '')'' @ concat (map (cert_row E) g))"

definition certsText :: "'w bot_env \<Rightarrow> store \<Rightarrow> string" where
  "certsText E st = (let certs = AllCerts (be_ca E) st in
     u8 [0xF0, 0x9F, 0x93, 0x9C] @ '' Certificates ('' @ nat_str (length certs) @ '' total)''
     @ concat (map (cert_section E certs) certStatusSections))"

definition statusText :: "'w bot_env \<Rightarrow> store \<Rightarrow> 'w \<Rightarrow> string" where
  "statusText E st w = vpnLine E w @ NL @ dnsLine E w @ NL @ certLine E st @ NL
     @ ''ovcp up '' @ since (be_now E) (Some (be_started E))"

subsection \<open>Commands\<close>

definition lblStart :: string where "lblStart = u8 [0xE2, 0x96, 0xB6] @ '' start''"
definition lblStop :: string where "lblStop = u8 [0xE2, 0x8F, 0xB9] @ '' stop''"
definition lblRestart :: string where "lblRestart = u8 [0xF0, 0x9F, 0x94, 0x84] @ '' restart''"
definition lblReconnect :: string where "lblReconnect = u8 [0xF0, 0x9F, 0x94, 0x8C] @ '' reconnect''"
definition lblStatus :: string where "lblStatus = u8 [0xF0, 0x9F, 0x93, 0x8A] @ '' status''"
definition lblDNS :: string where "lblDNS = u8 [0xF0, 0x9F, 0x8C, 0x90] @ '' dns''"
definition lblCerts :: string where "lblCerts = u8 [0xF0, 0x9F, 0x93, 0x9C] @ '' certs''"

definition opsKeyboard :: markup where
  "opsKeyboard = rkb [[lblStart, lblStop], [lblRestart, lblReconnect], [lblStatus], [lblDNS], [lblCerts]]"

definition dnsKeyboard :: markup where
  "dnsKeyboard = kb [[btn ''start'' ''dns_start'', btn ''stop'' ''dns_stop'', btn ''restart'' ''dns_restart'']]"

definition confirm :: "string \<Rightarrow> string \<Rightarrow> markup" where
  "confirm label data = kb [[btn label data, btn ''cancel'' ''cancel'']]"

definition botCommands :: "(string \<times> string) list" where
  "botCommands = [(''status'', ''full status: vpn, dns, certs''), (''menu'', ''hand out the control-panel keyboard''),
     (''start'', ''bring the tunnel up''), (''stop'', ''bring it down (asks first)''), (''restart'', ''full bounce (asks first)''),
     (''reconnect'', ''SIGUSR1: renegotiate, no restart''), (''dns'', ''dnsmasq status + start|stop|restart''),
     (''certs'', ''list certs: expiring, expired, revoked, valid'')]"

text \<open>The arguments of the message a command is answered with, and the world after its operation.\<close>

definition answer_op :: "string \<Rightarrow> ('w \<Rightarrow> (ctl_error, unit) result \<times> 'w) \<Rightarrow> 'w \<Rightarrow> (string \<times> markup) option \<times> 'w" where
  "answer_op ok oper w = (case oper w of (r, w1) \<Rightarrow> (Some (resultText ok r, NoMarkup), w1))"

definition normal_cmd :: "string \<Rightarrow> string" where
  "normal_cmd cmd = (case cut_prefix cmd ''/dns '' of None \<Rightarrow> cmd | Some arg \<Rightarrow> ''dns_'' @ trim_space arg)"

definition named :: "string \<Rightarrow> string \<Rightarrow> string \<Rightarrow> bool" where
  "named cmd name label = (cmd = ''/'' @ name \<or> cmd = name \<or> cmd = label)"

definition command_answer :: "'w bot_env \<Rightarrow> string \<Rightarrow> store \<Rightarrow> 'w \<Rightarrow> (string \<times> markup) option \<times> 'w" where
  "command_answer E cmd st w =
    (if named cmd ''status'' lblStatus then (Some (statusText E st w, NoMarkup), w)
     else if cmd = ''/menu'' \<or> cmd = ''menu'' then (Some (''ovcp control panel:'', opsKeyboard), w)
     else if named cmd ''start'' lblStart then answer_op (u8 [0xF0, 0x9F, 0x9F, 0xA2] @ '' up.'') (lc_Start (be_vpn E)) w
     else if named cmd ''stop'' lblStop
       then (Some (''stop the tunnel? every client drops.'', confirm ''yes, stop'' ''vpn_stop_confirm''), w)
     else if named cmd ''restart'' lblRestart
       then (Some (''restart? full bounce, clients briefly drop.'', confirm ''yes, restart'' ''vpn_restart_confirm''), w)
     else if named cmd ''reconnect'' lblReconnect
       then answer_op (u8 [0xF0, 0x9F, 0x94, 0x8C] @ '' reconnect signal sent (SIGUSR1).'') (lc_Reconnect (be_vpn E)) w
     else if cmd = ''vpn_stop_confirm'' then answer_op (u8 [0xF0, 0x9F, 0x94, 0xB4] @ '' down.'') (lc_Stop (be_vpn E)) w
     else if cmd = ''vpn_restart_confirm'' then answer_op (u8 [0xF0, 0x9F, 0x94, 0x84] @ '' restarted.'') (lc_Restart (be_vpn E)) w
     else if named cmd ''dns'' lblDNS then (Some (dnsLine E w, dnsKeyboard), w)
     else if named cmd ''certs'' lblCerts then (Some (certsText E st, NoMarkup), w)
     else if cmd = ''dns_start'' then answer_op (u8 [0xF0, 0x9F, 0x9F, 0xA2] @ '' dns up.'') (lc_Start (be_dns E)) w
     else if cmd = ''dns_stop''
       then (Some (''stop dns? clients stop resolving internal names.'', confirm ''yes, stop'' ''dns_stop_confirm''), w)
     else if cmd = ''dns_restart''
       then (Some (''restart dns? full bounce, clients briefly can't resolve.'', confirm ''yes, restart'' ''dns_restart_confirm''), w)
     else if cmd = ''dns_stop_confirm'' then answer_op (u8 [0xF0, 0x9F, 0x94, 0xB4] @ '' dns down.'') (lc_Stop (be_dns E)) w
     else if cmd = ''dns_restart_confirm'' then answer_op (u8 [0xF0, 0x9F, 0x94, 0x84] @ '' dns restarted.'') (lc_Restart (be_dns E)) w
     else if cmd = ''cancel'' then (Some (''cancelled.'', NoMarkup), w)
     else (None, w))"

definition handleCommand :: "'w bot_env \<Rightarrow> int \<Rightarrow> string \<Rightarrow> store \<Rightarrow> 'w \<Rightarrow> (bot_call list \<times> 'w) option" where
  "handleCommand E chatID cmd st w = (case command_answer E (normal_cmd cmd) st w of
     (None, w1) \<Rightarrow> Some ([], w1)
   | (Some (t, m), w1) \<Rightarrow> map_option (\<lambda>calls. (calls, w1)) (sendMessage chatID t m))"

subsection \<open>An update\<close>

record 'w bot_state =
  bt_store :: store
  bt_world :: 'w
  bt_calls :: "bot_call list"

definition run_command :: "'w bot_env \<Rightarrow> int \<Rightarrow> string \<Rightarrow> bot_call list \<Rightarrow> 'w bot_state \<Rightarrow> 'w bot_state option" where
  "run_command E chatID cmd first s = map_option
     (\<lambda>(calls, w1). s\<lparr>bt_world := w1, bt_calls := bt_calls s @ first @ calls\<rparr>)
     (handleCommand E chatID cmd (bt_store s) (bt_world s))"

definition handle_update :: "'w bot_env \<Rightarrow> string \<Rightarrow> tg_update \<Rightarrow> 'w bot_state \<Rightarrow> 'w bot_state option" where
  "handle_update E admin u s = (case senderOf u of
     None \<Rightarrow> None
   | Some (sender, chatID) \<Rightarrow>
       if tu_ID sender = 0 then Some s
       else if \<not> matches (be_fold E) admin sender then Some s
       else (let s1 = s\<lparr>bt_store := SetSetting keyChat (itoa chatID) (bt_store s)\<rparr> in
         case tp_Callback u of
           Some q \<Rightarrow> run_command E chatID (tq_Data q) [AnswerCallback (tq_ID q)] s1
         | None \<Rightarrow> (case tp_Message u of
             Some m \<Rightarrow> run_command E chatID (trim_space (tm_Text m)) [] s1
           | None \<Rightarrow> Some s1)))"

fun handle_updates :: "'w bot_env \<Rightarrow> string \<Rightarrow> tg_update list \<Rightarrow> 'w bot_state \<Rightarrow> 'w bot_state option" where
  "handle_updates E admin [] s = Some s"
| "handle_updates E admin (u # us) s = Option.bind (handle_update E admin u s) (handle_updates E admin us)"

subsection \<open>Settings\<close>

definition chatIDFor :: "store \<Rightarrow> string \<Rightarrow> int option" where
  "chatIDFor st admin = (case atoi admin of Some i \<Rightarrow> Some i
   | None \<Rightarrow> if GetSetting keyChat st = [] then None else atoi (GetSetting keyChat st))"

text \<open>\<open>valid\<close> is \<^verbatim>\<open>getMe\<close>'s answer for the token.\<close>

definition SetToken :: "(string \<Rightarrow> bool) \<Rightarrow> string \<Rightarrow> store \<Rightarrow> store option" where
  "SetToken valid token st = (if \<not> valid token then None
     else (let old = GetSetting keyToken st; st1 = SetSetting keyToken token st in
       if token = old then Some st1 else Some (SetSetting keyChat [] st1)))"

definition warnOldAdmin :: "store \<Rightarrow> string \<Rightarrow> string \<Rightarrow> bot_call list option" where
  "warnOldAdmin st old newAdmin = (case chatIDFor st old of
     None \<Rightarrow> Some []
   | Some chatID \<Rightarrow> if old = [] \<or> GetSetting keyToken st = [] then Some []
       else (let t = u8 [0xF0, 0x9F, 0x9A, 0xA8] @ '' admin identity changed to '' @ newAdmin @ '' '' @ u8 [0xE2, 0x80, 0x94]
           @ '' if this wasn't you, investigate now.'' in
         sendMessage chatID t NoMarkup))"

definition SetAdmin :: "string \<Rightarrow> store \<Rightarrow> (bot_call list \<times> store) option" where
  "SetAdmin admin st = (let old = GetSetting keyAdmin st; st1 = SetSetting keyAdmin admin st in
     if admin = old then Some ([], st1)
     else map_option (\<lambda>calls. (calls, SetSetting keyChat [] st1)) (warnOldAdmin st1 old admin))"

definition ConfigStatus :: "store \<Rightarrow> telegram_status" where
  "ConfigStatus st = \<lparr>tg_Running = False, tg_TokenSet = (GetSetting keyToken st \<noteq> []), tg_Admin = GetSetting keyAdmin st,
     tg_ChatLinked = (isNumericID (GetSetting keyAdmin st) \<or> GetSetting keyChat st \<noteq> []), tg_Changed = False\<rparr>"

subsection \<open>Notifications\<close>

definition Notify :: "string \<Rightarrow> store \<Rightarrow> bot_call list option" where
  "Notify t st = (let admin = GetSetting keyAdmin st in
     if admin = [] \<or> GetSetting keyToken st = [] then Some []
     else (case chatIDFor st admin of None \<Rightarrow> Some [] | Some chatID \<Rightarrow> sendMessage chatID t NoMarkup))"

definition OnAudit :: "string \<Rightarrow> string \<Rightarrow> string \<Rightarrow> store \<Rightarrow> bot_call list option" where
  "OnAudit actor act detail st = (if act \<notin> set notifyActions then Some []
     else Notify (u8 [0xF0, 0x9F, 0x94, 0x94] @ '' '' @ actor @ '': '' @ act @ '' '' @ detail) st)"

subsection \<open>The lifecycle of the poller\<close>

text \<open>A goroutine started by \<^verbatim>\<open>start\<close> keeps the token and the admin of that moment; \<open>pl_pending\<close> are the updates of
  the batch it is working through. \<open>pl_locked\<close> tells that another operation holds \<^verbatim>\<open>mu\<close>.\<close>

record poll_loop =
  pl_token :: string
  pl_admin :: string
  pl_offset :: int
  pl_failStreak :: int
  pl_cancelled :: bool
  pl_pending :: "tg_update list"

record poller =
  po_locked :: bool
  po_running :: bool
  po_loops :: "poll_loop list"

definition poller_start :: "store \<Rightarrow> poller \<Rightarrow> (ctl_error, unit) result \<times> poller" where
  "poller_start st p = (if po_running p then (Inr (), p)
     else (let token = GetSetting keyToken st; admin = GetSetting keyAdmin st in
       if token = [] \<or> admin = [] then (Inl (OtherError ''telegram: token/admin not configured''), p)
       else (Inr (), p\<lparr>po_running := True, po_loops := po_loops p @ [\<lparr>pl_token = token, pl_admin = admin, pl_offset = 0,
          pl_failStreak = 0, pl_cancelled = False, pl_pending = []\<rparr>]\<rparr>)))"

text \<open>\<open>cancel\<close> is of the goroutine started last.\<close>

definition cancel_last :: "poll_loop list \<Rightarrow> poll_loop list" where
  "cancel_last ls = (if ls = [] then [] else butlast ls @ [(last ls)\<lparr>pl_cancelled := True\<rparr>])"

definition poller_stop :: "poller \<Rightarrow> poller" where
  "poller_stop p = (if \<not> po_running p then p else p\<lparr>po_running := False, po_loops := cancel_last (po_loops p)\<rparr>)"

definition Start_poller :: "store \<Rightarrow> poller \<Rightarrow> (ctl_error, unit) result \<times> poller" where
  "Start_poller st p = (if po_locked p then (Inl TelegramBusy, p) else poller_start st p)"

definition Stop_poller :: "poller \<Rightarrow> (ctl_error, unit) result \<times> poller" where
  "Stop_poller p = (if po_locked p then (Inl TelegramBusy, p) else (Inr (), poller_stop p))"

definition Restart_poller :: "store \<Rightarrow> poller \<Rightarrow> (ctl_error, unit) result \<times> poller" where
  "Restart_poller st p = (if po_locked p then (Inl TelegramBusy, p) else poller_start st (poller_stop p))"

definition Status_poller :: "store \<Rightarrow> poller \<Rightarrow> telegram_status" where
  "Status_poller st p = (ConfigStatus st)\<lparr>tg_Running := po_running p\<rparr>"

text \<open>A round of the loop that is not cancelled: the answer of \<^verbatim>\<open>getUpdates\<close>, None for an error (after which
  it sleeps), and the handling of one update of the batch, which the loop does without looking at its context.\<close>

definition poll_fetch :: "tg_update list option \<Rightarrow> poll_loop \<Rightarrow> poll_loop" where
  "poll_fetch r l = (case r of None \<Rightarrow> l\<lparr>pl_failStreak := pl_failStreak l + 1\<rparr>
     | Some us \<Rightarrow> l\<lparr>pl_failStreak := 0, pl_pending := us\<rparr>)"

definition poll_next :: "'w bot_env \<Rightarrow> poll_loop \<Rightarrow> 'w bot_state \<Rightarrow> (poll_loop \<times> 'w bot_state) option" where
  "poll_next E l s = (case pl_pending l of [] \<Rightarrow> None
     | u # us \<Rightarrow> map_option (Pair (l\<lparr>pl_offset := tp_UpdateID u + 1, pl_pending := us\<rparr>)) (handle_update E (pl_admin l) u s))"

end
