(* ===== verification/Telegram_Props.thy ===== *)
theory Telegram_Props
  imports Telegram Store_Props
begin

section \<open>Who commands the bot, and one poller at a time\<close>

text \<open>
  Updates of anyone but the admin leave no trace; the workers are only touched by the commands that name an
  operation, a stop and a restart only by the confirmation. Whatever the interleaving of lifecycle
  operations, rounds of the goroutines and changes of the settings, at most one goroutine polls. Long messages
  arrive whole. And what the poller does not do: a goroutine keeps the admin it was started with.
\<close>

subsection \<open>Commands\<close>

definition command_of :: "tg_update \<Rightarrow> string" where
  "command_of u = normal_cmd (case tp_Callback u of Some q \<Rightarrow> tq_Data q
     | None \<Rightarrow> (case tp_Message u of Some m \<Rightarrow> trim_space (tm_Text m) | None \<Rightarrow> []))"

definition operation_commands :: "string list" where
  "operation_commands = [''/start'', ''start'', lblStart, ''/reconnect'', ''reconnect'', lblReconnect, ''vpn_stop_confirm'',
     ''vpn_restart_confirm'', ''dns_start'', ''dns_stop_confirm'', ''dns_restart_confirm'']"

lemma command_answer_world:
  "bt_w = snd (command_answer E cmd st w) \<Longrightarrow> bt_w = w \<or> cmd \<in> set operation_commands"
  unfolding command_answer_def by (simp add: named_def operation_commands_def split: if_splits)

lemma sendMessage_to:
  assumes "sendMessage chatID t m = Some calls" shows "\<forall>c \<in> set calls. \<exists>t m. c = Send chatID t m"
  using assms by (auto simp: sendMessage_def)

text \<open>What an update is heard for: a crash, or a sender who is the admin.\<close>

definition heard :: "(int \<Rightarrow> int) \<Rightarrow> string \<Rightarrow> tg_update \<Rightarrow> bool" where
  "heard uni admin u = (case senderOf u of None \<Rightarrow> True
     | Some (sender, _) \<Rightarrow> tu_ID sender \<noteq> 0 \<and> matches uni admin sender)"

lemma handle_update_unheard: "\<not> heard (be_fold E) admin u \<Longrightarrow> handle_update E admin u s = Some s"
  by (auto simp: heard_def handle_update_def split: option.splits prod.splits if_splits)

lemma handle_updates_heard:
  "handle_updates E admin us s = handle_updates E admin (filter (heard (be_fold E) admin) us) s"
  by (induction us arbitrary: s) (auto simp: handle_update_unheard split: bind_split)

lemma handleCommand_calls:
  assumes "handleCommand E chatID cmd st w = Some (calls, w1)"
  shows "(\<forall>c \<in> set calls. \<exists>t m. c = Send chatID t m) \<and> (w1 = w \<or> normal_cmd cmd \<in> set operation_commands)"
proof -
  obtain a w2 where a: "command_answer E (normal_cmd cmd) st w = (a, w2)" by (metis surj_pair)
  have w: "w1 = w2" "\<forall>c \<in> set calls. \<exists>t m. c = Send chatID t m"
    using assms a by (auto simp: handleCommand_def split: option.splits dest: sendMessage_to)
  have "w2 = w \<or> normal_cmd cmd \<in> set operation_commands" using command_answer_world [of w2 E "normal_cmd cmd" st w] a by simp
  then show ?thesis using w by simp
qed

text \<open>What a heard update may do.\<close>

lemma handle_update_effect:
  assumes "handle_update E admin u s = Some s'" "heard (be_fold E) admin u"
  obtains sender chatID new where "senderOf u = Some (sender, chatID)" "matches (be_fold E) admin sender" "tu_ID sender \<noteq> 0"
    "bt_calls s' = bt_calls s @ new"
    "\<forall>c \<in> set new. (\<exists>t m. c = Send chatID t m) \<or> (\<exists>q. tp_Callback u = Some q \<and> c = AnswerCallback (tq_ID q))"
    "bt_world s' = bt_world s \<or> command_of u \<in> set operation_commands"
    "bt_store s' = SetSetting keyChat (itoa chatID) (bt_store s)"
proof -
  obtain sender chatID where snd: "senderOf u = Some (sender, chatID)" "tu_ID sender \<noteq> 0" "matches (be_fold E) admin sender"
    using assms by (auto simp: heard_def handle_update_def split: option.splits)
  let ?s1 = "s\<lparr>bt_store := SetSetting keyChat (itoa chatID) (bt_store s)\<rparr>"
  show thesis
  proof (cases "tp_Callback u")
    case (Some q)
    then obtain calls w1 where r: "handleCommand E chatID (tq_Data q) (bt_store ?s1) (bt_world ?s1) = Some (calls, w1)"
      "s' = ?s1\<lparr>bt_world := w1, bt_calls := bt_calls ?s1 @ [AnswerCallback (tq_ID q)] @ calls\<rparr>"
      using assms(1) snd by (auto simp: handle_update_def run_command_def Let_def)
    show thesis
      using that [OF snd(1) snd(3,2), of "AnswerCallback (tq_ID q) # calls"] handleCommand_calls [OF r(1)] r(2) Some
      by (auto simp: command_of_def)
  next
    case None
    then obtain m where m: "tp_Message u = Some m" using snd by (auto simp: senderOf_def split: option.splits)
    then obtain calls w1 where r: "handleCommand E chatID (trim_space (tm_Text m)) (bt_store ?s1) (bt_world ?s1) = Some (calls, w1)"
      "s' = ?s1\<lparr>bt_world := w1, bt_calls := bt_calls ?s1 @ calls\<rparr>"
      using assms(1) snd None by (auto simp: handle_update_def run_command_def Let_def)
    show thesis
      using that [OF snd(1) snd(3,2), of calls] handleCommand_calls [OF r(1)] r(2) None m
      by (auto simp: command_of_def)
  qed
qed

subsection \<open>The goroutines\<close>

record 'w tg_sys =
  ts_poller :: poller
  ts_state :: "'w bot_state"

text \<open>The interleavings: a lifecycle operation, which holds \<^verbatim>\<open>mu\<close> for its whole duration (or finds it held by
  another), the start of a round of a goroutine whose context is not cancelled, one update of a batch,
  and anything the rest of the program does to the store and the workers in between.\<close>

inductive tg_step :: "'w tg_sys \<Rightarrow> 'w tg_sys \<Rightarrow> bool" where
  op_start: "Start_poller (bt_store (ts_state s)) (ts_poller s) = (r, p) \<Longrightarrow> tg_step s (s\<lparr>ts_poller := p\<rparr>)"
| op_stop: "Stop_poller (ts_poller s) = (r, p) \<Longrightarrow> tg_step s (s\<lparr>ts_poller := p\<rparr>)"
| op_restart: "Restart_poller (bt_store (ts_state s)) (ts_poller s) = (r, p) \<Longrightarrow> tg_step s (s\<lparr>ts_poller := p\<rparr>)"
| locked: "tg_step s (s\<lparr>ts_poller := (ts_poller s)\<lparr>po_locked := b\<rparr>\<rparr>)"
| round: "i < length (po_loops (ts_poller s)) \<Longrightarrow> \<not> pl_cancelled (po_loops (ts_poller s) ! i)
    \<Longrightarrow> pl_pending (po_loops (ts_poller s) ! i) = []
    \<Longrightarrow> tg_step s (s\<lparr>ts_poller := (ts_poller s)\<lparr>po_loops := (po_loops (ts_poller s))[i := poll_fetch r (po_loops (ts_poller s) ! i)]\<rparr>\<rparr>)"
| update: "i < length (po_loops (ts_poller s)) \<Longrightarrow> poll_next E (po_loops (ts_poller s) ! i) (ts_state s) = Some (l, t)
    \<Longrightarrow> tg_step s (s\<lparr>ts_poller := (ts_poller s)\<lparr>po_loops := (po_loops (ts_poller s))[i := l]\<rparr>, ts_state := t\<rparr>)"
| environment: "tg_step s (s\<lparr>ts_state := t\<rparr>)"

definition poller_ok :: "poller \<Rightarrow> bool" where
  "poller_ok p = (list_all pl_cancelled (butlast (po_loops p))
     \<and> po_running p = (po_loops p \<noteq> [] \<and> \<not> pl_cancelled (last (po_loops p)))
     \<and> list_all (\<lambda>l. pl_admin l \<noteq> [] \<and> pl_token l \<noteq> []) (po_loops p))"

lemma poller_ok_start: "poller_ok p \<Longrightarrow> poller_start st p = (r, q) \<Longrightarrow> poller_ok q"
proof -
  assume p: "poller_ok p" and s: "poller_start st p = (r, q)"
  have "list_all pl_cancelled (po_loops p)" if "\<not> po_running p"
  proof (cases "po_loops p = []")
    case False
    then have "pl_cancelled (last (po_loops p))" "list_all pl_cancelled (butlast (po_loops p))" using p that by (auto simp: poller_ok_def)
    then have "list_all pl_cancelled (butlast (po_loops p) @ [last (po_loops p)])" by simp
    then show ?thesis using False by simp
  qed simp
  then show ?thesis using p s by (auto simp: poller_start_def Let_def poller_ok_def split: if_splits)
qed

lemma poller_ok_stop: "poller_ok p \<Longrightarrow> poller_ok (poller_stop p)"
proof -
  assume p: "poller_ok p"
  show ?thesis
  proof (cases "po_running p")
    case True
    then obtain ls l where l: "po_loops p = ls @ [l]" using p unfolding poller_ok_def by (metis append_butlast_last_id)
    then show ?thesis using p True by (auto simp: poller_stop_def cancel_last_def poller_ok_def)
  qed (use p in \<open>simp add: poller_stop_def\<close>)
qed

text \<open>A goroutine's own steps leave its context, token and admin alone.\<close>

lemma poller_ok_loop:
  assumes "poller_ok p" "i < length (po_loops p)" "pl_cancelled l = pl_cancelled (po_loops p ! i)"
    "pl_admin l = pl_admin (po_loops p ! i)" "pl_token l = pl_token (po_loops p ! i)"
  shows "poller_ok (p\<lparr>po_loops := (po_loops p)[i := l]\<rparr>)"
proof -
  let ?ls = "po_loops p"
  have m: "map pl_cancelled (?ls[i := l]) = map pl_cancelled ?ls"
    using assms(2,3) by (simp add: map_update list_update_same_conv)
  have "list_all pl_cancelled (butlast (?ls[i := l])) = list_all id (butlast (map pl_cancelled (?ls[i := l])))"
    by (simp add: list_all_iff flip: map_butlast)
  also have "\<dots> = list_all pl_cancelled (butlast ?ls)" unfolding m by (simp add: list_all_iff flip: map_butlast)
  finally have b: "list_all pl_cancelled (butlast (?ls[i := l])) = list_all pl_cancelled (butlast ?ls)" .
  have e: "?ls \<noteq> []" using assms(2) by auto
  then have "pl_cancelled (last (?ls[i := l])) = last (map pl_cancelled (?ls[i := l]))" by (simp add: last_map)
  also have "\<dots> = pl_cancelled (last ?ls)" unfolding m using e by (simp add: last_map)
  finally show ?thesis using assms b e by (auto simp: poller_ok_def list_all_length nth_list_update)
qed

lemma poll_fetch_keeps [simp]: "pl_cancelled (poll_fetch r l) = pl_cancelled l" "pl_admin (poll_fetch r l) = pl_admin l"
  "pl_token (poll_fetch r l) = pl_token l"
  by (simp_all add: poll_fetch_def split: option.splits)

lemma poll_next_keeps: "poll_next E l s = Some (l', t) \<Longrightarrow>
    pl_cancelled l' = pl_cancelled l \<and> pl_admin l' = pl_admin l \<and> pl_token l' = pl_token l"
  by (auto simp: poll_next_def split: list.splits)

lemma poller_ok_step: "tg_step s s' \<Longrightarrow> poller_ok (ts_poller s) \<Longrightarrow> poller_ok (ts_poller s')"
proof (induction rule: tg_step.induct)
  case (op_start s r p)
  then show ?case by (auto simp: Start_poller_def poller_ok_start split: if_splits)
next
  case (op_stop s r p)
  then show ?case by (auto simp: Stop_poller_def poller_ok_stop split: if_splits)
next
  case (op_restart s r p)
  then show ?case using poller_ok_start [OF poller_ok_stop] by (auto simp: Restart_poller_def split: if_splits)
next
  case (locked s b)
  then show ?case by (simp add: poller_ok_def)
next
  case (round i s r)
  then show ?case by (simp add: poller_ok_loop)
next
  case (update i s E l t)
  then show ?case using poll_next_keeps [OF update(2)] by (simp add: poller_ok_loop)
qed simp

lemma poller_ok_steps: "tg_step\<^sup>*\<^sup>* s s' \<Longrightarrow> poller_ok (ts_poller s) \<Longrightarrow> poller_ok (ts_poller s')"
  by (induction rule: rtranclp_induct) (auto intro: poller_ok_step)

lemma poller_ok_count:
  assumes "poller_ok p"
  shows "length (filter (\<lambda>l. \<not> pl_cancelled l) (po_loops p)) = (if po_running p then 1 else 0)"
proof (cases "po_loops p = []")
  case False
  have "filter (\<lambda>l. \<not> pl_cancelled l) (butlast (po_loops p)) = []"
    using assms by (auto simp: poller_ok_def list_all_iff filter_empty_conv)
  then have "filter (\<lambda>l. \<not> pl_cancelled l) (butlast (po_loops p) @ [last (po_loops p)])
      = filter (\<lambda>l. \<not> pl_cancelled l) [last (po_loops p)]" by simp
  then show ?thesis using False assms by (simp add: poller_ok_def)
qed (use assms in \<open>simp add: poller_ok_def\<close>)

subsection \<open>What a batch of updates does\<close>

text \<open>What the calls made for a heard update may be.\<close>

definition reply_to :: "tg_update \<Rightarrow> bot_call \<Rightarrow> bool" where
  "reply_to u c = ((\<exists>sender chatID t m. senderOf u = Some (sender, chatID) \<and> c = Send chatID t m)
     \<or> (\<exists>q. tp_Callback u = Some q \<and> c = AnswerCallback (tq_ID q)))"

lemma handle_update_replies:
  assumes "handle_update E admin u s = Some s'"
  shows "\<exists>new. bt_calls s' = bt_calls s @ new \<and> (\<forall>c \<in> set new. heard (be_fold E) admin u \<and> reply_to u c)
    \<and> (bt_world s' = bt_world s \<or> heard (be_fold E) admin u \<and> command_of u \<in> set operation_commands)"
proof (cases "heard (be_fold E) admin u")
  case True
  show ?thesis by (rule handle_update_effect [OF assms True]) (use True in \<open>auto simp: reply_to_def\<close>)
next
  case False
  then show ?thesis using handle_update_unheard [of E admin u s] assms by auto
qed

lemma handle_updates_replies:
  assumes "handle_updates E admin us s = Some s'"
  shows "\<exists>new. bt_calls s' = bt_calls s @ new \<and> (\<forall>c \<in> set new. \<exists>u \<in> set us. heard (be_fold E) admin u \<and> reply_to u c)
    \<and> (bt_world s' = bt_world s \<or> (\<exists>u \<in> set us. heard (be_fold E) admin u \<and> command_of u \<in> set operation_commands))"
  using assms
proof (induction us arbitrary: s)
  case (Cons u us)
  then obtain s1 where s1: "handle_update E admin u s = Some s1" "handle_updates E admin us s1 = Some s'"
    by (auto simp: bind_eq_Some_conv)
  obtain new where n: "bt_calls s1 = bt_calls s @ new" "\<forall>c \<in> set new. heard (be_fold E) admin u \<and> reply_to u c"
    "bt_world s1 = bt_world s \<or> heard (be_fold E) admin u \<and> command_of u \<in> set operation_commands"
    using handle_update_replies [OF s1(1)] by blast
  obtain more where m: "bt_calls s' = bt_calls s1 @ more" "\<forall>c \<in> set more. \<exists>u \<in> set us. heard (be_fold E) admin u \<and> reply_to u c"
    "bt_world s' = bt_world s1 \<or> (\<exists>u \<in> set us. heard (be_fold E) admin u \<and> command_of u \<in> set operation_commands)"
    using Cons.IH [OF s1(2)] by blast
  show ?case by (rule exI [of _ "new @ more"]) (use n m in auto)
qed auto

subsection \<open>A replaced admin\<close>

text \<open>A goroutine obeys the admin it was started with, and a start while it runs does not replace it: after the
  settings name another admin by username, the next message of the old one links the chat again, and the
  notifications meant for the new admin go to the old one.\<close>

lemma stale_admin_takes_the_chat:
  assumes "poll_next E l s = Some (l', s')" "pl_pending l = u # us" "heard (be_fold E) (pl_admin l) u"
    and "senderOf u = Some (sender, chatID)" "in_int64 chatID"
    and "GetSetting keyAdmin (bt_store s) = new" "new \<noteq> []" "atoi new = None" "GetSetting keyToken (bt_store s) \<noteq> []"
  shows "Notify t (bt_store s') = sendMessage chatID t NoMarkup"
proof -
  have h: "handle_update E (pl_admin l) u s = Some s'" using assms(1,2) by (auto simp: poll_next_def)
  have st: "bt_store s' = SetSetting keyChat (itoa chatID) (bt_store s)"
    by (rule handle_update_effect [OF h assms(3)]) (use assms(4) in simp)
  have "itoa chatID \<noteq> []" using atoi_itoa [OF assms(5)] by (auto simp: atoi_def)
  then show ?thesis using assms(5-9) by (simp add: Notify_def chatIDFor_def st settings.get_put atoi_itoa Let_def)
qed

lemma start_while_running: "po_running p \<Longrightarrow> poller_start st p = (Inr (), p)"
  by (simp add: poller_start_def)

subsection \<open>Properties\<close>


text \<open>A worker that counts its operations, a stranger who says start and an admin who asks for the menu.\<close>

definition demo_worker :: "int lifecycle" where
  "demo_worker = \<lparr>lc_Start = (\<lambda>w. (Inr (), w + 1)), lc_Stop = (\<lambda>w. (Inr (), w + 1)), lc_Restart = (\<lambda>w. (Inr (), w + 1)),
     lc_Reconnect = (\<lambda>w. (Inr (), w + 1)), lc_Pid = (\<lambda>w. w), lc_StartedAt = (\<lambda>_. Some 0)\<rparr>"

definition demo_bot :: "int bot_env" where
  "demo_bot = \<lparr>be_vpn = demo_worker, be_dns = demo_worker, be_Status = (\<lambda>_. None), be_ca = None, be_now = 0, be_started = 0,
     be_date = (\<lambda>_. []), be_fold = id\<rparr>"

definition says :: "int \<Rightarrow> string \<Rightarrow> tg_update" where
  "says i t = \<lparr>tp_UpdateID = 1, tp_Message = Some \<lparr>tm_Chat = i, tm_From = \<lparr>tu_ID = i, tu_Username = []\<rparr>, tm_Text = t\<rparr>, tp_Callback = None\<rparr>"

definition demo_bot_state :: "int bot_state" where
  "demo_bot_state = \<lparr>bt_store = empty_store, bt_world = 0, bt_calls = []\<rparr>"

lemma chunks_short: "length t \<le> maxMessage \<Longrightarrow> chunks t = Some [t]"
  by (subst chunks.simps) simp

lemma heard_says: "i \<noteq> 0 \<Longrightarrow> heard uni ''7'' (says i t) = (i = 7)"
proof -
  have "atoi ''7'' = Some 7" by code_simp
  then show "i \<noteq> 0 \<Longrightarrow> ?thesis" by (simp add: heard_def senderOf_def says_def matches_def)
qed

lemma says_menu:
  "\<exists>s'. handle_updates demo_bot ''7'' [says 9 ''start'', says 7 ''menu''] demo_bot_state = Some s' \<and> bt_calls s' \<noteq> []"
proof -
  have t: "trim_space ''menu'' = ''menu''" "cut_prefix ''menu'' ''/dns '' = None" by code_simp+
  have l: "\<not> named ''menu'' ''status'' lblStatus" by code_simp
  have "atoi ''7'' = Some 7" by code_simp
  then have "handle_updates demo_bot ''7'' [says 7 ''menu''] demo_bot_state = Some
    (demo_bot_state\<lparr>bt_store := SetSetting keyChat (itoa 7) empty_store, bt_calls := [Send 7 ''ovcp control panel:'' opsKeyboard]\<rparr>)"
    by (simp add: handle_update_def senderOf_def says_def matches_def Let_def run_command_def handleCommand_def t normal_cmd_def
        command_answer_def l sendMessage_def chunks_short demo_bot_state_def)
  moreover have "filter (heard (be_fold demo_bot) ''7'') [says 9 ''start'', says 7 ''menu''] = [says 7 ''menu'']" by (simp add: heard_says)
  ultimately show ?thesis using handle_updates_heard [of demo_bot "''7''" "[says 9 ''start'', says 7 ''menu'']"] by simp
qed



definition bot_settings :: store where
  "bot_settings = empty_store\<lparr>st_settings := [(keyToken, ''t''), (keyAdmin, ''7'')]\<rparr>"

definition idle_bot :: "int tg_sys" where
  "idle_bot = \<lparr>ts_poller = \<lparr>po_locked = False, po_running = False, po_loops = []\<rparr>,
     ts_state = demo_bot_state\<lparr>bt_store := bot_settings\<rparr>\<rparr>"


text \<open>C32: \<^verbatim>\<open>sendMessage\<close> ends for every valid UTF-8 text, however long, and the messages are the text: none is longer than
  Telegram accepts, none is cut inside a character, only the last one carries the markup, and put together
  again, with at most a line break dropped between two of them, they give the text.\<close>

theorem long_messages_arrive:
  assumes "runs_ok 0 t"
  shows "\<exists>cs. sendMessage chatID t m = Some (map (\<lambda>c. Send chatID c NoMarkup) (butlast cs) @ [Send chatID (last cs) m]) \<and> sent_as t cs"
  using chunks_total [OF assms] by (auto simp: sendMessage_def)

theorem long_messages_arrive_witness:
  "\<exists>cs. sendMessage 7 (replicate 5000 CHR ''x'') NoMarkup =
     Some (map (\<lambda>c. Send 7 c NoMarkup) (butlast cs) @ [Send 7 (last cs) NoMarkup]) \<and> sent_as (replicate 5000 CHR ''x'') cs"
proof -
  have x: "rune_start CHR ''x''" by code_simp
  have "runs_ok k (replicate n CHR ''x'')" for k n
    by (induction n arbitrary: k) (simp_all add: x)
  then show ?thesis by (rule long_messages_arrive)
qed

end
