(* ===== verification/Socks.thy ===== *)
theory Socks
  imports Go_Net "HOL-Library.Word"
begin

unbundle bit_operations_syntax

section \<open>The SOCKS relay of a connection\<close>

text \<open>
  \<^verbatim>\<open>src/internal/upstream/socks.go\<close>: what happens to one redirected connection, from its original
  destination to the end of the SOCKS5 handshake with the backend. A connection to the backend is the
  bytes it will still send, the bytes written to it and the writes that fail; the end of its input stands
  for a closed connection and for a deadline that passes. Bytes are naturals below 256. The copying of
  bytes after the handshake is not modelled.
\<close>

record sock =
  so_in :: "nat list"
  so_out :: "nat list"
  so_faults :: "bool list"

datatype socks_error =
    NoOriginalDst
  | DialFailed
  | WriteFailed
  | ShortRead
  | BadVersion nat
  | BadMethod nat
  | AuthRejected
  | ConnectRefused nat
  | BadAddrType nat

type_synonym 'a sock_step = "(sock, socks_error, 'a) step"

record tcp_addr =
  ta_IP :: "nat list"
  ta_Port :: int

record socks_backend =
  sb_url :: url
  sb_dialTimeout :: int
  sb_handshakeTimeout :: int

definition conn_write :: "nat list \<Rightarrow> unit sock_step" where
  "conn_write bs c = (case so_faults c of
     True # fs \<Rightarrow> (Inl WriteFailed, c\<lparr>so_faults := fs\<rparr>)
   | False # fs \<Rightarrow> (Inr (), c\<lparr>so_out := so_out c @ bs, so_faults := fs\<rparr>)
   | [] \<Rightarrow> (Inr (), c\<lparr>so_out := so_out c @ bs\<rparr>))"

text \<open>\<^verbatim>\<open>io.ReadFull\<close> and \<^verbatim>\<open>io.CopyN\<close> to nowhere.\<close>

definition read_full :: "nat \<Rightarrow> nat list sock_step" where
  "read_full n c = (if length (so_in c) < n then (Inl ShortRead, c\<lparr>so_in := []\<rparr>)
     else (Inr (take n (so_in c)), c\<lparr>so_in := drop n (so_in c)\<rparr>))"

definition byte :: "nat \<Rightarrow> nat" where
  "byte n = n mod 256"

definition str_bytes :: "string \<Rightarrow> nat list" where
  "str_bytes s = map byte_of s"

subsection \<open>The handshake\<close>

text \<open>A missing \<^verbatim>\<open>Userinfo\<close> reads as an empty name and password.\<close>

definition auth_request :: "(string \<times> string option) option \<Rightarrow> nat list" where
  "auth_request user = (case user of
     None \<Rightarrow> [1, 0, 0]
   | Some (name, pass) \<Rightarrow> (let p = (case pass of None \<Rightarrow> [] | Some p \<Rightarrow> p) in
       [1, byte (length name)] @ str_bytes name @ [byte (length p)] @ str_bytes p))"

definition socksAuth :: "(string \<times> string option) option \<Rightarrow> unit sock_step" where
  "socksAuth user =
     bindE (conn_write (auth_request user)) (\<lambda>_.
     bindE (read_full 2) (\<lambda>status.
     guardE (status ! 1 \<noteq> 0) AuthRejected))"

definition be16 :: "int \<Rightarrow> nat list" where
  "be16 port = (let p = word_of_int port :: 16 word in [unat (drop_bit 8 p), unat (p AND 0xFF)])"

definition connect_request :: "tcp_addr \<Rightarrow> nat list" where
  "connect_request dst = (case to4 (ta_IP dst) of
       Some ip4 \<Rightarrow> [5, 1, 0, 1] @ ip4
     | None \<Rightarrow> [5, 1, 0, 4] @ ta_IP dst) @ be16 (ta_Port dst)"

definition bound_length :: "nat \<Rightarrow> nat sock_step" where
  "bound_length atyp =
     (if atyp = 1 then pureE (Inr 4)
      else if atyp = 4 then pureE (Inr 16)
      else if atyp = 3 then bindE (read_full 1) (\<lambda>l. pureE (Inr (l ! 0)))
      else pureE (Inl (BadAddrType atyp)))"

definition socksRequestConnect :: "tcp_addr \<Rightarrow> unit sock_step" where
  "socksRequestConnect dst =
     bindE (conn_write (connect_request dst)) (\<lambda>_.
     bindE (read_full 4) (\<lambda>hd4.
     bindE (guardE (hd4 ! 1 \<noteq> 0) (ConnectRefused (hd4 ! 1))) (\<lambda>_.
     bindE (bound_length (hd4 ! 3)) (\<lambda>n.
     bindE (read_full (n + 2)) (\<lambda>_.
     pureE (Inr ()))))))"

definition greeting :: "socks_backend \<Rightarrow> nat list" where
  "greeting b = (let methods = (if u_User (sb_url b) \<noteq> None then [2] else [0]) in [5, byte (length methods)] @ methods)"

definition socksHandshake :: "socks_backend \<Rightarrow> tcp_addr \<Rightarrow> unit sock_step" where
  "socksHandshake b dst =
     bindE (conn_write (greeting b)) (\<lambda>_.
     bindE (read_full 2) (\<lambda>reply.
     bindE (guardE (reply ! 0 \<noteq> 5) (BadVersion (reply ! 0))) (\<lambda>_.
     bindE (if reply ! 1 = 0 then pureE (Inr ())
            else if reply ! 1 = 2 then socksAuth (u_User (sb_url b))
            else pureE (Inl (BadMethod (reply ! 1)))) (\<lambda>_.
     socksRequestConnect dst))))"

subsection \<open>The relay\<close>

text \<open>\<open>dial\<close> opens a connection to a host within a timeout. The connection that failed its handshake is closed.\<close>

definition socksConnect :: "(string \<Rightarrow> int \<Rightarrow> sock option) \<Rightarrow> socks_backend \<Rightarrow> tcp_addr \<Rightarrow> (socks_error, sock) result" where
  "socksConnect dial b dst = (case dial (u_Host (sb_url b)) (sb_dialTimeout b) of
     None \<Rightarrow> Inl DialFailed
   | Some c \<Rightarrow> (case socksHandshake b dst c of (Inl e, _) \<Rightarrow> Inl e | (Inr _, c1) \<Rightarrow> Inr c1))"

definition is_loopback :: "nat list \<Rightarrow> bool" where
  "is_loopback ip = (case to4 ip of Some ip4 \<Rightarrow> ip4 ! 0 = 127 | None \<Rightarrow> ip = replicate 15 0 @ [1])"

text \<open>\<^verbatim>\<open>IP.Equal\<close>.\<close>

definition ip_equal :: "nat list \<Rightarrow> nat list \<Rightarrow> bool" where
  "ip_equal a b = (if length a = length b then a = b
     else if length a = 4 \<and> length b = 16 then take 12 b = v4_in_v6 \<and> a = drop 12 b
     else if length a = 16 \<and> length b = 4 then take 12 a = v4_in_v6 \<and> drop 12 a = b
     else False)"

text \<open>The answer of \<^verbatim>\<open>SO_ORIGINAL_DST\<close>: four bytes of address and the port in network byte order, read on a
  little-endian host.\<close>

definition getOriginalDst :: "(nat list \<times> 16 word) option \<Rightarrow> (socks_error, tcp_addr) result" where
  "getOriginalDst raw = (case raw of None \<Rightarrow> Inl NoOriginalDst
     | Some (a, p) \<Rightarrow> Inr \<lparr>ta_IP = v4_in_v6 @ a, ta_Port = uint (drop_bit 8 p OR push_bit 8 p)\<rparr>)"

text \<open>The connection the bytes are copied to, None when the client's is dropped.\<close>

definition relayToDst :: "(string \<Rightarrow> int \<Rightarrow> sock option) \<Rightarrow> socks_backend \<Rightarrow> tcp_addr \<Rightarrow> sock option" where
  "relayToDst dial b dst = (if is_loopback (ta_IP dst) then None
     else (case socksConnect dial b dst of Inl _ \<Rightarrow> None | Inr up \<Rightarrow> Some up))"

definition relayConn :: "(string \<Rightarrow> int \<Rightarrow> sock option) \<Rightarrow> socks_backend \<Rightarrow> (nat list \<times> 16 word) option \<Rightarrow> tcp_addr
    \<Rightarrow> sock option" where
  "relayConn dial b raw loc = (case getOriginalDst raw of
     Inl _ \<Rightarrow> None
   | Inr dst \<Rightarrow> if ip_equal (ta_IP dst) (ta_IP loc) \<and> ta_Port dst = ta_Port loc then None
       else relayToDst dial b dst)"

subsection \<open>What a SOCKS5 server reads\<close>

text \<open>RFC 1928: version, command CONNECT, reserved, the type of the address, the address, the port.\<close>

definition parse_connect :: "nat list \<Rightarrow> (nat list \<times> int) option" where
  "parse_connect bs = (if length bs < 4 \<or> take 3 bs \<noteq> [5, 1, 0] \<or> bs ! 3 \<notin> {1, 4} then None
     else (let n = (if bs ! 3 = 1 then 4 else 16); r = drop 4 bs in
       if length r = n + 2 then Some (take n r, int (r ! n) * 256 + int (r ! (n + 1))) else None))"

text \<open>RFC 1929: version, name and password, each with its length in a byte.\<close>

definition parse_auth :: "nat list \<Rightarrow> (nat list \<times> nat list) option" where
  "parse_auth bs = (case bs of
     v # n # r \<Rightarrow> (case drop n r of
       m # p \<Rightarrow> if v = 1 \<and> length p = m then Some (take n r, p) else None
     | [] \<Rightarrow> None)
   | _ \<Rightarrow> None)"

lemma parse_auth_request:
  assumes "length name < 256" "length pass < 256"
  shows "parse_auth (auth_request (Some (name, Some pass))) = Some (str_bytes name, str_bytes pass)"
  using assms by (simp add: parse_auth_def auth_request_def byte_def str_bytes_def)

lemma be16_value:
  assumes "0 \<le> port" "port < 65536"
  shows "be16 port = [nat (port div 256), nat (port mod 256)]"
proof -
  have "unat (word_of_int port :: 16 word) = nat port" using assms by (simp add: unat_eq_nat_uint uint_word_of_int)
  moreover have "unat (drop_bit 8 p) = unat p div 256" for p :: "16 word"
    by (subst unat_drop_bit_eq) (simp add: drop_bit_eq_div)
  moreover have "unat (p AND 0xFF) = unat p mod 256" for p :: "16 word"
  proof -
    have "p AND 0xFF = take_bit 8 p" by (simp add: take_bit_eq_mask mask_eq_decr_exp)
    moreover have "unat (take_bit 8 p) = unat p mod 256" by (subst unsigned_take_bit_eq) (simp_all add: take_bit_eq_mod)
    ultimately show ?thesis by simp
  qed
  ultimately show ?thesis using assms by (simp add: be16_def Let_def nat_div_distrib nat_mod_distrib)
qed


text \<open>The port bytes as they are in memory, the high one first, are read as a little-endian word.\<close>

definition network_port :: "nat \<Rightarrow> nat \<Rightarrow> 16 word" where
  "network_port hi lo = word_of_nat (hi + 256 * lo)"

lemma original_port:
  assumes "hi < 256" "lo < 256"
  shows "uint (drop_bit 8 (network_port hi lo) OR push_bit 8 (network_port hi lo)) = int hi * 256 + int lo"
proof -
  let ?p = "network_port hi lo"
  have p: "unat ?p = hi + 256 * lo" using assms unfolding network_port_def by (subst unat_of_nat) simp
  have d: "unat (drop_bit 8 ?p) = lo" by (subst unat_drop_bit_eq) (use assms in \<open>simp add: drop_bit_eq_div p\<close>)
  have "unat (push_bit 8 ?p) = unat (?p * 256)" by (simp add: push_bit_eq_mult)
  also have "\<dots> = ((hi + 256 * lo) * 256) mod 65536" by (simp add: unat_word_ariths(2) p)
  also have "(hi + 256 * lo) * 256 = 256 * hi + 65536 * lo" by simp
  finally have u: "unat (push_bit 8 ?p) = 256 * hi" using assms by simp
  have "drop_bit 8 ?p AND push_bit 8 ?p = 0"
    by (rule bit_word_eqI) (auto simp: bit_simps dest: bit_imp_le_length)
  then have "drop_bit 8 ?p OR push_bit 8 ?p = drop_bit 8 ?p + push_bit 8 ?p" by (metis add_0 word_plus_and_or)
  then have "unat (drop_bit 8 ?p OR push_bit 8 ?p) = (lo + 256 * hi) mod 65536" by (simp add: unat_word_ariths(1) d u)
  then show ?thesis using assms by (simp add: uint_nat)
qed

end
