(* ===== verification/Socks_Props.thy ===== *)
theory Socks_Props
  imports Socks
begin

section \<open>A relayed connection goes where the kernel says\<close>

text \<open>
  A client's connection is joined to a connection of the backend only when the backend has accepted a
  CONNECT for exactly the address and port the kernel recorded before the redirect, and nothing the
  destination sends is swallowed by the handshake.
\<close>

lemma conn_write_ok:
  "conn_write bs c = (Inr u, c') \<Longrightarrow> so_in c' = so_in c \<and> so_out c' = so_out c @ bs"
  by (auto simp: conn_write_def split: list.splits bool.splits)

lemma read_full_ok:
  assumes "read_full n c = (Inr bs, c')"
  shows "so_in c = bs @ so_in c' \<and> length bs = n \<and> so_out c' = so_out c"
  using assms by (auto simp: read_full_def split: if_splits)

text \<open>The replies by which a backend accepts: the method with the status of the authentication, if it asked for one,
  and the reply to CONNECT with the address it bound.\<close>

definition bound_ok :: "nat \<Rightarrow> nat list \<Rightarrow> bool" where
  "bound_ok atyp bs = (if atyp = 1 then length bs = 6 else if atyp = 4 then length bs = 18
     else if atyp = 3 then bs \<noteq> [] \<and> length bs = hd bs + 3 else False)"

definition accepts :: "bool \<Rightarrow> nat list \<Rightarrow> bool" where
  "accepts asked rs = (\<exists>x v r atyp bound. rs = (if asked then [5, 2, x, 0] else [5, 0]) @ [v, 0, r, atyp] @ bound \<and> bound_ok atyp bound)"

lemma bound_length_ok:
  assumes "bound_length atyp c = (Inr n, c1)" "read_full (n + 2) c1 = (Inr bs, c2)"
  shows "\<exists>bound. so_in c = bound @ so_in c2 \<and> bound_ok atyp bound \<and> so_out c2 = so_out c"
proof -
  note r = read_full_ok [OF assms(2)]
  show ?thesis
  proof (cases "atyp = 3")
    case True
    then obtain l where "read_full 1 c = (Inr l, c1)" "n = l ! 0" using assms(1) by (auto simp: bound_length_def go_step)
    moreover note read_full_ok [OF this(1)]
    ultimately show ?thesis using r True by (intro exI [of _ "l @ bs"]) (auto simp: bound_ok_def length_Suc_conv)
  next
    case False
    then show ?thesis using assms(1) r
      by (intro exI [of _ bs]) (auto simp: bound_length_def bound_ok_def go_step split: if_splits)
  qed
qed

lemma list2: "length xs = 2 \<Longrightarrow> xs = [xs ! 0, xs ! 1]"
  by (auto simp: numeral_eq_Suc length_Suc_conv)

lemma socks_list4: "length xs = 4 \<Longrightarrow> xs = [xs ! 0, xs ! 1, xs ! 2, xs ! 3]"
  by (auto simp: numeral_eq_Suc length_Suc_conv)

lemma socksAuth_ok:
  assumes "socksAuth user c = (Inr u, c')"
  shows "\<exists>x. so_in c = [x, 0] @ so_in c' \<and> so_out c' = so_out c @ auth_request user"
proof -
  obtain c1 st where s: "conn_write (auth_request user) c = (Inr (), c1)" "read_full 2 c1 = (Inr st, c')" "st ! 1 = 0"
    using assms by (auto simp: socksAuth_def go_step)
  have "so_in c1 = st @ so_in c'" "length st = 2" "so_out c' = so_out c1" using read_full_ok [OF s(2)] by simp_all
  then show ?thesis using conn_write_ok [OF s(1)] list2 [of st] s(3) by (intro exI [of _ "st ! 0"]) auto
qed

lemma socksRequestConnect_ok:
  assumes "socksRequestConnect dst c = (Inr u, c')"
  shows "\<exists>v r atyp bound. so_in c = [v, 0, r, atyp] @ bound @ so_in c' \<and> bound_ok atyp bound \<and> so_out c' = so_out c @ connect_request dst"
proof -
  obtain c1 h c2 n c3 bs where s: "conn_write (connect_request dst) c = (Inr (), c1)" "read_full 4 c1 = (Inr h, c2)" "h ! 1 = 0"
    "bound_length (h ! 3) c2 = (Inr n, c3)" "read_full (n + 2) c3 = (Inr bs, c')"
    using assms by (auto simp: socksRequestConnect_def go_step)
  obtain bound where b: "so_in c2 = bound @ so_in c'" "bound_ok (h ! 3) bound" "so_out c' = so_out c2"
    using bound_length_ok [OF s(4,5)] by blast
  have "so_in c1 = h @ so_in c2" "length h = 4" "so_out c2 = so_out c1" using read_full_ok [OF s(2)] by simp_all
  then have "so_in c = [h ! 0, 0, h ! 2, h ! 3] @ bound @ so_in c'" "so_out c' = so_out c @ connect_request dst"
    using conn_write_ok [OF s(1)] b(1,3) socks_list4 [of h] s(3) by auto
  then show ?thesis using b(2) by blast
qed

text \<open>A handshake that succeeds wrote the greeting, the credentials if the backend asked for them, and the
  request, and read the accepting replies and not a byte more.\<close>

lemma socksHandshake_ok:
  assumes "socksHandshake b dst c = (Inr u, c')"
  shows "\<exists>asked rs. so_out c' = so_out c @ greeting b @ (if asked then auth_request (u_User (sb_url b)) else []) @ connect_request dst
    \<and> so_in c = rs @ so_in c' \<and> accepts asked rs"
proof -
  obtain c1 m c2 c3 where s: "conn_write (greeting b) c = (Inr (), c1)" "read_full 2 c1 = (Inr m, c2)" "m ! 0 = 5"
    "(if m ! 1 = 0 then pureE (Inr ()) else if m ! 1 = 2 then socksAuth (u_User (sb_url b)) else pureE (Inl (BadMethod (m ! 1)))) c2 = (Inr (), c3)"
    "socksRequestConnect dst c3 = (Inr u, c')"
    using assms by (auto simp: socksHandshake_def go_step)
  obtain v r atyp bound where q: "so_in c3 = [v, 0, r, atyp] @ bound @ so_in c'" "bound_ok atyp bound" "so_out c' = so_out c3 @ connect_request dst"
    using socksRequestConnect_ok [OF s(5)] by blast
  note w = conn_write_ok [OF s(1)] and g = read_full_ok [OF s(2)]
  have m: "m = [5, m ! 1]" using list2 [of m] g s(3) by simp
  show ?thesis
  proof (cases "m ! 1 = 0")
    case True
    then have "c3 = c2" using s(4) by (simp add: go_step)
    then have "so_in c = [5, 0, v, 0, r, atyp] @ bound @ so_in c'" using w g q m True by simp
    then show ?thesis using w g q \<open>c3 = c2\<close>
      by (intro exI [of _ False] exI [of _ "[5, 0, v, 0, r, atyp] @ bound"]) (auto simp: accepts_def)
  next
    case False
    then have a: "m ! 1 = 2" "socksAuth (u_User (sb_url b)) c2 = (Inr (), c3)" using s(4) by (auto simp: go_step split: if_splits)
    obtain x where x: "so_in c2 = [x, 0] @ so_in c3" "so_out c3 = so_out c2 @ auth_request (u_User (sb_url b))"
      using socksAuth_ok [OF a(2)] by blast
    have "so_in c = [5, 2, x, 0, v, 0, r, atyp] @ bound @ so_in c'" using w g q m a(1) x by simp
    then show ?thesis using w g q x
      by (intro exI [of _ True] exI [of _ "[5, 2, x, 0, v, 0, r, atyp] @ bound"]) (auto simp: accepts_def)
  qed
qed

lemma parse_connect_request:
  assumes "length a = 4" "hi < 256" "lo < 256"
  shows "parse_connect (connect_request \<lparr>ta_IP = v4_in_v6 @ a, ta_Port = int hi * 256 + int lo\<rparr>) = Some (a, int hi * 256 + int lo)"
proof -
  have "be16 (int hi * 256 + int lo) = [hi, lo]" using assms(2,3) by (subst be16_value) auto
  moreover have "to4 (v4_in_v6 @ a) = Some a" using assms(1) by (simp add: to4_def v4_in_v6_def)
  moreover obtain a0 a1 a2 a3 where "a = [a0, a1, a2, a3]" using socks_list4 [OF assms(1)] by blast
  ultimately show ?thesis by (simp add: connect_request_def parse_connect_def Let_def)
qed

text \<open>C33: A relayed connection goes exactly where the kernel says the client wanted to go. When the client's connection,
  redirected from the address \<open>a\<close> and the port with the bytes \<open>hi\<close>, \<open>lo\<close>, is joined to a backend connection, the
  backend was asked by a CONNECT that a SOCKS5 server reads as that address and port, it accepted, the
  credentials were sent only because it asked for them, the bytes left to read are those after its accepting
  replies, and the address is neither the relay's own nor loopback.\<close>

theorem relay_reaches_original_destination:
  assumes "relayConn dial b (Some (a, network_port hi lo)) loc = Some up"
    and "length a = 4" "hi < 256" "lo < 256"
  shows "\<exists>c asked req rs. dial (u_Host (sb_url b)) (sb_dialTimeout b) = Some c
    \<and> so_out up = so_out c @ greeting b @ (if asked then auth_request (u_User (sb_url b)) else []) @ req
    \<and> parse_connect req = Some (a, int hi * 256 + int lo)
    \<and> so_in c = rs @ so_in up \<and> accepts asked rs
    \<and> a ! 0 \<noteq> 127 \<and> \<not> (ip_equal (v4_in_v6 @ a) (ta_IP loc) \<and> ta_Port loc = int hi * 256 + int lo)"
proof -
  let ?dst = "\<lparr>ta_IP = v4_in_v6 @ a, ta_Port = int hi * 256 + int lo\<rparr>"
  have d: "getOriginalDst (Some (a, network_port hi lo)) = Inr ?dst" using original_port [OF assms(3,4)] by (simp add: getOriginalDst_def)
  have l: "is_loopback (v4_in_v6 @ a) = (a ! 0 = 127)" using assms(2) by (simp add: is_loopback_def to4_def v4_in_v6_def)
  have r: "relayToDst dial b ?dst = Some up" "\<not> (ip_equal (v4_in_v6 @ a) (ta_IP loc) \<and> ta_Port loc = int hi * 256 + int lo)"
    using assms(1) by (auto simp: relayConn_def d split: if_splits)
  then obtain c u where c: "dial (u_Host (sb_url b)) (sb_dialTimeout b) = Some c" "socksHandshake b ?dst c = (Inr u, up)" "a ! 0 \<noteq> 127"
    by (auto simp: relayToDst_def l socksConnect_def split: if_splits sum.splits option.splits prod.splits)
  show ?thesis using socksHandshake_ok [OF c(2)] c(1,3) r(2) parse_connect_request [OF assms(2-4)] by blast
qed

definition demo_backend :: socks_backend where
  "demo_backend = \<lparr>sb_url = \<lparr>u_Scheme = ''socks5'', u_User = Some (''u'', Some ''p''), u_Host = ''proxy:1080''\<rparr>,
     sb_dialTimeout = 10, sb_handshakeTimeout = 30\<rparr>"

text \<open>A backend that asks for the credentials, accepts, and then sends the payload 42.\<close>

definition demo_dial :: "string \<Rightarrow> int \<Rightarrow> sock option" where
  "demo_dial host timeout = Some \<lparr>so_in = [5, 2, 1, 0, 5, 0, 0, 1, 0, 0, 0, 0, 0, 0, 42], so_out = [], so_faults = []\<rparr>"

lemma demo_relay:
  "\<exists>up. relayConn demo_dial demo_backend (Some ([93, 184, 216, 34], network_port 1 187)) \<lparr>ta_IP = [10, 8, 0, 1], ta_Port = 11001\<rparr> = Some up
    \<and> so_in up = [42]"
proof -
  have d: "getOriginalDst (Some ([93, 184, 216, 34], network_port 1 187)) = Inr \<lparr>ta_IP = v4_in_v6 @ [93, 184, 216, 34], ta_Port = 443\<rparr>"
    using original_port [of 1 187] by (simp add: getOriginalDst_def)
  have v: "v4_in_v6 = [0, 0, 0, 0, 0, 0, 0, 0, 0, 0, 255, 255]" by code_simp
  show ?thesis
    by (simp add: relayConn_def d ip_equal_def v relayToDst_def is_loopback_def to4_def socksConnect_def demo_dial_def
        socksHandshake_def socksAuth_def socksRequestConnect_def bound_length_def bindE_def conn_write_def read_full_def guardE_def pureE_def del: One_nat_def)
qed

theorem relay_reaches_original_destination_witness:
  "\<exists>up req. relayConn demo_dial demo_backend (Some ([93, 184, 216, 34], network_port 1 187)) \<lparr>ta_IP = [10, 8, 0, 1], ta_Port = 11001\<rparr> = Some up
    \<and> so_in up = [42] \<and> parse_connect req = Some ([93, 184, 216, 34], 443)"
proof -
  obtain up where up: "relayConn demo_dial demo_backend (Some ([93, 184, 216, 34], network_port 1 187)) \<lparr>ta_IP = [10, 8, 0, 1], ta_Port = 11001\<rparr> = Some up"
    "so_in up = [42]" using demo_relay by blast
  from relay_reaches_original_destination [OF up(1)] show ?thesis using up by auto
qed

end
