(* ===== verification/Backup.thy ===== *)
theory Backup
  imports Pki_Props
begin

section \<open>Backup and restore\<close>

text \<open>
  \<^verbatim>\<open>src/internal/backup/backup.go\<close>: what goes into the archive, in which order it is read, and what
  \<^verbatim>\<open>Restore\<close> writes where. The archive format is the parameter \<open>archive_lib\<close>: \<^verbatim>\<open>archive/tar\<close> over
  \<^verbatim>\<open>compress/gzip\<close>; the sealing is that of \<open>Pki\<close>. The snapshot \<^verbatim>\<open>VACUUM INTO\<close> makes is a parameter.
\<close>

datatype backup_error =
    ErrAlreadyInitialized
  | MissingFile string
  | SnapshotFailed
  | BackupPki pki_error
  | CorruptArchive
  | UnsafePath string
  | MkdirFailed
  | WriteFailed string

type_synonym 'a backup_step = "(fsys, backup_error, 'a) step"

record tar_entry =
  te_Name :: string
  te_Regular :: bool
  te_Data :: "string option"

text \<open>\<open>al_unpack\<close>: None when the bytes are not gzip; else the entries up to the end or the first error, and
  whether the end was reached. An entry whose data cannot be read has none.\<close>

record archive_lib =
  al_pack :: "(string \<times> string) list \<Rightarrow> string"
  al_unpack :: "string \<Rightarrow> (tar_entry list \<times> bool) option"

subsection \<open>Create\<close>

definition requiredFiles :: "(string \<times> string) list" where
  "requiredFiles = [(''pki/ca.crt'', ''pki/ca.crt''), (''pki/ca.key.enc'', ''pki/ca.key.enc''), (''pki/crl.pem'', ''pki/crl.pem''),
     (''pki/tls-crypt.key'', ''pki/tls-crypt.key''), (''server.conf'', ''server.conf''), (''totp.key'', ''totp.key'')]"

definition read_file :: "backup_error \<Rightarrow> string \<Rightarrow> string backup_step" where
  "read_file e p s = (case fs_read_file p s of (None, s1) \<Rightarrow> (Inl e, s1) | (Some d, s1) \<Rightarrow> (Inr d, s1))"

definition okE :: "backup_error \<Rightarrow> (fsys \<Rightarrow> bool \<times> fsys) \<Rightarrow> unit backup_step" where
  "okE e f s = (case f s of (ok, s1) \<Rightarrow> (if ok then Inr () else Inl e, s1))"

fun read_required :: "string \<Rightarrow> (string \<times> string) list \<Rightarrow> (string \<times> string) list backup_step" where
  "read_required dataDir [] = pureE (Inr [])"
| "read_required dataDir ((src, name) # fs) =
     bindE (read_file (MissingFile src) (path_join dataDir src)) (\<lambda>d.
     bindE (read_required dataDir fs) (\<lambda>rest. pureE (Inr ((name, d) # rest))))"

definition read_optional :: "string \<Rightarrow> (string \<times> string) list backup_step" where
  "read_optional dataDir s = (case fs_read_file (path_join dataDir ''logs/openvpn.log'') s of
     (None, s1) \<Rightarrow> (Inr [], s1) | (Some d, s1) \<Rightarrow> (Inr [(''logs/openvpn.log'', d)], s1))"

text \<open>\<open>tmp\<close> is the name \<^verbatim>\<open>CreateTemp\<close> draws; the file is removed before the snapshot is made and, on every way
  out after that, at the end.\<close>

definition snapshotDB :: "string \<Rightarrow> string \<Rightarrow> string backup_step" where
  "snapshotDB snap tmp =
     bindE (okE SnapshotFailed (fs_create_excl tmp)) (\<lambda>_ s.
     case bindE (okE SnapshotFailed (fs_write_file tmp snap)) (\<lambda>_. read_file SnapshotFailed tmp) (snd (fs_remove tmp s)) of
       (r, s1) \<Rightarrow> (r, snd (fs_remove tmp s1)))"

definition Create :: "archive_lib \<Rightarrow> pki_lib \<Rightarrow> pki_env \<Rightarrow> string \<Rightarrow> string \<Rightarrow> string \<Rightarrow> string \<Rightarrow> string backup_step" where
  "Create al px en dataDir snap tmp passphrase =
     bindE (read_required dataDir requiredFiles) (\<lambda>files.
     bindE (read_optional dataDir) (\<lambda>log.
     bindE (snapshotDB snap tmp) (\<lambda>db.
     pureE (case Seal px en (al_pack al (files @ log @ [(''ovcp.db'', db)])) passphrase of
       Inl e \<Rightarrow> Inl (BackupPki e) | Inr a \<Rightarrow> Inr a))))"

subsection \<open>Restore\<close>

text \<open>\<^verbatim>\<open>filepath.Clean\<close>, the components kept as a stack.\<close>

definition clean_step :: "bool \<Rightarrow> string list \<Rightarrow> string \<Rightarrow> string list" where
  "clean_step rooted st c =
     (if c = [] \<or> c = ''.'' then st
      else if c = ''..'' then (case st of
          [] \<Rightarrow> if rooted then [] else [c]
        | x # xs \<Rightarrow> if x = ''..'' then c # st else xs)
      else c # st)"

definition path_clean :: "string \<Rightarrow> string" where
  "path_clean p =
     (let rooted = has_prefix p ''/''; body = join_s ''/'' (rev (foldl (clean_step rooted) [] (split_c CHR ''/'' p))) in
      if rooted then CHR ''/'' # body else if body = [] then ''.'' else body)"

definition restore_path :: "string \<Rightarrow> string \<Rightarrow> string" where
  "restore_path dataDir clean = (if clean = ''.'' then dataDir else path_join dataDir clean)"

fun restore_entries :: "string \<Rightarrow> tar_entry list \<Rightarrow> bool \<Rightarrow> unit backup_step" where
  "restore_entries dataDir [] ended = pureE (if ended then Inr () else Inl CorruptArchive)"
| "restore_entries dataDir (e # es) ended =
     (if \<not> te_Regular e then restore_entries dataDir es ended
      else let clean = path_clean (te_Name e); dst = restore_path dataDir clean in
        if has_prefix clean ''..'' \<or> has_prefix clean ''/'' then pureE (Inl (UnsafePath (te_Name e)))
        else bindE (okE MkdirFailed fs_check) (\<lambda>_.
             bindE (pureE (orE (te_Data e) CorruptArchive)) (\<lambda>d.
             bindE (okE (WriteFailed dst) (fs_write_file dst d)) (\<lambda>_.
             restore_entries dataDir es ended))))"

definition Restore :: "archive_lib \<Rightarrow> pki_lib \<Rightarrow> string \<Rightarrow> string \<Rightarrow> string \<Rightarrow> bool \<Rightarrow> unit backup_step" where
  "Restore al px dataDir sealed_bytes passphrase force s =
     (let (exists, s1) = (if force then (False, s) else fs_stat (path_join dataDir ''pki/ca.crt'') s) in
      if exists then (Inl ErrAlreadyInitialized, s1)
      else (case Open_env px sealed_bytes passphrase of Inl e \<Rightarrow> (Inl (BackupPki e), s1)
        | Inr plain \<Rightarrow> (case al_unpack al plain of None \<Rightarrow> (Inl CorruptArchive, s1)
            | Some (es, ended) \<Rightarrow> restore_entries dataDir es ended s1)))"

subsection \<open>Clean paths\<close>

lemma okE_eq [go_step]:
  "okE e f s = (Inr u, s') \<longleftrightarrow> f s = (True, s')" "okE e f s = (Inl e', s') \<longleftrightarrow> f s = (False, s') \<and> e' = e"
  by (auto simp: okE_def split: prod.splits if_splits)

definition plain_part :: "string \<Rightarrow> bool" where
  "plain_part c = (c \<noteq> [] \<and> c \<noteq> ''.'' \<and> c \<noteq> ''..'' \<and> CHR ''/'' \<notin> set c)"

text \<open>The stack of an unrooted path: plain parts on top of parent references.\<close>

definition clean_stack :: "string list \<Rightarrow> bool" where
  "clean_stack st = (\<exists>ps k. st = ps @ replicate k ''..'' \<and> list_all plain_part ps)"

lemma clean_stack_step:
  assumes "clean_stack st" "CHR ''/'' \<notin> set c" shows "clean_stack (clean_step False st c)"
proof -
  obtain ps k where st: "st = ps @ replicate k ''..''" "list_all plain_part ps" using assms(1) by (auto simp: clean_stack_def)
  show ?thesis
  proof (cases "c = [] \<or> c = ''.''")
    case True
    then show ?thesis using assms(1) by (auto simp: clean_step_def)
  next
    case plain: False
    show ?thesis
    proof (cases "c = ''..''")
      case False
      then have "list_all plain_part (c # ps)" using plain st(2) assms(2) by (simp add: plain_part_def)
      then show ?thesis using plain False st(1) by (auto simp: clean_step_def clean_stack_def intro!: exI [of _ "c # ps"])
    next
      case True
      show ?thesis
      proof (cases ps)
        case Nil
        then have "clean_step False st c = replicate (Suc k) ''..''" using True st(1) by (cases k) (simp_all add: clean_step_def)
        then show ?thesis unfolding clean_stack_def by (intro exI [of _ "[]"] exI [of _ "Suc k"]) simp
      next
        case (Cons p qs)
        then have "clean_step False st c = qs @ replicate k ''..''" using True st by (simp add: clean_step_def plain_part_def)
        then show ?thesis using st(2) Cons unfolding clean_stack_def by auto
      qed
    qed
  qed
qed

lemma clean_stack_fold: "clean_stack st \<Longrightarrow> list_all (\<lambda>c. CHR ''/'' \<notin> set c) cs \<Longrightarrow> clean_stack (foldl (clean_step False) st cs)"
  by (induction cs arbitrary: st) (simp_all add: clean_stack_step)

lemma join_starts: "join_s sep (c # cs) = c @ (if cs = [] then [] else sep @ join_s sep cs)"
  by (cases cs) simp_all

text \<open>A clean path that neither goes up nor is rooted is made of plain parts.\<close>

lemma path_clean_plain:
  assumes "\<not> has_prefix (path_clean n) ''..''" "\<not> has_prefix (path_clean n) ''/''"
  shows "\<exists>ps. list_all plain_part ps \<and> path_clean n = (if ps = [] then ''.'' else join_s ''/'' ps)"
proof -
  have r: "\<not> has_prefix n ''/''" using assms(2) by (auto simp: path_clean_def Let_def has_prefix_def)
  let ?st = "foldl (clean_step False) [] (split_c CHR ''/'' n)"
  have "clean_stack ?st"
    by (rule clean_stack_fold) (auto simp: clean_stack_def list_all_iff dest: split_c_pieces)
  then obtain ps k where st: "?st = ps @ replicate k ''..''" "list_all plain_part ps" by (auto simp: clean_stack_def)
  show ?thesis
  proof (cases k)
    case 0
    have ne: "join_s ''/'' (rev ps) \<noteq> []" if "ps \<noteq> []"
    proof -
      have "rev ps \<noteq> []" using that by simp
      then obtain c cs where c: "rev ps = c # cs" by (cases "rev ps") auto
      then have "c \<in> set ps" by (metis list.set_intros(1) set_rev)
      then have "c \<noteq> []" using st(2) by (auto simp: list_all_iff plain_part_def)
      then show ?thesis by (simp add: c join_starts)
    qed
    then have "path_clean n = (if rev ps = [] then ''.'' else join_s ''/'' (rev ps))"
      using r st(1) 0 by (auto simp: path_clean_def Let_def)
    then show ?thesis using st(2) by (intro exI [of _ "rev ps"]) simp
  next
    case (Suc j)
    then have "rev ?st = ''..'' # replicate j ''..'' @ rev ps" using st(1) by (simp add: replicate_append_same)
    then have "has_prefix (join_s ''/'' (rev ?st)) ''..''" by (simp add: join_starts has_prefix_def)
    then have "has_prefix (path_clean n) ''..''" using r by (auto simp: path_clean_def Let_def has_prefix_def)
    then show ?thesis using assms(1) by simp
  qed
qed

definition inside :: "string \<Rightarrow> string \<Rightarrow> bool" where
  "inside dataDir q = (\<exists>ps. list_all plain_part ps \<and> q = (if ps = [] then dataDir else path_join dataDir (join_s ''/'' ps)))"

lemma restore_path_inside:
  assumes "\<not> has_prefix (path_clean n) ''..''" "\<not> has_prefix (path_clean n) ''/''"
  shows "inside dataDir (restore_path dataDir (path_clean n))"
proof -
  obtain ps where ps: "list_all plain_part ps" "path_clean n = (if ps = [] then ''.'' else join_s ''/'' ps)"
    using path_clean_plain [OF assms] by blast
  have "join_s ''/'' ps \<noteq> ''.''" if "ps \<noteq> []"
  proof
    assume "join_s ''/'' ps = ''.''"
    then show False using that ps(1) by (cases ps) (auto simp: join_starts plain_part_def append_eq_Cons_conv split: if_splits)
  qed
  then show ?thesis using ps unfolding inside_def restore_path_def by (metis (full_types))
qed

subsection \<open>What restore writes\<close>

definition same_outside :: "string \<Rightarrow> fsys \<Rightarrow> fsys \<Rightarrow> bool" where
  "same_outside dataDir s s' = (\<forall>q. inside dataDir q \<or> fs_files s' q = fs_files s q)"

lemma same_outside_order: "reflp (same_outside d)" "transp (same_outside d)"
  by (auto simp: reflp_def transp_def same_outside_def) metis

lemma restore_entries_outside: "keepsE (same_outside dataDir) (restore_entries dataDir es ended)"
proof (induction es)
  case Nil
  show ?case by (simp add: keepsE_pure [OF same_outside_order(1)])
next
  case (Cons e es)
  have c: "keepsE (same_outside dataDir) (okE MkdirFailed fs_check)"
    by (auto simp: keepsE_def okE_def same_outside_def split: prod.splits dest: fs_check_files)
  have w: "keepsE (same_outside dataDir) (okE (WriteFailed q) (fs_write_file q d))" if "inside dataDir q" for q d
    using that by (auto simp: keepsE_def okE_def same_outside_def split: prod.splits if_splits dest!: fs_write_file_files)
  show ?case
    by (cases "te_Regular e"; simp add: Let_def Cons.IH keepsE_pure [OF same_outside_order(1)])
      (intro impI keepsE_bind [OF same_outside_order(2)] c w restore_path_inside keepsE_pure [OF same_outside_order(1)] Cons.IH; simp)
qed

lemma Restore_outside: "keepsE (same_outside dataDir) (Restore al px dataDir b p force)"
proof -
  have "same_outside dataDir s s'" if r: "Restore al px dataDir b p force s = (r, s')" for r s s'
  proof -
    obtain ex s1 where x: "(if force then (False, s) else fs_stat (path_join dataDir ''pki/ca.crt'') s) = (ex, s1)" by (metis surj_pair)
    have s1: "same_outside dataDir s s1"
      using x by (auto simp: fs_stat_def same_outside_def split: if_splits prod.splits)
    show ?thesis
    proof (cases "s' = s1")
      case False
      then obtain es ended where "restore_entries dataDir es ended s1 = (r, s')"
        using r x by (auto simp: Restore_def split: if_splits sum.splits option.splits)
      then show ?thesis using keepsED [OF restore_entries_outside] s1 same_outside_order(2) by (meson transpD)
    qed (simp add: s1)
  qed
  then show ?thesis unfolding keepsE_def by blast
qed

end
