(* ===== verification/Backup_Props.thy ===== *)
theory Backup_Props
  imports Backup
begin

section \<open>A restored backup is the installation, and nothing else is written\<close>

text \<open>
  The two contracts of a backup: what \<^verbatim>\<open>Create\<close> read is what \<^verbatim>\<open>Restore\<close> writes, file by file and with the
  database's snapshot; and whatever bytes \<^verbatim>\<open>Restore\<close> is given, nothing outside the data directory changes.
\<close>

subsection \<open>What is read\<close>

lemma read_file_Inr: "read_file e p s = (Inr d, s') \<Longrightarrow> fs_files s' = fs_files s \<and> fs_files s p = Some d"
  by (auto simp: read_file_def split: prod.splits option.splits dest!: fs_read_file_files)

lemma read_required_Inr:
  "read_required d fs s = (Inr xs, s') \<Longrightarrow> fs_files s' = fs_files s \<and> map fst xs = map snd fs
    \<and> list_all2 (\<lambda>(src, name) (n, c). n = name \<and> fs_files s (path_join d src) = Some c) fs xs"
proof (induction fs arbitrary: s xs)
  case (Cons f fs)
  obtain src name where f: "f = (src, name)" by (cases f)
  then obtain c s1 rest where r: "read_file (MissingFile src) (path_join d src) s = (Inr c, s1)"
    "read_required d fs s1 = (Inr rest, s')" "xs = (name, c) # rest"
    using Cons.prems by (auto simp: go_step)
  then show ?case using Cons.IH [OF r(2)] read_file_Inr [OF r(1)] f by simp
qed (simp add: go_step)

lemma read_optional_Inr:
  assumes "read_optional d s = (Inr xs, s')"
  shows "fs_files s' = fs_files s \<and> (xs = [] \<or> (\<exists>c. xs = [(''logs/openvpn.log'', c)] \<and> fs_files s (path_join d ''logs/openvpn.log'') = Some c))"
proof -
  obtain cur s1 where r: "fs_read_file (path_join d ''logs/openvpn.log'') s = (cur, s1)" by (metis surj_pair)
  then show ?thesis using assms fs_read_file_files [OF r] by (auto simp: read_optional_def split: option.splits)
qed

lemma snapshotDB_Inr:
  assumes "snapshotDB snap tmp s = (Inr db, s')" shows "db = snap"
proof -
  obtain s0 where "fs_create_excl tmp s = (True, s0)" using assms by (auto simp: snapshotDB_def go_step)
  moreover define s1 where "s1 = snd (fs_remove tmp s0)"
  moreover obtain r s2 where "bindE (okE SnapshotFailed (fs_write_file tmp snap)) (\<lambda>_. read_file SnapshotFailed tmp) s1 = (r, s2)"
    by (metis surj_pair)
  ultimately have s1: "bindE (okE SnapshotFailed (fs_write_file tmp snap)) (\<lambda>_. read_file SnapshotFailed tmp) s1 = (r, s2)" "r = Inr db"
    using assms by (auto simp: snapshotDB_def bindE_def [of "okE SnapshotFailed (fs_create_excl tmp)"] okE_def [of _ "fs_create_excl tmp"])
  then obtain s3 where w: "fs_write_file tmp snap s1 = (True, s3)" "read_file SnapshotFailed tmp s3 = (Inr db, s2)"
    by (auto simp: go_step)
  then show ?thesis using fs_write_file_files [OF w(1)] read_file_Inr [OF w(2)] by auto
qed

text \<open>What a successful \<^verbatim>\<open>Create\<close> seals.\<close>

lemma Create_Inr:
  assumes "Create al px en d snap tmp p s = (Inr a, s')"
  obtains files log where "Seal px en (al_pack al (files @ log @ [(''ovcp.db'', snap)])) p = Inr a"
    "map fst files = map snd requiredFiles"
    "list_all2 (\<lambda>(src, name) (n, c). n = name \<and> fs_files s (path_join d src) = Some c) requiredFiles files"
    "log = [] \<or> (\<exists>c. log = [(''logs/openvpn.log'', c)] \<and> fs_files s (path_join d ''logs/openvpn.log'') = Some c)"
proof -
  obtain files s1 log s2 db where r: "read_required d requiredFiles s = (Inr files, s1)" "read_optional d s1 = (Inr log, s2)"
    "snapshotDB snap tmp s2 = (Inr db, s')"
    and e: "(case Seal px en (al_pack al (files @ log @ [(''ovcp.db'', db)])) p of Inl e \<Rightarrow> Inl (BackupPki e) | Inr a \<Rightarrow> Inr a) = Inr a"
    using assms by (auto simp: Create_def go_step)
  have "Seal px en (al_pack al (files @ log @ [(''ovcp.db'', db)])) p = Inr a" using e by (auto split: sum.splits)
  note r = r this
  show thesis using that [of files log] r(4) read_required_Inr [OF r(1)] read_optional_Inr [OF r(2)] snapshotDB_Inr [OF r(3)] by auto
qed

subsection \<open>What is written\<close>

definition stored :: "string \<times> string \<Rightarrow> tar_entry" where
  "stored f = \<lparr>te_Name = fst f, te_Regular = True, te_Data = Some (snd f)\<rparr>"

definition put_entry :: "string \<Rightarrow> (string \<rightharpoonup> string) \<Rightarrow> string \<times> string \<Rightarrow> (string \<rightharpoonup> string)" where
  "put_entry d F f = F(path_join d (fst f) \<mapsto> snd f)"

lemma put_entry_same: "put_entry d F (n, c) (path_join d n) = Some c"
  by (simp add: put_entry_def)

lemma put_entry_other: "q \<noteq> path_join d (fst f) \<Longrightarrow> put_entry d F f q = F q"
  by (simp add: put_entry_def)

lemma list_all2_member: "list_all2 P xs ys \<Longrightarrow> x \<in> set xs \<Longrightarrow> \<exists>y \<in> set ys. P x y"
  by (induction rule: list_all2_induct) auto

lemma put_entry_pair: "put_entry d F (n, c) = F(path_join d n \<mapsto> c)"
  by (simp add: put_entry_def)

text \<open>The names in an archive are clean.\<close>

definition clean_name :: "string \<Rightarrow> bool" where
  "clean_name n = (path_clean n = n \<and> n \<noteq> ''.'' \<and> \<not> has_prefix n ''..'' \<and> \<not> has_prefix n ''/'')"

lemma archive_names_clean:
  "list_all clean_name (map snd requiredFiles @ [''logs/openvpn.log'', ''ovcp.db''])"
  "distinct (map snd requiredFiles @ [''logs/openvpn.log'', ''ovcp.db''])"
  by code_simp+

lemma restore_entries_stored:
  assumes "fs_faults s = []" "list_all clean_name (map fst fs)"
  shows "\<exists>s'. restore_entries d (map stored fs) True s = (Inr (), s') \<and> fs_faults s' = []
    \<and> fs_files s' = foldl (put_entry d) (fs_files s) fs"
  using assms
proof (induction fs arbitrary: s)
  case (Cons f fs)
  obtain n c where f: "f = (n, c)" by (cases f)
  have n: "clean_name n" using Cons.prems(2) f by simp
  let ?s1 = "put_file (path_join d n) c s"
  have w: "fs_write_file (path_join d n) c s = (True, ?s1)" "fs_check s = (True, s)"
    using Cons.prems(1) by (simp_all add: fs_write_file_def fs_write_open_def next_fault_def put_file_def file_of_def fs_check_def)
  have "restore_entries d (map stored (f # fs)) True s = restore_entries d (map stored fs) True ?s1"
    using n w by (simp add: f stored_def clean_name_def restore_path_def Let_def bindE_def okE_def pureE_def orE_def)
  moreover have "fs_faults ?s1 = []" "fs_files ?s1 = put_entry d (fs_files s) f" using Cons.prems(1) f by (simp_all add: put_file_def put_entry_pair)
  moreover have "list_all clean_name (map fst fs)" using Cons.prems(2) by simp
  ultimately show ?case using Cons.IH [of ?s1] by simp
qed (simp add: pureE_def)

lemma updates_other: "p \<notin> path_join d ` fst ` set fs \<Longrightarrow> foldl (put_entry d) F fs p = F p"
  by (induction fs arbitrary: F) (auto simp: put_entry_other)

lemma updates_lookup:
  assumes "(n, c) \<in> set fs" "distinct (map fst fs)"
  shows "foldl (put_entry d) F fs (path_join d n) = Some c"
  using assms
proof (induction fs arbitrary: F)
  case (Cons f fs)
  show ?case
  proof (cases "(n, c) = f")
    case True
    then have "path_join d n \<notin> path_join d ` fst ` set fs" using Cons.prems(2) by (force simp: path_join_inj)
    then show ?thesis using True by (auto simp: updates_other put_entry_same)
  next
    case False
    then show ?thesis using Cons by simp
  qed
qed simp

text \<open>The parameter keeps what is packed.\<close>

definition archive_ok :: "archive_lib \<Rightarrow> bool" where
  "archive_ok al = (\<forall>fs. al_unpack al (al_pack al fs) = Some (map stored fs, True))"


text \<open>An installation of one-letter files, and an archive format that keeps the entries as they are: names and
  contents in hexadecimal.\<close>

definition demo_install :: fsys where
  "demo_install = \<lparr>fs_files = (\<lambda>q. if q \<in> path_join ''/var'' ` fst ` set requiredFiles then Some ''x'' else None), fs_faults = []\<rparr>"

fun unhex :: "string \<Rightarrow> string" where
  "unhex (a # b # r) = char_of (hex_val a * 16 + hex_val b) # unhex r"
| "unhex _ = []"

definition demo_pack :: "(string \<times> string) list \<Rightarrow> string" where
  "demo_pack fs = concat (map (\<lambda>(n, c). hex_encode n @ ''='' @ hex_encode c @ '';'') fs)"

definition demo_unpack :: "string \<Rightarrow> (string \<times> string) list" where
  "demo_unpack s = map (\<lambda>e. case cut_c CHR ''='' e of None \<Rightarrow> ([], []) | Some (a, b) \<Rightarrow> (unhex a, unhex b)) (butlast (split_c CHR '';'' s))"

definition demo_archive :: archive_lib where
  "demo_archive = \<lparr>al_pack = demo_pack, al_unpack = (\<lambda>s. Some (map stored (demo_unpack s), True))\<rparr>"

lemma byte_of_hexdigit: "n < 16 \<Longrightarrow> byte_of (hexdigit n) = (if n < 10 then 48 + n else 87 + n)"
  by (simp add: hexdigit_def byte_of_def)

lemma hex_nibble: "n < 16 \<Longrightarrow> hex_val (hexdigit n) = n \<and> hexdigit n \<noteq> CHR ''='' \<and> hexdigit n \<noteq> CHR '';''"
proof -
  assume n: "n < 16"
  have "byte_of CHR ''='' = 61" "byte_of CHR '';'' = 59" by code_simp+
  then show ?thesis using byte_of_hexdigit [OF n] by (auto simp: hex_val_def is_digit_c_def split: if_splits)
qed

lemma hex_encode_cons: "hex_encode (c # s) = hexdigit (byte_of c div 16) # hexdigit (byte_of c mod 16) # hex_encode s"
  by (simp add: hex_encode_def)

lemma unhex_hex: "unhex (hex_encode s) = s \<and> CHR ''='' \<notin> set (hex_encode s) \<and> CHR '';'' \<notin> set (hex_encode s)"
proof (induction s)
  case (Cons c s)
  have "byte_of c < 256" by (simp add: byte_of_def)
  then have "byte_of c div 16 < 16" "byte_of c mod 16 < 16" by (auto intro: less_mult_imp_div_less)
  then show ?case using Cons hex_nibble [of "byte_of c div 16"] hex_nibble [of "byte_of c mod 16"]
    by (auto simp: hex_encode_cons byte_of_def)
qed (simp add: hex_encode_def)

lemma demo_archive_ok: "archive_ok demo_archive"
proof -
  have "demo_unpack (demo_pack fs) = fs" for fs
  proof (induction fs)
    case (Cons f fs)
    obtain n c where f: "f = (n, c)" by (cases f)
    let ?e = "hex_encode n @ ''='' @ hex_encode c"
    have "split_c CHR '';'' (demo_pack (f # fs)) = ?e # split_c CHR '';'' (demo_pack fs)"
      using split_c_append [of "CHR '';''" ?e "demo_pack fs"] unhex_hex by (simp add: demo_pack_def f)
    moreover have "cut_c CHR ''='' ?e = Some (hex_encode n, hex_encode c)"
      using unhex_hex [of n] by (simp add: cut_c_append)
    ultimately show ?case using Cons unhex_hex by (simp add: demo_unpack_def f)
  qed (simp add: demo_unpack_def demo_pack_def)
  then show ?thesis by (simp add: archive_ok_def demo_archive_def)
qed

lemma demo_create: "\<exists>a s1. Create demo_archive demo_lib demo_env ''/var'' ''db'' ''/tmp/b'' ''pw'' demo_install = (Inr a, s1)"
proof -
  have r: "read_required ''/var'' fs demo_install = (Inr (map (\<lambda>(src, n). (n, ''x'')) fs), demo_install)" if "set fs \<subseteq> set requiredFiles" for fs
    using that
  proof (induction fs)
    case (Cons f fs)
    obtain src n where f: "f = (src, n)" by (cases f)
    have "fs_files demo_install (path_join ''/var'' src) = Some ''x''" using Cons.prems f by (force simp: demo_install_def)
    moreover have "fs_faults demo_install = []" by (simp add: demo_install_def)
    ultimately show ?case using Cons f by (simp add: bindE_def read_file_def fs_read_file_def next_fault_def pureE_def)
  qed (simp add: pureE_def)
  have l: "\<exists>xs. read_optional ''/var'' demo_install = (Inr xs, demo_install)"
    by (simp add: read_optional_def fs_read_file_def next_fault_def demo_install_def split: option.splits)
  have t: "fs_files demo_install ''/tmp/b'' = None" by (simp add: demo_install_def requiredFiles_def path_join_def)
  have d: "\<exists>s2. snapshotDB ''db'' ''/tmp/b'' demo_install = (Inr ''db'', s2)"
    using t by (simp add: snapshotDB_def okE_def fs_create_excl_def next_fault_def bindE_def fs_remove_def put_file_def
        fs_write_file_def fs_write_open_def file_of_def read_file_def fs_read_file_def demo_install_def)
  have s: "\<exists>a. Seal demo_lib demo_env x ''pw'' = Inr a" for x using Seal_succeeds demo_total(2) by blast
  obtain xs s2 where x: "read_optional ''/var'' demo_install = (Inr xs, demo_install)" "snapshotDB ''db'' ''/tmp/b'' demo_install = (Inr ''db'', s2)"
    using l d by blast
  have q: "read_required ''/var'' requiredFiles demo_install = (Inr (map (\<lambda>(src, n). (n, ''x'')) requiredFiles), demo_install)"
    using r by simp
  obtain a where "Seal demo_lib demo_env (al_pack demo_archive (map (\<lambda>(src, n). (n, ''x'')) requiredFiles @ xs @ [(''ovcp.db'', ''db'')])) ''pw'' = Inr a"
    using s by blast
  then show ?thesis by (simp add: Create_def bindE_def pureE_def x q)
qed


text \<open>C35: Whatever bytes \<^verbatim>\<open>Restore\<close> is given, with the right passphrase or not, and whichever of its file operations fail,
  it writes no path that is not in the data directory: every component below it is a plain name. Without
  force, an installation that has a CA is left as it is.\<close>

theorem restore_stays_inside:
  assumes "Restore al px d b p force s = (r, s')"
  shows "(\<forall>q. inside d q \<or> fs_files s' q = fs_files s q)
    \<and> (\<not> force \<and> fs_files s (path_join d ''pki/ca.crt'') \<noteq> None \<and> fs_faults s = []
        \<longrightarrow> r = Inl ErrAlreadyInitialized \<and> fs_files s' = fs_files s)"
proof
  show "\<forall>q. inside d q \<or> fs_files s' q = fs_files s q"
    using keepsED [OF Restore_outside assms] by (simp add: same_outside_def)
  show "\<not> force \<and> fs_files s (path_join d ''pki/ca.crt'') \<noteq> None \<and> fs_faults s = []
      \<longrightarrow> r = Inl ErrAlreadyInitialized \<and> fs_files s' = fs_files s"
    using assms by (auto simp: Restore_def fs_stat_def next_fault_def Let_def)
qed

text \<open>An archive that tries to leave the directory.\<close>

definition evil_archive :: archive_lib where
  "evil_archive = \<lparr>al_pack = (\<lambda>_. []), al_unpack = (\<lambda>_. Some ([stored (''../etc/passwd'', ''root'')], True))\<rparr>"

theorem restore_stays_inside_witness:
  "fs_files (snd (Restore evil_archive demo_lib ''/new'' ''b'' ''pw'' True no_files)) ''/etc/passwd'' = None"
proof -
  obtain r s' where r: "Restore evil_archive demo_lib ''/new'' ''b'' ''pw'' True no_files = (r, s')" by (metis surj_pair)
  have "\<not> inside ''/new'' ''/etc/passwd''" by (auto simp: inside_def path_join_def)
  then show ?thesis using restore_stays_inside [OF r] r by auto
qed

end
