(* ===== verification/Api_Dns.thy ===== *)
theory Api_Dns
  imports Api_Actions Api_Config Mgmt "HOL-Library.List_Lexorder" "HOL-Library.Char_ord"
begin

section \<open>The internal DNS records\<close>

text \<open>
  \<^verbatim>\<open>src/internal/api/dns.go\<close>: the hosts file dnsmasq answers internal names from, and the list of records shown.
  Strings are ordered byte by byte, as \<^verbatim>\<open>sort.Strings\<close> orders them. \<open>live\<close> are the sessions openvpn reports.
\<close>

text \<open>\<^verbatim>\<open>NewCertRow\<close>, times in seconds; \<open>now\<close> is in nanoseconds.\<close>

record cert_entry =
  cw_Status :: string
  cw_Kind :: string
  cw_CN :: string
  cw_Serial :: string
  cw_Issued :: int
  cw_Expires :: int
  cw_IncludeDNS :: bool
  cw_IP :: string

definition NewCertRow :: "int \<Rightarrow> cert \<Rightarrow> cert_entry" where
  "NewCertRow now c = \<lparr>cw_Status = Status now c, cw_Kind = ct_Kind c, cw_CN = ct_CN c, cw_Serial = ct_Serial c,
     cw_Issued = ct_IssuedAt c, cw_Expires = ct_NotAfter c, cw_IncludeDNS = ct_IncludeDNS c, cw_IP = []\<rparr>"

definition handleCertList :: "int \<Rightarrow> store \<Rightarrow> cert_entry list" where
  "handleCertList now st = map (NewCertRow now) (ListCerts st)"

subsection \<open>certs.hosts\<close>

definition hostAliases :: "string \<Rightarrow> string \<Rightarrow> string" where
  "hostAliases cn domain = (case cut_c CHR ''.'' cn of
     Some (short, _) \<Rightarrow> cn @ '' '' @ short
   | None \<Rightarrow> if domain \<noteq> [] then cn @ ''.'' @ domain @ '' '' @ cn else cn)"

definition dns_included :: "cert list \<Rightarrow> string \<Rightarrow> bool" where
  "dns_included certs cn = (\<exists>c \<in> set certs. ct_RevokedAt c = None \<and> ct_IncludeDNS c \<and> ct_CN c = cn)"

definition client_lines :: "cert list \<Rightarrow> vpn_client list \<Rightarrow> string \<Rightarrow> string list" where
  "client_lines certs live serverCN = map (\<lambda>cl. vc_VirtualAddress cl @ '' '' @ hostAliases (vc_CN cl) (Domain serverCN) @ NL)
     (filter (\<lambda>cl. \<not> (vc_CN cl = serverCN \<or> vc_VirtualAddress cl = [] \<or> \<not> dns_included certs (vc_CN cl))) live)"

definition hosts_header :: string where
  "hosts_header = ''# generated by ovcp '' @ u8 [0xE2, 0x80, 0x94] @ '' do not edit; regenerated on every cert change and stats tick'' @ NL"

definition server_lines :: "string \<Rightarrow> nat list option \<Rightarrow> string list" where
  "server_lines serverCN serverIP = (case serverIP of None \<Rightarrow> []
     | Some ip \<Rightarrow> if serverCN \<noteq> [] \<and> parse_ip serverCN = None
         then [ip_string ip @ '' '' @ hostAliases serverCN (Domain serverCN) @ NL] else [])"

definition CertsHostsContent :: "cert list \<Rightarrow> vpn_client list \<Rightarrow> string \<Rightarrow> nat list option \<Rightarrow> string" where
  "CertsHostsContent certs live serverCN serverIP =
     hosts_header @ concat (server_lines serverCN serverIP) @ concat (sort (client_lines certs live serverCN))"

text \<open>\<open>path\<close> is \<^verbatim>\<open>CertsHostsPath\<close>, empty when dnsmasq is not set up.\<close>

definition tun_ip :: "'w server \<Rightarrow> store \<Rightarrow> nat list option" where
  "tun_ip S st = (case ServerTunIP (LoadConfig S st) of Inl _ \<Rightarrow> None | Inr ip \<Rightarrow> Some ip)"

definition RefreshCertsHosts :: "'w server \<Rightarrow> string \<Rightarrow> vpn_client list \<Rightarrow> ('w, unit) action" where
  "RefreshCertsHosts S path live = (if path = [] then pureE (Inr ())
     else bindE (getE (\<lambda>s. CertsHostsContent (ListCerts (sv_store s)) live (sr_DefaultRemote S) (tun_ip S (sv_store s)))) (\<lambda>data.
          onFS (\<lambda>_. Text ''write'') (WriteAtomicHosts path data)))"

subsection \<open>The list of records\<close>

text \<open>The address of each name: the last session with one wins, the server's overrides.\<close>

definition record_ips :: "vpn_client list \<Rightarrow> string \<Rightarrow> nat list option \<Rightarrow> string \<Rightarrow> string option" where
  "record_ips live serverCN serverIP =
     (let ips = foldl (\<lambda>m cl. if vc_VirtualAddress cl \<noteq> [] then m(vc_CN cl \<mapsto> vc_VirtualAddress cl) else m) Map.empty live in
      case serverIP of None \<Rightarrow> ips | Some ip \<Rightarrow> ips(serverCN \<mapsto> ip_string ip))"

definition Records :: "int \<Rightarrow> cert list \<Rightarrow> vpn_client list \<Rightarrow> string \<Rightarrow> nat list option \<Rightarrow> string \<Rightarrow> cert_entry list \<times> string" where
  "Records now certs live serverCN serverIP custom =
     (map (\<lambda>c. if ct_RevokedAt c = None
        then (NewCertRow now c)\<lparr>cw_IP := (case record_ips live serverCN serverIP (ct_CN c) of None \<Rightarrow> [] | Some a \<Rightarrow> a)\<rparr>
        else NewCertRow now c) certs, custom)"

text \<open>\<open>status\<close> is the management client's answer; no answer and an unreadable file count as empty.\<close>

definition handleRecords :: "'w server \<Rightarrow> int \<Rightarrow> vpn_client list option \<Rightarrow> string \<Rightarrow> ('w, cert_entry list \<times> string) action" where
  "handleRecords S now status customPath =
     bindE (current_hosts customPath) (\<lambda>custom.
     getE (\<lambda>s. Records now (ListCerts (sv_store s)) (case status of None \<Rightarrow> [] | Some l \<Rightarrow> l) (sr_DefaultRemote S)
       (tun_ip S (sv_store s)) custom))"

text \<open>\<^verbatim>\<open>handleCustomHostsPreview\<close>: a file that is missing counts as empty, any other failure is an error.\<close>

definition read_existing :: "string \<Rightarrow> ('w, string) action" where
  "read_existing path s = (case fs_read_file path (sv_fs s) of (cur, f) \<Rightarrow>
     ((case cur of Some d \<Rightarrow> Inr d
       | None \<Rightarrow> if fs_files (sv_fs s) path = None \<and> fst (next_fault (sv_fs s)) = None then Inr []
           else Inl (HttpError 500 (Text ''read''))), s\<lparr>sv_fs := f\<rparr>))"

definition handleCustomHostsPreview :: "string \<Rightarrow> string \<Rightarrow> ('w, preview) action" where
  "handleCustomHostsPreview path content =
     bindE (read_existing path) (\<lambda>cur. pureE (Inr (let diff = Diff cur content in \<lparr>pv_Diff = diff, pv_Changed = (length diff > 0), pv_Warning = []\<rparr>)))"

end
