(* ===== verification/Api_Dns_Props.thy ===== *)
theory Api_Dns_Props
  imports Api_Dns Api_Actions_Props
begin

section \<open>The hosts file lists the connected clients\<close>

text \<open>
  A hosts file is read line by line; a line that is empty or starts with \<^verbatim>\<open>#\<close> has no entry. The entries of
  certs.hosts are those of the sessions whose certificate is active and included, and of the server.
\<close>

definition hosts_entries :: "string \<Rightarrow> string list" where
  "hosts_entries content = filter (\<lambda>l. l \<noteq> [] \<and> hd l \<noteq> CHR ''#'') (split_c LF content)"

text \<open>What a session may put into a line: no line break, no comment. Names are checked when they are issued.\<close>

definition hosts_safe :: "vpn_client list \<Rightarrow> string \<Rightarrow> bool" where
  "hosts_safe live serverCN = (LF \<notin> set serverCN
     \<and> list_all (\<lambda>cl. LF \<notin> set (vc_CN cl @ vc_VirtualAddress cl) \<and> \<not> has_prefix (vc_VirtualAddress cl) ''#'') live)"

definition listed :: "store \<Rightarrow> string \<Rightarrow> vpn_client \<Rightarrow> bool" where
  "listed st serverCN cl = (vc_CN cl \<noteq> serverCN \<and> vc_VirtualAddress cl \<noteq> []
     \<and> (\<exists>c \<in> set (st_certs st). ct_CN c = vc_CN cl \<and> ct_RevokedAt c = None \<and> ct_IncludeDNS c))"

lemma split_lines:
  "(\<And>l. l \<in> set ls \<Longrightarrow> LF \<notin> set l) \<Longrightarrow> split_c LF (concat (map (\<lambda>l. l @ NL) ls) @ rest) = ls @ split_c LF rest"
  by (induction ls) (simp_all add: split_c_append)

lemma hosts_entries_lines:
  assumes "\<And>l. l \<in> set ls \<Longrightarrow> LF \<notin> set l"
  shows "hosts_entries (concat (map (\<lambda>l. l @ NL) ls)) = filter (\<lambda>l. l \<noteq> [] \<and> hd l \<noteq> CHR ''#'') ls"
  using split_lines [of ls "[]"] assms by (simp add: hosts_entries_def)

lemma cut_c_subset: "cut_c c s = Some (a, b) \<Longrightarrow> set a \<subseteq> set s \<and> set b \<subseteq> set s"
  by (auto simp: cut_c_Some)

lemma set_Domain: "set (Domain cn) \<subseteq> set cn"
proof (cases "cut_c CHR ''.'' cn")
  case (Some ab)
  then show ?thesis using cut_c_subset [of "CHR ''.''" cn] by (cases ab) (simp add: Domain_def)
qed (simp add: Domain_def)

lemma set_hostAliases: "set (hostAliases cn d) \<subseteq> set cn \<union> set d \<union> {CHR '' '', CHR ''.''}"
proof (cases "cut_c CHR ''.'' cn")
  case (Some ab)
  then show ?thesis using cut_c_subset [of "CHR ''.''" cn] by (cases ab) (auto simp: hostAliases_def)
qed (auto simp: hostAliases_def)

lemma alias_no_LF: "LF \<notin> set cn \<Longrightarrow> LF \<notin> set sn \<Longrightarrow> LF \<notin> set (hostAliases cn (Domain sn))"
  using set_hostAliases [of cn "Domain sn"] set_Domain [of sn] by auto

lemma tun_ip_bytes:
  assumes "tun_ip S st = Some ip" shows "length ip = 4"
  using assms to4_length by (auto simp: tun_ip_def ServerTunIP_def split: sum.splits option.splits prod.splits)

lemma tun_ip_string:
  assumes "tun_ip S st = Some ip" shows "LF \<notin> set (ip_string ip)" "\<exists>c r. ip_string ip = c # r \<and> c \<noteq> CHR ''#''"
proof -
  have ds: "ip_string ip = dotted ip" using tun_ip_bytes [OF assms] by (auto simp: ip_string_def to4_def)
  show "LF \<notin> set (ip_string ip)" using set_dotted [of LF ip] by (auto simp: ds is_digit_c_def byte_of_def)
  obtain x y xs where ip: "ip = x # y # xs" using tun_ip_bytes [OF assms] by (cases ip; cases "tl ip") auto
  obtain c r where n: "nat_str x = c # r" using nat_str_nonempty [of x] by (cases "nat_str x") auto
  have "is_digit_c c" using set_nat_str [of c x] n by simp
  then have "c \<noteq> CHR ''#''" by (auto simp: is_digit_c_def byte_of_def)
  then show "\<exists>c r. ip_string ip = c # r \<and> c \<noteq> CHR ''#''" unfolding ds using n by (auto simp: ip dotted_def)
qed

definition served :: "'w server \<Rightarrow> store \<Rightarrow> string list" where
  "served S st = (case tun_ip S st of None \<Rightarrow> [] | Some ip \<Rightarrow>
     if sr_DefaultRemote S \<noteq> [] \<and> parse_ip (sr_DefaultRemote S) = None
     then [ip_string ip @ '' '' @ hostAliases (sr_DefaultRemote S) (Domain (sr_DefaultRemote S))] else [])"

definition client_entry :: "string \<Rightarrow> vpn_client \<Rightarrow> string" where
  "client_entry serverCN cl = vc_VirtualAddress cl @ '' '' @ hostAliases (vc_CN cl) (Domain serverCN)"

lemma sort_lines: "\<exists>ys. set ys = set xs \<and> sort (map (\<lambda>l. l @ NL) xs) = map (\<lambda>l. l @ NL) ys"
proof (intro exI conjI)
  let ?s = "sort (map (\<lambda>l. l @ NL) xs)"
  have mem: "l \<in> set ?s \<Longrightarrow> butlast l \<in> set xs \<and> butlast l @ NL = l" for l by auto
  have "map (\<lambda>l. l @ NL) (map butlast ?s) = map (\<lambda>l. l) ?s" unfolding map_map comp_def using mem by (intro map_cong) blast+
  then show "?s = map (\<lambda>l. l @ NL) (map butlast ?s)" by simp
  show "set (map butlast ?s) = set xs" by (simp add: image_image)
qed

lemma client_lines_entries:
  "client_lines (ListCerts st) live sn = map (\<lambda>l. l @ NL) (map (client_entry sn) (filter (listed st sn) live))"
proof -
  have "filter (\<lambda>cl. \<not> (vc_CN cl = sn \<or> vc_VirtualAddress cl = [] \<or> \<not> dns_included (ListCerts st) (vc_CN cl))) live
      = filter (listed st sn) live"
    by (rule filter_cong) (auto simp: listed_def dns_included_def ListCerts_def)
  then show ?thesis by (simp add: client_lines_def client_entry_def comp_def)
qed

lemma server_lines_served: "server_lines (sr_DefaultRemote S) (tun_ip S st) = map (\<lambda>l. l @ NL) (served S st)"
  by (simp add: server_lines_def served_def split: option.splits)

lemma dash_no_LF: "LF \<notin> set (u8 [0xE2, 0x80, 0x94])"
  by code_simp

lemma hosts_header_comment: "\<exists>h. hosts_header = (CHR ''#'' # h) @ NL \<and> LF \<notin> set h"
proof (intro exI conjI)
  let ?h = "tl (butlast hosts_header)"
  show "hosts_header = (CHR ''#'' # ?h) @ NL" by (simp add: hosts_header_def u8_def)
  show "LF \<notin> set ?h" using dash_no_LF by (simp add: hosts_header_def u8_def)
qed

lemma content_entries:
  assumes "hosts_safe live (sr_DefaultRemote S)"
  shows "set (hosts_entries (CertsHostsContent (ListCerts st) live (sr_DefaultRemote S) (tun_ip S st))) =
    client_entry (sr_DefaultRemote S) ` {cl \<in> set live. listed st (sr_DefaultRemote S) cl} \<union> set (served S st)"
proof -
  let ?sn = "sr_DefaultRemote S"
  define es where "es = map (client_entry ?sn) (filter (listed st ?sn) live)"
  obtain ys where ys: "set ys = set es" "sort (client_lines (ListCerts st) live ?sn) = map (\<lambda>l. l @ NL) ys"
    using sort_lines [of es] by (auto simp: client_lines_entries es_def)
  obtain h where h: "hosts_header = (CHR ''#'' # h) @ NL" "LF \<notin> set h" using hosts_header_comment by blast
  define ls where "ls = (CHR ''#'' # h) # served S st @ ys"
  have "CertsHostsContent (ListCerts st) live ?sn (tun_ip S st) = concat (map (\<lambda>l. l @ NL) ls)"
    by (simp add: CertsHostsContent_def h ls_def ys server_lines_served)
  moreover have es: "LF \<notin> set e \<and> e \<noteq> [] \<and> hd e \<noteq> CHR ''#''" if e: "e \<in> set es" for e
  proof -
    obtain cl where cl: "cl \<in> set live" "e = client_entry ?sn cl" "listed st ?sn cl" using e by (auto simp: es_def)
    obtain c r where a: "vc_VirtualAddress cl = c # r" using cl(3) by (cases "vc_VirtualAddress cl") (auto simp: listed_def)
    show ?thesis using assms cl(1,2) a alias_no_LF [of "vc_CN cl" ?sn]
      by (auto simp: hosts_safe_def list_all_iff client_entry_def has_prefix_def)
  qed
  moreover have sv: "LF \<notin> set e \<and> e \<noteq> [] \<and> hd e \<noteq> CHR ''#''" if e: "e \<in> set (served S st)" for e
  proof -
    obtain ip where ip: "tun_ip S st = Some ip" "e = ip_string ip @ '' '' @ hostAliases ?sn (Domain ?sn)"
      using e by (cases "tun_ip S st") (auto simp: served_def split: if_splits)
    show ?thesis using tun_ip_string [OF ip(1)] ip(2) assms alias_no_LF [of ?sn ?sn] by (auto simp: hosts_safe_def)
  qed
  ultimately have "hosts_entries (CertsHostsContent (ListCerts st) live ?sn (tun_ip S st)) = filter (\<lambda>l. l \<noteq> [] \<and> hd l \<noteq> CHR ''#'') ls"
    using ys(1) h(2) by (subst hosts_entries_lines [symmetric]) (auto simp: ls_def)
  moreover have "filter (\<lambda>l. l \<noteq> [] \<and> hd l \<noteq> CHR ''#'') ls = served S st @ ys"
    using es sv ys(1) by (simp add: ls_def)
  ultimately show ?thesis using ys(1) by (auto simp: es_def)
qed

text \<open>C36: After a refresh the entries of certs.hosts are exactly those of the connected clients whose certificate is
  active and included, at the address of their session, and of the server; nothing a client is called adds
  another. A refresh that fails leaves the file as it was, and none touches the store or another file.\<close>

theorem hosts_file_lists_live_clients:
  assumes "path \<noteq> []" "hosts_safe live (sr_DefaultRemote S)" "RefreshCertsHosts S path live s = (r, s')"
  shows "sv_store s' = sv_store s \<and> (\<forall>q. q \<noteq> path \<and> q \<noteq> hosts_tmp path \<longrightarrow> fs_files (sv_fs s') q = fs_files (sv_fs s) q)
    \<and> (case r of Inl _ \<Rightarrow> fs_files (sv_fs s') path = fs_files (sv_fs s) path
       | Inr _ \<Rightarrow> set (hosts_entries (file_of (sv_fs s') path)) =
           client_entry (sr_DefaultRemote S) ` {cl \<in> set live. listed (sv_store s) (sr_DefaultRemote S) cl} \<union> set (served S (sv_store s)))"
proof -
  let ?d = "CertsHostsContent (ListCerts (sv_store s)) live (sr_DefaultRemote S) (tun_ip S (sv_store s))"
  obtain r1 f where w: "WriteAtomicHosts path ?d (sv_fs s) = (r1, f)" by (metis surj_pair)
  have s': "s' = s\<lparr>sv_fs := f\<rparr>" "is_ok r \<longleftrightarrow> is_ok r1"
    using assms(1,3) w by (auto simp: RefreshCertsHosts_def bindE_def getE_def onFS_def split: sum.splits)
  have "\<forall>q. q \<noteq> path \<and> q \<noteq> hosts_tmp path \<longrightarrow> fs_files f q = fs_files (sv_fs s) q" using WriteAtomicHosts_others [OF w] by blast
  moreover have "fs_files f path = fs_files (sv_fs s) path" if "\<not> is_ok r1"
    using that w WriteAtomicHosts_refused by (cases r1) auto
  moreover have "file_of f path = ?d" if "is_ok r1"
    using that w WriteAtomicHosts_written by (cases r1) (auto simp: file_of_def)
  ultimately show ?thesis using content_entries [OF assms(2), of "sv_store s"] s' by (cases r) auto
qed

lemma WriteAtomicHosts_succeeds: "fs_faults s = [] \<Longrightarrow> \<exists>f. WriteAtomicHosts p d s = (Inr (), f)"
  by (simp add: WriteAtomicHosts_def fs_read_file_def next_fault_def bindE_def bool_step_def fs_write_file_def fs_write_open_def
      put_file_def fs_rename_def file_of_def)

definition dns_bob :: cert where
  "dns_bob = \<lparr>ct_Serial = ''0a'', ct_CN = ''bob'', ct_Kind = ''client'', ct_PEM = [], ct_IssuedAt = 1, ct_NotAfter = 9, ct_RevokedAt = None,
     ct_IncludeDNS = True\<rparr>"

definition dns_session :: vpn_client where
  "dns_session = \<lparr>vc_CID = ''0'', vc_CN = ''bob'', vc_RealAddress = ''192.0.2.7:1194'', vc_VirtualAddress = ''10.8.0.2'',
     vc_BytesRecv = 0, vc_BytesSent = 0, vc_ConnectedSince = None, vc_Cipher = []\<rparr>"

definition dns_host :: "unit srv" where
  "dns_host = \<lparr>sv_store = empty_store\<lparr>st_certs := [dns_bob]\<rparr>, sv_fs = no_files, sv_world = ()\<rparr>"

theorem hosts_file_lists_live_clients_witness:
  "(let s' = snd (RefreshCertsHosts demo_server ''/d/dns/certs.hosts'' [dns_session] dns_host) in
    ''10.8.0.2 bob.example bob'' \<in> set (hosts_entries (file_of (sv_fs s') ''/d/dns/certs.hosts'')))"
proof -
  let ?run = "RefreshCertsHosts demo_server ''/d/dns/certs.hosts'' [dns_session] dns_host"
  have "fs_faults (sv_fs dns_host) = []" by (simp add: dns_host_def)
  then obtain f where "WriteAtomicHosts ''/d/dns/certs.hosts'' (CertsHostsContent (ListCerts (sv_store dns_host)) [dns_session]
      (sr_DefaultRemote demo_server) (tun_ip demo_server (sv_store dns_host))) (sv_fs dns_host) = (Inr (), f)"
    using WriteAtomicHosts_succeeds by blast
  then obtain s' where r: "?run = (Inr (), s')" by (simp add: RefreshCertsHosts_def bindE_def getE_def onFS_def)
  have safe: "hosts_safe [dns_session] (sr_DefaultRemote demo_server)"
    by (simp add: hosts_safe_def dns_session_def demo_server_def has_prefix_def)
  have "client_entry (sr_DefaultRemote demo_server) dns_session = ''10.8.0.2 bob.example bob''" by code_simp
  moreover have "listed (sv_store dns_host) (sr_DefaultRemote demo_server) dns_session"
    by (simp add: listed_def dns_host_def dns_session_def dns_bob_def demo_server_def)
  ultimately show ?thesis using hosts_file_lists_live_clients [OF _ safe r] by (auto simp: r)
qed

end
