(* ===== verification/Api_Handlers.thy ===== *)
theory Api_Handlers
  imports Api_Dns Api_Certs Api_Upstream Telegram Stats Backup
begin

section \<open>The workers through the API, and the remaining handlers\<close>

text \<open>
  The rest of \<^verbatim>\<open>src/internal/api/handlers.go\<close> and \<^verbatim>\<open>results.go\<close>: the lifecycle operations on openvpn, dnsmasq
  and the bot, the overview of \<^verbatim>\<open>BuildStatus\<close>, the bot's settings, backup, and the handlers that only
  pass a request on to an action. The workers are records of methods on the whole state, as their start reads the
  settings; \<open>user\<close> is the signed-in user.
\<close>

subsection \<open>Lifecycle operations\<close>

text \<open>\<open>wk_DNS\<close> is None when dnsmasq is not set up.\<close>

record 'w workers =
  wk_VPN :: "('w srv) lifecycle"
  wk_DNS :: "('w srv) lifecycle option"
  wk_Telegram :: "('w srv) telegram_controller"
  wk_AfterVPNStart :: "('w srv) closure option"
  wk_Clients :: "'w \<Rightarrow> (string, vpn_client list) result"
  wk_started :: int

definition opStatus :: "ctl_error \<Rightarrow> int" where
  "opStatus e = (case e of Busy _ \<Rightarrow> 409 | TelegramBusy \<Rightarrow> 409 | UnknownOp \<Rightarrow> 404 | _ \<Rightarrow> 502)"

definition op_error :: "ctl_error \<Rightarrow> api_error" where
  "op_error e = HttpError (opStatus e) (Text (err_text e))"

text \<open>None is a panic of the operation, after which \<^verbatim>\<open>net/http\<close> drops the connection. A status is a read, never audited.\<close>

definition handleProc :: "'w workers \<Rightarrow> string \<Rightarrow> ('w srv) lifecycle \<Rightarrow> bool \<Rightarrow> int \<Rightarrow> string \<Rightarrow> string \<Rightarrow> 'w srv
    \<Rightarrow> (api_error, control_result) result option \<times> 'w srv" where
  "handleProc W name target isVPN now user oper s =
    (case RunOp (wk_started W) target oper isVPN (if isVPN then wk_AfterVPNStart W else None) s of
       (None, s1) \<Rightarrow> (None, s1)
     | (Some (Inl e), s1) \<Rightarrow> (Some (Inl (op_error e)), s1)
     | (Some (Inr res), s1) \<Rightarrow>
         if oper = ''status'' then (Some (Inr res), s1)
         else (case audit now user (name @ ''_'' @ oper) (''pid='' @ itoa (cr_Pid res)) s1 of (_, s2) \<Rightarrow> (Some (Inr res), s2)))"

definition bool_str :: "bool \<Rightarrow> string" where
  "bool_str b = (if b then ''true'' else ''false'')"

definition handleTelegramOp :: "'w workers \<Rightarrow> int \<Rightarrow> string \<Rightarrow> string \<Rightarrow> ('w, telegram_status) action" where
  "handleTelegramOp W now user oper s =
    (case RunTelegramOp (wk_Telegram W) oper s of
       (Inl e, s1) \<Rightarrow> (Inl (op_error e), s1)
     | (Inr st, s1) \<Rightarrow>
         if oper = ''status'' then (Inr st, s1)
         else bindE (audit now user (''telegram_'' @ oper) (''running='' @ bool_str (tg_Running st))) (\<lambda>_. pureE (Inr st)) s1)"

text \<open>The bot's settings: the admin first, so that the goodbye to the replaced one still goes out. A name that
  makes the bot panic is None.\<close>

definition set_admin_step :: "(bot_call list \<Rightarrow> 'w \<Rightarrow> 'w) \<Rightarrow> string \<Rightarrow> 'w srv \<Rightarrow> 'w srv option" where
  "set_admin_step post admin s = map_option (\<lambda>(calls, st). s\<lparr>sv_store := st, sv_world := post calls (sv_world s)\<rparr>)
     (SetAdmin admin (sv_store s))"

definition SetTelegram :: "(string \<Rightarrow> bool) \<Rightarrow> (bot_call list \<Rightarrow> 'w \<Rightarrow> 'w) \<Rightarrow> int \<Rightarrow> string \<Rightarrow> string \<Rightarrow> string \<Rightarrow> 'w srv
    \<Rightarrow> ((api_error, unit) result \<times> 'w srv) option" where
  "SetTelegram valid post now actor admin token s =
    (if admin = [] \<and> token = [] then Some (Inl (Text ''nothing to set: an admin and/or a token''), s)
     else (case (if admin = [] then Some s
                 else map_option (\<lambda>s1. snd (audit now actor ''telegram_admin_change'' (''admin='' @ admin) s1 :: (api_error, unit) result \<times> 'w srv))
                   (set_admin_step post admin s)) of
         None \<Rightarrow> None
       | Some s2 \<Rightarrow>
         if token = [] then Some (Inr (), s2)
         else (case SetToken valid token (sv_store s2) of
             None \<Rightarrow> Some (Inl (Text ''telegram: token''), s2)
           | Some st \<Rightarrow> Some (audit now actor ''telegram_token_change'' [] (s2\<lparr>sv_store := st\<rparr>)))))"

definition handleTelegramConfigSet :: "'w workers \<Rightarrow> (string \<Rightarrow> bool) \<Rightarrow> (bot_call list \<Rightarrow> 'w \<Rightarrow> 'w) \<Rightarrow> int \<Rightarrow> string \<Rightarrow> string \<Rightarrow> string
    \<Rightarrow> 'w srv \<Rightarrow> ((api_error, telegram_status) result \<times> 'w srv) option" where
  "handleTelegramConfigSet W valid post now user token admin s =
     map_option (\<lambda>(r, s1). (case r of Inl e \<Rightarrow> Inl e | Inr _ \<Rightarrow> Inr (tc_Status (wk_Telegram W) s1), s1))
       (SetTelegram valid post now user admin token s)"

definition handleTelegramConfigGet :: "'w workers \<Rightarrow> 'w srv \<Rightarrow> telegram_status" where
  "handleTelegramConfigGet W s = tc_Status (wk_Telegram W) s"

subsection \<open>The overview\<close>

record status =
  sy_Running :: bool
  sy_Pid :: int
  sy_StartedAt :: "int option"
  sy_ServeStartedAt :: "int option"
  sy_Error :: string
  sy_Clients :: "vpn_client list"
  sy_DNSRunning :: bool
  sy_DNSPid :: int
  sy_DNSStartedAt :: "int option"
  sy_CertsTotal :: int
  sy_CertsExpiring :: int
  sy_Telegram :: "telegram_status option"
  sy_RoutingWarning :: string
  sy_UpstreamsEnabled :: bool
  sy_UpstreamDefault :: string
  sy_UpstreamWarning :: string

definition no_status :: status where
  "no_status = \<lparr>sy_Running = False, sy_Pid = 0, sy_StartedAt = None, sy_ServeStartedAt = None, sy_Error = [], sy_Clients = [],
     sy_DNSRunning = False, sy_DNSPid = 0, sy_DNSStartedAt = None, sy_CertsTotal = 0, sy_CertsExpiring = 0, sy_Telegram = None,
     sy_RoutingWarning = [], sy_UpstreamsEnabled = False, sy_UpstreamDefault = [], sy_UpstreamWarning = []\<rparr>"

text \<open>Where the overview reads live state: the workers of serve, or a running serve over its socket.\<close>

record 's status_source =
  ss_VPN :: "('s, string, control_result) step"
  ss_DNS :: "('s, string, control_result) step"
  ss_Clients :: "('s, string, vpn_client list) step"
  ss_Telegram :: "('s, string, telegram_status) step"

definition vpn_part :: "control_result \<Rightarrow> status \<Rightarrow> status" where
  "vpn_part r out = (let out1 = out\<lparr>sy_ServeStartedAt := cr_ServeStartedAt r\<rparr> in
     if cr_Pid r \<noteq> 0 then out1\<lparr>sy_Running := True, sy_Pid := cr_Pid r, sy_StartedAt := cr_StartedAt r\<rparr> else out1)"

definition clients_part :: "(string, vpn_client list) result \<Rightarrow> status \<Rightarrow> status" where
  "clients_part r out = (case r of Inl e \<Rightarrow> out\<lparr>sy_Error := e\<rparr> | Inr cl \<Rightarrow> out\<lparr>sy_Clients := cl\<rparr>)"

definition dns_part :: "(string, control_result) result \<Rightarrow> status \<Rightarrow> status" where
  "dns_part r out = (case r of Inl _ \<Rightarrow> out
     | Inr d \<Rightarrow> if cr_Pid d \<noteq> 0 then out\<lparr>sy_DNSRunning := True, sy_DNSPid := cr_Pid d, sy_DNSStartedAt := cr_StartedAt d\<rparr> else out)"

definition read_workers :: "'s status_source \<Rightarrow> 's \<Rightarrow> status \<times> 's" where
  "read_workers src s = (case ss_VPN src s of
     (Inl e, s1) \<Rightarrow> (no_status\<lparr>sy_Error := e\<rparr>, s1)
   | (Inr r, s1) \<Rightarrow>
      (case (if cr_Pid r \<noteq> 0 then (case ss_Clients src s1 of (cl, s2) \<Rightarrow> (clients_part cl (vpn_part r no_status), s2))
             else (vpn_part r no_status, s1)) of
        (out, s2) \<Rightarrow> (case ss_DNS src s2 of
        (d, s3) \<Rightarrow> (case ss_Telegram src s3 of
        (tg, s4) \<Rightarrow> ((dns_part d out)\<lparr>sy_Telegram := (case tg of Inl _ \<Rightarrow> None | Inr t \<Rightarrow> Some t)\<rparr>, s4)))))"

text \<open>The CA's name and expiry, None when it cannot be read.\<close>

definition ca_summary :: "'w server \<Rightarrow> ('w, (string \<times> int) option) action" where
  "ca_summary S s = (case CACert (sr_px S) (sr_PKI S) (sv_fs s) of (r, f) \<Rightarrow>
     (Inr (case r of Inl _ \<Rightarrow> None | Inr c \<Rightarrow> Some (xc_Subject c, xc_NotAfter c)), s\<lparr>sv_fs := f\<rparr>))"

text \<open>\<open>routing\<close> is \<open>RoutingPrereqsWarning\<close>'s answer; \<open>now\<close> is in nanoseconds.\<close>

definition BuildStatus :: "'w server \<Rightarrow> int \<Rightarrow> ('w srv) status_source \<Rightarrow> string \<Rightarrow> bool \<Rightarrow> ('w, status) action" where
  "BuildStatus S now src routing upstreams =
     bindE (\<lambda>s. case read_workers src s of (out, s1) \<Rightarrow> (Inr out, s1)) (\<lambda>out.
     bindE (ca_summary S) (\<lambda>ca.
     getE (\<lambda>s. case CertCounts now (AllCerts ca (sv_store s)) of (tot, expiring) \<Rightarrow>
       let out1 = out\<lparr>sy_CertsTotal := tot, sy_CertsExpiring := expiring, sy_RoutingWarning := routing, sy_UpstreamsEnabled := upstreams\<rparr>;
           cfg = LoadUpstreamConfig S (sv_store s) in
       if upstreams then out1\<lparr>sy_UpstreamDefault := cf_Default cfg,
         sy_UpstreamWarning := Warning (\<lambda>i. sr_iface S (sv_world s) i) (cf_Upstreams cfg)\<rparr> else out1)))"

text \<open>An operation without a closure does not panic.\<close>

definition status_op :: "int \<Rightarrow> 's lifecycle \<Rightarrow> bool \<Rightarrow> ('s, string, control_result) step" where
  "status_op started t canReconnect s = (case RunOp started t ''status'' canReconnect None s of
     (Some (Inr r), s1) \<Rightarrow> (Inr r, s1) | (Some (Inl e), s1) \<Rightarrow> (Inl (err_text e), s1) | (None, s1) \<Rightarrow> (Inl [], s1))"

definition liveSource :: "'w workers \<Rightarrow> ('w srv) status_source" where
  "liveSource W = \<lparr>ss_VPN = status_op (wk_started W) (wk_VPN W) True,
     ss_DNS = (case wk_DNS W of None \<Rightarrow> pureE (Inr \<lparr>cr_Pid = 0, cr_Changed = False, cr_StartedAt = None, cr_ServeStartedAt = None\<rparr>)
       | Some d \<Rightarrow> status_op (wk_started W) d False),
     ss_Clients = (\<lambda>s. (wk_Clients W (sv_world s), s)),
     ss_Telegram = (\<lambda>s. (Inr (tc_Status (wk_Telegram W) s), s))\<rparr>"

definition handleStatus :: "'w server \<Rightarrow> int \<Rightarrow> 'w workers \<Rightarrow> string \<Rightarrow> bool \<Rightarrow> ('w, status) action" where
  "handleStatus S now W routing upstreams = BuildStatus S now (liveSource W) routing upstreams"

subsection \<open>The signed-in user\<close>

record server_info =
  si_Version :: string
  si_BuildTarget :: string
  si_Platform :: string
  si_OpenVPN :: "string \<times> string"
  si_Dnsmasq :: "string \<times> string"
  si_Nft :: "string \<times> string"
  si_Upstreams :: bool

record me_out =
  me_Username :: string
  me_Role :: string
  me_ServerCN :: string
  me_Info :: server_info
  me_MinSecretLen :: nat
  me_MinSecretClasses :: nat
  me_StatusPollSecs :: int
  me_CA :: "(string \<times> int \<times> string) option"

definition handleMe :: "'w server \<Rightarrow> server_info \<Rightarrow> int \<Rightarrow> user \<Rightarrow> ('w, me_out) action" where
  "handleMe S info now u =
     bindE (ca_summary S) (\<lambda>ca.
     getE (\<lambda>s. \<lparr>me_Username = us_Username u, me_Role = us_Role u, me_ServerCN = sr_DefaultRemote S, me_Info = info,
       me_MinSecretLen = MinSecretLen, me_MinSecretClasses = MinSecretClasses,
       me_StatusPollSecs = EffectiveStatusInterval (LoadConfig S (sv_store s)),
       me_CA = map_option (\<lambda>(cn, na). (cn, na, Status now \<lparr>ct_Serial = [], ct_CN = [], ct_Kind = [], ct_PEM = [], ct_IssuedAt = 0,
         ct_NotAfter = na, ct_RevokedAt = None, ct_IncludeDNS = False\<rparr>)) ca\<rparr>))"

text \<open>\<open>ping\<close> is the database's answer.\<close>

definition handleHealthz :: "bool \<Rightarrow> (api_error, string) result" where
  "handleHealthz ping = (if \<not> ping then Inl (fail 503 ''db unreachable'') else Inr ''ok'')"

subsection \<open>Backup and the log level\<close>

text \<open>The archive is streamed: what was sent before an error stays sent. \<open>snap\<close> is the snapshot of the store.\<close>

definition handleBackup :: "archive_lib \<Rightarrow> 'w server \<Rightarrow> pki_env \<Rightarrow> (store \<Rightarrow> string) \<Rightarrow> string \<Rightarrow> string \<Rightarrow> string \<Rightarrow> string
    \<Rightarrow> ('w, string) action" where
  "handleBackup al S en snap tmp dataDir user passphrase =
     bindE (guardE (passphrase = []) (fail 400 ''passphrase required'')) (\<lambda>_.
     bindE (getE (\<lambda>s. snap (sv_store s))) (\<lambda>db.
     bindE (onFS (\<lambda>_. Text ''backup'') (Create al (sr_px S) en dataDir db tmp passphrase)) (\<lambda>archive.
     bindE (audit (pe_Now en) user ''backup_create'' []) (\<lambda>_. pureE (Inr archive)))))"

text \<open>\<open>level\<close> sets the logger's level: debug or info.\<close>

definition handleDebugSet :: "(bool \<Rightarrow> 'w \<Rightarrow> 'w) \<Rightarrow> int \<Rightarrow> string \<Rightarrow> bool \<Rightarrow> ('w, bool) action" where
  "handleDebugSet level now user on s =
     bindE (audit now user (''debug_'' @ (if on then ''on'' else ''off'')) []) (\<lambda>_. pureE (Inr on)) (s\<lparr>sv_world := level on (sv_world s)\<rparr>)"

subsection \<open>Settings with a patch\<close>

definition patched :: "(string \<Rightarrow> 'v \<Rightarrow> 'v \<times> bool) \<Rightarrow> string option \<Rightarrow> 'v \<Rightarrow> (api_error, 'v) result" where
  "patched dec raw cur = (case Onto dec raw cur of (v, ok) \<Rightarrow> if ok then Inr v else Inl (Text ''bad json''))"

definition handleLogsConfigSet :: "(string \<Rightarrow> log_config \<Rightarrow> log_config option) \<Rightarrow> (log_config \<Rightarrow> string option) \<Rightarrow> (string \<Rightarrow> string)
    \<Rightarrow> (string \<Rightarrow> log_config \<Rightarrow> log_config \<times> bool) \<Rightarrow> int \<Rightarrow> string \<Rightarrow> string option \<Rightarrow> ('w, log_config) action" where
  "handleLogsConfigSet dec enc env patch now user raw =
     bindE (getE (\<lambda>s. LoadLogConfig dec env (sv_store s))) (\<lambda>cur.
     bindE (pureE (patched patch raw cur)) (SaveLogConfig enc now user))"

definition stats_step :: "(store \<Rightarrow> (stats_error, 'a) result \<times> store) \<Rightarrow> ('w, 'a) action" where
  "stats_step f s = (case f (sv_store s) of (r, st) \<Rightarrow>
     (case r of Inl NotPositive \<Rightarrow> Inl (Text ''sample interval and retention must be positive'')
        | Inl _ \<Rightarrow> Inl EncodeErr | Inr a \<Rightarrow> Inr a, s\<lparr>sv_store := st\<rparr>))"

definition handleStatsConfigSet :: "(string \<Rightarrow> stats_config \<Rightarrow> stats_config option) \<Rightarrow> (stats_config \<Rightarrow> string option) \<Rightarrow> (string \<Rightarrow> string)
    \<Rightarrow> (string \<Rightarrow> stats_config \<Rightarrow> stats_config \<times> bool) \<Rightarrow> int \<Rightarrow> string \<Rightarrow> string option \<Rightarrow> ('w, stats_config) action" where
  "handleStatsConfigSet dec enc env patch now user raw =
     bindE (getE (\<lambda>s. LoadStatsConfig dec env (sv_store s))) (\<lambda>cur.
     bindE (pureE (patched patch raw cur)) (\<lambda>cfg. stats_step (SaveStatsConfig enc now user cfg)))"

subsection \<open>Handlers that pass a request on\<close>

definition handleCertDNS :: "int \<Rightarrow> string \<Rightarrow> string \<Rightarrow> bool \<Rightarrow> ('w, msg) action" where
  "handleCertDNS now user serial incl = SetCertDNS_api now user serial incl"

definition handleCustomHostsPut :: "string \<Rightarrow> int \<Rightarrow> string \<Rightarrow> string \<Rightarrow> ('w, msg) action" where
  "handleCustomHostsPut path now user content = SetCustomHosts now user path content"

definition handleUserAdd :: "policy \<Rightarrow> int \<Rightarrow> string \<Rightarrow> string \<Rightarrow> string \<Rightarrow> string \<Rightarrow> ('w, msg) action" where
  "handleUserAdd P now user name password role = AddUser_api P now user name password role"

definition handleUserPassword :: "policy \<Rightarrow> int \<Rightarrow> string \<Rightarrow> string \<Rightarrow> string \<Rightarrow> ('w, msg) action" where
  "handleUserPassword P now user name password = SetUserPassword_api P now user name password"

definition handleUserTOTPEnroll :: "'w server \<Rightarrow> policy \<Rightarrow> (string \<Rightarrow> (nat \<times> (nat \<Rightarrow> nat \<Rightarrow> bool)) option) \<Rightarrow> string option \<Rightarrow> string
    \<Rightarrow> int \<Rightarrow> string \<Rightarrow> string \<Rightarrow> ('w, totp_enrollment) action" where
  "handleUserTOTPEnroll S P qr raw nonce now user name = EnrollTOTP P qr raw nonce now user name (sr_DefaultRemote S)"

definition handleUserTOTPOff :: "policy \<Rightarrow> int \<Rightarrow> string \<Rightarrow> string \<Rightarrow> ('w, msg) action" where
  "handleUserTOTPOff P now user name = DisableTOTP P now user name"

definition handleDNSConfigGet :: "'w server \<Rightarrow> store \<Rightarrow> dns_config \<times> string" where
  "handleDNSConfigGet S st = ViewDNS S st"

definition handleDNSConfigSet :: "'w server \<Rightarrow> int \<Rightarrow> string \<Rightarrow> dns_config \<Rightarrow> ('w, dns_config \<times> string) action" where
  "handleDNSConfigSet S now user cfg = SetDNSConfig S now user cfg"

definition handleLogsRotate :: "log_host \<Rightarrow> (string \<Rightarrow> log_config \<Rightarrow> log_config option) \<Rightarrow> (string \<Rightarrow> string) \<Rightarrow> string \<Rightarrow> int \<Rightarrow> string
    \<Rightarrow> ('w, msg) action" where
  "handleLogsRotate H dec env dataDir now user = RotateLogs_api H dec env now user dataDir"

definition handleAudit :: "store \<Rightarrow> audit_entry list" where
  "handleAudit st = AuditTail 200 st"

definition handleUpstreamsGet :: "'w server \<Rightarrow> 'w srv \<Rightarrow> upstream_view" where
  "handleUpstreamsGet S s = ViewUpstreams S (LoadUpstreamConfig S (sv_store s)) [] (sv_world s)"

definition handleUpstreamAdd :: "'w server \<Rightarrow> bool \<Rightarrow> int \<Rightarrow> string \<Rightarrow> upstream \<Rightarrow> ('w, upstream_view) action" where
  "handleUpstreamAdd S enabled now user u = AddUpstream S now user enabled u"

definition handleUpstreamDelete :: "'w server \<Rightarrow> bool \<Rightarrow> int \<Rightarrow> string \<Rightarrow> string \<Rightarrow> ('w, upstream_view) action" where
  "handleUpstreamDelete S enabled now user i = DeleteUpstream S now user enabled i"

definition handleUpstreamSetDefault :: "'w server \<Rightarrow> bool \<Rightarrow> int \<Rightarrow> string \<Rightarrow> string \<Rightarrow> ('w, upstream_view) action" where
  "handleUpstreamSetDefault S enabled now user i = SetDefaultUpstream S now user enabled i"

definition handleUpstreamAssign :: "'w server \<Rightarrow> bool \<Rightarrow> int \<Rightarrow> string \<Rightarrow> string \<Rightarrow> string \<Rightarrow> bool \<Rightarrow> ('w, upstream_view) action" where
  "handleUpstreamAssign S enabled now user cn i clear = AssignUpstream S now user enabled (sr_ConfigPath S) cn i clear"

definition handleUpstreamReconcile :: "'w server \<Rightarrow> bool \<Rightarrow> int \<Rightarrow> string \<Rightarrow> ('w, upstream_view) action" where
  "handleUpstreamReconcile S enabled now user = ReconcileUpstreams S now user enabled"

end
