(* ===== verification/Go_Quote.thy ===== *)
theory Go_Quote
  imports Auth Upstream_Live
begin

section \<open>Go strings: strconv.Quote\<close>

text \<open>
  The verb \<^verbatim>\<open>%q\<close>: printable runes stand for themselves, quotes and backslashes are escaped, control
  characters and the bytes of invalid UTF-8 are written in hexadecimal. Which runes beyond ASCII are printable is the
  argument \<open>pr\<close>. On the names of interfaces it adds the two quotes only.
\<close>

abbreviation BSL :: char where "BSL \<equiv> CHR 0x5C"

fun hex_digits :: "nat \<Rightarrow> nat \<Rightarrow> string" where
  "hex_digits 0 n = []"
| "hex_digits (Suc k) n = hex_digits k (n div 16) @ [hexdigit (n mod 16)]"

definition go_IsPrint :: "(int \<Rightarrow> bool) \<Rightarrow> int \<Rightarrow> bool" where
  "go_IsPrint pr u = (if u < 0x80 then 0x20 \<le> u \<and> u < 0x7F else pr u)"

definition short_escapes :: "(int \<times> char) list" where
  "short_escapes = [(7, CHR ''a''), (8, CHR ''b''), (12, CHR ''f''), (10, CHR ''n''), (13, CHR ''r''), (9, CHR ''t''), (11, CHR ''v'')]"

text \<open>\<open>bytes\<close> are the rune's bytes in the string.\<close>

definition quote_rune :: "(int \<Rightarrow> bool) \<Rightarrow> int \<Rightarrow> string \<Rightarrow> string" where
  "quote_rune pr u bytes = (if u = 0x22 \<or> u = 0x5C then BSL # bytes
     else if go_IsPrint pr u then bytes
     else (case map_of short_escapes u of Some c \<Rightarrow> [BSL, c]
       | None \<Rightarrow> if u < 0x20 \<or> u = 0x7F then BSL # CHR ''x'' # hex_digits 2 (nat u)
           else if u < 0x10000 then BSL # CHR ''u'' # hex_digits 4 (nat u)
           else BSL # CHR ''U'' # hex_digits 8 (nat u)))"

function quote_bytes :: "(int \<Rightarrow> bool) \<Rightarrow> nat list \<Rightarrow> string" where
  "quote_bytes pr [] = []"
| "quote_bytes pr (a # r) = (let (u, n) = rune_at (a # r) in
     (if u = 0xFFFD \<and> n = 1 then BSL # CHR ''x'' # hex_digits 2 a else quote_rune pr u (map char_of (take n (a # r))))
     @ quote_bytes pr (drop n (a # r)))"
  by pat_completeness auto
termination
proof (relation "measure (\<lambda>(pr, s). length s)", goal_cases)
  case (2 pr a r x u n)
  then have "0 < n" using rune_at_width [of "a # r"] by (metis snd_conv)
  then show ?case by simp
qed simp

definition Quote :: "(int \<Rightarrow> bool) \<Rightarrow> string \<Rightarrow> string" where
  "Quote pr s = DQ # quote_bytes pr (map byte_of s) @ [DQ]"

subsection \<open>Plain strings\<close>

definition quotable_c :: "char \<Rightarrow> bool" where
  "quotable_c c = (0x20 \<le> byte_of c \<and> byte_of c < 0x7F \<and> byte_of c \<noteq> 0x22 \<and> byte_of c \<noteq> 0x5C)"

lemma quote_bytes_quotable: "list_all quotable_c s \<Longrightarrow> quote_bytes pr (map byte_of s) = s"
proof (induction s)
  case (Cons c s)
  have p: "quotable_c c" using Cons.prems by simp
  then have b: "byte_of c < 0x80" "char_of (byte_of c) = c" by (simp_all add: quotable_c_def byte_of_def)
  have "quote_rune pr (int (byte_of c)) [c] = [c]" using p by (auto simp: quotable_c_def quote_rune_def go_IsPrint_def)
  then show ?case using Cons b by simp
qed simp

lemma Quote_plain: "list_all quotable_c s \<Longrightarrow> Quote pr s = quote_plain s"
  by (simp add: Quote_def quote_plain_def quote_bytes_quotable)

lemma iface_plain: "iface_c c \<Longrightarrow> quotable_c c"
  by (auto simp: iface_c_def quotable_c_def is_alnum_c_def is_digit_c_def is_lower_c_def is_upper_c_def byte_of_def)

text \<open>What the ruleset's lines take for granted.\<close>

lemma Quote_ifaces: "ifaceRe s \<Longrightarrow> Quote pr s = quote_plain s" "Quote pr TunDev = quote_plain TunDev"
proof -
  assume i: "ifaceRe s"
  then obtain c r where s: "s = c # r" and c: "is_alnum_c c" and r: "list_all iface_c r" by (cases s) (auto simp: ifaceRe_def)
  have "iface_c c" using c by (simp add: iface_c_def)
  then have "list_all quotable_c s" using r s iface_plain by (auto simp: list_all_iff)
  then show "Quote pr s = quote_plain s" by (rule Quote_plain)
next
  have "list_all quotable_c TunDev" by code_simp
  then show "Quote pr TunDev = quote_plain TunDev" by (rule Quote_plain)
qed

lemma Quote_example:
  "Quote pr (CHR ''a'' # DQ # u8 [10, 0x1B, 0xFF]) = [DQ, CHR ''a'', BSL, DQ, BSL, CHR ''n'', BSL] @ ''x1b'' @ [BSL] @ ''xff'' @ [DQ]"
  by code_simp

end
