(* ===== verification/Cli_Base.thy ===== *)
theory Cli_Base
  imports Api_Handlers Go_Quote "HOL-Library.Word"
begin

section \<open>The command line: environment, paths, prompts\<close>

text \<open>
  The shared parts of \<^verbatim>\<open>src/cmd/ovcp/main.go\<close> and \<^verbatim>\<open>commands.go\<close>. A command runs on the same state as an action of the
  API, the world behind it being a \<open>terminal\<close>: what was printed, the answers its user gives to password prompts, and
  the world of a running serve, reached over the control socket. \<^verbatim>\<open>die\<close> ends a command with an error, which is the
  action's. The environment of the process is the record \<open>cli\<close>.
\<close>

text \<open>\<open>tm_tty\<close>: the answers at the controlling terminal; an answer of None is a read that fails, no answer left means
  that there is no terminal.\<close>

record 'w terminal =
  tm_world :: 'w
  tm_out :: string
  tm_err :: string
  tm_tty :: "string option list"

text \<open>The results a command prints, as text or as JSON.\<close>

record version_out =
  vo_Version :: string
  vo_Platform :: string
  vo_BuildTarget :: string
  vo_OpenVPN :: "(string \<times> string) option"
  vo_Dnsmasq :: "(string \<times> string) option"
  vo_Nft :: "(string \<times> string) option"

record init_out =
  io_CACert :: string
  io_ServerCert :: string
  io_TLSCrypt :: string
  io_ServerConf :: string
  io_Admin :: string
  io_AdminUIURL :: string

record ca_status_out =
  co_CN :: string
  co_NotAfter :: int
  co_Status :: string

record upstream_status_out =
  uo_Enabled :: bool
  uo_NftVersion :: string
  uo_NftPath :: string
  uo_Default :: string

datatype shown =
    ShMsg msg
  | ShVersion version_out
  | ShIssued string string string
  | ShBundle string string
  | ShRevoked revoke_result
  | ShRenewed renew_result
  | ShRenewedCA int
  | ShCA ca_status_out
  | ShCerts "cert_entry list"
  | ShInit init_out
  | ShStatus status
  | ShRecords "cert_entry list" string
  | ShUpstreamStatus upstream_status_out
  | ShUpstreams upstream_view
  | ShProc control_result
  | ShDNS dns_config string
  | ShConfig ovpn_config
  | ShPreview preview
  | ShDebug bool
  | ShTelegram telegram_status
  | ShUsers "user_summary list"
  | ShEnrolled totp_enrollment
  | ShAudit "audit_entry list"
  | ShLogConfig log_config
  | ShLogs "log_status list"
  | ShStatsConfig stats_config
  | ShStats "sample list" "ended_session list"

text \<open>\<open>cx_serve\<close> is what listens on a socket path, \<open>cx_color\<close> tells that standard output takes ANSI escapes,
  \<open>cx_nft\<close>, \<open>cx_dnsmasq\<close> and \<open>cx_openvpn\<close> are the version and path of each program, None when it was not found, \<open>cx_routing\<close> is
  \<open>RoutingPrereqsWarning\<close> on this host, \<open>cx_apply\<close> programs the upstreams without a serve, \<open>cx_edit\<close> is the editor's
  result, None when it fails. \<open>cx_print\<close> tells the printable runes beyond ASCII. Times are printed by \<open>cx_date\<close> (\<^verbatim>\<open>2006-01-02\<close>) and \<open>cx_rfc3339\<close> in the local zone; \<open>cx_encode\<close> is
  \<^verbatim>\<open>encoding/json\<close>.\<close>

record 'w cli =
  cx_dataDir :: string
  cx_getenv :: "string \<Rightarrow> string"
  cx_json :: bool
  cx_color :: bool
  cx_now :: int
  cx_px :: pki_lib
  cx_env :: pki_env
  cx_policy :: policy
  cx_log_host :: log_host
  cx_codec :: json_codec
  cx_serve :: "string \<Rightarrow> 'w serve"
  cx_openvpn :: "(string \<times> string) option"
  cx_dnsmasq :: "(string \<times> string) option"
  cx_nft :: "(string \<times> string) option"
  cx_routing :: "bool \<Rightarrow> string"
  cx_apply :: "config \<Rightarrow> 'w \<Rightarrow> 'w"
  cx_iface :: "'w \<Rightarrow> string \<Rightarrow> bool"
  cx_url :: "url \<Rightarrow> string"
  cx_edit :: "string \<Rightarrow> string option"
  cx_date :: "int \<Rightarrow> string"
  cx_rfc3339 :: "int \<Rightarrow> string"
  cx_print :: "int \<Rightarrow> bool"
  cx_encode :: "shown \<Rightarrow> string option"
  cx_dec_config :: "string \<Rightarrow> ovpn_config \<Rightarrow> ovpn_config"
  cx_enc_config :: "ovpn_config \<Rightarrow> string"
  cx_dec_dns :: "string \<Rightarrow> dns_config \<Rightarrow> dns_config option"
  cx_enc_dns :: "dns_config \<Rightarrow> string option"
  cx_dec_up :: "string \<Rightarrow> config \<Rightarrow> config option"
  cx_enc_up :: "config \<Rightarrow> string option"
  cx_dec_log :: "string \<Rightarrow> log_config \<Rightarrow> log_config option"
  cx_enc_log :: "log_config \<Rightarrow> string option"
  cx_dec_stats :: "string \<Rightarrow> stats_config \<Rightarrow> stats_config option"
  cx_enc_stats :: "stats_config \<Rightarrow> string option"
  cx_totp_key :: "string option"
  cx_static_key :: "string option"

type_synonym ('w, 'a) command = "('w terminal, 'a) action"

subsection \<open>Paths\<close>

record paths =
  ph_PKIDir :: string
  ph_CACert :: string
  ph_ServerCert :: string
  ph_ServerKey :: string
  ph_CRL :: string
  ph_TLSCrypt :: string
  ph_ServerConf :: string
  ph_LogsDir :: string
  ph_OpenVPNLog :: string
  ph_OvcpLog :: string
  ph_DnsmasqLog :: string
  ph_DNSDir :: string
  ph_CertsHosts :: string
  ph_CustomHosts :: string

definition dataPaths :: "string \<Rightarrow> paths" where
  "dataPaths dataDir =
     (let pd = path_join dataDir ''pki''; ld = path_join dataDir ''logs''; dd = path_join dataDir ''dns'' in
      \<lparr>ph_PKIDir = pd, ph_CACert = path_join pd ''ca.crt'', ph_ServerCert = path_join pd ''server.crt'',
       ph_ServerKey = path_join pd ''server.key'', ph_CRL = path_join pd ''crl.pem'', ph_TLSCrypt = path_join pd ''tls-crypt.key'',
       ph_ServerConf = path_join dataDir ''server.conf'', ph_LogsDir = ld, ph_OpenVPNLog = path_join ld ''openvpn.log'',
       ph_OvcpLog = path_join ld ''ovcp.log'', ph_DnsmasqLog = path_join ld ''dnsmasq.log'', ph_DNSDir = dd,
       ph_CertsHosts = path_join dd ''certs.hosts'', ph_CustomHosts = path_join dd ''custom.hosts''\<rparr>)"

definition or_env :: "string \<Rightarrow> string \<Rightarrow> string" where
  "or_env v def = (if v \<noteq> [] then v else def)"

definition sockPath :: "(string \<Rightarrow> string) \<Rightarrow> string \<Rightarrow> string \<Rightarrow> string" where
  "sockPath env key def = or_env (env key) def"

definition ctrlSock :: "(string \<Rightarrow> string) \<Rightarrow> string" where
  "ctrlSock env = sockPath env ''OVCP_CTRL_SOCK'' ''/run/ovcp/control.sock''"

definition mgmtSock :: "(string \<Rightarrow> string) \<Rightarrow> string" where
  "mgmtSock env = sockPath env ''OVCP_MGMT_SOCK'' ''/run/ovcp/mgmt.sock''"

definition statusPath :: "string \<Rightarrow> string" where
  "statusPath sock = path_join (path_dir sock) ''status''"

definition statusInterval :: "(string \<Rightarrow> string) \<Rightarrow> int" where
  "statusInterval env = (let v = env ''OVCP_STATUS_INTERVAL'' in
     if v = [] then 3
     else (case atoi v of None \<Rightarrow> 3 | Some n \<Rightarrow> if n < 1 \<or> n > 60 then 3 else n))"

subsection \<open>The data directory\<close>

text \<open>Directories are not part of the file model: making one and changing its mode are steps that may fail.\<close>

definition failing :: "string \<Rightarrow> (fsys \<Rightarrow> bool \<times> fsys) \<Rightarrow> ('w, unit) action" where
  "failing e f s = (case f (sv_fs s) of (ok, f1) \<Rightarrow> (if ok then Inr () else Inl (Text e), s\<lparr>sv_fs := f1\<rparr>))"

fun make_dirs :: "string list \<Rightarrow> ('w, unit) action" where
  "make_dirs [] = pureE (Inr ())"
| "make_dirs (d # ds) = bindE (failing ''mkdir'' fs_check) (\<lambda>_. bindE (failing ''chmod'' fs_check) (\<lambda>_. make_dirs ds))"

text \<open>\<^verbatim>\<open>os.IsNotExist\<close> of a \<^verbatim>\<open>Stat\<close>: another error does not create the file.\<close>

definition fs_absent :: "string \<Rightarrow> fsys \<Rightarrow> bool \<times> fsys" where
  "fs_absent p s = (case next_fault s of (f, s1) \<Rightarrow> (f = None \<and> fs_files s1 p = None, s1))"

fun touch_files :: "string list \<Rightarrow> ('w, unit) action" where
  "touch_files [] = pureE (Inr ())"
| "touch_files (p # ps) = bindE (\<lambda>s. case fs_absent p (sv_fs s) of (absent, f) \<Rightarrow> (Inr absent, s\<lparr>sv_fs := f\<rparr>)) (\<lambda>absent.
     bindE (if absent then failing ''write'' (fs_write_file p []) else pureE (Inr ())) (\<lambda>_. touch_files ps))"

definition ensureSkeleton :: "string \<Rightarrow> ('w, unit) action" where
  "ensureSkeleton dataDir = (let pp = dataPaths dataDir in
     bindE (make_dirs [dataDir, ph_PKIDir pp, ph_LogsDir pp, ph_DNSDir pp]) (\<lambda>_.
     touch_files [ph_CertsHosts pp, ph_CustomHosts pp]))"

text \<open>\<open>raw\<close> are 32 random bytes, None when the source fails.\<close>

definition loadOrCreateTOTPKey :: "string option \<Rightarrow> string \<Rightarrow> ('w, string) action" where
  "loadOrCreateTOTPKey raw path s = (case fs_read_file path (sv_fs s) of
     (Some data, f) \<Rightarrow> (if length data \<noteq> 32 then Inl (Text (''store: bad totp key length in '' @ path)) else Inr data, s\<lparr>sv_fs := f\<rparr>)
   | (None, f) \<Rightarrow> (case raw of None \<Rightarrow> (Inl (Text ''random''), s\<lparr>sv_fs := f\<rparr>)
       | Some key \<Rightarrow> bindE (failing ''write'' (fs_write_file path key)) (\<lambda>_. pureE (Inr key)) (s\<lparr>sv_fs := f\<rparr>)))"

fun chmods :: "string list \<Rightarrow> ('w, unit) action" where
  "chmods [] = pureE (Inr ())"
| "chmods (f # fs) = bindE (failing ''chmod'' fs_check) (\<lambda>_. chmods fs)"

text \<open>\<^verbatim>\<open>store.Open\<close>: the file modes of the database and the key of the secrets at rest. The database itself is the state's
  store.\<close>

definition Open_store :: "string option \<Rightarrow> string \<Rightarrow> ('w, unit) action" where
  "Open_store raw path =
     bindE (chmods [path, path @ ''-wal'', path @ ''-shm'']) (\<lambda>_.
     bindE (loadOrCreateTOTPKey raw (path_join (path_dir path) ''totp.key'')) (\<lambda>_. pureE (Inr ())))"

definition openStore :: "'w cli \<Rightarrow> ('w, unit) command" where
  "openStore C =
     bindE (ensureSkeleton (cx_dataDir C)) (\<lambda>_. Open_store (cx_totp_key C) (path_join (cx_dataDir C) ''ovcp.db''))"

definition loadOrCreateTLSCrypt :: "string option \<Rightarrow> string \<Rightarrow> ('w, string) action" where
  "loadOrCreateTLSCrypt raw path s = (case fs_read_file path (sv_fs s) of
     (Some data, f) \<Rightarrow> (Inr data, s\<lparr>sv_fs := f\<rparr>)
   | (None, f) \<Rightarrow> (case GenTLSCryptKey raw of Inl e \<Rightarrow> (Inl (PkiErr e), s\<lparr>sv_fs := f\<rparr>)
       | Inr key \<Rightarrow> bindE (failing ''write'' (fs_write_file path key)) (\<lambda>_. pureE (Inr key)) (s\<lparr>sv_fs := f\<rparr>)))"

fun missing_files :: "string list \<Rightarrow> fsys \<Rightarrow> string list \<times> fsys" where
  "missing_files [] s = ([], s)"
| "missing_files (p # ps) s = (case fs_stat p s of (found, s1) \<Rightarrow> (case missing_files ps s1 of (ms, s2) \<Rightarrow>
     (if found then ms else p # ms, s2)))"

definition preflight :: "string \<Rightarrow> ('w, unit) action" where
  "preflight dataDir s = (let pp = dataPaths dataDir in
     case missing_files [ph_CACert pp, ph_ServerCert pp, ph_ServerKey pp, ph_TLSCrypt pp] (sv_fs s) of (ms, f) \<Rightarrow>
       (if length ms > 0 then Inl (Text (''not initialized, missing:'' @ NL @ ''  '' @ join_s (NL @ ''  '') ms @ NL
          @ ''run: ovcp init -server-cn <public-hostname>'')) else Inr (), s\<lparr>sv_fs := f\<rparr>))"

text \<open>\<^verbatim>\<open>adminCertCN\<close>: the environment, else the name in the server certificate, empty when there is none.\<close>

definition adminCertCN :: "(string \<Rightarrow> string) \<Rightarrow> pki_lib \<Rightarrow> string \<Rightarrow> ('w, string) action" where
  "adminCertCN env px dataDir s = (if env ''OVCP_SERVER_CN'' \<noteq> [] then (Inr (env ''OVCP_SERVER_CN''), s)
     else (case fs_read_file (ph_ServerCert (dataPaths dataDir)) (sv_fs s) of (data, f) \<Rightarrow>
       (Inr (case data of None \<Rightarrow> [] | Some pem \<Rightarrow> (case parseCertPEM px pem of Inl _ \<Rightarrow> [] | Inr c \<Rightarrow> xc_Subject c)), s\<lparr>sv_fs := f\<rparr>)))"

definition fillPaths :: "(string \<Rightarrow> string) \<Rightarrow> string \<Rightarrow> string \<Rightarrow> string \<Rightarrow> ovpn_config \<Rightarrow> ovpn_config" where
  "fillPaths env dataDir sock serverCN cfg = (let pp = dataPaths dataDir in
     cfg\<lparr>oc_CACert := ph_CACert pp, oc_ServerCert := ph_ServerCert pp, oc_ServerKey := ph_ServerKey pp, oc_CRL := ph_CRL pp,
       oc_TLSCrypt := ph_TLSCrypt pp, oc_MgmtSocket := sock, oc_StatusLog := statusPath sock, oc_StatusInterval := statusInterval env,
       oc_ServerCN := serverCN\<rparr>)"

subsection \<open>Printing\<close>

definition on_term :: "('w terminal \<Rightarrow> 'w terminal) \<Rightarrow> ('w, unit) command" where
  "on_term f s = (Inr (), s\<lparr>sv_world := f (sv_world s)\<rparr>)"

definition print :: "string \<Rightarrow> ('w, unit) command" where
  "print t = on_term (\<lambda>w. w\<lparr>tm_out := tm_out w @ t\<rparr>)"

definition println :: "string \<Rightarrow> ('w, unit) command" where
  "println t = print (t @ NL)"

definition eprintln :: "string \<Rightarrow> ('w, unit) command" where
  "eprintln t = on_term (\<lambda>w. w\<lparr>tm_err := tm_err w @ t @ NL\<rparr>)"

fun print_lines :: "string list \<Rightarrow> ('w, unit) command" where
  "print_lines [] = pureE (Inr ())"
| "print_lines (l # ls) = bindE (println l) (\<lambda>_. print_lines ls)"

text \<open>\<^verbatim>\<open>output\<close>: the JSON of the result, or its text.\<close>

definition output_result :: "'w cli \<Rightarrow> shown \<Rightarrow> ('w, unit) command \<Rightarrow> ('w, unit) command" where
  "output_result C v txt = (if cx_json C then (case cx_encode C v of None \<Rightarrow> pureE (Inl EncodeErr) | Some j \<Rightarrow> println j) else txt)"

definition progress :: "'w cli \<Rightarrow> string \<Rightarrow> ('w, unit) command" where
  "progress C t = (if \<not> cx_json C then print t else pureE (Inr ()))"

definition printMsg :: "'w cli \<Rightarrow> msg \<Rightarrow> ('w, unit) command" where
  "printMsg C m = output_result C (ShMsg m) (println (fst m))"

definition warnLine :: "string \<Rightarrow> ('w, unit) command" where
  "warnLine w = (if w \<noteq> [] then eprintln (''warning: '' @ w) else pureE (Inr ()))"

subsection \<open>Arguments\<close>

definition to_lower :: "string \<Rightarrow> string" where
  "to_lower s = map lower_c s"

definition parseBoolArg :: "'w cli \<Rightarrow> string \<Rightarrow> (api_error, bool) result" where
  "parseBoolArg C s = (if to_lower s \<in> set [''on'', ''true'', ''1''] then Inr True
     else if to_lower s \<in> set [''off'', ''false'', ''0''] then Inr False
     else Inl (Text (''want on|off (or true|false, 1|0), got '' @ Quote (cx_print C) s)))"

definition boolText :: "bool \<Rightarrow> string" where
  "boolText b = (if b then ''on'' else ''off'')"

definition requirePositive :: "int \<Rightarrow> string \<Rightarrow> ('w, unit) action" where
  "requirePositive n flag = guardE (n \<le> 0) (Text (''-'' @ flag @ '' must be positive''))"

text \<open>A repeatable flag's lines joined, or the editor on \<open>initial\<close> for a lone \<^verbatim>\<open>-\<close>; None when it was not given.\<close>

definition linesValue :: "'w cli \<Rightarrow> string list \<Rightarrow> string \<Rightarrow> (api_error, string option) result" where
  "linesValue C v initial = (if v = [''-''] then (case cx_edit C initial of None \<Rightarrow> Inl (Text ''editor'') | Some t \<Rightarrow> Inr (Some t))
     else Inr (if length v > 0 then Some (join_s NL v) else None))"

subsection \<open>Secrets\<close>

definition prompt :: "string \<Rightarrow> string \<Rightarrow> ('w, string) command" where
  "prompt label env s = (case tm_tty (sv_world s) of
     [] \<Rightarrow> (Inl (Text (label @ '': no terminal to prompt on; set '' @ env)), s)
   | a # as \<Rightarrow> (orE a (Text ''read''), s\<lparr>sv_world := (sv_world s)\<lparr>tm_tty := as\<rparr>\<rparr>))"

definition cli_YOLO :: "'w cli \<Rightarrow> bool" where
  "cli_YOLO C = (cx_getenv C SecretYOLOEnv \<noteq> [])"

definition ask_secret :: "string \<Rightarrow> string \<Rightarrow> bool \<Rightarrow> ('w, string) command" where
  "ask_secret label env twice =
     bindE (prompt label env) (\<lambda>v.
     if twice then bindE (prompt label env) (\<lambda>again. bindE (guardE (v \<noteq> again) (Text ''mismatch'')) (\<lambda>_. pureE (Inr v)))
     else pureE (Inr v))"

definition readSecret :: "'w cli \<Rightarrow> string \<Rightarrow> string \<Rightarrow> bool \<Rightarrow> ('w, string) command" where
  "readSecret C label env twice =
     bindE (if cx_getenv C env \<noteq> [] then pureE (Inr (cx_getenv C env)) else ask_secret label env twice) (\<lambda>v.
     if SecretOK (po_unicode (cx_policy C)) v then pureE (Inr v)
     else if \<not> cli_YOLO C then pureE (Inl (Text (SecretErr label)))
     else bindE (eprintln (''warning: '' @ SecretErr label @ '' ignored '' @ u8 [0xE2, 0x80, 0x94] @ '' '' @ SecretYOLOEnv
            @ '' is set, so the lock is now purely decorative'')) (\<lambda>_. pureE (Inr v)))"

definition cli_policy :: "'w cli \<Rightarrow> policy" where
  "cli_policy C = (cx_policy C)\<lparr>po_YOLO := cli_YOLO C\<rparr>"

subsection \<open>A running serve\<close>

definition request_text :: "request_error \<Rightarrow> string" where
  "request_text e = (case e of ServeDown \<Rightarrow> ''controller: ovcp serve not reachable (is it running?)''
     | Remote m \<Rightarrow> m
     | UnexpectedResponse r \<Rightarrow> ''controller: unexpected control response '' @ r
     | BadPayload p \<Rightarrow> ''controller: unexpected control response '' @ p)"

definition on_socket :: "('w \<Rightarrow> (request_error, 'a) result \<times> 'w) \<Rightarrow> 'w terminal \<Rightarrow> (request_error, 'a) result \<times> 'w terminal" where
  "on_socket m t = (case m (tm_world t) of (r, w) \<Rightarrow> (r, t\<lparr>tm_world := w\<rparr>))"

definition texted :: "(request_error, 'a) result \<times> 'v \<Rightarrow> (string, 'a) result \<times> 'v" where
  "texted x = (case x of (Inl e, v) \<Rightarrow> (Inl (request_text e), v) | (Inr a, v) \<Rightarrow> (Inr a, v))"

text \<open>\<^verbatim>\<open>die\<close> on a request's error.\<close>

definition asking :: "('w \<Rightarrow> (request_error, 'a) result \<times> 'w) \<Rightarrow> ('w, 'a) command" where
  "asking m = onWorld (\<lambda>t. texted (on_socket m t))"

text \<open>\<^verbatim>\<open>applyUpstreamsCLI\<close>: the command line programs the upstreams itself when the request fails.\<close>

definition applyUpstreamsCLI :: "'w cli \<Rightarrow> string \<Rightarrow> config \<Rightarrow> 'w terminal \<Rightarrow> string \<times> 'w terminal" where
  "applyUpstreamsCLI C sock cfg t = (case on_socket (UpstreamReapply_req (cx_serve C sock)) t of (r, t1) \<Rightarrow>
     let t2 = (if is_ok r then t1 else t1\<lparr>tm_world := cx_apply C cfg (tm_world t1)\<rparr>) in
     (Warning (cx_iface C (tm_world t2)) (cf_Upstreams cfg), t2))"

text \<open>No serve running: there is no live rule to rewrite.\<close>

definition rewriteCLI :: "'w cli \<Rightarrow> string \<Rightarrow> string \<Rightarrow> 'w terminal \<Rightarrow> (string, unit) result \<times> 'w terminal" where
  "rewriteCLI C sock cn t = (case on_socket (UpstreamAssign_req (cx_serve C sock) cn) t of
     (Inl ServeDown, t1) \<Rightarrow> (Inr (), t1) | (r, t1) \<Rightarrow> texted (r, t1))"

text \<open>The server the actions of the API see: \<open>sock\<close> is the control socket, \<open>remote\<close> the server's name.\<close>

definition cli_server :: "'w cli \<Rightarrow> string \<Rightarrow> string \<Rightarrow> ('w terminal) server" where
  "cli_server C sock remote = (let pp = dataPaths (cx_dataDir C) in
     \<lparr>sr_px = cx_px C, sr_PKI = ph_PKIDir pp, sr_TLSCrypt = ph_TLSCrypt pp, sr_ServerCert = ph_ServerCert pp,
      sr_ServerKey = ph_ServerKey pp, sr_ConfigPath = ph_ServerConf pp, sr_DefaultRemote = remote, sr_getenv = cx_getenv C,
      sr_dec_config = cx_dec_config C, sr_enc_config = cx_enc_config C, sr_dec_dns = cx_dec_dns C, sr_enc_dns = cx_enc_dns C,
      sr_dec_up = cx_dec_up C, sr_enc_up = cx_enc_up C,
      sr_Kill = (\<lambda>cn verb t. texted (on_socket (Kill_req (cx_serve C sock) cn verb) t)),
      sr_apply = applyUpstreamsCLI C sock, sr_rewrite = rewriteCLI C sock,
      sr_iface = (\<lambda>t. cx_iface C (tm_world t)), sr_url = cx_url C\<rparr>)"

abbreviation the_server :: "'w cli \<Rightarrow> ('w terminal) server" where
  "the_server C \<equiv> cli_server C (ctrlSock (cx_getenv C)) []"

definition adminCN :: "'w cli \<Rightarrow> ('w, string) command" where
  "adminCN C = adminCertCN (cx_getenv C) (cx_px C) (cx_dataDir C)"

definition found_path :: "(string \<times> string) option \<Rightarrow> string" where
  "found_path v = (case v of None \<Rightarrow> [] | Some (_, p) \<Rightarrow> p)"

definition found_version :: "(string \<times> string) option \<Rightarrow> string" where
  "found_version v = (case v of None \<Rightarrow> [] | Some (ver, _) \<Rightarrow> ver)"

definition upstreamsEnabled :: "'w cli \<Rightarrow> bool" where
  "upstreamsEnabled C = Enabled (found_path (cx_nft C)) (cx_getenv C ''OVCP_UPSTREAMS_ENABLED'')"

text \<open>Errors of these two are logged only.\<close>

definition restartSessionsCLI :: "'w cli \<Rightarrow> string \<Rightarrow> ('w, unit) command" where
  "restartSessionsCLI C cn = restartSessions (the_server C) cn"

definition liveClients :: "'w cli \<Rightarrow> ('w, vpn_client list) command" where
  "liveClients C s = (case on_socket (Clients_req (cx_codec C) (cx_serve C (ctrlSock (cx_getenv C)))) (sv_world s) of (r, t) \<Rightarrow>
     (Inr (case r of Inl _ \<Rightarrow> [] | Inr l \<Rightarrow> l), s\<lparr>sv_world := t\<rparr>))"

definition refreshCertsHostsCLI :: "'w cli \<Rightarrow> ('w, unit) command" where
  "refreshCertsHostsCLI C =
     bindE (liveClients C) (\<lambda>live.
     bindE (adminCN C) (\<lambda>remote s.
     case RefreshCertsHosts (cli_server C (ctrlSock (cx_getenv C)) remote) (ph_CertsHosts (dataPaths (cx_dataDir C))) live s of
       (_, s1) \<Rightarrow> (Inr (), s1)))"

end
