(* ===== verification/Cli_Text.thy ===== *)
theory Cli_Text
  imports Cli_Base
begin

section \<open>The command line: tables and texts\<close>

text \<open>
  How \<^verbatim>\<open>src/cmd/ovcp/commands.go\<close> sorts, filters and prints rows. A text is the list of its lines. Sorting takes equal keys
  in the order of the list, which the library leaves open for long ones.
\<close>

subsection \<open>Colors\<close>

abbreviation ESC :: char where "ESC \<equiv> CHR 0x1B"
abbreviation dash :: string where "dash \<equiv> u8 [0xE2, 0x80, 0x94]"

definition ansi :: "string \<Rightarrow> string \<Rightarrow> string" where
  "ansi code s = [ESC, CHR ''[''] @ code @ ''m'' @ s @ [ESC, CHR ''[''] @ ''0m''"

definition paint :: "'w cli \<Rightarrow> string \<Rightarrow> string \<Rightarrow> string" where
  "paint C code s = (if \<not> cx_color C then s else ansi code s)"

definition red :: "'w cli \<Rightarrow> string \<Rightarrow> string" where "red C s = paint C ''31'' s"
definition green :: "'w cli \<Rightarrow> string \<Rightarrow> string" where "green C s = paint C ''32'' s"
definition yellow :: "'w cli \<Rightarrow> string \<Rightarrow> string" where "yellow C s = paint C ''33'' s"

definition coloredStatus :: "'w cli \<Rightarrow> string \<Rightarrow> string" where
  "coloredStatus C s = (if s = ''revoked'' then red C ''REVOKED''
     else if s \<in> set [''expired'', ''down'', ''disabled''] then red C s
     else if s = ''expiring'' then yellow C s
     else if s \<in> set [''valid'', ''up'', ''enabled''] then green C s
     else s)"

text \<open>The escapes \<^verbatim>\<open>\x1b\[[0-9;]*m\<close> removed; the rest is counted in runes.\<close>

definition sgr_param :: "char \<Rightarrow> bool" where
  "sgr_param c = (is_digit_c c \<or> c = CHR '';'')"

function strip_sgr :: "string \<Rightarrow> string" where
  "strip_sgr [] = []"
| "strip_sgr (c # s) = (let r = dropWhile sgr_param (drop 1 s) in
     if c = ESC \<and> has_prefix s ''['' \<and> has_prefix r ''m'' then strip_sgr (drop 1 r) else c # strip_sgr s)"
  by pat_completeness auto
termination
proof (relation "measure length", goal_cases)
  case (2 c s r)
  have "length (dropWhile sgr_param (drop 1 s)) \<le> length (drop 1 s)" by (rule length_dropWhile_le)
  then show ?case using 2 by auto
qed simp_all

definition rune_count :: "string \<Rightarrow> nat" where
  "rune_count s = length (runes (map byte_of s))"

definition visibleWidth :: "string \<Rightarrow> nat" where
  "visibleWidth s = rune_count (strip_sgr s)"

subsection \<open>Tables\<close>

definition col_width :: "string list list \<Rightarrow> nat \<Rightarrow> nat" where
  "col_width all i = foldr (\<lambda>row w. if i < length row then max (visibleWidth (row ! i)) w else w) all 0"

fun table_row :: "(nat \<Rightarrow> nat) \<Rightarrow> nat \<Rightarrow> string list \<Rightarrow> string" where
  "table_row width i [] = []"
| "table_row width i [c] = c"
| "table_row width i (c # cs) = c @ replicate (width i - visibleWidth c + 1) CHR '' '' @ table_row width (i + 1) cs"

definition printTable :: "string list \<Rightarrow> string list list \<Rightarrow> string list" where
  "printTable headers rows = (let all = headers # rows in map (table_row (col_width all) 0) all)"

subsection \<open>Sorting and filtering\<close>

definition sortByFlag :: "(string \<times> ('a \<Rightarrow> string)) list \<Rightarrow> string \<Rightarrow> bool \<Rightarrow> 'a list \<Rightarrow> (api_error, 'a list) result" where
  "sortByFlag getters key desc rows = (if key = [] then Inr rows
     else (case map_of getters key of
         None \<Rightarrow> Inl (Text (''-sort must be one of: '' @ join_s ''|'' (sort (map fst getters))))
       | Some get \<Rightarrow> Inr (if desc then rev (sort_key get (rev rows)) else sort_key get rows)))"

definition certSortGetters :: "'w cli \<Rightarrow> (string \<times> (cert \<Rightarrow> string)) list" where
  "certSortGetters C = [(''cn'', ct_CN), (''kind'', ct_Kind), (''expiry'', \<lambda>c. cx_rfc3339 C (ct_NotAfter c)), (''serial'', ct_Serial),
     (''status'', Status (cx_now C))]"

definition userSortGetters :: "'w cli \<Rightarrow> (string \<times> (user \<Rightarrow> string)) list" where
  "userSortGetters C = [(''username'', us_Username), (''role'', us_Role), (''created'', \<lambda>u. cx_rfc3339 C (us_CreatedAt u)),
     (''status'', \<lambda>u. boolText (\<not> us_Disabled u)), (''2fa'', \<lambda>u. boolText (us_TOTP u \<noteq> []))]"

definition auditSortGetters :: "'w cli \<Rightarrow> (string \<times> (audit_entry \<Rightarrow> string)) list" where
  "auditSortGetters C = [(''ts'', \<lambda>e. cx_rfc3339 C (au_TS e)), (''actor'', au_Actor), (''action'', au_Action)]"

definition filterSortCerts :: "'w cli \<Rightarrow> string \<Rightarrow> string \<Rightarrow> string \<Rightarrow> bool \<Rightarrow> cert list \<Rightarrow> (api_error, cert list) result" where
  "filterSortCerts C status kind sortBy desc certs = sortByFlag (certSortGetters C) sortBy desc
     (filter (\<lambda>c. \<not> (status = ''active'' \<and> ct_RevokedAt c \<noteq> None) \<and> \<not> (status = ''revoked'' \<and> ct_RevokedAt c = None)
        \<and> \<not> (kind \<noteq> ''all'' \<and> ct_Kind c \<noteq> kind)) certs)"

definition activeCertByCN :: "cert list \<Rightarrow> string \<Rightarrow> cert option" where
  "activeCertByCN certs cn = List.find (\<lambda>c. ct_CN c = cn \<and> ct_RevokedAt c = None \<and> ct_Kind c = ''client'') certs"

subsection \<open>Texts\<close>

definition fmtUptime :: "'w cli \<Rightarrow> int option \<Rightarrow> string" where
  "fmtUptime C t = (case t of None \<Rightarrow> [] | Some s \<Rightarrow> seconds_str (round_seconds (cx_now C - s)))"

text \<open>\<^verbatim>\<open>%-ns\<close> and \<^verbatim>\<open>%nd\<close>.\<close>

definition pad_right :: "nat \<Rightarrow> string \<Rightarrow> string" where
  "pad_right n s = s @ replicate (n - rune_count s) CHR '' ''"

definition pad_left :: "nat \<Rightarrow> string \<Rightarrow> string" where
  "pad_left n s = replicate (n - rune_count s) CHR '' '' @ s"

definition client_line :: "'w cli \<Rightarrow> vpn_client \<Rightarrow> string" where
  "client_line C c = ''  '' @ pad_right 20 (vc_CN c) @ '' '' @ pad_right 22 (vc_RealAddress c) @ '' '' @ pad_right 12 (vc_VirtualAddress c)
     @ '' rx '' @ itoa (vc_BytesRecv c) @ '' tx '' @ itoa (vc_BytesSent c) @ '' since '' @ cx_rfc3339 C (since_unix c)"

definition printStatusText :: "'w cli \<Rightarrow> status \<Rightarrow> string list" where
  "printStatusText C st =
     (let running = ''OpenVPN: running (pid '' @ itoa (sy_Pid st) @ '', up '' @ fmtUptime C (sy_StartedAt st) @ '')'';
          unknown = (sy_Error st \<noteq> [] \<and> \<not> sy_Running st) in
      (if unknown then [''OpenVPN: unknown '' @ dash @ '' '' @ sy_Error st]
       else if \<not> sy_Running st then [red C ''OpenVPN: stopped'']
       else if sy_Error st \<noteq> [] then [running, ''Clients: unavailable '' @ dash @ '' '' @ sy_Error st]
       else [green C running, ''Clients: '' @ nat_str (length (sy_Clients st)) @ '' connected''] @ map (client_line C) (sy_Clients st))
      @ (if unknown then [''DNS: unknown'']
         else if sy_DNSRunning st
           then [green C (''DNS: running (pid '' @ itoa (sy_DNSPid st) @ '', up '' @ fmtUptime C (sy_DNSStartedAt st) @ '')'')]
         else [red C ''DNS: stopped''])
      @ (if fmtUptime C (sy_ServeStartedAt st) \<noteq> [] then [''ovcp: up '' @ fmtUptime C (sy_ServeStartedAt st)] else [])
      @ (if sy_CertsExpiring st = 0 then [''Certs: '' @ itoa (sy_CertsTotal st)]
         else [''Certs: '' @ itoa (sy_CertsTotal st) @ '', '' @ itoa (sy_CertsExpiring st) @ '' expiring''])
      @ (if unknown then [''Telegram: unknown'']
         else (case sy_Telegram st of None \<Rightarrow> []
           | Some tg \<Rightarrow> if \<not> tg_TokenSet tg then [''Telegram: not configured'']
               else if tg_Running tg then [green C ''Telegram: running''] else [red C ''Telegram: stopped'']))
      @ (if sy_RoutingWarning st \<noteq> [] then [''warning: '' @ sy_RoutingWarning st] else []))"

definition to_upper_s :: "string \<Rightarrow> string" where
  "to_upper_s = map (\<lambda>c. if is_lower_c c then char_of (byte_of c - 32) else c)"

definition printProcText :: "'w cli \<Rightarrow> string \<Rightarrow> string \<Rightarrow> control_result \<Rightarrow> string list" where
  "printProcText C name0 oper r =
     (let name = to_upper_s name0; pid = '' (pid '' @ itoa (cr_Pid r) @ '')'' in
      (if oper = ''status'' \<and> cr_Pid r = 0 then [red C (name @ '' stopped'')]
       else if oper = ''status'' then [green C (name @ '' running (pid '' @ itoa (cr_Pid r) @ '', up '' @ fmtUptime C (cr_StartedAt r) @ '')'')]
       else if oper = ''start'' \<and> \<not> cr_Changed r then [name @ '' already started'' @ pid]
       else if oper = ''start'' then [name @ '' started'' @ pid]
       else if oper = ''stop'' \<and> \<not> cr_Changed r then [name @ '' already stopped'']
       else if oper = ''stop'' then [name @ '' stopped'']
       else if oper = ''restart'' then [name @ '' restarted'' @ pid]
       else if oper = ''reconnect'' then [name @ '' reconnect sent'' @ pid] else [])
      @ (if oper = ''status'' \<and> fmtUptime C (cr_ServeStartedAt r) \<noteq> [] then [''ovcp: up '' @ fmtUptime C (cr_ServeStartedAt r)] else []))"

definition printConfigText :: "ovpn_config \<Rightarrow> string list" where
  "printConfigText c = [''proto:       '' @ oc_Proto c, ''port:        '' @ itoa (oc_Port c), ''subnet:      '' @ oc_Subnet c,
     ''cipher:      '' @ oc_Cipher c, ''dns:         '' @ join_s '', '' (oc_DNS c), ''push-internal-dns: '' @ boolText (oc_PushInternalDNS c),
     ''routes:      '' @ join_s '', '' (oc_Routes c), ''redirect-gw: '' @ boolText (oc_RedirectGW c)]
     @ (if oc_Extra c \<noteq> [] then [''extra:'', oc_Extra c] else [])"

definition printDiff :: "'w cli \<Rightarrow> string list \<Rightarrow> string list" where
  "printDiff C diff = (if length diff = 0 then [''no changes vs. the saved server.conf'']
     else map (\<lambda>l. if has_prefix l ''+'' then green C l else red C l) diff)"

definition upStatus :: "bool \<Rightarrow> string" where
  "upStatus up = (if up then ''up'' else ''down'')"

definition printTelegramText :: "'w cli \<Rightarrow> string \<Rightarrow> telegram_status \<Rightarrow> string list" where
  "printTelegramText C oper st = (if \<not> tg_TokenSet st then [''Telegram: not configured (run 'ovcp telegram config set -token -admin ...')'']
     else (let state = (if tg_Running st then ''running'' else ''stopped'');
               word = (if (oper = ''start'' \<or> oper = ''stop'') \<and> \<not> tg_Changed st then ''already '' @ state else state);
               line = ''Telegram: '' @ word @ '', admin '' @ tg_Admin st in
           [if tg_Running st then green C line else red C line]))"

end
