(* ===== verification/Cli_Certs.thy ===== *)
theory Cli_Certs
  imports Cli_Text
begin

section \<open>The command line: certificates, CA, backup, init\<close>

text \<open>
  The commands of \<^verbatim>\<open>src/cmd/ovcp/commands.go\<close> on the certificate authority. A command's flags are its arguments. The
  hints it adds to an error's text are not modelled.
\<close>

abbreviation actor_cli :: string where "actor_cli \<equiv> ''cli''"

definition now_s :: "'w cli \<Rightarrow> int" where
  "now_s C = pe_Now (cx_env C)"

definition ca_secret :: "'w cli \<Rightarrow> bool \<Rightarrow> ('w, string) command" where
  "ca_secret C twice = readSecret C ''CA passphrase'' ''OVCP_CA_PASSPHRASE'' twice"

subsection \<open>certificate\<close>

record issue_args =
  ia_CN :: string
  ia_Renew :: bool
  ia_Days :: int
  ia_KeyPass :: string
  ia_Export :: bool
  ia_Remote :: string
  ia_Port :: int
  ia_Proto :: string
  ia_ServerCN :: string
  ia_SplitTunnel :: bool
  ia_CustomOpts :: "string list"

definition or_adminCN :: "'w cli \<Rightarrow> string \<Rightarrow> ('w, string) command" where
  "or_adminCN C v = (if v = [] then adminCN C else pureE (Inr v))"

definition export_issue :: "'w cli \<Rightarrow> issue_args \<Rightarrow> client_request \<Rightarrow> ('w, issued_cert \<times> string) command" where
  "export_issue C a req =
     bindE (or_adminCN C (ia_Remote a)) (\<lambda>remote.
     bindE (or_adminCN C (ia_ServerCN a)) (\<lambda>serverCN.
     bindE (pureE (linesValue C (ia_CustomOpts a) [])) (\<lambda>extra.
     ExportClient (the_server C) (cx_env C) req \<lparr>eo_Remote = remote, eo_ServerCN = serverCN, eo_Proto = ia_Proto a,
       eo_Extra = (case extra of None \<Rightarrow> [] | Some t \<Rightarrow> t), eo_Port = ia_Port a, eo_SplitTunnel = ia_SplitTunnel a\<rparr>)))"

definition cmdIssue :: "'w cli \<Rightarrow> issue_args \<Rightarrow> ('w, unit) command" where
  "cmdIssue C a =
     bindE (guardE (ia_CN a = []) (Text ''-cn required'')) (\<lambda>_.
     bindE (openStore C) (\<lambda>_.
     bindE (ca_secret C False) (\<lambda>pass.
     let req = \<lparr>cq_CN = ia_CN a, cq_Days = ia_Days a, cq_Passphrase = pass, cq_KeyPass = ia_KeyPass a, cq_Renew = ia_Renew a\<rparr> in
     bindE (if ia_Export a then export_issue C a req
            else bindE (IssueClient (the_server C) (cx_env C) req) (\<lambda>ic. pureE (Inr (ic, [])))) (\<lambda>(ic, bundle).
     bindE (if ia_Renew a then restartSessionsCLI C (ia_CN a) else pureE (Inr ())) (\<lambda>_.
     bindE (refreshCertsHostsCLI C) (\<lambda>_.
     bindE (AuditClient (now_s C) actor_cli req ic) (\<lambda>_.
     if ia_Export a then output_result C (ShBundle (ic_SerialHex ic) bundle)
       (bindE (print bundle) (\<lambda>_. eprintln (''serial: '' @ ic_SerialHex ic)))
     else output_result C (ShIssued (ic_SerialHex ic) (ic_CertPEM ic) (ic_KeyPEM ic))
       (bindE (print (ic_CertPEM ic @ ic_KeyPEM ic)) (\<lambda>_. eprintln (''serial: '' @ ic_SerialHex ic))))))))))"

definition cmdRevoke :: "'w cli \<Rightarrow> string \<Rightarrow> ('w, unit) command" where
  "cmdRevoke C serial =
     bindE (guardE (serial = []) (Text ''-serial required'')) (\<lambda>_.
     bindE (ca_secret C False) (\<lambda>pass.
     bindE (openStore C) (\<lambda>_.
     bindE (RevokeCert (the_server C) (cx_env C) actor_cli serial pass) (\<lambda>res.
     bindE (refreshCertsHostsCLI C) (\<lambda>_.
     bindE (restartSessionsCLI C (rr_CN res)) (\<lambda>_.
     output_result C (ShRevoked res) (println (''revoked; CRL regenerated: '' @ rr_CRLPath res))))))))"

definition cert_table :: "'w cli \<Rightarrow> cert_entry list \<Rightarrow> string list" where
  "cert_table C rows = printTable [''STATUS'', ''KIND'', ''CN'', ''EXPIRES'', ''SERIAL'']
     (map (\<lambda>c. [coloredStatus C (cw_Status c), cw_Kind c, cw_CN c, cx_date C (cw_Expires c), cw_Serial c]) rows)"

definition cmdList :: "'w cli \<Rightarrow> string \<Rightarrow> string \<Rightarrow> string \<Rightarrow> bool \<Rightarrow> ('w, unit) command" where
  "cmdList C status kind sortBy desc =
     bindE (openStore C) (\<lambda>_.
     bindE (getE (\<lambda>s. ListCerts (sv_store s))) (\<lambda>certs.
     bindE (pureE (filterSortCerts C status kind sortBy desc certs)) (\<lambda>out.
     let rows = map (NewCertRow (cx_now C)) out in output_result C (ShCerts rows) (print_lines (cert_table C rows)))))"

text \<open>The server has one certificate, at the paths serve reads; a new name renames it.\<close>

definition cmdRenew :: "'w cli \<Rightarrow> string \<Rightarrow> int \<Rightarrow> ('w, unit) command" where
  "cmdRenew C cn days = (let pp = dataPaths (cx_dataDir C) in
     bindE (openStore C) (\<lambda>_.
     bindE (ca_secret C False) (\<lambda>pass.
     bindE (adminCN C) (\<lambda>cur.
     bindE (RenewServer (the_server C) (cx_env C) (ph_ServerCert pp) (ph_ServerKey pp) actor_cli (or_env cn cur) days pass) (\<lambda>res.
     output_result C (ShRenewed res)
       (print_lines ([''server cert renewed: '' @ rn_Serial res @ '' (cn '' @ rn_CN res @ '', expires '' @ cx_date C (rn_NotAfter res) @ '')'',
          ''run `ovcp vpn restart` to apply'']
        @ (if cn \<noteq> [] then [''the admin UI's own TLS cert keeps the old CN until `ovcp serve` is restarted''] else []))))))))"

subsection \<open>ca\<close>

definition cmdCAStatus :: "'w cli \<Rightarrow> ('w, unit) command" where
  "cmdCAStatus C =
     bindE (onFS PkiErr (CACert (cx_px C) (ph_PKIDir (dataPaths (cx_dataDir C))))) (\<lambda>cert.
     let out = \<lparr>co_CN = xc_Subject cert, co_NotAfter = xc_NotAfter cert, co_Status = Status (cx_now C)
       \<lparr>ct_Serial = [], ct_CN = [], ct_Kind = [], ct_PEM = [], ct_IssuedAt = 0, ct_NotAfter = xc_NotAfter cert, ct_RevokedAt = None,
        ct_IncludeDNS = False\<rparr>\<rparr> in
     output_result C (ShCA out)
       (println (co_CN out @ ''  '' @ coloredStatus C (co_Status out) @ '' expires '' @ cx_date C (co_NotAfter out))))"

definition cmdRotateCA :: "'w cli \<Rightarrow> ('w, unit) command" where
  "cmdRotateCA C =
     bindE (readSecret C ''Current CA passphrase'' ''OVCP_CA_PASSPHRASE'' False) (\<lambda>oldPass.
     bindE (readSecret C ''New CA passphrase'' ''OVCP_CA_NEW_PASSPHRASE'' True) (\<lambda>newPass.
     bindE (onFS PkiErr (Rotate (cx_px C) (cx_env C) (ph_PKIDir (dataPaths (cx_dataDir C))) oldPass newPass)) (\<lambda>_.
     bindE (openStore C) (\<lambda>_.
     bindE (audit (now_s C) actor_cli ''ca_rotate'' []) (\<lambda>_.
     printMsg C (''CA passphrase rotated'', True))))))"

definition cmdRenewCA :: "'w cli \<Rightarrow> int \<Rightarrow> ('w, unit) command" where
  "cmdRenewCA C years =
     bindE (requirePositive years ''years'') (\<lambda>_.
     bindE (ca_secret C False) (\<lambda>pass.
     bindE (onFS PkiErr (RenewCA (cx_px C) (cx_env C) (ph_PKIDir (dataPaths (cx_dataDir C))) years pass)) (\<lambda>cert.
     bindE (openStore C) (\<lambda>_.
     bindE (audit (now_s C) actor_cli ''renew_ca'' []) (\<lambda>_.
     output_result C (ShRenewedCA (xc_NotAfter cert)) (print_lines [''CA cert renewed; valid until '' @ cx_date C (xc_NotAfter cert),
       ''run `ovcp vpn restart` to apply'']))))))"

subsection \<open>backup\<close>

text \<open>\<open>terminal\<close> tells that the stream the archive goes to or comes from is a terminal.\<close>

definition cmdBackupCreate :: "'w cli \<Rightarrow> archive_lib \<Rightarrow> (store \<Rightarrow> string) \<Rightarrow> string \<Rightarrow> bool \<Rightarrow> ('w, unit) command" where
  "cmdBackupCreate C al snap tmp terminal =
     bindE (guardE (cx_json C) (Text ''-json is not supported for backup create (the archive is the output)'')) (\<lambda>_.
     bindE (guardE terminal (Text ''refusing to write the archive to a terminal; redirect stdout to a file'')) (\<lambda>_.
     bindE (readSecret C ''Backup passphrase'' ''OVCP_BACKUP_PASSPHRASE'' True) (\<lambda>pass.
     bindE (openStore C) (\<lambda>_.
     bindE (getE (\<lambda>s. snap (sv_store s))) (\<lambda>db.
     bindE (onFS (\<lambda>_. Text ''backup'') (Create al (cx_px C) (cx_env C) (cx_dataDir C) db tmp pass)) (\<lambda>archive.
     bindE (print archive) (\<lambda>_.
     bindE (audit (now_s C) actor_cli ''backup_create'' []) (\<lambda>_.
     eprintln ''backup written; keep the passphrase safe: it cannot be recovered, and the archive is unreadable without it''))))))))"

text \<open>The database is one of the files written back: \<open>unsnap\<close> is the store of a database file, which the next
  command opens. \<open>extra\<close> tells that an argument was given.\<close>

definition reopened :: "(string \<Rightarrow> store) \<Rightarrow> string \<Rightarrow> ('w, unit) command" where
  "reopened unsnap path s = (Inr (), (case fs_files (sv_fs s) path of None \<Rightarrow> s | Some d \<Rightarrow> s\<lparr>sv_store := unsnap d\<rparr>))"

definition cmdBackupRestore :: "'w cli \<Rightarrow> archive_lib \<Rightarrow> (string \<Rightarrow> store) \<Rightarrow> string \<Rightarrow> bool \<Rightarrow> bool \<Rightarrow> bool \<Rightarrow> ('w, unit) command" where
  "cmdBackupRestore C al unsnap archive extra terminal force =
     bindE (guardE (extra \<or> terminal) (Text ''usage: ovcp backup restore [-force] < ARCHIVE'')) (\<lambda>_.
     bindE (readSecret C ''Backup passphrase'' ''OVCP_BACKUP_PASSPHRASE'' False) (\<lambda>pass.
     bindE (onFS (\<lambda>_. Text ''restore'') (Restore al (cx_px C) (cx_dataDir C) archive pass force)) (\<lambda>_.
     bindE (reopened unsnap (path_join (cx_dataDir C) ''ovcp.db'')) (\<lambda>_.
     output_result C (ShMsg (''restored CA, CRL, tls-crypt key, config, and database into '' @ cx_dataDir C
         @ ''; next: OVCP_SERVER_CN=<host> ovcp certificate renew, then ovcp vpn start'', True))
       (print_lines [''[1/2] restored CA, CRL, tls-crypt key, config, and database into '' @ cx_dataDir C,
          ''[2/2] next: OVCP_SERVER_CN=<host> ovcp certificate renew   (issues the openvpn server cert)'',
          ''      then: ovcp vpn start''])))))"

subsection \<open>init\<close>

record init_args =
  na_Skeleton :: bool
  na_CACN :: string
  na_ServerCN :: string
  na_Years :: int
  na_Days :: int
  na_Admin :: string
  na_Mgmt :: string

text \<open>The CA: a new one, or the passphrase of the one there is.\<close>

definition init_ca :: "'w cli \<Rightarrow> init_args \<Rightarrow> string \<Rightarrow> ('w, unit) command" where
  "init_ca C a pass s = (let pp = dataPaths (cx_dataDir C) in
     case InitCA (cx_px C) (cx_env C) (ph_PKIDir pp) (na_CACN a) (na_Years a) pass (sv_fs s) of
       (Inr _, f) \<Rightarrow> bindE (audit (now_s C) ''system'' ''ca_init'' (''cn='' @ na_CACN a)) (\<lambda>_.
          progress C (''[1/5] CA initialized: '' @ ph_CACert pp @ NL)) (s\<lparr>sv_fs := f\<rparr>)
     | (Inl ErrCAExists, f) \<Rightarrow> bindE (onFS PkiErr (CheckPassphrase (cx_px C) (ph_PKIDir pp) pass)) (\<lambda>_.
          progress C (''[1/5] CA exists, passphrase ok'' @ NL)) (s\<lparr>sv_fs := f\<rparr>)
     | (Inl e, f) \<Rightarrow> (Inl (PkiErr e), s\<lparr>sv_fs := f\<rparr>))"

definition init_server_cert :: "'w cli \<Rightarrow> init_args \<Rightarrow> string \<Rightarrow> ('w, unit) command" where
  "init_server_cert C a pass s = (let pp = dataPaths (cx_dataDir C) in
     case fs_stat (ph_ServerCert pp) (sv_fs s) of (found, f) \<Rightarrow>
       (if found then progress C (''[2/5] server cert exists: '' @ ph_ServerCert pp @ NL)
        else bindE (onFS PkiErr (Issue (cx_px C) (cx_env C) (ph_PKIDir pp) KindServer (na_ServerCN a) (na_Days a) pass)) (\<lambda>ic.
             bindE (WriteServerCert (cx_env C) (ph_ServerCert pp) (ph_ServerKey pp) ic) (\<lambda>_.
             bindE (audit (now_s C) ''system'' ''issue'' (''cn='' @ na_ServerCN a @ '' kind=server (init)'')) (\<lambda>_.
             progress C (''[2/5] server cert issued: '' @ ph_ServerCert pp @ NL))))) (s\<lparr>sv_fs := f\<rparr>))"

text \<open>The settings and server.conf, from the defaults whatever was there.\<close>

definition init_config :: "'w cli \<Rightarrow> init_args \<Rightarrow> ('w, unit) command" where
  "init_config C a = (let pp = dataPaths (cx_dataDir C); cfg0 = Default (cx_getenv C);
       cfg1 = (if cx_dnsmasq C \<noteq> None then cfg0\<lparr>oc_PushInternalDNS := True\<rparr> else cfg0) in
     bindE (adminCN C) (\<lambda>serverCN.
     let cfg = fillPaths (cx_getenv C) (cx_dataDir C) (na_Mgmt a) serverCN cfg1 in
     bindE (onStore (\<lambda>st. Inr (SaveConfig (the_server C) cfg st))) (\<lambda>_.
     bindE (onFS OvpnErr (WriteAtomic cfg (ph_ServerConf pp))) (\<lambda>_.
     progress C (''[4/5] server config: '' @ ph_ServerConf pp @ NL)))))"

definition init_admin :: "'w cli \<Rightarrow> init_args \<Rightarrow> ('w, unit) command" where
  "init_admin C a s = (if na_Admin a = [] then progress C (''[5/5] admin user skipped'' @ NL) s
     else if is_ok (GetUser (cr_aead (po_crypto (cx_policy C))) (na_Admin a) (sv_store s))
       then progress C (''[5/5] admin user exists: '' @ na_Admin a @ NL) s
     else bindE (if cx_getenv C ''OVCP_USER_PASSWORD'' = [] then eprintln (''create admin user '' @ Quote (cx_print C) (na_Admin a))
            else pureE (Inr ())) (\<lambda>_.
          bindE (readSecret C ''Password'' ''OVCP_USER_PASSWORD'' True) (\<lambda>pw.
          bindE (AddUser_api (cli_policy C) (now_s C) ''system'' (na_Admin a) pw ''admin'') (\<lambda>_.
          progress C (''[5/5] admin user created: '' @ na_Admin a @ NL)))) s)"

definition cmdInit :: "'w cli \<Rightarrow> init_args \<Rightarrow> ('w, unit) command" where
  "cmdInit C a = (let pp = dataPaths (cx_dataDir C) in
     if na_Skeleton a then bindE (ensureSkeleton (cx_dataDir C)) (\<lambda>_. printMsg C (''data directory ready: '' @ cx_dataDir C, True))
     else bindE (guardE (na_ServerCN a = []) (Text ''-server-cn required (public hostname clients connect to)'')) (\<lambda>_.
       bindE (requirePositive (na_Years a) ''ca-years'') (\<lambda>_.
       bindE (requirePositive (na_Days a) ''server-days'') (\<lambda>_.
       bindE (openStore C) (\<lambda>_.
       bindE (ca_secret C True) (\<lambda>pass.
       bindE (init_ca C a pass) (\<lambda>_.
       bindE (init_server_cert C a pass) (\<lambda>_.
       bindE (loadOrCreateTLSCrypt (cx_static_key C) (ph_TLSCrypt pp)) (\<lambda>_.
       bindE (progress C (''[3/5] tls-crypt key: '' @ ph_TLSCrypt pp @ NL)) (\<lambda>_.
       bindE (init_config C a) (\<lambda>_.
       bindE (init_admin C a) (\<lambda>_.
       let out = \<lparr>io_CACert = ph_CACert pp, io_ServerCert = ph_ServerCert pp, io_TLSCrypt = ph_TLSCrypt pp, io_ServerConf = ph_ServerConf pp,
         io_Admin = na_Admin a, io_AdminUIURL = ''https://'' @ or_env (cx_getenv C ''OVCP_LISTEN'') ''127.0.0.1:8443''\<rparr> in
       output_result C (ShInit out) (print_lines [[], ''done. start the server:  ovcp serve'',
         ''admin UI:                '' @ io_AdminUIURL out])))))))))))))"

end
