(* ===== verification/Cli_Admin.thy ===== *)
theory Cli_Admin
  imports Cli_Certs
begin

section \<open>The command line: users, workers, upstreams, settings, records, logs\<close>

text \<open>
  The other commands of \<^verbatim>\<open>src/cmd/ovcp/commands.go\<close> and \<^verbatim>\<open>logs.go\<close>. A \<^verbatim>\<open>config set\<close> takes an empty string (or a sentinel) for
  a setting that is left unchanged. \<open>ctrl\<close> is the control socket a command was given.
\<close>

subsection \<open>user\<close>

definition cmdUserAdd :: "'w cli \<Rightarrow> string \<Rightarrow> string \<Rightarrow> ('w, unit) command" where
  "cmdUserAdd C name role =
     bindE (readSecret C ''Password'' ''OVCP_USER_PASSWORD'' True) (\<lambda>pw.
     bindE (openStore C) (\<lambda>_.
     bindE (AddUser_api (cli_policy C) (now_s C) actor_cli name pw role) (printMsg C)))"

definition user_table :: "'w cli \<Rightarrow> user_summary list \<Rightarrow> string list" where
  "user_table C rows = printTable [''USERNAME'', ''ROLE'', ''STATUS'', ''2FA'', ''CREATED'']
     (map (\<lambda>u. [uy_Username u, uy_Role u, coloredStatus C (if uy_Disabled u then ''disabled'' else ''enabled''),
        if uy_TOTP u then ''2fa'' else ''-'', cx_date C (uy_CreatedAt u)]) rows)"

definition cmdUserList :: "'w cli \<Rightarrow> string \<Rightarrow> string \<Rightarrow> string \<Rightarrow> bool \<Rightarrow> ('w, unit) command" where
  "cmdUserList C status role sortBy desc =
     bindE (openStore C) (\<lambda>_.
     bindE (queryStore (ListUsers (cr_aead (po_crypto (cx_policy C))))) (\<lambda>users.
     bindE (pureE (sortByFlag (userSortGetters C) sortBy desc
       (filter (\<lambda>u. \<not> (status = ''enabled'' \<and> us_Disabled u) \<and> \<not> (status = ''disabled'' \<and> \<not> us_Disabled u)
          \<and> \<not> (role \<noteq> ''all'' \<and> us_Role u \<noteq> role)) users))) (\<lambda>filtered.
     let rows = map NewUserSummary filtered in output_result C (ShUsers rows) (print_lines (user_table C rows)))))"

definition cmdUserDel :: "'w cli \<Rightarrow> string \<Rightarrow> ('w, unit) command" where
  "cmdUserDel C name = bindE (openStore C) (\<lambda>_. bindE (DeleteUser_api (now_s C) actor_cli name) (printMsg C))"

definition cmdUserEnableDisable :: "string \<Rightarrow> 'w cli \<Rightarrow> string \<Rightarrow> ('w, unit) command" where
  "cmdUserEnableDisable oper C name =
     bindE (openStore C) (\<lambda>_. bindE (SetUserDisabled_api (now_s C) actor_cli name (oper = ''disable'')) (printMsg C))"

definition cmdUserPasswd :: "'w cli \<Rightarrow> string \<Rightarrow> ('w, unit) command" where
  "cmdUserPasswd C name =
     bindE (readSecret C ''Password'' ''OVCP_USER_PASSWORD'' True) (\<lambda>pw.
     bindE (openStore C) (\<lambda>_.
     bindE (SetUserPassword_api (cli_policy C) (now_s C) actor_cli name pw) (printMsg C)))"

text \<open>The QR code as blocks of characters, with a white border; \<open>black\<close> is white outside the code.\<close>

definition printQR :: "(nat \<times> (nat \<Rightarrow> nat \<Rightarrow> bool)) option \<Rightarrow> string list" where
  "printQR code = (case code of None \<Rightarrow> []
     | Some (n, black) \<Rightarrow>
        concat (replicate (n + 2) ''  '')
        # map (\<lambda>y. ''  '' @ concat (map (\<lambda>x. if black x y then u8 [0xE2, 0x96, 0x88, 0xE2, 0x96, 0x88] else ''  '') [0..<n + 1]))
            [0..<n + 1])"

definition cmdUserTOTP :: "'w cli \<Rightarrow> (string \<Rightarrow> (nat \<times> (nat \<Rightarrow> nat \<Rightarrow> bool)) option) \<Rightarrow> string option \<Rightarrow> string \<Rightarrow> string \<Rightarrow> bool
    \<Rightarrow> ('w, unit) command" where
  "cmdUserTOTP C qr raw nonce name off =
     bindE (openStore C) (\<lambda>_.
     if off then bindE (DisableTOTP (cx_policy C) (now_s C) actor_cli name) (printMsg C)
     else bindE (adminCN C) (\<lambda>issuer.
          bindE (EnrollTOTP (cx_policy C) qr raw nonce (now_s C) actor_cli name issuer) (\<lambda>enr.
          output_result C (ShEnrolled enr) (print_lines (printQR (qr (te_URL enr))
            @ [''scan with your authenticator, or enter manually:'', ''  secret: '' @ te_Secret enr, ''  url:    '' @ te_URL enr])))))"

subsection \<open>audit\<close>

text \<open>The tail is reversed before it is sorted and printed.\<close>

definition cmdAudit :: "'w cli \<Rightarrow> string \<Rightarrow> bool \<Rightarrow> ('w, unit) command" where
  "cmdAudit C sortBy desc =
     bindE (openStore C) (\<lambda>_.
     bindE (getE (\<lambda>s. rev (AuditTail 50 (sv_store s)))) (\<lambda>tail.
     bindE (pureE (sortByFlag (auditSortGetters C) sortBy desc tail)) (\<lambda>rows.
     output_result C (ShAudit rows) (print_lines (printTable [''TIME'', ''ACTOR'', ''ACTION'', ''DETAIL'']
       (map (\<lambda>e. [cx_rfc3339 C (au_TS e), au_Actor e, au_Action e, au_Detail e]) rows))))))"

subsection \<open>vpn, dns, status, debug\<close>

definition control :: "'w cli \<Rightarrow> string \<Rightarrow> string \<Rightarrow> ('w, control_result) command" where
  "control C ctrl oper = asking (Control_req (cx_codec C) (cx_serve C ctrl) oper)"

definition procOpBody :: "string \<Rightarrow> string \<Rightarrow> string \<Rightarrow> 'w cli \<Rightarrow> string \<Rightarrow> ('w, unit) command" where
  "procOpBody name oper wirePrefix C ctrl =
     bindE (control C ctrl (wirePrefix @ oper)) (\<lambda>r.
     bindE (if oper \<noteq> ''status''
       then bindE (openStore C) (\<lambda>_. audit (now_s C) actor_cli (name @ ''_'' @ oper) (''pid='' @ itoa (cr_Pid r)))
       else pureE (Inr ())) (\<lambda>_.
     output_result C (ShProc r) (print_lines (printProcText C name oper r))))"

definition cmdKill :: "'w cli \<Rightarrow> string \<Rightarrow> string \<Rightarrow> ('w, unit) command" where
  "cmdKill C ctrl cn =
     bindE (guardE (cn = []) (Text ''-cn required'')) (\<lambda>_.
     bindE (openStore C) (\<lambda>_.
     bindE (Kill_api (cli_server C ctrl []) (now_s C) actor_cli cn) (printMsg C)))"

text \<open>A lifecycle operation on openvpn; a start is followed by the host's routing warning.\<close>

definition vpn_op :: "'w cli \<Rightarrow> string \<Rightarrow> string \<Rightarrow> ('w, unit) command" where
  "vpn_op C ctrl oper =
     bindE (procOpBody ''vpn'' oper [] C ctrl) (\<lambda>_.
     if oper = ''start'' then warnLine (cx_routing C (upstreamsEnabled C)) else pureE (Inr ()))"

definition ctrlSource :: "'w cli \<Rightarrow> string \<Rightarrow> (('w terminal) srv) status_source" where
  "ctrlSource C ctrl =
     (let via = (\<lambda>m s. case onWorld (\<lambda>t. texted (on_socket m t)) s of (Inl (Transport e), s1) \<Rightarrow> (Inl e, s1) | (Inl _, s1) \<Rightarrow> (Inl [], s1)
        | (Inr a, s1) \<Rightarrow> (Inr a, s1)) in
      \<lparr>ss_VPN = via (Control_req (cx_codec C) (cx_serve C ctrl) ''status''),
       ss_DNS = via (Control_req (cx_codec C) (cx_serve C ctrl) ''dns-status''),
       ss_Clients = (\<lambda>s. case onWorld (\<lambda>t. texted (on_socket (Clients_req (cx_codec C) (cx_serve C ctrl)) t)) s of
          (Inl (Transport e), s1) \<Rightarrow> (Inl e, s1) | (Inl _, s1) \<Rightarrow> (Inl [], s1) | (Inr a, s1) \<Rightarrow> (Inr a, s1)),
       ss_Telegram = (\<lambda>s. case onWorld (\<lambda>t. texted (on_socket (TelegramOp_req (cx_codec C) (cx_serve C ctrl) ''status'') t)) s of
          (Inl (Transport e), s1) \<Rightarrow> (Inl e, s1) | (Inl _, s1) \<Rightarrow> (Inl [], s1) | (Inr a, s1) \<Rightarrow> (Inr a, s1))\<rparr>)"

definition cmdStatus :: "'w cli \<Rightarrow> string \<Rightarrow> ('w, unit) command" where
  "cmdStatus C ctrl =
     bindE (openStore C) (\<lambda>_.
     bindE (BuildStatus (the_server C) (cx_now C) (ctrlSource C ctrl) (cx_routing C (upstreamsEnabled C)) (upstreamsEnabled C)) (\<lambda>st.
     output_result C (ShStatus st) (print_lines (printStatusText C st))))"

definition cmdDebugOp :: "string \<Rightarrow> 'w cli \<Rightarrow> string \<Rightarrow> ('w, unit) command" where
  "cmdDebugOp oper C ctrl =
     bindE (asking (Debug_req (cx_serve C ctrl) (oper = ''on''))) (\<lambda>_.
     bindE (openStore C) (\<lambda>_.
     bindE (audit (now_s C) actor_cli (''debug_'' @ oper) []) (\<lambda>_.
     output_result C (ShDebug (oper = ''on'')) (println (''debug logging '' @ oper)))))"

definition cmdVersion :: "'w cli \<Rightarrow> version_out \<Rightarrow> ('w, unit) command" where
  "cmdVersion C v =
     (let line = (\<lambda>what missing found. case found of None \<Rightarrow> missing @ '': not found on PATH'' | Some (ver, p) \<Rightarrow> what @ '' '' @ ver @ '' ('' @ p @ '')'');
          out = v\<lparr>vo_OpenVPN := cx_openvpn C, vo_Dnsmasq := cx_dnsmasq C, vo_Nft := cx_nft C\<rparr> in
      output_result C (ShVersion out) (print_lines
        [''ovcp '' @ vo_Version out @ '' '' @ paint C ''36'' (''('' @ vo_Platform out @ '', '' @ vo_BuildTarget out @ '')''),
         line ''openvpn'' ''openvpn'' (vo_OpenVPN out), line ''dnsmasq'' ''dnsmasq'' (vo_Dnsmasq out),
         line ''nftables'' ''nftables'' (vo_Nft out)]))"

subsection \<open>record\<close>

text \<open>Where a record resolves, for the table.\<close>

definition record_table :: "'w cli \<Rightarrow> cert_entry list \<Rightarrow> string list" where
  "record_table C rows = printTable [''STATUS'', ''KIND'', ''CN'', ''EXPIRES'', ''DNS'', ''SERIAL'']
     (map (\<lambda>r. [coloredStatus C (cw_Status r), cw_Kind r, cw_CN r, cx_date C (cw_Expires r),
        (if cw_IncludeDNS r then green C (if cw_IP r \<noteq> [] then cw_IP r else ''included'') else ''excluded''), cw_Serial r]) rows)"

definition cmdRecordList :: "'w cli \<Rightarrow> string \<Rightarrow> string \<Rightarrow> string \<Rightarrow> bool \<Rightarrow> ('w, unit) command" where
  "cmdRecordList C status kind sortBy desc =
     bindE (openStore C) (\<lambda>_.
     bindE (getE (\<lambda>s. (ListCerts (sv_store s), tun_ip (the_server C) (sv_store s)))) (\<lambda>(certs, ip).
     bindE (pureE (filterSortCerts C status kind sortBy desc certs)) (\<lambda>out.
     bindE (current_hosts (ph_CustomHosts (dataPaths (cx_dataDir C)))) (\<lambda>custom.
     bindE (liveClients C) (\<lambda>live.
     bindE (adminCN C) (\<lambda>serverCN.
     case Records (cx_now C) out live serverCN ip custom of (rows, text) \<Rightarrow>
     output_result C (ShRecords rows text)
       (bindE (print_lines (''Certificate records:'' # record_table C rows @ [''Custom records:''])) (\<lambda>_. print text))))))))"

definition cmdRecordEdit :: "'w cli \<Rightarrow> ('w, unit) command" where
  "cmdRecordEdit C = (let path = ph_CustomHosts (dataPaths (cx_dataDir C)) in
     bindE (openStore C) (\<lambda>_.
     bindE (current_hosts path) (\<lambda>cur.
     bindE (pureE (orE (cx_edit C cur) (Text ''editor''))) (\<lambda>out.
     bindE (SetCustomHosts (now_s C) actor_cli path out) (printMsg C)))))"

definition cmdRecordIncludeExclude :: "string \<Rightarrow> 'w cli \<Rightarrow> string \<Rightarrow> ('w, unit) command" where
  "cmdRecordIncludeExclude oper C cn =
     bindE (guardE (cn = []) (Text ''-cn required'')) (\<lambda>_.
     bindE (openStore C) (\<lambda>_.
     bindE (getE (\<lambda>s. activeCertByCN (ListCerts (sv_store s)) cn)) (\<lambda>found.
     bindE (pureE (orE found (Text (''no active certificate for CN '' @ Quote (cx_print C) cn)))) (\<lambda>c.
     bindE (SetCertDNS_api (now_s C) actor_cli (ct_Serial c) (oper = ''include'')) (\<lambda>m.
     bindE (if snd m then refreshCertsHostsCLI C else pureE (Inr ())) (\<lambda>_.
     printMsg C m))))))"

end
