(* ===== verification/Cli_Settings.thy ===== *)
theory Cli_Settings
  imports Cli_Admin
begin

section \<open>The command line: upstreams and settings\<close>

text \<open>
  The commands of \<^verbatim>\<open>src/cmd/ovcp/commands.go\<close>, \<^verbatim>\<open>logs.go\<close> and \<^verbatim>\<open>stats.go\<close> that show and change settings. A \<^verbatim>\<open>set\<close> starts
  from the stored values: an empty string, 0 or -1 leaves a setting as it is.
\<close>

subsection \<open>upstream\<close>

definition cmdUpstreamStatus :: "'w cli \<Rightarrow> ('w, unit) command" where
  "cmdUpstreamStatus C =
     bindE (openStore C) (\<lambda>_.
     bindE (getE (\<lambda>s. \<lparr>uo_Enabled = upstreamsEnabled C, uo_NftVersion = found_version (cx_nft C), uo_NftPath = found_path (cx_nft C),
       uo_Default = cf_Default (LoadUpstreamConfig (the_server C) (sv_store s))\<rparr>)) (\<lambda>out.
     output_result C (ShUpstreamStatus out) (print_lines
       (if \<not> uo_Enabled out then [''upstreams: disabled (nftables not found, or OVCP_UPSTREAMS_ENABLED=false)'']
        else [''upstreams: enabled, '' @ uo_NftVersion out,
          if uo_Default out = [] then ''default: off (host's own default route)'' else ''default: '' @ uo_Default out]))))"

definition upstream_cells :: "'w cli \<Rightarrow> string \<Rightarrow> upstream_row \<Rightarrow> string list" where
  "upstream_cells C dflt u =
     (let gw = (if uw_Gateway u = [] then ''onlink'' else uw_Gateway u);
          (iface, via) = (if uw_SOCKS u \<noteq> [] then (''(socks)'', uw_SOCKS u) else (uw_Iface u, gw)) in
      [uw_ID u @ (if uw_ID u = dflt then green C '' (default)'' else []), coloredStatus C (upStatus (uw_Up u)), iface, via,
       itoa (uw_Table u), uw_Description u])"

definition upstream_table :: "'w cli \<Rightarrow> upstream_view \<Rightarrow> string list" where
  "upstream_table C r = ''Upstreams:''
     # printTable [''ID'', ''STATUS'', ''IFACE'', ''GATEWAY/SOCKS'', ''TABLE'', ''DESCRIPTION'']
         (map (upstream_cells C (uv_Default r)) (uv_Upstreams r))
     @ (if length (uv_PerCN r) > 0
        then ''Per-CN overrides:'' # printTable [''CN'', ''UPSTREAM'']
          (map (\<lambda>cn. [cn, the (map_of (uv_PerCN r) cn)]) (sort (map fst (uv_PerCN r))))
        else [])"

definition cmdUpstreamList :: "'w cli \<Rightarrow> ('w, unit) command" where
  "cmdUpstreamList C =
     bindE (openStore C) (\<lambda>_.
     bindE (getE (\<lambda>s. ViewUpstreams (the_server C) (LoadUpstreamConfig (the_server C) (sv_store s)) [] (sv_world s))) (\<lambda>v.
     output_result C (ShUpstreams v) (print_lines (upstream_table C v))))"

definition showUpstreams :: "'w cli \<Rightarrow> upstream_view \<Rightarrow> ('w, unit) command" where
  "showUpstreams C v = bindE (warnLine (uv_Warning v)) (\<lambda>_. output_result C (ShUpstreams v) (println (uv_Message v)))"

text \<open>The table of the upstream is set when it is added.\<close>

definition cmdUpstreamAdd :: "'w cli \<Rightarrow> upstream \<Rightarrow> ('w, unit) command" where
  "cmdUpstreamAdd C u = bindE (openStore C) (\<lambda>_.
     bindE (AddUpstream (the_server C) (now_s C) actor_cli (upstreamsEnabled C) (u\<lparr>up_Table := 0\<rparr>)) (showUpstreams C))"

definition cmdUpstreamDel :: "'w cli \<Rightarrow> string \<Rightarrow> ('w, unit) command" where
  "cmdUpstreamDel C i = bindE (openStore C) (\<lambda>_.
     bindE (DeleteUpstream (the_server C) (now_s C) actor_cli (upstreamsEnabled C) i) (showUpstreams C))"

definition cmdUpstreamSetDefault :: "'w cli \<Rightarrow> string \<Rightarrow> bool \<Rightarrow> ('w, unit) command" where
  "cmdUpstreamSetDefault C i clear = bindE (openStore C) (\<lambda>_.
     bindE (SetDefaultUpstream (the_server C) (now_s C) actor_cli (upstreamsEnabled C) (if clear then [] else i)) (showUpstreams C))"

definition cmdUpstreamAssign :: "'w cli \<Rightarrow> string \<Rightarrow> string \<Rightarrow> string \<Rightarrow> bool \<Rightarrow> ('w, unit) command" where
  "cmdUpstreamAssign C ctrl cn i clear = bindE (openStore C) (\<lambda>_.
     bindE (AssignUpstream (cli_server C ctrl []) (now_s C) actor_cli (upstreamsEnabled C) (ph_ServerConf (dataPaths (cx_dataDir C)))
       cn i clear) (showUpstreams C))"

definition cmdUpstreamReconcile :: "'w cli \<Rightarrow> string \<Rightarrow> ('w, unit) command" where
  "cmdUpstreamReconcile C ctrl =
     bindE (openStore C) (\<lambda>_.
     bindE (ReconcileUpstreams (cli_server C ctrl []) (now_s C) actor_cli (upstreamsEnabled C)) (\<lambda>v.
     bindE (warnLine (uv_Warning v)) (\<lambda>_.
     output_result C (ShUpstreams v) (print_lines (printTable [''ID'', ''STATUS'', ''NOTE'']
       (map (\<lambda>u. [uw_ID u, coloredStatus C (upStatus (uw_Up u)),
          if \<not> uw_Up u \<and> (uv_Default v \<noteq> [] \<and> uw_ID u = uv_Default v \<or> uw_ID u \<in> snd ` set (uv_PerCN v))
          then ''actively routed, traffic is being kill-switched'' else []]) (uv_Upstreams v)))))))"

subsection \<open>dns config\<close>

definition block_line :: "dns_config \<Rightarrow> string" where
  "block_line d = ''block-internet: '' @ boolText (dn_BlockInternet d)"

definition cmdDNSConfigGet :: "'w cli \<Rightarrow> ('w, unit) command" where
  "cmdDNSConfigGet C =
     bindE (openStore C) (\<lambda>_.
     bindE (getE (\<lambda>s. ViewDNS (the_server C) (sv_store s))) (\<lambda>(d, warning).
     bindE (warnLine warning) (\<lambda>_.
     output_result C (ShDNS d warning) (println (block_line d)))))"

text \<open>A setting given as on or off, empty for unchanged; \<open>lead\<close> is what its error begins with.\<close>

definition set_bool :: "'w cli \<Rightarrow> string \<Rightarrow> string \<Rightarrow> (bool \<Rightarrow> 'a \<Rightarrow> 'a) \<Rightarrow> 'a \<Rightarrow> (api_error, 'a) result" where
  "set_bool C lead v upd a = (if v = [] then Inr a
     else (case parseBoolArg C v of Inl (Text t) \<Rightarrow> Inl (Text (lead @ t)) | Inl e \<Rightarrow> Inl e | Inr b \<Rightarrow> Inr (upd b a)))"

definition cmdDNSConfigSet :: "'w cli \<Rightarrow> string \<Rightarrow> ('w, unit) command" where
  "cmdDNSConfigSet C blockInternet =
     bindE (openStore C) (\<lambda>_.
     bindE (getE (\<lambda>s. LoadDNSConfig (the_server C) (sv_store s))) (\<lambda>cur.
     bindE (pureE (set_bool C [] blockInternet (\<lambda>b d. d\<lparr>dn_BlockInternet := b\<rparr>) cur)) (\<lambda>cfg.
     bindE (SetDNSConfig (the_server C) (now_s C) actor_cli cfg) (\<lambda>(d, warning).
     bindE (warnLine warning) (\<lambda>_.
     output_result C (ShDNS d warning) (print_lines [block_line d @ '' (restart dns to apply)'', ''saved'']))))))"

subsection \<open>vpn config\<close>

record config_args =
  ga_Proto :: string
  ga_Port :: int
  ga_Subnet :: string
  ga_Cipher :: string
  ga_DNS :: string
  ga_PushInternalDNS :: string
  ga_Routes :: string
  ga_RedirectGW :: string
  ga_Extra :: "string list"

definition configFlags :: "'w cli \<Rightarrow> config_args \<Rightarrow> ovpn_config \<Rightarrow> (api_error, ovpn_config) result" where
  "configFlags C a cfg0 =
     (let cfg1 = cfg0\<lparr>oc_Proto := or_env (ga_Proto a) (oc_Proto cfg0), oc_Port := (if ga_Port a \<noteq> 0 then ga_Port a else oc_Port cfg0),
        oc_Subnet := or_env (ga_Subnet a) (oc_Subnet cfg0), oc_Cipher := or_env (ga_Cipher a) (oc_Cipher cfg0),
        oc_DNS := (if ga_DNS a \<noteq> [] then SplitCSV (ga_DNS a) else oc_DNS cfg0)\<rparr> in
      case set_bool C ''-push-internal-dns: '' (ga_PushInternalDNS a) (\<lambda>b c. c\<lparr>oc_PushInternalDNS := b\<rparr>) cfg1 of Inl e \<Rightarrow> Inl e
      | Inr cfg2 \<Rightarrow>
         (case set_bool C ''-redirect-gw: '' (ga_RedirectGW a) (\<lambda>b c. c\<lparr>oc_RedirectGW := b\<rparr>)
             (cfg2\<lparr>oc_Routes := (if ga_Routes a \<noteq> [] then SplitCSV (ga_Routes a) else oc_Routes cfg2)\<rparr>) of Inl e \<Rightarrow> Inl e
          | Inr cfg3 \<Rightarrow> (case linesValue C (ga_Extra a) (oc_Extra cfg3) of Inl e \<Rightarrow> Inl e
              | Inr None \<Rightarrow> Inr cfg3
              | Inr (Some t) \<Rightarrow> Inr (cfg3\<lparr>oc_Extra := t\<rparr>))))"

definition dns_warning :: "'w cli \<Rightarrow> ('w, unit) command" where
  "dns_warning C = bindE (getE (\<lambda>s. snd (ViewDNS (the_server C) (sv_store s)))) warnLine"

definition cmdVPNConfigGet :: "'w cli \<Rightarrow> ('w, unit) command" where
  "cmdVPNConfigGet C =
     bindE (openStore C) (\<lambda>_.
     bindE (getE (\<lambda>s. LoadConfig (the_server C) (sv_store s))) (\<lambda>cfg.
     bindE (output_result C (ShConfig cfg) (print_lines (printConfigText cfg))) (\<lambda>_. dns_warning C)))"

definition cmdVPNConfigSet :: "'w cli \<Rightarrow> config_args \<Rightarrow> ('w, unit) command" where
  "cmdVPNConfigSet C a =
     bindE (openStore C) (\<lambda>_.
     bindE (getE (\<lambda>s. LoadConfig (the_server C) (sv_store s))) (\<lambda>cur.
     bindE (pureE (configFlags C a cur)) (\<lambda>cfg.
     bindE (SetVPNConfig (the_server C) (now_s C) actor_cli (ph_ServerConf (dataPaths (cx_dataDir C))) cfg) (\<lambda>diff.
     if length diff = 0 then output_result C (ShConfig cfg) (print_lines (printDiff C diff))
     else bindE (dns_warning C) (\<lambda>_.
          output_result C (ShConfig cfg) (print_lines (printDiff C diff @ [''saved; run `ovcp vpn restart` to apply''])))))))"

definition cmdVPNConfigPreview :: "'w cli \<Rightarrow> config_args \<Rightarrow> ('w, unit) command" where
  "cmdVPNConfigPreview C a =
     bindE (openStore C) (\<lambda>_.
     bindE (getE (\<lambda>s. LoadConfig (the_server C) (sv_store s))) (\<lambda>cur.
     bindE (pureE (configFlags C a cur)) (\<lambda>cfg.
     bindE (PreviewVPNConfig (the_server C) cfg) (\<lambda>pv.
     bindE (warnLine (pv_Warning pv)) (\<lambda>_.
     output_result C (ShPreview pv) (print_lines (printDiff C (pv_Diff pv))))))))"

subsection \<open>telegram\<close>

definition telegram_config_lines :: "telegram_status \<Rightarrow> string list" where
  "telegram_config_lines st = [''token-set: '' @ boolText (tg_TokenSet st), ''admin:     '' @ tg_Admin st]"

definition cmdTelegramConfigGet :: "'w cli \<Rightarrow> ('w, unit) command" where
  "cmdTelegramConfigGet C =
     bindE (openStore C) (\<lambda>_.
     bindE (getE (\<lambda>s. ConfigStatus (sv_store s))) (\<lambda>st.
     output_result C (ShTelegram st) (print_lines (telegram_config_lines st))))"

text \<open>\<open>valid\<close> is the answer of \<^verbatim>\<open>getMe\<close> for a token, \<open>post\<close> makes the bot's calls. None is the panic of a message.\<close>

definition cmdTelegramConfigSet :: "'w cli \<Rightarrow> (string \<Rightarrow> bool) \<Rightarrow> (bot_call list \<Rightarrow> 'w terminal \<Rightarrow> 'w terminal) \<Rightarrow> bool \<Rightarrow> string
    \<Rightarrow> ('w terminal) srv \<Rightarrow> ((api_error, unit) result \<times> ('w terminal) srv) option" where
  "cmdTelegramConfigSet C valid post setToken admin s =
     (case bindE (if setToken then readSecret C ''Telegram bot token'' ''OVCP_TELEGRAM_TOKEN'' False else pureE (Inr [])) (\<lambda>token.
           bindE (openStore C) (\<lambda>_. pureE (Inr token))) s of
        (Inl e, s1) \<Rightarrow> Some (Inl e, s1)
      | (Inr token, s1) \<Rightarrow>
         (case SetTelegram valid post (now_s C) actor_cli admin token s1 of
            None \<Rightarrow> None
          | Some (Inl e, s2) \<Rightarrow> Some (Inl e, s2)
          | Some (Inr _, s2) \<Rightarrow> (let st = ConfigStatus (sv_store s2) in
              Some (output_result C (ShTelegram st) (print_lines (telegram_config_lines st
                @ [''saved; run 'ovcp telegram start' (or restart serve) to bring the bot up''])) s2))))"

definition telegramLifecycleBody :: "string \<Rightarrow> 'w cli \<Rightarrow> string \<Rightarrow> ('w, unit) command" where
  "telegramLifecycleBody oper C ctrl =
     bindE (asking (TelegramOp_req (cx_codec C) (cx_serve C ctrl) oper)) (\<lambda>st.
     bindE (if oper \<noteq> ''status''
       then bindE (openStore C) (\<lambda>_. audit (now_s C) actor_cli (''telegram_'' @ oper) (''running='' @ bool_str (tg_Running st)))
       else pureE (Inr ())) (\<lambda>_.
     output_result C (ShTelegram st) (print_lines (printTelegramText C oper st))))"

subsection \<open>logs\<close>

definition log_config_lines :: "log_config \<Rightarrow> string list" where
  "log_config_lines c = [''enabled:           '' @ boolText (lo_Enabled c), ''retention-days:    '' @ itoa (lo_RetentionDays c),
     ''keep-uncompressed: '' @ itoa (lo_KeepUncompressed c)]"

definition load_log :: "'w cli \<Rightarrow> ('w, log_config) command" where
  "load_log C = getE (\<lambda>s. LoadLogConfig (cx_dec_log C) (cx_getenv C) (sv_store s))"

definition cmdLogsConfigGet :: "'w cli \<Rightarrow> ('w, unit) command" where
  "cmdLogsConfigGet C = bindE (openStore C) (\<lambda>_. bindE (load_log C) (\<lambda>c. output_result C (ShLogConfig c) (print_lines (log_config_lines c))))"

definition cmdLogsConfigSet :: "'w cli \<Rightarrow> string \<Rightarrow> int \<Rightarrow> int \<Rightarrow> ('w, unit) command" where
  "cmdLogsConfigSet C enabled retentionDays keepUncompressed =
     bindE (openStore C) (\<lambda>_.
     bindE (load_log C) (\<lambda>cur.
     bindE (pureE (set_bool C [] enabled (\<lambda>b c. c\<lparr>lo_Enabled := b\<rparr>) cur)) (\<lambda>c1.
     let c2 = (if retentionDays \<noteq> -1 then c1\<lparr>lo_RetentionDays := retentionDays\<rparr> else c1);
         c3 = (if keepUncompressed \<noteq> -1 then c2\<lparr>lo_KeepUncompressed := keepUncompressed\<rparr> else c2) in
     bindE (SaveLogConfig (cx_enc_log C) (now_s C) actor_cli c3) (\<lambda>c.
     output_result C (ShLogConfig c) (print_lines (log_config_lines c @ [''saved'']))))))"

definition cmdLogsRotate :: "'w cli \<Rightarrow> ('w, unit) command" where
  "cmdLogsRotate C = bindE (openStore C) (\<lambda>_.
     bindE (RotateLogs_api (cx_log_host C) (cx_dec_log C) (cx_getenv C) (now_s C) actor_cli (cx_dataDir C)) (printMsg C))"

definition logSources :: "string \<Rightarrow> (string \<times> string) list" where
  "logSources dataDir = map (\<lambda>name. (name, path_join (ph_LogsDir (dataPaths dataDir)) (name @ ''.log''))) LogNames"

definition log_status_lines :: "'w cli \<Rightarrow> log_config \<Rightarrow> log_status list \<Rightarrow> string list" where
  "log_status_lines C cfg rows =
     map (\<lambda>r. pad_right 8 (lt_Name r) @ '' '' @ pad_left 8 (itoa (lt_CurrentSize r)) @ '' bytes  '' @ itoa (lt_Generations r) @ '' generations  ''
       @ (case (lt_Oldest r, lt_Newest r) of (Some old, Some new) \<Rightarrow> ''oldest '' @ cx_rfc3339 C old @ '', newest '' @ cx_rfc3339 C new
            | _ \<Rightarrow> ''no rotations yet'')) rows
     @ [''rotation: '' @ boolText (lo_Enabled cfg) @ '' (retention '' @ itoa (lo_RetentionDays cfg) @ ''d, keep ''
        @ itoa (lo_KeepUncompressed cfg) @ '' uncompressed)'']"

definition cmdLogsStatus :: "'w cli \<Rightarrow> ('w, unit) command" where
  "cmdLogsStatus C =
     bindE (openStore C) (\<lambda>_.
     bindE (load_log C) (\<lambda>cfg.
     bindE (getE (\<lambda>s. map (\<lambda>(n, p). LogStatusFor (cx_log_host C) n p (sv_fs s)) (logSources (cx_dataDir C)))) (\<lambda>rows.
     output_result C (ShLogs rows) (print_lines (log_status_lines C cfg rows)))))"

subsection \<open>stats config\<close>

definition stats_config_lines :: "stats_config \<Rightarrow> string list" where
  "stats_config_lines c = [''sample-interval-sec: '' @ itoa (sc_SampleIntervalSec c), ''retention-hours:     '' @ itoa (sc_RetentionHours c)]"

definition load_stats :: "'w cli \<Rightarrow> ('w, stats_config) command" where
  "load_stats C = getE (\<lambda>s. LoadStatsConfig (cx_dec_stats C) (cx_getenv C) (sv_store s))"

definition cmdStatsConfigGet :: "'w cli \<Rightarrow> ('w, unit) command" where
  "cmdStatsConfigGet C = bindE (openStore C) (\<lambda>_. bindE (load_stats C) (\<lambda>c.
     output_result C (ShStatsConfig c) (print_lines (stats_config_lines c))))"

definition cmdStatsConfigSet :: "'w cli \<Rightarrow> int \<Rightarrow> int \<Rightarrow> ('w, unit) command" where
  "cmdStatsConfigSet C sampleInterval retentionHours =
     bindE (openStore C) (\<lambda>_.
     bindE (load_stats C) (\<lambda>cur.
     let c1 = (if sampleInterval \<noteq> -1 then cur\<lparr>sc_SampleIntervalSec := sampleInterval\<rparr> else cur);
         c2 = (if retentionHours \<noteq> -1 then c1\<lparr>sc_RetentionHours := retentionHours\<rparr> else c1) in
     bindE (stats_step (SaveStatsConfig (cx_enc_stats C) (now_s C) actor_cli c2)) (\<lambda>c.
     output_result C (ShStatsConfig c) (print_lines (stats_config_lines c @ [''saved''])))))"

end
