(* ===== verification/Cli_Stats.thy ===== *)
theory Cli_Stats
  imports Cli_Settings
begin

section \<open>The command line: traffic statistics\<close>

text \<open>
  \<^verbatim>\<open>src/cmd/ovcp/stats.go\<close>: the printed history and the live view. Quantities are formatted through float64 as the code
  does; a float64 that is not an integer is a pair \<open>(m, e)\<close> standing for \<open>m / 2 ^ e\<close>. The times of the live view are in
  nanoseconds.
\<close>

subsection \<open>Quantities\<close>

text \<open>The float64 nearest to \<open>a / b\<close> for \<open>0 \<le> a < b\<close>, and to \<open>n + a / b\<close> computed as the sum of the two.\<close>

definition f64_frac :: "int \<Rightarrow> int \<Rightarrow> int \<times> nat" where
  "f64_frac a b = (if a \<le> 0 then (0, 0) else
     (let e = nat (53 - (bitlen a - bitlen b)) in
      if a * 2 ^ e \<ge> 2 ^ 53 * b then (rne_div (a * 2 ^ e) (2 * b), e - 1) else (rne_div (a * 2 ^ e) b, e)))"

definition f64_mixed :: "int \<Rightarrow> int \<Rightarrow> int \<Rightarrow> int \<times> nat" where
  "f64_mixed n a b = (case f64_frac a b of (m, e) \<Rightarrow> (f64_of (n * 2 ^ e + m), e))"

text \<open>\<^verbatim>\<open>%.1f\<close> of \<open>m / q\<close>.\<close>

definition one_decimal :: "int \<Rightarrow> int \<Rightarrow> string" where
  "one_decimal m q = (let t = rne_div (10 * m) q in itoa (t div 10) @ ''.'' @ itoa (t mod 10))"

definition fmtBytes :: "int \<Rightarrow> string" where
  "fmtBytes n = (if n < 1024 then itoa n @ '' B''
     else (let v = f64_of n in
       if v < 1024 ^ 2 then one_decimal v 1024 @ '' KiB''
       else if v < 1024 ^ 3 then one_decimal v (1024 ^ 2) @ '' MiB''
       else if v < 1024 ^ 4 then one_decimal v (1024 ^ 3) @ '' GiB''
       else one_decimal v (1024 ^ 4) @ '' TiB''))"

definition fmtRate :: "int \<Rightarrow> string" where
  "fmtRate n = fmtBytes n @ ''/s''"

text \<open>\<open>d\<close> in whole seconds, as sessions have it; \<^verbatim>\<open>int(d.Seconds())\<close> cuts towards zero.\<close>

definition fmtDur :: "int \<Rightarrow> string" where
  "fmtDur d = (if d < 60 then itoa d @ ''s''
     else if d < 3600 then itoa (d div 60) @ ''m''
     else (case f64_mixed (d div 3600) (d mod 3600 * second) (3600 * second) of (m, e) \<Rightarrow> one_decimal m (2 ^ e) @ ''h''))"

text \<open>\<^verbatim>\<open>store.Rate\<close> for a duration in nanoseconds.\<close>

definition rate_ns :: "int \<Rightarrow> int \<Rightarrow> int \<Rightarrow> int" where
  "rate_ns prev cur dt = (if dt \<le> 0 then 0 else
     (case f64_mixed (dt div second) (dt mod second) second of (m, e) \<Rightarrow> f64_quot (f64_of (ClampedDelta prev cur) * 2 ^ e) m))"

subsection \<open>The history\<close>

definition middot :: string where "middot = u8 [0xC2, 0xB7]"

definition session_line :: "'w cli \<Rightarrow> ended_session \<Rightarrow> string" where
  "session_line C s = ''  '' @ pad_right 20 (es_CN s) @ '' '' @ pad_right 16 (es_Addr s) @ '' ''
     @ pad_right 6 (fmtDur (es_Disconnected s - es_Connected s)) @ '' disconnected '' @ cx_rfc3339 C (es_Disconnected s)
     @ ''  recv '' @ fmtBytes (es_Recv s) @ ''  sent '' @ fmtBytes (es_Sent s)"

definition printStatsText :: "'w cli \<Rightarrow> string \<Rightarrow> sample list \<Rightarrow> ended_session list \<Rightarrow> string list" where
  "printStatsText C cn samples sessions =
     (if samples = [] then [''no samples yet '' @ dash @ '' the sampler writes one per connected client per minute'']
      else (let l = last samples; totals = ''   recv '' @ fmtBytes (sm_Recv l) @ ''   sent '' @ fmtBytes (sm_Sent l) in
        [if cn = [] then ''global '' @ middot @ '' '' @ itoa (sm_Clients l) @ '' client(s)'' @ totals else cn @ totals]
        @ (if length samples \<ge> 2 then [''rate: rx '' @ fmtRate (sm_RecvRate l) @ ''   tx '' @ fmtRate (sm_SentRate l)] else [])
        @ [nat_str (length samples) @ '' sample(s), oldest '' @ cx_rfc3339 C (sm_TS (hd samples))]))
     @ [[]]
     @ (if sessions = [] then [if cn \<noteq> [] then ''no finished sessions for '' @ cn else ''no finished sessions'']
        else ''recent sessions:'' # map (session_line C) (take 20 sessions))"

definition cmdStatsShow :: "'w cli \<Rightarrow> string \<Rightarrow> ('w, unit) command" where
  "cmdStatsShow C cn =
     bindE (openStore C) (\<lambda>_.
     bindE (load_stats C) (\<lambda>cfg.
     bindE (getE (\<lambda>s. Stats cfg (now_s C) cn (sv_store s))) (\<lambda>(samples, sessions).
     output_result C (ShStats samples sessions) (print_lines (printStatsText C cn samples sessions)))))"

subsection \<open>The live view\<close>

text \<open>What the last frame saw of each client: the time and the two counters.\<close>

type_synonym seen = "(string \<times> int \<times> int \<times> int) list"

record traffic_row =
  tw_cn :: string
  tw_rx :: int
  tw_tx :: int
  tw_recv :: int
  tw_sent :: int

definition forget_gone :: "vpn_client list \<Rightarrow> seen \<Rightarrow> seen" where
  "forget_gone clients prevC = filter (\<lambda>(cn, _). cn \<in> vc_CN ` set clients) prevC"

text \<open>One client: its row, what it adds to the two deltas, the interval if it was seen before, and the new entry.\<close>

definition follow_client :: "int \<Rightarrow> vpn_client \<Rightarrow> (traffic_row list \<times> int \<times> int \<times> int) \<times> seen
    \<Rightarrow> (traffic_row list \<times> int \<times> int \<times> int) \<times> seen" where
  "follow_client now c acc = (case acc of ((rows, rd, sd, dt), prevC) \<Rightarrow>
     (case map_of prevC (vc_CN c) of
        None \<Rightarrow> ((rows @ [\<lparr>tw_cn = vc_CN c, tw_rx = 0, tw_tx = 0, tw_recv = vc_BytesRecv c, tw_sent = vc_BytesSent c\<rparr>], rd, sd, dt),
          AList.update (vc_CN c) (now, vc_BytesRecv c, vc_BytesSent c) prevC)
      | Some (ts, recv, sent) \<Rightarrow>
          ((rows @ [\<lparr>tw_cn = vc_CN c, tw_rx = rate_ns recv (vc_BytesRecv c) (now - ts), tw_tx = rate_ns sent (vc_BytesSent c) (now - ts),
              tw_recv = vc_BytesRecv c, tw_sent = vc_BytesSent c\<rparr>],
            u64 (rd + ClampedDelta recv (vc_BytesRecv c)), u64 (sd + ClampedDelta sent (vc_BytesSent c)), now - ts),
           AList.update (vc_CN c) (now, vc_BytesRecv c, vc_BytesSent c) prevC)))"

definition follow_row :: "traffic_row \<Rightarrow> string" where
  "follow_row r = pad_right 20 (tw_cn r) @ '' '' @ pad_right 11 (fmtRate (tw_rx r)) @ '' '' @ pad_right 11 (fmtRate (tw_tx r)) @ '' ''
     @ pad_right 12 (fmtBytes (tw_recv r)) @ '' '' @ pad_right 12 (fmtBytes (tw_sent r))"

definition follow_global :: "'w cli \<Rightarrow> vpn_client list \<Rightarrow> int \<Rightarrow> seen \<Rightarrow> string list \<times> seen" where
  "follow_global C clients now prevC = (case fold (follow_client now) clients (([], 0, 0, 0), prevC) of ((rows, rd, sd, dt), seen) \<Rightarrow>
     (let top = sort_key (\<lambda>r. - u64 (tw_rx r + tw_tx r)) rows in
      ((green C ''vpn up'' @ '' '' @ middot @ '' '' @ nat_str (length clients) @ '' client(s)   rx '' @ fmtRate (rate_ns 0 rd dt)
          @ ''   tx '' @ fmtRate (rate_ns 0 sd dt))
       # (if clients = [] then []
          else (pad_right 20 ''CN'' @ '' '' @ pad_right 11 ''RECV/s'' @ '' '' @ pad_right 11 ''SENT/s'' @ '' '' @ pad_right 12 ''TOTAL RECV''
              @ '' '' @ pad_right 12 ''TOTAL SENT'')
            # map follow_row (take 20 top)
            @ (if length top > 20 then [u8 [0xE2, 0x80, 0xA6] @ '' '' @ nat_str (length top - 20) @ '' more''] else [])), seen)))"

text \<open>\<open>hms\<close> prints a time as \<^verbatim>\<open>15:04:05\<close>. Of several sessions of a name the last counts.\<close>

definition follow_one :: "'w cli \<Rightarrow> (int \<Rightarrow> string) \<Rightarrow> vpn_client list \<Rightarrow> string \<Rightarrow> int \<Rightarrow> seen \<Rightarrow> string list \<times> seen" where
  "follow_one C hms clients cn now prevC = (case List.find (\<lambda>c. vc_CN c = cn) (rev clients) of
     None \<Rightarrow> ([yellow C (cn @ '': not connected'')], prevC)
   | Some c \<Rightarrow> (let (rx, tx) = (case map_of prevC cn of None \<Rightarrow> (0, 0)
         | Some (ts, recv, sent) \<Rightarrow> (rate_ns recv (vc_BytesRecv c) (now - ts), rate_ns sent (vc_BytesSent c) (now - ts))) in
       ([green C cn @ '' '' @ middot @ '' connected since '' @ hms (since_unix c),
         ''rx '' @ fmtRate rx @ ''   tx '' @ fmtRate tx @ ''   total recv '' @ fmtBytes (vc_BytesRecv c) @ ''   total sent '' @ fmtBytes (vc_BytesSent c)],
        AList.update cn (now, vc_BytesRecv c, vc_BytesSent c) prevC)))"

definition followLines :: "'w cli \<Rightarrow> (int \<Rightarrow> string) \<Rightarrow> (string, vpn_client list) result \<Rightarrow> string \<Rightarrow> int \<Rightarrow> seen \<Rightarrow> string list \<times> seen" where
  "followLines C hms clients cn now prevC = (case clients of
     Inl e \<Rightarrow> ([red C (''VPN unreachable '' @ dash @ '' '' @ e)], prevC)
   | Inr cl \<Rightarrow> if cn = [] then follow_global C cl now (forget_gone cl prevC) else follow_one C hms cl cn now (forget_gone cl prevC))"

text \<open>One frame over the previous one of \<open>printed\<close> lines: what is written, and the new number of lines.\<close>

definition redraw :: "bool \<Rightarrow> nat \<Rightarrow> string list \<Rightarrow> string \<times> nat" where
  "redraw tty printed ls =
     (let up = (\<lambda>n. [ESC] @ ''['' @ nat_str n @ ''A''); clear = [ESC] @ ''[K'' in
      ((if tty \<and> printed > 0 then up printed else [])
       @ concat (map (\<lambda>l. l @ (if tty then clear else []) @ NL) ls)
       @ (if tty \<and> printed > length ls
          then concat (replicate (printed - length ls) (clear @ NL)) @ up (printed - length ls) else []), length ls))"

text \<open>The loop of \<^verbatim>\<open>followStats\<close> over the frames taken until the process is interrupted: a frame is its time and the answer
  of the control socket. \<open>hide\<close> and \<open>show_cursor\<close> are written around them on a terminal.\<close>

fun follow_frames :: "'w cli \<Rightarrow> (int \<Rightarrow> string) \<Rightarrow> bool \<Rightarrow> string \<Rightarrow> (int \<times> (string, vpn_client list) result) list \<Rightarrow> seen \<Rightarrow> nat \<Rightarrow> string" where
  "follow_frames C hms tty cn [] prevC printed = []"
| "follow_frames C hms tty cn ((now, clients) # fs) prevC printed =
     (case followLines C hms clients cn now prevC of (ls, seen) \<Rightarrow>
      (case redraw tty printed ls of (t, n) \<Rightarrow> t @ follow_frames C hms tty cn fs seen n))"

definition followStats :: "'w cli \<Rightarrow> (int \<Rightarrow> string) \<Rightarrow> bool \<Rightarrow> string \<Rightarrow> (int \<times> (string, vpn_client list) result) list \<Rightarrow> string" where
  "followStats C hms tty cn frames = (if tty then [ESC] @ ''[?25l'' else []) @ follow_frames C hms tty cn frames [] 0
     @ (if tty then [ESC] @ ''[?25h'' else [])"

end
