(* ===== verification/Api_Files.thy ===== *)
theory Api_Files
  imports Api_Dns Api_Actions Logrotate
begin

section \<open>Log files, the audit package and the certificate of the admin UI\<close>

text \<open>
  \<^verbatim>\<open>src/internal/api/logs.go\<close> and \<^verbatim>\<open>tls.go\<close>: the tail of a log, the archive of the logs with the audit trail
  and a snapshot, and the self-signed certificate serve presents. The zip format is a list of named
  entries; the JSON of the snapshot, the printed times and the listing of the directory are parameters.
\<close>

subsection \<open>The tail of a log\<close>

definition tailMaxBytes :: nat where "tailMaxBytes = 256 * 1024"
definition tailLineLimit :: nat where "tailLineLimit = 200"
definition maxToken :: nat where "maxToken = 1024 * 1024"

text \<open>\<^verbatim>\<open>bufio.ScanLines\<close>: the text before each line break without a final carriage return, and what follows the
  last one when it is not empty.\<close>

definition drop_cr :: "string \<Rightarrow> string" where
  "drop_cr l = (if l \<noteq> [] \<and> last l = CR then butlast l else l)"

definition raw_lines :: "string \<Rightarrow> string list" where
  "raw_lines s = (let ls = split_c LF s in if last ls = [] then butlast ls else ls)"

text \<open>A line that fills the scanner's buffer ends the scan with an error.\<close>

definition scan_lines :: "string \<Rightarrow> string list option" where
  "scan_lines s = (if list_ex (\<lambda>l. maxToken \<le> length l) (raw_lines s) then None else Some (map drop_cr (raw_lines s)))"

definition last_n :: "nat \<Rightarrow> 'a list \<Rightarrow> 'a list" where
  "last_n n xs = drop (length xs - n) xs"

text \<open>The first fault is the open's, the second the size's, the third the read's.\<close>

definition tailLines :: "string \<Rightarrow> nat \<Rightarrow> fsys \<Rightarrow> string list option \<times> fsys" where
  "tailLines path n s = (case fs_read3 path s of
     (Missing, s1) \<Rightarrow> (Some [], s1)
   | (ReadErr, s1) \<Rightarrow> (None, s1)
   | (Contents data, s1) \<Rightarrow> (case fs_check s1 of (sized, s2) \<Rightarrow>
       (let part = (if sized \<and> length data > tailMaxBytes then last_n tailMaxBytes data else data) in
        case fs_check s2 of (ok, s3) \<Rightarrow>
          (if \<not> ok then None else (case scan_lines part of None \<Rightarrow> None
             | Some lines \<Rightarrow> Some (if length lines > n then last_n n lines else lines)), s3))))"

definition logHandler :: "string \<Rightarrow> string \<Rightarrow> ('w, string list) action" where
  "logHandler dataDir filename s =
     (case tailLines (path_join (path_join dataDir ''logs'') filename) tailLineLimit (sv_fs s) of
        (None, f) \<Rightarrow> (Inl (HttpError 500 (Text ''log'')), s\<lparr>sv_fs := f\<rparr>)
      | (Some lines, f) \<Rightarrow> (Inr lines, s\<lparr>sv_fs := f\<rparr>))"

subsection \<open>The audit package\<close>

definition safe_rune :: "int \<Rightarrow> bool" where
  "safe_rune r = ((97 \<le> r \<and> r \<le> 122) \<or> (65 \<le> r \<and> r \<le> 90) \<or> (48 \<le> r \<and> r \<le> 57) \<or> r = 46 \<or> r = 45 \<or> r = 95)"

definition sanitizeFilename :: "string \<Rightarrow> string" where
  "sanitizeFilename s = map (\<lambda>r. if safe_rune r then char_of (nat r) else CHR ''-'') (runes (map byte_of s))"

record status_export =
  se_GeneratedAt :: int
  se_ServerCN :: string
  se_Version :: string
  se_VPNUp :: bool
  se_Clients :: "vpn_client list"
  se_Certs :: "cert list"
  se_Users :: "user_summary list"
  se_Config :: ovpn_config

text \<open>\<open>ex_clients\<close> is openvpn's status and \<open>ex_pid\<close> its process; \<open>ex_ls\<close> lists a directory with a flag for its
  regular files, None when it cannot be read; \<open>ex_zip\<close> tells that an entry could be opened.\<close>

record 'w exporter =
  ex_dataDir :: string
  ex_version :: string
  ex_pid :: "'w \<Rightarrow> int"
  ex_clients :: "'w \<Rightarrow> (string, vpn_client list) result"
  ex_ls :: "fsys \<Rightarrow> (string \<times> bool) list option"
  ex_zip :: "string \<Rightarrow> bool"
  ex_json :: "status_export \<Rightarrow> string option"
  ex_rfc3339 :: "int \<Rightarrow> string"
  ex_stamp :: "int \<Rightarrow> string"

definition statusExport :: "'w server \<Rightarrow> 'w exporter \<Rightarrow> aead \<Rightarrow> int \<Rightarrow> 'w srv \<Rightarrow> status_export" where
  "statusExport S X ae now s =
     (let clients = ex_clients X (sv_world s) in
      \<lparr>se_GeneratedAt = now, se_ServerCN = sr_DefaultRemote S, se_Version = ex_version X,
       se_VPNUp = (ex_pid X (sv_world s) \<noteq> 0 \<and> is_ok clients),
       se_Clients = (case clients of Inl _ \<Rightarrow> [] | Inr cl \<Rightarrow> cl),
       se_Certs = ListCerts (sv_store s),
       se_Users = (case ListUsers ae (sv_store s) of Inl _ \<Rightarrow> [] | Inr us \<Rightarrow> map NewUserSummary us),
       se_Config = LoadConfig S (sv_store s)\<rparr>)"

text \<open>Regular files only: a link in the directory cannot bring another file into the package.\<close>

fun zip_logs :: "'w exporter \<Rightarrow> (string \<times> bool) list \<Rightarrow> fsys \<Rightarrow> (string \<times> string) list \<times> fsys" where
  "zip_logs X [] f = ([], f)"
| "zip_logs X ((name, regular) # ds) f =
     (if \<not> regular then zip_logs X ds f
      else (case fs_read_file (path_join (path_join (ex_dataDir X) ''logs'') name) f of
          (None, f1) \<Rightarrow> zip_logs X ds f1
        | (Some data, f1) \<Rightarrow> (case zip_logs X ds f1 of (es, f2) \<Rightarrow> ((if ex_zip X name then (name, data) # es else es), f2))))"

definition audit_line :: "'w exporter \<Rightarrow> audit_entry \<Rightarrow> string" where
  "audit_line X e = ex_rfc3339 X (au_TS e) @ '' '' @ au_Actor e @ '' '' @ au_Action e @ '' '' @ au_Detail e @ NL"

definition audit_log :: "'w exporter \<Rightarrow> store \<Rightarrow> (string \<times> string) list" where
  "audit_log X st = (if ex_zip X ''audit.log'' then [(''audit.log'', concat (map (audit_line X) (AuditTail (- 1) st)))] else [])"

definition writeAuditZip :: "'w server \<Rightarrow> 'w exporter \<Rightarrow> aead \<Rightarrow> int \<Rightarrow> ('w, (string \<times> string) list) action" where
  "writeAuditZip S X ae now s =
     (case (case ex_ls X (sv_fs s) of None \<Rightarrow> ([], sv_fs s) | Some ds \<Rightarrow> zip_logs X ds (sv_fs s)) of (logs, f) \<Rightarrow>
        (Inr (logs @ audit_log X (sv_store s)
            @ (case ex_json X (statusExport S X ae now s) of None \<Rightarrow> []
               | Some j \<Rightarrow> if ex_zip X ''status.json'' then [(''status.json'', j)] else [])), s\<lparr>sv_fs := f\<rparr>))"

text \<open>The name the browser saves it under, and the package itself.\<close>

definition package_name :: "string \<Rightarrow> string \<Rightarrow> string" where
  "package_name cn stamp = (let cn = sanitizeFilename cn in
     if cn \<noteq> [] then ''ovcp-audit-'' @ cn @ ''-'' @ stamp @ ''.zip'' else ''ovcp-audit-'' @ stamp @ ''.zip'')"

definition handleLogsDownload :: "'w server \<Rightarrow> 'w exporter \<Rightarrow> aead \<Rightarrow> int \<Rightarrow> ('w, string \<times> (string \<times> string) list) action" where
  "handleLogsDownload S X ae now =
     bindE (writeAuditZip S X ae now) (\<lambda>es. pureE (Inr (package_name (sr_DefaultRemote S) (ex_stamp X now), es)))"

subsection \<open>The certificate of the admin UI\<close>

definition admin_template :: "pki_env \<Rightarrow> string \<Rightarrow> int \<Rightarrow> x509_cert" where
  "admin_template en cn serial =
     \<lparr>xc_Serial = serial, xc_Subject = cn, xc_NotBefore = pe_Now en - 5 * 60, xc_NotAfter = pe_AddDate en (pe_Now en) 5 0,
      xc_IsCA = False, xc_BasicConstraints = False, xc_MaxPathLenZero = False, xc_KeyUsage = [DigitalSignature],
      xc_ExtKeyUsage = [ServerAuth], xc_DNSNames = [cn, ''localhost'']\<rparr>"

definition current_admin_cert :: "pki_lib \<Rightarrow> pki_env \<Rightarrow> string \<Rightarrow> string option \<Rightarrow> bool" where
  "current_admin_cert px en cn data = (case data of None \<Rightarrow> False
     | Some pem \<Rightarrow> (case parseCertPEM px pem of Inl _ \<Rightarrow> False | Inr c \<Rightarrow> xc_Subject c = cn \<and> pe_Now en < xc_NotAfter c))"

text \<open>Only the certificate is looked at. The key is written first: a crash in between leaves the old
  certificate, which is replaced at the next start.\<close>

definition make_admin_cert :: "pki_lib \<Rightarrow> pki_env \<Rightarrow> string \<Rightarrow> string \<Rightarrow> string \<Rightarrow> ('w, string \<times> string) action" where
  "make_admin_cert px en cn cp kp =
     bindE (\<lambda>s. case fs_check (sv_fs s) of (ok, f) \<Rightarrow> (if ok then Inr () else Inl (Text ''mkdir''), s\<lparr>sv_fs := f\<rparr>)) (\<lambda>_.
     bindE (pureE (orE (pe_Key en) (PkiErr RandError))) (\<lambda>key.
     bindE (pureE (orE (pe_Serial en) (PkiErr RandError))) (\<lambda>serial.
     let tpl = admin_template en cn serial in
     bindE (pureE (orE (px_create px tpl tpl (px_public px key) key) (PkiErr SignError))) (\<lambda>der.
     bindE (pureE (orE (px_pkcs8 px key) (PkiErr SignError))) (\<lambda>kder.
     bindE (onFS PkiErr (fsE WriteError (fs_write_file kp (px_pem px ''PRIVATE KEY'' kder)))) (\<lambda>_.
     bindE (onFS PkiErr (fsE WriteError (fs_write_file cp (px_pem px ''CERTIFICATE'' der)))) (\<lambda>_.
     pureE (Inr (cp, kp)))))))))"

definition EnsureAdminTLS :: "pki_lib \<Rightarrow> pki_env \<Rightarrow> string \<Rightarrow> string \<Rightarrow> ('w, string \<times> string) action" where
  "EnsureAdminTLS px en dir name s =
     (let cn = (if name = [] then ''ovcp-admin'' else name); cp = path_join dir ''admin.crt''; kp = path_join dir ''admin.key'' in
      case fs_read_file cp (sv_fs s) of (data, f) \<Rightarrow>
        if current_admin_cert px en cn data then (Inr (cp, kp), s\<lparr>sv_fs := f\<rparr>)
        else make_admin_cert px en cn cp kp (s\<lparr>sv_fs := f\<rparr>))"

end
