(* ===== verification/Serve.thy ===== *)
theory Serve
  imports Cli_Base Api_Files Api_Handlers
begin

section \<open>serve: boot, shutdown and the daily tasks\<close>

text \<open>
  \<^verbatim>\<open>runServe\<close> and what it wires, of \<^verbatim>\<open>src/cmd/ovcp/main.go\<close>, with \<^verbatim>\<open>expiry.go\<close> and the ticker of \<^verbatim>\<open>logs.go\<close>. The
  boot is an action on the store, the files and the workers; the sockets it opens are parameters that may
  fail. Logging leaves no trace in the model.
\<close>

subsection \<open>The workers serve sets up\<close>

definition new_worker :: "string \<Rightarrow> string \<Rightarrow> string list \<Rightarrow> supervisor" where
  "new_worker name bin args = \<lparr>sv_Name = name, sv_Bin = bin, sv_Args = args, sv_CrashRestartDelay = 0, sv_CrashLoopWindow = 0,
     sv_CrashLoopMax = 0, sv_opMu = False, sv_cmd = None, sv_running = False, sv_desired = False, sv_stopped = False,
     sv_startedAt = None, sv_crashAt = None, sv_crashStreak = 0\<rparr>"

definition newSupervisor :: "string \<Rightarrow> string \<Rightarrow> supervisor" where
  "newSupervisor dataDir bin = new_worker ''openvpn'' bin [''--config'', ph_ServerConf (dataPaths dataDir)]"

definition buildDnsmasqArgs :: "nat list \<Rightarrow> string \<Rightarrow> bool \<Rightarrow> string list" where
  "buildDnsmasqArgs serverIP dnsDir blockInternet =
     [''-k'', ''--user=root'', ''--bind-dynamic'', ''--listen-address='' @ ip_string serverIP, ''--hostsdir='' @ dnsDir,
      ''--log-queries'', ''--log-facility=-''] @ (if blockInternet then [''--no-resolv'', ''--server=/#/''] else [])"

text \<open>\<open>PreStart\<close> of the dnsmasq worker: the arguments are computed from the stored settings at each start.\<close>

definition dns_PreStart :: "'w server \<Rightarrow> string \<Rightarrow> store \<Rightarrow> string list" where
  "dns_PreStart S dnsDir st = buildDnsmasqArgs (case ServerTunIP (LoadConfig S st) of Inl _ \<Rightarrow> [0, 0, 0, 0] | Inr ip \<Rightarrow> ip)
     dnsDir (dn_BlockInternet (LoadDNSConfig S st))"

definition newDNSSupervisor :: "string \<Rightarrow> supervisor" where
  "newDNSSupervisor bin = new_worker ''dnsmasq'' bin []"

subsection \<open>Boot\<close>

text \<open>\<open>dm_ConnectRetry\<close> dials openvpn's management socket until it answers or time is up; \<open>dm_listen\<close> opens a
  TCP address and \<open>dm_control\<close> the control socket; \<open>dm_teardown\<close> removes the upstreams' rules.\<close>

record 'w daemon =
  dm_dataDir :: string
  dm_listen_on :: string
  dm_mgmt_sock :: string
  dm_getenv :: "string \<Rightarrow> string"
  dm_env :: pki_env
  dm_server :: "'w server"
  dm_workers :: "'w workers"
  dm_enabled :: bool
  dm_ConnectRetry :: "('w srv, string, unit) step"
  dm_listen :: "string \<Rightarrow> 'w \<Rightarrow> (string, unit) result \<times> 'w"
  dm_control :: "'w \<Rightarrow> (string, unit) result \<times> 'w"
  dm_close_control :: "'w \<Rightarrow> 'w"
  dm_teardown :: "'w \<Rightarrow> 'w"

definition reconcileUpstreams :: "'w daemon \<Rightarrow> ('w, config \<times> string) action" where
  "reconcileUpstreams D =
     bindE (getE (\<lambda>s. LoadUpstreamConfig (dm_server D) (sv_store s))) (\<lambda>cfg.
     bindE (if dm_enabled D then applying (dm_server D) cfg else pureE (Inr [])) (\<lambda>warning. pureE (Inr (cfg, warning))))"

definition perCN_active :: "'w daemon \<Rightarrow> store \<Rightarrow> bool" where
  "perCN_active D st = (dm_enabled D \<and> UpstreamAuthActive (dm_server D) st)"

definition serverName :: "'w daemon \<Rightarrow> ('w, string) action" where
  "serverName D = adminCertCN (dm_getenv D) (sr_px (dm_server D)) (dm_dataDir D)"

text \<open>The configuration openvpn is started with: the stored settings, the paths of this data directory, and
  client authentication by the management socket exactly when a client has an upstream of its own.\<close>

definition boot_config :: "'w daemon \<Rightarrow> ('w, bool) action" where
  "boot_config D =
     bindE (preflight (dm_dataDir D)) (\<lambda>_.
     bindE (getE (\<lambda>s. LoadConfig (dm_server D) (sv_store s))) (\<lambda>stored.
     bindE (serverName D) (\<lambda>cn.
     bindE (getE (\<lambda>s. perCN_active D (sv_store s))) (\<lambda>active.
     let cfg = (fillPaths (dm_getenv D) (dm_dataDir D) (dm_mgmt_sock D) cn stored)\<lparr>oc_ManagementClientAuth := active\<rparr> in
     bindE (onStore (\<lambda>st. Inr (SaveConfig (dm_server D) cfg st))) (\<lambda>_.
     bindE (onFS OvpnErr (WriteAtomic cfg (sr_ConfigPath (dm_server D)))) (\<lambda>_.
     bindE (reconcileUpstreams D) (\<lambda>_. pureE (Inr active))))))))"

definition trimmed_addrs :: "string \<Rightarrow> string list" where
  "trimmed_addrs listen = filter (\<lambda>a. a \<noteq> []) (map trim_space (split_c CHR '','' listen))"

fun listen_each :: "'w daemon \<Rightarrow> string list \<Rightarrow> ('w, unit) action" where
  "listen_each D [] = pureE (Inr ())"
| "listen_each D (a # as) = bindE (onWorld (dm_listen D a)) (\<lambda>_. listen_each D as)"

text \<open>\<open>AfterVPNStart\<close>, also the \<^verbatim>\<open>upstream-reapply\<close> request.\<close>

definition AfterVPNStart :: "'w daemon \<Rightarrow> ('w srv) closure" where
  "AfterVPNStart D s = (case reconcileUpstreams D s of (_, s1) \<Rightarrow>
     if perCN_active D (sv_store s1) then (case dm_ConnectRetry D s1 of (r, s2) \<Rightarrow> (Some r, s2)) else (Some (Inr ()), s1))"

text \<open>A call whose error is only logged.\<close>

definition logged :: "('s, 'e, unit) step \<Rightarrow> ('s, 'f, unit) step" where
  "logged m s = (Inr (), snd (m s))"

definition autostart :: "'w daemon \<Rightarrow> string \<Rightarrow> ('w srv) lifecycle \<Rightarrow> ('w, unit) action" where
  "autostart D var t = (if dm_getenv D var \<noteq> ''false'' then logged (lc_Start t) else pureE (Inr ()))"

definition start_bot :: "'w daemon \<Rightarrow> ('w, unit) action" where
  "start_bot D s = (let t = wk_Telegram (dm_workers D) in
     if tg_TokenSet (tc_Status t s) then logged (tc_Start t) s else (Inr (), s))"

definition start_workers :: "'w daemon \<Rightarrow> bool \<Rightarrow> ('w, unit) action" where
  "start_workers D active =
     bindE (autostart D ''OVCP_OPENVPN_AUTOSTART'' (wk_VPN (dm_workers D))) (\<lambda>_.
     bindE (if active then logged (dm_ConnectRetry D) else pureE (Inr ())) (\<lambda>_.
     bindE (case wk_DNS (dm_workers D) of None \<Rightarrow> pureE (Inr ()) | Some d \<Rightarrow> autostart D ''OVCP_DNSMASQ_AUTOSTART'' d) (\<lambda>_.
     start_bot D)))"

definition runServe_boot :: "'w daemon \<Rightarrow> ('w, unit) action" where
  "runServe_boot D =
     bindE (boot_config D) (\<lambda>active.
     bindE (serverName D) (\<lambda>cn.
     bindE (EnsureAdminTLS (sr_px (dm_server D)) (dm_env D) (path_join (dm_dataDir D) ''admin-tls'') cn) (\<lambda>_.
     bindE (listen_each D (trimmed_addrs (dm_listen_on D))) (\<lambda>_.
     bindE (onWorld (dm_control D)) (\<lambda>_.
     start_workers D active)))))"

text \<open>On the signal: the bot, the control socket, then the workers, whose rules go last.\<close>

definition runServe_stop :: "'w daemon \<Rightarrow> ('w, unit) action" where
  "runServe_stop D =
     bindE (logged (tc_Stop (wk_Telegram (dm_workers D)))) (\<lambda>_.
     bindE (\<lambda>s. (Inr (), s\<lparr>sv_world := dm_close_control D (sv_world s)\<rparr>)) (\<lambda>_.
     bindE (logged (lc_Stop (wk_VPN (dm_workers D)))) (\<lambda>_.
     bindE (case wk_DNS (dm_workers D) of None \<Rightarrow> pureE (Inr ()) | Some d \<Rightarrow> logged (lc_Stop d)) (\<lambda>_ s.
     (Inr (), if dm_enabled D then s\<lparr>sv_world := dm_teardown D (sv_world s)\<rparr> else s)))))"

subsection \<open>What the bot is told\<close>

text \<open>None is a panic of the bot's message.\<close>

definition notify_step :: "(bot_call list \<Rightarrow> 'w \<Rightarrow> 'w) \<Rightarrow> string \<Rightarrow> 'w srv \<Rightarrow> 'w srv option" where
  "notify_step post t s = map_option (\<lambda>calls. s\<lparr>sv_world := post calls (sv_world s)\<rparr>) (Notify t (sv_store s))"

text \<open>The hooks serve sets: on an audit entry of its own, and when a worker is given up.\<close>

definition audit_hook :: "(bot_call list \<Rightarrow> 'w \<Rightarrow> 'w) \<Rightarrow> string \<Rightarrow> string \<Rightarrow> string \<Rightarrow> 'w srv \<Rightarrow> 'w srv option" where
  "audit_hook post actor act detail s =
     map_option (\<lambda>calls. s\<lparr>sv_world := post calls (sv_world s)\<rparr>) (OnAudit actor act detail (sv_store s))"

definition OnCrashLoopGiveUp :: "(bot_call list \<Rightarrow> 'w \<Rightarrow> 'w) \<Rightarrow> string \<Rightarrow> int \<Rightarrow> 'w srv \<Rightarrow> 'w srv option" where
  "OnCrashLoopGiveUp post worker streak = notify_step post (u8 [0xE2, 0x9A, 0xA0, 0xEF, 0xB8, 0x8F] @ '' '' @ worker
     @ '' crash-looping ('' @ itoa streak @ ''x), giving up auto-restart'')"

subsection \<open>Daily tasks\<close>

text \<open>\<open>warned\<close> is the stored map of the serials warned about. The exact number of days is rounded: under
  thirty days a float64 keeps nanoseconds apart.\<close>

type_synonym warned = "(string \<times> bool) list"

definition certExpiryWarnedKey :: string where "certExpiryWarnedKey = ''cert_expiry_warned_serials''"

definition due :: "int \<Rightarrow> warned \<Rightarrow> cert \<Rightarrow> bool" where
  "due now warned c = (Status now c = ''expiring'' \<and> map_of warned (ct_Serial c) \<noteq> Some True)"

definition day_ns :: int where "day_ns = 24 * 3600 * second"

definition expiry_text :: "int \<Rightarrow> cert \<Rightarrow> string" where
  "expiry_text now c = u8 [0xE2, 0x8F, 0xB3] @ '' '' @ ct_CN c @ '' ('' @ ct_Kind c @ '') expires in ''
     @ itoa (rne_div (ct_NotAfter c * second - now) day_ns) @ ''d''"

fun warn_each :: "(bot_call list \<Rightarrow> 'w \<Rightarrow> 'w) \<Rightarrow> int \<Rightarrow> cert list \<Rightarrow> warned \<Rightarrow> 'w srv \<Rightarrow> (warned \<times> 'w srv) option" where
  "warn_each post now [] warned s = Some (warned, s)"
| "warn_each post now (c # cs) warned s =
     (if \<not> due now warned c then warn_each post now cs warned s
      else (case notify_step post (expiry_text now c) s of None \<Rightarrow> None
        | Some s1 \<Rightarrow> warn_each post now cs ((ct_Serial c, True) # warned) s1))"

definition sweepExpiring :: "(string \<Rightarrow> warned \<Rightarrow> warned option) \<Rightarrow> (warned \<Rightarrow> string option) \<Rightarrow> (bot_call list \<Rightarrow> 'w \<Rightarrow> 'w)
    \<Rightarrow> 'w server \<Rightarrow> int \<Rightarrow> 'w srv \<Rightarrow> 'w srv option" where
  "sweepExpiring dec enc post S now s0 = (case ca_summary S s0 of
     (Inl e, s) \<Rightarrow> Some s
   | (Inr ca, s) \<Rightarrow>
      (let certs = AllCerts ca (sv_store s);
           warned = LoadJSON dec certExpiryWarnedKey [] (sv_store s) in
       case warn_each post now certs warned s of None \<Rightarrow> None
       | Some (warned1, s1) \<Rightarrow>
          (let live = map ct_Serial certs;
               kept = filter (\<lambda>(k, _). k \<in> set live) warned1;
               changed = (list_ex (due now warned) certs \<or> length kept \<noteq> length warned1) in
           Some (if \<not> changed then s1
                 else (case SaveJSON enc certExpiryWarnedKey kept (sv_store s1) of None \<Rightarrow> s1
                       | Some st \<Rightarrow> s1\<lparr>sv_store := st\<rparr>)))))"

text \<open>The tickers: once a day, the sweep also at boot; \<open>times\<close> are the moments a tick arrives before the stop.\<close>

fun runExpirySweepTicker :: "(int \<Rightarrow> 'w srv \<Rightarrow> 'w srv option) \<Rightarrow> int list \<Rightarrow> 'w srv \<Rightarrow> 'w srv option" where
  "runExpirySweepTicker once [] s = Some s"
| "runExpirySweepTicker once (t # ts) s = (case once t s of None \<Rightarrow> None | Some s1 \<Rightarrow> runExpirySweepTicker once ts s1)"

fun runLogRotateTicker :: "(store \<Rightarrow> log_config) \<Rightarrow> log_host \<Rightarrow> string \<Rightarrow> int list \<Rightarrow> 'w srv \<Rightarrow> 'w srv" where
  "runLogRotateTicker load H dataDir [] s = s"
| "runLogRotateTicker load H dataDir (t # ts) s = (let cfg = load (sv_store s) in
     runLogRotateTicker load H dataDir ts
       (if \<not> lo_Enabled cfg then s
        else s\<lparr>sv_fs := snd (RotateLogs H t (LogPaths (ph_LogsDir (dataPaths dataDir))) cfg (sv_fs s))\<rparr>))"

end
