(* ===== verification/Serve_Props.thy ===== *)
theory Serve_Props
  imports Serve Api_Config_Props Telegram_Props
begin

section \<open>serve: the workers it starts\<close>

text \<open>
  The boot of \<^verbatim>\<open>runServe\<close> is everything up to the workers, then the workers. The first part may fail at any step and
  touches no worker; when it ends, \<^verbatim>\<open>server.conf\<close> is the rendering of the stored configuration, and openvpn
  is told to ask before it admits a client whenever some client has an upstream of its own.
\<close>

subsection \<open>Steps that keep a file and the store\<close>

definition kept :: "string \<Rightarrow> 'w srv \<Rightarrow> 'w srv \<Rightarrow> bool" where
  "kept q s s' \<longleftrightarrow> fs_files (sv_fs s') q = fs_files (sv_fs s) q \<and> sv_store s' = sv_store s"

lemma kept_refl: "reflp (kept q)"
  by (simp add: reflp_def kept_def)

lemma kept_trans: "transp (kept q)"
  by (auto simp: transp_def kept_def)

lemma kept_workers: "keepsE (kept q) (onWorld m)" "keepsE (kept q) (applying S cfg)"
  by (auto simp: keepsE_def kept_def onWorld_def applying_def split: prod.splits sum.splits)

lemma kept_write: "p \<noteq> q \<Longrightarrow> keepsE (kept q) (onFS g (fsE e (fs_write_file p d)))"
  by (auto simp: keepsE_def kept_def onFS_def fsE_def dest!: fs_write_file_files split: prod.splits sum.splits if_splits)

lemmas kept_steps = keepsE_bind [OF kept_trans] keepsE_pure [OF kept_refl] keepsE_get [OF kept_refl] kept_workers

lemma missing_files_kept: "missing_files ps f = (ms, f') \<Longrightarrow> fs_files f' = fs_files f"
proof (induction ps arbitrary: f ms f')
  case (Cons p ps)
  obtain found f1 where st: "fs_stat p f = (found, f1)" by (metis surj_pair)
  obtain ms1 f2 where m: "missing_files ps f1 = (ms1, f2)" by (metis surj_pair)
  show ?case using Cons.IH [OF m] fs_stat_files [OF st] Cons.prems st m by simp
qed simp

lemma kept_preflight: "keepsE (kept q) (preflight d)"
  by (auto simp: keepsE_def kept_def preflight_def Let_def simp del: missing_files.simps dest!: missing_files_kept split: prod.splits)

lemma kept_name: "keepsE (kept q) (serverName D)"
  by (auto simp: keepsE_def kept_def serverName_def adminCertCN_def dest!: fs_read_file_files split: prod.splits if_splits)

lemma kept_reconcile: "keepsE (kept q) (reconcileUpstreams D)"
proof -
  have "keepsE (kept q) (if dm_enabled D then applying (dm_server D) cfg else pureE (Inr []))" for cfg
    by (auto intro: kept_steps)
  then show ?thesis unfolding reconcileUpstreams_def by (intro kept_steps)
qed

lemma kept_listen: "keepsE (kept q) (listen_each D as)"
  by (induction as) (simp_all, (intro kept_steps | assumption)+)

lemma kept_mkdir: "keepsE (kept q) (\<lambda>s. case fs_check (sv_fs s) of (ok, f) \<Rightarrow> (if ok then Inr () else Inl e, s\<lparr>sv_fs := f\<rparr>))"
  by (auto simp: keepsE_def kept_def dest!: fs_check_files split: prod.splits)

lemma kept_admin_tls:
  assumes "path_join dir ''admin.crt'' \<noteq> q" "path_join dir ''admin.key'' \<noteq> q"
  shows "keepsE (kept q) (EnsureAdminTLS px en dir name)"
  unfolding keepsE_def
proof (intro allI impI)
  fix s :: "'w srv" and r s' assume e: "EnsureAdminTLS px en dir name s = (r, s')"
  let ?cp = "path_join dir ''admin.crt''" and ?kp = "path_join dir ''admin.key''"
  have m: "keepsE (kept q) (make_admin_cert px en cn ?cp ?kp)" for cn
    unfolding make_admin_cert_def Let_def using assms by (intro kept_steps kept_mkdir kept_write)
  obtain data f where rd: "fs_read_file ?cp (sv_fs s) = (data, f)" by (metis surj_pair)
  have k: "kept q s (s\<lparr>sv_fs := f\<rparr>)" using fs_read_file_files [OF rd] by (simp add: kept_def)
  then show "kept q s s'"
    using e rd transpD [OF kept_trans k keepsED [OF m]] by (auto simp: EnsureAdminTLS_def Let_def split: if_splits)
qed

subsection \<open>Up to the workers\<close>

definition before_workers :: "'w daemon \<Rightarrow> ('w, bool) action" where
  "before_workers D =
     bindE (boot_config D) (\<lambda>active.
     bindE (serverName D) (\<lambda>cn.
     bindE (EnsureAdminTLS (sr_px (dm_server D)) (dm_env D) (path_join (dm_dataDir D) ''admin-tls'') cn) (\<lambda>_.
     bindE (listen_each D (trimmed_addrs (dm_listen_on D))) (\<lambda>_.
     bindE (onWorld (dm_control D)) (\<lambda>_. pureE (Inr active))))))"

lemma bindE_assoc: "bindE (bindE m k) h = bindE m (\<lambda>a. bindE (k a) h)"
  by (rule ext) (auto simp: bindE_def split: prod.splits sum.splits)

lemma bindE_pure: "bindE (pureE (Inr a)) k = k a"
  by (rule ext) (simp add: bindE_def pureE_def)

lemma runServe_boot_split: "runServe_boot D = bindE (before_workers D) (start_workers D)"
  by (simp add: runServe_boot_def before_workers_def bindE_assoc bindE_pure)

lemma listen_each_workers: "listen_each (D\<lparr>dm_workers := W\<rparr>) as = listen_each D as"
  by (induction as) simp_all

lemma before_workers_untouched: "before_workers (D\<lparr>dm_workers := W\<rparr>) = before_workers D"
  by (simp add: before_workers_def boot_config_def serverName_def reconcileUpstreams_def perCN_active_def listen_each_workers cong: if_cong)

lemma logged_ok: "logged m s = (r, s') \<Longrightarrow> r = Inr ()"
  by (simp add: logged_def)

lemma start_workers_ok: "start_workers D active s = (r, s') \<Longrightarrow> r = Inr ()"
  by (auto simp: start_workers_def autostart_def start_bot_def bindE_def pureE_def logged_def Let_def split: if_splits option.splits)


text \<open>What a boot that reaches its workers has done to the configuration.\<close>

lemma boot_config_ready:
  assumes "path_join (path_dir conf) ''.server.conf.tmp'' \<noteq> conf" "conf = sr_ConfigPath (dm_server D)"
    and "boot_config D s = (Inr active, s')"
  shows "\<exists>cfg. ovpn_valid cfg \<and> fs_files (sv_fs s') conf = Some (Render cfg) \<and> oc_ManagementClientAuth cfg = active
    \<and> active = perCN_active D (sv_store s) \<and> sv_store s' = SaveConfig (dm_server D) cfg (sv_store s)"
proof -
  let ?cfg = "\<lambda>cn t. (fillPaths (dm_getenv D) (dm_dataDir D) (dm_mgmt_sock D) cn (LoadConfig (dm_server D) (sv_store t)))
    \<lparr>oc_ManagementClientAuth := active\<rparr>"
  from assms(3) obtain s1 cn s2 f cw where pre: "preflight (dm_dataDir D) s = (Inr (), s1)" and name: "serverName D s1 = (Inr cn, s2)"
    and act: "active = perCN_active D (sv_store s2)" and w: "WriteAtomic (?cfg cn s1) conf (sv_fs s2) = (Inr (), f)"
    and rec: "reconcileUpstreams D (s2\<lparr>sv_store := SaveConfig (dm_server D) (?cfg cn s1) (sv_store s2), sv_fs := f\<rparr>) = (Inr cw, s')"
    unfolding boot_config_def Let_def assms(2) bindE_Inr getE_eq pureE_eq onStore_Inr onFS_Inr by force
  have st: "sv_store s2 = sv_store s"
    using keepsED [OF kept_preflight pre] keepsED [OF kept_name name] by (simp add: kept_def)
  have "fs_files f conf = Some (Render (?cfg cn s1)) \<and> ovpn_valid (?cfg cn s1)" using WriteAtomic_outcome [OF assms(1) w] by simp
  moreover have "fs_files (sv_fs s') conf = fs_files f conf" "sv_store s' = SaveConfig (dm_server D) (?cfg cn s1) (sv_store s)"
    using keepsED [OF kept_reconcile rec] st by (simp_all add: kept_def)
  ultimately show ?thesis using act st by (intro exI [of _ "?cfg cn s1"]) simp
qed

lemma upstreams_apart: "UpstreamAuthActive S (SaveConfig S' cfg st) = UpstreamAuthActive S st"
  by (simp add: UpstreamAuthActive_def LoadUpstreamConfig_def SaveConfig_def LoadJSON_load_json settings.load_other)

lemma before_workers_ready:
  assumes "path_join (path_dir conf) ''.server.conf.tmp'' \<noteq> conf" "conf = sr_ConfigPath (dm_server D)"
    and "path_join (path_join (dm_dataDir D) ''admin-tls'') ''admin.crt'' \<noteq> conf"
    and "path_join (path_join (dm_dataDir D) ''admin-tls'') ''admin.key'' \<noteq> conf"
    and "before_workers D s = (Inr active, t)"
  shows "\<exists>cfg. ovpn_valid cfg \<and> fs_files (sv_fs t) conf = Some (Render cfg) \<and> oc_ManagementClientAuth cfg = active
    \<and> active = perCN_active D (sv_store t) \<and> sv_store t = SaveConfig (dm_server D) cfg (sv_store s)"
proof -
  obtain s1 where b: "boot_config D s = (Inr active, s1)" and r: "kept conf s1 t"
  proof -
    let ?rest = "\<lambda>a. bindE (serverName D) (\<lambda>cn.
       bindE (EnsureAdminTLS (sr_px (dm_server D)) (dm_env D) (path_join (dm_dataDir D) ''admin-tls'') cn) (\<lambda>_.
       bindE (listen_each D (trimmed_addrs (dm_listen_on D))) (\<lambda>_.
       bindE (onWorld (dm_control D)) (\<lambda>_. pureE (Inr a)))))"
    obtain a s1 where b: "boot_config D s = (Inr a, s1)" and m: "?rest a s1 = (Inr active, t)"
      using assms(5) unfolding before_workers_def bindE_Inr [of "boot_config D"] by blast
    have "a = active" using m unfolding bindE_Inr pureE_eq by blast
    moreover have k: "keepsE (kept conf) (?rest a)" by (intro kept_steps kept_name kept_admin_tls kept_listen assms(3,4))
    ultimately show thesis using that b m keepsED [OF k, of s1] by blast
  qed
  show ?thesis using boot_config_ready [OF assms(1,2) b] r
    by (auto simp: kept_def perCN_active_def upstreams_apart)
qed

text \<open>The directive is a line of the file.\<close>

lemma split_c_cat: "split_c c (u @ c # v) = split_c c u @ split_c c v"
  by (induction u) (auto split: list.splits)

lemma line_of_text: "LF \<notin> set x \<Longrightarrow> x \<in> set ls \<Longrightarrow> x \<in> set (split_c LF (concat (map (\<lambda>l. l @ NL) ls)))"
  by (induction ls) (auto simp: split_c_cat split_c_absent)

lemma client_auth_line: "oc_ManagementClientAuth c \<Longrightarrow> ''management-client-auth'' \<in> set (split_c LF (Render c))"
  unfolding Render_def by (rule line_of_text) (simp_all add: render_lines_def mgmt_lines_def)

text \<open>C38: A boot of serve that fails has called no worker: it is the same whatever the workers are. A boot that
  succeeds starts them in a state where \<^verbatim>\<open>server.conf\<close> is the rendering of a valid configuration, the one stored,
  which makes openvpn ask before it admits a client exactly when upstreams are enabled and some client has one of its own.\<close>

theorem serve_boots_governed:
  assumes "path_join (path_dir conf) ''.server.conf.tmp'' \<noteq> conf" "conf = sr_ConfigPath (dm_server D)"
    and "path_join (path_join (dm_dataDir D) ''admin-tls'') ''admin.crt'' \<noteq> conf"
    and "path_join (path_join (dm_dataDir D) ''admin-tls'') ''admin.key'' \<noteq> conf"
    and "runServe_boot D s = (r, s')"
  shows "case r of Inl e \<Rightarrow> (\<forall>W. runServe_boot (D\<lparr>dm_workers := W\<rparr>) s = (Inl e, s'))
    | Inr _ \<Rightarrow> (\<exists>cfg t. start_workers D (oc_ManagementClientAuth cfg) t = (Inr (), s')
        \<and> ovpn_valid cfg \<and> fs_files (sv_fs t) conf = Some (Render cfg) \<and> sv_store t = SaveConfig (dm_server D) cfg (sv_store s)
        \<and> oc_ManagementClientAuth cfg = (dm_enabled D \<and> UpstreamAuthActive (dm_server D) (sv_store t))
        \<and> (oc_ManagementClientAuth cfg \<longrightarrow> ''management-client-auth'' \<in> set (split_c LF (Render cfg))))"
proof (cases r)
  case (Inl e)
  then have "before_workers D s = (Inl e, s')"
    using assms(5) by (auto simp: runServe_boot_split bindE_Inl dest: start_workers_ok)
  then show ?thesis using Inl by (simp add: runServe_boot_split before_workers_untouched bindE_def)
next
  case (Inr u)
  then obtain active t where b: "before_workers D s = (Inr active, t)" "start_workers D active t = (Inr (), s')"
    using assms(5) by (auto simp: runServe_boot_split bindE_Inr)
  from before_workers_ready [OF assms(1-4) b(1)] b(2) Inr show ?thesis
    using client_auth_line by (auto simp: perCN_active_def)
qed

subsection \<open>A data directory\<close>

definition demo_workers :: "nat workers" where
  "demo_workers = (let ok = (\<lambda>s. (Inr (), s)); lc = \<lparr>lc_Start = (\<lambda>s. (Inr (), s\<lparr>sv_world := sv_world s + 1\<rparr>)), lc_Stop = ok,
      lc_Restart = ok, lc_Reconnect = ok, lc_Pid = (\<lambda>_. 1), lc_StartedAt = (\<lambda>_. None)\<rparr> in
     \<lparr>wk_VPN = lc, wk_DNS = Some lc,
      wk_Telegram = \<lparr>tc_Start = ok, tc_Stop = ok, tc_Restart = ok, tc_Status = (\<lambda>s. ConfigStatus (sv_store s))\<rparr>,
      wk_AfterVPNStart = None, wk_Clients = (\<lambda>_. Inr []), wk_started = 0\<rparr>)"

definition demo_daemon :: "nat daemon" where
  "demo_daemon = \<lparr>dm_dataDir = ''/d'', dm_listen_on = ''127.0.0.1:8443, '', dm_mgmt_sock = ''/run/m'',
     dm_getenv = (\<lambda>k. if k = ''OVCP_SERVER_CN'' then ''vpn.example'' else []), dm_env = demo_env,
     dm_server = \<lparr>sr_px = demo_lib, sr_PKI = ''/d/pki'', sr_TLSCrypt = [], sr_ServerCert = [], sr_ServerKey = [],
       sr_ConfigPath = ''/d/server.conf'', sr_DefaultRemote = [], sr_getenv = (\<lambda>_. []), sr_dec_config = (\<lambda>_ c. c),
       sr_enc_config = (\<lambda>_. ''{}''), sr_dec_dns = (\<lambda>_ _. None), sr_enc_dns = (\<lambda>_. None),
       sr_dec_up = (\<lambda>_ _. Some \<lparr>cf_Upstreams = [], cf_Default = [], cf_PerCN = [(''alice'', ''wan'')]\<rparr>), sr_enc_up = (\<lambda>_. None),
       sr_Kill = (\<lambda>_ _ w. (Inr 0, w)), sr_apply = (\<lambda>_ w. ([], w)), sr_rewrite = (\<lambda>_ w. (Inr (), w)),
       sr_iface = (\<lambda>_ _. False), sr_url = (\<lambda>_. [])\<rparr>,
     dm_workers = demo_workers, dm_enabled = True, dm_ConnectRetry = (\<lambda>s. (Inr (), s)), dm_listen = (\<lambda>_ w. (Inr (), w)),
     dm_control = (\<lambda>w. (Inr (), w)), dm_close_control = (\<lambda>w. w), dm_teardown = (\<lambda>w. w)\<rparr>"

definition demo_boot :: "nat srv" where
  "demo_boot = \<lparr>sv_store = SetSetting ''upstream_config'' ''{}'' empty_store,
     sv_fs = \<lparr>fs_files = [''/d/pki/ca.crt'' \<mapsto> [], ''/d/pki/server.crt'' \<mapsto> [], ''/d/pki/server.key'' \<mapsto> [], ''/d/pki/tls-crypt.key'' \<mapsto> []],
       fs_faults = []\<rparr>, sv_world = 0\<rparr>"

theorem serve_boots_governed_witness:
  "sv_world (snd (runServe_boot demo_daemon demo_boot)) = 2
   \<and> (\<exists>t cfg. fs_files (sv_fs t) ''/d/server.conf'' = Some (Render cfg) \<and> ''management-client-auth'' \<in> set (split_c LF (Render cfg))
       \<and> start_workers demo_daemon True t = runServe_boot demo_daemon demo_boot)"
proof -
  have r: "fst (runServe_boot demo_daemon demo_boot) = Inr ()" and n: "sv_world (snd (runServe_boot demo_daemon demo_boot)) = 2"
    by code_simp+
  obtain s' where b: "runServe_boot demo_daemon demo_boot = (Inr (), s')" using r by (metis prod.collapse)
  have p: "path_join (path_dir ''/d/server.conf'') ''.server.conf.tmp'' \<noteq> ''/d/server.conf''"
    "''/d/server.conf'' = sr_ConfigPath (dm_server demo_daemon)"
    "path_join (path_join (dm_dataDir demo_daemon) ''admin-tls'') ''admin.crt'' \<noteq> ''/d/server.conf''"
    "path_join (path_join (dm_dataDir demo_daemon) ''admin-tls'') ''admin.key'' \<noteq> ''/d/server.conf''" by code_simp+
  have on: "dm_enabled demo_daemon \<and> UpstreamAuthActive (dm_server demo_daemon) (SaveConfig S cfg (sv_store demo_boot))"
    for cfg and S :: "nat server"
  proof -
    have "dm_enabled demo_daemon" "UpstreamAuthActive (dm_server demo_daemon) (sv_store demo_boot)" by code_simp+
    then show ?thesis by (simp add: upstreams_apart)
  qed
  obtain t cfg where "start_workers demo_daemon True t = (Inr (), s')" "fs_files (sv_fs t) ''/d/server.conf'' = Some (Render cfg)"
    "''management-client-auth'' \<in> set (split_c LF (Render cfg))"
    using serve_boots_governed [OF p b] on by auto
  then show ?thesis using b n by auto
qed

subsection \<open>The expiry sweep\<close>

text \<open>The certificates a sweep announces, in the order of the list.\<close>

fun announced :: "int \<Rightarrow> cert list \<Rightarrow> warned \<Rightarrow> cert list" where
  "announced now [] w = []"
| "announced now (c # cs) w = (if due now w c then c # announced now cs ((ct_Serial c, True) # w) else announced now cs w)"

lemma due_mono: "due now ((k, True) # w) c \<Longrightarrow> due now w c"
  by (auto simp: due_def split: if_splits)

lemma announced_due: "c \<in> set (announced now cs w) \<Longrightarrow> c \<in> set cs \<and> due now w c"
  by (induction cs arbitrary: w) (auto split: if_splits dest: due_mono)

lemma announced_distinct: "distinct (map ct_Serial (announced now cs w))"
proof (induction cs arbitrary: w)
  case (Cons c cs)
  have "ct_Serial d \<noteq> ct_Serial c" if "d \<in> set (announced now cs ((ct_Serial c, True) # w))" for d
    using announced_due [OF that] by (auto simp: due_def)
  then have "ct_Serial c \<notin> ct_Serial ` set (announced now cs ((ct_Serial c, True) # w))" by (metis imageE)
  then show ?case using Cons.IH by simp
qed simp

lemma announced_complete: "c \<in> set cs \<Longrightarrow> due now w c \<Longrightarrow> ct_Serial c \<in> ct_Serial ` set (announced now cs w)"
proof (induction cs arbitrary: w)
  case (Cons a cs)
  then show ?case by (cases "ct_Serial a = ct_Serial c") (auto simp: due_def)
qed simp

text \<open>The messages of a sweep are those of its announcements, and these are marked.\<close>

lemma warn_each_announced:
  "warn_each post now cs w s = Some (w', s') \<Longrightarrow> sv_store s' = sv_store s \<and> sv_fs s' = sv_fs s
     \<and> w' = rev (map (\<lambda>c. (ct_Serial c, True)) (announced now cs w)) @ w
     \<and> sv_world s' = fold (\<lambda>c. post (the (Notify (expiry_text now c) (sv_store s)))) (announced now cs w) (sv_world s)"
proof (induction cs arbitrary: w s)
  case (Cons c cs)
  show ?case
  proof (cases "due now w c")
    case True
    obtain s1 where n: "notify_step post (expiry_text now c) s = Some s1"
        "warn_each post now cs ((ct_Serial c, True) # w) s1 = Some (w', s')"
      using Cons.prems True by (auto split: option.splits)
    obtain calls where "Notify (expiry_text now c) (sv_store s) = Some calls" "s1 = s\<lparr>sv_world := post calls (sv_world s)\<rparr>"
      using n(1) by (auto simp: notify_step_def)
    then show ?thesis using Cons.IH [OF n(2)] True by simp
  next
    case False
    then show ?thesis using Cons.IH [of w s] Cons.prems by simp
  qed
qed simp


lemma map_of_marks: "map_of (rev (map (\<lambda>c. (ct_Serial c, True)) cs) @ w) k = Some True
    \<longleftrightarrow> map_of w k = Some True \<or> k \<in> ct_Serial ` set cs"
proof (induction cs arbitrary: w)
  case (Cons a cs)
  show ?case using Cons.IH [of "(ct_Serial a, True) # w"] by (auto simp del: map_of_append)
qed simp

lemma map_of_kept: "k \<in> set live \<Longrightarrow> map_of (filter (\<lambda>(k, _). k \<in> set live) w) k = map_of w k"
  by (induction w) auto

text \<open>What a sweep stores: of the listed certificates, those that were marked and those that are expiring.\<close>

theorem sweep_marks:
  assumes codec: "\<And>w. \<exists>t. enc w = Some t \<and> t \<noteq> [] \<and> (\<forall>d. dec t d = Some w)"
    and ca: "ca_summary S s = (Inr ca, s0)" and certs: "certs = AllCerts ca (sv_store s)"
    and old: "w = LoadJSON dec certExpiryWarnedKey [] (sv_store s)"
    and sweep: "sweepExpiring dec enc post S now s = Some s'"
    and c: "c \<in> set certs"
  shows "map_of (LoadJSON dec certExpiryWarnedKey [] (sv_store s')) (ct_Serial c) = Some True
    \<longleftrightarrow> map_of w (ct_Serial c) = Some True \<or> ct_Serial c \<in> ct_Serial ` set (announced now certs w)"
proof -
  have st: "sv_store s0 = sv_store s" using ca by (auto simp: ca_summary_def split: prod.splits)
  obtain w1 s1 where we: "warn_each post now certs w s0 = Some (w1, s1)"
    using sweep st unfolding certs old by (auto simp: sweepExpiring_def ca Let_def split: option.splits)
  note a = warn_each_announced [OF we]
  let ?live = "map ct_Serial certs"
  define marks where "marks = filter (\<lambda>(k, _). k \<in> set ?live) w1"
  have res: "s' = (if \<not> (list_ex (due now w) certs \<or> length marks \<noteq> length w1) then s1
      else (case SaveJSON enc certExpiryWarnedKey marks (sv_store s1) of None \<Rightarrow> s1 | Some st \<Rightarrow> s1\<lparr>sv_store := st\<rparr>))"
    using sweep st we unfolding marks_def certs old by (simp add: sweepExpiring_def ca Let_def)
  have "map_of (LoadJSON dec certExpiryWarnedKey [] (sv_store s')) (ct_Serial c) = map_of w1 (ct_Serial c)"
  proof (cases "list_ex (due now w) certs \<or> length marks \<noteq> length w1")
    case True
    obtain t where t: "enc marks = Some t" "t \<noteq> []" "\<And>d. dec t d = Some marks" using codec by blast
    obtain st' where sj: "SaveJSON enc certExpiryWarnedKey marks (sv_store s1) = Some st'" using t(1) by (simp add: SaveJSON_def)
    have "sv_store s' = st'" using res True sj by auto
    moreover have "LoadJSON dec certExpiryWarnedKey [] st' = marks" using t(3) by (intro SaveJSON_LoadJSON [OF sj t(1,2)])
    moreover have "map_of marks (ct_Serial c) = map_of w1 (ct_Serial c)" unfolding marks_def by (rule map_of_kept) (use c in simp)
    ultimately show ?thesis by simp
  next
    case False
    then have "s' = s1" "\<forall>c \<in> set certs. \<not> due now w c" using res by (auto simp: list_ex_iff)
    moreover have "announced now certs w = []" using calculation(2) announced_due [of _ now certs w] by (cases "announced now certs w") auto
    ultimately show ?thesis using a st by (simp add: old)
  qed
  moreover have "map_of w1 k = Some True \<longleftrightarrow> map_of w k = Some True \<or> k \<in> ct_Serial ` set (announced now certs w)" for k
    using a map_of_marks [of "announced now certs w" w k] by (simp del: map_of_append)
  ultimately show ?thesis by simp
qed

text \<open>A certificate is announced by the first sweep that finds it expiring, and never again while it is listed.\<close>

lemma announced_once:
  assumes "\<And>w. \<exists>t. enc w = Some t \<and> t \<noteq> [] \<and> (\<forall>d. dec t d = Some w)" "ca_summary S s = (Inr ca, s0)"
    and "sweepExpiring dec enc post S now s = Some s'" "c \<in> set (AllCerts ca (sv_store s))" "Status now c = ''expiring''"
  shows "\<not> due later (LoadJSON dec certExpiryWarnedKey [] (sv_store s')) c"
proof -
  let ?w = "LoadJSON dec certExpiryWarnedKey [] (sv_store s)"
  have "map_of ?w (ct_Serial c) = Some True \<or> due now ?w c" using assms(5) by (simp add: due_def)
  then show ?thesis using sweep_marks [OF assms(1,2) refl refl assms(3,4)] announced_complete [OF assms(4), of now ?w]
    by (auto simp: due_def)
qed

text \<open>A sweep marks a certificate whether or not its message could be sent: without a configured bot nothing goes out, and
  the bot set up later never hears of it.\<close>

lemma unsent_warnings_are_lost:
  assumes "\<And>w. \<exists>t. enc w = Some t \<and> t \<noteq> [] \<and> (\<forall>d. dec t d = Some w)" "ca_summary S s = (Inr ca, s0)"
    and "sweepExpiring dec enc post S now s = Some s'" "c \<in> set (AllCerts ca (sv_store s))" "Status now c = ''expiring''"
    and "GetSetting keyToken (sv_store s) = []"
  shows "Notify (expiry_text now c) (sv_store s) = Some []
    \<and> \<not> due later (LoadJSON dec certExpiryWarnedKey [] (sv_store s')) c"
  using announced_once [OF assms(1-5)] assms(6) by (simp add: Notify_def)

end
