(* ===== verification/Log_Lines.thy ===== *)
theory Log_Lines
  imports Cli_Text
begin

section \<open>Log lines on a terminal\<close>

text \<open>
  \<^verbatim>\<open>colorStderr\<close> and \<^verbatim>\<open>logWriter\<close> of \<^verbatim>\<open>src/cmd/ovcp/main.go\<close>: the level of a log line is colored when standard
  error is a terminal that takes escapes. The lines themselves are made by the package \<^verbatim>\<open>slog\<close>.
\<close>

definition logLevelColor :: "(string \<times> string) list" where
  "logLevelColor = [(''level=DEBUG'', ansi ''36'' ''level=DEBUG''), (''level=INFO'', ansi ''32'' ''level=INFO''),
     (''level=WARN'', ansi ''33'' ''level=WARN''), (''level=ERROR'', ansi ''31'' ''level=ERROR'')]"

text \<open>\<^verbatim>\<open>colorStderr.Write\<close>: the first tag of the table that occurs is colored where it occurs first. A Go map has no
  order: \<open>tags\<close> is the table in the order of the iteration.\<close>

fun color_log :: "(string \<times> string) list \<Rightarrow> string \<Rightarrow> string" where
  "color_log [] p = p"
| "color_log ((tag, colored) # tags) p = (case cut_s tag p of
     None \<Rightarrow> color_log tags p
   | Some (before, after) \<Rightarrow> before @ colored @ after)"

text \<open>What \<^verbatim>\<open>logWriter\<close> sends to standard error for a line.\<close>

definition log_bytes :: "bool \<Rightarrow> bool \<Rightarrow> (string \<times> string) list \<Rightarrow> string \<Rightarrow> string" where
  "log_bytes jsonOut colorOK tags p = (if jsonOut \<or> \<not> colorOK then p else color_log tags p)"

lemma strip_sgr_plain: "ESC \<notin> set u \<Longrightarrow> strip_sgr (u @ v) = u @ strip_sgr v"
  by (induction u) (auto simp: Let_def)

lemma strip_sgr_escape: "list_all sgr_param code \<Longrightarrow> strip_sgr (ESC # CHR ''['' # code @ CHR ''m'' # v) = strip_sgr v"
proof -
  assume c: "list_all sgr_param code"
  have "\<not> sgr_param CHR ''m''" by code_simp
  then have "dropWhile sgr_param (code @ CHR ''m'' # v) = CHR ''m'' # v"
    using c by (induction code) auto
  then show ?thesis by (simp add: Let_def has_prefix_def)
qed

lemma strip_sgr_ansi: "list_all sgr_param code \<Longrightarrow> ESC \<notin> set s \<Longrightarrow> strip_sgr (ansi code s @ v) = s @ strip_sgr v"
proof -
  assume c: "list_all sgr_param code" and s: "ESC \<notin> set s"
  have "list_all sgr_param ''0''" by code_simp
  from strip_sgr_escape [OF this, of v] have r: "strip_sgr (ESC # CHR ''['' # CHR ''0'' # CHR ''m'' # v) = strip_sgr v" by simp
  have "ansi code s @ v = ESC # CHR ''['' # code @ CHR ''m'' # (s @ (ESC # CHR ''['' # CHR ''0'' # CHR ''m'' # v))"
    by (simp add: ansi_def)
  then show ?thesis by (simp only: strip_sgr_escape [OF c] strip_sgr_plain [OF s] r)
qed

text \<open>Whatever the order of the table, colors are all that is added to a log line.\<close>

lemma log_text_kept:
  assumes "set tags \<subseteq> set logLevelColor" "ESC \<notin> set p"
  shows "strip_sgr (log_bytes jsonOut colorOK tags p) = p"
proof -
  have plain: "strip_sgr u = u" if "ESC \<notin> set u" for u using strip_sgr_plain [OF that, of "[]"] by simp
  have "strip_sgr (color_log tags p) = p" using assms(1)
  proof (induction tags)
    case Nil
    show ?case using plain [OF assms(2)] by simp
  next
    case (Cons t tags)
    obtain tag colored where t: "t = (tag, colored)" by force
    then have "\<exists>code. colored = ansi code tag \<and> list_all sgr_param code \<and> ESC \<notin> set tag"
      using Cons.prems by (auto simp: logLevelColor_def sgr_param_def is_digit_c_def byte_of_def)
    then obtain code where c: "colored = ansi code tag" "list_all sgr_param code" "ESC \<notin> set tag" by blast
    show ?case
    proof (cases "cut_s tag p")
      case None
      then show ?thesis using Cons t by simp
    next
      case (Some r)
      obtain u v where r: "cut_s tag p = Some (u, v)" using Some by (cases r) auto
      have p: "p = u @ tag @ v" using cut_s_sound [OF r] .
      then have n: "ESC \<notin> set u" "ESC \<notin> set v" using assms(2) by auto
      have "color_log (t # tags) p = u @ ansi code tag @ v" by (simp add: t r c(1))
      then show ?thesis using p by (simp add: strip_sgr_plain [OF n(1)] strip_sgr_ansi [OF c(2,3)] plain [OF n(2)])
    qed
  qed
  then show ?thesis using plain [OF assms(2)] by (simp add: log_bytes_def)
qed

end
