(* ===== verification/Drop_Root.thy ===== *)
theory Drop_Root
  imports Cli_Base "HOL-Library.Word"
begin

unbundle bit_operations_syntax

section \<open>Leaving root\<close>

text \<open>
  \<^verbatim>\<open>dropRoot\<close> and \<^verbatim>\<open>mkdirOwned\<close> of \<^verbatim>\<open>src/cmd/ovcp/main.go\<close>: an invocation by root runs the program again as
  the account of ovcp. The process is a record of its identity and capability sets, with the rules of
  capabilities(7) for the calls the code makes; every call may fail, as \<open>pc_faults\<close> says.
\<close>

subsection \<open>The process and its calls\<close>

record process =
  pc_euid :: int
  pc_gid :: int
  pc_groups :: "int list"
  pc_keepcaps :: bool
  pc_permitted :: "64 word"
  pc_effective :: "64 word"
  pc_inheritable :: "64 word"
  pc_ambient :: "64 word"
  pc_bounding :: "64 word"
  pc_dirs :: "string \<rightharpoonup> int \<times> int"
  pc_faults :: "bool list"

type_synonym 'a call = "(process, string, 'a) step"

definition fault :: "bool call" where
  "fault s = (case pc_faults s of [] \<Rightarrow> (Inr False, s) | b # bs \<Rightarrow> (Inr b, s\<lparr>pc_faults := bs\<rparr>))"

definition call :: "string \<Rightarrow> (process \<Rightarrow> process option) \<Rightarrow> unit call" where
  "call name f = bindE fault (\<lambda>failed s. if failed then (Inl name, s) else (case f s of None \<Rightarrow> (Inl name, s) | Some s1 \<Rightarrow> (Inr (), s1)))"

definition sub_caps :: "64 word \<Rightarrow> 64 word \<Rightarrow> bool" where
  "sub_caps a b = (a AND b = a)"

definition sys_keepcaps :: "unit call" where
  "sys_keepcaps = call ''prctl'' (\<lambda>s. Some (s\<lparr>pc_keepcaps := True\<rparr>))"

definition sys_setgroups :: "int list \<Rightarrow> unit call" where
  "sys_setgroups gs = call ''setgroups'' (\<lambda>s. Some (s\<lparr>pc_groups := gs\<rparr>))"

definition sys_setgid :: "int \<Rightarrow> unit call" where
  "sys_setgid g = call ''setgid'' (\<lambda>s. Some (s\<lparr>pc_gid := g\<rparr>))"

text \<open>Leaving uid 0 clears the sets, the permitted one unless the process keeps it.\<close>

definition sys_setuid :: "int \<Rightarrow> unit call" where
  "sys_setuid u = call ''setuid'' (\<lambda>s. Some (if pc_euid s = 0 \<and> u \<noteq> 0
     then s\<lparr>pc_euid := u, pc_effective := 0, pc_ambient := 0, pc_permitted := (if pc_keepcaps s then pc_permitted s else 0)\<rparr>
     else s\<lparr>pc_euid := u\<rparr>))"

definition sys_capset :: "64 word \<Rightarrow> 64 word \<Rightarrow> 64 word \<Rightarrow> unit call" where
  "sys_capset eff perm inh = call ''capset'' (\<lambda>s.
     if sub_caps perm (pc_permitted s) \<and> sub_caps eff perm \<and> sub_caps inh (pc_inheritable s OR pc_permitted s)
     then Some (s\<lparr>pc_effective := eff, pc_permitted := perm, pc_inheritable := inh, pc_ambient := pc_ambient s AND perm AND inh\<rparr>)
     else None)"

definition sys_ambient_raise :: "nat \<Rightarrow> unit call" where
  "sys_ambient_raise n = call ''prctl'' (\<lambda>s. if bit (pc_permitted s) n \<and> bit (pc_inheritable s) n
     then Some (s\<lparr>pc_ambient := pc_ambient s OR push_bit n 1\<rparr>) else None)"

text \<open>The program runs again in place: root gets every capability of the bounding set, another user the
  ambient ones.\<close>

definition sys_exec :: "unit call" where
  "sys_exec = call ''exec'' (\<lambda>s. Some (if pc_euid s = 0
     then s\<lparr>pc_permitted := pc_bounding s OR pc_inheritable s, pc_effective := pc_bounding s OR pc_inheritable s, pc_keepcaps := False\<rparr>
     else s\<lparr>pc_permitted := pc_ambient s, pc_effective := pc_ambient s, pc_keepcaps := False\<rparr>))"

subsection \<open>Directories\<close>

text \<open>A directory that exists is left as it is; a new one belongs to the caller until it is given away.\<close>

definition mkdirOwned :: "string \<Rightarrow> int \<Rightarrow> int \<Rightarrow> unit call" where
  "mkdirOwned dir uid gid =
     bindE (call ''mkdir'' Some) (\<lambda>_.
     bindE (call ''open'' Some) (\<lambda>_ s.
     if pc_dirs s dir \<noteq> None then (Inr (), s)
     else bindE (call ''mkdirat'' (\<lambda>s. Some (s\<lparr>pc_dirs := (pc_dirs s)(dir \<mapsto> (pc_euid s, pc_gid s))\<rparr>))) (\<lambda>_.
          bindE (call ''openat'' Some) (\<lambda>_.
          call ''fchown'' (\<lambda>s. Some (s\<lparr>pc_dirs := (pc_dirs s)(dir \<mapsto> (uid, gid))\<rparr>)))) s))"

fun make_owned :: "string list \<Rightarrow> int \<Rightarrow> int \<Rightarrow> unit call" where
  "make_owned [] uid gid = pureE (Inr ())"
| "make_owned (d # ds) uid gid = bindE (mkdirOwned d uid gid) (\<lambda>_. make_owned ds uid gid)"

subsection \<open>The capabilities that stay\<close>

definition CAP_NET_BIND_SERVICE :: nat where "CAP_NET_BIND_SERVICE = 10"
definition CAP_NET_ADMIN :: nat where "CAP_NET_ADMIN = 12"

definition dropCaps :: "nat list" where
  "dropCaps = [CAP_NET_ADMIN, CAP_NET_BIND_SERVICE]"

text \<open>\<^verbatim>\<open>keep |= c[0].Permitted & (1 << cp)\<close>, on the low 32 bits.\<close>

fun keep_mask :: "nat list \<Rightarrow> 32 word \<Rightarrow> 32 word" where
  "keep_mask [] permitted = 0"
| "keep_mask (cp # cps) permitted = (permitted AND push_bit cp 1) OR keep_mask cps permitted"

fun raise_each :: "nat list \<Rightarrow> 32 word \<Rightarrow> unit call" where
  "raise_each [] keep = pureE (Inr ())"
| "raise_each (cp # cps) keep = bindE (if keep AND push_bit cp 1 \<noteq> 0 then sys_ambient_raise cp else pureE (Inr ())) (\<lambda>_. raise_each cps keep)"

subsection \<open>dropRoot\<close>

text \<open>\<open>lookup\<close> is the account database: uid and gid of a name, as text. The result tells whether the program was
  run again; the exec is fatal when it fails.\<close>

definition drop_account :: "(string \<Rightarrow> string) \<Rightarrow> string" where
  "drop_account env = or_env (env ''OVCP_USER'') ''ovcp''"

definition drop_dirs :: "(string \<Rightarrow> string) \<Rightarrow> string \<Rightarrow> string list" where
  "drop_dirs env dataDir = [dataDir, path_dir (ctrlSock env), path_dir (mgmtSock env)]"

definition drop_to :: "int \<Rightarrow> int \<Rightarrow> unit call" where
  "drop_to uid gid =
     bindE (call ''capget'' Some) (\<lambda>_.
     bindE (getE (\<lambda>s. keep_mask dropCaps (ucast (pc_permitted s)))) (\<lambda>keep.
     bindE sys_keepcaps (\<lambda>_.
     bindE (sys_setgroups []) (\<lambda>_.
     bindE (sys_setgid gid) (\<lambda>_.
     bindE (sys_setuid uid) (\<lambda>_.
     bindE (sys_capset (ucast keep) (ucast keep) (ucast keep)) (\<lambda>_.
     bindE (raise_each dropCaps keep) (\<lambda>_. sys_exec))))))))"

definition dropRoot :: "(string \<Rightarrow> string) \<Rightarrow> (string \<Rightarrow> (string \<times> string) option) \<Rightarrow> string \<Rightarrow> bool call" where
  "dropRoot env lookup dataDir s =
     (let name = drop_account env in
      if pc_euid s \<noteq> 0 \<or> name = ''root'' then (Inr False, s)
      else (case lookup name of
          None \<Rightarrow> (Inl ''create that system account, or set OVCP_USER=root'', s)
        | Some (us, gs) \<Rightarrow>
           bindE (pureE (orE (atoi us) ''uid'')) (\<lambda>uid.
           bindE (pureE (orE (atoi gs) ''gid'')) (\<lambda>gid.
           bindE (make_owned (drop_dirs env dataDir) uid gid) (\<lambda>_.
           bindE (call ''executable'' Some) (\<lambda>_.
           bindE (drop_to uid gid) (\<lambda>_. pureE (Inr True)))))) s))"

end
