(* ===== verification/Drop_Root_Props.thy ===== *)
theory Drop_Root_Props
  imports Drop_Root
begin

section \<open>What the account gets\<close>

text \<open>The program goes on as root only where it is told to; as the account it holds the two capabilities root
  had at most, and a second run of \<^verbatim>\<open>dropRoot\<close> in it has nothing to do.\<close>

subsection \<open>Inversion of the calls\<close>

lemma call_InrE:
  assumes "call name f s = (Inr u, s')"
  obtains fs where "f (s\<lparr>pc_faults := fs\<rparr>) = Some s'"
proof -
  from assms have "\<exists>fs. f (s\<lparr>pc_faults := fs\<rparr>) = Some s'"
    by (auto simp: call_def bindE_def fault_def split: list.splits if_splits option.splits prod.splits sum.splits)
      (metis process.surjective process.update_convs(11))+
  then show ?thesis using that by blast
qed

lemma bindE_InrE:
  assumes "bindE m k s = (Inr b, s')"
  obtains a s1 where "m s = (Inr a, s1)" "k a s1 = (Inr b, s')"
  using assms by (auto simp: bindE_def split: prod.splits sum.splits)

lemma call_eq: "call name f s = (case pc_faults s of
     [] \<Rightarrow> (case f s of None \<Rightarrow> (Inl name, s) | Some s1 \<Rightarrow> (Inr (), s1))
   | b # bs \<Rightarrow> (if b then (Inl name, s\<lparr>pc_faults := bs\<rparr>)
       else (case f (s\<lparr>pc_faults := bs\<rparr>) of None \<Rightarrow> (Inl name, s\<lparr>pc_faults := bs\<rparr>) | Some s1 \<Rightarrow> (Inr (), s1))))"
  by (simp add: call_def bindE_def fault_def split: list.split)

lemma mkdirOwned_exists:
  assumes "pc_faults s = []" "pc_dirs s d = Some own"
  shows "mkdirOwned d uid gid s = (Inr (), s)"
  using assms by (simp add: mkdirOwned_def bindE_def call_eq)

subsection \<open>The mask\<close>

lemma bit_keep_mask:
  assumes "\<forall>cp\<in>set cps. cp < 32"
  shows "bit (keep_mask cps p) n \<longleftrightarrow> n \<in> set cps \<and> bit p n"
  using assms by (induction cps) (auto simp: bit_simps)

lemma keep_test: "cp < 32 \<Longrightarrow> (keep :: 32 word) AND push_bit cp 1 \<noteq> 0 \<longleftrightarrow> bit keep cp"
  by (simp add: bit_iff_and_push_bit_not_eq_0)

definition same_but_ambient :: "process \<Rightarrow> process \<Rightarrow> bool" where
  "same_but_ambient s s' \<longleftrightarrow> pc_euid s' = pc_euid s \<and> pc_gid s' = pc_gid s \<and> pc_groups s' = pc_groups s \<and>
     pc_permitted s' = pc_permitted s \<and> pc_effective s' = pc_effective s \<and> pc_inheritable s' = pc_inheritable s \<and> pc_dirs s' = pc_dirs s"

lemma raise_each_ambient:
  assumes "raise_each cps keep s = (Inr u, s')" "\<forall>cp\<in>set cps. cp < 32"
  shows "same_but_ambient s s' \<and> (\<forall>n. bit (pc_ambient s') n \<longleftrightarrow> bit (pc_ambient s) n \<or> n \<in> set cps \<and> bit keep n)"
  using assms
proof (induction cps arbitrary: s)
  case Nil
  then show ?case by (auto simp: pureE_def same_but_ambient_def)
next
  case (Cons cp cps)
  then obtain s1 where
    1: "(if keep AND push_bit cp 1 \<noteq> 0 then sys_ambient_raise cp else pureE (Inr ())) s = (Inr (), s1)"
    and 2: "raise_each cps keep s1 = (Inr u, s')"
    by (auto elim: bindE_InrE)
  have cp: "cp < 32" using Cons.prems by simp
  have h: "same_but_ambient s s1 \<and> (\<forall>n. bit (pc_ambient s1) n \<longleftrightarrow> bit (pc_ambient s) n \<or> n = cp \<and> bit keep n)"
  proof (cases "bit keep cp")
    case True
    then have "sys_ambient_raise cp s = (Inr (), s1)" using 1 keep_test [OF cp] by simp
    then obtain fs where "s1 = s\<lparr>pc_faults := fs, pc_ambient := pc_ambient s OR push_bit cp 1\<rparr>"
      unfolding sys_ambient_raise_def by (auto elim!: call_InrE split: if_splits)
    then show ?thesis using True cp by (auto simp: same_but_ambient_def bit_simps)
  next
    case False
    then show ?thesis using 1 keep_test [OF cp] by (auto simp: pureE_def same_but_ambient_def)
  qed
  have "same_but_ambient s1 s' \<and> (\<forall>n. bit (pc_ambient s') n \<longleftrightarrow> bit (pc_ambient s1) n \<or> n \<in> set cps \<and> bit keep n)"
    using Cons.IH [OF 2] Cons.prems by simp
  then show ?case using h unfolding same_but_ambient_def by auto
qed

subsection \<open>The account\<close>

definition confined :: "int \<Rightarrow> int \<Rightarrow> process \<Rightarrow> process \<Rightarrow> bool" where
  "confined uid gid s s' \<longleftrightarrow> pc_euid s' = uid \<and> pc_gid s' = gid \<and> pc_groups s' = [] \<and> pc_effective s' = pc_permitted s' \<and>
     (\<forall>n. bit (pc_permitted s') n \<longleftrightarrow> n \<in> set dropCaps \<and> bit (pc_permitted s) n)"

lemma bit_kept:
  "bit (ucast (keep_mask dropCaps (ucast (p :: 64 word) :: 32 word)) :: 64 word) n \<longleftrightarrow> n \<in> set dropCaps \<and> bit p n"
proof -
  have small: "\<forall>cp\<in>set dropCaps. cp < 32" by (simp add: dropCaps_def CAP_NET_ADMIN_def CAP_NET_BIND_SERVICE_def)
  show ?thesis using small by (auto simp: bit_ucast_iff bit_keep_mask)
qed

lemma drop_toE:
  assumes "drop_to uid gid s = (Inr u, s')"
  obtains k s1 s2 s3 s4 s5 s6 s7 where "k = keep_mask dropCaps (ucast (pc_permitted s1))"
    "call ''capget'' Some s = (Inr (), s1)" "sys_keepcaps s1 = (Inr (), s2)" "sys_setgroups [] s2 = (Inr (), s3)"
    "sys_setgid gid s3 = (Inr (), s4)" "sys_setuid uid s4 = (Inr (), s5)"
    "sys_capset (ucast k) (ucast k) (ucast k) s5 = (Inr (), s6)" "raise_each dropCaps k s6 = (Inr (), s7)" "sys_exec s7 = (Inr (), s')"
  using assms unfolding drop_to_def by (elim bindE_InrE) (simp add: getE_def)

lemma drop_to_confines:
  assumes "drop_to uid gid s = (Inr u, s')" "pc_euid s = 0" "uid \<noteq> 0"
  shows "confined uid gid s s' \<and> pc_dirs s' = pc_dirs s"
proof -
  have small: "\<forall>cp\<in>set dropCaps. cp < 32" by (simp add: dropCaps_def CAP_NET_ADMIN_def CAP_NET_BIND_SERVICE_def)
  let ?k = "keep_mask dropCaps (ucast (pc_permitted s) :: 32 word)"
  obtain k s1 s2 s3 s4 s5 s6 s7 where k': "k = keep_mask dropCaps (ucast (pc_permitted s1))" and
    c: "call ''capget'' Some s = (Inr (), s1)" and k: "sys_keepcaps s1 = (Inr (), s2)" and
    g: "sys_setgroups [] s2 = (Inr (), s3)" "sys_setgid gid s3 = (Inr (), s4)" and u: "sys_setuid uid s4 = (Inr (), s5)" and
    m: "sys_capset (ucast k) (ucast k) (ucast k) s5 = (Inr (), s6)" and r: "raise_each dropCaps k s6 = (Inr (), s7)" and
    e: "sys_exec s7 = (Inr (), s')"
    using drop_toE [OF assms(1)] .
  have 1: "\<exists>fs. s1 = s\<lparr>pc_faults := fs\<rparr>" using c by (auto elim!: call_InrE)
  then have kk: "k = ?k" using k' by auto
  have 5: "pc_euid s5 = uid \<and> pc_gid s5 = gid \<and> pc_groups s5 = [] \<and> pc_ambient s5 = 0 \<and> pc_dirs s5 = pc_dirs s"
    using 1 k g u assms(2,3) unfolding sys_keepcaps_def sys_setgroups_def sys_setgid_def sys_setuid_def
    by (auto elim!: call_InrE)
  obtain fs where 6: "s6 = s5\<lparr>pc_faults := fs, pc_effective := ucast ?k, pc_permitted := ucast ?k, pc_inheritable := ucast ?k,
      pc_ambient := pc_ambient s5 AND ucast ?k AND ucast ?k\<rparr>"
    using m unfolding kk sys_capset_def by (auto elim!: call_InrE split: if_splits)
  have 7: "same_but_ambient s6 s7" and a7: "bit (pc_ambient s7) n \<longleftrightarrow> bit (pc_ambient s6) n \<or> n \<in> set dropCaps \<and> bit ?k n" for n
    using raise_each_ambient [OF r small] unfolding kk by auto
  have a6: "pc_ambient s6 = 0" using 5 6 by simp
  have amb: "bit (pc_ambient s7) n \<longleftrightarrow> n \<in> set dropCaps \<and> bit (pc_permitted s) n" for n
    unfolding a7 a6 using small by (auto simp: bit_keep_mask bit_ucast_iff)
  have id7: "pc_euid s7 = uid \<and> pc_gid s7 = gid \<and> pc_groups s7 = [] \<and> pc_dirs s7 = pc_dirs s"
    using 5 6 7 unfolding same_but_ambient_def by auto
  obtain fs' where "s' = s7\<lparr>pc_faults := fs', pc_permitted := pc_ambient s7, pc_effective := pc_ambient s7, pc_keepcaps := False\<rparr>"
    using e id7 assms(3) unfolding sys_exec_def by (auto elim!: call_InrE)
  then show ?thesis using id7 amb unfolding confined_def by auto
qed

lemma drop_to_root:
  assumes "drop_to 0 gid s = (Inr u, s')" "pc_euid s = 0"
  shows "pc_euid s' = 0"
proof -
  have small: "\<forall>cp\<in>set dropCaps. cp < 32" by (simp add: dropCaps_def CAP_NET_ADMIN_def CAP_NET_BIND_SERVICE_def)
  obtain keep s1 s2 s3 s4 s5 s6 s7 where "keep = keep_mask dropCaps (ucast (pc_permitted s1))"
    "call ''capget'' Some s = (Inr (), s1)" "sys_keepcaps s1 = (Inr (), s2)" "sys_setgroups [] s2 = (Inr (), s3)"
    "sys_setgid gid s3 = (Inr (), s4)" "sys_setuid 0 s4 = (Inr (), s5)" "sys_capset (ucast keep) (ucast keep) (ucast keep) s5 = (Inr (), s6)"
    and r: "raise_each dropCaps keep s6 = (Inr (), s7)" and e: "sys_exec s7 = (Inr (), s')"
    using drop_toE [OF assms(1)] .
  then have "pc_euid s6 = 0" using assms(2) unfolding sys_keepcaps_def sys_setgroups_def sys_setgid_def sys_setuid_def sys_capset_def
    by (auto elim!: call_InrE split: if_splits)
  then have "pc_euid s7 = 0" using raise_each_ambient [OF r small] unfolding same_but_ambient_def by auto
  then show ?thesis using e unfolding sys_exec_def by (auto elim!: call_InrE)
qed

definition same_but_dirs :: "process \<Rightarrow> process \<Rightarrow> bool" where
  "same_but_dirs s s' \<longleftrightarrow> pc_euid s' = pc_euid s \<and> pc_permitted s' = pc_permitted s"

lemma mkdirOwned_frame:
  assumes "mkdirOwned d uid gid s = (Inr u, s')"
  shows "same_but_dirs s s'"
  using assms unfolding mkdirOwned_def by (auto elim!: bindE_InrE call_InrE split: if_splits simp: same_but_dirs_def)

lemma make_owned_frame:
  assumes "make_owned ds uid gid s = (Inr u, s')"
  shows "same_but_dirs s s'"
  using assms
proof (induction ds arbitrary: s)
  case Nil
  then show ?case by (simp add: pureE_def same_but_dirs_def)
next
  case (Cons d ds)
  then obtain s1 where "mkdirOwned d uid gid s = (Inr (), s1)" "make_owned ds uid gid s1 = (Inr u, s')"
    by (auto elim: bindE_InrE)
  then show ?case using Cons.IH mkdirOwned_frame by (force simp: same_but_dirs_def)
qed

text \<open>Root with an account to drop to: the two numbers of the account.\<close>

definition account :: "(string \<Rightarrow> (string \<times> string) option) \<Rightarrow> string \<Rightarrow> (int \<times> int) option" where
  "account lookup name = (case lookup name of None \<Rightarrow> None
     | Some (u, g) \<Rightarrow> (case (atoi u, atoi g) of (Some i, Some j) \<Rightarrow> Some (i, j) | _ \<Rightarrow> None))"

lemma dropRoot_cases:
  assumes "dropRoot env lookup dataDir s = (Inr again, s')" "pc_euid s = 0" "drop_account env \<noteq> ''root''"
  obtains uid gid s1 s2 where "again" "account lookup (drop_account env) = Some (uid, gid)"
    "make_owned (drop_dirs env dataDir) uid gid s = (Inr (), s1)" "call ''executable'' Some s1 = (Inr (), s2)"
    "drop_to uid gid s2 = (Inr (), s')"
proof -
  obtain us gs where l: "lookup (drop_account env) = Some (us, gs)"
    using assms unfolding dropRoot_def by (cases "lookup (drop_account env)") (auto simp: Let_def)
  let ?k = "\<lambda>uid gid. bindE (make_owned (drop_dirs env dataDir) uid gid) (\<lambda>_. bindE (call ''executable'' Some) (\<lambda>_.
    bindE (drop_to uid gid) (\<lambda>_. pureE (Inr True))))"
  have m: "bindE (pureE (orE (atoi us) ''uid'')) (\<lambda>uid. bindE (pureE (orE (atoi gs) ''gid'')) (?k uid)) s = (Inr again, s')"
    using assms l unfolding dropRoot_def by (simp add: Let_def)
  obtain uid gid where n: "atoi us = Some uid" "atoi gs = Some gid" and k: "?k uid gid s = (Inr again, s')"
    using m by (cases "atoi us"; cases "atoi gs") (simp_all add: bindE_def pureE_def orE_def)
  obtain s1 s2 s3 where "make_owned (drop_dirs env dataDir) uid gid s = (Inr (), s1)" "call ''executable'' Some s1 = (Inr (), s2)"
    "drop_to uid gid s2 = (Inr (), s3)" "(Inr True, s3) = (Inr again, s' :: process)"
    using k by (elim bindE_InrE) (simp add: pureE_def)
  then show ?thesis using that l n by (simp add: account_def)
qed

lemma dropRoot_confines:
  assumes "dropRoot env lookup dataDir s = (Inr again, s')" "pc_euid s = 0" "drop_account env \<noteq> ''root''"
    "account lookup (drop_account env) = Some (uid, gid)" "uid \<noteq> 0"
  shows "again \<and> confined uid gid s s'"
proof -
  obtain i j s1 s2 where r: "again" and a: "account lookup (drop_account env) = Some (i, j)"
    and m: "make_owned (drop_dirs env dataDir) i j s = (Inr (), s1)"
    and c: "call ''executable'' Some s1 = (Inr (), s2)" and d': "drop_to i j s2 = (Inr (), s')"
    using dropRoot_cases [OF assms(1-3)] .
  then have d: "drop_to uid gid s2 = (Inr (), s')" using assms(4) by simp
  have "pc_euid s2 = pc_euid s \<and> pc_permitted s2 = pc_permitted s"
    using make_owned_frame [OF m] c by (auto elim!: call_InrE simp: same_but_dirs_def)
  then have "confined uid gid s2 s'" using drop_to_confines [OF d] assms(2,5) by simp
  then show ?thesis using r \<open>pc_euid s2 = pc_euid s \<and> pc_permitted s2 = pc_permitted s\<close> by (simp add: confined_def)
qed

lemma make_owned_nothing_to_do:
  assumes "pc_faults s = []" "\<forall>d. pc_dirs s d \<noteq> None"
  shows "make_owned ds uid gid s = (Inr (), s)"
proof (induction ds)
  case (Cons d ds)
  obtain own where "pc_dirs s d = Some own" using assms(2) by blast
  then show ?case using Cons.IH mkdirOwned_exists [OF assms(1)] by (simp add: bindE_def)
qed (simp add: pureE_def)

definition root_in_container :: process where
  "root_in_container = \<lparr>pc_euid = 0, pc_gid = 0, pc_groups = [0], pc_keepcaps = False, pc_permitted = 0x3400, pc_effective = 0x3400,
     pc_inheritable = 0, pc_ambient = 0, pc_bounding = 0x3400, pc_dirs = (\<lambda>d. Some (997, 995)), pc_faults = []\<rparr>"

definition ovcp_account :: "string \<Rightarrow> (string \<times> string) option" where
  "ovcp_account name = (if name = ''ovcp'' then Some (''997'', ''995'') else None)"

definition after_exec :: process where
  "after_exec = \<lparr>pc_euid = 997, pc_gid = 995, pc_groups = [], pc_keepcaps = False, pc_permitted = 0x1400, pc_effective = 0x1400,
     pc_inheritable = 0x1400, pc_ambient = 0x1400, pc_bounding = 0x3400, pc_dirs = (\<lambda>d. Some (997, 995)), pc_faults = []\<rparr>"

lemma container_mask: "keep_mask dropCaps (0x3400 :: 32 word) = 0x1400"
  by (simp add: dropCaps_def CAP_NET_ADMIN_def CAP_NET_BIND_SERVICE_def)

lemma container_raises:
  "pc_faults s = [] \<Longrightarrow> pc_permitted s = 0x1400 \<Longrightarrow> pc_inheritable s = 0x1400 \<Longrightarrow> pc_ambient s = 0 \<Longrightarrow>
   raise_each dropCaps (0x1400 :: 32 word) s = (Inr (), s\<lparr>pc_ambient := 0x1400\<rparr>)"
  by (simp add: dropCaps_def CAP_NET_ADMIN_def CAP_NET_BIND_SERVICE_def bindE_def sys_ambient_raise_def call_eq pureE_def)

lemma container_drops: "drop_to 997 995 root_in_container = (Inr (), after_exec)"
  by (simp add: drop_to_def bindE_def call_eq getE_def root_in_container_def container_mask sys_keepcaps_def sys_setgroups_def
      sys_setgid_def sys_setuid_def sys_capset_def sub_caps_def container_raises sys_exec_def after_exec_def)

lemma container_runs: "dropRoot (\<lambda>_. []) ovcp_account ''/data'' root_in_container = (Inr True, after_exec)"
proof -
  have acc: "ovcp_account ''ovcp'' = Some (''997'', ''995'')" "atoi ''997'' = Some 997" "atoi ''995'' = Some 995"
    by (simp add: ovcp_account_def) code_simp+
  have made: "make_owned ds 997 995 root_in_container = (Inr (), root_in_container)" for ds
    by (rule make_owned_nothing_to_do) (simp_all add: root_in_container_def)
  have exe: "call ''executable'' Some root_in_container = (Inr (), root_in_container)"
    by (simp add: call_eq root_in_container_def)
  have euid: "pc_euid root_in_container = 0" by (simp add: root_in_container_def)
  show ?thesis using acc made exe container_drops euid
    by (simp add: dropRoot_def drop_account_def or_env_def bindE_def pureE_def orE_def)
qed

text \<open>C37: A command goes on as root only with \<^verbatim>\<open>OVCP_USER=root\<close>. Otherwise an invocation by root that gets through
  \<^verbatim>\<open>dropRoot\<close>, whichever calls could have failed, is the program run again as the account, without
  supplementary groups, with exactly those of \<^verbatim>\<open>CAP_NET_ADMIN\<close> and \<^verbatim>\<open>CAP_NET_BIND_SERVICE\<close> root itself held and no
  other capability; there \<^verbatim>\<open>dropRoot\<close> does nothing more and the command runs.\<close>

theorem dropRoot_keeps_two_capabilities:
  assumes "dropRoot env lookup dataDir s = (Inr again, s')" "pc_euid s = 0" "drop_account env \<noteq> ''root''"
    "account lookup (drop_account env) = Some (uid, gid)" "uid \<noteq> 0"
  shows "again \<and> pc_euid s' = uid \<and> pc_gid s' = gid \<and> pc_groups s' = [] \<and> pc_effective s' = pc_permitted s' \<and>
    (\<forall>n. bit (pc_permitted s') n \<longleftrightarrow> (n = 12 \<or> n = 10) \<and> bit (pc_permitted s) n) \<and>
    dropRoot env lookup dataDir s' = (Inr False, s')"
proof -
  have "confined uid gid s s'" "again" using dropRoot_confines [OF assms] by auto
  then show ?thesis using assms(5) unfolding confined_def dropRoot_def
    by (auto simp: dropCaps_def CAP_NET_ADMIN_def CAP_NET_BIND_SERVICE_def)
qed

theorem dropRoot_keeps_two_capabilities_witness:
  "pc_euid after_exec = 997 \<and> pc_groups after_exec = [] \<and> (\<forall>n. bit (pc_permitted after_exec) n \<longleftrightarrow> (n = 12 \<or> n = 10) \<and> bit (0x3400 :: 64 word) n)"
proof -
  have a: "drop_account (\<lambda>_. []) = ''ovcp''" by (simp add: drop_account_def or_env_def)
  have b: "account ovcp_account ''ovcp'' = Some (997, 995)"
    by (simp add: account_def ovcp_account_def) code_simp
  show ?thesis
    using dropRoot_keeps_two_capabilities [OF container_runs, of 997 995] a b by (simp add: root_in_container_def)
qed

text \<open>An account whose uid is 0 under another name: the program runs itself again without an end.\<close>

lemma second_root_account_never_runs:
  assumes "dropRoot env lookup dataDir s = (Inr again, s')" "pc_euid s = 0" "drop_account env \<noteq> ''root''"
    "account lookup (drop_account env) = Some (0, gid)"
  shows "again \<and> pc_euid s' = 0"
proof -
  obtain i j s1 s2 where r: "again" and a: "account lookup (drop_account env) = Some (i, j)"
    and m: "make_owned (drop_dirs env dataDir) i j s = (Inr (), s1)"
    and c: "call ''executable'' Some s1 = (Inr (), s2)" and d': "drop_to i j s2 = (Inr (), s')"
    using dropRoot_cases [OF assms(1-3)] .
  then have d: "drop_to 0 gid s2 = (Inr (), s')" using assms(4) by simp
  have "pc_euid s1 = 0" using make_owned_frame [OF m] assms(2) by (simp add: same_but_dirs_def)
  then have "pc_euid s2 = 0" using c by (auto elim!: call_InrE)
  then show ?thesis using drop_to_root [OF d] r by simp
qed


text \<open>An interrupted start: the directory made for the account and not given to it stays root's, as later
  runs find it in place.\<close>

lemma mkdirOwned_cut_short:
  assumes "pc_faults s = [False, False, False, False, True]" "pc_dirs s d = None"
  shows "snd (mkdirOwned d uid gid s) = s\<lparr>pc_dirs := (pc_dirs s)(d \<mapsto> (pc_euid s, pc_gid s)), pc_faults := []\<rparr>"
  using assms by (simp add: mkdirOwned_def bindE_def call_eq)

lemma unfinished_directory_stays_with_root:
  assumes "pc_faults s = [False, False, False, False, True]" "pc_dirs s d = None" "pc_euid s = 0" "pc_gid s = 0"
  shows "pc_dirs (snd (mkdirOwned d uid gid (snd (mkdirOwned d uid gid s)))) d = Some (0, 0)"
  using assms by (simp add: mkdirOwned_cut_short mkdirOwned_exists)

end
