(* ===== verification/Go_Flags.thy ===== *)
theory Go_Flags
  imports Go_Strings
begin

section \<open>Command line flags\<close>

text \<open>
  What the command line uses of Go's \<^verbatim>\<open>flag\<close> package: a set of named flags with their defaults, and the parse of
  a list of words, which stops at the first word that is no flag. The numbers are those of \<^verbatim>\<open>strconv.ParseInt\<close> with
  base 0.
\<close>

datatype flag_value = VString string | VInt int | VBool bool | VLines "string list"

type_synonym flag_set = "(string \<times> flag_value) list"
type_synonym flag_values = "(string \<times> flag_value) list"

datatype flag_error = FlagHelp | BadSyntax string | NotDefined string | NeedsValue string | BadValue string string

subsection \<open>Numbers\<close>

definition base_prefix :: "string \<Rightarrow> nat \<times> string" where
  "base_prefix s = (case s of
     CHR ''0'' # c # d # r \<Rightarrow> (let k = lower_c c in
        if k = CHR ''b'' then (2, d # r) else if k = CHR ''o'' then (8, d # r) else if k = CHR ''x'' then (16, d # r) else (8, c # d # r))
   | CHR ''0'' # r \<Rightarrow> (8, r)
   | _ \<Rightarrow> (10, s))"

definition digit36 :: "char \<Rightarrow> nat option" where
  "digit36 c = (let k = lower_c c in
     if is_digit_c c then Some (digit_val c) else if is_lower_c k then Some (byte_of k - 97 + 10) else None)"

fun digits_base :: "nat \<Rightarrow> nat \<Rightarrow> string \<Rightarrow> nat option" where
  "digits_base b n [] = Some n"
| "digits_base b n (c # cs) = (if c = CHR ''_'' then digits_base b n cs
     else (case digit36 c of None \<Rightarrow> None | Some d \<Rightarrow> if d \<ge> b then None else digits_base b (n * b + d) cs))"

text \<open>Underscores separate digits; one may follow the prefix. The state is the kind of the last character: \<^verbatim>\<open>^\<close> at the start,
  \<^verbatim>\<open>0\<close> for a digit, \<^verbatim>\<open>_\<close> and \<^verbatim>\<open>!\<close> for anything else.\<close>

fun underscores :: "bool \<Rightarrow> char \<Rightarrow> string \<Rightarrow> bool" where
  "underscores hex i [] = (i \<noteq> CHR ''_'')"
| "underscores hex i (c # cs) =
     (if is_digit_c c \<or> (hex \<and> byte_of CHR ''a'' \<le> byte_of (lower_c c) \<and> byte_of (lower_c c) \<le> byte_of CHR ''f'') then underscores hex CHR ''0'' cs
      else if c = CHR ''_'' then i = CHR ''0'' \<and> underscores hex CHR ''_'' cs
      else i \<noteq> CHR ''_'' \<and> underscores hex CHR ''!'' cs)"

definition underscoreOK :: "string \<Rightarrow> bool" where
  "underscoreOK s = (case s of
     CHR ''0'' # c # r \<Rightarrow> (if lower_c c \<in> {CHR ''b'', CHR ''o'', CHR ''x''} then underscores (lower_c c = CHR ''x'') CHR ''0'' r
        else underscores False CHR ''^'' s)
   | _ \<Rightarrow> underscores False CHR ''^'' s)"

definition unsigned0 :: "string \<Rightarrow> nat option" where
  "unsigned0 s = (if s = [] then None
     else (case base_prefix s of (b, ds) \<Rightarrow> (case digits_base b 0 ds of None \<Rightarrow> None
       | Some n \<Rightarrow> if CHR ''_'' \<in> set s \<and> \<not> underscoreOK s then None else Some n)))"

definition parse_int0 :: "string \<Rightarrow> int option" where
  "parse_int0 s = (case (case s of
        CHR ''-'' # r \<Rightarrow> map_option (\<lambda>n. - int n) (unsigned0 r)
      | CHR ''+'' # r \<Rightarrow> map_option int (unsigned0 r)
      | _ \<Rightarrow> map_option int (unsigned0 s)) of
     None \<Rightarrow> None | Some i \<Rightarrow> if in_int64 i then Some i else None)"

definition parse_bool :: "string \<Rightarrow> bool option" where
  "parse_bool s = (if s \<in> set [''1'', ''t'', ''T'', ''true'', ''TRUE'', ''True''] then Some True
     else if s \<in> set [''0'', ''f'', ''F'', ''false'', ''FALSE'', ''False''] then Some False else None)"

subsection \<open>Parsing\<close>

text \<open>\<open>set_flag old text\<close>: the new value, of the type of the old; a repeatable flag adds a line.\<close>

definition set_flag :: "flag_value \<Rightarrow> string \<Rightarrow> flag_value option" where
  "set_flag old t = (case old of
     VString _ \<Rightarrow> Some (VString t)
   | VInt _ \<Rightarrow> map_option VInt (parse_int0 t)
   | VBool _ \<Rightarrow> map_option VBool (parse_bool t)
   | VLines ls \<Rightarrow> Some (VLines (ls @ [t])))"

definition put_flag :: "string \<Rightarrow> string \<Rightarrow> flag_values \<Rightarrow> (flag_error, flag_values) result" where
  "put_flag name t vs = (case map_of vs name of None \<Rightarrow> Inl (NotDefined name)
     | Some old \<Rightarrow> (case set_flag old t of None \<Rightarrow> Inl (BadValue name t)
         | Some v \<Rightarrow> Inr (map (\<lambda>(n, w). if n = name then (n, v) else (n, w)) vs)))"

definition is_bool_flag :: "flag_value \<Rightarrow> bool" where
  "is_bool_flag v = (case v of VBool _ \<Rightarrow> True | _ \<Rightarrow> False)"

definition flag_word :: "string \<Rightarrow> bool" where
  "flag_word a = (length a \<ge> 2 \<and> a ! 0 = CHR ''-'')"

definition flag_body :: "string \<Rightarrow> string" where
  "flag_body a = (if a ! 1 = CHR ''-'' then drop 2 a else drop 1 a)"

text \<open>One flag, \<open>t\<close> without its dashes: the new values and the words left.\<close>

definition flag_pair :: "string \<Rightarrow> string \<times> string option" where
  "flag_pair t = (case cut_c CHR ''='' t of None \<Rightarrow> (t, None) | Some (n, v) \<Rightarrow> (n, Some v))"

definition flag_arg :: "string \<Rightarrow> string option \<Rightarrow> flag_value \<Rightarrow> string list \<Rightarrow> (flag_error, string \<times> string list) result" where
  "flag_arg name val old as = (case val of Some v \<Rightarrow> Inr (v, as)
     | None \<Rightarrow> if is_bool_flag old then Inr (''true'', as)
         else (case as of [] \<Rightarrow> Inl (NeedsValue name) | v # bs \<Rightarrow> Inr (v, bs)))"

definition parse_one :: "flag_values \<Rightarrow> string \<Rightarrow> string list \<Rightarrow> (flag_error, flag_values \<times> string list) result" where
  "parse_one vs a as = (let t = flag_body a in
     if t = [] \<or> t ! 0 = CHR ''-'' \<or> t ! 0 = CHR ''='' then Inl (BadSyntax a)
     else (case flag_pair t of (name, val) \<Rightarrow>
       (case map_of vs name of
          None \<Rightarrow> Inl (if name = ''help'' \<or> name = ''h'' then FlagHelp else NotDefined name)
        | Some old \<Rightarrow> (case flag_arg name val old as of Inl e \<Rightarrow> Inl e
            | Inr (v, bs) \<Rightarrow> (case put_flag name v vs of Inl e \<Rightarrow> Inl e | Inr ws \<Rightarrow> Inr (ws, bs))))))"

lemma flag_arg_rest: "flag_arg name val old as = Inr (v, bs) \<Longrightarrow> length bs \<le> length as"
  by (auto simp: flag_arg_def split: option.splits if_splits list.splits)

lemma put_flag_names: "put_flag n t vs = Inr ws \<Longrightarrow> map fst ws = map fst vs"
  by (auto simp: put_flag_def split: option.splits if_splits)

lemma parse_one_Inr:
  assumes "parse_one vs a as = Inr (ws, bs)"
  shows "length bs \<le> length as" "map fst ws = map fst vs"
  using assms flag_arg_rest put_flag_names
  by (auto simp: parse_one_def Let_def split: if_splits prod.splits option.splits sum.splits)

function parse_flags :: "flag_values \<Rightarrow> string list \<Rightarrow> (flag_error, flag_values \<times> string list) result" where
  "parse_flags vs [] = Inr (vs, [])"
| "parse_flags vs (a # as) =
    (if \<not> flag_word a then Inr (vs, a # as)
     else if a = ''--'' then Inr (vs, as)
     else (case parse_one vs a as of Inl e \<Rightarrow> Inl e | Inr (ws, bs) \<Rightarrow> parse_flags ws bs))"
  by pat_completeness auto
termination
  by (relation "measure (length \<circ> snd)") (auto dest: parse_one_Inr(1))

text \<open>The values by name; a name outside the set has none.\<close>

definition str_of :: "flag_values \<Rightarrow> string \<Rightarrow> string" where
  "str_of vs n = (case map_of vs n of Some (VString s) \<Rightarrow> s | _ \<Rightarrow> [])"

definition int_of_flag :: "flag_values \<Rightarrow> string \<Rightarrow> int" where
  "int_of_flag vs n = (case map_of vs n of Some (VInt i) \<Rightarrow> i | _ \<Rightarrow> 0)"

definition bool_of :: "flag_values \<Rightarrow> string \<Rightarrow> bool" where
  "bool_of vs n = (case map_of vs n of Some (VBool b) \<Rightarrow> b | _ \<Rightarrow> False)"

definition lines_of :: "flag_values \<Rightarrow> string \<Rightarrow> string list" where
  "lines_of vs n = (case map_of vs n of Some (VLines ls) \<Rightarrow> ls | _ \<Rightarrow> [])"

text \<open>A parse changes values only: the flags stay those of the set.\<close>

lemma parse_flags_names: "parse_flags vs as = Inr (ws, bs) \<Longrightarrow> map fst ws = map fst vs"
proof (induction vs as rule: parse_flags.induct)
  case (2 vs a as)
  then show ?case using parse_one_Inr(2) by (fastforce split: if_splits sum.splits)
qed simp

end
