(* ===== verification/Cli_Dispatch.thy ===== *)
theory Cli_Dispatch
  imports Go_Flags Cli_Certs Cli_Admin Cli_Stats Serve
begin

section \<open>The command line: from the words to a command\<close>

text \<open>
  The table of \<^verbatim>\<open>src/cmd/ovcp/commands.go\<close>, the dispatch of \<^verbatim>\<open>main\<close> through it and \<^verbatim>\<open>completion.go\<close>. A command line
  is first resolved to a \<open>plan\<close>: the command to run with the values of its flags, or the way the program ends
  without one. The flags of an operation and their defaults stand beside its body, as the closures of the code
  have them.
\<close>

subsection \<open>What the commands read outside\<close>

text \<open>\<open>xo_error\<close> is the text of an error and \<open>xo_error_json\<close> its JSON; \<open>xo_abs\<close> is \<^verbatim>\<open>filepath.Abs\<close>; \<open>xo_frames\<close> are the
  moments and answers the live view polls before it is interrupted; \<open>xo_daemon\<close> are the sockets and workers of serve.\<close>

record 'w outside =
  xo_archive :: archive_lib
  xo_snap :: "store \<Rightarrow> string"
  xo_unsnap :: "string \<Rightarrow> store"
  xo_tmp :: string
  xo_stdin :: string
  xo_stdin_tty :: bool
  xo_stdout_tty :: bool
  xo_qr :: "string \<Rightarrow> (nat \<times> (nat \<Rightarrow> nat \<Rightarrow> bool)) option"
  xo_totp_raw :: "string option"
  xo_totp_nonce :: string
  xo_token_ok :: "string \<Rightarrow> bool"
  xo_post :: "bot_call list \<Rightarrow> 'w terminal \<Rightarrow> 'w terminal"
  xo_version :: version_out
  xo_hms :: "int \<Rightarrow> string"
  xo_frames :: "(int \<times> (string, vpn_client list) result) list"
  xo_daemon :: "('w terminal) daemon"
  xo_error :: "api_error \<Rightarrow> string"
  xo_error_json :: "string \<Rightarrow> string"
  xo_abs :: "string \<Rightarrow> string"

text \<open>\<open>Refused\<close> ends with the usage text as an error, \<open>BadFlags\<close> in the flag parser, \<open>Unknown\<close> with the list of commands,
  \<open>Crash\<close> with a run-time panic.\<close>

datatype 'w plan =
    Run "('w, unit) command"
  | Refused string
  | BadFlags flag_error
  | Unknown
  | Crash

type_synonym 'w body = "'w outside \<Rightarrow> 'w cli \<Rightarrow> flag_values \<Rightarrow> string list \<Rightarrow> ('w, unit) command"
type_synonym 'w opBody = "((string \<Rightarrow> string) \<Rightarrow> flag_set) \<times> 'w body"
type_synonym 'w bodies = "(string \<times> 'w opBody) list"

subsection \<open>Shared flags\<close>

definition no_flags :: "(string \<Rightarrow> string) \<Rightarrow> flag_set" where
  "no_flags env = []"

definition ctrlFlag :: "(string \<Rightarrow> string) \<Rightarrow> string \<times> flag_value" where
  "ctrlFlag env = (''ctrl'', VString (ctrlSock env))"

definition mgmtFlag :: "(string \<Rightarrow> string) \<Rightarrow> string \<times> flag_value" where
  "mgmtFlag env = (''mgmt'', VString (mgmtSock env))"

definition linesFlag :: "string \<Rightarrow> string \<times> flag_value" where
  "linesFlag name = (name, VLines [])"

definition str_flag :: "string \<Rightarrow> string \<times> flag_value" where
  "str_flag name = (name, VString [])"

definition list_flags :: "(string \<Rightarrow> string) \<Rightarrow> flag_set" where
  "list_flags env = [(''status'', VString ''all''), (''kind'', VString ''all''), str_flag ''sort'', (''desc'', VBool False)]"

definition only_ctrl :: "(string \<Rightarrow> string) \<Rightarrow> flag_set" where
  "only_ctrl env = [ctrlFlag env]"

subsection \<open>certificate, ca, backup\<close>

definition issue_flags :: "(string \<Rightarrow> string) \<Rightarrow> flag_set" where
  "issue_flags env = [str_flag ''cn'', (''renew'', VBool False), (''days'', VInt 365), str_flag ''key-pass'', (''export'', VBool False),
     str_flag ''remote'', (''port'', VInt 0), str_flag ''proto'', str_flag ''server-cn'', (''split-tunnel'', VBool False), linesFlag ''custom-opts'']"

definition issue_body :: "'w body" where
  "issue_body X C v args = cmdIssue C \<lparr>ia_CN = str_of v ''cn'', ia_Renew = bool_of v ''renew'', ia_Days = int_of_flag v ''days'',
     ia_KeyPass = str_of v ''key-pass'', ia_Export = bool_of v ''export'', ia_Remote = str_of v ''remote'', ia_Port = int_of_flag v ''port'',
     ia_Proto = str_of v ''proto'', ia_ServerCN = str_of v ''server-cn'', ia_SplitTunnel = bool_of v ''split-tunnel'',
     ia_CustomOpts = lines_of v ''custom-opts''\<rparr>"

definition certOps :: "string list" where
  "certOps = [''issue'', ''list'', ''revoke'', ''renew'']"

definition certOpDesc :: "(string \<times> string) list" where
  "certOpDesc = [(''issue'', ''issue or renew a client cert (-export for a .ovpn)''), (''list'', ''list certs, filter/sort''),
     (''revoke'', ''revoke a client cert, regen CRL''), (''renew'', ''renew or rename the server cert'')]"

definition certBodies :: "'w bodies" where
  "certBodies = [
     (''issue'', issue_flags, issue_body),
     (''list'', list_flags, \<lambda>X C v args. cmdList C (str_of v ''status'') (str_of v ''kind'') (str_of v ''sort'') (bool_of v ''desc'')),
     (''revoke'', \<lambda>env. [str_flag ''serial''], \<lambda>X C v args. cmdRevoke C (str_of v ''serial'')),
     (''renew'', \<lambda>env. [str_flag ''cn'', (''days'', VInt 825)], \<lambda>X C v args. cmdRenew C (str_of v ''cn'') (int_of_flag v ''days''))]"

definition caOps :: "string list" where
  "caOps = [''rotate'', ''renew'', ''status'']"

definition caOpDesc :: "(string \<times> string) list" where
  "caOpDesc = [(''status'', ''CN, expiry, status '' @ dash @ '' read-only''), (''rotate'', ''re-encrypt the CA key under a new passphrase''),
     (''renew'', ''reissue the CA cert, same key, extended validity'')]"

definition caBodies :: "'w bodies" where
  "caBodies = [
     (''rotate'', no_flags, \<lambda>X C v args. cmdRotateCA C),
     (''renew'', \<lambda>env. [(''years'', VInt 10)], \<lambda>X C v args. cmdRenewCA C (int_of_flag v ''years'')),
     (''status'', no_flags, \<lambda>X C v args. cmdCAStatus C)]"

definition backupOps :: "string list" where
  "backupOps = [''create'', ''restore'']"

definition backupOpDesc :: "(string \<times> string) list" where
  "backupOpDesc = [(''create'', ''encrypted archive of CA, config, database, to stdout''), (''restore'', ''extract the archive on stdin into -data'')]"

definition backupBodies :: "'w bodies" where
  "backupBodies = [
     (''create'', no_flags, \<lambda>X C v args. cmdBackupCreate C (xo_archive X) (xo_snap X) (xo_tmp X) (xo_stdout_tty X)),
     (''restore'', \<lambda>env. [(''force'', VBool False)], \<lambda>X C v args.
        cmdBackupRestore C (xo_archive X) (xo_unsnap X) (xo_stdin X) (args \<noteq> []) (xo_stdin_tty X) (bool_of v ''force''))]"

subsection \<open>vpn, dns, debug, telegram\<close>

definition vpnOps :: "string list" where
  "vpnOps = [''start'', ''stop'', ''restart'', ''reconnect'', ''status'', ''kill'', ''config'']"

definition vpnOpDesc :: "(string \<times> string) list" where
  "vpnOpDesc = [(''start'', ''bring the tunnel up''), (''stop'', ''bring it down''), (''restart'', ''full stop + fresh start''),
     (''reconnect'', ''SIGUSR1, no restart''), (''status'', ''pid, uptime''), (''kill'', ''disconnect one client (-cn NAME)''),
     (''config'', ''get|set|preview server settings'')]"

text \<open>\<^verbatim>\<open>runProcOp\<close> with the body of the operation; only \<^verbatim>\<open>vpn start\<close> warns afterwards.\<close>

definition proc_body :: "string \<Rightarrow> string \<Rightarrow> string \<Rightarrow> 'w opBody" where
  "proc_body name oper wirePrefix = (only_ctrl, \<lambda>X C v args.
     if name = ''vpn'' then vpn_op C (str_of v ''ctrl'') oper else procOpBody name oper wirePrefix C (str_of v ''ctrl''))"

definition vpnBodies :: "'w bodies" where
  "vpnBodies = map (\<lambda>oper. (oper, proc_body ''vpn'' oper [])) [''start'', ''stop'', ''restart'', ''reconnect'', ''status'']
     @ [(''kill'', \<lambda>env. [ctrlFlag env, str_flag ''cn''], \<lambda>X C v args. cmdKill C (str_of v ''ctrl'') (str_of v ''cn''))]"

definition config_flags :: "(string \<Rightarrow> string) \<Rightarrow> flag_set" where
  "config_flags env = [str_flag ''proto'', (''port'', VInt 0), str_flag ''subnet'', str_flag ''cipher'', str_flag ''dns'',
     str_flag ''push-internal-dns'', str_flag ''routes'', str_flag ''redirect-gw'', linesFlag ''extra'']"

definition config_values :: "flag_values \<Rightarrow> config_args" where
  "config_values v = \<lparr>ga_Proto = str_of v ''proto'', ga_Port = int_of_flag v ''port'', ga_Subnet = str_of v ''subnet'',
     ga_Cipher = str_of v ''cipher'', ga_DNS = str_of v ''dns'', ga_PushInternalDNS = str_of v ''push-internal-dns'',
     ga_Routes = str_of v ''routes'', ga_RedirectGW = str_of v ''redirect-gw'', ga_Extra = lines_of v ''extra''\<rparr>"

definition vpnConfigOps :: "string list" where
  "vpnConfigOps = [''get'', ''set'', ''preview'']"

definition configOpDesc :: "(string \<times> string) list" where
  "configOpDesc = [(''get'', ''print the persisted config''), (''set'', ''change and persist settings''), (''preview'', ''show a set's diff, unsaved'')]"

definition vpnConfigBodies :: "'w bodies" where
  "vpnConfigBodies = [
     (''get'', no_flags, \<lambda>X C v args. cmdVPNConfigGet C),
     (''set'', config_flags, \<lambda>X C v args. cmdVPNConfigSet C (config_values v)),
     (''preview'', config_flags, \<lambda>X C v args. cmdVPNConfigPreview C (config_values v))]"

definition dnsOps :: "string list" where
  "dnsOps = [''start'', ''stop'', ''restart'', ''status'', ''config'']"

definition dnsOpDesc :: "(string \<times> string) list" where
  "dnsOpDesc = [(''start'', ''bring dnsmasq up''), (''stop'', ''bring it down''), (''restart'', ''full stop + fresh start''),
     (''status'', ''pid, uptime''), (''config'', ''get|set dnsmasq settings'')]"

definition dnsBodies :: "'w bodies" where
  "dnsBodies = map (\<lambda>oper. (oper, proc_body ''dns'' oper ''dns-'')) [''start'', ''stop'', ''restart'', ''status'']"

definition dnsConfigOps :: "string list" where
  "dnsConfigOps = [''get'', ''set'']"

definition dnsConfigBodies :: "'w bodies" where
  "dnsConfigBodies = [
     (''get'', no_flags, \<lambda>X C v args. cmdDNSConfigGet C),
     (''set'', \<lambda>env. [str_flag ''block-internet''], \<lambda>X C v args. cmdDNSConfigSet C (str_of v ''block-internet''))]"

definition debugOps :: "string list" where
  "debugOps = [''on'', ''off'']"

definition debugOpDesc :: "(string \<times> string) list" where
  "debugOpDesc = [(''on'', ''verbose logging, no restart''), (''off'', ''back to normal logging'')]"

definition debugBodies :: "'w bodies" where
  "debugBodies = map (\<lambda>oper. (oper, only_ctrl, \<lambda>X C v args. cmdDebugOp oper C (str_of v ''ctrl''))) [''on'', ''off'']"

definition telegramOps :: "string list" where
  "telegramOps = [''config'', ''start'', ''stop'', ''restart'', ''status'']"

definition telegramOpDesc :: "(string \<times> string) list" where
  "telegramOpDesc = [(''config'', ''get|set token/admin''), (''start'', ''start the poller''), (''stop'', ''stop the poller''),
     (''restart'', ''restart the poller''), (''status'', ''token/admin/chat-linked state'')]"

definition telegramBodies :: "'w bodies" where
  "telegramBodies = map (\<lambda>oper. (oper, only_ctrl, \<lambda>X C v args. telegramLifecycleBody oper C (str_of v ''ctrl'')))
     [''start'', ''stop'', ''restart'', ''status'']"

definition telegramConfigOps :: "string list" where
  "telegramConfigOps = [''get'', ''set'']"

text \<open>A panic of the goodbye message ends the program.\<close>

definition or_panic :: "('s \<Rightarrow> ((api_error, unit) result \<times> 's) option) \<Rightarrow> ('s, api_error, unit) step" where
  "or_panic m s = (case m s of None \<Rightarrow> (Inl (Text ''panic''), s) | Some r \<Rightarrow> r)"

definition telegramConfigBodies :: "'w bodies" where
  "telegramConfigBodies = [
     (''get'', no_flags, \<lambda>X C v args. cmdTelegramConfigGet C),
     (''set'', \<lambda>env. [(''token'', VBool False), (''admin'', VString (env ''OVCP_TELEGRAM_ADMIN''))],
        \<lambda>X C v args. or_panic (cmdTelegramConfigSet C (xo_token_ok X) (xo_post X) (bool_of v ''token'') (str_of v ''admin'')))]"

end
