(* ===== verification/Cli_Main.thy ===== *)
theory Cli_Main
  imports Cli_Dispatch
begin

section \<open>The command line: the table of commands and main\<close>

text \<open>
  The rest of the table of \<^verbatim>\<open>src/cmd/ovcp/commands.go\<close>, \<^verbatim>\<open>main\<close> of \<^verbatim>\<open>main.go\<close> with the usage texts, and \<^verbatim>\<open>completion.go\<close>.
\<close>

subsection \<open>record, user, upstream, logs, stats\<close>

definition cn_flag :: "(string \<Rightarrow> string) \<Rightarrow> flag_set" where
  "cn_flag env = [str_flag ''cn'']"

definition name_flag :: "(string \<Rightarrow> string) \<Rightarrow> flag_set" where
  "name_flag env = [str_flag ''name'']"

definition recordOps :: "string list" where
  "recordOps = [''list'', ''edit'', ''include'', ''exclude'']"

definition recordOpDesc :: "(string \<times> string) list" where
  "recordOpDesc = [(''list'', ''list internal DNS records''), (''edit'', ''$EDITOR for custom.hosts''),
     (''include'', ''resolve this CN while connected '' @ dash @ '' client certs only (-cn NAME)''),
     (''exclude'', ''stop resolving this CN '' @ dash @ '' client certs only (-cn NAME)'')]"

definition recordBodies :: "'w bodies" where
  "recordBodies = [
     (''list'', list_flags, \<lambda>X C v args. cmdRecordList C (str_of v ''status'') (str_of v ''kind'') (str_of v ''sort'') (bool_of v ''desc'')),
     (''edit'', no_flags, \<lambda>X C v args. cmdRecordEdit C),
     (''include'', cn_flag, \<lambda>X C v args. cmdRecordIncludeExclude ''include'' C (str_of v ''cn'')),
     (''exclude'', cn_flag, \<lambda>X C v args. cmdRecordIncludeExclude ''exclude'' C (str_of v ''cn''))]"

definition userOps :: "string list" where
  "userOps = [''add'', ''list'', ''del'', ''disable'', ''enable'', ''passwd'', ''totp'']"

definition userOpDesc :: "(string \<times> string) list" where
  "userOpDesc = [(''add'', ''create an account''), (''list'', ''list accounts''), (''del'', ''delete an account''),
     (''disable'', ''lock an account out''), (''enable'', ''unlock an account''), (''passwd'', ''change a password''), (''totp'', ''enable/disable 2FA'')]"

definition user_list_flags :: "(string \<Rightarrow> string) \<Rightarrow> flag_set" where
  "user_list_flags env = [(''status'', VString ''all''), (''role'', VString ''all''), str_flag ''sort'', (''desc'', VBool False)]"

definition userBodies :: "'w bodies" where
  "userBodies = [
     (''add'', \<lambda>env. [str_flag ''name'', (''role'', VString ''operator'')], \<lambda>X C v args. cmdUserAdd C (str_of v ''name'') (str_of v ''role'')),
     (''list'', user_list_flags, \<lambda>X C v args. cmdUserList C (str_of v ''status'') (str_of v ''role'') (str_of v ''sort'') (bool_of v ''desc'')),
     (''del'', name_flag, \<lambda>X C v args. cmdUserDel C (str_of v ''name'')),
     (''disable'', name_flag, \<lambda>X C v args. cmdUserEnableDisable ''disable'' C (str_of v ''name'')),
     (''enable'', name_flag, \<lambda>X C v args. cmdUserEnableDisable ''enable'' C (str_of v ''name'')),
     (''passwd'', name_flag, \<lambda>X C v args. cmdUserPasswd C (str_of v ''name'')),
     (''totp'', \<lambda>env. [str_flag ''name'', (''off'', VBool False)],
        \<lambda>X C v args. cmdUserTOTP C (xo_qr X) (xo_totp_raw X) (xo_totp_nonce X) (str_of v ''name'') (bool_of v ''off''))]"

definition upstreamOps :: "string list" where
  "upstreamOps = [''list'', ''add'', ''del'', ''set-default'', ''assign'', ''reconcile'', ''status'']"

definition upstreamOpDesc :: "(string \<times> string) list" where
  "upstreamOpDesc = [(''list'', ''configured upstreams and the active default''),
     (''add'', ''define one (-id, -iface [-gateway] | -socks URL, [-desc])''), (''del'', ''remove one (-id)''),
     (''set-default'', ''switch the active exit (-id | -clear)''), (''assign'', ''per-client override (-cn, -id | -clear)''),
     (''reconcile'', ''re-apply and report which upstreams are up/down''), (''status'', ''nftables detection + enabled state'')]"

definition upstream_add_flags :: "(string \<Rightarrow> string) \<Rightarrow> flag_set" where
  "upstream_add_flags env = [str_flag ''id'', str_flag ''iface'', str_flag ''gateway'', str_flag ''socks'', (''dial-timeout'', VInt 0),
     (''handshake-timeout'', VInt 0), str_flag ''desc'']"

definition upstream_values :: "flag_values \<Rightarrow> upstream" where
  "upstream_values v = \<lparr>up_ID = str_of v ''id'', up_Iface = str_of v ''iface'', up_Gateway = str_of v ''gateway'', up_SOCKS = str_of v ''socks'',
     up_DialTimeout = int_of_flag v ''dial-timeout'', up_HandshakeTimeout = int_of_flag v ''handshake-timeout'', up_Table = 0,
     up_Description = str_of v ''desc''\<rparr>"

definition upstreamBodies :: "'w bodies" where
  "upstreamBodies = [
     (''status'', no_flags, \<lambda>X C v args. cmdUpstreamStatus C),
     (''list'', no_flags, \<lambda>X C v args. cmdUpstreamList C),
     (''add'', upstream_add_flags, \<lambda>X C v args. cmdUpstreamAdd C (upstream_values v)),
     (''del'', \<lambda>env. [str_flag ''id''], \<lambda>X C v args. cmdUpstreamDel C (str_of v ''id'')),
     (''set-default'', \<lambda>env. [str_flag ''id'', (''clear'', VBool False)], \<lambda>X C v args. cmdUpstreamSetDefault C (str_of v ''id'') (bool_of v ''clear'')),
     (''assign'', \<lambda>env. [str_flag ''cn'', str_flag ''id'', (''clear'', VBool False), ctrlFlag env],
        \<lambda>X C v args. cmdUpstreamAssign C (str_of v ''ctrl'') (str_of v ''cn'') (str_of v ''id'') (bool_of v ''clear'')),
     (''reconcile'', only_ctrl, \<lambda>X C v args. cmdUpstreamReconcile C (str_of v ''ctrl''))]"

definition logsOps :: "string list" where
  "logsOps = [''config'', ''rotate'', ''status'']"

definition logsOpDesc :: "(string \<times> string) list" where
  "logsOpDesc = [(''config'', ''get|set rotation policy''), (''rotate'', ''copytruncate all logs now''), (''status'', ''sizes + rotation state'')]"

definition logConfigOps :: "string list" where
  "logConfigOps = [''get'', ''set'']"

definition logConfigBodies :: "'w bodies" where
  "logConfigBodies = [
     (''get'', no_flags, \<lambda>X C v args. cmdLogsConfigGet C),
     (''set'', \<lambda>env. [str_flag ''enabled'', (''retention-days'', VInt (-1)), (''keep-uncompressed'', VInt (-1))],
        \<lambda>X C v args. cmdLogsConfigSet C (str_of v ''enabled'') (int_of_flag v ''retention-days'') (int_of_flag v ''keep-uncompressed''))]"

definition logs_direct :: "'w bodies" where
  "logs_direct = [(''rotate'', no_flags, \<lambda>X C v args. cmdLogsRotate C), (''status'', no_flags, \<lambda>X C v args. cmdLogsStatus C)]"

definition statsConfigOps :: "string list" where
  "statsConfigOps = [''get'', ''set'']"

definition statsConfigBodies :: "'w bodies" where
  "statsConfigBodies = [
     (''get'', no_flags, \<lambda>X C v args. cmdStatsConfigGet C),
     (''set'', \<lambda>env. [(''sample-interval-sec'', VInt (-1)), (''retention-hours'', VInt (-1))],
        \<lambda>X C v args. cmdStatsConfigSet C (int_of_flag v ''sample-interval-sec'') (int_of_flag v ''retention-hours''))]"

subsection \<open>Dispatch of an operation\<close>

text \<open>\<^verbatim>\<open>text/tabwriter\<close> with one tabbed column: the cells are padded to the widest and three more.\<close>

definition tab_lines :: "(string \<times> string) list \<Rightarrow> string list" where
  "tab_lines rows = (let w = fold (\<lambda>(a, _) m. max (rune_count a + 2) m) rows 0 + 3 in
     map (\<lambda>(a, b). pad_right w (''  '' @ a) @ b) rows)"

definition opsUsage :: "string \<Rightarrow> string list \<Rightarrow> (string \<times> string) list \<Rightarrow> string" where
  "opsUsage name ops desc = join_s NL ((''usage: ovcp '' @ name @ '' <op>'')
     # tab_lines (map (\<lambda>oper. (oper, case map_of desc oper of None \<Rightarrow> [] | Some d \<Rightarrow> d)) ops))"

definition opArgList :: "string \<Rightarrow> string list \<Rightarrow> (string \<times> string) list \<Rightarrow> string list \<Rightarrow> string + string \<times> string list" where
  "opArgList name ops desc args = (case args of [] \<Rightarrow> Inl (opsUsage name ops desc)
     | oper # rest \<Rightarrow> if oper \<in> set ops then Inr (oper, rest) else Inl (opsUsage name ops desc))"

text \<open>A body called through a table that has none is a nil call.\<close>

definition run_body :: "'w bodies \<Rightarrow> 'w outside \<Rightarrow> 'w cli \<Rightarrow> string \<Rightarrow> string list \<Rightarrow> 'w plan" where
  "run_body bodies X C oper rest = (case map_of bodies oper of
     None \<Rightarrow> Crash
   | Some (flags, body) \<Rightarrow> (case parse_flags (flags (cx_getenv C)) rest of Inl e \<Rightarrow> BadFlags e | Inr (v, args) \<Rightarrow> Run (body X C v args)))"

definition opDispatch :: "string \<Rightarrow> string list \<Rightarrow> (string \<times> string) list \<Rightarrow> 'w bodies \<Rightarrow> 'w outside \<Rightarrow> 'w cli \<Rightarrow> string list \<Rightarrow> 'w plan" where
  "opDispatch name ops desc bodies X C rest = (case opArgList name ops desc rest of
     Inl u \<Rightarrow> Refused u | Inr (oper, crest) \<Rightarrow> run_body bodies X C oper crest)"

text \<open>A command whose operation \<^verbatim>\<open>config\<close> has operations of its own.\<close>

definition opOrConfig :: "string \<Rightarrow> string list \<Rightarrow> (string \<times> string) list \<Rightarrow> 'w bodies \<Rightarrow> string list \<Rightarrow> 'w bodies
    \<Rightarrow> 'w outside \<Rightarrow> 'w cli \<Rightarrow> string list \<Rightarrow> 'w plan" where
  "opOrConfig name ops desc bodies configOps configBodies X C args = (case opArgList name ops desc args of
     Inl u \<Rightarrow> Refused u
   | Inr (oper, rest) \<Rightarrow>
       if oper = ''config'' then opDispatch (name @ '' config'') configOps configOpDesc configBodies X C rest
       else run_body bodies X C oper rest)"

subsection \<open>Commands with flags of their own\<close>

definition init_flags :: "(string \<Rightarrow> string) \<Rightarrow> flag_set" where
  "init_flags env = [(''skeleton'', VBool False), (''ca-cn'', VString ''OVCP CA''), str_flag ''server-cn'', (''ca-years'', VInt 10),
     (''server-days'', VInt 825), (''admin'', VString ''admin''), mgmtFlag env]"

definition init_body :: "'w body" where
  "init_body X C v args = cmdInit C \<lparr>na_Skeleton = bool_of v ''skeleton'', na_CACN = str_of v ''ca-cn'', na_ServerCN = str_of v ''server-cn'',
     na_Years = int_of_flag v ''ca-years'', na_Days = int_of_flag v ''server-days'', na_Admin = str_of v ''admin'', na_Mgmt = str_of v ''mgmt''\<rparr>"

definition stats_flags :: "(string \<Rightarrow> string) \<Rightarrow> flag_set" where
  "stats_flags env = [str_flag ''cn'', (''follow'', VBool False), (''interval'', VInt 2), ctrlFlag env]"

definition cmdStats :: "'w outside \<Rightarrow> 'w cli \<Rightarrow> flag_values \<Rightarrow> string list \<Rightarrow> 'w plan" where
  "cmdStats X C v args =
     (if args \<noteq> [] \<and> args ! 0 = ''config'' then opDispatch ''stats config'' statsConfigOps configOpDesc statsConfigBodies X C (drop 1 args)
      else Run (if bool_of v ''follow'' then
          (if cx_json C then pureE (Inl (Text ''-json is not supported with -follow''))
           else print (followStats C (xo_hms X) (xo_stdout_tty X) (str_of v ''cn'') (xo_frames X)))
        else cmdStatsShow C (str_of v ''cn'')))"

definition listen_default :: "(string \<Rightarrow> string) \<Rightarrow> string" where
  "listen_default env = or_env (env ''OVCP_LISTEN'') ''127.0.0.1:8443''"

definition serve_flags :: "(string \<Rightarrow> string) \<Rightarrow> flag_set" where
  "serve_flags env = [(''listen'', VString (listen_default env)), mgmtFlag env, ctrlFlag env]"

definition cmdServe :: "'w body" where
  "cmdServe X C v args =
     (let D = (xo_daemon X)\<lparr>dm_dataDir := cx_dataDir C, dm_listen_on := str_of v ''listen'', dm_mgmt_sock := str_of v ''mgmt'',
        dm_getenv := cx_getenv C, dm_env := cx_env C\<rparr> in
      bindE (openStore C) (\<lambda>_. bindE (runServe_boot D) (\<lambda>_. runServe_stop D)))"

definition audit_flags :: "(string \<Rightarrow> string) \<Rightarrow> flag_set" where
  "audit_flags env = [str_flag ''sort'', (''desc'', VBool False)]"

definition text_lines :: "string list \<Rightarrow> string" where
  "text_lines ls = concat (map (\<lambda>l. l @ NL) ls)"

definition bashCompletion :: string where
  "bashCompletion = text_lines [''# ovcp bash completion'', ''_ovcp_complete() {'', TAB # ''local words'',
     TAB # ''words=$(ovcp __complete '' @ [DQ] @ ''${COMP_WORDS[@]:0:COMP_CWORD}'' @ [DQ] @ '')'',
     TAB # ''COMPREPLY=($(compgen -W '' @ [DQ] @ ''$words'' @ [DQ] @ '' -- '' @ [DQ] @ ''${COMP_WORDS[COMP_CWORD]}'' @ [DQ] @ ''))'',
     ''}'', ''complete -F _ovcp_complete ovcp'']"

definition zshCompletion :: string where
  "zshCompletion = text_lines [''#compdef ovcp'', ''_ovcp() {'', TAB # ''local -a candidates'',
     TAB # ''candidates=(${(f)'' @ [DQ] @ ''$(ovcp __complete ${words[1,CURRENT-1]})'' @ [DQ] @ ''})'',
     TAB # ''compadd -a candidates'', ''}'', ''_ovcp'']"

definition fishCompletion :: string where
  "fishCompletion = text_lines [''function __ovcp_complete'', TAB # ''ovcp __complete (commandline -opc)'', ''end'',
     ''complete -c ovcp -f -a '(__ovcp_complete)'' @ [CHR 0x27]]"

definition completionScript :: "string \<Rightarrow> (api_error, string) result" where
  "completionScript shell = (if shell = ''bash'' then Inr bashCompletion
     else if shell = ''zsh'' then Inr zshCompletion
     else if shell = ''fish'' then Inr fishCompletion
     else Inl (Text ''usage: ovcp completion bash|zsh|fish''))"

definition cmdCompletion :: "'w body" where
  "cmdCompletion X C v args = (if cx_json C then pureE (Inl (Text ''-json is not supported for completion (already a script, not data)''))
     else bindE (pureE (completionScript (case args of [] \<Rightarrow> [] | a # _ \<Rightarrow> a))) print)"

subsection \<open>The table\<close>

text \<open>A command: name and alias, its operations when it has a list of them, the flags it registers itself, what runs once
  they are parsed, and the two tables completion reads.\<close>

record 'w command_entry =
  ce_name :: string
  ce_alias :: string
  ce_desc :: string
  ce_sub :: "string list option"
  ce_flags :: "(string \<Rightarrow> string) \<Rightarrow> flag_set"
  ce_run :: "'w outside \<Rightarrow> 'w cli \<Rightarrow> flag_values \<Rightarrow> string list \<Rightarrow> 'w plan"
  ce_opBodies :: "'w bodies"
  ce_nested :: "(string \<times> string list \<times> 'w bodies) list"

definition plain :: "string \<Rightarrow> string \<Rightarrow> ((string \<Rightarrow> string) \<Rightarrow> flag_set) \<Rightarrow> ('w outside \<Rightarrow> 'w cli \<Rightarrow> flag_values \<Rightarrow> string list \<Rightarrow> 'w plan) \<Rightarrow> 'w command_entry" where
  "plain name desc flags run = \<lparr>ce_name = name, ce_alias = [], ce_desc = desc, ce_sub = None, ce_flags = flags, ce_run = run,
     ce_opBodies = [], ce_nested = []\<rparr>"

definition simple :: "'w body \<Rightarrow> 'w outside \<Rightarrow> 'w cli \<Rightarrow> flag_values \<Rightarrow> string list \<Rightarrow> 'w plan" where
  "simple body X C v args = Run (body X C v args)"

definition with_ops :: "string \<Rightarrow> string \<Rightarrow> string \<Rightarrow> string list \<Rightarrow> (string \<times> string) list \<Rightarrow> 'w bodies \<Rightarrow> 'w command_entry" where
  "with_ops name alias desc ops opDesc bodies = \<lparr>ce_name = name, ce_alias = alias, ce_desc = desc, ce_sub = Some ops, ce_flags = no_flags,
     ce_run = (\<lambda>X C v args. opDispatch name ops opDesc bodies X C args), ce_opBodies = bodies, ce_nested = []\<rparr>"

definition with_config :: "string \<Rightarrow> string \<Rightarrow> string list \<Rightarrow> (string \<times> string) list \<Rightarrow> 'w bodies \<Rightarrow> 'w bodies \<Rightarrow> string list \<Rightarrow> 'w bodies \<Rightarrow> 'w command_entry" where
  "with_config name desc ops opDesc bodies shown configOps configBodies = \<lparr>ce_name = name, ce_alias = [], ce_desc = desc, ce_sub = Some ops,
     ce_flags = no_flags, ce_run = (\<lambda>X C v args. opOrConfig name ops opDesc bodies configOps configBodies X C args),
     ce_opBodies = shown, ce_nested = [(''config'', configOps, configBodies)]\<rparr>"

definition commands :: "('w command_entry) list" where
  "commands = [
     plain ''init'' ''one-shot setup: CA, server cert, admin user'' init_flags (simple init_body),
     with_ops ''certificate'' ''cert'' ''issue, list, revoke, renew certs'' certOps certOpDesc certBodies,
     with_ops ''ca'' [] ''CA passphrase rotation or cert renewal, CLI-only'' caOps caOpDesc caBodies,
     with_ops ''backup'' [] ''encrypted export/import: CA, config, database'' backupOps backupOpDesc backupBodies,
     plain ''status'' ''full-system overview: vpn, dns, certs, telegram'' only_ctrl (simple (\<lambda>X C v args. cmdStatus C (str_of v ''ctrl''))),
     (plain ''stats'' ''traffic history, live follow, sampling config'' stats_flags cmdStats)\<lparr>ce_nested := [(''config'', statsConfigOps, statsConfigBodies)]\<rparr>,
     with_config ''vpn'' ''manage the openvpn worker'' vpnOps vpnOpDesc vpnBodies vpnBodies vpnConfigOps vpnConfigBodies,
     with_config ''dns'' ''manage the dnsmasq worker'' dnsOps dnsOpDesc dnsBodies dnsBodies dnsConfigOps dnsConfigBodies,
     with_ops ''record'' [] ''manage internal DNS records'' recordOps recordOpDesc recordBodies,
     with_ops ''upstream'' [] ''route VPN egress through a chosen interface or SOCKS proxy'' upstreamOps upstreamOpDesc upstreamBodies,
     with_config ''logs'' ''log rotation for openvpn/ovcp/dnsmasq logs'' logsOps logsOpDesc logs_direct [] logConfigOps logConfigBodies,
     with_ops ''debug'' [] ''toggle verbose logging on a running serve'' debugOps debugOpDesc debugBodies,
     with_config ''telegram'' ''notify + control bot'' telegramOps telegramOpDesc telegramBodies telegramBodies telegramConfigOps telegramConfigBodies,
     with_ops ''user'' [] ''manage admin UI accounts'' userOps userOpDesc userBodies,
     plain ''audit'' ''last 50 audit entries'' audit_flags (simple (\<lambda>X C v args. cmdAudit C (str_of v ''sort'') (bool_of v ''desc''))),
     plain ''serve'' ''run admin UI + API'' serve_flags (simple cmdServe),
     plain ''version'' ''print version'' no_flags (simple (\<lambda>X C v args. cmdVersion C (xo_version X))),
     (plain ''completion'' ''shell completion script'' no_flags (simple cmdCompletion))\<lparr>ce_sub := Some [''bash'', ''zsh'', ''fish'']\<rparr>]"

subsection \<open>main\<close>

text \<open>An alias that is empty is compared as well: the empty word finds the first command without one.\<close>

definition find_command :: "string \<Rightarrow> 'w command_entry option" where
  "find_command word = List.find (\<lambda>c. ce_name c = word \<or> ce_alias c = word) commands"

definition plan_of :: "'w outside \<Rightarrow> 'w cli \<Rightarrow> string list \<Rightarrow> 'w plan" where
  "plan_of X C args = (case args of [] \<Rightarrow> Unknown
     | word # rest \<Rightarrow> (case find_command word of None \<Rightarrow> Unknown
         | Some c \<Rightarrow> (case parse_flags (ce_flags c (cx_getenv C)) rest of Inl e \<Rightarrow> BadFlags e
             | Inr (v, rest2) \<Rightarrow> ce_run c X C v rest2)))"

definition globalFlags :: "(string \<Rightarrow> string) \<Rightarrow> flag_set" where
  "globalFlags env = [(''data'', VString (or_env (env ''OVCP_DATA'') ''/var/lib/ovcp'')), (''no-color'', VBool False), (''json'', VBool False), (''debug'', VBool False)]"

definition helpText :: string where
  "helpText = ''ovcp <command>'' @ NL
     @ concat (map (\<lambda>l. l @ NL) (tab_lines (map (\<lambda>c. (ce_name c @ (if ce_alias c \<noteq> [] then '' ('' @ ce_alias c @ '')'' else []), ce_desc c)) (commands :: (unit command_entry) list))))
     @ NL @ ''ovcp <command> -h lists that command's own ops; ovcp <command> <op> -h its flags.'' @ NL
     @ ''-data DIR overrides $OVCP_DATA (default /var/lib/ovcp); must come before'' @ NL
     @ ''the command, e.g. ovcp -data /tmp/ovcp init ...'' @ NL
     @ ''-no-color disables ANSI colors; -debug turns on debug-level logging.'' @ NL
     @ ''-json switches every command to JSON output (JSON log lines for serve);'' @ NL
     @ ''all three go before the command, e.g. ovcp -json certificate list.'' @ NL
     @ ''Full guide: ovcp(8).''"

text \<open>\<^verbatim>\<open>completeArgs\<close>; None is the panic on an empty list of words.\<close>

definition flag_names :: "flag_set \<Rightarrow> string list" where
  "flag_names fs = map (\<lambda>n. CHR ''-'' # n) (sort (map fst fs))"

definition opBodiesFlagNames :: "(string \<Rightarrow> string) \<Rightarrow> 'w bodies \<Rightarrow> string \<Rightarrow> string list" where
  "opBodiesFlagNames env bodies oper = (case map_of bodies oper of None \<Rightarrow> [] | Some (flags, _) \<Rightarrow> flag_names (flags env))"

definition complete_command :: "(string \<Rightarrow> string) \<Rightarrow> 'w command_entry \<Rightarrow> string list \<Rightarrow> string list" where
  "complete_command env c rest = (case rest of
     [] \<Rightarrow> (case ce_sub c of Some ops \<Rightarrow> ops | None \<Rightarrow> flag_names (ce_flags c env))
   | oper # ws \<Rightarrow> (case map_of (ce_nested c) oper of
       Some (ops, bodies) \<Rightarrow> (case ws of [] \<Rightarrow> ops | w # _ \<Rightarrow> opBodiesFlagNames env bodies w)
     | None \<Rightarrow> opBodiesFlagNames env (ce_opBodies c) oper))"

definition completeArgs :: "(string \<Rightarrow> string) \<Rightarrow> ('w command_entry) list \<Rightarrow> string list \<Rightarrow> string list option" where
  "completeArgs env cs words = (case words of [] \<Rightarrow> None
     | _ # ws \<Rightarrow> Some (case parse_flags (globalFlags env) ws of Inl _ \<Rightarrow> []
         | Inr (_, []) \<Rightarrow> map ce_name cs @ flag_names (globalFlags env)
         | Inr (_, w # rest) \<Rightarrow> (case List.find (\<lambda>c. ce_name c = w \<or> ce_alias c = w) cs of None \<Rightarrow> [] | Some c \<Rightarrow> complete_command env c rest)))"

text \<open>\<^verbatim>\<open>die\<close> and the exit codes: 0, 1 for an error, 2 for usage and flag errors and for a panic, 0 for \<^verbatim>\<open>-h\<close>.\<close>

definition die :: "'w outside \<Rightarrow> 'w cli \<Rightarrow> string \<Rightarrow> ('w, unit) command" where
  "die X C e = (if cx_json C then println (xo_error_json X e) else eprintln (''error: '' @ e))"

definition run_plan :: "'w outside \<Rightarrow> 'w cli \<Rightarrow> 'w plan \<Rightarrow> ('w terminal) srv \<Rightarrow> int \<times> ('w terminal) srv" where
  "run_plan X C p s = (case p of
     Run m \<Rightarrow> (case m s of (Inr _, s1) \<Rightarrow> (0, s1) | (Inl e, s1) \<Rightarrow> (1, snd (die X C (xo_error X e) s1)))
   | Refused u \<Rightarrow> (1, snd (die X C u s))
   | BadFlags e \<Rightarrow> (if e = FlagHelp then 0 else 2, s)
   | Unknown \<Rightarrow> (2, snd (eprintln helpText s))
   | Crash \<Rightarrow> (2, s))"

definition main :: "'w outside \<Rightarrow> 'w cli \<Rightarrow> string list \<Rightarrow> ('w terminal) srv \<Rightarrow> int \<times> ('w terminal) srv" where
  "main X C0 words s = (case parse_flags (globalFlags (cx_getenv C0)) words of
     Inl e \<Rightarrow> (if e = FlagHelp then 0 else 2, s)
   | Inr (v, args) \<Rightarrow>
      (let C = C0\<lparr>cx_dataDir := xo_abs X (str_of v ''data''), cx_json := (cx_json C0 \<or> bool_of v ''json''), cx_color := (cx_color C0 \<and> \<not> bool_of v ''no-color'')\<rparr> in
       case args of
         ''__complete'' # ws \<Rightarrow> (case completeArgs (cx_getenv C) (commands :: ('w command_entry) list) ws of None \<Rightarrow> (2, s) | Some cs \<Rightarrow> (0, snd (println (join_s NL cs) s)))
       | _ \<Rightarrow> run_plan X C (plan_of X C args) s))"

end
