(* ===== verification/Cli_Effects.thy ===== *)
theory Cli_Effects
  imports Cli_Main Api_Actions_Props
begin

section \<open>What the commands do to the store\<close>

text \<open>
  Two contracts, proved along the bodies of the commands: \<open>terminal_effects\<close> holds for a command that touches
  only the files, the terminal and the workers, so that the commands that show something leave the store as it is; the
  other commands add audit entries of their actor only, and report success without one only
  when the store did not change. \<open>Cli_Main_Props\<close> composes both with the table of commands.
\<close>

subsection \<open>Commands that do not write to the store\<close>

locale reading_effects =
  fixes R :: "'w srv \<Rightarrow> 'w srv \<Rightarrow> bool"
  assumes refl_R: "reflp R" and trans_R: "transp R"
    and changed_files: "R s (s\<lparr>sv_fs := f\<rparr>)"
    and changed_workers: "R s (s\<lparr>sv_world := w\<rparr>)"
begin

lemma self: "R s s"
  using refl_R by (rule reflpD)

lemma chain: "R s t \<Longrightarrow> R t u \<Longrightarrow> R s u"
  using trans_R by (rule transpD)

lemma both: "R s (s\<lparr>sv_fs := f, sv_world := w\<rparr>)"
  using changed_files [of s f] changed_workers [of "s\<lparr>sv_fs := f\<rparr>" w] by (rule chain)

lemma by_files: "keepsE R (onFS g m)"
  using changed_files by (auto simp: keepsE_def onFS_def split: prod.splits sum.splits)

lemma by_query: "keepsE R (queryStore f)"
  using self by (auto simp: keepsE_def queryStore_def split: sum.splits)

lemma by_workers: "keepsE R (onWorld m)"
  using changed_workers by (auto simp: keepsE_def onWorld_def split: prod.splits sum.splits)

lemma by_steps:
  "keepsE R (current_hosts path)" "keepsE R (applying S cfg)" "keepsE R (restartSessions S cn)" "keepsE R (PreviewVPNConfig S vcfg)"
  "keepsE R (ca_summary S)"
  by (auto simp: keepsE_def current_hosts_def applying_def restartSessions_def PreviewVPNConfig_def ca_summary_def Let_def
      self changed_files changed_workers split: prod.splits sum.splits option.splits if_splits)

lemmas steps = keepsE_bind [OF trans_R] keepsE_pure [OF refl_R] keepsE_guard [OF refl_R]
  keepsE_get [OF refl_R] keepsE_map keepsE_if keepsE_case_prod keepsE_Let by_files by_query by_workers by_steps

text \<open>The data directory.\<close>

lemma by_failing: "keepsE R (failing e f)"
  using changed_files by (auto simp: keepsE_def failing_def split: prod.splits if_splits)

lemma by_dirs: "keepsE R (make_dirs ds)"
  by (induction ds) (simp_all only: make_dirs.simps, (intro steps by_failing | assumption)+)

lemma by_absent: "keepsE R (\<lambda>s. case fs_absent p (sv_fs s) of (absent, f) \<Rightarrow> (Inr absent, s\<lparr>sv_fs := f\<rparr>))"
  using changed_files by (auto simp: keepsE_def split: prod.splits)

lemma by_touch: "keepsE R (touch_files ps)"
  by (induction ps) (simp_all only: touch_files.simps, (intro steps by_failing by_absent | assumption)+)

lemma by_skeleton: "keepsE R (ensureSkeleton d)"
  unfolding ensureSkeleton_def by (intro steps by_dirs by_touch)

lemma by_chmods: "keepsE R (chmods fs)"
  by (induction fs) (simp_all only: chmods.simps, (intro steps by_failing | assumption)+)

lemma after_files: "keepsE R m \<Longrightarrow> m (s\<lparr>sv_fs := f\<rparr>) = (r, s') \<Longrightarrow> R s s'"
  using chain [OF changed_files] by (auto dest: keepsED)

lemma by_keys: "keepsE R (loadOrCreateTOTPKey raw path)" "keepsE R (loadOrCreateTLSCrypt raw path)"
proof -
  have w: "keepsE R (bindE (failing e (fs_write_file path key)) (\<lambda>_. pureE (Inr key)))" for e key
    by (intro steps by_failing)
  show "keepsE R (loadOrCreateTOTPKey raw path)" "keepsE R (loadOrCreateTLSCrypt raw path)"
    using after_files [OF w] changed_files
    by (auto simp: keepsE_def loadOrCreateTOTPKey_def loadOrCreateTLSCrypt_def split: prod.splits option.splits sum.splits if_splits)
qed

lemma by_adminCertCN: "keepsE R (adminCertCN env px d)"
  using changed_files self by (auto simp: keepsE_def adminCertCN_def split: prod.splits if_splits)

end

sublocale operator_effects \<subseteq> rd: reading_effects R
  by unfold_locales (fact rel_refl rel_trans files workers)+

text \<open>The terminal, and a serve asked over the control socket.\<close>

locale terminal_effects = reading_effects R for R :: "('w terminal) srv \<Rightarrow> ('w terminal) srv \<Rightarrow> bool"
begin

lemma by_print: "keepsE R (print t)" "keepsE R (println t)" "keepsE R (eprintln t)"
  using changed_workers by (auto simp: keepsE_def print_def println_def eprintln_def on_term_def)

lemma by_lines: "keepsE R (print_lines ls)"
  by (induction ls) (simp_all only: print_lines.simps, (intro steps by_print | assumption)+)

lemma by_prompt: "keepsE R (prompt label env)"
  using changed_workers self by (auto simp: keepsE_def prompt_def split: list.splits)

lemma by_live: "keepsE R (liveClients C)"
  using changed_workers by (auto simp: keepsE_def liveClients_def split: prod.splits)

lemma by_asking: "keepsE R (asking m)"
  unfolding asking_def by (rule by_workers)

lemma by_open: "keepsE R (openStore C)"
  unfolding openStore_def Open_store_def by (intro steps by_skeleton by_chmods by_keys)

lemma by_adminCN: "keepsE R (adminCN C)"
  unfolding adminCN_def by (rule by_adminCertCN)

lemma by_output: "keepsE R txt \<Longrightarrow> keepsE R (output_result C v txt)"
  unfolding output_result_def by (auto intro: steps by_print split: option.splits)

lemma by_message: "keepsE R (progress C t)" "keepsE R (printMsg C m)" "keepsE R (warnLine w)"
  unfolding progress_def printMsg_def warnLine_def by (intro steps by_print by_output)+

lemma by_positive: "keepsE R (requirePositive n flag)"
  unfolding requirePositive_def by (intro steps)

lemma by_secret: "keepsE R (readSecret C label env twice)"
  unfolding readSecret_def ask_secret_def by (intro steps by_print by_prompt)

lemma by_ca_secret: "keepsE R (ca_secret C twice)"
  unfolding ca_secret_def by (rule by_secret)

lemma by_hosts: "keepsE R (RefreshCertsHosts S path live)"
  unfolding RefreshCertsHosts_def by (intro steps)

lemma by_refresh: "keepsE R (refreshCertsHostsCLI C)" "keepsE R (restartSessionsCLI C cn)"
proof -
  have "keepsE R (\<lambda>s. case RefreshCertsHosts S path live s of (_, s1) \<Rightarrow> (Inr (), s1))" for S path live
    using by_hosts by (auto simp: keepsE_def split: prod.splits)
  then show "keepsE R (refreshCertsHostsCLI C)" unfolding refreshCertsHostsCLI_def by (intro steps by_live by_adminCN)
  show "keepsE R (restartSessionsCLI C cn)" unfolding restartSessionsCLI_def by (intro steps)
qed

lemma ctrlSource_kept:
  "ss_VPN (ctrlSource C ctrl) s = (r, s') \<Longrightarrow> R s s'" "ss_DNS (ctrlSource C ctrl) s = (r, s') \<Longrightarrow> R s s'"
  "ss_Clients (ctrlSource C ctrl) s = (cl, s') \<Longrightarrow> R s s'" "ss_Telegram (ctrlSource C ctrl) s = (tg, s') \<Longrightarrow> R s s'"
  using changed_workers by (auto simp: ctrlSource_def Let_def onWorld_def split: prod.splits sum.splits api_error.splits)

lemma by_status: "keepsE R (BuildStatus S now (ctrlSource C ctrl) routing upstreams)"
proof -
  let ?src = "ctrlSource C ctrl"
  have "R s s'" if r: "read_workers ?src s = (out, s')" for s out s'
  proof -
    obtain r1 s1 where v: "ss_VPN ?src s = (r1, s1)" by (metis surj_pair)
    obtain cl s2 where c: "ss_Clients ?src s1 = (cl, s2)" by (metis surj_pair)
    define t where "t = (if \<exists>x. r1 = Inr x \<and> cr_Pid x \<noteq> 0 then s2 else s1)"
    obtain d s3 where d: "ss_DNS ?src t = (d, s3)" by (metis surj_pair)
    obtain tg s4 where tg: "ss_Telegram ?src s3 = (tg, s4)" by (metis surj_pair)
    have 1: "R s s1" "R s1 s2" "R t s3" "R s3 s4"
      using ctrlSource_kept(1) [OF v] ctrlSource_kept(3) [OF c] ctrlSource_kept(2) [OF d] ctrlSource_kept(4) [OF tg] by auto
    then have "R s t" using chain [OF 1(1,2)] unfolding t_def by simp
    then have "R s s4" using 1 chain by blast
    moreover have "s' = s1 \<or> s' = s4" using r v c d tg
      by (cases r1) (auto simp: read_workers_def t_def split: if_splits)
    ultimately show ?thesis using 1(1) by blast
  qed
  then have "keepsE R (\<lambda>s. case read_workers ?src s of (out, s1) \<Rightarrow> (Inr out, s1))"
    by (auto simp: keepsE_def split: prod.splits)
  then show ?thesis unfolding BuildStatus_def by (intro steps)
qed

lemmas showing = steps by_print by_lines by_live by_asking by_open by_adminCN by_output by_message by_positive by_secret by_ca_secret
  by_refresh by_status

text \<open>The commands that only show something.\<close>

lemma showing_commands:
  "keepsE R (cmdList C status kind sortBy desc)" "keepsE R (cmdCAStatus C)" "keepsE R (cmdUserList C status role sortBy desc)"
  "keepsE R (cmdAudit C sortBy desc)" "keepsE R (cmdStatus C ctrl)" "keepsE R (cmdVersion C ver)"
  "keepsE R (cmdRecordList C status kind sortBy desc)" "keepsE R (cmdUpstreamStatus C)" "keepsE R (cmdUpstreamList C)"
  "keepsE R (cmdDNSConfigGet C)" "keepsE R (cmdVPNConfigGet C)" "keepsE R (cmdVPNConfigPreview C cargs)"
  "keepsE R (cmdTelegramConfigGet C)" "keepsE R (cmdLogsConfigGet C)" "keepsE R (cmdLogsStatus C)" "keepsE R (cmdStatsConfigGet C)"
  "keepsE R (cmdStatsShow C cn)"
  unfolding cmdList_def cmdCAStatus_def cmdUserList_def cmdAudit_def cmdStatus_def cmdVersion_def cmdRecordList_def cmdUpstreamStatus_def
    cmdUpstreamList_def cmdDNSConfigGet_def cmdVPNConfigGet_def dns_warning_def cmdVPNConfigPreview_def cmdTelegramConfigGet_def
    cmdLogsConfigGet_def load_log_def cmdLogsStatus_def cmdStatsConfigGet_def load_stats_def cmdStatsShow_def
  by (intro showing)+

lemma showing_operations:
  "keepsE R (procOpBody name ''status'' wirePrefix C ctrl)" "keepsE R (vpn_op C ctrl ''status'')"
  "keepsE R (telegramLifecycleBody ''status'' C ctrl)" "keepsE R (cmdCompletion X C v args)"
  unfolding vpn_op_def procOpBody_def control_def telegramLifecycleBody_def cmdCompletion_def
  by (simp_all only: simp_thms if_True if_False refl) (intro showing)+

end

definition same_store :: "'w srv \<Rightarrow> 'w srv \<Rightarrow> bool" where
  "same_store s s' = (sv_store s' = sv_store s)"

interpretation sh: terminal_effects same_store
  by unfold_locales (auto simp: same_store_def reflp_def transp_def)

interpretation tt: terminal_effects "trail user" for user
  by unfold_locales

end
