(* ===== verification/Cli_Audit.thy ===== *)
theory Cli_Audit
  imports Cli_Effects
begin

section \<open>Every command is in the audit log\<close>

text \<open>
  \<open>noted a m\<close>: whatever the outcome, \<open>m\<close> only adds audit entries of the actor \<open>a\<close>; if it succeeds without one
  the store is as before. \<open>entered a m\<close>: it adds one whenever it succeeds. Both are shown for the actions of the API the commands call
  and then for the commands.
\<close>

subsection \<open>The two contracts\<close>

definition noted :: "string \<Rightarrow> ('w, 'a) action \<Rightarrow> bool" where
  "noted a m = (keepsE (trail a) m \<and> (\<forall>s v s'. m s = (Inr v, s') \<longrightarrow> grew s s' \<or> same_store s s'))"

definition entered :: "string \<Rightarrow> ('w, 'a) action \<Rightarrow> bool" where
  "entered a m = (keepsE (trail a) m \<and> grows m)"

lemma noted_trail: "noted a m \<Longrightarrow> keepsE (trail a) m"
  by (simp add: noted_def)

lemma entered_trail: "entered a m \<Longrightarrow> keepsE (trail a) m"
  by (simp add: entered_def)

lemma noted_entered: "entered a m \<Longrightarrow> noted a m"
  by (auto simp: entered_def noted_def grows_def)

lemma noted_show: "keepsE same_store m \<Longrightarrow> noted a m"
  by (auto simp: noted_def keepsE_def same_store_def intro: same_audit_trail)

lemma noted_accounts: "keepsE (trail a) m \<Longrightarrow> accounts m \<Longrightarrow> noted a m"
  by (auto simp: noted_def accounts_def quiet_def same_store_def)

lemma noted_bind:
  assumes m: "noted a m" and k: "\<And>x. noted a (k x)"
  shows "noted a (bindE m k)"
proof -
  have t: "keepsE (trail a) (bindE m k)" using keepsE_bind [OF trail_trans noted_trail [OF m] noted_trail [OF k]] .
  have "grew s s' \<or> same_store s s'" if b: "bindE m k s = (Inr v, s')" for s v s'
  proof -
    obtain x s1 where 1: "m s = (Inr x, s1)" and 2: "k x s1 = (Inr v, s')" using b by (auto simp: bindE_Inr)
    have l: "length (st_audit (sv_store s)) \<le> length (st_audit (sv_store s1))" "length (st_audit (sv_store s1)) \<le> length (st_audit (sv_store s'))"
      using keepsED [OF noted_trail [OF m] 1] keepsED [OF noted_trail [OF k] 2] trail_length by blast+
    have "grew s s1 \<or> same_store s s1" "grew s1 s' \<or> same_store s1 s'" using m k 1 2 unfolding noted_def by blast+
    then show ?thesis using l by (auto simp: grew_def same_store_def)
  qed
  then show ?thesis using t unfolding noted_def by blast
qed

lemma noted_if: "(b \<Longrightarrow> noted a m) \<Longrightarrow> (\<not> b \<Longrightarrow> noted a n) \<Longrightarrow> noted a (if b then m else n)"
  by simp

lemma noted_Let: "noted a (f x) \<Longrightarrow> noted a (Let x f)"
  by simp

lemma noted_case_prod: "(\<And>x y. noted a (f x y)) \<Longrightarrow> noted a (case p of (x, y) \<Rightarrow> f x y)"
  by (cases p) simp

lemma entered_by: "keepsE (trail a) m \<Longrightarrow> grows m \<Longrightarrow> entered a m"
  by (simp add: entered_def)

lemma entered_audit: "entered a (audit now a act d)"
  by (auto simp: entered_def grows_def grew_def audit_def Audit_def intro: tr.on_log)

lemma entered_after: "keepsE (trail a) m \<Longrightarrow> (\<And>x. entered a (k x)) \<Longrightarrow> entered a (bindE m k)"
  unfolding entered_def by (blast intro: grows_after keepsE_bind [OF trail_trans])

lemma entered_before: "entered a m \<Longrightarrow> (\<And>x. keepsE (trail a) (k x)) \<Longrightarrow> entered a (bindE m k)"
  unfolding entered_def by (blast intro: grows_before keepsE_bind [OF trail_trans])

lemma entered_Let: "entered a (f x) \<Longrightarrow> entered a (Let x f)"
  by simp

lemma entered_case_prod: "(\<And>x y. entered a (f x y)) \<Longrightarrow> entered a (case p of (x, y) \<Rightarrow> f x y)"
  by (cases p) simp

subsection \<open>The actions\<close>

lemmas trail_rules = trail_user_ops tr.account_rules

lemma entered_actions:
  "entered a (AddUser_api P now a n p r)" "entered a (SetUserPassword_api P now a n p)" "entered a (DeleteUser_api now a n)"
  "entered a (SetUserDisabled_api now a n b)" "entered a (DisableTOTP P now a n)" "entered a (EnrollTOTP P qr sec nonce now a n issuer)"
  "entered a (Kill_api S now a n)" "entered a (RotateLogs_api H dec env now a d)" "entered a (SaveLogConfig enc now a lc)"
  "entered a (RenewServer S en cp kp a n days p)" "entered a (SetDNSConfig S now a dc)"
  "entered a (AddUpstream S now a e u)" "entered a (DeleteUpstream S now a e i)" "entered a (SetDefaultUpstream S now a e i)"
  "entered a (AssignUpstream S now a e path n i clear)" "entered a (ReconcileUpstreams S now a e)"
  unfolding AddUser_api_def SetUserPassword_api_def DeleteUser_api_def SetUserDisabled_api_def DisableTOTP_def EnrollTOTP_def Kill_api_def
    RotateLogs_api_def SaveLogConfig_def RenewServer_def SetDNSConfig_def SaveDNSConfig_def AddUpstream_def DeleteUpstream_def
    SetDefaultUpstream_def AssignUpstream_def ReconcileUpstreams_def saveApplyUpstreams_def SaveUpstreamConfig_def applyAssign_def set_auth_def
  by (rule entered_by, intro trail_rules, (intro grows_intros | rule grows_after [where a = a])+)+

lemma entered_revoke: "entered a (RevokeCert S en a serial p)"
proof (rule entered_by)
  show "keepsE (trail a) (RevokeCert S en a serial p)" unfolding RevokeCert_def by (intro trail_rules)
qed (rule grows_Revoke)

lemma entered_stats: "noted a (stats_step (SaveStatsConfig enc now a sc))"
  by (auto simp: noted_def keepsE_def stats_step_def SaveStatsConfig_def SaveJSON_def SetSetting_def Audit_def trail_def grew_def
      same_store_def split: prod.splits sum.splits stats_error.splits if_splits option.splits)

lemma noted_changes:
  "noted a (SetVPNConfig S now a path cfg)" "noted a (SetCertDNS_api now a serial incl)" "noted a (SetCustomHosts now a path content)"
proof -
  show "noted a (SetVPNConfig S now a path cfg)"
    by (rule noted_accounts [OF _ accounts_Config]) (unfold SetVPNConfig_def, intro trail_rules)
  show "noted a (SetCertDNS_api now a serial incl)"
    by (rule noted_accounts [OF _ accounts_CertDNS]) (unfold SetCertDNS_api_def, intro trail_rules)
  show "noted a (SetCustomHosts now a path content)"
    by (rule noted_accounts [OF _ accounts_Hosts]) (unfold SetCustomHosts_def, intro trail_rules)
qed

lemmas noting = noted_bind noted_if noted_Let noted_case_prod entered_actions [THEN noted_entered] entered_revoke [THEN noted_entered]
  entered_audit [THEN noted_entered] entered_stats noted_changes

subsection \<open>The commands\<close>

lemma noted_commands:
  "noted actor_cli (cmdRevoke C serial)" "noted actor_cli (cmdRenew C cn days)" "noted actor_cli (cmdRotateCA C)"
  "noted actor_cli (cmdRenewCA C years)" "noted actor_cli (cmdBackupCreate C al snap tmp tty)"
  "noted actor_cli (cmdUserAdd C n role)" "noted actor_cli (cmdUserDel C n)" "noted actor_cli (cmdUserEnableDisable oper C n)"
  "noted actor_cli (cmdUserPasswd C n)" "noted actor_cli (cmdUserTOTP C qr raw nonce n off)"
  "noted actor_cli (procOpBody name oper wirePrefix C ctrl)" "noted actor_cli (vpn_op C ctrl oper)"
  "noted actor_cli (cmdKill C ctrl cn)" "noted actor_cli (cmdDebugOp oper C ctrl)"
  "noted actor_cli (cmdRecordEdit C)" "noted actor_cli (cmdRecordIncludeExclude oper C cn)"
  "noted actor_cli (cmdUpstreamAdd C u)" "noted actor_cli (cmdUpstreamDel C i)" "noted actor_cli (cmdUpstreamSetDefault C i clear)"
  "noted actor_cli (cmdUpstreamAssign C ctrl cn i clear)" "noted actor_cli (cmdUpstreamReconcile C ctrl)"
  "noted actor_cli (cmdDNSConfigSet C b)" "noted actor_cli (cmdVPNConfigSet C cargs)"
  "noted actor_cli (telegramLifecycleBody oper C ctrl)" "noted actor_cli (cmdLogsConfigSet C enabled days keep)"
  "noted actor_cli (cmdLogsRotate C)" "noted actor_cli (cmdStatsConfigSet C interval hours)"
  unfolding cmdRevoke_def cmdRenew_def cmdRotateCA_def cmdRenewCA_def cmdBackupCreate_def cmdUserAdd_def cmdUserDel_def
    cmdUserEnableDisable_def cmdUserPasswd_def cmdUserTOTP_def vpn_op_def procOpBody_def control_def cmdKill_def cmdDebugOp_def
    cmdRecordEdit_def cmdRecordIncludeExclude_def cmdUpstreamAdd_def cmdUpstreamDel_def cmdUpstreamSetDefault_def cmdUpstreamAssign_def
    cmdUpstreamReconcile_def showUpstreams_def cmdDNSConfigSet_def cmdVPNConfigSet_def dns_warning_def telegramLifecycleBody_def
    cmdLogsConfigSet_def load_log_def cmdLogsRotate_def cmdStatsConfigSet_def load_stats_def
  by (intro noting; rule noted_show, intro sh.showing)+

lemma noted_issue: "noted actor_cli (cmdIssue C a)"
proof -
  have e: "keepsE (trail actor_cli) (export_issue C a req)" for req
    unfolding export_issue_def or_adminCN_def ExportClient_def by (intro trail_rules tt.by_adminCN)
  have a: "entered actor_cli (AuditClient now actor_cli req ic)" for now req ic
    unfolding AuditClient_def by (rule entered_audit)
  show ?thesis
    unfolding cmdIssue_def
    apply (rule noted_bind, (rule noted_show, intro sh.showing))+
    apply (rule noted_Let, rule noted_entered, rule entered_after)
     apply (intro trail_rules e)
    apply (rule entered_case_prod, rule entered_after, (intro tt.showing), rule entered_after, (intro tt.showing))
    apply (rule entered_before [OF a], intro tt.showing)
    done
qed

text \<open>The bot's settings; the message that warns an old admin may panic, which is an error here.\<close>

lemma SetAdmin_audit: "SetAdmin admin st = Some (calls, st') \<Longrightarrow> st_audit st' = st_audit st"
  by (auto simp: SetAdmin_def SetSetting_def Let_def split: if_splits)

lemma SetToken_audit: "SetToken valid token st = Some st' \<Longrightarrow> st_audit st' = st_audit st"
  by (auto simp: SetToken_def SetSetting_def Let_def split: if_splits)

lemma SetTelegram_trail:
  assumes "SetTelegram valid post now a admin token s = Some (r, s')"
  shows "trail a s s'" "r = Inr u \<Longrightarrow> grew s s'"
proof -
  define mid where "mid = (if admin = [] then Some s
    else map_option (\<lambda>s1. snd (audit now a ''telegram_admin_change'' (''admin='' @ admin) s1 :: (api_error, unit) result \<times> 'a srv))
      (set_admin_step post admin s))"
  show "trail a s s'" "r = Inr u \<Longrightarrow> grew s s'"
  proof (atomize (full), cases "admin = [] \<and> token = []")
    case True
    then show "trail a s s' \<and> (r = Inr u \<longrightarrow> grew s s')" using assms by (auto simp: SetTelegram_def trail_def)
  next
    case False
    define tail where "tail s2 = (if token = [] then Some (Inr (), s2)
         else (case SetToken valid token (sv_store s2) of None \<Rightarrow> Some (Inl (Text ''telegram: token''), s2)
           | Some st \<Rightarrow> Some (audit now a ''telegram_token_change'' [] (s2\<lparr>sv_store := st\<rparr>))))" for s2 :: "'a srv"
    have all: "(case mid of None \<Rightarrow> None | Some s2 \<Rightarrow> tail s2) = Some (r, s')"
      using assms False unfolding SetTelegram_def mid_def tail_def by simp
    then obtain s2 where s2: "mid = Some s2" and t: "tail s2 = Some (r, s')" by (cases mid) simp_all
    note t = t [unfolded tail_def]
    have m: "trail a s s2" "admin \<noteq> [] \<Longrightarrow> grew s s2"
      using s2 by (auto simp: mid_def trail_def grew_def audit_def set_admin_step_def Audit_def dest!: SetAdmin_audit split: if_splits)
    show "trail a s s' \<and> (r = Inr u \<longrightarrow> grew s s')"
    proof (cases "token = []")
      case True
      then show ?thesis using t m False by simp
    next
      case tk: False
      show ?thesis
      proof (cases "SetToken valid token (sv_store s2)")
        case None
        then show ?thesis using t tk m by auto
      next
        case (Some st)
        then have "trail a s2 s'" "grew s2 s'" using t tk SetToken_audit [OF Some]
          by (auto simp: audit_def trail_def grew_def Audit_def)
        then show ?thesis using m(1) trail_length [OF m(1)] trail_trans by (auto simp: grew_def dest: transpD)
      qed
    qed
  qed
qed

lemma noted_telegram: "noted actor_cli (or_panic (cmdTelegramConfigSet C valid post setToken admin))"
proof -
  let ?first = "bindE (if setToken then readSecret C ''Telegram bot token'' ''OVCP_TELEGRAM_TOKEN'' False else pureE (Inr [])) (\<lambda>token.
     bindE (openStore C) (\<lambda>_. pureE (Inr token)))"
  have f: "keepsE same_store ?first" by (intro sh.showing)
  have "trail actor_cli s s' \<and> (\<forall>v. r = Inr v \<longrightarrow> grew s s')"
    if o: "or_panic (cmdTelegramConfigSet C valid post setToken admin) s = (r, s')" for s r s'
  proof -
    obtain r1 s1 where 1: "?first s = (r1, s1)" by (metis surj_pair)
    have s1: "sv_store s1 = sv_store s" using keepsED [OF f 1] by (simp add: same_store_def)
    have t1: "trail actor_cli s s1" using s1 by (simp add: same_audit_trail)
    show ?thesis
    proof (cases r1)
      case (Inl e)
      then show ?thesis using o 1 t1 by (auto simp: or_panic_def cmdTelegramConfigSet_def)
    next
      case (Inr token)
      show ?thesis
      proof (cases "SetTelegram valid post (now_s C) actor_cli admin token s1")
        case None
        then show ?thesis using o 1 Inr by (auto simp: or_panic_def cmdTelegramConfigSet_def trail_def)
      next
        case (Some q)
        obtain r2 s2 where q: "q = (r2, s2)" by (cases q)
        note S = SetTelegram_trail [OF Some [unfolded q]]
        have t2: "trail actor_cli s s2" using t1 S(1) trail_trans by (blast dest: transpD)
        show ?thesis
        proof (cases r2)
          case (Inl e)
          then show ?thesis using o 1 Inr Some q t2 by (auto simp: or_panic_def cmdTelegramConfigSet_def)
        next
          case r2: (Inr u)
          have out: "keepsE same_store (output_result C v (print_lines ls))" for v ls by (intro sh.showing)
          have "same_store s2 s'" using o 1 Inr Some q r2 keepsED [OF out]
            by (simp add: or_panic_def cmdTelegramConfigSet_def Let_def)
          then have s': "sv_store s' = sv_store s2" by (simp add: same_store_def)
          show ?thesis using S(2) [OF r2] t2 s1 s' by (simp add: trail_def grew_def)
        qed
      qed
    qed
  qed
  then show ?thesis unfolding noted_def keepsE_def by blast
qed

subsection \<open>init\<close>

text \<open>\<^verbatim>\<open>init\<close> acts as the system.\<close>

lemma init_trail: "keepsE (trail ''system'') (cmdInit C a)"
proof -
  have files: "trail ''system'' s (s\<lparr>sv_fs := f\<rparr>)" for s :: "('w terminal) srv" and f by (rule tr.files)
  have after: "keepsE (trail ''system'') m \<Longrightarrow> m (s\<lparr>sv_fs := f\<rparr>) = (r, s') \<Longrightarrow> trail ''system'' s s'"
    for m :: "('w, unit) command" and s f r s' by (rule tr.rd.after_files)
  have ca: "keepsE (trail ''system'') (init_ca C a pass)" for pass
  proof -
    have n: "keepsE (trail ''system'') (bindE (audit now ''system'' act d) (\<lambda>_. progress C t))" for now act d t
      by (intro trail_rules tt.showing)
    have o: "keepsE (trail ''system'') (bindE (onFS PkiErr (CheckPassphrase px dir pass)) (\<lambda>_. progress C t))" for px dir t
      by (intro tt.showing)
    show ?thesis using after [OF n] after [OF o] files
      by (auto simp: keepsE_def init_ca_def Let_def split: prod.splits sum.splits pki_error.splits)
  qed
  have cert: "keepsE (trail ''system'') (init_server_cert C a pass)" for pass
  proof -
    have "keepsE (trail ''system'') (if found then progress C t
      else bindE (onFS PkiErr (Issue px en dir k cn days pass)) (\<lambda>ic.
        bindE (WriteServerCert en cp kp ic) (\<lambda>_. bindE (audit now ''system'' act d) (\<lambda>_. progress C t2))))"
      for found t px en dir k cn days cp kp now act d t2
      by (intro trail_rules tt.showing)
    from after [OF this] show ?thesis by (auto simp: keepsE_def init_server_cert_def Let_def split: prod.splits)
  qed
  have conf: "keepsE (trail ''system'') (init_config C a)"
    unfolding init_config_def by (intro trail_rules tt.showing)
  have add: "keepsE (trail ''system'') (AddUser_api P now ''system'' n pw role)" for P now n pw role
    by (rule entered_trail [OF entered_actions(1)])
  have admin: "keepsE (trail ''system'') (init_admin C a)"
  proof -
    let ?m = "bindE (if cx_getenv C ''OVCP_USER_PASSWORD'' = [] then eprintln (''create admin user '' @ Quote (cx_print C) (na_Admin a))
      else pureE (Inr ())) (\<lambda>_. bindE (readSecret C ''Password'' ''OVCP_USER_PASSWORD'' True) (\<lambda>pw.
      bindE (AddUser_api (cli_policy C) (now_s C) ''system'' (na_Admin a) pw ''admin'') (\<lambda>_.
      progress C (''[5/5] admin user created: '' @ na_Admin a @ NL))))"
    have "keepsE (trail ''system'') ?m" by (intro tt.showing add)
    moreover have "keepsE (trail ''system'') (progress C t)" for t by (intro tt.showing)
    ultimately show ?thesis unfolding keepsE_def init_admin_def by (simp split: if_splits)
  qed
  show ?thesis unfolding cmdInit_def by (intro tt.showing tr.rd.by_skeleton tr.rd.by_keys ca cert conf admin)
qed

end
