(* ===== verification/Cli_Main_Props.thy ===== *)
theory Cli_Main_Props
  imports Cli_Audit
begin

section \<open>The table of commands\<close>

text \<open>
  Completion offers exactly the words dispatch accepts and no list of words reaches an operation without a body; and
  the contracts of \<open>Cli_Audit\<close> hold for every command line.
\<close>

subsection \<open>Dispatch\<close>

definition is_refused :: "'w plan \<Rightarrow> bool" where
  "is_refused p = (case p of Refused _ \<Rightarrow> True | _ \<Rightarrow> False)"

lemma is_refused_simps [simp]:
  "is_refused (Refused u)" "\<not> is_refused (Run m)" "\<not> is_refused (BadFlags e)" "\<not> is_refused Unknown" "\<not> is_refused Crash"
  by (simp_all add: is_refused_def)

lemma run_body_known:
  assumes "oper \<in> fst ` set bodies"
  shows "run_body bodies X C oper rest \<noteq> Crash" "\<not> is_refused (run_body bodies X C oper rest)"
proof -
  obtain f b where "map_of bodies oper = Some (f, b)" using assms by (metis map_of_eq_None_iff not_None_eq surj_pair)
  then show "run_body bodies X C oper rest \<noteq> Crash" "\<not> is_refused (run_body bodies X C oper rest)"
    by (auto simp: run_body_def split: sum.splits)
qed

lemma opDispatch_eq:
  "opDispatch name ops desc bodies X C args = (case args of [] \<Rightarrow> Refused (opsUsage name ops desc)
     | oper # rest \<Rightarrow> if oper \<in> set ops then run_body bodies X C oper rest else Refused (opsUsage name ops desc))"
  by (simp add: opDispatch_def opArgList_def split: list.splits)

lemma opDispatch_total:
  assumes "set ops \<subseteq> fst ` set bodies"
  shows "opDispatch name ops desc bodies X C args \<noteq> Crash"
    "is_refused (opDispatch name ops desc bodies X C args) \<longleftrightarrow> args = [] \<or> args ! 0 \<notin> set ops"
proof -
  have "oper \<in> set ops \<Longrightarrow> run_body bodies X C oper rest \<noteq> Crash \<and> \<not> is_refused (run_body bodies X C oper rest)" for oper rest
    using run_body_known [OF subsetD [OF assms]] by (intro conjI)
  then show "opDispatch name ops desc bodies X C args \<noteq> Crash"
    "is_refused (opDispatch name ops desc bodies X C args) \<longleftrightarrow> args = [] \<or> args ! 0 \<notin> set ops"
    by (auto simp: opDispatch_eq split: list.splits)
qed

lemma opOrConfig_eq:
  "opOrConfig name ops desc bodies cops cbodies X C args = (case args of [] \<Rightarrow> Refused (opsUsage name ops desc)
     | oper # rest \<Rightarrow> if oper \<notin> set ops then Refused (opsUsage name ops desc)
         else if oper = ''config'' then opDispatch (name @ '' config'') cops configOpDesc cbodies X C rest
         else run_body bodies X C oper rest)"
  by (simp add: opOrConfig_def opArgList_def split: list.splits)

text \<open>A command whose words are looked up: it is refused exactly when a word is missing or is not one of those listed.\<close>

definition looked_up :: "'w command_entry \<Rightarrow> bool" where
  "looked_up c = (ce_flags c = no_flags \<and> (\<exists>ops. ce_sub c = Some ops \<and> (\<forall>X C v oper ws.
     is_refused (ce_run c X C v (oper # ws)) = (case map_of (ce_nested c) oper of
        None \<Rightarrow> oper \<notin> set ops | Some (cops, _) \<Rightarrow> ws = [] \<or> ws ! 0 \<notin> set cops))))"

lemma with_ops_looked_up: "set ops \<subseteq> fst ` set bodies \<Longrightarrow> looked_up (with_ops name alias desc ops od bodies)"
  using opDispatch_total(2) [of ops bodies] by (auto simp: looked_up_def with_ops_def)

lemma with_config_looked_up:
  assumes "set ops - {''config''} \<subseteq> fst ` set bodies" "''config'' \<in> set ops" "set cops \<subseteq> fst ` set cbodies"
  shows "looked_up (with_config name desc ops od bodies shown cops cbodies)"
proof -
  have "oper \<noteq> ''config'' \<Longrightarrow> oper \<in> set ops \<Longrightarrow> \<not> is_refused (run_body bodies X C oper ws)" for X C oper ws
    using assms(1) by (intro run_body_known) auto
  then show ?thesis using opDispatch_total(2) [OF assms(3)] assms(2)
    by (auto simp: looked_up_def with_config_def opOrConfig_eq)
qed

lemma opOrConfig_total:
  assumes "set ops - {''config''} \<subseteq> fst ` set bodies" "set cops \<subseteq> fst ` set cbodies"
  shows "opOrConfig name ops desc bodies cops cbodies X C args \<noteq> Crash"
proof -
  have "oper \<noteq> ''config'' \<Longrightarrow> oper \<in> set ops \<Longrightarrow> run_body bodies X C oper ws \<noteq> Crash" for oper ws
    using assms(1) by (intro run_body_known) auto
  then show ?thesis using opDispatch_total(1) [OF assms(2)] by (auto simp: opOrConfig_eq split: list.splits)
qed

text \<open>Every operation a table lists has a body.\<close>

lemma tables_covered:
  "set certOps \<subseteq> fst ` set certBodies" "set caOps \<subseteq> fst ` set caBodies" "set backupOps \<subseteq> fst ` set backupBodies"
  "set recordOps \<subseteq> fst ` set recordBodies" "set upstreamOps \<subseteq> fst ` set upstreamBodies" "set debugOps \<subseteq> fst ` set debugBodies"
  "set userOps \<subseteq> fst ` set userBodies" "set statsConfigOps \<subseteq> fst ` set statsConfigBodies"
  "set vpnConfigOps \<subseteq> fst ` set vpnConfigBodies" "set dnsConfigOps \<subseteq> fst ` set dnsConfigBodies"
  "set logConfigOps \<subseteq> fst ` set logConfigBodies" "set telegramConfigOps \<subseteq> fst ` set telegramConfigBodies"
  by (simp_all add: certOps_def certBodies_def caOps_def caBodies_def backupOps_def backupBodies_def recordOps_def recordBodies_def
      upstreamOps_def upstreamBodies_def debugOps_def debugBodies_def userOps_def userBodies_def statsConfigOps_def statsConfigBodies_def
      vpnConfigOps_def vpnConfigBodies_def dnsConfigOps_def dnsConfigBodies_def logConfigOps_def logConfigBodies_def
      telegramConfigOps_def telegramConfigBodies_def)

lemma config_tables_covered:
  "set vpnOps - {''config''} \<subseteq> fst ` set vpnBodies" "set dnsOps - {''config''} \<subseteq> fst ` set dnsBodies"
  "set logsOps - {''config''} \<subseteq> fst ` set logs_direct" "set telegramOps - {''config''} \<subseteq> fst ` set telegramBodies"
  "''config'' \<in> set vpnOps" "''config'' \<in> set dnsOps" "''config'' \<in> set logsOps" "''config'' \<in> set telegramOps"
  by (auto simp: vpnOps_def vpnBodies_def dnsOps_def dnsBodies_def logsOps_def logs_direct_def telegramOps_def telegramBodies_def)

lemma entry_fields [simp]:
  "ce_name (plain n d f r) = n" "ce_alias (plain n d f r) = []" "ce_sub (plain n d f r) = None" "ce_flags (plain n d f r) = f"
  "ce_run (plain n d f r) = r" "ce_nested (plain n d f r) = []"
  "ce_name (with_ops n al d ops od bs) = n" "ce_alias (with_ops n al d ops od bs) = al" "ce_sub (with_ops n al d ops od bs) = Some ops"
  "ce_flags (with_ops n al d ops od bs) = no_flags" "ce_nested (with_ops n al d ops od bs) = []"
  "ce_run (with_ops n al d ops od bs) = (\<lambda>X C v args. opDispatch n ops od bs X C args)"
  "ce_name (with_config n d ops od bs sh cops cbs) = n" "ce_alias (with_config n d ops od bs sh cops cbs) = []"
  "ce_sub (with_config n d ops od bs sh cops cbs) = Some ops" "ce_flags (with_config n d ops od bs sh cops cbs) = no_flags"
  "ce_run (with_config n d ops od bs sh cops cbs) = (\<lambda>X C v args. opOrConfig n ops od bs cops cbs X C args)"
  by (simp_all add: plain_def with_ops_def with_config_def)

lemma commands_looked_up:
  assumes "c \<in> set commands" "ce_sub c \<noteq> None" "ce_name c \<noteq> ''completion''" shows "looked_up c"
  using assms by (auto simp: commands_def intro!: with_ops_looked_up with_config_looked_up tables_covered config_tables_covered)

lemma cmdStats_run: "cmdStats X C v args \<noteq> Crash"
  by (simp add: cmdStats_def opDispatch_total(1) tables_covered)

lemma commands_run: "c \<in> set commands \<Longrightarrow> ce_run c X C v args \<noteq> Crash"
  by (auto simp: commands_def simple_def cmdStats_run opDispatch_total(1) opOrConfig_total tables_covered config_tables_covered)

subsection \<open>Completion\<close>

lemma find_command_Some:
  assumes "find_command w = Some c" shows "c \<in> set commands" "ce_name c = w \<or> ce_alias c = w"
  using assms by (auto simp: find_command_def find_Some_iff)

lemma command_word:
  assumes "find_command w = Some c" shows "\<not> flag_word w"
proof -
  have "list_all (\<lambda>c. \<not> flag_word (ce_name c) \<and> \<not> flag_word (ce_alias c)) (commands :: ('w command_entry) list)"
    by (simp add: commands_def flag_word_def)
  then show ?thesis using find_command_Some [OF assms] by (auto simp: list_all_iff)
qed

lemma parse_plain_word: "\<not> flag_word a \<Longrightarrow> parse_flags vs (a # as) = Inr (vs, a # as)"
  by simp

lemma complete_word:
  fixes c :: "'w command_entry"
  assumes "find_command w = Some c"
  shows "completeArgs env (commands :: ('w command_entry) list) (prog # w # rest) = Some (complete_command env c rest)"
  using assms command_word [OF assms] by (simp add: completeArgs_def find_command_def)

lemma plan_of_command:
  assumes "find_command w = Some c"
  shows "plan_of X C (w # ws) = (case parse_flags (ce_flags c (cx_getenv C)) ws of Inl e \<Rightarrow> BadFlags e
     | Inr (v, args) \<Rightarrow> ce_run c X C v args)"
  using assms by (simp add: plan_of_def)

lemma plan_of_total: "plan_of X C args \<noteq> Crash"
proof (cases args)
  case (Cons w ws)
  show ?thesis
  proof (cases "find_command w :: ('a command_entry) option")
    case (Some c)
    then show ?thesis using Cons commands_run [OF find_command_Some(1) [OF Some]]
      by (auto simp: plan_of_command split: sum.splits)
  qed (simp add: Cons plan_of_def)
qed (simp add: plan_of_def)



text \<open>The empty word is a command: it is the alias of every command that has none, and \<^verbatim>\<open>init\<close> is the first.\<close>

lemma empty_word_runs_init: "plan_of X C [[]] = (case parse_flags (init_flags (cx_getenv C)) [] of Inl e \<Rightarrow> BadFlags e
     | Inr (v, args) \<Rightarrow> Run (init_body X C v args))"
  by (simp add: plan_of_def find_command_def commands_def simple_def)

subsection \<open>Accountability of the commands\<close>

text \<open>The beginnings of command lines that only show something; \<^verbatim>\<open>stats\<close> shows unless it sets.\<close>

definition shown_paths :: "string list list" where
  "shown_paths = [[''status''], [''audit''], [''version''], [''completion''], [''certificate'', ''list''], [''ca'', ''status''],
     [''vpn'', ''status''], [''vpn'', ''config'', ''get''], [''vpn'', ''config'', ''preview''], [''dns'', ''status''], [''dns'', ''config'', ''get''],
     [''record'', ''list''], [''upstream'', ''list''], [''upstream'', ''status''], [''logs'', ''status''], [''logs'', ''config'', ''get''],
     [''telegram'', ''status''], [''telegram'', ''config'', ''get''], [''user'', ''list'']]"

definition shows_only :: "string \<Rightarrow> string list \<Rightarrow> bool" where
  "shows_only name args = (list_ex (\<lambda>p. take (length p) (name # args) = p) shown_paths \<or> (name = ''stats'' \<and> ''set'' \<notin> set args))"

text \<open>What a command does, by its name and the words after its flags.\<close>

definition accountable :: "string \<Rightarrow> string list \<Rightarrow> ('w, unit) command \<Rightarrow> bool" where
  "accountable name args m = (name = ''serve'' \<or> (name = ''backup'' \<and> ''restore'' \<in> set args)
     \<or> (if name = ''init'' then keepsE (trail ''system'') m
        else noted actor_cli m \<and> (shows_only name args \<longrightarrow> keepsE same_store m)))"

lemma accountable_show: "keepsE same_store m \<Longrightarrow> accountable name args m"
  by (simp add: accountable_def noted_show noted_trail)

lemma accountable_noted: "noted actor_cli m \<Longrightarrow> name \<noteq> ''init'' \<Longrightarrow> \<not> shows_only name args \<Longrightarrow> accountable name args m"
  by (simp add: accountable_def)

text \<open>The ways a table runs a body.\<close>

lemma run_body_Run:
  assumes "run_body bodies X C oper rest = Run m"
  obtains flags body v args where "(oper, flags, body) \<in> set bodies" "m = body X C v args"
proof -
  obtain flags body where b: "map_of bodies oper = Some (flags, body)"
    using assms by (auto simp: run_body_def split: option.splits)
  moreover obtain v args where "m = body X C v args" using assms b by (auto simp: run_body_def split: sum.splits)
  ultimately show thesis using that by (auto dest: map_of_SomeD)
qed

definition all_bodies :: "(string \<Rightarrow> ('w, unit) command \<Rightarrow> bool) \<Rightarrow> 'w bodies \<Rightarrow> bool" where
  "all_bodies P bodies = list_all (\<lambda>(oper, flags, body). \<forall>X C v args. P oper (body X C v args)) bodies"

lemma opDispatch_Run:
  assumes "opDispatch name ops od bodies X C args = Run m" "all_bodies P bodies"
  obtains oper rest where "args = oper # rest" "P oper m"
proof -
  obtain oper rest where a: "args = oper # rest" "run_body bodies X C oper rest = Run m"
    using assms(1) by (auto simp: opDispatch_eq split: list.splits if_splits)
  from a(2) obtain flags body v args2 where b: "(oper, flags, body) \<in> set bodies" "m = body X C v args2" by (rule run_body_Run)
  then have "P oper m" using assms(2) by (auto simp: all_bodies_def list_all_iff)
  then show thesis using that a(1) by blast
qed

lemma opOrConfig_Run:
  assumes "opOrConfig name ops od bodies cops cbodies X C args = Run m"
    and "all_bodies P bodies" "all_bodies Q cbodies"
  obtains (direct) oper rest where "args = oper # rest" "oper \<noteq> ''config''" "P oper m"
    | (config) oper rest where "args = ''config'' # oper # rest" "Q oper m"
proof -
  obtain oper rest where a: "args = oper # rest"
    and r: "(if oper = ''config'' then opDispatch (name @ '' config'') cops configOpDesc cbodies X C rest else run_body bodies X C oper rest) = Run m"
    using assms(1) by (auto simp: opOrConfig_eq split: list.splits if_splits)
  show thesis
  proof (cases "oper = ''config''")
    case True
    then have "opDispatch (name @ '' config'') cops configOpDesc cbodies X C rest = Run m" using r by simp
    then show thesis using assms(3) config a True by (metis opDispatch_Run)
  next
    case False
    then have "run_body bodies X C oper rest = Run m" using r by simp
    then obtain flags body v args2 where "(oper, flags, body) \<in> set bodies" "m = body X C v args2" by (rule run_body_Run)
    then have "P oper m" using assms(2) by (auto simp: all_bodies_def list_all_iff)
    then show thesis using direct a False by blast
  qed
qed

lemma shown_words:
  "\<not> shows_only ''certificate'' (''issue'' # r)" "\<not> shows_only ''certificate'' (''revoke'' # r)" "\<not> shows_only ''certificate'' (''renew'' # r)"
  "\<not> shows_only ''ca'' (''rotate'' # r)" "\<not> shows_only ''ca'' (''renew'' # r)" "\<not> shows_only ''backup'' (''create'' # r)"
  "oper \<noteq> ''list'' \<Longrightarrow> \<not> shows_only ''record'' (oper # r)" "oper \<noteq> ''list'' \<Longrightarrow> \<not> shows_only ''user'' (oper # r)"
  "oper \<notin> {''list'', ''status''} \<Longrightarrow> \<not> shows_only ''upstream'' (oper # r)"
  "oper \<notin> {''status'', ''config''} \<Longrightarrow> \<not> shows_only ''vpn'' (oper # r)" "oper \<notin> {''status'', ''config''} \<Longrightarrow> \<not> shows_only ''dns'' (oper # r)"
  "oper \<notin> {''status'', ''config''} \<Longrightarrow> \<not> shows_only ''telegram'' (oper # r)" "\<not> shows_only ''logs'' (''rotate'' # r)"
  "\<not> shows_only ''debug'' (oper # r)"
  "\<not> shows_only ''vpn'' (''config'' # ''set'' # r)" "\<not> shows_only ''dns'' (''config'' # ''set'' # r)" "\<not> shows_only ''logs'' (''config'' # ''set'' # r)"
  "\<not> shows_only ''telegram'' (''config'' # ''set'' # r)" "\<not> shows_only ''stats'' (''config'' # ''set'' # r)"
  by (auto simp: shows_only_def shown_paths_def)

definition table_ok :: "string \<Rightarrow> string list \<Rightarrow> 'w bodies \<Rightarrow> bool" where
  "table_ok name pre bodies = all_bodies (\<lambda>oper m. \<forall>rest. accountable name (pre @ oper # rest) m) bodies"

lemma table_ok_Nil: "table_ok name pre []"
  by (simp add: table_ok_def all_bodies_def)

lemma table_ok_Cons:
  assumes "\<And>X C v args rest. accountable name (pre @ oper # rest) (body X C v args)" "table_ok name pre bs"
  shows "table_ok name pre ((oper, flags, body) # bs)"
  using assms by (simp add: table_ok_def all_bodies_def)

lemma restore_accountable: "accountable ''backup'' (''restore'' # r) m"
  by (simp add: accountable_def)

lemmas table_rules = table_ok_Nil table_ok_Cons

lemma tables_accountable:
  "table_ok ''certificate'' [] certBodies" "table_ok ''ca'' [] caBodies" "table_ok ''backup'' [] backupBodies"
  "table_ok ''record'' [] recordBodies" "table_ok ''user'' [] userBodies" "table_ok ''upstream'' [] upstreamBodies"
  "table_ok ''stats'' [''config''] statsConfigBodies" "table_ok ''vpn'' [''config''] vpnConfigBodies" "table_ok ''dns'' [''config''] dnsConfigBodies"
  "table_ok ''logs'' [''config''] logConfigBodies" "table_ok ''logs'' [] logs_direct" "table_ok ''telegram'' [''config''] telegramConfigBodies"
  unfolding certBodies_def issue_body_def caBodies_def backupBodies_def recordBodies_def userBodies_def upstreamBodies_def statsConfigBodies_def
    vpnConfigBodies_def dnsConfigBodies_def logConfigBodies_def logs_direct_def telegramConfigBodies_def
  by (intro table_rules; simp add: accountable_show sh.showing_commands accountable_noted noted_issue noted_commands noted_telegram
      shown_words restore_accountable)+

lemma process_tables_accountable:
  "table_ok ''vpn'' [] vpnBodies" "table_ok ''dns'' [] dnsBodies" "table_ok ''telegram'' [] telegramBodies" "table_ok ''debug'' [] debugBodies"
  unfolding vpnBodies_def dnsBodies_def telegramBodies_def debugBodies_def proc_body_def list.map append.simps
  by (intro table_rules; simp add: accountable_show sh.showing_commands sh.showing_operations accountable_noted noted_commands shown_words)+

lemma opDispatch_accountable:
  assumes "opDispatch name2 ops od bodies X C args = Run m" "table_ok name pre bodies"
  shows "accountable name (pre @ args) m"
proof -
  obtain oper rest where "args = oper # rest" "\<forall>rest. accountable name (pre @ oper # rest) m"
    using assms(2) unfolding table_ok_def by (rule opDispatch_Run [OF assms(1)])
  then show ?thesis by simp
qed

lemmas opDispatch_words = opDispatch_accountable [where pre = "[]", unfolded append_Nil]

lemma opOrConfig_accountable:
  assumes "opOrConfig name2 ops od bodies cops cbodies X C args = Run m" "table_ok name [] bodies" "table_ok name [''config''] cbodies"
  shows "accountable name args m"
  by (rule opOrConfig_Run [OF assms(1) assms(2,3) [unfolded table_ok_def]]) simp_all

lemma cmdStats_accountable: "cmdStats X C v args = Run m \<Longrightarrow> accountable ''stats'' args m"
proof (cases "args \<noteq> [] \<and> args ! 0 = ''config''")
  case True
  assume "cmdStats X C v args = Run m"
  then have "opDispatch ''stats config'' statsConfigOps configOpDesc statsConfigBodies X C (tl args) = Run m" "args = ''config'' # tl args"
    using True by (auto simp: cmdStats_def drop_Suc neq_Nil_conv)
  from opDispatch_accountable [OF this(1) tables_accountable(7)] this(2) show ?thesis by simp
next
  case False
  assume "cmdStats X C v args = Run m"
  then have "m = (if bool_of v ''follow'' then (if cx_json C then pureE (Inl (Text ''-json is not supported with -follow''))
      else print (followStats C (xo_hms X) (xo_stdout_tty X) (str_of v ''cn'') (xo_frames X))) else cmdStatsShow C (str_of v ''cn''))"
    using False by (auto simp: cmdStats_def)
  then have "keepsE same_store m" by (simp only:) (intro sh.showing sh.showing_commands)
  then show ?thesis by (rule accountable_show)
qed

lemma init_accountable: "accountable ''init'' args (cmdInit C a)"
  by (simp add: accountable_def init_trail)

lemma serve_accountable: "accountable ''serve'' args m"
  by (simp add: accountable_def)

lemma commands_accountable:
  assumes "c \<in> set commands" "ce_run c X C v args = Run m" shows "accountable (ce_name c) args m"
  using assms
  by (auto simp: commands_def simple_def accountable_show sh.showing_commands sh.showing_operations init_body_def init_accountable serve_accountable
      elim!: opDispatch_words [OF _ tables_accountable(1)] opDispatch_words [OF _ tables_accountable(2)]
        opDispatch_words [OF _ tables_accountable(3)] opDispatch_words [OF _ tables_accountable(4)]
        opDispatch_words [OF _ tables_accountable(5)] opDispatch_words [OF _ tables_accountable(6)]
        opDispatch_words [OF _ process_tables_accountable(4)]
        opOrConfig_accountable [OF _ process_tables_accountable(1) tables_accountable(8)]
        opOrConfig_accountable [OF _ process_tables_accountable(2) tables_accountable(9)]
        opOrConfig_accountable [OF _ tables_accountable(11) tables_accountable(10)]
        opOrConfig_accountable [OF _ process_tables_accountable(3) tables_accountable(12)]
        cmdStats_accountable)

text \<open>A parse only drops words; a word that is no flag stops it.\<close>

lemma parse_one_words: "parse_one vs a as = Inr (ws, bs) \<Longrightarrow> set bs \<subseteq> set as"
  by (auto simp: parse_one_def flag_arg_def Let_def split: if_splits prod.splits option.splits sum.splits list.splits)

lemma parse_flags_words: "parse_flags vs as = Inr (ws, bs) \<Longrightarrow> set bs \<subseteq> set as"
proof (induction vs as rule: parse_flags.induct)
  case (2 vs a as)
  show ?case
  proof (cases "flag_word a \<and> a \<noteq> ''--''")
    case True
    then obtain vs2 cs where "parse_one vs a as = Inr (vs2, cs)" "parse_flags vs2 cs = Inr (ws, bs)"
      using "2.prems" by (auto split: sum.splits)
    then show ?thesis using "2.IH" [of "(vs2, cs)" vs2 cs] parse_one_words True by fastforce
  next
    case False
    then show ?thesis using "2.prems" by (auto split: if_splits)
  qed
qed simp

lemma shown_path_words: "p \<in> set shown_paths \<Longrightarrow> (\<exists>x. p = [x]) \<or> (\<exists>x y q. p = x # y # q \<and> \<not> flag_word y)"
  by (auto simp: shown_paths_def flag_word_def)

lemma shows_only_parsed:
  assumes "shows_only name ws" "parse_flags fl ws = Inr (v, args)" shows "shows_only name args"
proof (cases "name = ''stats'' \<and> ''set'' \<notin> set ws")
  case True
  then show ?thesis using parse_flags_words [OF assms(2)] by (auto simp: shows_only_def)
next
  case False
  then obtain p where p: "p \<in> set shown_paths" "take (length p) (name # ws) = p"
    using assms(1) by (auto simp: shows_only_def list_ex_iff)
  from shown_path_words [OF p(1)] show ?thesis
  proof (elim disjE exE conjE)
    fix x assume "p = [x]"
    then have "take (length p) (name # args) = p" using p(2) by simp
    then show ?thesis using p(1) by (auto simp: shows_only_def list_ex_iff)
  next
    fix x y q assume q: "p = x # y # q" "\<not> flag_word y"
    then obtain r where "ws = y # r" using p(2) by (cases ws) auto
    then have "args = ws" using assms(2) parse_plain_word [OF q(2)] by simp
    then show ?thesis using assms(1) by simp
  qed
qed



end
