(* ===== verification/Api_Response.thy ===== *)
theory Api_Response
  imports Api_Http "HOL-Library.AList"
begin

section \<open>Responses\<close>

text \<open>
  What \<^verbatim>\<open>src/internal/api/api.go\<close> sends back: the security headers around every handler, the result or the error of a handler, the
  level a request is logged at, and the path the embedded UI is asked for. A \<open>writer\<close> is \<^verbatim>\<open>http.ResponseWriter\<close> inside the
  \<^verbatim>\<open>statusWriter\<close> of the code: the status and headers go out with the first write, later changes to either have no effect.
\<close>

text \<open>\<open>wr_status\<close> is the field of \<^verbatim>\<open>statusWriter\<close>, set by \<^verbatim>\<open>WriteHeader\<close> only.\<close>

record writer =
  wr_header :: "(string \<times> string) list"
  wr_sent :: "(int \<times> (string \<times> string) list) option"
  wr_body :: string
  wr_status :: int

definition new_writer :: writer where
  "new_writer = \<lparr>wr_header = [], wr_sent = None, wr_body = [], wr_status = 200\<rparr>"

definition set_header :: "string \<Rightarrow> string \<Rightarrow> writer \<Rightarrow> writer" where
  "set_header k v w = w\<lparr>wr_header := AList.update k v (wr_header w)\<rparr>"

definition send_head :: "int \<Rightarrow> writer \<Rightarrow> writer" where
  "send_head code w = (if wr_sent w = None then w\<lparr>wr_sent := Some (code, wr_header w)\<rparr> else w)"

definition WriteHeader :: "int \<Rightarrow> writer \<Rightarrow> writer" where
  "WriteHeader code w = send_head code (w\<lparr>wr_status := code\<rparr>)"

definition write_bytes :: "string \<Rightarrow> writer \<Rightarrow> writer" where
  "write_bytes d w = (let w1 = send_head 200 w in w1\<lparr>wr_body := wr_body w1 @ d\<rparr>)"

subsection \<open>Results and errors\<close>

text \<open>\<open>dl_chunks\<close> is what \<^verbatim>\<open>Write\<close> writes and \<open>dl_error\<close> the text of the error it ends with.\<close>

record download =
  dl_Name :: string
  dl_Type :: string
  dl_chunks :: "string list"
  dl_error :: "string option"

datatype 'a served = Document 'a | Attachment download

text \<open>\<open>enc_error\<close> is the JSON of an error's text, \<open>enc\<close> that of a result, None when it has none.\<close>

definition jsonErr :: "(string \<Rightarrow> string) \<Rightarrow> int \<Rightarrow> string \<Rightarrow> writer \<Rightarrow> writer" where
  "jsonErr enc_error code msg w = write_bytes (enc_error msg) (WriteHeader code (set_header ''Content-Type'' ''application/json'' w))"

definition send_download :: "(string \<Rightarrow> string) \<Rightarrow> download \<Rightarrow> writer \<Rightarrow> writer" where
  "send_download enc_error d w =
     (let w1 = fold write_bytes (dl_chunks d)
        (set_header ''Content-Disposition'' (''attachment; filename='' @ [DQ] @ dl_Name d @ [DQ]) (set_header ''Content-Type'' (dl_Type d) w)) in
      case dl_error d of None \<Rightarrow> w1 | Some e \<Rightarrow> jsonErr enc_error 500 e w1)"

definition send_result :: "(string \<Rightarrow> string) \<Rightarrow> (api_error \<Rightarrow> string) \<Rightarrow> ('a \<Rightarrow> string option) \<Rightarrow> (api_error, 'a served) result \<Rightarrow> writer \<Rightarrow> writer" where
  "send_result enc_error err_text enc r w = (case r of
     Inl e \<Rightarrow> jsonErr enc_error (respond r) (err_text e) w
   | Inr (Document v) \<Rightarrow> (let w1 = set_header ''Content-Type'' ''application/json'' w in
       case enc v of None \<Rightarrow> w1 | Some t \<Rightarrow> write_bytes t w1)
   | Inr (Attachment d) \<Rightarrow> send_download enc_error d w)"

subsection \<open>Around every handler\<close>

definition security_headers :: "(string \<times> string) list" where
  "security_headers = [(''Strict-Transport-Security'', ''max-age=31536000''), (''X-Content-Type-Options'', ''nosniff''),
     (''X-Frame-Options'', ''DENY''),
     (''Content-Security-Policy'', ''default-src 'self'; style-src 'self' 'unsafe-inline'; img-src 'self' data:''),
     (''Referrer-Policy'', ''no-referrer''), (''Permissions-Policy'', ''geolocation=(), microphone=(), camera=()'')]"

definition secureHeaders :: "writer \<Rightarrow> writer" where
  "secureHeaders = fold (\<lambda>(k, v). set_header k v) security_headers"

text \<open>\<open>has\<close> tells which files the UI has; the path given to the file server.\<close>

definition spa :: "(string \<Rightarrow> bool) \<Rightarrow> string \<Rightarrow> string" where
  "spa has path = (let p = trim_prefix path ''/''; p1 = (if p = [] then ''index.html'' else p) in if has p1 then path else ''/'')"

datatype log_level = LevelDebug | LevelWarn

definition request_level :: "writer \<Rightarrow> log_level" where
  "request_level w = (if wr_status w \<ge> 500 then LevelWarn else LevelDebug)"

text \<open>A request: \<open>input\<close> decodes what the handler reads, None for a body that is no JSON of it; \<open>run\<close> is the handler, which may set
  headers (cookies) itself; \<open>other\<close> answers what no route matches.\<close>

definition serve_request :: "(string \<Rightarrow> string) \<Rightarrow> (api_error \<Rightarrow> string) \<Rightarrow> ('a \<Rightarrow> string option) \<Rightarrow> (request \<Rightarrow> 'i option)
    \<Rightarrow> (string \<Rightarrow> user option \<Rightarrow> 'i \<Rightarrow> writer \<Rightarrow> (api_error, 'a served) result \<times> writer) \<Rightarrow> (request \<Rightarrow> writer \<Rightarrow> writer)
    \<Rightarrow> crypto \<Rightarrow> int \<Rightarrow> service \<Rightarrow> request \<Rightarrow> writer" where
  "serve_request enc_error err_text enc input run other cr now a rq =
     (let w = secureHeaders new_writer in
      case Handler cr now a rq of
        Rejected code msg \<Rightarrow> jsonErr enc_error code msg w
      | NotFound \<Rightarrow> other rq w
      | Served h u \<Rightarrow> (case input rq of
          None \<Rightarrow> jsonErr enc_error 400 ''bad json'' w
        | Some i \<Rightarrow> (case run h u i w of (r, w1) \<Rightarrow> send_result enc_error err_text enc r w1)))"

text \<open>What the client gets: a handler that wrote nothing sends 200 and the headers it set.\<close>

definition response_head :: "writer \<Rightarrow> int \<times> (string \<times> string) list" where
  "response_head w = (case wr_sent w of None \<Rightarrow> (200, wr_header w) | Some h \<Rightarrow> h)"

subsection \<open>Every response has the security headers\<close>

text \<open>\<open>secured\<close>: the headers are set, and were when the head of the response went out.\<close>

definition has_headers :: "(string \<times> string) list \<Rightarrow> bool" where
  "has_headers hs = list_all (\<lambda>(k, v). map_of hs k = Some v) security_headers"

definition secured :: "writer \<Rightarrow> bool" where
  "secured w = (has_headers (wr_header w) \<and> (case wr_sent w of None \<Rightarrow> True | Some (_, hs) \<Rightarrow> has_headers hs))"

lemma secured_fields [simp]:
  "secured (w\<lparr>wr_status := c\<rparr>) = secured w" "secured (w\<lparr>wr_body := b\<rparr>) = secured w"
  by (simp_all add: secured_def)

lemma secured_set_header: "secured w \<Longrightarrow> k \<notin> fst ` set security_headers \<Longrightarrow> secured (set_header k v w)"
  by (auto simp: secured_def has_headers_def set_header_def security_headers_def update_conv)

lemma secured_send_head: "secured w \<Longrightarrow> secured (send_head c w)"
  by (simp add: secured_def send_head_def)

lemma secured_write: "secured w \<Longrightarrow> secured (write_bytes d w)" "secured w \<Longrightarrow> secured (WriteHeader c w)"
  by (simp_all add: write_bytes_def WriteHeader_def Let_def secured_send_head)

lemma secured_chunks: "secured w \<Longrightarrow> secured (fold write_bytes ds w)"
  by (induction ds arbitrary: w) (simp_all add: secured_write)

lemma secured_content: "secured w \<Longrightarrow> secured (set_header ''Content-Type'' v w)" "secured w \<Longrightarrow> secured (set_header ''Content-Disposition'' v w)"
  by (rule secured_set_header, simp, simp add: security_headers_def)+

lemma secured_jsonErr: "secured w \<Longrightarrow> secured (jsonErr enc_error c msg w)"
  unfolding jsonErr_def by (intro secured_write secured_content)

lemma secured_result: "secured w \<Longrightarrow> secured (send_result enc_error err_text enc r w)"
  by (auto simp: send_result_def send_download_def Let_def intro!: secured_jsonErr secured_write secured_chunks secured_content
      split: sum.splits served.splits option.splits)

lemma secured_start: "secured (secureHeaders new_writer)"
  by (simp add: secureHeaders_def security_headers_def secured_def has_headers_def set_header_def new_writer_def)

lemma serve_request_secured:
  assumes "\<And>h u i w. secured w \<Longrightarrow> secured (snd (run h u i w))" "\<And>w. secured w \<Longrightarrow> secured (other rq w)"
  shows "has_headers (snd (response_head (serve_request enc_error err_text enc input run other cr now a rq)))"
proof -
  have run: "run h u i (secureHeaders new_writer) = (r, w1) \<Longrightarrow> secured w1" for h u i r w1
    using assms(1) [OF secured_start, of h u i] by simp
  have "secured (serve_request enc_error err_text enc input run other cr now a rq)"
    using run
    by (auto simp: serve_request_def Let_def secured_start intro!: secured_jsonErr secured_result assms(2)
        split: outcome.splits option.splits prod.splits)
  then show ?thesis by (auto simp: secured_def response_head_def split: option.splits)
qed

subsection \<open>Status\<close>

lemma write_bytes_sent: "wr_sent (write_bytes d w) = (case wr_sent w of None \<Rightarrow> Some (200, wr_header w) | Some h \<Rightarrow> Some h)"
  by (simp add: write_bytes_def send_head_def Let_def split: option.splits)

lemma chunks_keep: "wr_sent w = Some h \<Longrightarrow> wr_sent (fold write_bytes ds w) = Some h"
  by (induction ds arbitrary: w) (simp_all add: write_bytes_sent)

lemma set_header_sent [simp]: "wr_sent (set_header k v w) = wr_sent w"
  by (simp add: set_header_def)

lemma jsonErr_sent: "wr_sent (jsonErr enc_error code msg w)
    = (case wr_sent w of None \<Rightarrow> Some (code, wr_header (set_header ''Content-Type'' ''application/json'' w)) | Some h \<Rightarrow> Some h)"
  by (simp add: jsonErr_def write_bytes_sent WriteHeader_def send_head_def set_header_def split: option.splits)

lemma chunks_head: "wr_sent w = None \<Longrightarrow> fst (response_head (fold write_bytes ds w)) = 200"
proof (cases ds)
  case (Cons d ds2)
  assume "wr_sent w = None"
  then have "wr_sent (write_bytes d w) = Some (200, wr_header w)" by (simp add: write_bytes_sent)
  then show ?thesis using chunks_keep [of "write_bytes d w"] Cons by (simp add: response_head_def)
qed (simp add: response_head_def)

text \<open>The status of a result that nothing was sent before is the one computed for it.\<close>

lemma send_result_status:
  assumes "wr_sent w = None" "case r of Inr (Attachment d) \<Rightarrow> dl_error d = None | _ \<Rightarrow> True"
  shows "fst (response_head (send_result enc_error err_text enc r w)) = respond r"
proof (cases r)
  case (Inl e)
  then show ?thesis using assms(1) by (simp add: send_result_def response_head_def jsonErr_sent)
next
  case (Inr a)
  have 200: "respond r = 200" using Inr by (simp add: respond_def)
  show ?thesis
  proof (cases a)
    case (Document v)
    then show ?thesis using Inr 200 assms(1)
      by (auto simp: send_result_def Let_def response_head_def write_bytes_sent split: option.splits)
  next
    case (Attachment d)
    then show ?thesis using Inr 200 assms chunks_head
      by (simp add: send_result_def send_download_def Let_def)
  qed
qed

text \<open>An error after the first bytes of a download comes too late: the client has status 200 and finds the error's JSON
  at the end of the file, while the log has a 500.\<close>

lemma late_download_error:
  assumes "wr_sent w = None" "dl_chunks d = c # cs" "dl_error d = Some e"
  shows "fst (response_head (send_download enc_error d w)) = 200 \<and> request_level (send_download enc_error d w) = LevelWarn
    \<and> (\<exists>b. wr_body (send_download enc_error d w) = b @ enc_error e)"
proof -
  define w1 where "w1 = fold write_bytes (dl_chunks d)
    (set_header ''Content-Disposition'' (''attachment; filename='' @ [DQ] @ dl_Name d @ [DQ]) (set_header ''Content-Type'' (dl_Type d) w))"
  have s: "wr_sent w1 \<noteq> None" "fst (response_head w1) = 200"
    using chunks_head [of "set_header ''Content-Disposition'' (''attachment; filename='' @ [DQ] @ dl_Name d @ [DQ])
        (set_header ''Content-Type'' (dl_Type d) w)" "dl_chunks d"] assms(1,2)
    by (auto simp: w1_def chunks_keep write_bytes_sent)
  have d: "send_download enc_error d w = jsonErr enc_error 500 e w1"
    using assms(3) by (simp add: send_download_def w1_def Let_def)
  show ?thesis using s unfolding d
    by (auto simp: response_head_def jsonErr_sent request_level_def)
      (simp_all add: jsonErr_def write_bytes_def WriteHeader_def send_head_def Let_def set_header_def)
qed

end
