(* ===== verification/Api_Types.thy ===== *)
theory Api_Types
  imports Go_Prelude Go_Strings "HOL-Library.AList" "HOL-Library.Char_ord" "HOL-Library.List_Lexorder"
begin

section \<open>The web API as TypeScript declarations\<close>

text \<open>
  \<^verbatim>\<open>src/internal/api/ts.go\<close>: the generator that describes the inputs and outputs of the routes to the web UI, run by
  \<^verbatim>\<open>cmd/apits\<close> when building. It reads Go types by reflection; \<open>gtype\<close> is what it sees of one. A defined type is a name into an
  environment, so that types may refer to themselves; \<open>GPatch\<close> is an instance of the generic \<^verbatim>\<open>Patch\<close>. A recursion
  through types that are not named structs does not end in the code; \<open>k\<close> bounds how many defined or struct types are entered on the way to a
  type, and \<open>Deep\<close> is its end.
\<close>

datatype basic = KString | KBool | KNumber | KUint8 | KOther

text \<open>\<open>fd_json\<close> is the text of the field's \<^verbatim>\<open>json\<close> tag.\<close>

datatype gtype =
    GNamed string
  | GPtr gtype
  | GSlice gtype
  | GMap gtype gtype
  | GPatch gtype
  | GBasic basic
  | GStruct "gfield list"
and gfield = GField (fd_Name: string) (fd_json: string) (fd_Anonymous: bool) (fd_Exported: bool) (fd_Type: gtype)

text \<open>A defined type: its name without the package, what it is defined as, and whether it or a pointer to it has a \<^verbatim>\<open>MarshalJSON\<close> or
  \<^verbatim>\<open>MarshalText\<close> of its own.\<close>

record tdef =
  td_Name :: string
  td_under :: gtype
  td_json :: bool
  td_text :: bool

type_synonym tenv = "(string \<times> tdef) list"

datatype ts_panic = OwnMarshalJSON gtype | SharedName string string | Unsupported gtype | NilPatch | Deep

text \<open>\<open>gn_types\<close> maps a name to the type it stands for, \<open>gn_decls\<close> to its declaration.\<close>

record tsGen =
  gn_decls :: "(string \<times> string) list"
  gn_types :: "(string \<times> string) list"

type_synonym 'a gen = "(tsGen, ts_panic, 'a) step"

subsection \<open>Fields\<close>

definition under :: "tenv \<Rightarrow> gtype \<Rightarrow> gtype" where
  "under env t = (case t of
     GNamed i \<Rightarrow> (case map_of env i of None \<Rightarrow> GBasic KOther | Some d \<Rightarrow> td_under d)
   | GPatch _ \<Rightarrow> GStruct [GField ''raw'' [] False False (GSlice (GBasic KUint8))]
   | _ \<Rightarrow> t)"

definition has_method :: "(tdef \<Rightarrow> bool) \<Rightarrow> tenv \<Rightarrow> gtype \<Rightarrow> bool" where
  "has_method m env t = (case t of
     GNamed i \<Rightarrow> (case map_of env i of None \<Rightarrow> False | Some d \<Rightarrow> m d)
   | GPtr (GNamed i) \<Rightarrow> (case map_of env i of None \<Rightarrow> False | Some d \<Rightarrow> m d)
   | _ \<Rightarrow> False)"

record jsonFieldOf =
  jf_name :: string
  jf_optional :: bool
  jf_Type :: gtype

definition tag_parts :: "string \<Rightarrow> string \<times> string" where
  "tag_parts tag = (case cut_c CHR '','' tag of None \<Rightarrow> (tag, []) | Some p \<Rightarrow> p)"

definition own_field :: "gfield \<Rightarrow> jsonFieldOf list" where
  "own_field f = (case tag_parts (fd_json f) of (name, opts) \<Rightarrow>
     if name = ''-'' \<or> \<not> fd_Exported f then []
     else [\<lparr>jf_name = (if name = [] then fd_Name f else name), jf_optional = (contains_s opts ''omitempty'' \<or> contains_s opts ''omitzero''),
       jf_Type = fd_Type f\<rparr>])"

text \<open>The fields of an embedded struct without a tag, with the environment for its own ones: a struct does not contain itself.\<close>

definition embedded :: "tenv \<Rightarrow> gfield \<Rightarrow> (tenv \<times> gfield list) option" where
  "embedded env f = (if \<not> fd_Anonymous f \<or> fst (tag_parts (fd_json f)) \<noteq> [] then None
     else (case fd_Type f of
       GNamed i \<Rightarrow> (case under env (GNamed i) of GStruct fs \<Rightarrow> Some (AList.delete i env, fs) | _ \<Rightarrow> None)
     | GPatch _ \<Rightarrow> Some (env, [])
     | _ \<Rightarrow> None))"

lemma delete_shorter: "map_of env i \<noteq> None \<Longrightarrow> length (AList.delete i env) < length env"
proof (induction env)
  case (Cons x env)
  have "length (AList.delete i env) \<le> length env" by (simp add: AList.delete_eq)
  then show ?case using Cons by (cases x) (auto simp: AList.delete_eq less_Suc_eq_le split: if_splits)
qed simp

lemma embedded_smaller: "embedded env f = Some (env1, sub) \<Longrightarrow> length env1 < length env \<or> env1 = env \<and> sub = []"
  by (auto simp: embedded_def under_def intro: delete_shorter split: if_splits gtype.splits option.splits)

function jsonFields :: "tenv \<Rightarrow> gfield list \<Rightarrow> jsonFieldOf list" where
  "jsonFields env [] = []"
| "jsonFields env (f # fs) =
     (case embedded env f of Some (env1, sub) \<Rightarrow> jsonFields env1 sub | None \<Rightarrow> own_field f) @ jsonFields env fs"
  by pat_completeness auto
termination
  by (relation "measures [length \<circ> fst, length \<circ> snd]") (auto dest: embedded_smaller)

definition jsonField :: "tenv \<Rightarrow> gfield list \<Rightarrow> string \<Rightarrow> jsonFieldOf option" where
  "jsonField env fs name = List.find (\<lambda>f. jf_name f = name) (jsonFields env fs)"

text \<open>A route's wildcard names a string field of what its handler reads.\<close>

definition checked_wildcard :: "tenv \<Rightarrow> gtype \<Rightarrow> string \<Rightarrow> bool" where
  "checked_wildcard env inp name = (case under env inp of
     GStruct fs \<Rightarrow> (case jsonField env fs name of None \<Rightarrow> False | Some f \<Rightarrow> under env (jf_Type f) = GBasic KString)
   | _ \<Rightarrow> False)"

subsection \<open>Types\<close>

definition see_type :: "string \<Rightarrow> string \<Rightarrow> unit gen" where
  "see_type name i g = (Inr (), g\<lparr>gn_types := (name, i) # gn_types g\<rparr>)"

definition declare_type :: "string \<Rightarrow> string \<Rightarrow> unit gen" where
  "declare_type name body g = (Inr (), g\<lparr>gn_decls := (name, body) # gn_decls g\<rparr>)"

text \<open>A named struct: its name, declared on the first visit.\<close>

definition named_struct :: "string \<Rightarrow> string \<Rightarrow> string gen \<Rightarrow> string gen" where
  "named_struct name i flds =
     bindE (getE (\<lambda>g. map_of (gn_types g) name)) (\<lambda>seen. case seen of
       Some j \<Rightarrow> pureE (if j \<noteq> i then Inl (SharedName i j) else Inr name)
     | None \<Rightarrow> bindE (see_type name i) (\<lambda>_. bindE flds (\<lambda>body. bindE (declare_type name body) (\<lambda>_. pureE (Inr name)))))"

definition array_of :: "string \<Rightarrow> string" where
  "array_of e = (if CHR '' '' \<in> set e \<or> CHR ''|'' \<in> set e then ''('' @ e @ '')[]'' else e @ ''[]'')"

definition field_text :: "jsonFieldOf \<Rightarrow> string \<Rightarrow> string" where
  "field_text f t = '' '' @ jf_name f @ (if jf_optional f then ''?'' else []) @ '': '' @ t @ '';''"

definition braced :: "string \<Rightarrow> string" where
  "braced fs = (if fs = [] then ''Record<string, never>'' else ''{'' @ fs @ '' }'')"

definition basic_text :: "basic \<Rightarrow> string gen" where
  "basic_text b = pureE (case b of KString \<Rightarrow> Inr ''string'' | KBool \<Rightarrow> Inr ''boolean'' | KNumber \<Rightarrow> Inr ''number''
     | _ \<Rightarrow> Inl (Unsupported (GBasic b)))"

definition ptr_text :: "string gen \<Rightarrow> string gen" where
  "ptr_text m = bindE m (\<lambda>e. pureE (Inr (e @ '' | null'')))"

definition slice_text :: "tenv \<Rightarrow> gtype \<Rightarrow> string gen \<Rightarrow> string gen" where
  "slice_text env t m = (if under env t = GBasic KUint8 then pureE (Inr ''string'') else bindE m (\<lambda>e. pureE (Inr (array_of e))))"

definition map_text :: "string gen \<Rightarrow> string gen \<Rightarrow> string gen" where
  "map_text m n = bindE m (\<lambda>a. bindE n (\<lambda>b. pureE (Inr (''Record<'' @ a @ '', '' @ b @ ''>''))))"

definition struct_text :: "string gen \<Rightarrow> string gen" where
  "struct_text m = bindE m (\<lambda>fs. pureE (Inr (braced fs)))"

definition is_patch :: "gtype \<Rightarrow> bool" where
  "is_patch t = (case t of GPatch _ \<Rightarrow> True | _ \<Rightarrow> False)"

text \<open>\<open>ts\<close> on a type, \<open>ts_fields\<close> on the fields of a struct.\<close>

function (sequential) ts :: "tenv \<Rightarrow> nat \<Rightarrow> gtype \<Rightarrow> string gen" and ts_fields :: "tenv \<Rightarrow> nat \<Rightarrow> jsonFieldOf list \<Rightarrow> string gen" where
  "ts env k (GBasic b) = basic_text b"
| "ts env k (GPatch t) = ts env k t"
| "ts env k (GPtr t) = (if is_patch t then pureE (Inl NilPatch)
     else if has_method td_json env (GPtr t) then pureE (Inl (OwnMarshalJSON (GPtr t)))
     else if has_method td_text env (GPtr t) then pureE (Inr ''string'')
     else ptr_text (ts env k t))"
| "ts env k (GSlice t) = slice_text env t (ts env k t)"
| "ts env k (GMap a b) = map_text (ts env k a) (ts env k b)"
| "ts env 0 t = pureE (Inl Deep)"
| "ts env (Suc k) (GStruct fs) = struct_text (ts_fields env k (jsonFields env fs))"
| "ts env (Suc k) (GNamed i) =
     (if i = ''time.Time'' then pureE (Inr ''string'')
      else if i = ''api.Download'' then pureE (Inr ''Download'')
      else if has_method td_json env (GNamed i) then pureE (Inl (OwnMarshalJSON (GNamed i)))
      else if has_method td_text env (GNamed i) then pureE (Inr ''string'')
      else (case map_of env i of None \<Rightarrow> pureE (Inl (Unsupported (GNamed i)))
        | Some d \<Rightarrow> (case td_under d of
            GStruct fs \<Rightarrow> (let js = jsonFields env fs; body = struct_text (ts_fields env k js) in
              if js = [] then body else named_struct (td_Name d) i body)
          | GBasic b \<Rightarrow> basic_text b
          | GPtr e \<Rightarrow> ptr_text (ts env k e)
          | GSlice e \<Rightarrow> slice_text env e (ts env k e)
          | GMap a b \<Rightarrow> map_text (ts env k a) (ts env k b)
          | u \<Rightarrow> pureE (Inl (Unsupported u)))))"
| "ts_fields env k [] = pureE (Inr [])"
| "ts_fields env k (f # fs) = bindE (ts env k (jf_Type f)) (\<lambda>t. bindE (ts_fields env k fs) (\<lambda>r. pureE (Inr (field_text f t @ r))))"
  by pat_completeness auto
termination
  by (relation "measures [\<lambda>x. case x of Inl (_, k, _) \<Rightarrow> k | Inr (_, k, _) \<Rightarrow> k,
     \<lambda>x. case x of Inl (_, _, t) \<Rightarrow> size t | Inr (_, _, fs) \<Rightarrow> Suc (sum_list (map (\<lambda>f. Suc (size (jf_Type f))) fs))]") auto

subsection \<open>The file\<close>

text \<open>The routes with the types they read and return. A pattern has no character \<^verbatim>\<open>%q\<close> escapes.\<close>

type_synonym typed_route = "string \<times> gtype \<times> gtype"

definition route_line :: "tenv \<Rightarrow> nat \<Rightarrow> typed_route \<Rightarrow> string gen" where
  "route_line env k r = (case r of (pat, inp, out) \<Rightarrow>
     bindE (ts env k inp) (\<lambda>i. bindE (ts env k out) (\<lambda>o1. pureE (Inr (''  '' @ [DQ] @ pat @ [DQ] @ '': { in: Partial<'' @ i @ ''>; out: '' @ o1 @ '' }'' @ NL)))))"

fun route_lines :: "tenv \<Rightarrow> nat \<Rightarrow> typed_route list \<Rightarrow> string gen" where
  "route_lines env k [] = pureE (Inr [])"
| "route_lines env k (r # rs) = bindE (route_line env k r) (\<lambda>l. bindE (route_lines env k rs) (\<lambda>ls. pureE (Inr (l @ ls))))"

definition declarations :: "(string \<times> string) list \<Rightarrow> string" where
  "declarations ds = concat (map (\<lambda>n. ''export interface '' @ n @ '' '' @ the (map_of ds n) @ NL) (sort (remdups (map fst ds))))"

definition TypeScript :: "tenv \<Rightarrow> nat \<Rightarrow> typed_route list \<Rightarrow> (ts_panic, string) result" where
  "TypeScript env k rs = (case route_lines env k rs \<lparr>gn_decls = [], gn_types = []\<rparr> of
     (Inl p, _) \<Rightarrow> Inl p
   | (Inr ls, g) \<Rightarrow> Inr (''// Generated from internal/api's routes by `go run ./cmd/apits`; do not edit.'' @ NL @ NL @ ''export interface Routes {'' @ NL
       @ ls @ ''}'' @ NL @ NL @ ''export interface Download { blob: Blob; filename: string }'' @ NL @ declarations (gn_decls g)))"

end
