(* ===== verification/Api_Types_Props.thy ===== *)
theory Api_Types_Props
  imports Api_Types
begin

section \<open>The generated declarations are complete\<close>

text \<open>
  Every name the generator writes has exactly one declaration in the end; and for types that refer to themselves through named structs
  only the bound on the depth is never reached, however often they do.
\<close>

subsection \<open>Every name is declared\<close>

definition seen_names :: "tsGen \<Rightarrow> string set" where
  "seen_names g = fst ` set (gn_types g)"

definition pending :: "tsGen \<Rightarrow> string set" where
  "pending g = seen_names g - fst ` set (gn_decls g)"

definition gen_ok :: "tsGen \<Rightarrow> bool" where
  "gen_ok g = (fst ` set (gn_decls g) \<subseteq> seen_names g \<and> distinct (map fst (gn_decls g)))"

definition advances :: "tsGen \<Rightarrow> tsGen \<Rightarrow> bool" where
  "advances g g' = (gen_ok g \<longrightarrow> gen_ok g' \<and> seen_names g \<subseteq> seen_names g' \<and> pending g' = pending g)"

definition succeeds_by :: "'a gen \<Rightarrow> bool" where
  "succeeds_by m = (\<forall>g v g'. m g = (Inr v, g') \<longrightarrow> advances g g')"

lemma advances_refl: "advances g g"
  by (simp add: advances_def)

lemma advances_trans: "advances g h \<Longrightarrow> advances h k \<Longrightarrow> advances g k"
  by (auto simp: advances_def)

lemma succeeds_pure: "succeeds_by (pureE r)"
  by (auto simp: succeeds_by_def pureE_def advances_refl)

lemma succeeds_bind: "succeeds_by m \<Longrightarrow> (\<And>x. succeeds_by (k x)) \<Longrightarrow> succeeds_by (bindE m k)"
  unfolding succeeds_by_def bindE_Inr by (meson advances_trans)

lemma succeeds_texts:
  "succeeds_by (basic_text b)" "succeeds_by m \<Longrightarrow> succeeds_by (ptr_text m)" "succeeds_by m \<Longrightarrow> succeeds_by (slice_text env t m)"
  "succeeds_by m \<Longrightarrow> succeeds_by n \<Longrightarrow> succeeds_by (map_text m n)" "succeeds_by m \<Longrightarrow> succeeds_by (struct_text m)"
  unfolding basic_text_def ptr_text_def slice_text_def map_text_def struct_text_def
  by (auto intro: succeeds_pure succeeds_bind)

lemma succeeds_named:
  assumes "succeeds_by m" shows "succeeds_by (named_struct name i m)"
proof -
  have "advances g g'" if r: "named_struct name i m g = (Inr v, g')" for g v g'
  proof (cases "map_of (gn_types g) name")
    case (Some j)
    then show ?thesis using r by (auto simp: named_struct_def bindE_def getE_def pureE_def advances_refl)
  next
    case None
    define g1 where "g1 = g\<lparr>gn_types := (name, i) # gn_types g\<rparr>"
    from r None obtain body g2 where m: "m g1 = (Inr body, g2)" and g': "g' = g2\<lparr>gn_decls := (name, body) # gn_decls g2\<rparr>"
      by (auto simp: named_struct_def bindE_def getE_def pureE_def see_type_def declare_type_def g1_def split: prod.splits sum.splits)
    have new: "name \<notin> seen_names g" using None by (simp add: seen_names_def map_of_eq_None_iff)
    show ?thesis unfolding advances_def
    proof
      assume ok: "gen_ok g"
      have 1: "gen_ok g1" "seen_names g1 = insert name (seen_names g)" "pending g1 = insert name (pending g)"
        using ok new by (auto simp: g1_def gen_ok_def seen_names_def pending_def)
      have "advances g1 g2" using assms m unfolding succeeds_by_def by blast
      then have 2: "gen_ok g2" "seen_names g1 \<subseteq> seen_names g2" "pending g2 = pending g1"
        using 1(1) unfolding advances_def by simp_all
      have "name \<in> pending g2" using 1(3) 2(3) by simp
      then have "gen_ok g'" "seen_names g' = seen_names g2" "pending g' = pending g2 - {name}"
        using 2(1) by (auto simp: g' gen_ok_def seen_names_def pending_def)
      then show "gen_ok g' \<and> seen_names g \<subseteq> seen_names g' \<and> pending g' = pending g"
        using 1 2 new by (auto simp: pending_def)
    qed
  qed
  then show ?thesis unfolding succeeds_by_def by blast
qed

lemmas succeeding = succeeds_pure succeeds_bind succeeds_texts succeeds_named

text \<open>A defined type that is not written by its name or its methods.\<close>

definition by_definition :: "tenv \<Rightarrow> string \<Rightarrow> bool" where
  "by_definition env i = (i \<noteq> ''time.Time'' \<and> i \<noteq> ''api.Download'' \<and> \<not> has_method td_json env (GNamed i) \<and> \<not> has_method td_text env (GNamed i))"

lemma ts_special:
  assumes "\<not> by_definition env i"
  shows "\<exists>r. ts env (Suc k) (GNamed i) = pureE r \<and> r \<noteq> Inl Deep"
  using assms unfolding by_definition_def de_Morgan_conj not_not by (elim disjE) (auto simp: pureE_def)

lemma ts_defined:
  assumes "by_definition env i" "map_of env i = Some d"
  shows "ts env (Suc k) (GNamed i) = (case td_under d of
      GStruct fs \<Rightarrow> (let js = jsonFields env fs; body = struct_text (ts_fields env k js) in
        if js = [] then body else named_struct (td_Name d) i body)
    | GBasic b \<Rightarrow> basic_text b | GPtr e \<Rightarrow> ptr_text (ts env k e) | GSlice e \<Rightarrow> slice_text env e (ts env k e)
    | GMap a b \<Rightarrow> map_text (ts env k a) (ts env k b) | u \<Rightarrow> pureE (Inl (Unsupported u)))"
  using assms by (simp add: by_definition_def)

lemma ts_undefined: "by_definition env i \<Longrightarrow> map_of env i = None \<Longrightarrow> ts env (Suc k) (GNamed i) = pureE (Inl (Unsupported (GNamed i)))"
  by (simp add: by_definition_def)

lemma ts_succeeds: "succeeds_by (ts env k t)" "succeeds_by (ts_fields env k fs)"
proof (induction env k t and env k fs rule: ts_ts_fields.induct)
  case (8 env k i)
  show ?case
  proof (cases "by_definition env i")
    case False
    then show ?thesis using ts_special [of env i k] succeeds_pure by (metis)
  next
    case p: True
    show ?thesis
    proof (cases "map_of env i")
      case None
      then show ?thesis using p by (simp only: ts_undefined succeeds_pure)
    next
      case (Some d)
      note q = p [unfolded by_definition_def]
      note IH = 8 [OF q [THEN conjunct1] q [THEN conjunct2, THEN conjunct1] q [THEN conjunct2, THEN conjunct2, THEN conjunct1]
        q [THEN conjunct2, THEN conjunct2, THEN conjunct2] Some]
      show ?thesis unfolding ts_defined [OF p Some] using IH
        by (cases "td_under d") (simp_all only: gtype.case Let_def succeeds_pure succeeds_texts succeeds_named if_split simp_thms)
    qed
  qed
qed (auto intro!: succeeds_pure succeeds_bind succeeds_texts)

lemma route_lines_succeed: "succeeds_by (route_lines env k rs)"
  by (induction rs) (auto simp: route_line_def intro!: succeeding ts_succeeds split: prod.splits)

text \<open>At the end every name seen is declared, once.\<close>

lemma routes_declared:
  assumes "route_lines env k rs \<lparr>gn_decls = [], gn_types = []\<rparr> = (Inr ls, g)"
  shows "fst ` set (gn_decls g) = fst ` set (gn_types g)" "distinct (map fst (gn_decls g))"
proof -
  let ?g = "\<lparr>gn_decls = [], gn_types = []\<rparr> :: tsGen"
  have "gen_ok ?g" "pending ?g = {}" by (simp_all add: gen_ok_def pending_def seen_names_def)
  moreover have "advances ?g g" using route_lines_succeed assms unfolding succeeds_by_def by blast
  ultimately have "gen_ok g" "pending g = {}" unfolding advances_def by simp_all
  then show "fst ` set (gn_decls g) = fst ` set (gn_types g)" "distinct (map fst (gn_decls g))"
    by (auto simp: gen_ok_def pending_def seen_names_def)
qed

subsection \<open>The bound is never reached\<close>

text \<open>\<open>flat\<close>: no unnamed struct in the type embeds another one; then the fields of its structs are parts of it.\<close>

fun flat :: "gtype \<Rightarrow> bool" and flat_field :: "gfield \<Rightarrow> bool" where
  "flat (GNamed i) = True"
| "flat (GBasic b) = True"
| "flat (GPtr t) = flat t"
| "flat (GSlice t) = flat t"
| "flat (GMap a b) = (flat a \<and> flat b)"
| "flat (GPatch t) = flat t"
| "flat (GStruct fs) = list_all flat_field fs"
| "flat_field (GField n j a e t) = (\<not> a \<and> flat t)"

text \<open>A type whose recursion passes through named structs only: a defined type is a struct of flat fields, none larger than \<open>D\<close>,
  or a basic type.\<close>

definition small_field :: "nat \<Rightarrow> gfield \<Rightarrow> bool" where
  "small_field D f = (flat (fd_Type f) \<and> size (fd_Type f) \<le> D)"

definition env_ok :: "tenv \<Rightarrow> nat \<Rightarrow> bool" where
  "env_ok env D = list_all (\<lambda>(i, d). case td_under d of GStruct fs \<Rightarrow> list_all (small_field D) fs | GBasic _ \<Rightarrow> True | _ \<Rightarrow> False) env"

lemma env_okD: "env_ok env D \<Longrightarrow> map_of env i = Some d \<Longrightarrow>
    (\<exists>fs. td_under d = GStruct fs \<and> list_all (small_field D) fs) \<or> (\<exists>b. td_under d = GBasic b)"
  by (cases "td_under d") (auto simp: env_ok_def list_all_iff dest!: map_of_SomeD)

lemma env_ok_delete: "env_ok env D \<Longrightarrow> env_ok (AList.delete i env) D"
  by (auto simp: env_ok_def list_all_iff AList.delete_eq)

lemma own_field_type: "f \<in> set (own_field g) \<Longrightarrow> jf_Type f = fd_Type g"
  by (auto simp: own_field_def split: prod.splits if_splits)

lemma jsonFields_small:
  "env_ok env D \<Longrightarrow> list_all (small_field D) fs \<Longrightarrow> f \<in> set (jsonFields env fs) \<Longrightarrow> flat (jf_Type f) \<and> size (jf_Type f) \<le> D"
proof (induction env fs arbitrary: f rule: jsonFields.induct)
  case (2 env g fs)
  show ?case
  proof (cases "embedded env g")
    case None
    then show ?thesis using 2 own_field_type by (auto simp: small_field_def)
  next
    case (Some p)
    obtain env1 sub where p: "p = (env1, sub)" by (cases p)
    have "env_ok env1 D \<and> list_all (small_field D) sub"
      using Some p env_ok_delete [OF 2(3)] 2(3) env_okD [OF 2(3)]
      by (fastforce simp: embedded_def under_def split: if_splits gtype.splits option.splits)
    then show ?thesis using 2 Some p by auto
  qed
qed simp

lemma jsonFields_flat:
  "list_all flat_field fs \<Longrightarrow> f \<in> set (jsonFields env fs) \<Longrightarrow> flat (jf_Type f) \<and> size (jf_Type f) < size (GStruct fs)"
proof (induction fs)
  case (Cons g fs)
  obtain n j a e t where g: "g = GField n j a e t" by (cases g)
  have "embedded env g = None" using Cons.prems(1) g by (simp add: embedded_def)
  then consider "f \<in> set (own_field g)" | "f \<in> set (jsonFields env fs)" using Cons.prems(2) by auto
  then show ?case
  proof cases
    case 1
    then show ?thesis using own_field_type [OF 1] Cons.prems(1) g by simp
  next
    case 2
    then show ?thesis using Cons by simp
  qed
qed simp

definition unseen :: "tenv \<Rightarrow> tsGen \<Rightarrow> nat" where
  "unseen env g = card (td_Name ` snd ` set env - seen_names g)"

lemma unseen_mono: "seen_names g \<subseteq> seen_names g' \<Longrightarrow> unseen env g' \<le> unseen env g"
  unfolding unseen_def by (intro card_mono) auto

lemma unseen_see:
  assumes "map_of env i = Some d" "td_Name d \<notin> seen_names g" "seen_names g1 = insert (td_Name d) (seen_names g)"
  shows "unseen env g = Suc (unseen env g1)"
proof -
  have "td_Name d \<in> td_Name ` snd ` set env - seen_names g" using assms(1,2) by (force dest: map_of_SomeD)
  moreover have "td_Name ` snd ` set env - seen_names g1 = (td_Name ` snd ` set env - seen_names g) - {td_Name d}" using assms(3) by auto
  moreover have "finite (td_Name ` snd ` set env - seen_names g)" by simp
  ultimately show ?thesis unfolding unseen_def by (metis card.remove)
qed

definition deep :: "'a gen \<Rightarrow> tsGen \<Rightarrow> bool" where
  "deep m g = (fst (m g) = Inl Deep)"

lemma deep_pure: "deep (pureE r) g = (r = Inl Deep)"
  by (simp add: deep_def pureE_def)

lemma deep_bind: "deep (bindE m k) g \<longleftrightarrow> deep m g \<or> (\<exists>v g'. m g = (Inr v, g') \<and> deep (k v) g')"
  by (cases "m g"; cases "fst (m g)") (auto simp: deep_def bindE_def)

lemma deep_slice: "deep (slice_text env t m) g \<Longrightarrow> deep m g"
  by (auto simp: slice_text_def deep_def bindE_def pureE_def split: if_splits sum.splits prod.splits)

lemma deep_texts:
  "\<not> deep (basic_text b) g" "deep (ptr_text m) g = deep m g" "deep (struct_text m) g = deep m g"
  "deep (map_text m n) g \<longleftrightarrow> deep m g \<or> (\<exists>v g'. m g = (Inr v, g') \<and> deep n g')"
  by (auto simp: basic_text_def ptr_text_def struct_text_def map_text_def deep_pure deep_bind split: basic.splits if_splits)

lemma deep_named:
  assumes "deep (named_struct name i m) g"
  shows "name \<notin> seen_names g \<and> deep m (g\<lparr>gn_types := (name, i) # gn_types g\<rparr>)"
proof (cases "map_of (gn_types g) name")
  case (Some j)
  then show ?thesis using assms by (simp add: named_struct_def deep_bind deep_pure) (simp add: deep_def getE_def pureE_def split: if_splits)
next
  case None
  define g1 where "g1 = g\<lparr>gn_types := (name, i) # gn_types g\<rparr>"
  obtain r g2 where m: "m g1 = (r, g2)" by (metis surj_pair)
  have "named_struct name i m g = (case r of Inl e \<Rightarrow> (Inl e, g2) | Inr body \<Rightarrow> (Inr name, g2\<lparr>gn_decls := (name, body) # gn_decls g2\<rparr>))"
    using None m by (simp add: named_struct_def bindE_def getE_def pureE_def see_type_def declare_type_def g1_def split: sum.split)
  then have "r = Inl Deep" using assms by (cases r) (auto simp: deep_def)
  then show ?thesis using None m by (simp add: deep_def g1_def seen_names_def map_of_eq_None_iff)
qed

lemma size_GMap: "size a < size (GMap a b)" "size b < size (GMap a b)"
  by simp_all

lemma ts_not_deep:
  "env_ok env D \<Longrightarrow> gen_ok g \<Longrightarrow> flat t \<Longrightarrow> unseen env g * Suc D + size t < k \<Longrightarrow> \<not> deep (ts env k t) g"
  "env_ok env D \<Longrightarrow> gen_ok g \<Longrightarrow> \<forall>f \<in> set fs. flat (jf_Type f) \<and> unseen env g * Suc D + size (jf_Type f) < k \<Longrightarrow> \<not> deep (ts_fields env k fs) g"
proof (induction env k t and env k fs arbitrary: g and g rule: ts_ts_fields.induct)
  case (3 env k t)
  then show ?case by (auto simp: deep_pure deep_texts)
next
  case (4 env k t)
  then show ?case by (auto dest: deep_slice)
next
  case (5 env k a b)
  have "\<not> deep (ts env k b) g'" if "ts env k a g = (Inr v, g')" for v g'
  proof -
    have "advances g g'" using ts_succeeds(1) that unfolding succeeds_by_def by blast
    then have "gen_ok g'" "unseen env g' \<le> unseen env g" using 5(4) unseen_mono by (simp_all add: advances_def)
    moreover have "unseen env g' * Suc D \<le> unseen env g * Suc D" using calculation(2) by (rule mult_le_mono1)
    ultimately show ?thesis using 5(2) [of g'] 5(3-6) by simp
  qed
  then show ?case using 5 by (auto simp: deep_texts)
next
  case (7 env k fs)
  have "list_all flat_field fs" using 7(4) by simp
  from jsonFields_flat [OF this] have "\<forall>f \<in> set (jsonFields env fs). flat (jf_Type f) \<and> unseen env g * Suc D + size (jf_Type f) < k"
    using 7(5) by fastforce
  then show ?case using 7 by (simp add: deep_texts)
next
  case (8 env k i)
  show ?case
  proof (cases "by_definition env i")
    case False
    then obtain r where "ts env (Suc k) (GNamed i) = pureE r" "r \<noteq> Inl Deep" using ts_special by blast
    then show ?thesis by (simp only: deep_pure not_False_eq_True)
  next
    case p: True
    show ?thesis
    proof (cases "map_of env i")
      case None
      then show ?thesis using p by (simp only: ts_undefined deep_pure) simp
    next
      case (Some d)
      from env_okD [OF 8(6) Some] show ?thesis
      proof (elim disjE exE conjE)
        fix b assume "td_under d = GBasic b"
        then show ?thesis using ts_defined [OF p Some, of k] by (simp only: gtype.case deep_texts) simp
      next
        fix fs assume fs: "td_under d = GStruct fs" "list_all (small_field D) fs"
        let ?js = "jsonFields env fs"
        have e: "ts env (Suc k) (GNamed i) = (if ?js = [] then struct_text (ts_fields env k ?js) else named_struct (td_Name d) i (struct_text (ts_fields env k ?js)))"
          using ts_defined [OF p Some, of k] fs(1) by (simp only: gtype.case Let_def)
        show ?thesis
        proof (cases "?js = []")
          case True
          then show ?thesis unfolding e by (simp add: deep_texts deep_pure)
        next
          case js: False
          show ?thesis
          proof
            assume "deep (ts env (Suc k) (GNamed i)) g"
            then have n: "deep (named_struct (td_Name d) i (struct_text (ts_fields env k ?js))) g" unfolding e using js by simp
            define g1 where "g1 = g\<lparr>gn_types := (td_Name d, i) # gn_types g\<rparr>"
            have new: "td_Name d \<notin> seen_names g" and dp: "deep (ts_fields env k ?js) g1"
              using deep_named [OF n] by (simp_all add: deep_texts g1_def)
            have s: "seen_names g1 = insert (td_Name d) (seen_names g)" by (simp add: g1_def seen_names_def)
            have u: "unseen env g = Suc (unseen env g1)" by (rule unseen_see [OF Some new s])
            have ok: "gen_ok g1" using 8(7) s by (auto simp: gen_ok_def g1_def)
            have "\<forall>f \<in> set ?js. flat (jf_Type f) \<and> unseen env g1 * Suc D + size (jf_Type f) < k"
              using jsonFields_small [OF 8(6) fs(2)] 8(9) u by fastforce
            with 8(5) [OF _ _ _ _ Some fs(1) refl] 8(6) ok p dp show False by (simp add: by_definition_def)
          qed
        qed
      qed
    qed
  qed
next
  case (10 env k f fs)
  have "\<not> deep (ts_fields env k fs) g'" if "ts env k (jf_Type f) g = (Inr v, g')" for v g'
  proof -
    have "advances g g'" using ts_succeeds(1) that unfolding succeeds_by_def by blast
    then have "gen_ok g'" "unseen env g' \<le> unseen env g" using 10(4) unseen_mono by (simp_all add: advances_def)
    moreover have "unseen env g' * Suc D \<le> unseen env g * Suc D" using calculation(2) by (rule mult_le_mono1)
    ultimately show ?thesis using 10(2) [of g'] 10(3,5) by fastforce
  qed
  then show ?case using 10 by (auto simp: deep_bind deep_pure)
qed (auto simp: deep_pure deep_texts)

definition small_route :: "nat \<Rightarrow> typed_route \<Rightarrow> bool" where
  "small_route S r = (case r of (pat, inp, out) \<Rightarrow> flat inp \<and> flat out \<and> size inp \<le> S \<and> size out \<le> S)"

lemma unseen_le: "unseen env g \<le> length env"
proof -
  have "card (td_Name ` snd ` set env - seen_names g) \<le> card (td_Name ` snd ` set env)" by (rule card_mono) auto
  also have "\<dots> \<le> length env" using card_image_le [of "set env" "td_Name \<circ> snd"] card_length [of env] by (simp add: image_comp)
  finally show ?thesis by (simp add: unseen_def)
qed

lemma route_lines_not_deep:
  assumes "env_ok env D" "length env * Suc D + S < k"
  shows "gen_ok g \<Longrightarrow> list_all (small_route S) rs \<Longrightarrow> \<not> deep (route_lines env k rs) g"
proof (induction rs arbitrary: g)
  case (Cons r rs)
  obtain pat inp out where r: "r = (pat, inp, out)" by (cases r)
  have t: "\<not> deep (ts env k t) g" if "gen_ok g" "flat t" "size t \<le> S" for t g
  proof (rule ts_not_deep(1) [OF assms(1) that(1,2)])
    have "unseen env g * Suc D \<le> length env * Suc D" by (rule mult_le_mono1 [OF unseen_le])
    then show "unseen env g * Suc D + size t < k" using assms(2) that(3) by linarith
  qed
  have ok: "m g = (Inr v, g') \<Longrightarrow> succeeds_by m \<Longrightarrow> gen_ok g \<Longrightarrow> gen_ok g'" for m :: "string gen" and g v g'
    unfolding succeeds_by_def advances_def by blast
  have l: "succeeds_by (route_line env k r)" unfolding route_line_def r by (auto intro!: succeeds_bind succeeds_pure ts_succeeds)
  have "\<not> deep (route_line env k r) g"
    using Cons.prems t ok [OF _ ts_succeeds(1)] by (auto simp: route_line_def r small_route_def deep_bind deep_pure)
  moreover have "\<not> deep (route_lines env k rs) g'" if "route_line env k r g = (Inr v, g')" for v g'
    using Cons.IH [OF ok [OF that l Cons.prems(1)]] Cons.prems(2) by simp
  ultimately show ?case by (auto simp: deep_bind deep_pure)
qed (simp add: deep_pure)

theorem TypeScript_stops:
  assumes "env_ok env D" "list_all (small_route S) rs" "length env * Suc D + S < k"
  shows "TypeScript env k rs \<noteq> Inl Deep"
proof -
  have "\<not> deep (route_lines env k rs) \<lparr>gn_decls = [], gn_types = []\<rparr>"
    by (rule route_lines_not_deep [OF assms(1,3) _ assms(2)]) (simp add: gen_ok_def)
  then show ?thesis by (auto simp: TypeScript_def deep_def split: prod.splits sum.splits)
qed

text \<open>A struct that contains itself in a slice, an embedded one, an optional field and a patch.\<close>

definition demo_env :: tenv where
  "demo_env = [(''api.Node'', \<lparr>td_Name = ''Node'', td_under = GStruct [GField ''Base'' [] True True (GNamed ''api.Base''),
       GField ''Kids'' ''kids'' False True (GSlice (GNamed ''api.Node''))], td_json = False, td_text = False\<rparr>),
     (''api.Base'', \<lparr>td_Name = ''Base'', td_under = GStruct [GField ''ID'' ''id,omitempty'' False True (GBasic KNumber),
       GField ''key'' [] False False (GBasic KString)], td_json = False, td_text = False\<rparr>)]"

lemma TypeScript_example:
  "route_lines demo_env 20 [(''GET /n'', GStruct [], GNamed ''api.Node''), (''PUT /n'', GPatch (GNamed ''api.Base''), GPtr (GBasic KBool))]
     \<lparr>gn_decls = [], gn_types = []\<rparr>
   = (Inr (''  '' @ [DQ] @ ''GET /n'' @ [DQ] @ '': { in: Partial<Record<string, never>>; out: Node }'' @ NL
       @ ''  '' @ [DQ] @ ''PUT /n'' @ [DQ] @ '': { in: Partial<Base>; out: boolean | null }'' @ NL),
      \<lparr>gn_decls = [(''Base'', ''{ id?: number; }''), (''Node'', ''{ id?: number; kids: Node[]; }'')],
       gn_types = [(''Base'', ''api.Base''), (''Node'', ''api.Node'')]\<rparr>)"
  by code_simp

end
