(* ===== verification/Spec2Isabelle.thy ===== *)
theory Spec2Isabelle
  imports Upstream_Rules Store_Props Auth_Props Ovpnconf_Props Supervisor_Props Control_Props Mgmt_Props Logrotate_Props Stats_Props Api_Actions_Props Telegram_Props Socks_Props Backup_Props Api_Dns_Props Api_Handlers Cli_Certs Cli_Admin Cli_Settings Cli_Stats Serve_Props Log_Lines Drop_Root_Props Cli_Main_Props Api_Response Api_Types_Props
begin

text \<open>
  \<^bold>\<open>ovcp, a control panel for an OpenVPN server: a model of its Go code, with what makes it correct.\<close>

  The program is one binary. \<^verbatim>\<open>ovcp serve\<close> runs openvpn and dnsmasq as children, answers the web API, obeys a Telegram
  bot and listens on a control socket; the other commands of \<^verbatim>\<open>ovcp\<close> work on the same data directory and ask a running serve over that
  socket. The data directory holds a SQLite database, the files of a certificate authority, \<^verbatim>\<open>server.conf\<close> and hosts files for dnsmasq.

  \<^bold>\<open>Conventions.\<close> A Go function \<^verbatim>\<open>(T, error)\<close> is a function into \<open>(error, T) result\<close>, the sum with the error on the left; a
  method that changes state is a \<open>step\<close>, a function from the state to a result and the new state, composed by \<open>bindE\<close>,
  which is the early return. A function that can panic at run time returns an option, None being the panic. Strings are lists of
  bytes. A machine integer is an \<open>int\<close> with its wrap-around written out (\<open>u64\<close>), a capability set and a hash a word. Times are seconds or
  nanoseconds as in the code. All functions are total: recursion is structural or has a measure, and what a loop waits for
  from outside (faults of the file system, ticks, frames, lines, chunks) is a list given to it. Only the generator of declarations takes a bound
  on its depth, which \<open>TypeScript_stops\<close> shows large enough for types whose recursion passes through named structs. The definitions are
  executable; the witnesses evaluate them. Third-party and external code is a parameter: the cryptographic primitives (\<open>crypto\<close>,
  \<open>aead\<close>), X.509 (\<open>pki_lib\<close>), gzip and tar (\<open>archive_lib\<close>), JSON (\<open>json_codec\<close> and the decoders in \<open>server\<close> and \<open>cli\<close>), the system
  calls of processes, sockets and nftables; what a property needs of them is a named hypothesis, such as that a cipher opens
  what it sealed.

  \<^bold>\<open>Library and prelude.\<close> \<open>Go_Prelude\<close> (results, steps, \<open>keepsE\<close>: a relation kept by a step whatever its outcome, the collections
  of simplification rules), \<open>Go_Strings\<close>, \<open>Go_Net\<close>, \<open>Go_Encoding\<close>, \<open>Go_FS\<close> (files with a list of faults), \<open>Go_Quote\<close>, \<open>Go_Flags\<close>: the parts of Go's
  standard library the code uses.

  \<^bold>\<open>Components\<close>, with the directory or file under \<^verbatim>\<open>src/\<close> and the theories of each.

  \<^item> \<^verbatim>\<open>internal/store\<close>: \<open>Store\<close>, \<open>Store_Props\<close>. The tables as lists with their constraints; every reachable store is consistent,
    revocations are permanent, a change of an account ends its sessions. The settings are an instance of the locale \<open>kv_store\<close>.
  \<^item> \<^verbatim>\<open>internal/auth\<close>: \<open>Auth\<close>, \<open>Auth_Props\<close>. Roles, secrets, password hashes, TOTP, sessions and the rate limiter (locale \<open>rate_limiter\<close>): guesses
    are bounded, a login means the right password and code.
  \<^item> \<^verbatim>\<open>internal/ovpnconf\<close>: \<open>Ovpnconf\<close>, \<open>Ovpnconf_Props\<close>. \<^verbatim>\<open>Validate\<close> against a declarative predicate, \<^verbatim>\<open>Render\<close>, a
    shortest \<^verbatim>\<open>Diff\<close>, the address of the server.
  \<^item> \<^verbatim>\<open>internal/upstream\<close>: \<open>Upstream_Config\<close> (the configuration), \<open>Upstream_Live\<close> and \<open>Upstream_Rules\<close> (what is programmed into
    the host, as a state machine with reachability), \<open>Socks\<close>, \<open>Socks_Props\<close> (a relayed connection).
  \<^item> \<^verbatim>\<open>internal/controller\<close>: \<open>Supervisor\<close>, \<open>Supervisor_Props\<close> (a worker under interleaved operations, crashes and goroutines, as an
    inductive step relation; the sequential operations refine it), \<open>Control\<close>, \<open>Control_Props\<close> (the control socket and \<^verbatim>\<open>RunOp\<close>, locale \<open>worker\<close>),
    \<open>Mgmt\<close>, \<open>Mgmt_Props\<close> (openvpn's management socket and status file), \<open>Logrotate\<close>, \<open>Logrotate_Props\<close>.
  \<^item> \<^verbatim>\<open>internal/pki\<close>: \<open>Pki_Names\<close>, \<open>Pki\<close>, \<open>Pki_Props\<close>. The sealed CA key survives any sequence of operations with any writes
    failing; the durable writes are instances of the locale \<open>file_writer\<close>.
  \<^item> \<^verbatim>\<open>internal/api\<close>: \<open>Api_Base\<close> (the state \<open>srv\<close>: store, files and the workers' world), \<open>Api_Http\<close> (routes and admission of a
    request), \<open>Api_Actions\<close>, \<open>Api_Certs\<close>, \<open>Api_Config\<close>, \<open>Api_Upstream\<close>, \<open>Api_Dns\<close>, \<open>Api_Handlers\<close>, \<open>Api_Files\<close> (the actions),
    \<open>Api_Response\<close> (headers, statuses and bodies sent back), \<open>Api_Types\<close>, \<open>Api_Types_Props\<close> (the TypeScript declarations of the routes), \<open>Stats\<close> (the traffic
    history and its sampler) and their \<open>_Props\<close>. The locales \<open>operator_effects\<close> and \<open>call_effects\<close> say what a call of each role
    can do to the store; their interpretations give that every change is audited and that an admin remains.
  \<^item> \<^verbatim>\<open>internal/telegram\<close>: \<open>Telegram_Bot\<close>, \<open>Telegram\<close>, \<open>Telegram_Props\<close>. The poller as an interleaved state machine, its commands and messages.
  \<^item> \<^verbatim>\<open>internal/backup\<close>: \<open>Backup\<close>, \<open>Backup_Props\<close>. Creation and restore of the archive.
  \<^item> \<^verbatim>\<open>cmd/ovcp\<close>: \<open>Cli_Base\<close>, \<open>Cli_Text\<close>, \<open>Cli_Certs\<close>, \<open>Cli_Admin\<close>, \<open>Cli_Settings\<close>, \<open>Cli_Stats\<close> (the commands), \<open>Serve\<close> and \<open>Serve_Props\<close> (boot, shutdown and daily
    tasks of serve: a failed boot starts no worker, openvpn is started governed, an expiring certificate is announced once),
    \<open>Log_Lines\<close>, \<open>Drop_Root\<close>, \<open>Drop_Root_Props\<close> (giving up root), \<open>Cli_Dispatch\<close>, \<open>Cli_Main\<close> (the table of commands, \<^verbatim>\<open>main\<close>, completion),
    \<open>Cli_Effects\<close>, \<open>Cli_Audit\<close>, \<open>Cli_Main_Props\<close> (every command line is accountable, completion agrees with dispatch).

  \<^bold>\<open>How they meet.\<close> An API action is a step on \<open>srv\<close>; a command of the command line is the same action with the world of a terminal, whose
  transports are requests over \<open>Control\<close> to the world of a serve (\<open>cli_server\<close>); a handler is an action behind \<open>Api_Http\<close>. The
  actions call the operations of \<open>Store\<close>, \<open>Pki\<close>, \<open>Ovpnconf\<close> and \<open>Upstream_Config\<close> directly, so that their theorems compose: a successful
  revocation is in the CRL on disk (\<open>Api_Certs_Props\<close>), the stored settings and \<^verbatim>\<open>server.conf\<close> agree (\<open>Api_Config_Props\<close>), the hosts
  file lists the connected clients (\<open>Api_Dns_Props\<close>).

  \<^bold>\<open>Properties.\<close> A text block with a claim id \<open>C1\<close>, \<open>C2\<close>, \<dots> stands before each property; a witness after it applies the property to a
  concrete input. Lemmas beside them record behaviour that looks unintended, such as a supervisor's stale stop mark
  (\<open>stale_stopped_loses_restart\<close>), a second rotation within a second (\<open>second_rotation_overwrites\<close>) and the stale administrator of the
  bot (\<open>stale_admin_takes_the_chat\<close>).

  \<^bold>\<open>Not modelled.\<close> The embedded web UI; the package \<^verbatim>\<open>slog\<close>; the accept loops of listeners and the copying goroutines of a relay after it is joined; signal
  handlers; the help texts of flags; the editor process; SQL and its driver, the store being the tables it keeps. Sorting by a flag is
  modelled as stable, where the code's sort leaves the order of equal keys open.
\<close>

end
